(* ===== verification/Prelude.thy ===== *)
theory Prelude
  imports Complex_Main "HOL-Library.AList"
begin

text \<open>
  Shared vocabulary of the development: Python exceptions as values of a sum type, the
  bind of that type, a predicate for results that can fail only in a benign way, Python
  dictionaries as association lists in insertion order, and the few list and string
  lemmas every component uses.

  A Python function that may raise is a HOL function into \<^typ>\<open>'a + 'b\<close> with the
  exception on the left.  Messages are kept where they are fixed text; a message that
  interpolates a \<open>repr\<close> keeps its fixed part only.
\<close>

section \<open>Exceptions and results\<close>

datatype py_error =
    ValueError string
  | TypeError string
  | KeyError string
  | IndexError
  | AttributeError
  | AssertionError string
  | ZeroDivisionError
  | OverflowError
  | RuntimeError string
  | PermissionError string
  | OSError string
  | ApprovalRequiredError string
  | ArtifactChangedError string

type_synonym 'a result = "py_error + 'a"

definition bindE :: "'a result \<Rightarrow> ('a \<Rightarrow> 'b result) \<Rightarrow> 'b result" where
  "bindE m k = (case m of Inl e \<Rightarrow> Inl e | Inr x \<Rightarrow> k x)"

lemma bindE_Inr [simp]: "bindE (Inr x) k = k x"
  by (simp add: bindE_def)

lemma bindE_Inl [simp]: "bindE (Inl e) k = Inl e"
  by (simp add: bindE_def)

lemma bindE_assoc: "bindE (bindE m f) g = bindE m (\<lambda>x. bindE (f x) g)"
  by (cases m) simp_all

lemma bindE_eq_Inr: "bindE m k = Inr y \<longleftrightarrow> (\<exists>x. m = Inr x \<and> k x = Inr y)"
  by (cases m) simp_all

lemma bindE_eq_Inl: "bindE m k = Inl e \<longleftrightarrow> m = Inl e \<or> (\<exists>x. m = Inr x \<and> k x = Inl e)"
  by (cases m) simp_all

lemma bindE_cong [fundef_cong]:
  "m = m' \<Longrightarrow> (\<And>x. m' = Inr x \<Longrightarrow> k x = k' x) \<Longrightarrow> bindE m k = bindE m' k'"
  by (cases m') simp_all

definition mapE :: "('a \<Rightarrow> 'b) \<Rightarrow> 'a result \<Rightarrow> 'b result" where
  "mapE f m = bindE m (\<lambda>x. Inr (f x))"

lemma mapE_simps [simp]: "mapE f (Inr x) = Inr (f x)" "mapE f (Inl e) = Inl e"
  by (simp_all add: mapE_def)

lemma mapE_eq_Inr: "mapE f m = Inr y \<longleftrightarrow> (\<exists>x. m = Inr x \<and> y = f x)"
  by (cases m) auto

text \<open>A loop whose body may raise: the first exception ends it.\<close>

fun foldE :: "('a \<Rightarrow> 'b \<Rightarrow> 'b result) \<Rightarrow> 'a list \<Rightarrow> 'b \<Rightarrow> 'b result" where
  "foldE f [] s = Inr s"
| "foldE f (x # xs) s = bindE (f x s) (foldE f xs)"

lemma foldE_append: "foldE f (xs @ ys) s = bindE (foldE f xs s) (foldE f ys)"
proof (induction xs arbitrary: s)
  case (Cons x xs)
  show ?case by (cases "f x s") (simp_all add: Cons.IH)
qed simp

lemma foldE_invariant:
  assumes "\<And>x s s'. x \<in> set xs \<Longrightarrow> I s \<Longrightarrow> f x s = Inr s' \<Longrightarrow> I s'"
    and "I s" and "foldE f xs s = Inr s'"
  shows "I s'"
  using assms by (induction xs arbitrary: s) (auto simp: bindE_eq_Inr)

text \<open>A comprehension whose element expression may raise.\<close>

fun traverseE :: "('a \<Rightarrow> 'b result) \<Rightarrow> 'a list \<Rightarrow> 'b list result" where
  "traverseE f [] = Inr []"
| "traverseE f (x # xs) = bindE (f x) (\<lambda>y. bindE (traverseE f xs) (\<lambda>ys. Inr (y # ys)))"

lemma traverseE_cong: "(\<And>x. x \<in> set xs \<Longrightarrow> f x = g x) \<Longrightarrow> traverseE f xs = traverseE g xs"
  by (induction xs) simp_all

lemma traverseE_length: "traverseE f xs = Inr ys \<Longrightarrow> length ys = length xs"
  by (induction xs arbitrary: ys) (auto simp: bindE_eq_Inr)

lemma traverseE_Inr: "(\<And>x. x \<in> set xs \<Longrightarrow> f x = Inr (g x)) \<Longrightarrow> traverseE f xs = Inr (map g xs)"
  by (induction xs) simp_all

text \<open>The \<open>if bad: raise ValueError(message)\<close> statement, followed by the rest.\<close>

definition raise_if :: "bool \<Rightarrow> string \<Rightarrow> 'a result \<Rightarrow> 'a result" where
  "raise_if bad msg rest = (if bad then Inl (ValueError msg) else rest)"

lemma raise_if_simps [simp]:
  "raise_if True msg rest = Inl (ValueError msg)"
  "raise_if False msg rest = rest"
  by (simp_all add: raise_if_def)

lemma raise_if_eq_Inr: "raise_if b msg rest = Inr x \<longleftrightarrow> \<not> b \<and> rest = Inr x"
  by (simp add: raise_if_def)

section \<open>Results that never fail for a typing reason\<close>

text \<open>
  A wiring or typing fault of the program under interpretation shows as a \<open>KeyError\<close>, a
  \<open>TypeError\<close>, an \<open>IndexError\<close> or an \<open>AttributeError\<close>.  \<open>soundE P r\<close> says that \<open>r\<close> is
  a value satisfying \<open>P\<close>, or an exception of another kind (a domain error such as an
  empty reset range, or an arithmetic exception).
\<close>

fun type_fault :: "py_error \<Rightarrow> bool" where
  "type_fault (TypeError _) = True"
| "type_fault (KeyError _) = True"
| "type_fault IndexError = True"
| "type_fault AttributeError = True"
| "type_fault _ = False"

definition soundE :: "('a \<Rightarrow> bool) \<Rightarrow> 'a result \<Rightarrow> bool" where
  "soundE P r = (case r of Inl e \<Rightarrow> \<not> type_fault e | Inr x \<Rightarrow> P x)"

lemma soundE_Inr [simp]: "soundE P (Inr x) = P x"
  by (simp add: soundE_def)

lemma soundE_Inl [simp]: "soundE P (Inl e) = (\<not> type_fault e)"
  by (simp add: soundE_def)

lemma soundE_bind:
  "soundE P m \<Longrightarrow> (\<And>x. P x \<Longrightarrow> soundE Q (k x)) \<Longrightarrow> soundE Q (bindE m k)"
  by (cases m) simp_all

lemma soundE_mono: "soundE P m \<Longrightarrow> (\<And>x. P x \<Longrightarrow> Q x) \<Longrightarrow> soundE Q m"
  by (cases m) simp_all

lemma soundE_raise_if: "(\<not> b \<Longrightarrow> soundE P rest) \<Longrightarrow> soundE P (raise_if b msg rest)"
  by (simp add: raise_if_def)

lemma soundE_mapE: "soundE (\<lambda>x. P (f x)) m \<Longrightarrow> soundE P (mapE f m)"
  by (cases m) simp_all

lemma soundE_InrD: "soundE P m \<Longrightarrow> m = Inr x \<Longrightarrow> P x"
  by simp

lemma soundE_foldE:
  assumes "\<And>x s. x \<in> set xs \<Longrightarrow> I s \<Longrightarrow> soundE I (f x s)" and "I s"
  shows "soundE I (foldE f xs s)"
  using assms
proof (induction xs arbitrary: s)
  case Nil
  then show ?case by simp
next
  case (Cons x xs)
  have fx: "soundE I (f x s)" using Cons.prems by simp
  have "soundE I (foldE f xs s')" if "I s'" for s'
    using Cons.prems that by (intro Cons.IH) auto
  with fx show ?case by (simp add: soundE_bind)
qed

section \<open>Dictionaries\<close>

text \<open>
  A Python dictionary keeps insertion order; writing an existing key keeps its place.
  \<^const>\<open>AList.update\<close> does exactly that.
\<close>

type_synonym 'v dict = "(string \<times> 'v) list"

definition dict_get :: "'v dict \<Rightarrow> string \<Rightarrow> 'v result" where
  "dict_get d k = (case map_of d k of None \<Rightarrow> Inl (KeyError k) | Some v \<Rightarrow> Inr v)"

definition dict_update :: "'v dict \<Rightarrow> 'v dict \<Rightarrow> 'v dict" where
  "dict_update d e = fold (\<lambda>(k, v). AList.update k v) e d"

lemma dict_get_Inr [simp]: "dict_get d k = Inr v \<longleftrightarrow> map_of d k = Some v"
  by (simp add: dict_get_def split: option.splits)

lemma map_of_update [simp]:
  "map_of (AList.update k v d) k' = (if k' = k then Some v else map_of d k')"
  by (simp add: update_conv')

lemma map_of_dict_update:
  "map_of (dict_update d e) k = (case map_of (rev e) k of None \<Rightarrow> map_of d k | Some v \<Rightarrow> Some v)"
proof -
  have "map_of (fold (\<lambda>(k, v). AList.update k v) e d) = map_of d ++ map_of (rev e)"
    by (induction e arbitrary: d) (auto simp: update_conv' fun_eq_iff map_add_def split: option.splits)
  then show ?thesis
    by (simp add: dict_update_def map_add_def)
qed

text \<open>\<open>{key: value for item in items}\<close>: a later item with the same key wins, in the
  place of the first one.\<close>

definition dict_of :: "('a \<Rightarrow> string) \<Rightarrow> ('a \<Rightarrow> 'v) \<Rightarrow> 'a list \<Rightarrow> 'v dict" where
  "dict_of key val xs = fold (\<lambda>x. AList.update (key x) (val x)) xs []"

lemma map_of_fold_update:
  "map_of (fold (\<lambda>x. AList.update (key x) (val x)) xs d) k =
     (case map_of (rev (map (\<lambda>x. (key x, val x)) xs)) k of None \<Rightarrow> map_of d k | Some v \<Rightarrow> Some v)"
  by (induction xs arbitrary: d) (auto split: option.splits)

lemma map_of_dict_of:
  "map_of (dict_of key val xs) k = map_of (rev (map (\<lambda>x. (key x, val x)) xs)) k"
  by (simp add: dict_of_def map_of_fold_update split: option.splits)

lemma map_of_dict_of_distinct:
  assumes "distinct (map key xs)"
  shows "map_of (dict_of key val xs) k = map_of (map (\<lambda>x. (key x, val x)) xs) k"
proof -
  let ?ps = "map (\<lambda>x. (key x, val x)) xs"
  have d: "distinct (map fst ?ps)" "distinct (map fst (rev ?ps))"
    using assms by (simp_all add: comp_def rev_map [symmetric])
  have "map_of (rev ?ps) k = Some v \<longleftrightarrow> map_of ?ps k = Some v" for v
    unfolding map_of_eq_Some_iff [OF d(1)] map_of_eq_Some_iff [OF d(2)] by simp
  then have "map_of (rev ?ps) k = map_of ?ps k"
    by (metis not_Some_eq)
  then show ?thesis by (simp add: map_of_dict_of)
qed

lemma keys_dict_of: "set (map fst (dict_of key val xs)) = key ` set xs"
proof -
  have "fst ` set (fold (\<lambda>x. AList.update (key x) (val x)) xs d) = fst ` set d \<union> key ` set xs" for d
    by (induction xs arbitrary: d) (auto simp: dom_update)
  then show ?thesis by (simp add: dict_of_def)
qed

lemma distinct_fold_update:
  "distinct (map fst d) \<Longrightarrow> distinct (map fst (fold (\<lambda>x. AList.update (key x) (val x)) xs d))"
  by (induction xs arbitrary: d) (simp_all add: distinct_update)

lemma distinct_dict_of: "distinct (map fst (dict_of key val xs))"
  by (simp add: dict_of_def distinct_fold_update)

lemma length_dict_of_eq: "length (dict_of key val xs) = length xs \<longleftrightarrow> distinct (map key xs)"
proof -
  have "length (dict_of key val xs) = card (set (map fst (dict_of key val xs)))"
    using distinct_card [OF distinct_dict_of, of key val xs] by simp
  also have "\<dots> = card (key ` set xs)"
    by (simp only: keys_dict_of)
  finally have *: "length (dict_of key val xs) = card (set (map key xs))"
    by simp
  show ?thesis
    unfolding * by (metis card_distinct distinct_card length_map)
qed

section \<open>Text\<close>

definition ascii_alpha :: "char \<Rightarrow> bool" where
  "ascii_alpha c \<longleftrightarrow> (let n = of_char c :: nat in 65 \<le> n \<and> n \<le> 90 \<or> 97 \<le> n \<and> n \<le> 122)"

definition ascii_lower :: "char \<Rightarrow> bool" where
  "ascii_lower c \<longleftrightarrow> (let n = of_char c :: nat in 97 \<le> n \<and> n \<le> 122)"

definition ascii_digit :: "char \<Rightarrow> bool" where
  "ascii_digit c \<longleftrightarrow> (let n = of_char c :: nat in 48 \<le> n \<and> n \<le> 57)"

text \<open>The identifier pattern \<open>^[A-Za-z_][A-Za-z0-9_]*$\<close> the schema uses throughout.\<close>

definition ident_start :: "char \<Rightarrow> bool" where
  "ident_start c \<longleftrightarrow> ascii_alpha c \<or> c = CHR ''_''"

definition ident_char :: "char \<Rightarrow> bool" where
  "ident_char c \<longleftrightarrow> ascii_alpha c \<or> ascii_digit c \<or> c = CHR ''_''"

definition is_ident :: "string \<Rightarrow> bool" where
  "is_ident s = (case s of [] \<Rightarrow> False | c # cs \<Rightarrow> ident_start c \<and> list_all ident_char cs)"

lemma ident_no_dot: "is_ident s \<Longrightarrow> CHR ''.'' \<notin> set s"
proof -
  have "\<not> ident_start (CHR ''.'')" "\<not> ident_char (CHR ''.'')"
    by (simp_all add: ident_start_def ident_char_def ascii_alpha_def ascii_digit_def)
  then show "is_ident s \<Longrightarrow> CHR ''.'' \<notin> set s"
    by (auto simp: is_ident_def list_all_iff split: list.splits)
qed

text \<open>\<open>f"{a}.{b}"\<close>, and its injectivity when the first part has no dot.\<close>

definition dotted :: "string \<Rightarrow> string \<Rightarrow> string" where
  "dotted a b = a @ ''.'' @ b"

lemma append_sep_inject:
  "c \<notin> set a \<Longrightarrow> c \<notin> set a' \<Longrightarrow> a @ c # b = a' @ c # b' \<longleftrightarrow> a = a' \<and> b = b'"
proof (induction a arbitrary: a')
  case Nil
  then show ?case by (cases a') auto
next
  case (Cons x a)
  then show ?case by (cases a') auto
qed

lemma dotted_inject [simp]:
  "is_ident a \<Longrightarrow> is_ident a' \<Longrightarrow> dotted a b = dotted a' b' \<longleftrightarrow> a = a' \<and> b = b'"
  by (simp add: dotted_def append_sep_inject ident_no_dot)

lemma dotted_not_ident [simp]: "is_ident c \<Longrightarrow> dotted a b \<noteq> c"
  using ident_no_dot [of c] by (auto simp: dotted_def)

lemmas ident_not_dotted [simp] = dotted_not_ident [symmetric]

section \<open>Lists without duplicates\<close>

text \<open>Python's \<open>len(xs) != len(set(xs))\<close> tests for duplicates.\<close>

definition has_duplicates :: "'a list \<Rightarrow> bool" where
  "has_duplicates xs \<longleftrightarrow> length xs \<noteq> length (remdups xs)"

lemma has_duplicates_iff [simp]: "has_duplicates xs \<longleftrightarrow> \<not> distinct xs"
  by (metis has_duplicates_def length_remdups_eq remdups_id_iff_distinct)


end
