(* ===== verification/PyFloat.thy ===== *)
theory PyFloat
  imports Prelude "HOL-Library.Log_Nat"
begin

text \<open>
  Python's \<open>float\<close>: IEEE 754 binary64 with round-to-nearest, ties-to-even.  A finite
  value is the rational it denotes; negative zero, the infinities and NaN are
  constructors of their own.  Every operation computes the exact rational and rounds it
  once, so the definitions run on concrete inputs.

  NaN carries no sign and no payload: \<open>copysign\<close> from a NaN takes the positive sign.
\<close>

datatype pyfloat = Fin rat | NegZero | PInf | NInf | NaN

section \<open>Rounding a rational to 53 bits\<close>

text \<open>The binary exponent of a positive rational: \<open>2 powi (ilog2 q) \<le> q < 2 powi (ilog2 q + 1)\<close>.\<close>

definition ilog2 :: "rat \<Rightarrow> int" where
  "ilog2 q = (if 1 \<le> q then int (floorlog 2 (nat \<lfloor>q\<rfloor>)) - 1
              else - int (ceillog2 (nat \<lceil>1 / q\<rceil>)))"

definition round_even :: "rat \<Rightarrow> int" where
  "round_even q = (let f = \<lfloor>q\<rfloor>; r = q - of_int f in
     if r < 1 / 2 then f else if 1 / 2 < r then f + 1 else if even f then f else f + 1)"

definition ulp_exp :: "rat \<Rightarrow> int" where
  "ulp_exp q = max (ilog2 \<bar>q\<bar>) (- 1022) - 52"

definition rnd_rat :: "rat \<Rightarrow> rat" where
  "rnd_rat q = (if q = 0 then 0
     else let u = 2 powi ulp_exp q in of_int (round_even (q / u)) * u)"

definition rnd :: "rat \<Rightarrow> pyfloat" where
  "rnd q = (let r = rnd_rat q in
     if 2 ^ 1024 \<le> r then PInf
     else if r \<le> - (2 ^ 1024) then NInf
     else if r = 0 \<and> q < 0 then NegZero else Fin r)"

lemma ilog2_bounds:
  assumes "0 < q"
  shows "2 powi ilog2 q \<le> q" and "q < 2 powi (ilog2 q + 1)"
proof -
  have "2 powi ilog2 q \<le> q \<and> q < 2 powi (ilog2 q + 1)"
  proof (cases "1 \<le> q")
    case True
    define n where "n = nat \<lfloor>q\<rfloor>"
    have n: "0 < n" "of_nat n \<le> q" "q < of_nat n + 1"
      using True floor_correct [of q] by (auto simp: n_def)
    define l where "l = floorlog 2 n"
    have l: "2 ^ (l - 1) \<le> n" "n < 2 ^ l"
      using floorlog_bounds [of n 2] n(1) by (simp_all add: l_def)
    then obtain d where d: "l = Suc d" using n(1) by (cases l) auto
    have e: "ilog2 q = int d"
      using True d by (simp add: ilog2_def l_def n_def)
    have "2 ^ d \<le> n" "n + 1 \<le> 2 ^ Suc d" using l d by auto
    then have b: "(2::rat) ^ d \<le> of_nat n" "of_nat (n + 1) \<le> (2::rat) ^ Suc d"
      by (metis of_nat_le_iff of_nat_numeral of_nat_power)+
    have "(2::rat) ^ d \<le> q" by (rule order_trans [OF b(1) n(2)])
    moreover have "q < (2::rat) ^ Suc d" using n(3) b(2) by simp
    moreover have "2 powi (ilog2 q + 1) = (2::rat) ^ Suc d"
      by (simp add: e power_int_add)
    ultimately show ?thesis by (simp add: e)
  next
    case False
    define n where "n = nat \<lceil>1 / q\<rceil>"
    have "1 < 1 / q" using False assms by simp
    then have n: "1 < n" "1 / q \<le> of_nat n" "of_nat n - 1 < 1 / q"
      unfolding n_def by (linarith+)
    define c where "c = ceillog2 n"
    have c: "n \<le> 2 ^ c" "2 ^ c < 2 * n"
      using le_two_power_ceillog2 [of n] two_power_ceillog2_gt [of n] n(1) by (simp_all add: c_def)
    then have cpos: "0 < c" using n(1) by (cases c) auto
    then obtain d where d: "c = Suc d" by (cases c) auto
    have "2 ^ d \<le> n - 1" using c(2) d by simp
    then have "(2::rat) ^ d \<le> of_nat (n - 1)"
      by (metis of_nat_le_iff of_nat_numeral of_nat_power)
    then have lower: "(2::rat) ^ d < 1 / q" using n by (simp add: of_nat_diff)
    have "of_nat n \<le> (2::rat) ^ c"
      using c(1) by (metis of_nat_le_iff of_nat_numeral of_nat_power)
    then have upper: "1 / q \<le> (2::rat) ^ c" using n by linarith
    have e: "ilog2 q = - int c" using False by (simp add: ilog2_def c_def n_def)
    have e': "ilog2 q + 1 = - int d" using e d by simp
    have "2 powi ilog2 q = 1 / (2::rat) ^ c"
      unfolding e by (simp add: power_int_minus inverse_eq_divide)
    moreover have "2 powi (ilog2 q + 1) = 1 / (2::rat) ^ d"
      unfolding e' by (simp add: power_int_minus inverse_eq_divide)
    moreover have "1 / (2::rat) ^ c \<le> q" "q < 1 / (2::rat) ^ d"
      using assms lower upper by (simp_all add: divide_simps mult.commute)
    ultimately show ?thesis by simp
  qed
  then show "2 powi ilog2 q \<le> q" and "q < 2 powi (ilog2 q + 1)" by simp_all
qed

lemma powi2_less_iff [simp]: "(2::rat) powi a < 2 powi b \<longleftrightarrow> a < b"
  by (metis linorder_not_less one_less_numeral_iff power_int_increasing power_int_strict_increasing
      order_less_imp_le semiring_norm(76))

lemma powi2_le_iff [simp]: "(2::rat) powi a \<le> 2 powi b \<longleftrightarrow> a \<le> b"
  using powi2_less_iff [of b a] by (simp add: linorder_not_less [symmetric] del: powi2_less_iff)

lemma powi2_pos [simp]: "0 < (2::rat) powi a"
  by simp

lemma powi2_add: "(2::rat) powi (a + b) = 2 powi a * 2 powi b"
  by (simp add: power_int_add)

lemma ilog2_less: "0 < q \<Longrightarrow> q < 2 powi e \<Longrightarrow> ilog2 q < e"
  using ilog2_bounds(1) [of q] powi2_less_iff [of "ilog2 q" e] by linarith

lemma ilog2_ge: "0 < q \<Longrightarrow> 2 powi e \<le> q \<Longrightarrow> e \<le> ilog2 q"
  using ilog2_bounds(2) [of q] powi2_less_iff [of e "ilog2 q + 1"] by linarith

lemma ilog2_mono: "0 < x \<Longrightarrow> x \<le> y \<Longrightarrow> ilog2 x \<le> ilog2 y"
  using ilog2_bounds(1) [of x] by (intro ilog2_ge) auto

subsection \<open>Ties to even\<close>

lemma round_even_of_int [simp]: "round_even (of_int n) = n"
  by (simp add: round_even_def)

lemma round_even_bounds: "\<lfloor>q\<rfloor> \<le> round_even q" "round_even q \<le> \<lfloor>q\<rfloor> + 1"
  by (simp_all add: round_even_def Let_def)

lemma round_even_mono:
  assumes "x \<le> y" shows "round_even x \<le> round_even y"
proof (cases "\<lfloor>x\<rfloor> = \<lfloor>y\<rfloor>")
  case True
  then show ?thesis
    using assms unfolding round_even_def Let_def by auto
next
  case False
  then have "\<lfloor>x\<rfloor> + 1 \<le> \<lfloor>y\<rfloor>"
    using floor_mono [OF assms] by linarith
  then show ?thesis
    using round_even_bounds(2) [of x] round_even_bounds(1) [of y] by linarith
qed

lemma round_even_minus: "round_even (- q) = - round_even q"
proof (cases "q \<in> \<int>")
  case True
  then obtain n where "q = of_int n" by (auto elim: Ints_cases)
  then show ?thesis by (simp flip: of_int_minus)
next
  case False
  have "\<lceil>q\<rceil> = \<lfloor>q\<rfloor> + 1" using False
    by (metis ceiling_diff_floor_le_1 Ints_of_int ceiling_le_iff floor_correct
        le_less_trans linorder_neqE_linordered_idom ceiling_altdef)
  then have "\<lfloor>- q\<rfloor> = - \<lfloor>q\<rfloor> - 1" by (simp add: floor_minus)
  then show ?thesis
    unfolding round_even_def Let_def by auto
qed

lemma round_even_abs_le:
  assumes "\<bar>q\<bar> \<le> of_int n" shows "\<bar>round_even q\<bar> \<le> n"
proof -
  have "round_even q \<le> n" "round_even (- q) \<le> n"
    using round_even_mono [of q "of_int n"] round_even_mono [of "- q" "of_int n"] assms by auto
  then show ?thesis by (simp add: round_even_minus)
qed

lemma round_even_dist: "\<bar>of_int (round_even q) - q\<bar> \<le> 1 / 2"
  unfolding round_even_def Let_def by (auto simp: abs_if) linarith+

subsection \<open>Rounding is monotone, odd and idempotent\<close>

lemma ulp_exp_minus [simp]: "ulp_exp (- q) = ulp_exp q"
  by (simp add: ulp_exp_def)

lemma ulp_exp_ge: "- 1074 \<le> ulp_exp q"
  by (simp add: ulp_exp_def)

lemma ulp_exp_mono: "0 < x \<Longrightarrow> x \<le> y \<Longrightarrow> ulp_exp x \<le> ulp_exp y"
  using ilog2_mono [of x y] by (simp add: ulp_exp_def)

lemma below_53_bits:
  assumes "q \<noteq> 0" shows "\<bar>q\<bar> < 2 powi (ulp_exp q + 53)"
proof -
  have "\<bar>q\<bar> < 2 powi (ilog2 \<bar>q\<bar> + 1)" using assms by (intro ilog2_bounds) simp
  also have "\<dots> \<le> 2 powi (ulp_exp q + 53)" by (simp add: ulp_exp_def)
  finally show ?thesis .
qed

lemma rnd_rat_0 [simp]: "rnd_rat 0 = 0"
  by (simp add: rnd_rat_def)

lemma rnd_rat_minus: "rnd_rat (- q) = - rnd_rat q"
  by (simp add: rnd_rat_def Let_def round_even_minus flip: minus_divide_left)

lemma rnd_rat_shape:
  obtains m where "rnd_rat q = of_int m * 2 powi ulp_exp q" "\<bar>m\<bar> \<le> 2 ^ 53"
proof (cases "q = 0")
  case True
  then show ?thesis using that [of 0] by simp
next
  case False
  let ?u = "(2::rat) powi ulp_exp q"
  have "\<bar>q\<bar> < 2 ^ 53 * ?u"
    using below_53_bits [OF False] by (simp add: powi2_add mult.commute)
  then have "\<bar>q / ?u\<bar> \<le> of_int (2 ^ 53)"
    by (simp add: abs_divide divide_le_eq)
  then have "\<bar>round_even (q / ?u)\<bar> \<le> 2 ^ 53" by (rule round_even_abs_le)
  then show ?thesis using that False by (simp add: rnd_rat_def Let_def)
qed

lemma rnd_rat_nonneg: "0 \<le> q \<Longrightarrow> 0 \<le> rnd_rat q"
  using round_even_mono [of 0 "q / 2 powi ulp_exp q"] round_even_of_int [of 0]
  by (auto simp: rnd_rat_def Let_def intro!: mult_nonneg_nonneg)

lemma rnd_rat_mono_pos:
  assumes "0 < x" "x \<le> y" shows "rnd_rat x \<le> rnd_rat y"
proof (cases "ulp_exp x = ulp_exp y")
  case True
  have "x / 2 powi ulp_exp y \<le> y / 2 powi ulp_exp y"
    using assms by (simp add: divide_right_mono)
  then have "round_even (x / 2 powi ulp_exp y) \<le> round_even (y / 2 powi ulp_exp y)"
    by (rule round_even_mono)
  then show ?thesis using assms True by (simp add: rnd_rat_def Let_def)
next
  case False
  let ?u = "(2::rat) powi ulp_exp y"
  from False have less: "ulp_exp x < ulp_exp y" using ulp_exp_mono [OF assms] by simp
  then have ey: "ulp_exp y = ilog2 y - 52"
    using assms ulp_exp_ge [of x] by (simp add: ulp_exp_def max_def split: if_splits)
  obtain m where m: "rnd_rat x = of_int m * 2 powi ulp_exp x" "\<bar>m\<bar> \<le> 2 ^ 53"
    by (rule rnd_rat_shape)
  have "of_int m \<le> (2::rat) ^ 53"
    using m(2) by (metis abs_le_D1 of_int_le_iff of_int_numeral of_int_power)
  then have "rnd_rat x \<le> 2 ^ 53 * 2 powi ulp_exp x" by (simp add: m)
  also have "\<dots> = 2 powi (ulp_exp x + 53)" by (simp add: powi2_add mult.commute)
  also have "\<dots> \<le> 2 powi (ulp_exp y + 52)" using less by simp
  also have "\<dots> = of_int (2 ^ 52) * ?u" by (simp add: powi2_add mult.commute)
  also have "\<dots> \<le> rnd_rat y"
  proof -
    have "2 powi (ulp_exp y + 52) \<le> y"
      using ilog2_bounds(1) [of y] assms by (simp add: ey)
    then have "of_int (2 ^ 52) \<le> y / ?u"
      by (simp add: le_divide_eq powi2_add mult.commute)
    then have "2 ^ 52 \<le> round_even (y / ?u)"
      using round_even_mono round_even_of_int by metis
    then have "(of_int (2 ^ 52)::rat) \<le> of_int (round_even (y / ?u))"
      by (simp only: of_int_le_iff)
    then show ?thesis using assms by (simp add: rnd_rat_def Let_def)
  qed
  finally show ?thesis .
qed

lemma rnd_rat_mono:
  assumes "x \<le> y" shows "rnd_rat x \<le> rnd_rat y"
proof -
  consider "0 < x" | "x \<le> 0" "0 \<le> y" | "y < 0" by linarith
  then show ?thesis
  proof cases
    case 1
    then show ?thesis using assms by (rule rnd_rat_mono_pos)
  next
    case 2
    then show ?thesis
      using rnd_rat_nonneg [of "- x"] rnd_rat_nonneg [of y] by (simp add: rnd_rat_minus)
  next
    case 3
    then show ?thesis
      using rnd_rat_mono_pos [of "- y" "- x"] assms by (simp add: rnd_rat_minus)
  qed
qed

text \<open>A rational with at most 53 significant bits and an exponent in range is itself.\<close>

lemma rnd_rat_exact_strict:
  assumes "\<bar>m\<bar> < 2 ^ 53" and "- 1074 \<le> k"
  shows "rnd_rat (of_int m * 2 powi k) = of_int m * 2 powi k"
proof (cases "m = 0")
  case False
  let ?q = "of_int m * 2 powi k :: rat"
  have "(of_int \<bar>m\<bar>::rat) < of_int (2 ^ 53)" using assms(1) by (simp only: of_int_less_iff)
  then have "\<bar>?q\<bar> < 2 powi (k + 53)" by (simp add: abs_mult powi2_add mult.commute)
  then have "ilog2 \<bar>?q\<bar> < k + 53" using False by (intro ilog2_less) auto
  then have le: "ulp_exp ?q \<le> k" using assms(2) by (simp add: ulp_exp_def)
  define a where "a = ulp_exp ?q"
  define j where "j = nat (k - a)"
  have "k = int j + a" using le by (simp add: j_def a_def)
  then have "(2::rat) powi k = 2 ^ j * 2 powi a" by (simp add: powi2_add)
  then have div: "?q / 2 powi a = of_int (m * 2 ^ j)" by simp
  have "round_even (?q / 2 powi a) = m * 2 ^ j" unfolding div by (rule round_even_of_int)
  then have "rnd_rat ?q = of_int (m * 2 ^ j) * 2 powi a"
    using False by (simp add: rnd_rat_def Let_def flip: a_def)
  then show ?thesis using div by (auto simp: divide_eq_eq)
qed simp

lemma rnd_rat_exact:
  assumes "\<bar>m\<bar> \<le> 2 ^ 53" and "- 1074 \<le> k"
  shows "rnd_rat (of_int m * 2 powi k) = of_int m * 2 powi k"
proof (cases "\<bar>m\<bar> = 2 ^ 53")
  case True
  have "rnd_rat (of_int (2 ^ 52) * 2 powi (k + 1)) = of_int (2 ^ 52) * 2 powi (k + 1)"
    using assms(2) by (intro rnd_rat_exact_strict) auto
  then have *: "rnd_rat (2 ^ 53 * 2 powi k) = 2 ^ 53 * 2 powi k"
    by (simp add: powi2_add mult.commute)
  from True have "m = 2 ^ 53 \<or> m = - (2 ^ 53)" by linarith
  then show ?thesis
    using * rnd_rat_minus [of "2 ^ 53 * 2 powi k"] by auto
next
  case False
  then show ?thesis using assms by (intro rnd_rat_exact_strict) auto
qed

lemma rnd_rat_idem [simp]: "rnd_rat (rnd_rat q) = rnd_rat q"
  by (rule rnd_rat_shape [of q]) (simp add: rnd_rat_exact ulp_exp_ge)

lemma rnd_rat_of_int: "\<bar>n\<bar> \<le> 2 ^ 53 \<Longrightarrow> rnd_rat (of_int n) = of_int n"
  using rnd_rat_exact [of n 0] by simp

lemma rnd_rat_numeral [simp]: "numeral n \<le> (2 ^ 53 :: int) \<Longrightarrow> rnd_rat (numeral n) = numeral n"
  using rnd_rat_of_int [of "numeral n"] by simp

lemma rnd_rat_1 [simp]: "rnd_rat 1 = 1"
  using rnd_rat_of_int [of 1] by simp

section \<open>Values, classes and comparison\<close>

fun wf_float :: "pyfloat \<Rightarrow> bool" where
  "wf_float (Fin r) \<longleftrightarrow> rnd_rat r = r \<and> \<bar>r\<bar> < 2 ^ 1024"
| "wf_float _ \<longleftrightarrow> True"

fun is_zero :: "pyfloat \<Rightarrow> bool" where
  "is_zero (Fin q) \<longleftrightarrow> q = 0"
| "is_zero NegZero \<longleftrightarrow> True"
| "is_zero _ \<longleftrightarrow> False"

text \<open>\<open>math.isfinite\<close>, \<open>math.isnan\<close> and the sign bit.\<close>

fun fisfinite :: "pyfloat \<Rightarrow> bool" where
  "fisfinite (Fin q) \<longleftrightarrow> True"
| "fisfinite NegZero \<longleftrightarrow> True"
| "fisfinite _ \<longleftrightarrow> False"

fun fisnan :: "pyfloat \<Rightarrow> bool" where
  "fisnan NaN \<longleftrightarrow> True"
| "fisnan _ \<longleftrightarrow> False"

fun signbit :: "pyfloat \<Rightarrow> bool" where
  "signbit (Fin q) \<longleftrightarrow> q < 0"
| "signbit NegZero \<longleftrightarrow> True"
| "signbit NInf \<longleftrightarrow> True"
| "signbit _ \<longleftrightarrow> False"

fun fval :: "pyfloat \<Rightarrow> rat" where
  "fval (Fin q) = q"
| "fval _ = 0"

definition zero_of_sign :: "bool \<Rightarrow> pyfloat" where
  "zero_of_sign neg = (if neg then NegZero else Fin 0)"

definition inf_of_sign :: "bool \<Rightarrow> pyfloat" where
  "inf_of_sign neg = (if neg then NInf else PInf)"

fun fless :: "pyfloat \<Rightarrow> pyfloat \<Rightarrow> bool" where
  "fless NaN _ \<longleftrightarrow> False"
| "fless _ NaN \<longleftrightarrow> False"
| "fless PInf _ \<longleftrightarrow> False"
| "fless _ NInf \<longleftrightarrow> False"
| "fless NInf _ \<longleftrightarrow> True"
| "fless _ PInf \<longleftrightarrow> True"
| "fless a b \<longleftrightarrow> fval a < fval b"

fun feq :: "pyfloat \<Rightarrow> pyfloat \<Rightarrow> bool" where
  "feq NaN _ \<longleftrightarrow> False"
| "feq _ NaN \<longleftrightarrow> False"
| "feq PInf b \<longleftrightarrow> b = PInf"
| "feq a PInf \<longleftrightarrow> False"
| "feq NInf b \<longleftrightarrow> b = NInf"
| "feq a NInf \<longleftrightarrow> False"
| "feq a b \<longleftrightarrow> fval a = fval b"

definition fle :: "pyfloat \<Rightarrow> pyfloat \<Rightarrow> bool" where
  "fle a b \<longleftrightarrow> fless a b \<or> feq a b"

lemma feq_refl [simp]: "feq a a \<longleftrightarrow> a \<noteq> NaN"
  by (cases a) auto

lemma feq_sym: "feq a b \<longleftrightarrow> feq b a"
  by (cases a; cases b) auto

lemma fle_refl [simp]: "fle a a \<longleftrightarrow> a \<noteq> NaN"
  by (cases a) (auto simp: fle_def)

lemma fle_NaN [simp]: "\<not> fle NaN a" "\<not> fle a NaN" "\<not> fless a NaN" "\<not> feq a NaN"
  by (cases a; simp add: fle_def)+

lemma fless_irrefl [simp]: "\<not> fless a a"
  by (cases a) auto

lemma fle_trans: "fle a b \<Longrightarrow> fle b c \<Longrightarrow> fle a c"
  by (cases a; cases b; cases c) (auto simp: fle_def)

lemma fless_fle_trans: "fless a b \<Longrightarrow> fle b c \<Longrightarrow> fless a c"
  by (cases a; cases b; cases c) (auto simp: fle_def)

lemma fle_fless_trans: "fle a b \<Longrightarrow> fless b c \<Longrightarrow> fless a c"
  by (cases a; cases b; cases c) (auto simp: fle_def)

lemma fless_imp_fle: "fless a b \<Longrightarrow> fle a b"
  by (simp add: fle_def)

lemma fle_linear: "a \<noteq> NaN \<Longrightarrow> b \<noteq> NaN \<Longrightarrow> fle a b \<or> fle b a"
  by (cases a; cases b) (auto simp: fle_def)

lemma not_fless_iff: "a \<noteq> NaN \<Longrightarrow> b \<noteq> NaN \<Longrightarrow> \<not> fless a b \<longleftrightarrow> fle b a"
  by (cases a; cases b) (auto simp: fle_def)

lemma not_fle_iff: "a \<noteq> NaN \<Longrightarrow> b \<noteq> NaN \<Longrightarrow> \<not> fle a b \<longleftrightarrow> fless b a"
  using not_fless_iff [of b a] by blast

lemma fless_not_fle: "fless a b \<Longrightarrow> \<not> fle b a"
  by (cases a; cases b) (auto simp: fle_def)

lemma fless_fle_irrefl: "fless a b \<Longrightarrow> fle b a \<Longrightarrow> False"
  by (simp add: fless_not_fle)

lemma fless_not_NaN: "fless a b \<Longrightarrow> a \<noteq> NaN \<and> b \<noteq> NaN"
  by (cases a; cases b) auto

lemma fle_not_NaN: "fle a b \<Longrightarrow> a \<noteq> NaN \<and> b \<noteq> NaN"
  by (cases a; cases b) (auto simp: fle_def)

lemma fle_Fin [simp]: "fle (Fin x) (Fin y) \<longleftrightarrow> x \<le> y"
  by (auto simp: fle_def)

lemma fle_inf [simp]: "fle a PInf \<longleftrightarrow> a \<noteq> NaN" "fle NInf a \<longleftrightarrow> a \<noteq> NaN"
  by (cases a; simp add: fle_def)+

lemma fisfinite_not [simp]: "fisfinite a \<Longrightarrow> a \<noteq> NaN" "fisfinite a \<Longrightarrow> a \<noteq> PInf" "fisfinite a \<Longrightarrow> a \<noteq> NInf"
  by auto

lemma fle_finite: "fisfinite a \<Longrightarrow> fisfinite b \<Longrightarrow> fle a b \<longleftrightarrow> fval a \<le> fval b"
  by (cases a; cases b) (auto simp: fle_def)

lemma fless_finite: "fisfinite a \<Longrightarrow> fisfinite b \<Longrightarrow> fless a b \<longleftrightarrow> fval a < fval b"
  by (cases a; cases b) auto

lemma feq_finite: "fisfinite a \<Longrightarrow> fisfinite b \<Longrightarrow> feq a b \<longleftrightarrow> fval a = fval b"
  by (cases a; cases b) auto

section \<open>Rounded values\<close>

lemma wf_rnd [simp]: "wf_float (rnd q)"
  by (auto simp: rnd_def Let_def abs_less_iff)

lemma rnd_not_NaN [simp]: "rnd q \<noteq> NaN"
  by (simp add: rnd_def Let_def)

lemma rnd_mono: "x \<le> y \<Longrightarrow> fle (rnd x) (rnd y)"
  using rnd_rat_mono [of x y] by (auto simp: rnd_def Let_def fle_def)

lemma fval_rnd: "\<bar>rnd_rat q\<bar> < 2 ^ 1024 \<Longrightarrow> fval (rnd q) = rnd_rat q"
  by (auto simp: rnd_def Let_def abs_less_iff)

lemma fisfinite_rnd: "fisfinite (rnd q) \<longleftrightarrow> \<bar>rnd_rat q\<bar> < 2 ^ 1024"
  by (auto simp: rnd_def Let_def abs_less_iff)

lemma rnd_wf_fval:
  assumes "wf_float a" "fisfinite a" shows "rnd (fval a) = (if a = NegZero then Fin 0 else a)"
  using assms by (cases a) (auto simp: rnd_def Let_def abs_less_iff)

lemma rnd_0 [simp]: "rnd 0 = Fin 0"
  by (simp add: rnd_def)

lemma rnd_1 [simp]: "rnd 1 = Fin 1"
  by (simp add: rnd_def Let_def)

lemma rnd_of_int: "\<bar>n\<bar> \<le> 2 ^ 53 \<Longrightarrow> rnd (of_int n) = Fin (of_int n)"
proof -
  assume n: "\<bar>n\<bar> \<le> 2 ^ 53"
  have "(2::int) ^ 53 < 2 ^ 1024" by simp
  with n have "\<bar>n\<bar> < 2 ^ 1024" by linarith
  then have "\<bar>of_int n :: rat\<bar> < of_int (2 ^ 1024)"
    by (simp only: of_int_abs [symmetric] of_int_less_iff)
  then show ?thesis
    using rnd_rat_of_int [OF n] by (auto simp: rnd_def Let_def abs_less_iff)
qed

lemma rnd_numeral [simp]: "numeral n \<le> (2 ^ 53 :: int) \<Longrightarrow> rnd (numeral n) = Fin (numeral n)"
  using rnd_of_int [of "numeral n"] by simp

lemma rnd_neg_numeral [simp]: "numeral n \<le> (2 ^ 53 :: int) \<Longrightarrow> rnd (- numeral n) = Fin (- numeral n)"
  using rnd_of_int [of "- numeral n"] by simp

lemma rnd_nonneg: "0 \<le> q \<Longrightarrow> fle (Fin 0) (rnd q)"
  using rnd_mono [of 0 q] by simp

section \<open>Arithmetic\<close>

fun fneg :: "pyfloat \<Rightarrow> pyfloat" where
  "fneg (Fin q) = (if q = 0 then NegZero else Fin (- q))"
| "fneg NegZero = Fin 0"
| "fneg PInf = NInf"
| "fneg NInf = PInf"
| "fneg NaN = NaN"

fun fabs :: "pyfloat \<Rightarrow> pyfloat" where
  "fabs (Fin q) = Fin \<bar>q\<bar>"
| "fabs NegZero = Fin 0"
| "fabs PInf = PInf"
| "fabs NInf = PInf"
| "fabs NaN = NaN"

text \<open>\<open>math.copysign(x, y)\<close>.\<close>

definition fcopysign :: "pyfloat \<Rightarrow> pyfloat \<Rightarrow> pyfloat" where
  "fcopysign x y = (if signbit y then fneg (fabs x) else fabs x)"

fun fadd :: "pyfloat \<Rightarrow> pyfloat \<Rightarrow> pyfloat" where
  "fadd NaN _ = NaN"
| "fadd _ NaN = NaN"
| "fadd PInf NInf = NaN"
| "fadd NInf PInf = NaN"
| "fadd PInf _ = PInf"
| "fadd _ PInf = PInf"
| "fadd NInf _ = NInf"
| "fadd _ NInf = NInf"
| "fadd NegZero NegZero = NegZero"
| "fadd a b = rnd (fval a + fval b)"

definition fsub :: "pyfloat \<Rightarrow> pyfloat \<Rightarrow> pyfloat" where
  "fsub a b = fadd a (fneg b)"

definition fmul :: "pyfloat \<Rightarrow> pyfloat \<Rightarrow> pyfloat" where
  "fmul a b =
     (let neg = (signbit a \<noteq> signbit b) in
      if fisnan a \<or> fisnan b then NaN
      else if fisfinite a \<and> fisfinite b then
        (if is_zero a \<or> is_zero b then zero_of_sign neg else rnd (fval a * fval b))
      else if is_zero a \<or> is_zero b then NaN
      else inf_of_sign neg)"

text \<open>Python raises on a zero divisor, whatever the dividend.\<close>

definition fdiv :: "pyfloat \<Rightarrow> pyfloat \<Rightarrow> pyfloat result" where
  "fdiv a b =
     (let neg = (signbit a \<noteq> signbit b) in
      if is_zero b then Inl ZeroDivisionError
      else if fisnan a \<or> fisnan b then Inr NaN
      else if fisfinite a then
        (if fisfinite b then
           (if is_zero a then Inr (zero_of_sign neg) else Inr (rnd (fval a / fval b)))
         else Inr (zero_of_sign neg))
      else if fisfinite b then Inr (inf_of_sign neg)
      else Inr NaN)"

text \<open>Truncation towards zero.\<close>

definition trunc_rat :: "rat \<Rightarrow> int" where
  "trunc_rat q = (if 0 \<le> q then \<lfloor>q\<rfloor> else \<lceil>q\<rceil>)"

text \<open>Python's float \<open>%\<close>: the C remainder, moved to the sign of the divisor.\<close>

definition fmod :: "pyfloat \<Rightarrow> pyfloat \<Rightarrow> pyfloat result" where
  "fmod a b =
     (if is_zero b then Inl ZeroDivisionError
      else if fisnan a \<or> fisnan b \<or> \<not> fisfinite a then Inr NaN
      else
        (let r = (if fisfinite b then
                    fval a - fval b * of_int (trunc_rat (fval a / fval b))
                  else fval a) in
         if r = 0 then Inr (zero_of_sign (signbit b))
         else if (r < 0) \<noteq> signbit b then Inr (fadd (Fin r) b)
         else Inr (Fin r)))"

text \<open>\<open>min(a, b)\<close> and \<open>max(a, b)\<close> of the builtins: the first argument unless the
  second compares strictly better.\<close>

definition fmin :: "pyfloat \<Rightarrow> pyfloat \<Rightarrow> pyfloat" where
  "fmin a b = (if fless b a then b else a)"

definition fmax :: "pyfloat \<Rightarrow> pyfloat \<Rightarrow> pyfloat" where
  "fmax a b = (if fless a b then b else a)"

text \<open>\<open>math.floor\<close>, \<open>math.ceil\<close> and \<open>int()\<close> on a float.\<close>

fun to_int_with :: "(rat \<Rightarrow> int) \<Rightarrow> pyfloat \<Rightarrow> int result" where
  "to_int_with f (Fin q) = Inr (f q)"
| "to_int_with f NegZero = Inr 0"
| "to_int_with f NaN = Inl (ValueError ''cannot convert float NaN to integer'')"
| "to_int_with f _ = Inl OverflowError"

definition ffloor :: "pyfloat \<Rightarrow> int result" where
  "ffloor = to_int_with floor"

definition fceil :: "pyfloat \<Rightarrow> int result" where
  "fceil = to_int_with ceiling"

definition ftrunc :: "pyfloat \<Rightarrow> int result" where
  "ftrunc = to_int_with trunc_rat"

text \<open>\<open>float(n)\<close> on an integer.\<close>

definition float_of_int :: "int \<Rightarrow> pyfloat result" where
  "float_of_int n = (let r = rnd (of_int n) in if fisfinite r then Inr r else Inl OverflowError)"

text \<open>\<open>round(x, digits)\<close>: half to even on the exact decimal value, then back to binary64.\<close>

fun fround_digits :: "nat \<Rightarrow> pyfloat \<Rightarrow> pyfloat" where
  "fround_digits d (Fin q) =
     (let r = of_int (round_even (q * 10 ^ d)) / 10 ^ d in
      if r = 0 \<and> q < 0 then NegZero else rnd r)"
| "fround_digits d x = x"

definition fis_integer :: "pyfloat \<Rightarrow> bool" where
  "fis_integer a = (case a of Fin q \<Rightarrow> of_int \<lfloor>q\<rfloor> = q | NegZero \<Rightarrow> True | _ \<Rightarrow> False)"

text \<open>\<open>math.isclose(a, b, rel_tol=..., abs_tol=...)\<close>.\<close>

definition fisclose :: "pyfloat \<Rightarrow> pyfloat \<Rightarrow> pyfloat \<Rightarrow> pyfloat \<Rightarrow> bool" where
  "fisclose rel_tol abs_tol a b \<longleftrightarrow>
     feq a b \<or>
     (a \<noteq> PInf \<and> a \<noteq> NInf \<and> b \<noteq> PInf \<and> b \<noteq> NInf \<and>
      (let diff = fabs (fsub b a) in
       fle diff (fabs (fmul rel_tol b)) \<or> fle diff (fabs (fmul rel_tol a)) \<or> fle diff abs_tol))"

section \<open>Evaluating a rounding\<close>

lemma ilog2_unique:
  assumes "0 < q" and "2 powi e \<le> q" and "q < 2 powi (e + 1)"
  shows "ilog2 q = e"
proof -
  have "e < ilog2 q + 1"
    using order_le_less_trans [OF assms(2) ilog2_bounds(2) [OF assms(1)]] by (simp only: powi2_less_iff)
  moreover have "ilog2 q < e + 1"
    using order_le_less_trans [OF ilog2_bounds(1) [OF assms(1)] assms(3)] by (simp only: powi2_less_iff)
  ultimately show ?thesis by simp
qed

lemma round_even_near:
  assumes "of_int n - 1 / 2 < x" and "x < of_int n + 1 / 2"
  shows "round_even x = n"
proof (cases "of_int n \<le> x")
  case True
  then have "\<lfloor>x\<rfloor> = n" using assms by (simp add: floor_unique)
  then show ?thesis using assms by (simp add: round_even_def Let_def)
next
  case False
  then have "\<lfloor>x\<rfloor> = n - 1" using assms by (simp add: floor_unique)
  then show ?thesis using assms by (simp add: round_even_def Let_def)
qed

text \<open>The nearest double of a rational in the normal range, given its exponent and the integer
  nearest to its scaled value.\<close>

lemma rnd_nearest:
  assumes "2 powi e \<le> q" and "q < 2 powi (e + 1)" and "- 1022 \<le> e" and "e < 1023"
    and "of_int n - 1 / 2 < q / 2 powi (e - 52)" and "q / 2 powi (e - 52) < of_int n + 1 / 2"
    and "n \<le> 2 ^ 53"
  shows "rnd q = Fin (of_int n * 2 powi (e - 52))"
proof -
  have q: "0 < q" using assms(1) powi2_pos [of e] by linarith
  have "ulp_exp q = e - 52"
    using q assms(3) ilog2_unique [OF q assms(1,2)] by (simp add: ulp_exp_def)
  then have r: "rnd_rat q = of_int n * 2 powi (e - 52)"
    using q round_even_near [OF assms(5,6)] by (simp add: rnd_rat_def Let_def)
  have "(of_int n :: rat) \<le> of_int (2 ^ 53)" using assms(7) by (simp only: of_int_le_iff)
  then have "rnd_rat q \<le> 2 ^ 53 * 2 powi (e - 52)"
    unfolding r by (intro mult_right_mono) simp_all
  also have "\<dots> = 2 powi (e + 1)" using powi2_add [of 53 "e - 52"] by (simp add: add.commute)
  also have "\<dots> < 2 powi 1024" using assms(4) by (simp only: powi2_less_iff)
  finally have "rnd_rat q < 2 ^ 1024" by simp
  moreover have "0 \<le> rnd_rat q" using rnd_rat_mono [of 0 q] q by simp
  ultimately show ?thesis using q by (simp add: rnd_def Let_def r)
qed

text \<open>The decimal constants of the source as the doubles they denote.\<close>

lemma rnd_milli [simp]: "rnd (1 / 1000) = Fin (1152921504606847 / 1152921504606846976)"
  using rnd_nearest [of "- 10" "1 / 1000" "1152921504606847 * 4"] by (simp add: power_int_minus)

lemma rnd_milli_double [simp]:
  "rnd (1152921504606847 / 1152921504606846976) = Fin (1152921504606847 / 1152921504606846976)"
  using rnd_nearest [of "- 10" "1152921504606847 / 1152921504606846976" "1152921504606847 * 4"]
  by (simp add: power_int_minus)

lemma rnd_nano [simp]: "rnd (1 / 1000000000) = Fin (4835703278458517 / 4835703278458516698824704)"
  using rnd_nearest [of "- 30" "1 / 1000000000" "4835703278458517"] by (simp add: power_int_minus)

lemma rnd_tenth_pico [simp]: "rnd (1 / 10000000000000) = Fin (3961408125713217 / 39614081257132168796771975168)"
  using rnd_nearest [of "- 44" "1 / 10000000000000" "7922816251426434"] by (simp add: power_int_minus)

lemma rnd_half: "\<bar>n\<bar> \<le> 2 ^ 53 \<Longrightarrow> rnd (of_int n / 2) = Fin (of_int n / 2)"
proof -
  assume n: "\<bar>n\<bar> \<le> 2 ^ 53"
  have r: "rnd_rat (of_int n / 2) = of_int n / 2"
    using rnd_rat_exact [OF n, of "- 1"] by (simp add: power_int_minus field_simps)
  have "(of_int \<bar>n\<bar> :: rat) \<le> of_int (2 ^ 53)" using n by (simp only: of_int_le_iff)
  moreover have "(2 ^ 53 :: rat) < 2 ^ 1024" by simp
  ultimately have "\<bar>of_int n / 2 :: rat\<bar> < 2 ^ 1024" by (simp add: abs_divide)
  then show ?thesis using r by (auto simp: rnd_def Let_def abs_less_iff)
qed

end
