(* ===== verification/PyValue.thy ===== *)
theory PyValue
  imports PyFloat
begin

text \<open>
  Python values as the program handles them: the JSON-like values of a block's
  configuration and the numbers and booleans that travel over links.  \<open>True\<close> and \<open>False\<close>
  are instances of \<open>int\<close> in Python; the source tests for them first, and so do the
  predicates here.  Integers are unbounded.
\<close>

datatype pyval =
    PNone
  | PBool bool
  | PInt int
  | PFloat pyfloat
  | PStr string
  | PList "pyval list"
  | PDict "(string \<times> pyval) list"

type_synonym config = "pyval dict"

text \<open>\<open>isinstance(v, bool)\<close>, \<open>isinstance(v, str)\<close>, and
  \<open>isinstance(v, (int, float))\<close> with booleans excluded.\<close>

fun is_bool :: "pyval \<Rightarrow> bool" where
  "is_bool (PBool _) = True"
| "is_bool _ = False"

fun is_number :: "pyval \<Rightarrow> bool" where
  "is_number (PInt _) = True"
| "is_number (PFloat _) = True"
| "is_number _ = False"

fun is_str :: "pyval \<Rightarrow> bool" where
  "is_str (PStr _) = True"
| "is_str _ = False"

text \<open>\<open>bool(v)\<close>.\<close>

fun truthy :: "pyval \<Rightarrow> bool" where
  "truthy PNone = False"
| "truthy (PBool b) = b"
| "truthy (PInt n) = (n \<noteq> 0)"
| "truthy (PFloat x) = (\<not> is_zero x)"
| "truthy (PStr s) = (s \<noteq> [])"
| "truthy (PList xs) = (xs \<noteq> [])"
| "truthy (PDict d) = (d \<noteq> [])"

text \<open>\<open>float(v)\<close>.  A string argument is treated as one that does not parse.\<close>

fun py_float :: "pyval \<Rightarrow> pyfloat result" where
  "py_float (PBool b) = Inr (Fin (if b then 1 else 0))"
| "py_float (PInt n) = float_of_int n"
| "py_float (PFloat x) = Inr x"
| "py_float (PStr s) = Inl (ValueError ''could not convert string to float'')"
| "py_float _ = Inl (TypeError ''float() argument must be a string or a real number'')"

text \<open>\<open>int(v)\<close>.\<close>

fun py_int :: "pyval \<Rightarrow> int result" where
  "py_int (PBool b) = Inr (if b then 1 else 0)"
| "py_int (PInt n) = Inr n"
| "py_int (PFloat x) = ftrunc x"
| "py_int (PStr s) = Inl (ValueError ''invalid literal for int()'')"
| "py_int _ = Inl (TypeError ''int() argument must be a string or a real number'')"

text \<open>Comparisons between \<open>int\<close> and \<open>float\<close> are exact in Python: an integer stands for
  the rational it is, unrounded.\<close>

fun exact_num :: "pyval \<Rightarrow> pyfloat" where
  "exact_num (PBool b) = Fin (if b then 1 else 0)"
| "exact_num (PInt n) = Fin (of_int n)"
| "exact_num (PFloat x) = x"
| "exact_num _ = NaN"

text \<open>\<open>v == w\<close> on scalars.\<close>

fun py_eq :: "pyval \<Rightarrow> pyval \<Rightarrow> bool" where
  "py_eq PNone w = (w = PNone)"
| "py_eq (PStr s) w = (w = PStr s)"
| "py_eq (PList xs) w = (w = PList xs)"
| "py_eq (PDict d) w = (w = PDict d)"
| "py_eq v w = feq (exact_num v) (exact_num w)"

text \<open>\<open>GraphInterpreter._number\<close>: a number as a float; a boolean is refused.\<close>

definition number_of :: "pyval \<Rightarrow> pyfloat result" where
  "number_of v = (if is_number v then py_float v
                  else Inl (TypeError ''expected numeric value''))"

text \<open>\<open>isinstance(v, (int, float)) and math.isfinite(float(v))\<close> with booleans excluded;
  \<open>float\<close> of an integer beyond the range raises \<open>OverflowError\<close>, which is not the
  \<open>ValueError\<close> of the check.\<close>

definition finite_number :: "pyval \<Rightarrow> bool result" where
  "finite_number v = (if is_number v then mapE fisfinite (py_float v) else Inr False)"

text \<open>Dictionary reads of a configuration: \<open>config.get(key, default)\<close> and \<open>config[key]\<close>.\<close>

definition cfg_get :: "config \<Rightarrow> string \<Rightarrow> pyval \<Rightarrow> pyval" where
  "cfg_get c k d = (case map_of c k of None \<Rightarrow> d | Some v \<Rightarrow> v)"

definition cfg_float :: "config \<Rightarrow> string \<Rightarrow> pyfloat \<Rightarrow> pyfloat result" where
  "cfg_float c k d = py_float (cfg_get c k (PFloat d))"

definition cfg_float_req :: "config \<Rightarrow> string \<Rightarrow> pyfloat result" where
  "cfg_float_req c k = bindE (dict_get c k) py_float"

definition cfg_bool :: "config \<Rightarrow> string \<Rightarrow> bool \<Rightarrow> bool" where
  "cfg_bool c k d = truthy (cfg_get c k (PBool d))"

section \<open>Facts used by the typing proofs\<close>

lemma is_bool_iff: "is_bool v \<longleftrightarrow> (\<exists>b. v = PBool b)"
  by (cases v) auto

lemma is_number_not_bool [simp]: "is_number v \<Longrightarrow> \<not> is_bool v"
  by (cases v) auto

lemma wf_float_of_int: "float_of_int n = Inr x \<Longrightarrow> wf_float x \<and> fisfinite x"
  by (auto simp: float_of_int_def Let_def split: if_splits)

lemma soundE_float_of_int [simp]: "soundE (\<lambda>_. True) (float_of_int n)"
  by (simp add: float_of_int_def Let_def)

lemma soundE_py_float: "is_number v \<or> is_bool v \<Longrightarrow> soundE (\<lambda>_. True) (py_float v)"
  by (cases v) auto

lemma soundE_number_of: "is_number v \<Longrightarrow> soundE (\<lambda>_. True) (number_of v)"
  by (simp add: number_of_def soundE_py_float)

lemma number_of_PFloat [simp]: "number_of (PFloat x) = Inr x"
  by (simp add: number_of_def)

lemma finite_number_Inr: "finite_number v = Inr True \<Longrightarrow> is_number v \<and> (\<exists>x. py_float v = Inr x \<and> fisfinite x)"
  by (cases "py_float v") (auto simp: finite_number_def split: if_splits)

lemma cfg_float_finite:
  "finite_number (cfg_get c k (PFloat d)) = Inr True \<Longrightarrow> \<exists>x. cfg_float c k d = Inr x \<and> fisfinite x"
  using finite_number_Inr by (auto simp: cfg_float_def)

end
