(* ===== verification/Kinds.thy ===== *)
theory Kinds
  imports PyValue
begin

text \<open>
  The vocabulary of the typed control graph (\<open>src/bactalk/domain.py\<close>): data types, block
  kinds, the slots every kind declares, and the kinds whose output at a tick is the
  state the previous tick left.
\<close>

datatype data_type = NUMERIC | BOOLEAN

fun data_type_value :: "data_type \<Rightarrow> string" where
  "data_type_value NUMERIC = ''numeric''"
| "data_type_value BOOLEAN = ''boolean''"

datatype (plugins only: code) block_kind =
    NUMERIC_INPUT
  | BOOLEAN_INPUT
  | NUMERIC_OUTPUT
  | BOOLEAN_OUTPUT
  | NUMERIC_CONST
  | BOOLEAN_CONST
  | ADD
  | SUBTRACT
  | MULTIPLY
  | DIVIDE
  | MINIMUM
  | MAXIMUM
  | AVERAGE
  | GREATER_THAN
  | GREATER_THAN_OR_EQUAL
  | LESS_THAN
  | LESS_THAN_OR_EQUAL
  | EQUAL
  | NOT_EQUAL
  | AND
  | OR
  | XOR
  | NOT
  | NUMERIC_SWITCH
  | BOOLEAN_SWITCH
  | BOOLEAN_DELAY
  | ONE_SHOT
  | BOOLEAN_FALLING_EDGE
  | MOVING_AVERAGE
  | NUMERIC_SAMPLER
  | NUMERIC_FIRST_ORDER_HOLD
  | BOOLEAN_SAMPLE_TRIGGER
  | NUMERIC_UNIT_DELAY
  | NUMERIC_CHANGED
  | NUMERIC_INCREASED
  | NUMERIC_DECREASED
  | NUMERIC_ROUND
  | NUMERIC_LIMIT_SLEW_RATE
  | NUMERIC_INTEGRATOR_WITH_RESET
  | NUMERIC_ON_COUNTER
  | WET_BULB_TEMPERATURE
  | NUMERIC_LATCH
  | BOOLEAN_LATCH
  | BOOLEAN_PRE_HOST_TICK
  | BOOLEAN_INITIALIZATION
  | BOOLEAN_SET_RESET
  | BOOLEAN_TRUE_FALSE_HOLD
  | HYSTERESIS
  | TIMER
  | TIMER_WITH_RESET
  | TIMER_ACCUMULATING
  | BOOLEAN_ASSERT_WARNING
  | TRIM_AND_RESPOND
  | TRIM_AND_RESPOND_HOLD
  | RESET
  | PI_LOOP
  | PID_WITH_RESET
  | PLANT_EQUIPMENT_AVAILABILITY
  | PLANT_ENABLE
  | PLANT_HRC_ENABLE
  | PLANT_HRC_MODE_CONTROL
  | PLANT_STAGE_COMPLETION
  | PLANT_STAGE_INDEX

text \<open>The value of the string enumeration.\<close>

fun kind_value :: "block_kind \<Rightarrow> string" where
  "kind_value NUMERIC_INPUT = ''numeric_input''"
| "kind_value BOOLEAN_INPUT = ''boolean_input''"
| "kind_value NUMERIC_OUTPUT = ''numeric_output''"
| "kind_value BOOLEAN_OUTPUT = ''boolean_output''"
| "kind_value NUMERIC_CONST = ''numeric_const''"
| "kind_value BOOLEAN_CONST = ''boolean_const''"
| "kind_value ADD = ''add''"
| "kind_value SUBTRACT = ''subtract''"
| "kind_value MULTIPLY = ''multiply''"
| "kind_value DIVIDE = ''divide''"
| "kind_value MINIMUM = ''minimum''"
| "kind_value MAXIMUM = ''maximum''"
| "kind_value AVERAGE = ''average''"
| "kind_value GREATER_THAN = ''greater_than''"
| "kind_value GREATER_THAN_OR_EQUAL = ''greater_than_or_equal''"
| "kind_value LESS_THAN = ''less_than''"
| "kind_value LESS_THAN_OR_EQUAL = ''less_than_or_equal''"
| "kind_value EQUAL = ''equal''"
| "kind_value NOT_EQUAL = ''not_equal''"
| "kind_value AND = ''and''"
| "kind_value OR = ''or''"
| "kind_value XOR = ''xor''"
| "kind_value NOT = ''not''"
| "kind_value NUMERIC_SWITCH = ''numeric_switch''"
| "kind_value BOOLEAN_SWITCH = ''boolean_switch''"
| "kind_value BOOLEAN_DELAY = ''boolean_delay''"
| "kind_value ONE_SHOT = ''one_shot''"
| "kind_value BOOLEAN_FALLING_EDGE = ''boolean_falling_edge''"
| "kind_value MOVING_AVERAGE = ''moving_average''"
| "kind_value NUMERIC_SAMPLER = ''numeric_sampler''"
| "kind_value NUMERIC_FIRST_ORDER_HOLD = ''numeric_first_order_hold''"
| "kind_value BOOLEAN_SAMPLE_TRIGGER = ''boolean_sample_trigger''"
| "kind_value NUMERIC_UNIT_DELAY = ''numeric_unit_delay''"
| "kind_value NUMERIC_CHANGED = ''numeric_changed''"
| "kind_value NUMERIC_INCREASED = ''numeric_increased''"
| "kind_value NUMERIC_DECREASED = ''numeric_decreased''"
| "kind_value NUMERIC_ROUND = ''numeric_round''"
| "kind_value NUMERIC_LIMIT_SLEW_RATE = ''numeric_limit_slew_rate''"
| "kind_value NUMERIC_INTEGRATOR_WITH_RESET = ''numeric_integrator_with_reset''"
| "kind_value NUMERIC_ON_COUNTER = ''numeric_on_counter''"
| "kind_value WET_BULB_TEMPERATURE = ''wet_bulb_temperature''"
| "kind_value NUMERIC_LATCH = ''numeric_latch''"
| "kind_value BOOLEAN_LATCH = ''boolean_latch''"
| "kind_value BOOLEAN_PRE_HOST_TICK = ''boolean_pre_host_tick''"
| "kind_value BOOLEAN_INITIALIZATION = ''boolean_initialization''"
| "kind_value BOOLEAN_SET_RESET = ''boolean_set_reset''"
| "kind_value BOOLEAN_TRUE_FALSE_HOLD = ''boolean_true_false_hold''"
| "kind_value HYSTERESIS = ''hysteresis''"
| "kind_value TIMER = ''timer''"
| "kind_value TIMER_WITH_RESET = ''timer_with_reset''"
| "kind_value TIMER_ACCUMULATING = ''timer_accumulating''"
| "kind_value BOOLEAN_ASSERT_WARNING = ''boolean_assert_warning''"
| "kind_value TRIM_AND_RESPOND = ''trim_and_respond''"
| "kind_value TRIM_AND_RESPOND_HOLD = ''trim_and_respond_hold''"
| "kind_value RESET = ''reset''"
| "kind_value PI_LOOP = ''pi_loop''"
| "kind_value PID_WITH_RESET = ''pid_with_reset''"
| "kind_value PLANT_EQUIPMENT_AVAILABILITY = ''plant_equipment_availability''"
| "kind_value PLANT_ENABLE = ''plant_enable''"
| "kind_value PLANT_HRC_ENABLE = ''plant_hrc_enable''"
| "kind_value PLANT_HRC_MODE_CONTROL = ''plant_hrc_mode_control''"
| "kind_value PLANT_STAGE_COMPLETION = ''plant_stage_completion''"
| "kind_value PLANT_STAGE_INDEX = ''plant_stage_index''"

fun is_feedback_kind :: "block_kind \<Rightarrow> bool" where
  "is_feedback_kind NUMERIC_UNIT_DELAY = True"
| "is_feedback_kind BOOLEAN_PRE_HOST_TICK = True"
| "is_feedback_kind NUMERIC_INTEGRATOR_WITH_RESET = True"
| "is_feedback_kind NUMERIC_ON_COUNTER = True"
| "is_feedback_kind _ = False"

record slot_spec =
  inputs :: "data_type dict"
  outputs :: "data_type dict"

fun block_slots :: "block_kind \<Rightarrow> slot_spec" where
  "block_slots NUMERIC_INPUT =
     \<lparr>inputs = [],
      outputs = [(''out'', NUMERIC)]\<rparr>"
| "block_slots BOOLEAN_INPUT =
     \<lparr>inputs = [],
      outputs = [(''out'', BOOLEAN)]\<rparr>"
| "block_slots NUMERIC_OUTPUT =
     \<lparr>inputs = [(''in'', NUMERIC)],
      outputs = [(''out'', NUMERIC)]\<rparr>"
| "block_slots BOOLEAN_OUTPUT =
     \<lparr>inputs = [(''in'', BOOLEAN)],
      outputs = [(''out'', BOOLEAN)]\<rparr>"
| "block_slots NUMERIC_CONST =
     \<lparr>inputs = [],
      outputs = [(''out'', NUMERIC)]\<rparr>"
| "block_slots BOOLEAN_CONST =
     \<lparr>inputs = [],
      outputs = [(''out'', BOOLEAN)]\<rparr>"
| "block_slots ADD =
     \<lparr>inputs = [(''a'', NUMERIC), (''b'', NUMERIC)],
      outputs = [(''out'', NUMERIC)]\<rparr>"
| "block_slots SUBTRACT =
     \<lparr>inputs = [(''a'', NUMERIC), (''b'', NUMERIC)],
      outputs = [(''out'', NUMERIC)]\<rparr>"
| "block_slots MULTIPLY =
     \<lparr>inputs = [(''a'', NUMERIC), (''b'', NUMERIC)],
      outputs = [(''out'', NUMERIC)]\<rparr>"
| "block_slots DIVIDE =
     \<lparr>inputs = [(''a'', NUMERIC), (''b'', NUMERIC)],
      outputs = [(''out'', NUMERIC)]\<rparr>"
| "block_slots MINIMUM =
     \<lparr>inputs = [(''a'', NUMERIC), (''b'', NUMERIC)],
      outputs = [(''out'', NUMERIC)]\<rparr>"
| "block_slots MAXIMUM =
     \<lparr>inputs = [(''a'', NUMERIC), (''b'', NUMERIC)],
      outputs = [(''out'', NUMERIC)]\<rparr>"
| "block_slots AVERAGE =
     \<lparr>inputs = [(''a'', NUMERIC), (''b'', NUMERIC)],
      outputs = [(''out'', NUMERIC)]\<rparr>"
| "block_slots GREATER_THAN =
     \<lparr>inputs = [(''a'', NUMERIC), (''b'', NUMERIC)],
      outputs = [(''out'', BOOLEAN)]\<rparr>"
| "block_slots GREATER_THAN_OR_EQUAL =
     \<lparr>inputs = [(''a'', NUMERIC), (''b'', NUMERIC)],
      outputs = [(''out'', BOOLEAN)]\<rparr>"
| "block_slots LESS_THAN =
     \<lparr>inputs = [(''a'', NUMERIC), (''b'', NUMERIC)],
      outputs = [(''out'', BOOLEAN)]\<rparr>"
| "block_slots LESS_THAN_OR_EQUAL =
     \<lparr>inputs = [(''a'', NUMERIC), (''b'', NUMERIC)],
      outputs = [(''out'', BOOLEAN)]\<rparr>"
| "block_slots EQUAL =
     \<lparr>inputs = [(''a'', NUMERIC), (''b'', NUMERIC)],
      outputs = [(''out'', BOOLEAN)]\<rparr>"
| "block_slots NOT_EQUAL =
     \<lparr>inputs = [(''a'', NUMERIC), (''b'', NUMERIC)],
      outputs = [(''out'', BOOLEAN)]\<rparr>"
| "block_slots AND =
     \<lparr>inputs = [(''a'', BOOLEAN), (''b'', BOOLEAN)],
      outputs = [(''out'', BOOLEAN)]\<rparr>"
| "block_slots OR =
     \<lparr>inputs = [(''a'', BOOLEAN), (''b'', BOOLEAN)],
      outputs = [(''out'', BOOLEAN)]\<rparr>"
| "block_slots XOR =
     \<lparr>inputs = [(''a'', BOOLEAN), (''b'', BOOLEAN)],
      outputs = [(''out'', BOOLEAN)]\<rparr>"
| "block_slots NOT =
     \<lparr>inputs = [(''in'', BOOLEAN)],
      outputs = [(''out'', BOOLEAN)]\<rparr>"
| "block_slots NUMERIC_SWITCH =
     \<lparr>inputs = [(''selector'', BOOLEAN), (''when_true'', NUMERIC), (''when_false'', NUMERIC)],
      outputs = [(''out'', NUMERIC)]\<rparr>"
| "block_slots BOOLEAN_SWITCH =
     \<lparr>inputs = [(''selector'', BOOLEAN), (''when_true'', BOOLEAN), (''when_false'', BOOLEAN)],
      outputs = [(''out'', BOOLEAN)]\<rparr>"
| "block_slots BOOLEAN_DELAY =
     \<lparr>inputs = [(''in'', BOOLEAN)],
      outputs = [(''out'', BOOLEAN)]\<rparr>"
| "block_slots ONE_SHOT =
     \<lparr>inputs = [(''in'', BOOLEAN)],
      outputs = [(''out'', BOOLEAN)]\<rparr>"
| "block_slots BOOLEAN_FALLING_EDGE =
     \<lparr>inputs = [(''in'', BOOLEAN)],
      outputs = [(''out'', BOOLEAN)]\<rparr>"
| "block_slots MOVING_AVERAGE =
     \<lparr>inputs = [(''in'', NUMERIC)],
      outputs = [(''out'', NUMERIC)]\<rparr>"
| "block_slots NUMERIC_SAMPLER =
     \<lparr>inputs = [(''in'', NUMERIC)],
      outputs = [(''out'', NUMERIC)]\<rparr>"
| "block_slots NUMERIC_FIRST_ORDER_HOLD =
     \<lparr>inputs = [(''in'', NUMERIC)],
      outputs = [(''out'', NUMERIC)]\<rparr>"
| "block_slots BOOLEAN_SAMPLE_TRIGGER =
     \<lparr>inputs = [],
      outputs = [(''out'', BOOLEAN)]\<rparr>"
| "block_slots NUMERIC_UNIT_DELAY =
     \<lparr>inputs = [(''in'', NUMERIC)],
      outputs = [(''out'', NUMERIC)]\<rparr>"
| "block_slots NUMERIC_CHANGED =
     \<lparr>inputs = [(''in'', NUMERIC)],
      outputs = [(''out'', BOOLEAN)]\<rparr>"
| "block_slots NUMERIC_INCREASED =
     \<lparr>inputs = [(''in'', NUMERIC)],
      outputs = [(''out'', BOOLEAN)]\<rparr>"
| "block_slots NUMERIC_DECREASED =
     \<lparr>inputs = [(''in'', NUMERIC)],
      outputs = [(''out'', BOOLEAN)]\<rparr>"
| "block_slots NUMERIC_ROUND =
     \<lparr>inputs = [(''in'', NUMERIC)],
      outputs = [(''out'', NUMERIC)]\<rparr>"
| "block_slots NUMERIC_LIMIT_SLEW_RATE =
     \<lparr>inputs = [(''in'', NUMERIC)],
      outputs = [(''out'', NUMERIC)]\<rparr>"
| "block_slots NUMERIC_INTEGRATOR_WITH_RESET =
     \<lparr>inputs = [(''in'', NUMERIC), (''reset_value'', NUMERIC), (''trigger'', BOOLEAN)],
      outputs = [(''out'', NUMERIC)]\<rparr>"
| "block_slots NUMERIC_ON_COUNTER =
     \<lparr>inputs = [(''trigger'', BOOLEAN), (''reset'', BOOLEAN)],
      outputs = [(''out'', NUMERIC)]\<rparr>"
| "block_slots WET_BULB_TEMPERATURE =
     \<lparr>inputs = [(''dry_bulb'', NUMERIC), (''relative_humidity'', NUMERIC)],
      outputs = [(''out'', NUMERIC)]\<rparr>"
| "block_slots NUMERIC_LATCH =
     \<lparr>inputs = [(''in'', NUMERIC), (''clock'', BOOLEAN)],
      outputs = [(''out'', NUMERIC)]\<rparr>"
| "block_slots BOOLEAN_LATCH =
     \<lparr>inputs = [(''in'', BOOLEAN), (''clock'', BOOLEAN)],
      outputs = [(''out'', BOOLEAN)]\<rparr>"
| "block_slots BOOLEAN_PRE_HOST_TICK =
     \<lparr>inputs = [(''in'', BOOLEAN)],
      outputs = [(''out'', BOOLEAN)]\<rparr>"
| "block_slots BOOLEAN_INITIALIZATION =
     \<lparr>inputs = [(''in'', BOOLEAN)],
      outputs = [(''out'', BOOLEAN)]\<rparr>"
| "block_slots BOOLEAN_SET_RESET =
     \<lparr>inputs = [(''set'', BOOLEAN), (''clear'', BOOLEAN)],
      outputs = [(''out'', BOOLEAN)]\<rparr>"
| "block_slots BOOLEAN_TRUE_FALSE_HOLD =
     \<lparr>inputs = [(''in'', BOOLEAN)],
      outputs = [(''out'', BOOLEAN)]\<rparr>"
| "block_slots HYSTERESIS =
     \<lparr>inputs = [(''in'', NUMERIC)],
      outputs = [(''out'', BOOLEAN)]\<rparr>"
| "block_slots TIMER =
     \<lparr>inputs = [(''in'', BOOLEAN)],
      outputs = [(''elapsed'', NUMERIC), (''passed'', BOOLEAN)]\<rparr>"
| "block_slots TIMER_WITH_RESET =
     \<lparr>inputs = [(''in'', BOOLEAN), (''reset'', BOOLEAN)],
      outputs = [(''elapsed'', NUMERIC), (''passed'', BOOLEAN)]\<rparr>"
| "block_slots TIMER_ACCUMULATING =
     \<lparr>inputs = [(''in'', BOOLEAN), (''reset'', BOOLEAN)],
      outputs = [(''elapsed'', NUMERIC), (''passed'', BOOLEAN)]\<rparr>"
| "block_slots BOOLEAN_ASSERT_WARNING =
     \<lparr>inputs = [(''condition'', BOOLEAN)],
      outputs = [(''ok'', BOOLEAN)]\<rparr>"
| "block_slots TRIM_AND_RESPOND =
     \<lparr>inputs = [(''request_count'', NUMERIC), (''device_on'', BOOLEAN)],
      outputs = [(''out'', NUMERIC)]\<rparr>"
| "block_slots TRIM_AND_RESPOND_HOLD =
     \<lparr>inputs = [(''request_count'', NUMERIC), (''device_on'', BOOLEAN), (''hold'', BOOLEAN)],
      outputs = [(''out'', NUMERIC)]\<rparr>"
| "block_slots RESET =
     \<lparr>inputs = [(''in'', NUMERIC), (''input_low'', NUMERIC), (''input_high'', NUMERIC), (''output_low'', NUMERIC), (''output_high'', NUMERIC)],
      outputs = [(''out'', NUMERIC)]\<rparr>"
| "block_slots PI_LOOP =
     \<lparr>inputs = [(''enable'', BOOLEAN), (''controlled_variable'', NUMERIC), (''setpoint'', NUMERIC), (''direct'', BOOLEAN)],
      outputs = [(''out'', NUMERIC)]\<rparr>"
| "block_slots PID_WITH_RESET =
     \<lparr>inputs = [(''setpoint'', NUMERIC), (''measurement'', NUMERIC), (''trigger'', BOOLEAN)],
      outputs = [(''out'', NUMERIC)]\<rparr>"
| "block_slots PLANT_EQUIPMENT_AVAILABILITY =
     \<lparr>inputs = [(''enableHeating'', BOOLEAN), (''enableCooling'', BOOLEAN), (''available'', BOOLEAN)],
      outputs = [(''heatingAvailable'', BOOLEAN), (''coolingAvailable'', BOOLEAN)]\<rparr>"
| "block_slots PLANT_ENABLE =
     \<lparr>inputs = [(''scheduleEnabled'', BOOLEAN), (''requestCount'', NUMERIC), (''outdoorTemperature'', NUMERIC)],
      outputs = [(''out'', BOOLEAN)]\<rparr>"
| "block_slots PLANT_HRC_ENABLE =
     \<lparr>inputs = [(''coolingPlantEnable'', BOOLEAN), (''heatingPlantEnable'', BOOLEAN), (''hrcStatus'', BOOLEAN), (''coolingLoad'', NUMERIC), (''heatingLoad'', NUMERIC), (''chilledLeavingTemperature'', NUMERIC), (''heatingLeavingTemperature'', NUMERIC), (''coolingMode'', BOOLEAN)],
      outputs = [(''enable'', BOOLEAN), (''setMode'', BOOLEAN)]\<rparr>"
| "block_slots PLANT_HRC_MODE_CONTROL =
     \<lparr>inputs = [(''setMode'', BOOLEAN), (''coolingLoad'', NUMERIC), (''heatingLoad'', NUMERIC), (''chilledSetpoint'', NUMERIC), (''heatingSetpoint'', NUMERIC)],
      outputs = [(''coolingMode'', BOOLEAN), (''supplySetpoint'', NUMERIC)]\<rparr>"
| "block_slots PLANT_STAGE_COMPLETION =
     \<lparr>inputs = [(''commandMask'', NUMERIC), (''statusMask'', NUMERIC), (''stage'', NUMERIC)],
      outputs = [(''inProgress'', BOOLEAN), (''completed'', BOOLEAN)]\<rparr>"
| "block_slots PLANT_STAGE_INDEX =
     \<lparr>inputs = [(''leadEnable'', BOOLEAN), (''stageUp'', BOOLEAN), (''stageDown'', BOOLEAN), (''availabilityMask'', NUMERIC)],
      outputs = [(''stage'', NUMERIC)]\<rparr>"

lemma slots_distinct:
  "distinct (map fst (inputs (block_slots k))) \<and> distinct (map fst (outputs (block_slots k)))"
  by (cases k) simp_all

text \<open>Every kind has an output, and no slot name has a dot.\<close>

lemma outputs_nonempty: "outputs (block_slots k) \<noteq> []"
  by (cases k) simp_all

lemma slot_no_dot:
  "s \<in> set (map fst (inputs (block_slots k))) \<union> set (map fst (outputs (block_slots k))) \<Longrightarrow> CHR ''.'' \<notin> set s"
  by (cases k) auto

end
