(* ===== verification/BlockConfig.thy ===== *)
theory BlockConfig
  imports Kinds
begin

text \<open>
  A block of the control graph and the configuration contract its kind declares
  (\<open>Block.validate_config\<close> in \<open>src/bactalk/domain.py\<close>).  Every check of the source is
  a definition of its own; \<open>validate_config\<close> runs them in the source's order, each
  guarded by the kinds it applies to.
\<close>

record block =
  bid :: string
  bkind :: block_kind
  blabel :: string
  bconfig :: config
  pos_x :: int
  pos_y :: int

section \<open>Checks shared by several kinds\<close>

definition okE :: "unit result" where
  "okE = Inr ()"

definition checks :: "unit result list \<Rightarrow> unit result" where
  "checks rs = foldE (\<lambda>r _. r) rs ()"

lemma checks_simps [simp]:
  "checks [] = Inr ()"
  "checks (r # rs) = bindE r (\<lambda>_. checks rs)"
  by (simp_all add: checks_def)

lemma checks_Inr_iff: "checks rs = Inr u \<longleftrightarrow> (\<forall>r \<in> set rs. r = Inr ())"
  by (induction rs) (auto simp: bindE_eq_Inr)

definition guarded :: "bool \<Rightarrow> unit result \<Rightarrow> unit result" where
  "guarded c r = (if c then r else okE)"

lemma guarded_simps [simp]: "guarded True r = r" "guarded False r = Inr ()"
  by (simp_all add: guarded_def okE_def)

definition config_opt :: "config \<Rightarrow> string \<Rightarrow> pyval" where
  "config_opt c k = cfg_get c k PNone"

definition need :: "bool \<Rightarrow> string \<Rightarrow> unit result" where
  "need c msg = raise_if (\<not> c) msg okE"

lemma need_Inr [simp]: "need c msg = Inr u \<longleftrightarrow> c"
  by (auto simp: need_def raise_if_def okE_def)

text \<open>\<open>if isinstance(v, bool) or not isinstance(v, (int, float))
  or not math.isfinite(float(v)) or not p(float(v)): raise\<close>\<close>

definition need_finite_that :: "(pyfloat \<Rightarrow> bool) \<Rightarrow> pyval \<Rightarrow> string \<Rightarrow> unit result" where
  "need_finite_that p v msg =
     bindE (finite_number v) (\<lambda>fin.
       if fin then bindE (py_float v) (\<lambda>x. need (p x) msg) else Inl (ValueError msg))"

definition need_finite :: "pyval \<Rightarrow> string \<Rightarrow> unit result" where
  "need_finite v msg = need_finite_that (\<lambda>_. True) v msg"

lemma need_finite_that_Inr:
  "need_finite_that p v msg = Inr u \<longleftrightarrow>
     is_number v \<and> (\<exists>x. py_float v = Inr x \<and> fisfinite x \<and> p x)"
  by (cases "py_float v")
     (auto simp: need_finite_that_def finite_number_def bindE_eq_Inr split: if_splits)

lemma need_finite_Inr:
  "need_finite v msg = Inr u \<longleftrightarrow> is_number v \<and> (\<exists>x. py_float v = Inr x \<and> fisfinite x)"
  by (simp add: need_finite_def need_finite_that_Inr)

lemmas need_iffs = need_Inr need_finite_that_Inr need_finite_Inr checks_Inr_iff

text \<open>Membership of a set display: an unhashable value raises.\<close>

definition in_names :: "pyval \<Rightarrow> string list \<Rightarrow> bool result" where
  "in_names v names = (case v of
       PList _ \<Rightarrow> Inl (TypeError ''unhashable type'')
     | PDict _ \<Rightarrow> Inl (TypeError ''unhashable type'')
     | PStr s \<Rightarrow> Inr (s \<in> set names)
     | _ \<Rightarrow> Inr False)"

text \<open>Numeric literals of the source.\<close>

definition lit_0 :: pyfloat where "lit_0 = Fin 0"
definition lit_1 :: pyfloat where "lit_1 = Fin 1"
definition lit :: "rat \<Rightarrow> pyfloat" where "lit q = rnd q"

definition msg_config :: "block_kind \<Rightarrow> string \<Rightarrow> string \<Rightarrow> string" where
  "msg_config k key tail = kind_value k @ '' config.'' @ key @ tail"

section \<open>One check per kind\<close>

text \<open>The pattern of \<open>niagara_override.type_spec\<close>: module name, colon, type name.\<close>

definition type_spec_ok :: "string \<Rightarrow> bool" where
  "type_spec_ok s =
     (let modl = takeWhile (\<lambda>c. c \<noteq> CHR '':'') s; rest = dropWhile (\<lambda>c. c \<noteq> CHR '':'') s;
          mch = (\<lambda>c. ident_char c \<or> c = CHR ''.'' \<or> c = CHR ''-'');
          tch = (\<lambda>c. mch c \<or> c = CHR ''$'') in
      case (modl, rest) of
        (m # ms, _ # t # ts) \<Rightarrow> ascii_alpha m \<and> list_all mch ms \<and> ascii_alpha t \<and> list_all tch ts
      | _ \<Rightarrow> False)"

definition check_override :: "config \<Rightarrow> unit result" where
  "check_override c = (case config_opt c ''niagara_override'' of
       PNone \<Rightarrow> okE
     | PDict d \<Rightarrow>
         raise_if (set (map fst d) \<noteq> {''type_spec''})
           ''niagara_override requires exactly one type_spec field''
           (case map_of d ''type_spec'' of
              Some (PStr s) \<Rightarrow> need (type_spec_ok s) ''niagara_override.type_spec is invalid''
            | _ \<Rightarrow> Inl (ValueError ''niagara_override.type_spec is invalid''))
     | _ \<Rightarrow> Inl (ValueError ''niagara_override requires exactly one type_spec field''))"

definition check_numeric_const :: "config \<Rightarrow> unit result" where
  "check_numeric_const c =
     need (is_number (config_opt c ''value'')) ''numeric_const requires a numeric config.value''"

definition check_boolean_const :: "config \<Rightarrow> unit result" where
  "check_boolean_const c =
     need (is_bool (config_opt c ''value'')) ''boolean_const requires a boolean config.value''"

definition check_numeric_input :: "config \<Rightarrow> unit result" where
  "check_numeric_input c = (case map_of c ''default'' of
       None \<Rightarrow> okE
     | Some v \<Rightarrow> need (is_number v) ''numeric_input config.default must be numeric'')"

definition check_boolean_input :: "config \<Rightarrow> unit result" where
  "check_boolean_input c = (case map_of c ''default'' of
       None \<Rightarrow> okE
     | Some v \<Rightarrow> need (is_bool v) ''boolean_input config.default must be boolean'')"

definition check_boolean_delay :: "config \<Rightarrow> unit result" where
  "check_boolean_delay c = checks
     (map (\<lambda>key. let v = cfg_get c key (PFloat lit_0) in
             need (is_number v \<and> \<not> fless (exact_num v) lit_0)
               (''boolean_delay config.'' @ key @ '' must be non-negative numeric''))
        [''on_delay_seconds'', ''off_delay_seconds'']
      @ [need (is_bool (cfg_get c ''delay_on_init'' (PBool True)))
           ''boolean_delay config.delay_on_init must be boolean''])"

definition check_falling_edge :: "config \<Rightarrow> unit result" where
  "check_falling_edge c =
     need (is_bool (cfg_get c ''pre_u_start'' (PBool False)))
       ''boolean_falling_edge config.pre_u_start must be boolean''"

definition check_numeric_latch :: "config \<Rightarrow> unit result" where
  "check_numeric_latch c =
     need (is_number (cfg_get c ''initial'' (PFloat lit_0)))
       ''numeric_latch config.initial must be numeric''"

definition check_boolean_latch :: "config \<Rightarrow> unit result" where
  "check_boolean_latch c =
     need (is_bool (cfg_get c ''initial'' (PBool False)))
       ''boolean_latch config.initial must be boolean''"

definition check_boolean_initialization :: "config \<Rightarrow> unit result" where
  "check_boolean_initialization c =
     need (is_bool (cfg_get c ''initial'' (PBool False)))
       ''boolean_initialization config.initial must be boolean''"

definition check_hysteresis :: "config \<Rightarrow> unit result" where
  "check_hysteresis c =
     (let low = config_opt c ''u_low''; high = config_opt c ''u_high'' in
      checks
       [need_finite low ''hysteresis config.u_low must be finite numeric'',
        need_finite high ''hysteresis config.u_high must be finite numeric'',
        bindE (py_float high) (\<lambda>h. bindE (py_float low) (\<lambda>l.
          need (\<not> fle h l) ''hysteresis u_high must be greater than u_low'')),
        need (is_bool (cfg_get c ''initial'' (PBool False)))
          ''hysteresis config.initial must be boolean''])"

definition check_timer :: "config \<Rightarrow> unit result" where
  "check_timer c =
     need_finite (cfg_get c ''threshold_seconds'' (PFloat lit_0))
       ''timer config.threshold_seconds must be finite numeric''"

definition check_assert_warning :: "config \<Rightarrow> unit result" where
  "check_assert_warning c = (case config_opt c ''message'' of
       PStr s \<Rightarrow> need (1 \<le> length s \<and> length s \<le> 2000)
         ''boolean_assert_warning config.message must be 1 through 2000 characters''
     | _ \<Rightarrow> Inl (ValueError
         ''boolean_assert_warning config.message must be 1 through 2000 characters''))"

definition check_true_false_hold :: "config \<Rightarrow> unit result" where
  "check_true_false_hold c = checks
     (map (\<lambda>key. need_finite (config_opt c key)
             (''boolean_true_false_hold config.'' @ key @ '' must be finite numeric''))
        [''true_hold_seconds'', ''false_hold_seconds''])"

text \<open>The nine keys of trim and respond, in sorted order.\<close>

definition trim_required :: "string list" where
  "trim_required =
     [''delay_seconds'', ''ignored_requests'', ''initial_setpoint'', ''maximum_response'',
      ''maximum_setpoint'', ''minimum_setpoint'', ''respond_amount'', ''sample_period_seconds'',
      ''trim_amount'']"

fun join_comma :: "string list \<Rightarrow> string" where
  "join_comma [] = ''''"
| "join_comma [s] = s"
| "join_comma (s # ss) = s @ '', '' @ join_comma ss"

definition trim_value :: "config \<Rightarrow> string \<Rightarrow> pyfloat" where
  "trim_value c key = (case py_float (config_opt c key) of Inr x \<Rightarrow> x | Inl _ \<Rightarrow> NaN)"

text \<open>A numeric value that is present reads the same everywhere.\<close>

lemma required_value:
  "is_number (config_opt c key) \<Longrightarrow> py_float (config_opt c key) = Inr x \<Longrightarrow>
     cfg_float_req c key = Inr x \<and> trim_value c key = x"
  by (auto simp: trim_value_def config_opt_def cfg_get_def cfg_float_req_def dict_get_def split: option.splits)

definition check_trim_and_respond :: "bool \<Rightarrow> config \<Rightarrow> unit result" where
  "check_trim_and_respond expected_hold c =
     (let missing = filter (\<lambda>k. map_of c k = None) trim_required; v = trim_value c in
      checks
       ([raise_if (missing \<noteq> []) (''trim_and_respond missing config: '' @ join_comma missing) okE]
        @ map (\<lambda>key. need_finite (config_opt c key)
                 (''trim_and_respond config.'' @ key @ '' must be finite numeric'')) trim_required
        @ [need (\<not> fless (v ''sample_period_seconds'') (lit (1 / 1000)))
             ''trim_and_respond sample_period_seconds must be at least 0.001'',
           need (\<not> fless (v ''delay_seconds'') lit_0)
             ''trim_and_respond delay_seconds must be non-negative'',
           need (\<not> fless (v ''ignored_requests'') lit_0)
             ''trim_and_respond ignored_requests must be non-negative'',
           need (fle (v ''minimum_setpoint'') (v ''initial_setpoint'')
                 \<and> fle (v ''initial_setpoint'') (v ''maximum_setpoint''))
             ''trim_and_respond setpoints must satisfy minimum <= initial <= maximum'',
           need (\<not> fle lit_0 (fmul (v ''trim_amount'') (v ''respond_amount'')))
             ''trim_and_respond trim_amount and respond_amount must have opposite signs'',
           need (\<not> fle (fmul (v ''respond_amount'') (v ''maximum_response'')) lit_0)
             ''trim_and_respond respond_amount and maximum_response must have the same sign'',
           need (cfg_get c ''hold_enabled'' (PBool False) = PBool expected_hold)
             ''trim_and_respond hold_enabled must match its typed block kind'',
           guarded expected_hold
             (need_finite_that (\<lambda>x. \<not> fless x lit_0) (config_opt c ''hold_duration_seconds'')
               ''trim_and_respond_hold config.hold_duration_seconds must be finite and non-negative'')]))"

definition check_pi_loop :: "config \<Rightarrow> unit result" where
  "check_pi_loop c = checks
     (map (\<lambda>key. need (is_number (cfg_get c key (PFloat lit_0)))
             (''pi_loop config.'' @ key @ '' must be numeric''))
        [''proportional_constant'', ''integral_constant'', ''output_min'', ''output_max'', ''bias'']
      @ [bindE (cfg_float c ''proportional_constant'' lit_0) (\<lambda>x.
           need (\<not> fless x lit_0) ''pi_loop proportional_constant must be non-negative''),
         bindE (cfg_float c ''integral_constant'' lit_0) (\<lambda>x.
           need (\<not> fless x lit_0) ''pi_loop integral_constant must be non-negative''),
         bindE (cfg_float c ''output_min'' lit_0) (\<lambda>lo.
         bindE (cfg_float c ''output_max'' (Fin 100)) (\<lambda>hi.
           need (\<not> fle hi lo) ''pi_loop output_min must be below output_max''))])"

definition check_pid_with_reset :: "config \<Rightarrow> unit result" where
  "check_pid_with_reset c = checks
     ([bindE (in_names (cfg_get c ''controller_type'' (PStr ''PI'')) [''P'', ''PI'', ''PD'', ''PID''])
         (\<lambda>b. need b ''pid_with_reset controller_type must be P, PI, PD, or PID'')]
      @ map (\<lambda>(key, d). need_finite_that (\<lambda>x. \<not> fless x (lit (1 / 10 ^ 13))) (cfg_get c key (PFloat d))
               (''pid_with_reset config.'' @ key @ '' must be finite and >= 1e-13''))
          [(''k'', lit_1), (''ti'', lit (1 / 2)), (''td'', lit (1 / 10)), (''r'', lit_1),
           (''ni'', lit (9 / 10)), (''nd'', Fin 10)]
      @ map (\<lambda>(key, d). need_finite (cfg_get c key d)
               (''pid_with_reset config.'' @ key @ '' must be finite numeric''))
          [(''y_min'', PFloat lit_0), (''y_max'', PFloat lit_1), (''xi_start'', PFloat lit_0),
           (''yd_start'', PFloat lit_0), (''y_reset'', cfg_get c ''xi_start'' (PFloat lit_0))]
      @ [bindE (cfg_float c ''y_min'' lit_0) (\<lambda>lo.
         bindE (cfg_float c ''y_max'' lit_1) (\<lambda>hi.
           need (\<not> fle hi lo) ''pid_with_reset y_min must be below y_max'')),
         need (is_bool (cfg_get c ''reverse_acting'' (PBool True)))
           ''pid_with_reset reverse_acting must be boolean''])"

definition contract_of :: "config \<Rightarrow> string \<Rightarrow> bool" where
  "contract_of c name \<longleftrightarrow> py_eq (config_opt c ''semantic_contract'') (PStr name)"

definition check_plant_equipment_availability :: "config \<Rightarrow> unit result" where
  "check_plant_equipment_availability c = checks
     ([need (contract_of c ''Buildings.Templates.Plants.Controls.StagingRotation.EquipmentAvailability'')
         ''plant_equipment_availability requires its pinned semantic contract'',
       (let duration = config_opt c ''off_time_seconds'' in
        bindE (finite_number duration) (\<lambda>fin.
          need (fin \<and> \<not> fless (exact_num duration) lit_0)
            ''plant_equipment_availability config.off_time_seconds must be non-negative finite numeric''))]
      @ map (\<lambda>name. need (is_bool (config_opt c name))
               (''plant_equipment_availability config.'' @ name @ '' must be Boolean''))
          [''have_heating'', ''have_cooling'']
      @ [bindE (dict_get c ''have_heating'') (\<lambda>h.
         bindE (dict_get c ''have_cooling'') (\<lambda>k.
           need (truthy h \<or> truthy k)
             ''plant_equipment_availability requires at least one active loop''))])"

text \<open>One row of the schedule: two finite numbers, the times monotonic, the flag 0 or 1.
  The state of the loop is the previous time.\<close>

definition schedule_row_ok :: "pyval \<Rightarrow> pyfloat \<Rightarrow> pyfloat result" where
  "schedule_row_ok row previous =
     (let bad = Inl (ValueError ''plant_enable config.schedule requires monotonic [time, 0|1] rows'') in
      case row of
        PList [t, f] \<Rightarrow>
          bindE (finite_number t) (\<lambda>tok. if \<not> tok then bad else
          bindE (finite_number f) (\<lambda>fok. if \<not> fok then bad else
          bindE (py_float t) (\<lambda>tv.
          bindE (py_float f) (\<lambda>fv.
            if fless tv previous \<or> \<not> (feq fv lit_0 \<or> feq fv lit_1) then bad else Inr tv))))
      | _ \<Rightarrow> bad)"

definition check_plant_enable :: "config \<Rightarrow> unit result" where
  "check_plant_enable c = checks
     ([need (contract_of c ''Buildings.Templates.Plants.Controls.Enabling.Enable'')
         ''plant_enable requires its pinned semantic contract'',
       bindE (in_names (config_opt c ''application'') [''Heating'', ''Cooling''])
         (\<lambda>b. need b ''plant_enable config.application must be Heating or Cooling''),
       need (is_bool (config_opt c ''have_input_schedule''))
         ''plant_enable config.have_input_schedule must be Boolean'']
      @ map (\<lambda>name. need_finite_that (\<lambda>x. \<not> fless x lit_0) (config_opt c name)
               (''plant_enable config.'' @ name @ '' must be non-negative finite''))
          [''outdoor_lockout'', ''outdoor_lockout_hysteresis'', ''minimum_state_time_seconds'',
           ''low_request_time_seconds'']
      @ [need (case config_opt c ''ignored_requests'' of PInt n \<Rightarrow> 0 \<le> n | _ \<Rightarrow> False)
           ''plant_enable config.ignored_requests must be non-negative Integer'',
         (case config_opt c ''schedule'' of
            PList rows \<Rightarrow>
              raise_if (length rows < 2) ''plant_enable config.schedule requires at least two rows''
                (mapE (\<lambda>_. ()) (foldE schedule_row_ok rows NInf))
          | _ \<Rightarrow> Inl (ValueError ''plant_enable config.schedule requires at least two rows''))])"

definition check_plant_hrc_mode_control :: "config \<Rightarrow> unit result" where
  "check_plant_hrc_mode_control c = checks
     [need (contract_of c ''Buildings.Templates.Plants.Controls.HeatRecoveryChillers.ModeControl'')
        ''plant_hrc_mode_control requires its pinned contract'',
      need_finite_that (\<lambda>x. \<not> fless x (lit (11 / 10))) (config_opt c ''heating_cop'')
        ''plant_hrc_mode_control heating_cop must be >= 1.1'']"

text \<open>\<open>273.15 if "supply_temperature" in name else 0.0\<close>.\<close>

definition check_plant_hrc_enable :: "config \<Rightarrow> unit result" where
  "check_plant_hrc_enable c = checks
     (need (contract_of c ''Buildings.Templates.Plants.Controls.HeatRecoveryChillers.Enable'')
        ''plant_hrc_enable requires its pinned contract''
      # map (\<lambda>(name, lowest, text). need_finite_that (\<lambda>x. \<not> fless x lowest) (config_opt c name)
               (''plant_hrc_enable config.'' @ name @ '' must be finite and >= '' @ text))
          [(''minimum_chilled_supply_temperature'', lit (27315 / 100), ''273.15''),
           (''maximum_heating_supply_temperature'', lit (27315 / 100), ''273.15''),
           (''minimum_cooling_capacity'', lit_0, ''0.0''),
           (''minimum_heating_capacity'', lit_0, ''0.0''),
           (''minimum_state_time_seconds'', lit_0, ''0.0''),
           (''sufficient_load_time_seconds'', lit_0, ''0.0''),
           (''temperature_limit_1_time_seconds'', lit_0, ''0.0''),
           (''temperature_limit_2_time_seconds'', lit_0, ''0.0'')])"

definition check_count :: "pyval \<Rightarrow> bool" where
  "check_count v = (case v of PInt n \<Rightarrow> 1 \<le> n \<and> n \<le> 52 | _ \<Rightarrow> False)"

definition check_plant_stage_completion :: "config \<Rightarrow> unit result" where
  "check_plant_stage_completion c = checks
     [need (contract_of c ''Buildings.Templates.Plants.Controls.StagingRotation.StageCompletion'')
        ''plant_stage_completion requires its pinned contract'',
      need (check_count (config_opt c ''equipment_count''))
        ''plant_stage_completion config.equipment_count must be 1 through 52'']"

definition check_plant_stage_index :: "config \<Rightarrow> unit result" where
  "check_plant_stage_index c = checks
     [need (contract_of c ''Buildings.Templates.Plants.Controls.Utilities.StageIndex'')
        ''plant_stage_index requires its pinned contract'',
      need (check_count (config_opt c ''stage_count''))
        ''plant_stage_index config.stage_count must be 1 through 52'',
      need_finite_that (\<lambda>x. \<not> fless x lit_0) (config_opt c ''minimum_runtime_seconds'')
        ''plant_stage_index config.minimum_runtime_seconds must be non-negative finite'']"

definition check_integrator :: "config \<Rightarrow> unit result" where
  "check_integrator c = checks
     (map (\<lambda>(key, d). need_finite (cfg_get c key (PFloat d))
             (''numeric_integrator_with_reset config.'' @ key @ '' must be finite numeric''))
        [(''gain'', lit_1), (''initial'', lit_0)])"

definition check_on_counter :: "config \<Rightarrow> unit result" where
  "check_on_counter c =
     (let v = cfg_get c ''initial'' (PInt 0); msg = ''numeric_on_counter config.initial must be an integer'' in
      if is_number v then bindE (py_float v) (\<lambda>x. need (fis_integer x) msg) else Inl (ValueError msg))"

definition check_slew_rate :: "config \<Rightarrow> unit result" where
  "check_slew_rate c =
     (let v = trim_value c in checks
      (map (\<lambda>key. need_finite (config_opt c key)
              (''numeric_limit_slew_rate config.'' @ key @ '' must be finite numeric''))
         [''raising_slew_rate'', ''falling_slew_rate'', ''td_seconds'']
       @ [need (\<not> fle (v ''raising_slew_rate'') lit_0)
            ''numeric_limit_slew_rate raising_slew_rate must be positive'',
          need (\<not> fle lit_0 (v ''falling_slew_rate''))
            ''numeric_limit_slew_rate falling_slew_rate must be negative'',
          need (\<not> fle (v ''td_seconds'') lit_0)
            ''numeric_limit_slew_rate td_seconds must be positive'',
          need (is_bool (cfg_get c ''enable'' (PBool True)))
            ''numeric_limit_slew_rate config.enable must be boolean'']))"

definition check_moving_average :: "config \<Rightarrow> unit result" where
  "check_moving_average c =
     (let v = config_opt c ''window_seconds'' in
      need (is_number v \<and> \<not> fle (exact_num v) lit_0)
        ''moving_average config.window_seconds must be positive numeric'')"

definition check_sample_period :: "block_kind \<Rightarrow> config \<Rightarrow> unit result" where
  "check_sample_period k c =
     (let v = config_opt c ''sample_period_seconds'' in
      need (is_number v \<and> \<not> fless (exact_num v) (lit (1 / 1000)))
        (msg_config k ''sample_period_seconds'' '' must be at least 0.001''))"

definition check_sample_trigger :: "config \<Rightarrow> unit result" where
  "check_sample_trigger c =
     (let period = config_opt c ''period_seconds''; shift = config_opt c ''shift_seconds'' in
      checks
       [bindE (finite_number period) (\<lambda>fin. need (fin \<and> \<not> fle (exact_num period) lit_0)
          ''boolean_sample_trigger config.period_seconds must be positive finite''),
        need_finite shift ''boolean_sample_trigger config.shift_seconds must be finite''])"

definition check_initial_number :: "block_kind \<Rightarrow> config \<Rightarrow> unit result" where
  "check_initial_number k c =
     need (is_number (cfg_get c ''initial'' (PFloat lit_0)))
       (msg_config k ''initial'' '' must be numeric'')"

section \<open>The validator\<close>

definition validate_config :: "block \<Rightarrow> unit result" where
  "validate_config b =
     (let k = bkind b; c = bconfig b in checks
      [check_override c,
       guarded (k = NUMERIC_CONST) (check_numeric_const c),
       guarded (k = BOOLEAN_CONST) (check_boolean_const c),
       guarded (k = NUMERIC_INPUT) (check_numeric_input c),
       guarded (k = BOOLEAN_INPUT) (check_boolean_input c),
       guarded (k = BOOLEAN_DELAY) (check_boolean_delay c),
       guarded (k = BOOLEAN_FALLING_EDGE) (check_falling_edge c),
       guarded (k = NUMERIC_LATCH) (check_numeric_latch c),
       guarded (k = BOOLEAN_LATCH) (check_boolean_latch c),
       guarded (k = BOOLEAN_INITIALIZATION) (check_boolean_initialization c),
       guarded (k = HYSTERESIS) (check_hysteresis c),
       guarded (k \<in> {TIMER, TIMER_WITH_RESET, TIMER_ACCUMULATING}) (check_timer c),
       guarded (k = BOOLEAN_ASSERT_WARNING) (check_assert_warning c),
       guarded (k = BOOLEAN_TRUE_FALSE_HOLD) (check_true_false_hold c),
       guarded (k \<in> {TRIM_AND_RESPOND, TRIM_AND_RESPOND_HOLD})
         (check_trim_and_respond (k = TRIM_AND_RESPOND_HOLD) c),
       guarded (k = PI_LOOP) (check_pi_loop c),
       guarded (k = PID_WITH_RESET) (check_pid_with_reset c),
       guarded (k = PLANT_EQUIPMENT_AVAILABILITY) (check_plant_equipment_availability c),
       guarded (k = PLANT_ENABLE) (check_plant_enable c),
       guarded (k = PLANT_HRC_MODE_CONTROL) (check_plant_hrc_mode_control c),
       guarded (k = PLANT_HRC_ENABLE) (check_plant_hrc_enable c),
       guarded (k = PLANT_STAGE_COMPLETION) (check_plant_stage_completion c),
       guarded (k = PLANT_STAGE_INDEX) (check_plant_stage_index c),
       guarded (k = NUMERIC_INTEGRATOR_WITH_RESET) (check_integrator c),
       guarded (k = NUMERIC_ON_COUNTER) (check_on_counter c),
       guarded (k = NUMERIC_LIMIT_SLEW_RATE) (check_slew_rate c),
       guarded (k = MOVING_AVERAGE) (check_moving_average c),
       guarded (k \<in> {NUMERIC_SAMPLER, NUMERIC_FIRST_ORDER_HOLD, NUMERIC_UNIT_DELAY})
         (check_sample_period k c),
       guarded (k = BOOLEAN_SAMPLE_TRIGGER) (check_sample_trigger c),
       guarded (k \<in> {NUMERIC_UNIT_DELAY, NUMERIC_CHANGED, NUMERIC_INCREASED, NUMERIC_DECREASED})
         (check_initial_number k c)])"

text \<open>The block as the model accepts it: its id matches the schema's pattern and its
  configuration passes.\<close>

definition block_ok :: "block \<Rightarrow> bool" where
  "block_ok b \<longleftrightarrow> is_ident (bid b) \<and> validate_config b = Inr ()"

lemma validate_configD:
  assumes "validate_config b = Inr ()"
  shows "bkind b = NUMERIC_CONST \<Longrightarrow> check_numeric_const (bconfig b) = Inr ()"
    and "bkind b = BOOLEAN_CONST \<Longrightarrow> check_boolean_const (bconfig b) = Inr ()"
    and "bkind b = NUMERIC_INPUT \<Longrightarrow> check_numeric_input (bconfig b) = Inr ()"
    and "bkind b = BOOLEAN_INPUT \<Longrightarrow> check_boolean_input (bconfig b) = Inr ()"
    and "bkind b = BOOLEAN_DELAY \<Longrightarrow> check_boolean_delay (bconfig b) = Inr ()"
    and "bkind b = NUMERIC_LATCH \<Longrightarrow> check_numeric_latch (bconfig b) = Inr ()"
    and "bkind b = BOOLEAN_LATCH \<Longrightarrow> check_boolean_latch (bconfig b) = Inr ()"
    and "bkind b = HYSTERESIS \<Longrightarrow> check_hysteresis (bconfig b) = Inr ()"
    and "bkind b \<in> {TIMER, TIMER_WITH_RESET, TIMER_ACCUMULATING} \<Longrightarrow> check_timer (bconfig b) = Inr ()"
    and "bkind b = BOOLEAN_ASSERT_WARNING \<Longrightarrow> check_assert_warning (bconfig b) = Inr ()"
    and "bkind b = BOOLEAN_TRUE_FALSE_HOLD \<Longrightarrow> check_true_false_hold (bconfig b) = Inr ()"
    and "bkind b \<in> {TRIM_AND_RESPOND, TRIM_AND_RESPOND_HOLD} \<Longrightarrow>
           check_trim_and_respond (bkind b = TRIM_AND_RESPOND_HOLD) (bconfig b) = Inr ()"
    and "bkind b = PI_LOOP \<Longrightarrow> check_pi_loop (bconfig b) = Inr ()"
    and "bkind b = PID_WITH_RESET \<Longrightarrow> check_pid_with_reset (bconfig b) = Inr ()"
    and "bkind b = PLANT_EQUIPMENT_AVAILABILITY \<Longrightarrow>
           check_plant_equipment_availability (bconfig b) = Inr ()"
    and "bkind b = PLANT_ENABLE \<Longrightarrow> check_plant_enable (bconfig b) = Inr ()"
    and "bkind b = PLANT_HRC_MODE_CONTROL \<Longrightarrow> check_plant_hrc_mode_control (bconfig b) = Inr ()"
    and "bkind b = PLANT_HRC_ENABLE \<Longrightarrow> check_plant_hrc_enable (bconfig b) = Inr ()"
    and "bkind b = PLANT_STAGE_COMPLETION \<Longrightarrow> check_plant_stage_completion (bconfig b) = Inr ()"
    and "bkind b = PLANT_STAGE_INDEX \<Longrightarrow> check_plant_stage_index (bconfig b) = Inr ()"
    and "bkind b = NUMERIC_INTEGRATOR_WITH_RESET \<Longrightarrow> check_integrator (bconfig b) = Inr ()"
    and "bkind b = NUMERIC_ON_COUNTER \<Longrightarrow> check_on_counter (bconfig b) = Inr ()"
    and "bkind b = NUMERIC_LIMIT_SLEW_RATE \<Longrightarrow> check_slew_rate (bconfig b) = Inr ()"
    and "bkind b = MOVING_AVERAGE \<Longrightarrow> check_moving_average (bconfig b) = Inr ()"
    and "bkind b \<in> {NUMERIC_SAMPLER, NUMERIC_FIRST_ORDER_HOLD, NUMERIC_UNIT_DELAY} \<Longrightarrow>
           check_sample_period (bkind b) (bconfig b) = Inr ()"
    and "bkind b = BOOLEAN_SAMPLE_TRIGGER \<Longrightarrow> check_sample_trigger (bconfig b) = Inr ()"
    and "bkind b \<in> {NUMERIC_UNIT_DELAY, NUMERIC_CHANGED, NUMERIC_INCREASED, NUMERIC_DECREASED} \<Longrightarrow>
           check_initial_number (bkind b) (bconfig b) = Inr ()"
  using assms by (auto simp: validate_config_def Let_def bindE_eq_Inr)

end
