(* ===== verification/Kernel.thy ===== *)
theory Kernel
  imports BlockConfig
begin

text \<open>
  What every block of the interpreter has in common: it reads typed arguments, may keep a
  state of its own between scans, and yields one value or a dictionary of values.  The
  contract \<open>typed_kernel\<close> says that a kernel whose configuration was validated, fed with
  arguments of the types its slots declare, never fails with a lookup or typing
  exception, yields values of the declared types and keeps its state invariant.  The
  kernels themselves are in the theories that follow.
\<close>

section \<open>Arguments, results and time\<close>

type_synonym args = "pyval dict"

datatype outcome = Single pyval | Multi "pyval dict"

record clock =
  now :: pyfloat
  step_seconds :: pyfloat

text \<open>\<open>self._number(args[slot])\<close> and \<open>bool(args[slot])\<close>.\<close>

definition number_arg :: "args \<Rightarrow> string \<Rightarrow> pyfloat result" where
  "number_arg args slot = bindE (dict_get args slot) number_of"

definition bool_arg :: "args \<Rightarrow> string \<Rightarrow> bool result" where
  "bool_arg args slot = mapE truthy (dict_get args slot)"

type_synonym 's kernel = "config \<Rightarrow> clock \<Rightarrow> args \<Rightarrow> 's option \<Rightarrow> (outcome \<times> 's) result"

text \<open>\<open>self.state.setdefault(id, initial)\<close>.\<close>

definition setdefault :: "'s option \<Rightarrow> 's \<Rightarrow> 's" where
  "setdefault s i = (case s of None \<Rightarrow> i | Some st \<Rightarrow> st)"

lemma setdefault_simps [simp]: "setdefault None i = i" "setdefault (Some s) i = s"
  by (simp_all add: setdefault_def)

text \<open>An answer and the state left behind.\<close>

definition answer :: "pyval \<Rightarrow> 's \<Rightarrow> (outcome \<times> 's) result" where
  "answer v s = Inr (Single v, s)"

definition answers :: "pyval dict \<Rightarrow> 's \<Rightarrow> (outcome \<times> 's) result" where
  "answers vs s = Inr (Multi vs, s)"

section \<open>Typing\<close>

fun has_type :: "data_type \<Rightarrow> pyval \<Rightarrow> bool" where
  "has_type NUMERIC v = is_number v"
| "has_type BOOLEAN v = is_bool v"

definition args_typed :: "block_kind \<Rightarrow> args \<Rightarrow> bool" where
  "args_typed k args \<longleftrightarrow>
     list_all (\<lambda>(slot, t). case map_of args slot of None \<Rightarrow> False | Some v \<Rightarrow> has_type t v)
       (inputs (block_slots k))"

definition dict_typed :: "data_type dict \<Rightarrow> pyval dict \<Rightarrow> bool" where
  "dict_typed ts vs \<longleftrightarrow> list_all2 (\<lambda>(slot, t) (slot', v). slot' = slot \<and> has_type t v) ts vs"

text \<open>A single value answers the slot \<open>out\<close>; a dictionary lists the declared outputs.\<close>

definition outcome_typed :: "block_kind \<Rightarrow> outcome \<Rightarrow> bool" where
  "outcome_typed k r = (case r of
       Single v \<Rightarrow> (case outputs (block_slots k) of
                      [(slot, t)] \<Rightarrow> slot = ''out'' \<and> has_type t v | _ \<Rightarrow> False)
     | Multi vs \<Rightarrow> dict_typed (outputs (block_slots k)) vs)"

lemma args_typedD:
  "args_typed k args \<Longrightarrow> (slot, t) \<in> set (inputs (block_slots k)) \<Longrightarrow>
     \<exists>v. map_of args slot = Some v \<and> has_type t v"
  by (fastforce simp: args_typed_def list_all_iff split: option.splits)

definition numeric_slot :: "args \<Rightarrow> string \<Rightarrow> bool" where
  "numeric_slot args slot \<longleftrightarrow> (\<exists>v. map_of args slot = Some v \<and> is_number v)"

definition boolean_slot :: "args \<Rightarrow> string \<Rightarrow> bool" where
  "boolean_slot args slot \<longleftrightarrow> (\<exists>v. map_of args slot = Some v \<and> is_bool v)"

lemma slot_typed_iff:
  "(case map_of args slot of None \<Rightarrow> False | Some v \<Rightarrow> has_type t v) =
     (case t of NUMERIC \<Rightarrow> numeric_slot args slot | BOOLEAN \<Rightarrow> boolean_slot args slot)"
  by (cases t) (simp_all add: numeric_slot_def boolean_slot_def split: option.splits)

lemma args_typed_iff:
  "args_typed k args \<longleftrightarrow> list_all (\<lambda>(slot, t).
     case t of NUMERIC \<Rightarrow> numeric_slot args slot | BOOLEAN \<Rightarrow> boolean_slot args slot)
     (inputs (block_slots k))"
  by (simp add: args_typed_def slot_typed_iff)

section \<open>Compositional rules for \<^const>\<open>soundE\<close>\<close>

text \<open>
  The rules are directed by the head of the term: a let-bound value, a branch or the
  result of a sound step is generalised, because typing does not depend on it.
\<close>

named_theorems sound_rules \<open>introduction rules for soundE\<close>
named_theorems config_rules \<open>what an accepted configuration provides\<close>

lemma sound_bind_any [sound_rules]:
  "soundE (\<lambda>_. True) m \<Longrightarrow> (\<And>x. soundE P (k x)) \<Longrightarrow> soundE P (bindE m k)"
  by (cases m) simp_all

lemma sound_let [sound_rules]: "(\<And>x. soundE P (f x)) \<Longrightarrow> soundE P (let x = v in f x)"
  by simp

lemma sound_if [sound_rules]:
  "(b \<Longrightarrow> soundE P x) \<Longrightarrow> (\<not> b \<Longrightarrow> soundE P y) \<Longrightarrow> soundE P (if b then x else y)"
  by simp

lemma sound_pair [sound_rules]: "(\<And>x y. soundE P (f x y)) \<Longrightarrow> soundE P (case p of (x, y) \<Rightarrow> f x y)"
  by (cases p) simp

lemma sound_option [sound_rules]:
  "soundE P a \<Longrightarrow> (\<And>x. soundE P (f x)) \<Longrightarrow> soundE P (case m of None \<Rightarrow> a | Some x \<Rightarrow> f x)"
  by (cases m) simp_all

lemma sound_mapE_any [sound_rules]: "soundE (\<lambda>_. True) m \<Longrightarrow> soundE (\<lambda>_. True) (mapE f m)"
  by (cases m) simp_all

lemma sound_value [sound_rules]: "soundE (\<lambda>_. True) (Inr x)"
  by simp

lemma sound_value_error [sound_rules]: "soundE P (Inl (ValueError s))"
  by simp

lemma sound_fdiv [sound_rules]: "soundE (\<lambda>_. True) (fdiv a b)"
  by (simp add: fdiv_def Let_def)

lemma sound_fmod [sound_rules]: "soundE (\<lambda>_. True) (fmod a b)"
  by (simp add: fmod_def Let_def)

lemma sound_to_int_with: "soundE (\<lambda>_. True) (to_int_with f a)"
  by (cases a) simp_all

lemma sound_ffloor [sound_rules]: "soundE (\<lambda>_. True) (ffloor a)"
  by (simp add: ffloor_def sound_to_int_with)

lemma sound_fceil [sound_rules]: "soundE (\<lambda>_. True) (fceil a)"
  by (simp add: fceil_def sound_to_int_with)

lemma sound_ftrunc [sound_rules]: "soundE (\<lambda>_. True) (ftrunc a)"
  by (simp add: ftrunc_def sound_to_int_with)

lemma sound_float_of_int [sound_rules]: "soundE (\<lambda>_. True) (float_of_int n)"
  by simp

lemma sound_number_arg [sound_rules]: "numeric_slot args slot \<Longrightarrow> soundE (\<lambda>_. True) (number_arg args slot)"
  by (auto simp: number_arg_def numeric_slot_def dict_get_def soundE_number_of)

lemma sound_bool_arg [sound_rules]: "boolean_slot args slot \<Longrightarrow> soundE (\<lambda>_. True) (bool_arg args slot)"
  by (auto simp: bool_arg_def boolean_slot_def dict_get_def)

lemma sound_answer [sound_rules]:
  "outcome_typed k (Single v) \<Longrightarrow> I s \<Longrightarrow> soundE (\<lambda>(r, s'). outcome_typed k r \<and> I s') (answer v s)"
  by (simp add: answer_def)

lemma sound_answers [sound_rules]:
  "outcome_typed k (Multi vs) \<Longrightarrow> I s \<Longrightarrow> soundE (\<lambda>(r, s'). outcome_typed k r \<and> I s') (answers vs s)"
  by (simp add: answers_def)

lemma sound_answer_any [sound_rules]:
  "outcome_typed k (Single v) \<Longrightarrow> soundE (\<lambda>(r, s'). outcome_typed k r) (answer v s)"
  by (simp add: answer_def)

lemma sound_answers_any [sound_rules]:
  "outcome_typed k (Multi vs) \<Longrightarrow> soundE (\<lambda>(r, s'). outcome_typed k r) (answers vs s)"
  by (simp add: answers_def)

text \<open>What a configuration entry must be for the reads of the kernels.\<close>

definition cfg_numeric :: "config \<Rightarrow> string \<Rightarrow> bool" where
  "cfg_numeric c key \<longleftrightarrow> (\<exists>v. map_of c key = Some v \<and> is_number v)"

definition cfg_numeric_opt :: "config \<Rightarrow> string \<Rightarrow> bool" where
  "cfg_numeric_opt c key \<longleftrightarrow> (\<forall>v. map_of c key = Some v \<longrightarrow> is_number v)"

lemma cfg_numeric_imp_opt: "cfg_numeric c key \<Longrightarrow> cfg_numeric_opt c key"
  by (auto simp: cfg_numeric_def cfg_numeric_opt_def)

lemma sound_cfg_float [sound_rules]: "cfg_numeric_opt c key \<Longrightarrow> soundE (\<lambda>_. True) (cfg_float c key d)"
  by (auto simp: cfg_float_def cfg_get_def cfg_numeric_opt_def soundE_py_float split: option.splits)

lemma sound_cfg_float_req [sound_rules]: "cfg_numeric c key \<Longrightarrow> soundE (\<lambda>_. True) (cfg_float_req c key)"
  by (auto simp: cfg_float_req_def cfg_numeric_def dict_get_def soundE_py_float)

lemma cfg_get_numeric [config_rules]: "is_number (cfg_get c key d) \<Longrightarrow> cfg_numeric_opt c key"
  by (auto simp: cfg_get_def cfg_numeric_opt_def)

lemma config_opt_numeric [config_rules]: "is_number (config_opt c key) \<Longrightarrow> cfg_numeric c key"
  by (auto simp: config_opt_def cfg_get_def cfg_numeric_def split: option.splits)

section \<open>The contract of a kernel\<close>

text \<open>A kernel run over successive scans, as the interpreter does with the state kept under
  the block's id.\<close>

fun run_kernel :: "'s kernel \<Rightarrow> config \<Rightarrow> (clock \<times> args) list \<Rightarrow> 's option \<Rightarrow> outcome list result" where
  "run_kernel kern c [] s = Inr []"
| "run_kernel kern c ((ck, a) # scans) s =
     bindE (kern c ck a s) (\<lambda>(r, s'). mapE (Cons r) (run_kernel kern c scans (Some s')))"

text \<open>The states a kernel can leave behind over any scans, from no state at all.\<close>

inductive kernel_reach :: "'s kernel \<Rightarrow> config \<Rightarrow> 's option \<Rightarrow> bool" for kern c where
  reach_start: "kernel_reach kern c None"
| reach_scan: "kernel_reach kern c s \<Longrightarrow> kern c ck a s = Inr (r, s') \<Longrightarrow> kernel_reach kern c (Some s')"

inductive_cases reach_SomeE: "kernel_reach kern c (Some s)"

lemma kernel_reach_inv:
  assumes "kernel_reach kern c s"
    and "\<And>ck a s r s'. pred_option I s \<Longrightarrow> kern c ck a s = Inr (r, s') \<Longrightarrow> I s'"
  shows "pred_option I s"
  using assms(1) by (induction rule: kernel_reach.induct) (auto dest: assms(2))

locale typed_kernel =
  fixes kind :: block_kind
    and kern :: "'s kernel"
    and cfg_good :: "config \<Rightarrow> bool"
    and good :: "'s \<Rightarrow> bool"
  assumes scan_sound: "cfg_good c \<Longrightarrow> args_typed kind a \<Longrightarrow> pred_option good s \<Longrightarrow>
    soundE (\<lambda>(r, s'). outcome_typed kind r \<and> good s') (kern c ck a s)"
begin

lemma run_sound:
  assumes "cfg_good c" and "\<And>ck a. (ck, a) \<in> set scans \<Longrightarrow> args_typed kind a" and "pred_option good s"
  shows "soundE (list_all (outcome_typed kind)) (run_kernel kern c scans s)"
  using assms
proof (induction scans arbitrary: s)
  case (Cons scan scans)
  obtain ck a where scan: "scan = (ck, a)" by (cases scan)
  have "soundE (\<lambda>(r, s'). outcome_typed kind r \<and> good s') (kern c ck a s)"
    using Cons.prems scan by (intro scan_sound) auto
  moreover have "soundE (list_all (outcome_typed kind)) (mapE (Cons r) (run_kernel kern c scans (Some s')))"
    if "outcome_typed kind r \<and> good s'" for r s'
    using Cons.prems that Cons.IH [of "Some s'"]
    by (intro soundE_mapE) (auto intro: soundE_mono)
  ultimately show ?case
    unfolding scan run_kernel.simps by (elim soundE_bind) auto
qed simp

end

text \<open>A kernel without state answers from its arguments alone.\<close>

type_synonym pure_kernel = "config \<Rightarrow> args \<Rightarrow> outcome result"

definition stateless :: "pure_kernel \<Rightarrow> unit kernel" where
  "stateless f c ck a s = mapE (\<lambda>r. (r, ())) (f c a)"

locale pure_typed_kernel =
  fixes kind :: block_kind
    and f :: pure_kernel
    and cfg_good :: "config \<Rightarrow> bool"
  assumes pure_sound: "cfg_good c \<Longrightarrow> args_typed kind a \<Longrightarrow> soundE (outcome_typed kind) (f c a)"

sublocale pure_typed_kernel \<subseteq> typed_kernel kind "stateless f" cfg_good "\<lambda>_. True"
proof
  fix c ck a and s :: "unit option"
  assume "cfg_good c" "args_typed kind a"
  then show "soundE (\<lambda>(r, s'). outcome_typed kind r \<and> True) (stateless f c ck a s)"
    unfolding stateless_def by (intro soundE_mapE) (simp add: pure_sound)
qed

lemma sound_single [sound_rules]: "outcome_typed k (Single v) \<Longrightarrow> soundE (outcome_typed k) (Inr (Single v))"
  by simp

end
