(* ===== verification/KernelLogic.thy ===== *)
theory KernelLogic
  imports Kernel
begin

text \<open>
  The blocks of \<open>GraphInterpreter._evaluate_block\<close> (\<open>src/bactalk/simulator.py\<close>) that keep
  no state: constants, outputs, arithmetic, comparisons, Boolean logic, switches,
  rounding and the linear reset.  Each is an instance of \<open>pure_typed_kernel\<close>.
\<close>

section \<open>Kernels\<close>

definition eval_const :: pure_kernel where
  "eval_const c a = mapE Single (dict_get c ''value'')"

definition eval_output :: pure_kernel where
  "eval_output c a = mapE Single (dict_get a ''in'')"

definition eval_binary :: "(pyfloat \<Rightarrow> pyfloat \<Rightarrow> pyfloat) \<Rightarrow> pure_kernel" where
  "eval_binary f c a =
     bindE (number_arg a ''a'') (\<lambda>x. bindE (number_arg a ''b'') (\<lambda>y. Inr (Single (PFloat (f x y)))))"

definition eval_divide :: pure_kernel where
  "eval_divide c a =
     bindE (number_arg a ''a'') (\<lambda>numerator.
     bindE (number_arg a ''b'') (\<lambda>denominator.
       if feq denominator (Fin 0) then
         (if feq numerator (Fin 0) then Inr (Single (PFloat NaN))
          else Inr (Single (PFloat (fcopysign PInf (fmul numerator (fcopysign (Fin 1) denominator))))))
       else bindE (fdiv numerator denominator) (\<lambda>x. Inr (Single (PFloat x)))))"

definition eval_average :: pure_kernel where
  "eval_average c a =
     bindE (number_arg a ''a'') (\<lambda>x. bindE (number_arg a ''b'') (\<lambda>y.
     bindE (fdiv (fadd x y) (Fin 2)) (\<lambda>z. Inr (Single (PFloat z)))))"

definition eval_compare :: "(pyfloat \<Rightarrow> pyfloat \<Rightarrow> bool) \<Rightarrow> pure_kernel" where
  "eval_compare p c a =
     bindE (number_arg a ''a'') (\<lambda>x. bindE (number_arg a ''b'') (\<lambda>y. Inr (Single (PBool (p x y)))))"

text \<open>\<open>and\<close> and \<open>or\<close> do not evaluate their right operand when the left one decides.\<close>

definition eval_and :: pure_kernel where
  "eval_and c a = bindE (bool_arg a ''a'') (\<lambda>x.
     if x then bindE (bool_arg a ''b'') (\<lambda>y. Inr (Single (PBool y))) else Inr (Single (PBool False)))"

definition eval_or :: pure_kernel where
  "eval_or c a = bindE (bool_arg a ''a'') (\<lambda>x.
     if x then Inr (Single (PBool True)) else bindE (bool_arg a ''b'') (\<lambda>y. Inr (Single (PBool y))))"

definition eval_xor :: pure_kernel where
  "eval_xor c a = bindE (bool_arg a ''a'') (\<lambda>x. bindE (bool_arg a ''b'') (\<lambda>y.
     Inr (Single (PBool (x \<noteq> y)))))"

definition eval_not :: pure_kernel where
  "eval_not c a = bindE (bool_arg a ''in'') (\<lambda>x. Inr (Single (PBool (\<not> x))))"

definition eval_switch :: pure_kernel where
  "eval_switch c a = bindE (bool_arg a ''selector'') (\<lambda>sel.
     mapE Single (if sel then dict_get a ''when_true'' else dict_get a ''when_false''))"

definition round_half_away :: "pyfloat \<Rightarrow> pyfloat result" where
  "round_half_away value =
     (if fless (Fin 0) value then bindE (ffloor (fadd value (Fin (1 / 2)))) float_of_int
      else bindE (fceil (fsub value (Fin (1 / 2)))) float_of_int)"

definition eval_round :: pure_kernel where
  "eval_round c a = bindE (number_arg a ''in'') (\<lambda>value.
     bindE (round_half_away value) (\<lambda>x. Inr (Single (PFloat x))))"

definition reset_ratio :: "pyfloat \<Rightarrow> pyfloat" where
  "reset_ratio q = fmin (Fin 1) (fmax (Fin 0) q)"

definition eval_reset :: pure_kernel where
  "eval_reset c a =
     bindE (number_arg a ''in'') (\<lambda>value.
     bindE (number_arg a ''input_low'') (\<lambda>input_low.
     bindE (number_arg a ''input_high'') (\<lambda>input_high.
     bindE (number_arg a ''output_low'') (\<lambda>output_low.
     bindE (number_arg a ''output_high'') (\<lambda>output_high.
       if feq input_high input_low then Inl (ValueError ''reset block input range cannot be zero'')
       else bindE (fdiv (fsub value input_low) (fsub input_high input_low)) (\<lambda>q.
         Inr (Single (PFloat
           (fadd output_low (fmul (reset_ratio q) (fsub output_high output_low)))))))))))"

section \<open>Every one of them keeps its types\<close>

lemma outcome_single:
  "outputs (block_slots k) = [(''out'', t)] \<Longrightarrow> has_type t v \<Longrightarrow> outcome_typed k (Single v)"
  by (simp add: outcome_typed_def)

lemma outcome_bool [sound_rules]:
  "outputs (block_slots k) = [(''out'', BOOLEAN)] \<Longrightarrow> outcome_typed k (Single (PBool b))"
  by (simp add: outcome_typed_def)

lemma outcome_float [sound_rules]:
  "outputs (block_slots k) = [(''out'', NUMERIC)] \<Longrightarrow> outcome_typed k (Single (PFloat x))"
  by (simp add: outcome_typed_def)

lemma sound_get_numeric:
  "numeric_slot a slot \<Longrightarrow> outputs (block_slots k) = [(''out'', NUMERIC)] \<Longrightarrow>
     soundE (outcome_typed k) (mapE Single (dict_get a slot))"
  by (auto simp: numeric_slot_def dict_get_def intro!: outcome_single)

lemma sound_get_boolean:
  "boolean_slot a slot \<Longrightarrow> outputs (block_slots k) = [(''out'', BOOLEAN)] \<Longrightarrow>
     soundE (outcome_typed k) (mapE Single (dict_get a slot))"
  by (auto simp: boolean_slot_def dict_get_def intro!: outcome_single)

lemmas kernel_simps = args_typed_iff outcome_typed_def dict_typed_def

interpretation numeric_const: pure_typed_kernel NUMERIC_CONST eval_const "\<lambda>c. check_numeric_const c = Inr ()"
  by unfold_locales
    (auto simp: eval_const_def check_numeric_const_def config_opt_def cfg_get_def dict_get_def
      outcome_typed_def split: option.splits)

interpretation boolean_const: pure_typed_kernel BOOLEAN_CONST eval_const "\<lambda>c. check_boolean_const c = Inr ()"
  by unfold_locales
    (auto simp: eval_const_def check_boolean_const_def config_opt_def cfg_get_def dict_get_def
      outcome_typed_def split: option.splits)

interpretation numeric_output: pure_typed_kernel NUMERIC_OUTPUT eval_output "\<lambda>_. True"
  by unfold_locales (auto simp: eval_output_def args_typed_iff intro!: sound_get_numeric)

interpretation boolean_output: pure_typed_kernel BOOLEAN_OUTPUT eval_output "\<lambda>_. True"
  by unfold_locales (auto simp: eval_output_def args_typed_iff intro!: sound_get_boolean)

lemma binary_sound:
  assumes "inputs (block_slots k) = [(''a'', NUMERIC), (''b'', NUMERIC)]"
    and "outputs (block_slots k) = [(''out'', NUMERIC)]"
  shows "pure_typed_kernel k (eval_binary f) (\<lambda>_. True)"
  by unfold_locales
    (auto simp: eval_binary_def args_typed_iff assms intro!: sound_rules)

lemma compare_sound:
  assumes "inputs (block_slots k) = [(''a'', NUMERIC), (''b'', NUMERIC)]"
    and "outputs (block_slots k) = [(''out'', BOOLEAN)]"
  shows "pure_typed_kernel k (eval_compare p) (\<lambda>_. True)"
  by unfold_locales
    (auto simp: eval_compare_def args_typed_iff assms intro!: sound_rules)

interpretation add: pure_typed_kernel ADD "eval_binary fadd" "\<lambda>_. True"
  by (rule binary_sound) simp_all

interpretation subtract: pure_typed_kernel SUBTRACT "eval_binary fsub" "\<lambda>_. True"
  by (rule binary_sound) simp_all

interpretation multiply: pure_typed_kernel MULTIPLY "eval_binary fmul" "\<lambda>_. True"
  by (rule binary_sound) simp_all

interpretation minimum: pure_typed_kernel MINIMUM "eval_binary fmin" "\<lambda>_. True"
  by (rule binary_sound) simp_all

interpretation maximum: pure_typed_kernel MAXIMUM "eval_binary fmax" "\<lambda>_. True"
  by (rule binary_sound) simp_all

interpretation divide: pure_typed_kernel DIVIDE eval_divide "\<lambda>_. True"
  by unfold_locales (auto simp: eval_divide_def args_typed_iff intro!: sound_rules)

interpretation average: pure_typed_kernel AVERAGE eval_average "\<lambda>_. True"
  by unfold_locales (auto simp: eval_average_def args_typed_iff intro!: sound_rules)

interpretation greater: pure_typed_kernel GREATER_THAN "eval_compare (\<lambda>x y. fless y x)" "\<lambda>_. True"
  by (rule compare_sound) simp_all

interpretation greater_equal: pure_typed_kernel GREATER_THAN_OR_EQUAL "eval_compare (\<lambda>x y. fle y x)" "\<lambda>_. True"
  by (rule compare_sound) simp_all

interpretation less: pure_typed_kernel LESS_THAN "eval_compare fless" "\<lambda>_. True"
  by (rule compare_sound) simp_all

interpretation less_equal: pure_typed_kernel LESS_THAN_OR_EQUAL "eval_compare fle" "\<lambda>_. True"
  by (rule compare_sound) simp_all

interpretation equal: pure_typed_kernel EQUAL "eval_compare feq" "\<lambda>_. True"
  by (rule compare_sound) simp_all

interpretation not_equal: pure_typed_kernel NOT_EQUAL "eval_compare (\<lambda>x y. \<not> feq x y)" "\<lambda>_. True"
  by (rule compare_sound) simp_all

interpretation conj: pure_typed_kernel AND eval_and "\<lambda>_. True"
  by unfold_locales (auto simp: eval_and_def args_typed_iff intro!: sound_rules)

interpretation disj: pure_typed_kernel OR eval_or "\<lambda>_. True"
  by unfold_locales (auto simp: eval_or_def args_typed_iff intro!: sound_rules)

interpretation xor: pure_typed_kernel XOR eval_xor "\<lambda>_. True"
  by unfold_locales (auto simp: eval_xor_def args_typed_iff intro!: sound_rules)

interpretation neg: pure_typed_kernel NOT eval_not "\<lambda>_. True"
  by unfold_locales (auto simp: eval_not_def args_typed_iff intro!: sound_rules)

interpretation numeric_switch: pure_typed_kernel NUMERIC_SWITCH eval_switch "\<lambda>_. True"
  by unfold_locales
    (auto simp: eval_switch_def args_typed_iff intro!: sound_bind_any sound_bool_arg sound_get_numeric)

interpretation boolean_switch: pure_typed_kernel BOOLEAN_SWITCH eval_switch "\<lambda>_. True"
  by unfold_locales
    (auto simp: eval_switch_def args_typed_iff intro!: sound_bind_any sound_bool_arg sound_get_boolean)

lemma sound_round_half_away [sound_rules]: "soundE (\<lambda>_. True) (round_half_away x)"
  unfolding round_half_away_def by (intro sound_rules)

interpretation rounding: pure_typed_kernel NUMERIC_ROUND eval_round "\<lambda>_. True"
  by unfold_locales (auto simp: eval_round_def args_typed_iff intro!: sound_rules)

interpretation reset: pure_typed_kernel RESET eval_reset "\<lambda>_. True"
  by unfold_locales (auto simp: eval_reset_def args_typed_iff intro!: sound_rules)

section \<open>Functional behaviour\<close>

lemma reset_ratio_bounds: "fle (Fin 0) (reset_ratio q) \<and> fle (reset_ratio q) (Fin 1)"
proof -
  have "fle (Fin 0) (fmax (Fin 0) q)"
    by (simp add: fmax_def fless_imp_fle)
  then show ?thesis
    unfolding reset_ratio_def fmin_def
    by (metis fle_not_NaN fle_refl fle_Fin fless_imp_fle not_fless_iff zero_le_one)
qed

text \<open>Division is total: no zero divisor reaches Python's \<open>/\<close>.\<close>

lemma fdiv_nonzero: "\<not> feq d (Fin 0) \<Longrightarrow> \<exists>x. fdiv n d = Inr x"
  by (cases d) (auto simp: fdiv_def Let_def)

lemma divide_total:
  assumes "number_arg a ''a'' = Inr n" "number_arg a ''b'' = Inr d"
  shows "\<exists>x. eval_divide c a = Inr (Single (PFloat x))"
  using assms fdiv_nonzero [of d n] by (auto simp: eval_divide_def)

lemma signbit_rnd: "signbit (rnd q) \<longleftrightarrow> q < 0"
proof (cases "q < 0")
  case True
  then show ?thesis using rnd_rat_mono [of q 0] by (auto simp: rnd_def Let_def)
next
  case False
  then have "0 \<le> rnd_rat q" using rnd_rat_mono [of 0 q] by simp
  then show ?thesis using False by (simp add: rnd_def Let_def)
qed

section \<open>Properties\<close>

text \<open>A divide block never raises: a zero divisor answers NaN for zero over zero and
  otherwise an infinity of the product of the signs (a NaN numerator, which carries no sign,
  included), and any other divisor answers the rounded quotient.\<close>

theorem divide_outcome:
  "eval_divide c [(''a'', PFloat n), (''b'', PFloat d)] = Inr (Single (PFloat
     (if is_zero d then if is_zero n then NaN else inf_of_sign (n \<noteq> NaN \<and> signbit n \<noteq> signbit d)
      else case fdiv n d of Inr q \<Rightarrow> q | Inl _ \<Rightarrow> Fin 0)))"
proof -
  have zero: "feq x (Fin 0) \<longleftrightarrow> is_zero x" for x by (cases x) auto
  have inf: "fcopysign PInf x = inf_of_sign (signbit x)" for x
    by (simp add: fcopysign_def inf_of_sign_def)
  have "is_zero d \<Longrightarrow> \<not> is_zero n \<Longrightarrow>
      signbit (fmul n (fcopysign (Fin 1) d)) = (n \<noteq> NaN \<and> signbit n \<noteq> signbit d)"
    by (cases n; cases d) (auto simp: fmul_def fcopysign_def signbit_rnd zero_of_sign_def inf_of_sign_def)
  then show ?thesis
    using fdiv_nonzero [of d n]
    by (auto simp: eval_divide_def number_arg_def dict_get_def zero inf)
qed

end
