(* ===== verification/KernelEdge.thy ===== *)
theory KernelEdge
  imports KernelLogic
begin

text \<open>
  Blocks of \<open>GraphInterpreter._evaluate_block\<close> whose state is a remembered sample: host-tick
  delay, edges, initialization, latches, set/reset, hysteresis, change detection, and the
  two Boolean holds.
\<close>

section \<open>States\<close>

record pre_state =
  pre_out :: bool

record delay_state =
  dl_out :: bool
  dl_pending :: bool
  dl_elapsed :: pyfloat
  dl_first_tick :: bool

record edge_state =
  edge_previous :: bool

record init_state =
  initialized :: bool

record change_state =
  change_previous :: pyfloat

record latch_state =
  latch_out :: pyval
  latch_clock :: bool

record set_reset_state =
  sr_out :: bool
  sr_previous_set :: bool

record hysteresis_state =
  hys_out :: bool

record hold_state =
  hold_initialized :: bool
  hold_held :: bool
  hold_elapsed :: pyfloat

section \<open>Kernels\<close>

definition eval_pre_host_tick :: "pre_state kernel" where
  "eval_pre_host_tick c ck a s =
     (let st = setdefault s \<lparr>pre_out = cfg_bool c ''initial'' False\<rparr> in
      answer (PBool (pre_out st)) st)"

text \<open>The deferred update of the host-tick delay, with the driver's value.\<close>

definition update_pre_host_tick :: "config \<Rightarrow> pyval \<Rightarrow> pre_state option \<Rightarrow> pre_state" where
  "update_pre_host_tick c v s =
     (let st = setdefault s \<lparr>pre_out = cfg_bool c ''initial'' False\<rparr> in st\<lparr>pre_out := truthy v\<rparr>)"

definition delay_key :: "bool \<Rightarrow> string" where
  "delay_key desired = (if desired then ''on_delay_seconds'' else ''off_delay_seconds'')"

definition delay_advance :: "config \<Rightarrow> clock \<Rightarrow> bool \<Rightarrow> delay_state \<Rightarrow> delay_state result" where
  "delay_advance c ck desired st =
     (if desired = dl_out st then Inr (st\<lparr>dl_elapsed := Fin 0, dl_pending := desired\<rparr>)
      else if desired \<noteq> dl_pending st then
        bindE (cfg_float c (delay_key desired) (Fin 0)) (\<lambda>d.
          let st = st\<lparr>dl_pending := desired, dl_elapsed := Fin 0\<rparr> in
          Inr (if fle d (Fin 0) then st\<lparr>dl_out := desired\<rparr> else st))
      else
        bindE (cfg_float c (delay_key desired) (Fin 0)) (\<lambda>d.
          let st = st\<lparr>dl_elapsed := fadd (dl_elapsed st) (step_seconds ck)\<rparr> in
          Inr (if fle d (dl_elapsed st) then st\<lparr>dl_out := desired, dl_elapsed := Fin 0\<rparr> else st)))"

definition eval_boolean_delay :: "delay_state kernel" where
  "eval_boolean_delay c ck a s =
     bindE (bool_arg a ''in'') (\<lambda>desired.
     let st = setdefault s \<lparr>dl_out = cfg_bool c ''initial'' False, dl_pending = cfg_bool c ''initial'' False,
                            dl_elapsed = Fin 0, dl_first_tick = True\<rparr> in
     if dl_first_tick st \<and> desired \<and> \<not> cfg_bool c ''delay_on_init'' True then
       bindE (cfg_float c ''on_delay_seconds'' (Fin 0)) (\<lambda>e.
         answer (PBool True) (st\<lparr>dl_out := True, dl_pending := True, dl_elapsed := e, dl_first_tick := False\<rparr>))
     else
       bindE (delay_advance c ck desired (st\<lparr>dl_first_tick := False\<rparr>)) (\<lambda>st.
         answer (PBool (dl_out st)) st))"

definition eval_one_shot :: "edge_state kernel" where
  "eval_one_shot c ck a s =
     bindE (bool_arg a ''in'') (\<lambda>value.
     let st = setdefault s \<lparr>edge_previous = cfg_bool c ''initial'' False\<rparr> in
     answer (PBool (value \<and> \<not> edge_previous st)) (st\<lparr>edge_previous := value\<rparr>))"

definition eval_falling_edge :: "edge_state kernel" where
  "eval_falling_edge c ck a s =
     bindE (bool_arg a ''in'') (\<lambda>value.
     let st = setdefault s \<lparr>edge_previous = cfg_bool c ''pre_u_start'' False\<rparr> in
     answer (PBool (edge_previous st \<and> \<not> value)) (st\<lparr>edge_previous := value\<rparr>))"

definition eval_initialization :: "init_state kernel" where
  "eval_initialization c ck a s =
     (let st = setdefault s \<lparr>initialized = False\<rparr> in
      if \<not> initialized st then answer (PBool (cfg_bool c ''initial'' False)) (st\<lparr>initialized := True\<rparr>)
      else bindE (bool_arg a ''in'') (\<lambda>v. answer (PBool v) st))"

text \<open>\<open>!=\<close>, \<open>>\<close> or \<open><\<close> of the new value against the previous one.\<close>

definition eval_change :: "(pyfloat \<Rightarrow> pyfloat \<Rightarrow> bool) \<Rightarrow> change_state kernel" where
  "eval_change p c ck a s =
     bindE (number_arg a ''in'') (\<lambda>value.
     bindE (cfg_float c ''initial'' (Fin 0)) (\<lambda>initial.
     let st = setdefault s \<lparr>change_previous = initial\<rparr>; previous = change_previous st in
     answer (PBool (p value previous)) (st\<lparr>change_previous := value\<rparr>)))"

definition value_changed :: "pyfloat \<Rightarrow> pyfloat \<Rightarrow> bool" where
  "value_changed v previous \<longleftrightarrow> \<not> feq v previous"

definition value_increased :: "pyfloat \<Rightarrow> pyfloat \<Rightarrow> bool" where
  "value_increased v previous \<longleftrightarrow> fless previous v"

definition value_decreased :: "pyfloat \<Rightarrow> pyfloat \<Rightarrow> bool" where
  "value_decreased v previous \<longleftrightarrow> fless v previous"

definition eval_latch :: "pyval \<Rightarrow> latch_state kernel" where
  "eval_latch d0 c ck a s =
     (let st = setdefault s \<lparr>latch_out = cfg_get c ''initial'' d0, latch_clock = False\<rparr> in
      bindE (bool_arg a ''clock'') (\<lambda>clk.
      bindE (if clk \<and> \<not> latch_clock st then mapE (\<lambda>v. st\<lparr>latch_out := v\<rparr>) (dict_get a ''in'')
             else Inr st) (\<lambda>st.
      answer (latch_out st) (st\<lparr>latch_clock := clk\<rparr>))))"

definition eval_set_reset :: "set_reset_state kernel" where
  "eval_set_reset c ck a s =
     bindE (bool_arg a ''set'') (\<lambda>set_value.
     bindE (bool_arg a ''clear'') (\<lambda>clear.
     let st = setdefault s \<lparr>sr_out = False, sr_previous_set = False\<rparr>;
         output = (\<not> clear \<and> ((set_value \<and> \<not> sr_previous_set st) \<or> sr_out st)) in
     answer (PBool output) (st\<lparr>sr_out := output, sr_previous_set := set_value\<rparr>)))"

definition eval_hysteresis :: "hysteresis_state kernel" where
  "eval_hysteresis c ck a s =
     bindE (number_arg a ''in'') (\<lambda>value.
     let st = setdefault s \<lparr>hys_out = cfg_bool c ''initial'' False\<rparr>; previous = hys_out st in
     bindE (if \<not> previous then mapE (\<lambda>high. fless high value) (cfg_float_req c ''u_high'')
            else mapE (\<lambda>low. fle low value) (cfg_float_req c ''u_low'')) (\<lambda>output.
     answer (PBool output) (st\<lparr>hys_out := output\<rparr>)))"

definition hold_key :: "bool \<Rightarrow> string" where
  "hold_key held = (if held then ''true_hold_seconds'' else ''false_hold_seconds'')"

definition eval_true_false_hold :: "hold_state kernel" where
  "eval_true_false_hold c ck a s =
     bindE (bool_arg a ''in'') (\<lambda>active.
     let st = setdefault s \<lparr>hold_initialized = False, hold_held = False, hold_elapsed = Fin 0\<rparr> in
     if \<not> hold_initialized st then
       answer (PBool active) (st\<lparr>hold_initialized := True, hold_held := active, hold_elapsed := Fin 0\<rparr>)
     else
       let st = st\<lparr>hold_elapsed := fadd (hold_elapsed st) (step_seconds ck)\<rparr>; held = hold_held st in
       bindE (if active \<noteq> held then
                bindE (cfg_float_req c (hold_key held)) (\<lambda>x.
                  let required = fmax (Fin 0) x in
                  Inr (if fle required (hold_elapsed st)
                       then st\<lparr>hold_held := active, hold_elapsed := Fin 0\<rparr> else st))
              else Inr st) (\<lambda>st.
       answer (PBool (hold_held st)) st))"

section \<open>Typing\<close>

interpretation pre_host_tick: typed_kernel BOOLEAN_PRE_HOST_TICK eval_pre_host_tick "\<lambda>_. True" "\<lambda>_. True"
  by unfold_locales (auto simp: eval_pre_host_tick_def intro!: sound_rules)

lemma delay_config:
  assumes "check_boolean_delay c = Inr ()"
  shows "cfg_numeric_opt c (delay_key desired)"
  using assms
  by (auto simp: check_boolean_delay_def delay_key_def Let_def bindE_eq_Inr intro: config_rules)

lemma sound_delay_advance [sound_rules]:
  "check_boolean_delay c = Inr () \<Longrightarrow> soundE (\<lambda>_. True) (delay_advance c ck desired st)"
  unfolding delay_advance_def by (intro sound_rules delay_config)

interpretation boolean_delay: typed_kernel BOOLEAN_DELAY eval_boolean_delay
  "\<lambda>c. check_boolean_delay c = Inr ()" "\<lambda>_. True"
proof
  fix c ck a and s :: "delay_state option"
  assume c: "check_boolean_delay c = Inr ()" and "args_typed BOOLEAN_DELAY a"
  moreover have "cfg_numeric_opt c ''on_delay_seconds''"
    using delay_config [OF c, of True] by (simp add: delay_key_def)
  ultimately show "soundE (\<lambda>(r, s'). outcome_typed BOOLEAN_DELAY r \<and> True) (eval_boolean_delay c ck a s)"
    unfolding eval_boolean_delay_def by (intro sound_rules) (simp_all add: args_typed_iff)
qed

interpretation one_shot: typed_kernel ONE_SHOT eval_one_shot "\<lambda>_. True" "\<lambda>_. True"
  by unfold_locales (auto simp: eval_one_shot_def args_typed_iff intro!: sound_rules)

interpretation falling_edge: typed_kernel BOOLEAN_FALLING_EDGE eval_falling_edge "\<lambda>_. True" "\<lambda>_. True"
  by unfold_locales (auto simp: eval_falling_edge_def args_typed_iff intro!: sound_rules)

interpretation initialization: typed_kernel BOOLEAN_INITIALIZATION eval_initialization "\<lambda>_. True" "\<lambda>_. True"
  by unfold_locales (auto simp: eval_initialization_def args_typed_iff Let_def intro!: sound_rules)

lemma change_sound:
  assumes "inputs (block_slots k) = [(''in'', NUMERIC)]" "outputs (block_slots k) = [(''out'', BOOLEAN)]"
  shows "typed_kernel k (eval_change p) (\<lambda>c. check_initial_number k c = Inr ()) (\<lambda>_. True)"
  by unfold_locales
    (auto simp: eval_change_def check_initial_number_def args_typed_iff assms
      intro!: sound_rules intro: config_rules)

interpretation changed: typed_kernel NUMERIC_CHANGED "eval_change value_changed"
  "\<lambda>c. check_initial_number NUMERIC_CHANGED c = Inr ()" "\<lambda>_. True"
  by (rule change_sound) simp_all

interpretation increased: typed_kernel NUMERIC_INCREASED "eval_change value_increased"
  "\<lambda>c. check_initial_number NUMERIC_INCREASED c = Inr ()" "\<lambda>_. True"
  by (rule change_sound) simp_all

interpretation decreased: typed_kernel NUMERIC_DECREASED "eval_change value_decreased"
  "\<lambda>c. check_initial_number NUMERIC_DECREASED c = Inr ()" "\<lambda>_. True"
  by (rule change_sound) simp_all

text \<open>The latch passes on whatever it captured, so its state is typed as its input is.\<close>

lemma latch_sound:
  assumes "inputs (block_slots k) = [(''in'', t), (''clock'', BOOLEAN)]"
    and "outputs (block_slots k) = [(''out'', t)]"
    and "\<And>c. chk c = Inr () \<Longrightarrow> has_type t (cfg_get c ''initial'' d)"
  shows "typed_kernel k (eval_latch d) (\<lambda>c. chk c = Inr ()) (\<lambda>st. has_type t (latch_out st))"
proof
  fix c ck a and s :: "latch_state option"
  assume c: "chk c = Inr ()" and a: "args_typed k a"
    and s: "pred_option (\<lambda>st. has_type t (latch_out st)) s"
  obtain v w where v: "map_of a ''in'' = Some v" "has_type t v" "map_of a ''clock'' = Some w"
    using args_typedD [OF a, of "''in''" t] args_typedD [OF a, of "''clock''" BOOLEAN] assms(1) by auto
  define st where "st = setdefault s \<lparr>latch_out = cfg_get c ''initial'' d, latch_clock = False\<rparr>"
  have "has_type t (latch_out st)"
    using s assms(3) [OF c] by (cases s) (simp_all add: st_def)
  then show "soundE (\<lambda>(r, s'). outcome_typed k r \<and> has_type t (latch_out s')) (eval_latch d c ck a s)"
    using v by (simp add: eval_latch_def bool_arg_def dict_get_def st_def [symmetric] Let_def
        answer_def outcome_typed_def assms(2))
qed

interpretation numeric_latch: typed_kernel NUMERIC_LATCH "eval_latch (PFloat (Fin 0))"
  "\<lambda>c. check_numeric_latch c = Inr ()" "\<lambda>st. has_type NUMERIC (latch_out st)"
  by (rule latch_sound) (simp_all add: check_numeric_latch_def lit_0_def)

interpretation boolean_latch: typed_kernel BOOLEAN_LATCH "eval_latch (PBool False)"
  "\<lambda>c. check_boolean_latch c = Inr ()" "\<lambda>st. has_type BOOLEAN (latch_out st)"
  by (rule latch_sound) (simp_all add: check_boolean_latch_def)

interpretation set_reset: typed_kernel BOOLEAN_SET_RESET eval_set_reset "\<lambda>_. True" "\<lambda>_. True"
  by unfold_locales (auto simp: eval_set_reset_def args_typed_iff intro!: sound_rules)

lemma hysteresis_config:
  assumes "check_hysteresis c = Inr ()"
  shows "cfg_numeric c ''u_low''" "cfg_numeric c ''u_high''"
  using assms by (auto simp: check_hysteresis_def Let_def bindE_eq_Inr need_iffs intro: config_rules)

interpretation hysteresis: typed_kernel HYSTERESIS eval_hysteresis
  "\<lambda>c. check_hysteresis c = Inr ()" "\<lambda>_. True"
  by unfold_locales
    (auto simp: eval_hysteresis_def args_typed_iff hysteresis_config intro!: sound_rules)

lemma hold_config:
  assumes "check_true_false_hold c = Inr ()"
  shows "cfg_numeric c (hold_key held)"
  using assms by (auto simp: check_true_false_hold_def bindE_eq_Inr need_iffs hold_key_def intro: config_rules)

interpretation true_false_hold: typed_kernel BOOLEAN_TRUE_FALSE_HOLD eval_true_false_hold
  "\<lambda>c. check_true_false_hold c = Inr ()" "\<lambda>_. True"
  by unfold_locales
    (auto simp: eval_true_false_hold_def args_typed_iff hold_config intro!: sound_rules)

section \<open>Properties\<close>

text \<open>Runs of the blocks with Boolean inputs only: the clock of a scan plays no part.\<close>

definition set_reset_scan :: "clock \<times> bool \<times> bool \<Rightarrow> clock \<times> args" where
  "set_reset_scan x = (case x of (ck, s, r) \<Rightarrow> (ck, [(''set'', PBool s), (''clear'', PBool r)]))"

definition in_scan :: "clock \<times> bool \<Rightarrow> clock \<times> args" where
  "in_scan x = (case x of (ck, v) \<Rightarrow> (ck, [(''in'', PBool v)]))"

lemma set_reset_step:
  "eval_set_reset c ck [(''set'', PBool v), (''clear'', PBool r)] s =
     (let st = setdefault s \<lparr>sr_out = False, sr_previous_set = False\<rparr>;
          b = (\<not> r \<and> (v \<and> \<not> sr_previous_set st \<or> sr_out st)) in
      Inr (Single (PBool b), \<lparr>sr_out = b, sr_previous_set = v\<rparr>))"
  by (simp add: eval_set_reset_def bool_arg_def dict_get_def answer_def Let_def)

text \<open>Whether a set is outstanding after a history: some rising set, with no clear from that
  scan on.\<close>

definition set_outstanding :: "bool \<Rightarrow> (clock \<times> bool \<times> bool) list \<Rightarrow> bool" where
  "set_outstanding previous xs \<longleftrightarrow> (\<exists>us ck vs. xs = us @ (ck, True, False) # vs
     \<and> \<not> (if us = [] then previous else fst (snd (last us))) \<and> (\<forall>(ck, s, r) \<in> set vs. \<not> r))"

lemma set_outstanding_Nil [simp]: "\<not> set_outstanding p []"
  by (simp add: set_outstanding_def)

lemma set_outstanding_Cons:
  "set_outstanding p ((ck, s, r) # xs) \<longleftrightarrow>
     (s \<and> \<not> r \<and> \<not> p \<and> (\<forall>(ck, s, r) \<in> set xs. \<not> r)) \<or> set_outstanding s xs"
proof
  assume "set_outstanding p ((ck, s, r) # xs)"
  then obtain us k vs where *: "(ck, s, r) # xs = us @ (k, True, False) # vs"
    "\<not> (if us = [] then p else fst (snd (last us)))" "\<forall>(ck, s, r) \<in> set vs. \<not> r"
    by (auto simp: set_outstanding_def)
  show "(s \<and> \<not> r \<and> \<not> p \<and> (\<forall>(ck, s, r) \<in> set xs. \<not> r)) \<or> set_outstanding s xs"
  proof (cases us)
    case (Cons u us')
    then have "xs = us' @ (k, True, False) # vs" "u = (ck, s, r)" using *(1) by auto
    then have "set_outstanding s xs" using * Cons unfolding set_outstanding_def by (intro exI [of _ us']) auto
    then show ?thesis ..
  qed (use * in auto)
next
  assume "(s \<and> \<not> r \<and> \<not> p \<and> (\<forall>(ck, s, r) \<in> set xs. \<not> r)) \<or> set_outstanding s xs"
  then show "set_outstanding p ((ck, s, r) # xs)"
  proof
    assume "s \<and> \<not> r \<and> \<not> p \<and> (\<forall>(ck, s, r) \<in> set xs. \<not> r)"
    then show ?thesis unfolding set_outstanding_def by (intro exI [of _ "[]"]) auto
  next
    assume "set_outstanding s xs"
    then obtain us k vs where "xs = us @ (k, True, False) # vs"
      "\<not> (if us = [] then s else fst (snd (last us)))" "\<forall>(ck, s, r) \<in> set vs. \<not> r"
      by (auto simp: set_outstanding_def)
    then show ?thesis
      unfolding set_outstanding_def by (intro exI [of _ "(ck, s, r) # us"]) (auto split: if_splits)
  qed
qed

lemma set_reset_run:
  "xs \<noteq> [] \<Longrightarrow> \<exists>rs b. run_kernel eval_set_reset c (map set_reset_scan xs) s = Inr rs
     \<and> length rs = length xs \<and> last rs = Single (PBool b)
     \<and> (let st = setdefault s \<lparr>sr_out = False, sr_previous_set = False\<rparr> in
        b \<longleftrightarrow> set_outstanding (sr_previous_set st) xs \<or> (sr_out st \<and> (\<forall>(ck, s, r) \<in> set xs. \<not> r)))"
proof (induction xs arbitrary: s)
  case (Cons x xs)
  obtain ck v r where x: "x = (ck, v, r)" by (cases x)
  define st where "st = setdefault s \<lparr>sr_out = False, sr_previous_set = False\<rparr>"
  define b0 where "b0 = (\<not> r \<and> (v \<and> \<not> sr_previous_set st \<or> sr_out st))"
  define st' where "st' = \<lparr>sr_out = b0, sr_previous_set = v\<rparr>"
  have step: "run_kernel eval_set_reset c (map set_reset_scan (x # xs)) s =
      mapE (Cons (Single (PBool b0))) (run_kernel eval_set_reset c (map set_reset_scan xs) (Some st'))"
    by (simp add: x set_reset_scan_def set_reset_step Let_def st_def b0_def st'_def)
  show ?case
  proof (cases "xs = []")
    case True
    then show ?thesis
      unfolding step by (auto simp: x set_outstanding_Cons b0_def st_def [symmetric] Let_def)
  next
    case False
    obtain rs b where rs: "run_kernel eval_set_reset c (map set_reset_scan xs) (Some st') = Inr rs"
      "length rs = length xs" "last rs = Single (PBool b)"
      "b \<longleftrightarrow> set_outstanding v xs \<or> (b0 \<and> (\<forall>(ck, s, r) \<in> set xs. \<not> r))"
      using Cons.IH [OF False, of "Some st'"] by (auto simp: st'_def Let_def)
    have "b \<longleftrightarrow> set_outstanding (sr_previous_set st) (x # xs) \<or> (sr_out st \<and> (\<forall>(ck, s, r) \<in> set (x # xs). \<not> r))"
      using rs(4) by (auto simp: x set_outstanding_Cons b0_def)
    then show ?thesis
      unfolding step rs(1) st_def [symmetric] using rs(2,3) False by (auto simp: Let_def)
  qed
qed simp

text \<open>Over any history of scans, the set/reset block ends on exactly when some scan had a
  rising set input and no scan from that one on had the clear input: clear dominates, and a
  set that merely stays on does not set again.\<close>

theorem set_reset_history:
  assumes "xs \<noteq> []"
  shows "\<exists>rs b. run_kernel eval_set_reset c (map set_reset_scan xs) None = Inr rs
     \<and> length rs = length xs \<and> last rs = Single (PBool b) \<and> (b \<longleftrightarrow> set_outstanding False xs)"
  using set_reset_run [OF assms, of c None] by (simp add: Let_def)

lemma set_reset_history_witness:
  "\<exists>rs b. run_kernel eval_set_reset []
       (map set_reset_scan [(\<lparr>now = Fin 1, step_seconds = Fin 1\<rparr>, True, False)]) None = Inr rs
     \<and> length rs = 1 \<and> last rs = Single (PBool b)
     \<and> (b \<longleftrightarrow> set_outstanding False [(\<lparr>now = Fin 1, step_seconds = Fin 1\<rparr>, True, False)])"
  using set_reset_history [of "[(\<lparr>now = Fin 1, step_seconds = Fin 1\<rparr>, True, False)]" "[]"] by simp

lemma one_shot_run:
  "run_kernel eval_one_shot c (map in_scan xs) s =
     Inr (map (\<lambda>(p, v). Single (PBool (v \<and> \<not> p)))
       (zip (edge_previous (setdefault s \<lparr>edge_previous = cfg_bool c ''initial'' False\<rparr>) # map snd xs) (map snd xs)))"
  by (induction xs arbitrary: s)
     (auto simp: in_scan_def eval_one_shot_def bool_arg_def dict_get_def answer_def Let_def split: prod.splits)

text \<open>Over any run of scans the one-shot block answers true exactly on the rising edges of
  its input, the configured initial value standing for the scan before the first.\<close>

theorem one_shot_rising_edges:
  "run_kernel eval_one_shot c (map in_scan xs) None =
     Inr (map (\<lambda>(p, v). Single (PBool (v \<and> \<not> p))) (zip (cfg_bool c ''initial'' False # map snd xs) (map snd xs)))"
  by (simp add: one_shot_run)

text \<open>A hysteresis block whose input stays between its thresholds does not switch.\<close>

definition number_scan :: "clock \<times> pyfloat \<Rightarrow> clock \<times> args" where
  "number_scan x = (case x of (ck, v) \<Rightarrow> (ck, [(''in'', PFloat v)]))"

lemma hysteresis_run:
  assumes "cfg_float_req c ''u_low'' = Inr lo" and "cfg_float_req c ''u_high'' = Inr hi"
    and "\<forall>(ck, v) \<in> set xs. fle lo v \<and> fle v hi"
  shows "run_kernel eval_hysteresis c (map number_scan xs) (Some \<lparr>hys_out = b\<rparr>)
     = Inr (replicate (length xs) (Single (PBool b)))"
  using assms(3)
proof (induction xs)
  case (Cons x xs)
  obtain ck v where x: "x = (ck, v)" by (cases x)
  have "fle lo v" "\<not> fless hi v" using Cons.prems x by (auto dest: fless_not_fle)
  then have "eval_hysteresis c ck [(''in'', PFloat v)] (Some \<lparr>hys_out = b\<rparr>) =
      Inr (Single (PBool b), \<lparr>hys_out = b\<rparr>)"
    using assms(1,2) by (cases b) (simp_all add: eval_hysteresis_def number_arg_def dict_get_def answer_def)
  then show ?case using Cons by (simp add: x number_scan_def)
qed simp

text \<open>A hysteresis block never chatters: over any run in which the input stays between the
  low and the high threshold, every answer equals the output it started from.\<close>

theorem hysteresis_no_chatter:
  assumes "cfg_float_req c ''u_low'' = Inr lo" and "cfg_float_req c ''u_high'' = Inr hi"
    and "\<forall>(ck, v) \<in> set xs. fle lo v \<and> fle v hi"
  shows "run_kernel eval_hysteresis c (map number_scan xs) (Some \<lparr>hys_out = b\<rparr>)
     = Inr (replicate (length xs) (Single (PBool b)))"
  by (rule hysteresis_run [OF assms])

lemma hysteresis_no_chatter_witness:
  "run_kernel eval_hysteresis [(''u_low'', PFloat (Fin 1)), (''u_high'', PFloat (Fin 3))]
     (map number_scan [(\<lparr>now = Fin 1, step_seconds = Fin 1\<rparr>, Fin 2), (\<lparr>now = Fin 2, step_seconds = Fin 1\<rparr>, Fin 3)])
     (Some \<lparr>hys_out = True\<rparr>) = Inr (replicate 2 (Single (PBool True)))"
  using hysteresis_no_chatter [of "[(''u_low'', PFloat (Fin 1)), (''u_high'', PFloat (Fin 3))]" "Fin 1" "Fin 3"
      "[(\<lparr>now = Fin 1, step_seconds = Fin 1\<rparr>, Fin 2), (\<lparr>now = Fin 2, step_seconds = Fin 1\<rparr>, Fin 3)]" True]
  by (simp add: cfg_float_req_def dict_get_def numeral_2_eq_2)

text \<open>A true/false hold changes its output only to the present input, only once the time
  since the last change, this step included, has reached the hold of the value it leaves, and
  the time starts again.\<close>

theorem hold_minimum_time:
  assumes "eval_true_false_hold c ck a (Some st) = Inr (Single (PBool b), st')"
    and "hold_initialized st" and "b \<noteq> hold_held st"
  shows "bool_arg a ''in'' = Inr b \<and> hold_held st' = b \<and> hold_elapsed st' = Fin 0
     \<and> (\<exists>d. cfg_float_req c (hold_key (hold_held st)) = Inr d
          \<and> fle (fmax (Fin 0) d) (fadd (hold_elapsed st) (step_seconds ck)))"
  using assms
  by (auto simp: eval_true_false_hold_def bindE_eq_Inr answer_def Let_def split: if_splits)

lemma hold_minimum_time_witness:
  "let c = [(''true_hold_seconds'', PInt 60), (''false_hold_seconds'', PInt 30)];
       ck = \<lparr>now = Fin 100, step_seconds = Fin 10\<rparr>;
       st = \<lparr>hold_initialized = True, hold_held = True, hold_elapsed = Fin 55\<rparr> in
   \<exists>st'. eval_true_false_hold c ck [(''in'', PBool False)] (Some st) = Inr (Single (PBool False), st')
     \<and> hold_elapsed st' = Fin 0"
  using hold_minimum_time [of "[(''true_hold_seconds'', PInt 60), (''false_hold_seconds'', PInt 30)]"
      "\<lparr>now = Fin 100, step_seconds = Fin 10\<rparr>" "[(''in'', PBool False)]"
      "\<lparr>hold_initialized = True, hold_held = True, hold_elapsed = Fin 55\<rparr>" False
      "\<lparr>hold_initialized = True, hold_held = False, hold_elapsed = Fin 0\<rparr>"]
  by (simp add: eval_true_false_hold_def bool_arg_def dict_get_def answer_def cfg_float_req_def hold_key_def
      float_of_int_def fmax_def)

text \<open>After its first scan a Boolean delay changes its output only to the present input, and
  only when the delay of that direction is not positive or the change has been pending for at
  least that delay, this step included.\<close>

theorem delay_waits:
  assumes "eval_boolean_delay c ck a (Some st) = Inr (Single (PBool b), st')"
    and "\<not> dl_first_tick st" and "b \<noteq> dl_out st"
  shows "bool_arg a ''in'' = Inr b
     \<and> (\<exists>d. cfg_float c (delay_key b) (Fin 0) = Inr d
          \<and> (fle d (Fin 0) \<or> dl_pending st = b \<and> fle d (fadd (dl_elapsed st) (step_seconds ck))))"
  using assms
  by (auto simp: eval_boolean_delay_def delay_advance_def bindE_eq_Inr answer_def Let_def split: if_splits)

lemma delay_waits_witness:
  "bool_arg [(''in'', PBool True)] ''in'' = Inr True
     \<and> (\<exists>d. cfg_float [(''on_delay_seconds'', PInt 20)] (delay_key True) (Fin 0) = Inr d
          \<and> (fle d (Fin 0) \<or> dl_pending \<lparr>dl_out = False, dl_pending = True, dl_elapsed = Fin 15, dl_first_tick = False\<rparr> = True
             \<and> fle d (fadd (dl_elapsed \<lparr>dl_out = False, dl_pending = True, dl_elapsed = Fin 15, dl_first_tick = False\<rparr>)
                 (step_seconds \<lparr>now = Fin 100, step_seconds = Fin 10\<rparr>))))"
  by (rule delay_waits [where st' = "\<lparr>dl_out = True, dl_pending = True, dl_elapsed = Fin 0, dl_first_tick = False\<rparr>"])
     (simp_all add: eval_boolean_delay_def delay_advance_def bool_arg_def dict_get_def answer_def cfg_float_def
        cfg_get_def delay_key_def float_of_int_def)

end
