(* ===== verification/KernelTime.thy ===== *)
theory KernelTime
  imports KernelEdge
begin

text \<open>
  Blocks of the interpreter that measure time: the three timers, the sampled blocks, the
  moving average, the slew-rate limiter, and the blocks that emit the state of the
  previous scan and advance after it (integrator, counter, unit delay;
  \<open>_update_state_block\<close> and \<open>_update_unit_delay\<close>).
\<close>

section \<open>Timers\<close>

record timer_state =
  tm_entry_time :: pyfloat
  tm_first_tick :: bool
  tm_previous_in :: bool
  tm_passed :: bool

definition timer_answers :: "pyfloat \<Rightarrow> bool \<Rightarrow> pyval dict" where
  "timer_answers elapsed passed = [(''elapsed'', PFloat elapsed), (''passed'', PBool passed)]"

definition eval_timer :: "timer_state kernel" where
  "eval_timer c ck a s =
     bindE (bool_arg a ''in'') (\<lambda>active.
     bindE (cfg_float c ''threshold_seconds'' (Fin 0)) (\<lambda>threshold.
     let st = setdefault s \<lparr>tm_entry_time = Fin 0, tm_first_tick = True, tm_previous_in = False,
                            tm_passed = fle threshold (Fin 0)\<rparr>;
         previous_in = tm_previous_in st; first_tick = tm_first_tick st;
         elapsed = (if \<not> active then Fin 0
                    else if first_tick \<or> \<not> previous_in then Fin 0
                    else fsub (now ck) (tm_entry_time st));
         passed = (if active \<and> \<not> previous_in then fle threshold (Fin 0)
                   else if active \<and> fle threshold elapsed then True
                   else if \<not> active \<and> previous_in then False
                   else tm_passed st);
         st = (if active \<and> (first_tick \<or> \<not> previous_in) then st\<lparr>tm_entry_time := now ck\<rparr> else st)
     in answers (timer_answers elapsed passed)
          (st\<lparr>tm_first_tick := False, tm_previous_in := active, tm_passed := passed\<rparr>)))"

record reset_timer_state =
  rt_entry_time :: pyfloat
  rt_previous_in :: bool
  rt_previous_reset :: bool
  rt_passed :: bool

definition reset_timer_scan :: "clock \<Rightarrow> pyfloat \<Rightarrow> bool \<Rightarrow> bool \<Rightarrow> reset_timer_state \<Rightarrow>
    (outcome \<times> reset_timer_state) result" where
  "reset_timer_scan ck threshold active reset st =
     (let previous_in = rt_previous_in st; previous_reset = rt_previous_reset st;
          rising_input = (active \<and> \<not> previous_in); rising_reset = (reset \<and> \<not> previous_reset);
          (entry_time, passed) =
            (if rising_input \<or> rising_reset then (now ck, active \<and> fle threshold (Fin 0))
             else if active \<and> fle (fadd (rt_entry_time st) threshold) (now ck) then (rt_entry_time st, True)
             else if \<not> active \<and> previous_in then (rt_entry_time st, False)
             else (rt_entry_time st, rt_passed st));
          elapsed = (if active then fsub (now ck) entry_time else Fin 0)
      in answers (timer_answers elapsed passed)
           \<lparr>rt_entry_time = entry_time, rt_previous_in = active, rt_previous_reset = reset,
            rt_passed = passed\<rparr>)"

definition eval_timer_with_reset :: "reset_timer_state kernel" where
  "eval_timer_with_reset c ck a s =
     bindE (bool_arg a ''in'') (\<lambda>active.
     bindE (bool_arg a ''reset'') (\<lambda>reset.
     bindE (cfg_float c ''threshold_seconds'' (Fin 0)) (\<lambda>threshold.
     case s of
       None \<Rightarrow>
         let passed = (active \<and> fle threshold (Fin 0)) in
         answers (timer_answers (Fin 0) passed)
           \<lparr>rt_entry_time = now ck, rt_previous_in = active, rt_previous_reset = reset, rt_passed = passed\<rparr>
     | Some st \<Rightarrow> reset_timer_scan ck threshold active reset st)))"

record accumulating_state =
  ac_elapsed :: pyfloat
  ac_previous_in :: bool
  ac_previous_reset :: bool
  ac_passed :: bool

definition eval_timer_accumulating :: "accumulating_state kernel" where
  "eval_timer_accumulating c ck a s =
     bindE (bool_arg a ''in'') (\<lambda>active.
     bindE (bool_arg a ''reset'') (\<lambda>reset.
     bindE (cfg_float c ''threshold_seconds'' (Fin 0)) (\<lambda>threshold.
     let st = setdefault s \<lparr>ac_elapsed = Fin 0, ac_previous_in = False, ac_previous_reset = False,
                            ac_passed = fle threshold (Fin 0)\<rparr>;
         (elapsed, passed) =
           (if reset \<and> \<not> ac_previous_reset st then (Fin 0, fle threshold (Fin 0))
            else let elapsed = (if ac_previous_in st then fadd (ac_elapsed st) (step_seconds ck)
                                else ac_elapsed st)
                 in (elapsed, if active \<and> fle threshold elapsed then True else ac_passed st))
     in answers (timer_answers elapsed passed)
          \<lparr>ac_elapsed = elapsed, ac_previous_in = active, ac_previous_reset = reset, ac_passed = passed\<rparr>)))"

section \<open>Sampling\<close>

text \<open>\<open>round(math.floor(self.time / period) * period, 6)\<close> and
  \<open>math.floor((self.time - t0) / period + 1e-9)\<close>.\<close>

definition sample_epoch :: "pyfloat \<Rightarrow> pyfloat \<Rightarrow> pyfloat result" where
  "sample_epoch t period =
     bindE (fdiv t period) (\<lambda>q. bindE (ffloor q) (\<lambda>n. bindE (float_of_int n) (\<lambda>x.
       Inr (fround_digits 6 (fmul x period)))))"

definition sample_index :: "pyfloat \<Rightarrow> pyfloat \<Rightarrow> pyfloat \<Rightarrow> int result" where
  "sample_index t t0 period =
     bindE (fdiv (fsub t t0) period) (\<lambda>q. ffloor (fadd q (lit (1 / 10 ^ 9))))"

record sampler_state =
  sm_held :: pyfloat
  sm_t0 :: pyfloat
  sm_last_index :: int

definition eval_sampler :: "sampler_state kernel" where
  "eval_sampler c ck a s =
     bindE (number_arg a ''in'') (\<lambda>value.
     bindE (cfg_float_req c ''sample_period_seconds'') (\<lambda>period.
     case s of
       None \<Rightarrow>
         bindE (sample_epoch (now ck) period) (\<lambda>t0.
         bindE (sample_index (now ck) t0 period) (\<lambda>index.
         answer (PFloat value) \<lparr>sm_held = value, sm_t0 = t0, sm_last_index = index\<rparr>))
     | Some st \<Rightarrow>
         bindE (sample_index (now ck) (sm_t0 st) period) (\<lambda>index.
         let st = (if sm_last_index st < index then st\<lparr>sm_held := value, sm_last_index := index\<rparr> else st)
         in answer (PFloat (sm_held st)) st)))"

record hold1_state =
  foh_t0 :: pyfloat
  foh_last_index :: int
  foh_t_sample :: pyfloat
  foh_u_sample :: pyfloat
  foh_pre_u_sample :: pyfloat
  foh_slope :: pyfloat

definition eval_first_order_hold :: "hold1_state kernel" where
  "eval_first_order_hold c ck a s =
     bindE (number_arg a ''in'') (\<lambda>value.
     bindE (cfg_float_req c ''sample_period_seconds'') (\<lambda>period.
     case s of
       None \<Rightarrow>
         bindE (sample_epoch (now ck) period) (\<lambda>t0.
         bindE (sample_index (now ck) t0 period) (\<lambda>index.
         answer (PFloat value)
           \<lparr>foh_t0 = t0, foh_last_index = index, foh_t_sample = t0, foh_u_sample = value,
            foh_pre_u_sample = value, foh_slope = Fin 0\<rparr>))
     | Some st \<Rightarrow>
         bindE (sample_index (now ck) (foh_t0 st) period) (\<lambda>index.
         if foh_last_index st < index then
           (let previous = foh_u_sample st in
            bindE (fdiv period (Fin 2)) (\<lambda>half.
            bindE (if fle (now ck) (fadd (foh_t0 st) half) then Inr (Fin 0)
                   else fdiv (fsub value previous) period) (\<lambda>slope.
            answer (PFloat previous)
              (st\<lparr>foh_last_index := index, foh_t_sample := now ck, foh_u_sample := value,
                  foh_pre_u_sample := previous, foh_slope := slope\<rparr>))))
         else answer (PFloat (fadd (foh_pre_u_sample st)
                (fmul (foh_slope st) (fsub (now ck) (foh_t_sample st))))) st)))"

record trigger_state =
  tr_last_index :: int

definition eval_sample_trigger :: "trigger_state kernel" where
  "eval_sample_trigger c ck a s =
     bindE (cfg_float_req c ''period_seconds'') (\<lambda>period.
     bindE (cfg_float_req c ''shift_seconds'') (\<lambda>shift.
     bindE (fdiv shift period) (\<lambda>q. bindE (ffloor q) (\<lambda>n. bindE (float_of_int n) (\<lambda>x.
     let phase = fsub shift (fmul x period) in
     bindE (sample_index (now ck) phase period) (\<lambda>index.
     let st = setdefault s \<lparr>tr_last_index = -1\<rparr>; fired = (tr_last_index st < index) in
     answer (PBool fired) (if fired then st\<lparr>tr_last_index := index\<rparr> else st)))))))"

section \<open>Moving average\<close>

type_synonym sample_points = "(pyfloat \<times> pyfloat) list"

record average_state =
  ma_mu :: pyfloat
  ma_t_start :: pyfloat
  ma_prev_t :: pyfloat
  ma_points :: sample_points

text \<open>The loop of \<open>_interpolate_integral\<close> over \<open>points[1:]\<close>, with the point before it.\<close>

fun interpolate_from :: "pyfloat \<times> pyfloat \<Rightarrow> sample_points \<Rightarrow> pyfloat \<Rightarrow> pyfloat \<Rightarrow> pyfloat \<Rightarrow> pyfloat result" where
  "interpolate_from previous [] target t mu_now =
     (let span = fsub t (fst previous) in
      if feq span (Fin 0) then Inr mu_now
      else bindE (fdiv (fsub target (fst previous)) span) (\<lambda>r.
        Inr (fadd (snd previous) (fmul (fsub mu_now (snd previous)) r))))"
| "interpolate_from previous (point # points) target t mu_now =
     (if fle target (fst point) then
        (let span = fsub (fst point) (fst previous) in
         if feq span (Fin 0) then Inr (snd point)
         else bindE (fdiv (fsub target (fst previous)) span) (\<lambda>r.
           Inr (fadd (snd previous) (fmul (fsub (snd point) (snd previous)) r))))
      else interpolate_from point points target t mu_now)"

definition interpolate_integral :: "sample_points \<Rightarrow> pyfloat \<Rightarrow> pyfloat \<Rightarrow> pyfloat \<Rightarrow> pyfloat result" where
  "interpolate_integral points target t mu_now = (case points of
       [] \<Rightarrow> Inr mu_now
     | p # ps \<Rightarrow> if fle target (fst p) then Inr (snd p) else interpolate_from p ps target t mu_now)"

text \<open>\<open>while len(points) > 1 and points[1][0] <= target: points.pop(0)\<close>\<close>

fun drop_expired :: "pyfloat \<Rightarrow> sample_points \<Rightarrow> sample_points" where
  "drop_expired target (p # q # ps) =
     (if fle (fst q) target then drop_expired target (q # ps) else p # q # ps)"
| "drop_expired target ps = ps"

definition append_point :: "pyfloat \<Rightarrow> pyfloat \<Rightarrow> sample_points \<Rightarrow> sample_points" where
  "append_point t mu points =
     (let points = (if points \<noteq> [] \<and> feq (fst (last points)) t then butlast points @ [(t, mu)]
                    else points @ [(t, mu)])
      in if length points > 64 then tl points else points)"

definition eval_moving_average :: "average_state kernel" where
  "eval_moving_average c ck a s =
     bindE (number_arg a ''in'') (\<lambda>value.
     bindE (cfg_float_req c ''window_seconds'') (\<lambda>window.
     let t = now ck;
         st = setdefault s \<lparr>ma_mu = Fin 0, ma_t_start = t, ma_prev_t = t, ma_points = []\<rparr>;
         dt = fmax (Fin 0) (fsub t (ma_prev_t st));
         mu_now = fadd (ma_mu st) (fmul value dt);
         points = ma_points st;
         target = fsub t window in
     bindE (interpolate_integral points target t mu_now) (\<lambda>mu_del.
     let denominator =
           (if fle (fadd (ma_t_start st) window) t then
              (let oldest = (case points of [] \<Rightarrow> ma_t_start st | p # _ \<Rightarrow> fst p);
                   low = fmax (fmax target oldest) (ma_t_start st)
               in fmax (fsub t low) (lit (1 / 10 ^ 5)))
            else fadd (fsub t (ma_t_start st)) (lit (1 / 10 ^ 3))) in
     bindE (fdiv (fsub mu_now mu_del) denominator) (\<lambda>output.
     answer (PFloat output)
       (st\<lparr>ma_mu := mu_now, ma_prev_t := t,
           ma_points := append_point t mu_now (drop_expired target points)\<rparr>)))))"

section \<open>Slew-rate limit\<close>

record slew_state =
  slew_y :: pyfloat

definition slew_change :: "pyfloat \<Rightarrow> pyfloat \<Rightarrow> pyfloat \<Rightarrow> pyfloat \<Rightarrow> pyfloat" where
  "slew_change delta falling raising step =
     fmin (fmax delta (fmul falling step)) (fmul raising step)"

definition eval_slew_rate :: "slew_state kernel" where
  "eval_slew_rate c ck a s =
     bindE (number_arg a ''in'') (\<lambda>value.
     if s = None \<or> \<not> cfg_bool c ''enable'' True then answer (PFloat value) \<lparr>slew_y = value\<rparr>
     else let st = setdefault s \<lparr>slew_y = value\<rparr>; previous = slew_y st in
       if fle (step_seconds ck) (Fin 0) then answer (PFloat previous) st
       else
         bindE (cfg_float_req c ''td_seconds'') (\<lambda>td.
         bindE (fdiv (step_seconds ck) td) (\<lambda>alpha.
         bindE (fdiv (fadd previous (fmul alpha value)) (fadd (Fin 1) alpha)) (\<lambda>filtered.
         bindE (cfg_float_req c ''falling_slew_rate'') (\<lambda>falling.
         bindE (cfg_float_req c ''raising_slew_rate'') (\<lambda>raising.
         let y = fadd previous (slew_change (fsub filtered previous) falling raising (step_seconds ck)) in
         answer (PFloat y) (st\<lparr>slew_y := y\<rparr>)))))))"

section \<open>Blocks that advance after the scan\<close>

text \<open>Such a block emits from its configuration and state alone, and updates the state
  from its arguments once all blocks of the scan have been evaluated.\<close>

type_synonym 's emitter = "config \<Rightarrow> clock \<Rightarrow> 's option \<Rightarrow> outcome result"
type_synonym 's updater = "config \<Rightarrow> clock \<Rightarrow> args \<Rightarrow> 's option \<Rightarrow> 's result"

record integrator_state =
  ig_x :: pyfloat
  ig_time :: "pyfloat option"
  ig_trigger :: bool

definition emit_integrator :: "integrator_state emitter" where
  "emit_integrator c ck s = (case s of
       None \<Rightarrow> mapE (\<lambda>x. Single (PFloat x)) (cfg_float c ''initial'' (Fin 0))
     | Some st \<Rightarrow> Inr (Single (PFloat (ig_x st))))"

definition update_integrator :: "integrator_state updater" where
  "update_integrator c ck a s =
     bindE (cfg_float c ''initial'' (Fin 0)) (\<lambda>initial.
     let st = setdefault s \<lparr>ig_x = initial, ig_time = None, ig_trigger = False\<rparr> in
     bindE (bool_arg a ''trigger'') (\<lambda>trigger.
     let dt = (case ig_time st of None \<Rightarrow> Fin 0 | Some t \<Rightarrow> fsub (now ck) t) in
     bindE (if trigger \<and> \<not> ig_trigger st then number_arg a ''reset_value''
            else bindE (cfg_float c ''gain'' (Fin 1)) (\<lambda>gain.
                 bindE (number_arg a ''in'') (\<lambda>u. Inr (fadd (ig_x st) (fmul (fmul gain u) dt))))) (\<lambda>x.
     Inr \<lparr>ig_x = x, ig_time = Some (now ck), ig_trigger = trigger\<rparr>)))"

record counter_state =
  ct_count :: pyfloat
  ct_trigger :: bool
  ct_reset :: bool
  ct_history :: bool

definition emit_counter :: "counter_state emitter" where
  "emit_counter c ck s = (case s of
       None \<Rightarrow> mapE (\<lambda>x. Single (PFloat x)) (cfg_float c ''initial'' (Fin 0))
     | Some st \<Rightarrow> Inr (Single (PFloat (ct_count st))))"

definition update_counter :: "counter_state updater" where
  "update_counter c ck a s =
     bindE (cfg_float c ''initial'' (Fin 0)) (\<lambda>initial.
     let st = setdefault s \<lparr>ct_count = initial, ct_trigger = False, ct_reset = False, ct_history = False\<rparr> in
     bindE (bool_arg a ''trigger'') (\<lambda>trigger.
     bindE (bool_arg a ''reset'') (\<lambda>reset.
     let count = (if ct_history st \<and> ((trigger \<and> \<not> ct_trigger st) \<or> (reset \<and> \<not> ct_reset st))
                  then (if reset then initial else fadd (ct_count st) (Fin 1))
                  else ct_count st)
     in Inr \<lparr>ct_count = count, ct_trigger = trigger, ct_reset = reset, ct_history = True\<rparr>)))"

record unit_delay_state =
  ud_held :: pyfloat
  ud_staged :: pyfloat
  ud_t0 :: pyfloat
  ud_last_index :: int

definition emit_unit_delay :: "unit_delay_state emitter" where
  "emit_unit_delay c ck s =
     bindE (cfg_float c ''initial'' (Fin 0)) (\<lambda>initial. case s of
       None \<Rightarrow> Inr (Single (PFloat initial))
     | Some st \<Rightarrow>
         bindE (cfg_float_req c ''sample_period_seconds'') (\<lambda>period.
         bindE (sample_index (now ck) (ud_t0 st) period) (\<lambda>index.
         Inr (Single (PFloat (if ud_last_index st < index then ud_staged st else ud_held st))))))"

definition update_unit_delay :: "unit_delay_state updater" where
  "update_unit_delay c ck a s =
     bindE (number_arg a ''in'') (\<lambda>value.
     bindE (cfg_float_req c ''sample_period_seconds'') (\<lambda>period.
     case s of
       None \<Rightarrow>
         bindE (sample_epoch (now ck) period) (\<lambda>t0.
         bindE (sample_index (now ck) t0 period) (\<lambda>index.
         bindE (cfg_float c ''initial'' (Fin 0)) (\<lambda>initial.
         bindE (float_of_int index) (\<lambda>x.
         let exact = fisclose (lit (1 / 10 ^ 9)) (lit (1 / 10 ^ 9)) (now ck) (fadd t0 (fmul x period)) in
         Inr \<lparr>ud_held = initial, ud_staged = (if exact then value else initial), ud_t0 = t0,
              ud_last_index = index\<rparr>))))
     | Some st \<Rightarrow>
         bindE (sample_index (now ck) (ud_t0 st) period) (\<lambda>index.
         Inr (if ud_last_index st < index
              then st\<lparr>ud_held := ud_staged st, ud_staged := value, ud_last_index := index\<rparr> else st))))"

section \<open>Typing\<close>

locale deferred_block =
  fixes kind :: block_kind
    and emit :: "'s emitter"
    and update :: "'s updater"
    and cfg_good :: "config \<Rightarrow> bool"
  assumes emit_sound: "cfg_good c \<Longrightarrow> soundE (outcome_typed kind) (emit c ck s)"
    and update_sound: "cfg_good c \<Longrightarrow> args_typed kind a \<Longrightarrow> soundE (\<lambda>_. True) (update c ck a s)"
begin

text \<open>A whole scan of the block, emission first, is a kernel with the typing contract.\<close>

definition scan_kernel :: "'s kernel" where
  "scan_kernel c ck a s = bindE (emit c ck s) (\<lambda>r. mapE (\<lambda>s'. (r, s')) (update c ck a s))"

lemma scan_kernel_sound:
  assumes "cfg_good c" "args_typed kind a"
  shows "soundE (\<lambda>(r, s'). outcome_typed kind r \<and> True) (scan_kernel c ck a s)"
proof -
  have "soundE (\<lambda>(r, s'). outcome_typed kind r \<and> True) (mapE (\<lambda>s'. (r, s')) (update c ck a s))"
    if "outcome_typed kind r" for r
    using update_sound [OF assms, of ck s] that by (intro soundE_mapE) simp
  then show ?thesis
    unfolding scan_kernel_def using emit_sound [OF assms(1), of ck s] by (rule soundE_bind [rotated])
qed

end

sublocale deferred_block \<subseteq> typed_kernel kind scan_kernel cfg_good "\<lambda>_. True"
  by unfold_locales (rule scan_kernel_sound)

lemma outcome_timer [sound_rules]:
  "outputs (block_slots k) = [(''elapsed'', NUMERIC), (''passed'', BOOLEAN)] \<Longrightarrow>
     outcome_typed k (Multi (timer_answers e p))"
  by (simp add: outcome_typed_def dict_typed_def timer_answers_def)

lemma timer_config: "check_timer c = Inr () \<Longrightarrow> cfg_numeric_opt c ''threshold_seconds''"
  by (auto simp: check_timer_def need_iffs intro: config_rules)

interpretation timer: typed_kernel TIMER eval_timer "\<lambda>c. check_timer c = Inr ()" "\<lambda>_. True"
  by unfold_locales (auto simp: eval_timer_def args_typed_iff timer_config intro!: sound_rules)

interpretation timer_with_reset: typed_kernel TIMER_WITH_RESET eval_timer_with_reset
  "\<lambda>c. check_timer c = Inr ()" "\<lambda>_. True"
  by unfold_locales
    (auto simp: eval_timer_with_reset_def reset_timer_scan_def args_typed_iff timer_config intro!: sound_rules)

interpretation timer_accumulating: typed_kernel TIMER_ACCUMULATING eval_timer_accumulating
  "\<lambda>c. check_timer c = Inr ()" "\<lambda>_. True"
  by unfold_locales
    (auto simp: eval_timer_accumulating_def args_typed_iff timer_config intro!: sound_rules)

lemma sound_sample_epoch [sound_rules]: "soundE (\<lambda>_. True) (sample_epoch t period)"
  unfolding sample_epoch_def by (intro sound_rules)

lemma sound_sample_index [sound_rules]: "soundE (\<lambda>_. True) (sample_index t t0 period)"
  unfolding sample_index_def by (intro sound_rules)

lemma period_config: "check_sample_period k c = Inr () \<Longrightarrow> cfg_numeric c ''sample_period_seconds''"
  by (auto simp: check_sample_period_def Let_def intro: config_rules)

interpretation sampler: typed_kernel NUMERIC_SAMPLER eval_sampler
  "\<lambda>c. check_sample_period NUMERIC_SAMPLER c = Inr ()" "\<lambda>_. True"
  by unfold_locales (auto simp: eval_sampler_def args_typed_iff intro!: sound_rules intro: period_config)

interpretation first_order_hold: typed_kernel NUMERIC_FIRST_ORDER_HOLD eval_first_order_hold
  "\<lambda>c. check_sample_period NUMERIC_FIRST_ORDER_HOLD c = Inr ()" "\<lambda>_. True"
  by unfold_locales
    (auto simp: eval_first_order_hold_def args_typed_iff intro!: sound_rules intro: period_config)

lemma trigger_config:
  assumes "check_sample_trigger c = Inr ()"
  shows "cfg_numeric c ''period_seconds''" "cfg_numeric c ''shift_seconds''"
  using assms finite_number_Inr [of "config_opt c ''period_seconds''"]
  by (auto simp: check_sample_trigger_def Let_def bindE_eq_Inr need_iffs intro: config_rules)

interpretation sample_trigger: typed_kernel BOOLEAN_SAMPLE_TRIGGER eval_sample_trigger
  "\<lambda>c. check_sample_trigger c = Inr ()" "\<lambda>_. True"
  by unfold_locales (auto simp: eval_sample_trigger_def trigger_config intro!: sound_rules)

lemma sound_interpolate_from [sound_rules]: "soundE (\<lambda>_. True) (interpolate_from p ps target t mu)"
proof (induction ps arbitrary: p)
  case Nil
  show ?case unfolding interpolate_from.simps by (intro sound_rules)
next
  case (Cons q ps)
  then show ?case unfolding interpolate_from.simps by (intro sound_rules)
qed

lemma sound_interpolate_integral [sound_rules]: "soundE (\<lambda>_. True) (interpolate_integral ps target t mu)"
  by (cases ps) (auto simp: interpolate_integral_def intro!: sound_rules)

lemma average_config: "check_moving_average c = Inr () \<Longrightarrow> cfg_numeric c ''window_seconds''"
  by (auto simp: check_moving_average_def Let_def intro: config_rules)

lemma length_drop_expired: "length (drop_expired target ps) \<le> length ps"
  by (induction target ps rule: drop_expired.induct) auto

lemma drop_expired_nonempty: "ps \<noteq> [] \<Longrightarrow> drop_expired target ps \<noteq> []"
  by (induction target ps rule: drop_expired.induct) auto

lemma length_append_point: "length ps \<le> 64 \<Longrightarrow> length (append_point t mu ps) \<le> 64"
  by (auto simp: append_point_def Let_def)

lemma append_point_nonempty: "append_point t mu ps \<noteq> []"
  by (simp add: append_point_def Let_def flip: length_greater_0_conv)

text \<open>The state invariant of the moving average: between one and 64 points.\<close>

definition average_inv :: "average_state \<Rightarrow> bool" where
  "average_inv st \<longleftrightarrow> ma_points st \<noteq> [] \<and> length (ma_points st) \<le> 64"

interpretation moving_average: typed_kernel MOVING_AVERAGE eval_moving_average
  "\<lambda>c. check_moving_average c = Inr ()" average_inv
proof
  fix c ck a and s :: "average_state option"
  assume c: "check_moving_average c = Inr ()" and a: "args_typed MOVING_AVERAGE a"
    and s: "pred_option average_inv s"
  have len: "length (ma_points (setdefault s \<lparr>ma_mu = m, ma_t_start = t, ma_prev_t = t', ma_points = []\<rparr>)) \<le> 64"
    for m t t'
    using s by (cases s) (simp_all add: average_inv_def)
  show "soundE (\<lambda>(r, s'). outcome_typed MOVING_AVERAGE r \<and> average_inv s') (eval_moving_average c ck a s)"
    unfolding eval_moving_average_def Let_def
    using a average_config [OF c]
    by (intro sound_bind_any sound_rules)
       (auto simp: args_typed_iff average_inv_def append_point_nonempty
         intro!: length_append_point order_trans [OF length_drop_expired len])
qed

lemma slew_config:
  assumes "check_slew_rate c = Inr ()"
  shows "cfg_numeric c ''raising_slew_rate''" "cfg_numeric c ''falling_slew_rate''" "cfg_numeric c ''td_seconds''"
  using assms by (auto simp: check_slew_rate_def Let_def bindE_eq_Inr need_iffs intro: config_rules)

interpretation slew_rate: typed_kernel NUMERIC_LIMIT_SLEW_RATE eval_slew_rate
  "\<lambda>c. check_slew_rate c = Inr ()" "\<lambda>_. True"
  by unfold_locales (auto simp: eval_slew_rate_def args_typed_iff slew_config intro!: sound_rules)

lemma sound_float_outcome [sound_rules]:
  "outputs (block_slots k) = [(''out'', NUMERIC)] \<Longrightarrow> soundE (\<lambda>_. True) m \<Longrightarrow>
     soundE (outcome_typed k) (mapE (\<lambda>x. Single (PFloat x)) m)"
  by (cases m) (simp_all add: outcome_float)

lemma integrator_config:
  assumes "check_integrator c = Inr ()"
  shows "cfg_numeric_opt c ''gain''" "cfg_numeric_opt c ''initial''"
  using assms by (auto simp: check_integrator_def bindE_eq_Inr need_iffs intro: config_rules)

interpretation integrator: deferred_block NUMERIC_INTEGRATOR_WITH_RESET emit_integrator update_integrator
  "\<lambda>c. check_integrator c = Inr ()"
  by unfold_locales
    (auto simp: emit_integrator_def update_integrator_def args_typed_iff integrator_config intro!: sound_rules)

lemma counter_config: "check_on_counter c = Inr () \<Longrightarrow> cfg_numeric_opt c ''initial''"
  by (auto simp: check_on_counter_def Let_def split: if_splits intro: config_rules)

interpretation counter: deferred_block NUMERIC_ON_COUNTER emit_counter update_counter
  "\<lambda>c. check_on_counter c = Inr ()"
  by unfold_locales
    (auto simp: emit_counter_def update_counter_def args_typed_iff counter_config intro!: sound_rules)

definition unit_delay_config_ok :: "config \<Rightarrow> bool" where
  "unit_delay_config_ok c \<longleftrightarrow> check_sample_period NUMERIC_UNIT_DELAY c = Inr ()
     \<and> check_initial_number NUMERIC_UNIT_DELAY c = Inr ()"

lemma unit_delay_config:
  assumes "unit_delay_config_ok c"
  shows "cfg_numeric c ''sample_period_seconds''" "cfg_numeric_opt c ''initial''"
  using assms by (auto simp: unit_delay_config_ok_def check_initial_number_def intro: config_rules period_config)

interpretation unit_delay: deferred_block NUMERIC_UNIT_DELAY emit_unit_delay update_unit_delay
  unit_delay_config_ok
  by unfold_locales
    (auto simp: emit_unit_delay_def update_unit_delay_def args_typed_iff unit_delay_config intro!: sound_rules)

text \<open>At an exact multiple of the period the sample index is that multiple.\<close>

lemma floor_tick:
  assumes "0 \<le> n" and "n < 2 ^ 51"
  shows "ffloor (fadd (Fin (of_int n)) (lit (1 / 10 ^ 9))) = Inr n"
proof -
  define e :: rat where "e = 4835703278458517 / 4835703278458516698824704"
  have e: "lit (1 / 10 ^ 9) = Fin e" "0 \<le> e" "e \<le> 1 / 2" by (simp_all add: lit_def e_def)
  have "fle (rnd (of_int n)) (rnd (of_int n + e))" using e(2) by (intro rnd_mono) simp
  then have low: "fle (Fin (of_int n)) (rnd (of_int n + e))" using assms by (simp add: rnd_of_int)
  have "fle (rnd (of_int n + e)) (rnd (of_int (2 * n + 1) / 2))" using e(3) by (intro rnd_mono) simp
  moreover have "rnd (of_int (2 * n + 1) / 2) = Fin (of_int (2 * n + 1) / 2)"
    using assms by (intro rnd_half) simp
  ultimately have high: "fle (rnd (of_int n + e)) (Fin (of_int n + 1 / 2))" by (simp add: add_divide_distrib)
  have "rnd (of_int n + e) \<noteq> NegZero"
    using assms(1) e(2) by (auto simp: rnd_def Let_def)
  then obtain s where "rnd (of_int n + e) = Fin s" "of_int n \<le> s" "s \<le> of_int n + 1 / 2"
    using low high by (cases "rnd (of_int n + e)") (auto simp: fle_def)
  then show ?thesis by (simp add: e(1) [simplified] ffloor_def floor_unique)
qed

lemma sample_index_tick:
  assumes "fdiv (fsub t t0) period = Inr (Fin (of_int n))" and "0 \<le> n" and "n < 2 ^ 51"
  shows "sample_index t t0 period = Inr n"
  using floor_tick [OF assms(2,3)] assms(1) by (simp add: sample_index_def)

section \<open>Properties\<close>

lemma fadd_NaN [simp]: "fadd x NaN = NaN"
  by (cases x) simp_all

lemma fmul_pos_step:
  assumes "fless (Fin 0) s"
  shows "fless (Fin 0) r \<Longrightarrow> fisfinite r \<Longrightarrow> fle (Fin 0) (fmul r s)"
    and "fless r (Fin 0) \<Longrightarrow> fisfinite r \<Longrightarrow> fle (fmul r s) (Fin 0)"
proof -
  have neg: "fle (rnd q) (Fin 0)" if "q \<le> 0" for q using rnd_mono [OF that] by simp
  show "fless (Fin 0) r \<Longrightarrow> fisfinite r \<Longrightarrow> fle (Fin 0) (fmul r s)"
    using assms by (cases r; cases s) (auto simp: fmul_def inf_of_sign_def intro!: rnd_nonneg)
  show "fless r (Fin 0) \<Longrightarrow> fisfinite r \<Longrightarrow> fle (fmul r s) (Fin 0)"
    using assms
    by (cases r; cases s) (auto simp: fmul_def inf_of_sign_def mult_less_0_iff intro!: neg order.strict_implies_order)
qed

lemma slew_limits:
  assumes "check_slew_rate c = Inr ()" and "fless (Fin 0) step"
  obtains lo hi where "cfg_float_req c ''falling_slew_rate'' = Inr lo" "cfg_float_req c ''raising_slew_rate'' = Inr hi"
    "fle (fmul lo step) (fmul hi step)"
proof -
  have num: "is_number (config_opt c key) \<and> (\<exists>x. py_float (config_opt c key) = Inr x \<and> fisfinite x)"
    if "key \<in> {''raising_slew_rate'', ''falling_slew_rate''}" for key
    using that assms(1) by (auto simp: check_slew_rate_def Let_def bindE_eq_Inr need_iffs)
  obtain lo where lo: "cfg_float_req c ''falling_slew_rate'' = Inr lo" "trim_value c ''falling_slew_rate'' = lo" "fisfinite lo"
    using num [of "''falling_slew_rate''"] required_value by blast
  obtain hi where hi: "cfg_float_req c ''raising_slew_rate'' = Inr hi" "trim_value c ''raising_slew_rate'' = hi" "fisfinite hi"
    using num [of "''raising_slew_rate''"] required_value by blast
  have "\<not> fle hi (Fin 0)" "\<not> fle (Fin 0) lo"
    using assms(1) lo(2) hi(2) by (auto simp: check_slew_rate_def Let_def bindE_eq_Inr need_iffs lit_0_def)
  then have "fless (Fin 0) hi" "fless lo (Fin 0)"
    using lo(3) hi(3) by (auto simp: not_fle_iff)
  then have "fle (fmul lo step) (fmul hi step)"
    using fmul_pos_step [OF assms(2)] lo(3) hi(3) fle_trans by blast
  then show thesis using that lo(1) hi(1) by blast
qed

lemma slew_change_range:
  "fle l h \<Longrightarrow> slew_change' = fmin (fmax d l) h \<Longrightarrow> slew_change' \<noteq> NaN \<Longrightarrow> fle l slew_change' \<and> fle slew_change' h"
  unfolding fmin_def fmax_def
  by (auto simp: not_fless_iff fle_not_NaN dest: fle_not_NaN split: if_splits)

text \<open>With an accepted configuration and a positive step, a slew-rate limiter moves from its
  previous output by an amount between the falling and the raising rate times the step, unless
  the output is NaN.\<close>

theorem slew_rate_bounded:
  assumes "check_slew_rate c = Inr ()" and "cfg_bool c ''enable'' True" and "fless (Fin 0) (step_seconds ck)"
    and "eval_slew_rate c ck a (Some st) = Inr (Single (PFloat y), st')" and "y \<noteq> NaN"
  shows "\<exists>d lo hi. y = fadd (slew_y st) d \<and> slew_y st' = y
     \<and> cfg_float_req c ''falling_slew_rate'' = Inr lo \<and> cfg_float_req c ''raising_slew_rate'' = Inr hi
     \<and> fle (fmul lo (step_seconds ck)) d \<and> fle d (fmul hi (step_seconds ck))"
proof -
  obtain lo hi where l: "cfg_float_req c ''falling_slew_rate'' = Inr lo" "cfg_float_req c ''raising_slew_rate'' = Inr hi"
    "fle (fmul lo (step_seconds ck)) (fmul hi (step_seconds ck))"
    using slew_limits [OF assms(1,3)] .
  have "\<not> fle (step_seconds ck) (Fin 0)" using assms(3) by (auto dest: fless_not_fle)
  then obtain f where y: "y = fadd (slew_y st) (slew_change f lo hi (step_seconds ck))" "slew_y st' = y"
    using assms(2,4) l(1,2) by (auto simp: eval_slew_rate_def bindE_eq_Inr answer_def Let_def)
  have "slew_change f lo hi (step_seconds ck) \<noteq> NaN" using y(1) assms(5) by auto
  then show ?thesis
    using y l slew_change_range [OF l(3), of "slew_change f lo hi (step_seconds ck)" f]
    by (auto simp: slew_change_def)
qed

lemma slew_rate_bounded_witness:
  "let c = [(''raising_slew_rate'', PInt 1), (''falling_slew_rate'', PInt (- 1)), (''td_seconds'', PInt 1)];
       ck = \<lparr>now = Fin 8, step_seconds = Fin 1\<rparr>; st' = \<lparr>slew_y = Fin 8\<rparr> in
   eval_slew_rate c ck [(''in'', PFloat (Fin 101))] (Some \<lparr>slew_y = Fin 7\<rparr>) = Inr (Single (PFloat (Fin 8)), st')
     \<and> (\<exists>d lo hi. Fin 8 = fadd (slew_y \<lparr>slew_y = Fin 7\<rparr>) d \<and> slew_y st' = Fin 8
        \<and> cfg_float_req c ''falling_slew_rate'' = Inr lo \<and> cfg_float_req c ''raising_slew_rate'' = Inr hi
        \<and> fle (fmul lo (step_seconds ck)) d \<and> fle d (fmul hi (step_seconds ck)))"
proof -
  let ?c = "[(''raising_slew_rate'', PInt 1), (''falling_slew_rate'', PInt (- 1)), (''td_seconds'', PInt 1)]"
  let ?ck = "\<lparr>now = Fin 8, step_seconds = Fin 1\<rparr>"
  have one: "float_of_int 1 = Inr (Fin 1)" "float_of_int (- 1) = Inr (Fin (- 1))"
    using rnd_of_int [of "- 1"] by (simp_all add: float_of_int_def)
  have run: "eval_slew_rate ?c ?ck [(''in'', PFloat (Fin 101))] (Some \<lparr>slew_y = Fin 7\<rparr>)
      = Inr (Single (PFloat (Fin 8)), \<lparr>slew_y = Fin 8\<rparr>)"
    using rnd_of_int [of "- 1"]
    by (simp add: eval_slew_rate_def number_arg_def dict_get_def cfg_bool_def cfg_get_def cfg_float_req_def one
        answer_def fdiv_def fmul_def fsub_def slew_change_def fmax_def fmin_def fle_def Let_def)
  have ok: "check_slew_rate ?c = Inr ()" "cfg_bool ?c ''enable'' True"
    by (simp_all add: check_slew_rate_def need_def need_finite_def need_finite_that_def finite_number_def config_opt_def
        cfg_get_def trim_value_def one lit_0_def cfg_bool_def okE_def fle_def)
  show ?thesis
    unfolding Let_def using run slew_rate_bounded [OF ok _ run] by simp
qed

text \<open>Whatever its scans were, a moving average holds at least one and at most 64 points.\<close>

theorem moving_average_memory:
  assumes "kernel_reach eval_moving_average c (Some st)"
  shows "ma_points st \<noteq> [] \<and> length (ma_points st) \<le> 64"
proof -
  have "average_inv s'" if "pred_option average_inv s" "eval_moving_average c ck a s = Inr (r, s')" for ck a s r s'
    using that
    by (cases s) (auto simp: eval_moving_average_def bindE_eq_Inr answer_def Let_def average_inv_def
        append_point_nonempty intro!: length_append_point order_trans [OF length_drop_expired])
  then have "pred_option average_inv (Some st)" by (intro kernel_reach_inv [OF assms]) blast
  then show ?thesis by (simp add: average_inv_def)
qed

lemma moving_average_memory_witness:
  "let st = \<lparr>ma_mu = Fin 0, ma_t_start = Fin 1, ma_prev_t = Fin 1, ma_points = [(Fin 1, Fin 0)]\<rparr> in
   kernel_reach eval_moving_average [(''window_seconds'', PFloat (Fin 60))] (Some st)
     \<and> ma_points st \<noteq> [] \<and> length (ma_points st) \<le> 64"
proof -
  let ?c = "[(''window_seconds'', PFloat (Fin 60))]"
  let ?st = "\<lparr>ma_mu = Fin 0, ma_t_start = Fin 1, ma_prev_t = Fin 1, ma_points = [(Fin 1, Fin 0)]\<rparr>"
  have "\<exists>r. eval_moving_average ?c \<lparr>now = Fin 1, step_seconds = Fin 1\<rparr> [(''in'', PFloat (Fin 5))] None = Inr (r, ?st)"
    by (simp add: eval_moving_average_def number_arg_def dict_get_def cfg_float_req_def Let_def fsub_def fmax_def
        fmul_def zero_of_sign_def interpolate_integral_def fle_def lit_def fdiv_def answer_def append_point_def)
  then have "kernel_reach eval_moving_average ?c (Some ?st)"
    by (elim exE) (rule reach_scan [OF reach_start])
  from this and moving_average_memory [OF this] show ?thesis unfolding Let_def by blast
qed

text \<open>A unit delay answers the value staged at the last sample once a later sample instant is
  reached: a scan that stages a value at sample \<open>n\<close> leaves a state from which the emission at any
  later sample index answers that value.\<close>

theorem unit_delay_delays:
  assumes "update_unit_delay c ck a (Some st) = Inr st'" and "ud_last_index st' \<noteq> ud_last_index st"
    and "number_arg a ''in'' = Inr v" and "cfg_float_req c ''sample_period_seconds'' = Inr period"
    and "cfg_float c ''initial'' (Fin 0) = Inr start"
    and "sample_index (now ck') (ud_t0 st') period = Inr n" and "ud_last_index st' < n"
  shows "emit_unit_delay c ck' (Some st') = Inr (Single (PFloat v))"
  using assms by (auto simp: update_unit_delay_def emit_unit_delay_def bindE_eq_Inr split: if_splits)

lemma unit_delay_delays_witness:
  "emit_unit_delay [(''sample_period_seconds'', PFloat (Fin 10))] \<lparr>now = Fin 30, step_seconds = Fin 10\<rparr>
     (Some \<lparr>ud_held = Fin 4, ud_staged = Fin 7, ud_t0 = Fin 0, ud_last_index = 2\<rparr>) = Inr (Single (PFloat (Fin 7)))"
proof (rule unit_delay_delays [where n = 3 and period = "Fin 10" and start = "Fin 0"])
  have index: "sample_index (Fin 20) (Fin 0) (Fin 10) = Inr 2" "sample_index (Fin 30) (Fin 0) (Fin 10) = Inr 3"
    by (rule sample_index_tick; simp add: fsub_def fdiv_def)+
  show "update_unit_delay [(''sample_period_seconds'', PFloat (Fin 10))] \<lparr>now = Fin 20, step_seconds = Fin 10\<rparr>
      [(''in'', PFloat (Fin 7))] (Some \<lparr>ud_held = Fin 2, ud_staged = Fin 4, ud_t0 = Fin 0, ud_last_index = 1\<rparr>)
    = Inr \<lparr>ud_held = Fin 4, ud_staged = Fin 7, ud_t0 = Fin 0, ud_last_index = 2\<rparr>"
    by (simp add: update_unit_delay_def number_arg_def dict_get_def cfg_float_req_def index)
  show "sample_index (now \<lparr>now = Fin 30, step_seconds = Fin 10\<rparr>)
       (ud_t0 \<lparr>ud_held = Fin 4, ud_staged = Fin 7, ud_t0 = Fin 0, ud_last_index = 2\<rparr>) (Fin 10) = Inr 3"
    by (simp add: index)
qed (simp_all add: number_arg_def dict_get_def cfg_float_req_def cfg_float_def cfg_get_def)

end
