(* ===== verification/KernelControl.thy ===== *)
theory KernelControl
  imports KernelTime
begin

text \<open>
  The closed-loop blocks of the interpreter: the PI loop with conditional integration, the
  PID with reset, and the trim-and-respond recurrence with its hold
  (\<open>_trim_and_respond\<close>).
\<close>

section \<open>PI loop\<close>

record pi_state =
  pi_integral :: pyfloat

definition clamp :: "pyfloat \<Rightarrow> pyfloat \<Rightarrow> pyfloat \<Rightarrow> pyfloat" where
  "clamp lo hi x = fmin hi (fmax lo x)"

definition eval_pi_loop :: "pi_state kernel" where
  "eval_pi_loop c ck a s =
     bindE (cfg_float c ''output_min'' (Fin 0)) (\<lambda>output_min.
     bindE (cfg_float c ''output_max'' (Fin 100)) (\<lambda>output_max.
     bindE (py_float (cfg_get c ''disabled_output'' (PFloat output_min))) (\<lambda>disabled_output.
     let st = setdefault s \<lparr>pi_integral = Fin 0\<rparr> in
     bindE (bool_arg a ''enable'') (\<lambda>enable.
     if \<not> enable then
       answer (PFloat (clamp output_min output_max disabled_output)) (st\<lparr>pi_integral := Fin 0\<rparr>)
     else
       bindE (number_arg a ''controlled_variable'') (\<lambda>controlled.
       bindE (number_arg a ''setpoint'') (\<lambda>setpoint.
       bindE (bool_arg a ''direct'') (\<lambda>direct.
       let error = (if direct then fsub controlled setpoint else fsub setpoint controlled) in
       bindE (cfg_float c ''proportional_constant'' (Fin 1)) (\<lambda>kp.
       bindE (cfg_float c ''integral_constant'' (Fin 0)) (\<lambda>ki.
       bindE (cfg_float c ''bias'' (Fin 0)) (\<lambda>bias.
       let proportional = fmul kp error;
           integral_delta = fmul (fmul ki error) (step_seconds ck);
           candidate_integral = fadd (pi_integral st) integral_delta;
           raw = fadd (fadd bias proportional) candidate_integral;
           output = clamp output_min output_max raw;
           drives_further_high = (fless output_max raw \<and> fless (Fin 0) error);
           drives_further_low = (fless raw output_min \<and> fless error (Fin 0))
       in answer (PFloat output)
            (if \<not> drives_further_high \<and> \<not> drives_further_low
             then st\<lparr>pi_integral := candidate_integral\<rparr> else st)))))))))))"

section \<open>PID with reset\<close>

record pid_state =
  pid_integral :: pyfloat
  pid_derivative :: pyfloat
  pid_first_tick :: bool
  pid_previous_trigger :: bool

record pid_params =
  p_with_integral :: bool
  p_with_derivative :: bool
  p_k :: pyfloat
  p_ti :: pyfloat
  p_td :: pyfloat
  p_r :: pyfloat
  p_ni :: pyfloat
  p_nd :: pyfloat
  p_y_min :: pyfloat
  p_y_max :: pyfloat

definition pid_read :: "config \<Rightarrow> pid_params result" where
  "pid_read c =
     (let kind = cfg_get c ''controller_type'' (PStr ''PI'') in
      bindE (cfg_float c ''k'' lit_1) (\<lambda>k.
      bindE (cfg_float c ''ti'' (lit (1 / 2))) (\<lambda>ti.
      bindE (cfg_float c ''td'' (lit (1 / 10))) (\<lambda>td.
      bindE (cfg_float c ''r'' lit_1) (\<lambda>r.
      bindE (cfg_float c ''ni'' (lit (9 / 10))) (\<lambda>ni.
      bindE (cfg_float c ''nd'' (Fin 10)) (\<lambda>nd.
      bindE (cfg_float c ''y_min'' lit_0) (\<lambda>y_min.
      bindE (cfg_float c ''y_max'' lit_1) (\<lambda>y_max.
      Inr \<lparr>p_with_integral = kind \<in> {PStr ''PI'', PStr ''PID''},
           p_with_derivative = kind \<in> {PStr ''PD'', PStr ''PID''},
           p_k = k, p_ti = ti, p_td = td, p_r = r, p_ni = ni, p_nd = nd,
           p_y_min = y_min, p_y_max = y_max\<rparr>)))))))))"

definition pid_limit :: "pyfloat \<Rightarrow> pyfloat \<Rightarrow> pyfloat \<Rightarrow> pyfloat" where
  "pid_limit y_min y_max x = (if fless y_max x then y_max else if fless x y_min then y_min else x)"

text \<open>The integral part of the state update.\<close>

definition pid_integrate :: "config \<Rightarrow> pid_params \<Rightarrow> clock \<Rightarrow> bool \<Rightarrow> pyfloat \<Rightarrow> pyfloat \<Rightarrow> pyfloat \<Rightarrow>
    pyfloat \<Rightarrow> pyfloat \<Rightarrow> pid_state \<Rightarrow> pid_state result" where
  "pid_integrate c p ck trigger error proportional_derivative integral unlimited output st =
     (let rising_reset = (trigger \<and> \<not> pid_previous_trigger st) in
      bindE (if rising_reset then
               bindE (py_float (cfg_get c ''y_reset'' (cfg_get c ''xi_start'' (PFloat (Fin 0))))) (\<lambda>y.
                 Inr (fsub y proportional_derivative))
             else
               bindE (fdiv (fsub unlimited output) (fmul (p_k p) (p_ni p))) (\<lambda>anti_windup.
               bindE (fdiv (p_k p) (p_ti p)) (\<lambda>rate.
                 let corrected_error = fsub error anti_windup;
                     dt = (if pid_first_tick st then Fin 0 else step_seconds ck)
                 in Inr (fadd integral (fmul (fmul rate corrected_error) dt))))) (\<lambda>i.
      Inr (st\<lparr>pid_integral := i, pid_previous_trigger := trigger\<rparr>)))"

text \<open>The derivative part of the state update.\<close>

definition pid_differentiate :: "config \<Rightarrow> clock \<Rightarrow> pyfloat \<Rightarrow> pyfloat \<Rightarrow> pyfloat \<Rightarrow> pid_state \<Rightarrow> pid_state result" where
  "pid_differentiate c ck error derivative_gain derivative_time st =
     bindE (if pid_first_tick st then
              (if fless (fabs derivative_gain) (lit (1 / 10 ^ 15)) then Inr error
               else bindE (cfg_float c ''yd_start'' (Fin 0)) (\<lambda>yd.
                 bindE (fdiv (fmul derivative_time yd) derivative_gain) (\<lambda>q. Inr (fsub error q))))
            else Inr (pid_derivative st)) (\<lambda>derivative_state.
     let dt = (if pid_first_tick st then Fin 0 else step_seconds ck) in
     bindE (fdiv dt derivative_time) (\<lambda>ratio.
     bindE (fdiv (fadd derivative_state (fmul ratio error)) (fadd (Fin 1) ratio)) (\<lambda>d.
     Inr (st\<lparr>pid_derivative := d\<rparr>))))"

definition eval_pid :: "pid_state kernel" where
  "eval_pid c ck a s =
     bindE (pid_read c) (\<lambda>p.
     bindE (cfg_float c ''xi_start'' (Fin 0)) (\<lambda>xi_start.
     let st = setdefault s \<lparr>pid_integral = xi_start, pid_derivative = Fin 0, pid_first_tick = True,
                            pid_previous_trigger = False\<rparr>;
         reverse_sign = (if cfg_bool c ''reverse_acting'' True then Fin 1 else Fin (-1)) in
     bindE (number_arg a ''setpoint'') (\<lambda>setpoint.
     bindE (number_arg a ''measurement'') (\<lambda>measurement.
     bindE (fdiv (fmul reverse_sign (fsub setpoint measurement)) (p_r p)) (\<lambda>error.
     let proportional = fmul (p_k p) error; derivative_gain = fmul (p_k p) (p_td p) in
     bindE (fdiv (p_td p) (p_nd p)) (\<lambda>derivative_time.
     bindE (if p_with_derivative p then
              (if pid_first_tick st then cfg_float c ''yd_start'' (Fin 0)
               else bindE (fdiv derivative_gain derivative_time) (\<lambda>g.
                 Inr (fmul g (fsub error (pid_derivative st)))))
            else Inr (Fin 0)) (\<lambda>derivative.
     let integral = (if p_with_integral p then pid_integral st else Fin 0);
         proportional_derivative = fadd proportional derivative;
         unlimited = fadd proportional_derivative integral;
         output = pid_limit (p_y_min p) (p_y_max p) unlimited in
     bindE (if p_with_integral p then
              bindE (bool_arg a ''trigger'') (\<lambda>trigger.
                pid_integrate c p ck trigger error proportional_derivative integral unlimited output st)
            else Inr st) (\<lambda>st.
     bindE (if p_with_derivative p then pid_differentiate c ck error derivative_gain derivative_time st
            else Inr st) (\<lambda>st.
     answer (PFloat output) (st\<lparr>pid_first_tick := False\<rparr>))))))))))"

section \<open>Trim and respond\<close>

record trim_state =
  tr_delay_out :: bool
  tr_delay_pending :: bool
  tr_delay_elapsed :: pyfloat
  tr_sampler_initialized :: bool
  tr_sampler_held :: pyfloat
  tr_sampler_t0 :: pyfloat
  tr_sampler_last_index :: int
  tr_unit_initialized :: bool
  tr_unit_held :: pyfloat
  tr_unit_staged :: pyfloat
  tr_unit_t0 :: pyfloat
  tr_unit_last_index :: int
  tr_hold_initialized :: bool
  tr_hold_out :: bool
  tr_hold_elapsed :: pyfloat
  tr_hold_latch :: bool
  tr_sample_trigger_last_index :: int

definition trim_initial :: "pyfloat \<Rightarrow> trim_state" where
  "trim_initial initial =
     \<lparr>tr_delay_out = False, tr_delay_pending = False, tr_delay_elapsed = Fin 0,
      tr_sampler_initialized = False, tr_sampler_held = Fin 0, tr_sampler_t0 = Fin 0,
      tr_sampler_last_index = -1,
      tr_unit_initialized = False, tr_unit_held = initial, tr_unit_staged = initial, tr_unit_t0 = Fin 0,
      tr_unit_last_index = -1,
      tr_hold_initialized = False, tr_hold_out = False, tr_hold_elapsed = Fin 0, tr_hold_latch = False,
      tr_sample_trigger_last_index = -1\<rparr>"

text \<open>The hold: a true/false hold on the request, sampled into a latch.\<close>

definition trim_hold_input :: "config \<Rightarrow> clock \<Rightarrow> bool \<Rightarrow> trim_state \<Rightarrow> trim_state result" where
  "trim_hold_input c ck hold_input st =
     (if \<not> tr_hold_initialized st then
        Inr (st\<lparr>tr_hold_initialized := True, tr_hold_out := hold_input, tr_hold_elapsed := Fin 0\<rparr>)
      else
        let st = st\<lparr>tr_hold_elapsed := fadd (tr_hold_elapsed st) (step_seconds ck)\<rparr> in
        if hold_input \<noteq> tr_hold_out st then
          bindE (if tr_hold_out st then cfg_float_req c ''hold_duration_seconds'' else Inr (Fin 0)) (\<lambda>required.
            Inr (if fle required (tr_hold_elapsed st)
                 then st\<lparr>tr_hold_out := hold_input, tr_hold_elapsed := Fin 0\<rparr> else st))
        else Inr st)"

definition trim_hold :: "config \<Rightarrow> clock \<Rightarrow> args \<Rightarrow> pyfloat \<Rightarrow> trim_state \<Rightarrow> (bool \<times> trim_state) result" where
  "trim_hold c ck a period st =
     (if cfg_bool c ''hold_enabled'' False then
        bindE (bool_arg a ''hold'') (\<lambda>hold_input.
        bindE (trim_hold_input c ck hold_input st) (\<lambda>st.
        bindE (fdiv (now ck) period) (\<lambda>q.
        bindE (ffloor (fadd q (lit (1 / 10 ^ 9)))) (\<lambda>trigger_index.
        let st = (if tr_sample_trigger_last_index st < trigger_index
                  then st\<lparr>tr_sample_trigger_last_index := trigger_index, tr_hold_latch := tr_hold_out st\<rparr>
                  else st)
        in Inr (tr_hold_latch st, st)))))
      else Inr (False, st))"

definition trim_delay :: "clock \<Rightarrow> pyfloat \<Rightarrow> bool \<Rightarrow> trim_state \<Rightarrow> trim_state" where
  "trim_delay ck delay device_on st =
     (if device_on = tr_delay_out st then st\<lparr>tr_delay_elapsed := Fin 0, tr_delay_pending := device_on\<rparr>
      else if device_on \<noteq> tr_delay_pending st then
        (let st = st\<lparr>tr_delay_pending := device_on, tr_delay_elapsed := Fin 0\<rparr> in
         if \<not> device_on \<or> fle delay (Fin 0) then st\<lparr>tr_delay_out := device_on\<rparr> else st)
      else
        (let st = st\<lparr>tr_delay_elapsed := fadd (tr_delay_elapsed st) (step_seconds ck)\<rparr>;
             active_delay = (if device_on then delay else Fin 0) in
         if fle active_delay (tr_delay_elapsed st)
         then st\<lparr>tr_delay_out := device_on, tr_delay_elapsed := Fin 0\<rparr> else st))"

definition trim_sample :: "clock \<Rightarrow> pyfloat \<Rightarrow> pyfloat \<Rightarrow> trim_state \<Rightarrow> trim_state result" where
  "trim_sample ck period requests st =
     (if \<not> tr_sampler_initialized st then
        bindE (sample_epoch (now ck) period) (\<lambda>t0.
        bindE (sample_index (now ck) t0 period) (\<lambda>index.
        Inr (st\<lparr>tr_sampler_initialized := True, tr_sampler_t0 := t0, tr_sampler_last_index := index,
                tr_sampler_held := requests\<rparr>)))
      else
        bindE (sample_index (now ck) (tr_sampler_t0 st) period) (\<lambda>index.
        Inr (if tr_sampler_last_index st < index
             then st\<lparr>tr_sampler_last_index := index, tr_sampler_held := requests\<rparr> else st)))"

text \<open>The setpoint of the previous sample, and whether a new sample is due.\<close>

definition trim_unit_output :: "clock \<Rightarrow> pyfloat \<Rightarrow> pyfloat \<Rightarrow> trim_state \<Rightarrow> (bool \<times> pyfloat) result" where
  "trim_unit_output ck period initial st =
     (if \<not> tr_unit_initialized st then Inr (False, initial)
      else bindE (sample_index (now ck) (tr_unit_t0 st) period) (\<lambda>index.
        let due = (tr_unit_last_index st < index) in
        Inr (due, if due then tr_unit_staged st else tr_unit_held st)))"

definition trim_net_reset :: "config \<Rightarrow> bool \<Rightarrow> pyfloat \<Rightarrow> trim_state \<Rightarrow> pyfloat result" where
  "trim_net_reset c hold_reset sampled_requests st =
     bindE (cfg_float_req c ''ignored_requests'') (\<lambda>ignored.
     bindE (cfg_float_req c ''respond_amount'') (\<lambda>respond_amount.
     bindE (cfg_float_req c ''maximum_response'') (\<lambda>maximum_response.
     let request_delta = fsub sampled_requests ignored;
         response = fcopysign (fmin (fmul (fabs respond_amount) request_delta) (fabs maximum_response))
                      respond_amount in
     if hold_reset then Inr (Fin 0)
     else if \<not> tr_delay_out st then Inr (Fin 0)
     else bindE (cfg_float_req c ''trim_amount'') (\<lambda>trim_amount.
       Inr (if fless (Fin 0) request_delta then fadd trim_amount response else trim_amount)))))"

definition trim_stage :: "clock \<Rightarrow> pyfloat \<Rightarrow> bool \<Rightarrow> pyfloat \<Rightarrow> trim_state \<Rightarrow> trim_state result" where
  "trim_stage ck period unit_due output st =
     (if \<not> tr_unit_initialized st then
        bindE (sample_epoch (now ck) period) (\<lambda>t0.
        bindE (sample_index (now ck) t0 period) (\<lambda>index.
        Inr (st\<lparr>tr_unit_initialized := True, tr_unit_t0 := t0, tr_unit_last_index := index,
                tr_unit_staged := output\<rparr>)))
      else if unit_due then
        bindE (sample_index (now ck) (tr_unit_t0 st) period) (\<lambda>index.
        Inr (st\<lparr>tr_unit_last_index := index, tr_unit_held := tr_unit_staged st, tr_unit_staged := output\<rparr>))
      else Inr st)"

definition eval_trim_and_respond :: "trim_state kernel" where
  "eval_trim_and_respond c ck a s =
     bindE (cfg_float_req c ''initial_setpoint'') (\<lambda>initial.
     bindE (cfg_float_req c ''minimum_setpoint'') (\<lambda>minimum.
     bindE (cfg_float_req c ''maximum_setpoint'') (\<lambda>maximum.
     bindE (cfg_float_req c ''sample_period_seconds'') (\<lambda>period.
     bindE (cfg_float_req c ''delay_seconds'') (\<lambda>delay0.
     let delay = fadd delay0 period in
     bindE (number_arg a ''request_count'') (\<lambda>requests.
     bindE (bool_arg a ''device_on'') (\<lambda>device_on.
     bindE (trim_hold c ck a period (setdefault s (trim_initial initial))) (\<lambda>(hold_reset, st).
     let st = trim_delay ck delay device_on st in
     bindE (trim_sample ck period requests st) (\<lambda>st.
     bindE (trim_unit_output ck period initial st) (\<lambda>(unit_due, unit_output).
     bindE (trim_net_reset c hold_reset (tr_sampler_held st) st) (\<lambda>net_reset.
     let candidate = fmax minimum (fmin maximum (fadd unit_output net_reset));
         output = (if device_on then candidate else initial) in
     bindE (trim_stage ck period unit_due output st) (\<lambda>st.
     answer (PFloat output) st))))))))))))"

section \<open>Typing\<close>

text \<open>The validator does not look at \<open>disabled_output\<close>; the contract needs it numeric.\<close>

definition pi_config_ok :: "config \<Rightarrow> bool" where
  "pi_config_ok c \<longleftrightarrow> check_pi_loop c = Inr () \<and> cfg_numeric_opt c ''disabled_output''"

lemma pi_config:
  assumes "check_pi_loop c = Inr ()"
  shows "cfg_numeric_opt c ''output_min''" "cfg_numeric_opt c ''output_max''"
    "cfg_numeric_opt c ''proportional_constant''" "cfg_numeric_opt c ''integral_constant''"
    "cfg_numeric_opt c ''bias''"
  using assms by (auto simp: check_pi_loop_def bindE_eq_Inr need_iffs intro: config_rules)

lemma sound_cfg_get [sound_rules]:
  "cfg_numeric_opt c key \<Longrightarrow> soundE (\<lambda>_. True) (py_float (cfg_get c key (PFloat d)))"
  using sound_cfg_float by (simp add: cfg_float_def)

interpretation pi_loop: typed_kernel PI_LOOP eval_pi_loop pi_config_ok "\<lambda>_. True"
  by unfold_locales
    (auto simp: eval_pi_loop_def args_typed_iff pi_config_ok_def pi_config intro!: sound_rules)

lemma pid_config:
  assumes "check_pid_with_reset c = Inr ()"
  shows "cfg_numeric_opt c ''k''" "cfg_numeric_opt c ''ti''" "cfg_numeric_opt c ''td''"
    "cfg_numeric_opt c ''r''" "cfg_numeric_opt c ''ni''" "cfg_numeric_opt c ''nd''"
    "cfg_numeric_opt c ''y_min''" "cfg_numeric_opt c ''y_max''" "cfg_numeric_opt c ''xi_start''"
    "cfg_numeric_opt c ''yd_start''" "is_number (cfg_get c ''y_reset'' (cfg_get c ''xi_start'' (PFloat (Fin 0))))"
  using assms by (auto simp: check_pid_with_reset_def bindE_eq_Inr need_iffs lit_0_def intro: config_rules)

lemma sound_pid_read [sound_rules]:
  "check_pid_with_reset c = Inr () \<Longrightarrow> soundE (\<lambda>_. True) (pid_read c)"
  unfolding pid_read_def by (intro sound_rules pid_config)

lemma sound_pid_integrate [sound_rules]:
  "check_pid_with_reset c = Inr () \<Longrightarrow> soundE (\<lambda>_. True) (pid_integrate c p ck t e pd i u y st)"
  unfolding pid_integrate_def
  by (intro sound_rules soundE_py_float disjI1 pid_config)

lemma sound_pid_differentiate [sound_rules]:
  "check_pid_with_reset c = Inr () \<Longrightarrow> soundE (\<lambda>_. True) (pid_differentiate c ck e g t st)"
  unfolding pid_differentiate_def by (intro sound_rules pid_config)

interpretation pid: typed_kernel PID_WITH_RESET eval_pid "\<lambda>c. check_pid_with_reset c = Inr ()" "\<lambda>_. True"
proof
  fix c ck a and s :: "pid_state option"
  assume "check_pid_with_reset c = Inr ()" "args_typed PID_WITH_RESET a"
  then show "soundE (\<lambda>(r, s'). outcome_typed PID_WITH_RESET r \<and> True) (eval_pid c ck a s)"
    unfolding eval_pid_def by (intro sound_rules pid_config) (simp_all add: args_typed_iff)
qed

lemma trim_config:
  assumes "check_trim_and_respond h c = Inr ()"
  shows "key \<in> set trim_required \<Longrightarrow> cfg_numeric c key"
    and "cfg_bool c ''hold_enabled'' False \<Longrightarrow> h"
    and "h \<Longrightarrow> cfg_numeric c ''hold_duration_seconds''"
  using assms
  by (auto simp: check_trim_and_respond_def Let_def bindE_eq_Inr need_iffs trim_required_def cfg_bool_def
      intro: config_rules)

lemma sound_trim_hold_input [sound_rules]:
  "cfg_numeric c ''hold_duration_seconds'' \<Longrightarrow> soundE (\<lambda>_. True) (trim_hold_input c ck h st)"
  unfolding trim_hold_input_def by (intro sound_rules)

lemma sound_trim_hold [sound_rules]:
  "(cfg_bool c ''hold_enabled'' False \<Longrightarrow> boolean_slot a ''hold'' \<and> cfg_numeric c ''hold_duration_seconds'') \<Longrightarrow>
     soundE (\<lambda>_. True) (trim_hold c ck a period st)"
  unfolding trim_hold_def by (intro sound_rules) auto

lemma sound_trim_parts [sound_rules]:
  "soundE (\<lambda>_. True) (trim_sample ck period requests st)"
  "soundE (\<lambda>_. True) (trim_unit_output ck period initial st)"
  "soundE (\<lambda>_. True) (trim_stage ck period due output st)"
  unfolding trim_sample_def trim_unit_output_def trim_stage_def by (intro sound_rules)+

lemma sound_trim_net_reset [sound_rules]:
  "check_trim_and_respond h c = Inr () \<Longrightarrow> soundE (\<lambda>_. True) (trim_net_reset c r n st)"
  unfolding trim_net_reset_def
  by (intro sound_rules trim_config(1)) (simp_all add: trim_required_def)

lemma trim_sound:
  assumes "(''request_count'', NUMERIC) \<in> set (inputs (block_slots k))"
    and "(''device_on'', BOOLEAN) \<in> set (inputs (block_slots k))"
    and "h \<Longrightarrow> (''hold'', BOOLEAN) \<in> set (inputs (block_slots k))"
    and "outputs (block_slots k) = [(''out'', NUMERIC)]"
  shows "typed_kernel k eval_trim_and_respond (\<lambda>c. check_trim_and_respond h c = Inr ()) (\<lambda>_. True)"
proof
  fix c ck a and s :: "trim_state option"
  assume c: "check_trim_and_respond h c = Inr ()" and a: "args_typed k a"
  have slots: "numeric_slot a ''request_count''" "boolean_slot a ''device_on''"
    "h \<Longrightarrow> boolean_slot a ''hold''"
    using a assms(1-3) by (fastforce simp: args_typed_iff list_all_iff)+
  show "soundE (\<lambda>(r, s'). outcome_typed k r \<and> True) (eval_trim_and_respond c ck a s)"
    unfolding eval_trim_and_respond_def
    by (intro sound_rules trim_config(1) [OF c] sound_trim_net_reset [OF c])
       (use trim_config(2,3) [OF c] slots assms(4) in \<open>auto simp: trim_required_def\<close>)
qed

interpretation trim: typed_kernel TRIM_AND_RESPOND eval_trim_and_respond
  "\<lambda>c. check_trim_and_respond False c = Inr ()" "\<lambda>_. True"
  by (rule trim_sound) simp_all

interpretation trim_hold: typed_kernel TRIM_AND_RESPOND_HOLD eval_trim_and_respond
  "\<lambda>c. check_trim_and_respond True c = Inr ()" "\<lambda>_. True"
  by (rule trim_sound) simp_all

section \<open>Every output stays between its limits\<close>

lemma clamp_bounds: "fle lo hi \<Longrightarrow> fle lo (clamp lo hi x) \<and> fle (clamp lo hi x) hi"
  unfolding clamp_def fmin_def fmax_def
  by (auto intro: fless_imp_fle fle_trans)

lemma limit_bounds:
  "fle lo hi \<Longrightarrow> fle lo (fmax lo (fmin hi x)) \<and> fle (fmax lo (fmin hi x)) hi"
  unfolding fmin_def fmax_def
  by (auto intro: fless_imp_fle fle_trans)

lemma pid_limit_bounds:
  "fle lo hi \<Longrightarrow> x \<noteq> NaN \<Longrightarrow> fle lo (pid_limit lo hi x) \<and> fle (pid_limit lo hi x) hi"
  unfolding pid_limit_def
  by (auto simp: not_fless_iff fle_not_NaN dest: fle_not_NaN)

section \<open>Properties\<close>

lemma pi_outcome:
  assumes "eval_pi_loop c ck a s = Inr (r, s')"
    and "cfg_float c ''output_min'' (Fin 0) = Inr lo" and "cfg_float c ''output_max'' (Fin 100) = Inr hi"
  obtains x where "r = Single (PFloat (clamp lo hi x))"
  using assms by (auto simp: eval_pi_loop_def bindE_eq_Inr answer_def Let_def split: if_splits)

text \<open>Every answer of a PI loop whose lower limit does not exceed its upper limit lies between
  the two, enabled or not, whatever its inputs, its state and its disabled output, NaN included.\<close>

theorem pi_loop_output_bounded:
  assumes "eval_pi_loop c ck a s = Inr (r, s')"
    and "cfg_float c ''output_min'' (Fin 0) = Inr lo" and "cfg_float c ''output_max'' (Fin 100) = Inr hi"
    and "fle lo hi"
  shows "\<exists>y. r = Single (PFloat y) \<and> fle lo y \<and> fle y hi"
  using pi_outcome [OF assms(1-3)] clamp_bounds [OF assms(4)] by metis

lemma pi_loop_output_bounded_witness:
  "\<exists>y. Single (PFloat (Fin 50)) = Single (PFloat y) \<and> fle (Fin 0) y \<and> fle y (Fin 100)"
proof (rule pi_loop_output_bounded)
  let ?c = "[(''integral_constant'', PFloat (Fin 1))]"
  show "eval_pi_loop ?c \<lparr>now = Fin 3, step_seconds = Fin 1\<rparr>
      [(''enable'', PBool True), (''controlled_variable'', PFloat (Fin 5)), (''setpoint'', PFloat (Fin 25)), (''direct'', PBool False)]
      (Some \<lparr>pi_integral = Fin 10\<rparr>) = Inr (Single (PFloat (Fin 50)), \<lparr>pi_integral = Fin 30\<rparr>)"
    by (simp add: eval_pi_loop_def bool_arg_def number_arg_def dict_get_def cfg_float_def cfg_get_def Let_def
        fsub_def fmul_def clamp_def fmin_def fmax_def answer_def)
  show "cfg_float ?c ''output_min'' (Fin 0) = Inr (Fin 0)" "cfg_float ?c ''output_max'' (Fin 100) = Inr (Fin 100)"
    by (simp_all add: cfg_float_def cfg_get_def)
qed simp

text \<open>The control error of a PI loop.\<close>

definition pi_error :: "args \<Rightarrow> pyfloat result" where
  "pi_error a = bindE (number_arg a ''controlled_variable'') (\<lambda>controlled.
     bindE (number_arg a ''setpoint'') (\<lambda>setpoint. bindE (bool_arg a ''direct'') (\<lambda>direct.
     Inr (if direct then fsub controlled setpoint else fsub setpoint controlled))))"

text \<open>The PI loop does not wind up: an enabled scan changes the integral only to a value with
  which the unlimited output is not above the upper limit while the error drives it up, and not
  below the lower limit while the error drives it down.\<close>

theorem pi_loop_anti_windup:
  assumes "eval_pi_loop c ck a (Some st) = Inr (r, st')" and "bool_arg a ''enable'' = Inr True"
    and "cfg_float c ''output_min'' (Fin 0) = Inr lo" and "cfg_float c ''output_max'' (Fin 100) = Inr hi"
    and "cfg_float c ''proportional_constant'' (Fin 1) = Inr kp" and "cfg_float c ''bias'' (Fin 0) = Inr bias"
    and "pi_error a = Inr e" and "pi_integral st' \<noteq> pi_integral st"
  shows "\<not> (fless (Fin 0) e \<and> fless hi (fadd (fadd bias (fmul kp e)) (pi_integral st')))
    \<and> \<not> (fless e (Fin 0) \<and> fless (fadd (fadd bias (fmul kp e)) (pi_integral st')) lo)"
proof -
  obtain cv sp d where a: "number_arg a ''controlled_variable'' = Inr cv" "number_arg a ''setpoint'' = Inr sp"
    "bool_arg a ''direct'' = Inr d" and e: "(if d then fsub cv sp else fsub sp cv) = e"
    using assms(7) by (auto simp: pi_error_def bindE_eq_Inr)
  define raw where "raw i = fadd (fadd bias (fmul kp e)) i" for i
  obtain i where st': "st' = (if \<not> (fless hi (raw i) \<and> fless (Fin 0) e) \<and> \<not> (fless (raw i) lo \<and> fless e (Fin 0))
      then st\<lparr>pi_integral := i\<rparr> else st)"
    using assms(1) unfolding eval_pi_loop_def assms(2-6) bindE_Inr Let_def setdefault_simps a e not_True_eq_False if_False
    by (auto simp: bindE_eq_Inr answer_def raw_def)
  then show ?thesis using assms(8) unfolding raw_def [symmetric] by (auto split: if_splits)
qed

lemma pi_loop_anti_windup_witness:
  "\<not> (fless (Fin 0) (Fin 20) \<and> fless (Fin 100) (fadd (fadd (Fin 0) (fmul (Fin 1) (Fin 20))) (pi_integral \<lparr>pi_integral = Fin 30\<rparr>)))
    \<and> \<not> (fless (Fin 20) (Fin 0) \<and> fless (fadd (fadd (Fin 0) (fmul (Fin 1) (Fin 20))) (pi_integral \<lparr>pi_integral = Fin 30\<rparr>)) (Fin 0))"
proof (rule pi_loop_anti_windup [where st = "\<lparr>pi_integral = Fin 10\<rparr>"])
  let ?c = "[(''integral_constant'', PFloat (Fin 1))]"
  let ?a = "[(''enable'', PBool True), (''controlled_variable'', PFloat (Fin 5)), (''setpoint'', PFloat (Fin 25)), (''direct'', PBool False)]"
  show "eval_pi_loop ?c \<lparr>now = Fin 3, step_seconds = Fin 1\<rparr> ?a
      (Some \<lparr>pi_integral = Fin 10\<rparr>) = Inr (Single (PFloat (Fin 50)), \<lparr>pi_integral = Fin 30\<rparr>)"
    by (simp add: eval_pi_loop_def bool_arg_def number_arg_def dict_get_def cfg_float_def cfg_get_def Let_def
        fsub_def fmul_def clamp_def fmin_def fmax_def answer_def)
  show "pi_error ?a = Inr (Fin 20)" "bool_arg ?a ''enable'' = Inr True"
    by (simp_all add: pi_error_def bool_arg_def number_arg_def dict_get_def fsub_def)
  show "cfg_float ?c ''output_min'' (Fin 0) = Inr (Fin 0)" "cfg_float ?c ''output_max'' (Fin 100) = Inr (Fin 100)"
    "cfg_float ?c ''proportional_constant'' (Fin 1) = Inr (Fin 1)" "cfg_float ?c ''bias'' (Fin 0) = Inr (Fin 0)"
    by (simp_all add: cfg_float_def cfg_get_def)
qed simp

text \<open>The limits of an accepted PID configuration.\<close>

lemma pid_limits:
  assumes "check_pid_with_reset c = Inr ()"
  obtains lo hi where "cfg_float c ''y_min'' lit_0 = Inr lo" "cfg_float c ''y_max'' lit_1 = Inr hi" "fless lo hi"
proof -
  have "is_number (cfg_get c ''y_min'' (PFloat lit_0)) \<and> (\<exists>x. py_float (cfg_get c ''y_min'' (PFloat lit_0)) = Inr x \<and> fisfinite x)"
    "is_number (cfg_get c ''y_max'' (PFloat lit_1)) \<and> (\<exists>x. py_float (cfg_get c ''y_max'' (PFloat lit_1)) = Inr x \<and> fisfinite x)"
    using assms by (auto simp: check_pid_with_reset_def bindE_eq_Inr need_iffs)
  then obtain lo hi where "cfg_float c ''y_min'' lit_0 = Inr lo" "cfg_float c ''y_max'' lit_1 = Inr hi"
    "fisfinite lo" "fisfinite hi" by (auto simp: cfg_float_def)
  moreover from this have "\<not> fle hi lo"
    using assms by (auto simp: check_pid_with_reset_def bindE_eq_Inr need_iffs)
  ultimately show thesis using that by (auto simp: not_fle_iff)
qed

text \<open>With an accepted configuration every answer of a PID block is NaN or lies between its
  configured limits, which are in order.\<close>

theorem pid_output_bounded:
  assumes "check_pid_with_reset c = Inr ()" and "eval_pid c ck a s = Inr (r, s')"
  shows "\<exists>y lo hi. r = Single (PFloat y) \<and> cfg_float c ''y_min'' lit_0 = Inr lo
     \<and> cfg_float c ''y_max'' lit_1 = Inr hi \<and> fless lo hi \<and> (y = NaN \<or> fle lo y \<and> fle y hi)"
proof -
  obtain lo hi where l: "cfg_float c ''y_min'' lit_0 = Inr lo" "cfg_float c ''y_max'' lit_1 = Inr hi" "fless lo hi"
    using pid_limits [OF assms(1)] .
  obtain p where p: "pid_read c = Inr p" "\<exists>x. r = Single (PFloat (pid_limit (p_y_min p) (p_y_max p) x))"
    using assms(2) unfolding eval_pid_def bindE_eq_Inr Let_def answer_def by auto
  then have "p_y_min p = lo" "p_y_max p = hi"
    using l(1,2) by (auto simp: pid_read_def bindE_eq_Inr Let_def)
  then obtain x where r: "r = Single (PFloat (pid_limit lo hi x))" using p(2) by auto
  have "pid_limit lo hi x = NaN \<or> fle lo (pid_limit lo hi x) \<and> fle (pid_limit lo hi x) hi"
    using pid_limit_bounds [of lo hi x] l(3) by (cases "x = NaN") (simp_all add: pid_limit_def fless_imp_fle)
  then show ?thesis using r l by blast
qed

lemma pid_output_bounded_witness:
  "let c = [(''controller_type'', PStr ''P''), (''k'', PFloat (Fin 1)), (''ti'', PFloat (Fin 1)), (''td'', PFloat (Fin 1)),
            (''r'', PFloat (Fin 1)), (''ni'', PFloat (Fin 1)), (''nd'', PFloat (Fin 1))] in
   \<exists>y lo hi. Single (PFloat (Fin 1)) = Single (PFloat y) \<and> cfg_float c ''y_min'' lit_0 = Inr lo
     \<and> cfg_float c ''y_max'' lit_1 = Inr hi \<and> fless lo hi \<and> (y = NaN \<or> fle lo y \<and> fle y hi)"
  unfolding Let_def
proof (rule pid_output_bounded)
  let ?c = "[(''controller_type'', PStr ''P''), (''k'', PFloat (Fin 1)), (''ti'', PFloat (Fin 1)), (''td'', PFloat (Fin 1)),
            (''r'', PFloat (Fin 1)), (''ni'', PFloat (Fin 1)), (''nd'', PFloat (Fin 1))]"
  show "check_pid_with_reset ?c = Inr ()"
    by (simp add: check_pid_with_reset_def need_def need_finite_def need_finite_that_def finite_number_def cfg_get_def
        in_names_def okE_def lit_def lit_0_def lit_1_def cfg_float_def fle_def)
  show "eval_pid ?c \<lparr>now = Fin 3, step_seconds = Fin 1\<rparr>
      [(''setpoint'', PFloat (Fin 25)), (''measurement'', PFloat (Fin 5)), (''trigger'', PBool False)] None
    = Inr (Single (PFloat (Fin 1)), \<lparr>pid_integral = Fin 0, pid_derivative = Fin 0, pid_first_tick = False,
        pid_previous_trigger = False\<rparr>)"
    by (simp add: eval_pid_def pid_read_def number_arg_def dict_get_def cfg_float_def cfg_get_def Let_def cfg_bool_def
        fsub_def fmul_def fdiv_def pid_limit_def answer_def lit_def lit_0_def lit_1_def)
qed

text \<open>The range of an accepted trim-and-respond configuration.\<close>

lemma trim_range:
  assumes "check_trim_and_respond h c = Inr ()"
  obtains lo start hi where "cfg_float_req c ''minimum_setpoint'' = Inr lo" "cfg_float_req c ''initial_setpoint'' = Inr start"
    "cfg_float_req c ''maximum_setpoint'' = Inr hi" "fle lo start" "fle start hi"
proof -
  have num: "\<exists>x. is_number (config_opt c key) \<and> py_float (config_opt c key) = Inr x" if "key \<in> set trim_required" for key
    using that assms by (auto simp: check_trim_and_respond_def Let_def bindE_eq_Inr need_iffs)
  have val: "\<exists>x. cfg_float_req c key = Inr x \<and> trim_value c key = x" if "key \<in> set trim_required" for key
    using num [OF that] required_value by blast
  obtain lo where lo: "cfg_float_req c ''minimum_setpoint'' = Inr lo" "trim_value c ''minimum_setpoint'' = lo"
    using val [of "''minimum_setpoint''"] by (auto simp: trim_required_def)
  obtain start where start: "cfg_float_req c ''initial_setpoint'' = Inr start" "trim_value c ''initial_setpoint'' = start"
    using val [of "''initial_setpoint''"] by (auto simp: trim_required_def)
  obtain hi where hi: "cfg_float_req c ''maximum_setpoint'' = Inr hi" "trim_value c ''maximum_setpoint'' = hi"
    using val [of "''maximum_setpoint''"] by (auto simp: trim_required_def)
  have "fle lo start \<and> fle start hi"
    using assms lo(2) start(2) hi(2) by (auto simp: check_trim_and_respond_def Let_def bindE_eq_Inr need_iffs)
  then show thesis using that lo(1) start(1) hi(1) by blast
qed

text \<open>With an accepted configuration every answer of a trim-and-respond block, device on or off,
  held or not, lies between the minimum and the maximum setpoint.\<close>

theorem trim_and_respond_bounded:
  assumes "check_trim_and_respond h c = Inr ()" and "eval_trim_and_respond c ck a s = Inr (r, s')"
  shows "\<exists>y lo hi. r = Single (PFloat y) \<and> cfg_float_req c ''minimum_setpoint'' = Inr lo
     \<and> cfg_float_req c ''maximum_setpoint'' = Inr hi \<and> fle lo y \<and> fle y hi"
proof -
  obtain lo start hi where l: "cfg_float_req c ''minimum_setpoint'' = Inr lo" "cfg_float_req c ''initial_setpoint'' = Inr start"
    "cfg_float_req c ''maximum_setpoint'' = Inr hi" "fle lo start" "fle start hi"
    using trim_range [OF assms(1)] .
  have "\<exists>x. r = Single (PFloat (fmax lo (fmin hi x))) \<or> r = Single (PFloat start)"
    using assms(2)
    by (auto simp: eval_trim_and_respond_def bindE_eq_Inr Let_def answer_def l(1-3) split: prod.splits if_splits)
  then obtain y where r: "r = Single (PFloat y)" and y: "y = start \<or> (\<exists>x. y = fmax lo (fmin hi x))"
    by blast
  have "fle lo y \<and> fle y hi"
    using y l(4,5) limit_bounds [OF fle_trans [OF l(4,5)]] by blast
  then show ?thesis using r l by blast
qed

lemma trim_and_respond_bounded_witness:
  "let c = [(''initial_setpoint'', PFloat (Fin 50)), (''minimum_setpoint'', PFloat (Fin 10)),
            (''maximum_setpoint'', PFloat (Fin 90)), (''sample_period_seconds'', PFloat (Fin 10)),
            (''delay_seconds'', PFloat (Fin 0)), (''ignored_requests'', PFloat (Fin 0)),
            (''trim_amount'', PFloat (Fin (- 1))), (''respond_amount'', PFloat (Fin 2)),
            (''maximum_response'', PFloat (Fin 4))] in
   \<exists>y lo hi. Single (PFloat (Fin 50)) = Single (PFloat y) \<and> cfg_float_req c ''minimum_setpoint'' = Inr lo
     \<and> cfg_float_req c ''maximum_setpoint'' = Inr hi \<and> fle lo y \<and> fle y hi"
  unfolding Let_def
proof -
  let ?c = "[(''initial_setpoint'', PFloat (Fin 50)), (''minimum_setpoint'', PFloat (Fin 10)),
            (''maximum_setpoint'', PFloat (Fin 90)), (''sample_period_seconds'', PFloat (Fin 10)),
            (''delay_seconds'', PFloat (Fin 0)), (''ignored_requests'', PFloat (Fin 0)),
            (''trim_amount'', PFloat (Fin (- 1))), (''respond_amount'', PFloat (Fin 2)),
            (''maximum_response'', PFloat (Fin 4))]"
  have epoch: "sample_epoch (Fin 10) (Fin 10) = Inr (Fin 10)"
    by (simp add: sample_epoch_def fdiv_def ffloor_def float_of_int_def fmul_def round_even_def)
  have index: "sample_index (Fin 10) (Fin 10) (Fin 10) = Inr 0"
    by (rule sample_index_tick) (simp_all add: fsub_def fdiv_def zero_of_sign_def)
  have neg: "rnd (- 2) = Fin (- 2)" "rnd (- 1) = Fin (- 1)"
    using rnd_of_int [of "- 2"] rnd_of_int [of "- 1"] by simp_all
  have ok: "check_trim_and_respond False ?c = Inr ()"
    by (simp add: check_trim_and_respond_def trim_required_def need_def need_finite_def need_finite_that_def neg
        finite_number_def config_opt_def cfg_get_def trim_value_def okE_def lit_def lit_0_def fmul_def fle_def)
  have "\<exists>s'. eval_trim_and_respond ?c \<lparr>now = Fin 10, step_seconds = Fin 1\<rparr>
      [(''request_count'', PFloat (Fin 3)), (''device_on'', PBool False)] None = Inr (Single (PFloat (Fin 50)), s')"
    by (simp add: eval_trim_and_respond_def cfg_float_req_def dict_get_def number_arg_def bool_arg_def trim_hold_def
        cfg_bool_def cfg_get_def trim_delay_def trim_initial_def trim_sample_def trim_unit_output_def
        trim_net_reset_def trim_stage_def epoch index answer_def Let_def)
  then show "\<exists>y lo hi. Single (PFloat (Fin 50)) = Single (PFloat y) \<and> cfg_float_req ?c ''minimum_setpoint'' = Inr lo
     \<and> cfg_float_req ?c ''maximum_setpoint'' = Inr hi \<and> fle lo y \<and> fle y hi"
    by (elim exE) (rule trim_and_respond_bounded [OF ok])
qed

end
