(* ===== verification/KernelPlant.thy ===== *)
theory KernelPlant
  imports KernelControl
begin

text \<open>
  The plant blocks of the interpreter: equipment availability (a five-state machine),
  plant enable, heat-recovery chiller enable and mode control, and the two stage blocks
  over equipment masks.
\<close>

section \<open>Equipment availability\<close>

datatype availability_mode = Available | Heating | Cooling | Off | Unavailable

record availability_state =
  av_mode :: availability_mode
  av_off_since :: "pyfloat option"

text \<open>One pass of the loop: the next mode, and whether this transition stamps
  \<open>off_since\<close>.  \<open>float(None)\<close> raises when the stamp is missing.\<close>

definition availability_next :: "clock \<Rightarrow> pyfloat \<Rightarrow> bool \<Rightarrow> bool \<Rightarrow> bool \<Rightarrow> availability_state \<Rightarrow>
    availability_state result" where
  "availability_next ck off_time enable_heating enable_cooling available st = (case av_mode st of
       Available \<Rightarrow>
         Inr (if \<not> available then st\<lparr>av_mode := Unavailable\<rparr>
              else if enable_cooling then st\<lparr>av_mode := Cooling\<rparr>
              else if enable_heating then st\<lparr>av_mode := Heating\<rparr>
              else st)
     | Heating \<Rightarrow>
         Inr (if \<not> enable_heating then st\<lparr>av_mode := Off, av_off_since := Some (now ck)\<rparr>
              else if \<not> available then st\<lparr>av_mode := Unavailable\<rparr> else st)
     | Cooling \<Rightarrow>
         Inr (if \<not> enable_cooling then st\<lparr>av_mode := Off, av_off_since := Some (now ck)\<rparr>
              else if \<not> available then st\<lparr>av_mode := Unavailable\<rparr> else st)
     | Off \<Rightarrow>
         (case av_off_since st of
            None \<Rightarrow> Inl (TypeError ''float() argument must be a string or a real number'')
          | Some off_since \<Rightarrow>
              Inr (if fle off_time (fsub (now ck) off_since) then st\<lparr>av_mode := Available\<rparr> else st))
     | Unavailable \<Rightarrow> Inr (if available then st\<lparr>av_mode := Available\<rparr> else st))"

text \<open>\<open>for _ in range(5)\<close>, leaving when the mode does not change.\<close>

fun availability_loop :: "nat \<Rightarrow> clock \<Rightarrow> pyfloat \<Rightarrow> bool \<Rightarrow> bool \<Rightarrow> bool \<Rightarrow> availability_state \<Rightarrow>
    availability_state result" where
  "availability_loop 0 ck off_time h k v st = Inr st"
| "availability_loop (Suc n) ck off_time h k v st =
     bindE (availability_next ck off_time h k v st) (\<lambda>st'.
       if av_mode st' = av_mode st then Inr st' else availability_loop n ck off_time h k v st')"

definition eval_availability :: "availability_state kernel" where
  "eval_availability c ck a s =
     bindE (bool_arg a ''enableHeating'') (\<lambda>enable_heating.
     bindE (bool_arg a ''enableCooling'') (\<lambda>enable_cooling.
     bindE (bool_arg a ''available'') (\<lambda>available.
     bindE (cfg_float_req c ''off_time_seconds'') (\<lambda>off_time.
     let st = setdefault s \<lparr>av_mode = Available, av_off_since = None\<rparr> in
     bindE (availability_loop 5 ck off_time enable_heating enable_cooling available st) (\<lambda>st.
     answers [(''heatingAvailable'', PBool (av_mode st \<in> {Available, Heating})),
              (''coolingAvailable'', PBool (av_mode st \<in> {Available, Cooling}))] st)))))"

section \<open>Plant enable\<close>

record enable_state =
  en_enabled :: bool
  en_disabled_since :: pyfloat
  en_enabled_since :: "pyfloat option"
  en_low_request_since :: "pyfloat option"
  en_previous_time :: pyfloat

text \<open>The rows of the configured schedule as pairs; the loop keeps the flag of the last row
  whose time is not after the phase.\<close>

fun schedule_row :: "pyval \<Rightarrow> (pyval \<times> pyval) result" where
  "schedule_row (PList [t, f]) = Inr (t, f)"
| "schedule_row (PList (t # f # _)) = Inr (t, f)"
| "schedule_row (PList _) = Inl IndexError"
| "schedule_row _ = Inl (TypeError ''object is not subscriptable'')"

fun schedule_scan :: "pyfloat \<Rightarrow> pyval list \<Rightarrow> bool \<Rightarrow> bool result" where
  "schedule_scan phase [] enabled = Inr enabled"
| "schedule_scan phase (row # rows) enabled =
     bindE (schedule_row row) (\<lambda>(t, f).
     bindE (py_float t) (\<lambda>x.
       if fless phase x then Inr enabled else schedule_scan phase rows (truthy f)))"

definition config_schedule :: "config \<Rightarrow> pyval list result" where
  "config_schedule c = bindE (dict_get c ''schedule'') (\<lambda>v.
     case v of PList (r # rs) \<Rightarrow> Inr (r # rs) | PList [] \<Rightarrow> Inl IndexError
             | _ \<Rightarrow> Inl (TypeError ''object is not subscriptable''))"

definition scheduled_enable :: "config \<Rightarrow> pyfloat \<Rightarrow> bool result" where
  "scheduled_enable c t =
     bindE (config_schedule c) (\<lambda>rows.
     bindE (schedule_row (last rows)) (\<lambda>(t_last, _).
     bindE (py_float t_last) (\<lambda>period.
     bindE (if fless (Fin 0) period then fmod t period else Inr t) (\<lambda>phase.
     bindE (schedule_row (hd rows)) (\<lambda>(_, first).
     schedule_scan phase rows (truthy first))))))"

definition have_input_schedule :: "config \<Rightarrow> bool result" where
  "have_input_schedule c = mapE truthy (dict_get c ''have_input_schedule'')"

text \<open>Outdoor-temperature lockout, for the application that is configured.\<close>

definition outdoor_enable :: "bool \<Rightarrow> pyfloat \<Rightarrow> pyfloat \<Rightarrow> bool" where
  "outdoor_enable heating t lockout = (if heating then fless t lockout else fless lockout t)"

definition outdoor_disable :: "bool \<Rightarrow> pyfloat \<Rightarrow> pyfloat \<Rightarrow> pyfloat \<Rightarrow> bool" where
  "outdoor_disable heating t lockout hysteresis =
     (if heating then fless (fadd lockout hysteresis) t else fless t (fsub lockout hysteresis))"

definition plant_enable_init :: "pyfloat \<Rightarrow> bool \<Rightarrow> enable_state" where
  "plant_enable_init t low_request =
     \<lparr>en_enabled = False, en_disabled_since = t, en_enabled_since = None,
      en_low_request_since = (if low_request then Some t else None), en_previous_time = t\<rparr>"

definition low_request_update :: "pyfloat \<Rightarrow> bool \<Rightarrow> enable_state \<Rightarrow> enable_state" where
  "low_request_update t low_request st =
     st\<lparr>en_low_request_since :=
          (if low_request then (case en_low_request_since st of None \<Rightarrow> Some t | Some x \<Rightarrow> Some x) else None)\<rparr>"

text \<open>The transition between the disabled and the enabled state.\<close>

definition plant_enable_switch :: "pyfloat \<Rightarrow> pyfloat \<Rightarrow> bool \<Rightarrow> bool \<Rightarrow> enable_state \<Rightarrow> enable_state result" where
  "plant_enable_switch t minimum_time may_enable must_disable st =
     (if \<not> en_enabled st then
        Inr (if fle minimum_time (fsub t (en_disabled_since st)) \<and> may_enable
             then st\<lparr>en_enabled := True, en_enabled_since := Some t\<rparr> else st)
      else (case en_enabled_since st of
              None \<Rightarrow> Inl (TypeError ''float() argument must be a string or a real number'')
            | Some since \<Rightarrow>
                Inr (if fle minimum_time (fsub t since) \<and> must_disable
                     then st\<lparr>en_enabled := False, en_disabled_since := t\<rparr> else st)))"

definition eval_plant_enable :: "enable_state kernel" where
  "eval_plant_enable c ck a s =
     bindE (number_arg a ''requestCount'') (\<lambda>request_count.
     bindE (number_arg a ''outdoorTemperature'') (\<lambda>outdoor_temperature.
     bindE (bool_arg a ''scheduleEnabled'') (\<lambda>schedule_input.
     bindE (have_input_schedule c) (\<lambda>have_input.
     bindE (if have_input then Inr schedule_input else scheduled_enable c (now ck)) (\<lambda>schedule_enabled.
     bindE (bindE (dict_get c ''ignored_requests'') py_int) (\<lambda>ignored.
     let t = now ck; low_request = fle request_count (Fin (of_int ignored)) in
     bindE (case s of
              None \<Rightarrow> Inr (plant_enable_init t low_request)
            | Some st \<Rightarrow> raise_if (fless t (en_previous_time st)) ''plant enable time must be monotonic'' (Inr st)) (\<lambda>st.
     let st = low_request_update t low_request st in
     bindE (case en_low_request_since st of
              None \<Rightarrow> Inr False
            | Some since \<Rightarrow> mapE (\<lambda>limit. fle limit (fsub t since)) (cfg_float_req c ''low_request_time_seconds'')) (\<lambda>low_request_passed.
     bindE (dict_get c ''application'') (\<lambda>application.
     let heating = py_eq application (PStr ''Heating'') in
     bindE (cfg_float_req c ''outdoor_lockout'') (\<lambda>lockout.
     bindE (cfg_float_req c ''outdoor_lockout_hysteresis'') (\<lambda>hysteresis.
     bindE (cfg_float_req c ''minimum_state_time_seconds'') (\<lambda>minimum_time.
     let may_enable = (schedule_enabled \<and> fless (Fin (of_int ignored)) request_count
                       \<and> outdoor_enable heating outdoor_temperature lockout);
         must_disable = (\<not> schedule_enabled \<or> low_request_passed
                         \<or> outdoor_disable heating outdoor_temperature lockout hysteresis) in
     bindE (plant_enable_switch t minimum_time may_enable must_disable st) (\<lambda>st.
     answer (PBool (en_enabled st)) (st\<lparr>en_previous_time := t\<rparr>))))))))))))))"

section \<open>Heat-recovery chiller enable\<close>

record hrc_timer =
  ht_entry_time :: pyfloat
  ht_previous :: bool
  ht_passed :: bool

record hrc_state =
  hrc_timers :: "hrc_timer dict"
  hrc_high_cooling_load :: bool
  hrc_high_heating_load :: bool
  hrc_low_cooling_load :: bool
  hrc_low_heating_load :: bool
  hrc_previous_hrc_status :: bool
  hrc_previous_all_enable :: bool
  hrc_previous_disable :: bool
  hrc_latch :: bool
  hrc_enable_output :: bool
  hrc_delay_started :: "pyfloat option"
  hrc_previous_time :: pyfloat

definition hrc_init :: "pyfloat \<Rightarrow> hrc_state" where
  "hrc_init t =
     \<lparr>hrc_timers = [], hrc_high_cooling_load = False, hrc_high_heating_load = False,
      hrc_low_cooling_load = False, hrc_low_heating_load = False, hrc_previous_hrc_status = False,
      hrc_previous_all_enable = False, hrc_previous_disable = False, hrc_latch = False,
      hrc_enable_output = False, hrc_delay_started = None, hrc_previous_time = t\<rparr>"

text \<open>The nested function \<open>timer\<close>.\<close>

definition hrc_timer_step :: "pyfloat \<Rightarrow> bool \<Rightarrow> pyfloat \<Rightarrow> hrc_timer option \<Rightarrow> hrc_timer" where
  "hrc_timer_step t active threshold m =
     (let tm = setdefault m \<lparr>ht_entry_time = t, ht_previous = False, ht_passed = fle threshold (Fin 0)\<rparr>;
          previous = ht_previous tm;
          tm = (if active \<and> \<not> previous then tm\<lparr>ht_entry_time := t, ht_passed := fle threshold (Fin 0)\<rparr>
                else if active \<and> fle (fadd (ht_entry_time tm) threshold) t then tm\<lparr>ht_passed := True\<rparr>
                else if \<not> active then tm\<lparr>ht_passed := False\<rparr>
                else tm)
      in tm\<lparr>ht_previous := active\<rparr>)"

definition hrc_run_timer :: "pyfloat \<Rightarrow> string \<Rightarrow> bool \<Rightarrow> pyfloat \<Rightarrow> hrc_timer dict \<Rightarrow> bool \<times> hrc_timer dict" where
  "hrc_run_timer t name active threshold timers =
     (let tm = hrc_timer_step t active threshold (map_of timers name)
      in (ht_passed tm, AList.update name tm timers))"

text \<open>The nested functions \<open>greater_hysteresis\<close> and \<open>less_hysteresis\<close>.\<close>

definition greater_hysteresis :: "bool \<Rightarrow> pyfloat \<Rightarrow> pyfloat \<Rightarrow> bool" where
  "greater_hysteresis previous value threshold =
     (let hysteresis = fmul (lit (1 / 10 ^ 4)) threshold in
      if fless hysteresis (lit (1 / 10 ^ 10)) then fless threshold value
      else if \<not> previous then fless threshold value
      else fless (fsub threshold hysteresis) value)"

definition less_hysteresis :: "bool \<Rightarrow> pyfloat \<Rightarrow> pyfloat \<Rightarrow> bool" where
  "less_hysteresis previous value threshold =
     (let hysteresis = fmul (lit (1 / 10 ^ 4)) threshold in
      if fless hysteresis (lit (1 / 10 ^ 10)) then fless value threshold
      else if \<not> previous then fless value threshold
      else fless value (fadd threshold hysteresis))"

record hrc_params =
  hp_minimum_state_time :: pyfloat
  hp_sufficient_load_time :: pyfloat
  hp_minimum_cooling_capacity :: pyfloat
  hp_minimum_heating_capacity :: pyfloat
  hp_first_temperature_time :: pyfloat
  hp_second_temperature_time :: pyfloat
  hp_chilled_limit :: pyfloat
  hp_heating_limit :: pyfloat

definition hrc_read :: "config \<Rightarrow> hrc_params result" where
  "hrc_read c =
     bindE (cfg_float_req c ''minimum_state_time_seconds'') (\<lambda>minimum_state_time.
     bindE (cfg_float_req c ''sufficient_load_time_seconds'') (\<lambda>sufficient_load_time.
     bindE (cfg_float_req c ''minimum_cooling_capacity'') (\<lambda>minimum_cooling_capacity.
     bindE (cfg_float_req c ''minimum_heating_capacity'') (\<lambda>minimum_heating_capacity.
     bindE (cfg_float_req c ''temperature_limit_1_time_seconds'') (\<lambda>first_temperature_time.
     bindE (cfg_float_req c ''temperature_limit_2_time_seconds'') (\<lambda>second_temperature_time.
     bindE (cfg_float_req c ''minimum_chilled_supply_temperature'') (\<lambda>chilled_limit.
     bindE (cfg_float_req c ''maximum_heating_supply_temperature'') (\<lambda>heating_limit.
     Inr \<lparr>hp_minimum_state_time = minimum_state_time, hp_sufficient_load_time = sufficient_load_time,
          hp_minimum_cooling_capacity = minimum_cooling_capacity,
          hp_minimum_heating_capacity = minimum_heating_capacity,
          hp_first_temperature_time = first_temperature_time,
          hp_second_temperature_time = second_temperature_time,
          hp_chilled_limit = chilled_limit, hp_heating_limit = heating_limit\<rparr>))))))))"

record hrc_inputs =
  hi_cooling_plant_enable :: bool
  hi_heating_plant_enable :: bool
  hi_hrc_status :: bool
  hi_cooling_load :: pyfloat
  hi_heating_load :: pyfloat
  hi_chilled_temperature :: pyfloat
  hi_heating_temperature :: pyfloat
  hi_cooling_mode :: bool

definition hrc_read_inputs :: "args \<Rightarrow> hrc_inputs result" where
  "hrc_read_inputs a =
     bindE (bool_arg a ''coolingPlantEnable'') (\<lambda>cooling_plant_enable.
     bindE (bool_arg a ''heatingPlantEnable'') (\<lambda>heating_plant_enable.
     bindE (bool_arg a ''hrcStatus'') (\<lambda>hrc_status.
     bindE (number_arg a ''coolingLoad'') (\<lambda>cooling_load.
     bindE (number_arg a ''heatingLoad'') (\<lambda>heating_load.
     bindE (number_arg a ''chilledLeavingTemperature'') (\<lambda>chilled_temperature.
     bindE (number_arg a ''heatingLeavingTemperature'') (\<lambda>heating_temperature.
     bindE (bool_arg a ''coolingMode'') (\<lambda>cooling_mode.
     Inr \<lparr>hi_cooling_plant_enable = cooling_plant_enable, hi_heating_plant_enable = heating_plant_enable,
          hi_hrc_status = hrc_status, hi_cooling_load = cooling_load, hi_heating_load = heating_load,
          hi_chilled_temperature = chilled_temperature, hi_heating_temperature = heating_temperature,
          hi_cooling_mode = cooling_mode\<rparr>))))))))"

text \<open>The five timers of \<open>all_enable\<close>; every timer runs, whatever the others give.\<close>

definition hrc_all_enable :: "hrc_params \<Rightarrow> hrc_inputs \<Rightarrow> pyfloat \<Rightarrow> bool \<Rightarrow> bool \<Rightarrow> bool \<Rightarrow>
    hrc_timer dict \<Rightarrow> bool \<times> hrc_timer dict" where
  "hrc_all_enable p i t previous_enable high_cooling_load high_heating_load tms =
     (let (b1, tms) = hrc_run_timer t ''cooling_plant'' (hi_cooling_plant_enable i) (hp_minimum_state_time p) tms;
          (b2, tms) = hrc_run_timer t ''heating_plant'' (hi_heating_plant_enable i) (hp_minimum_state_time p) tms;
          (b3, tms) = hrc_run_timer t ''disabled'' (\<not> previous_enable) (hp_minimum_state_time p) tms;
          (b4, tms) = hrc_run_timer t ''cooling_load'' high_cooling_load (hp_sufficient_load_time p) tms;
          (b5, tms) = hrc_run_timer t ''heating_load'' high_heating_load (hp_sufficient_load_time p) tms
      in (b1 \<and> b2 \<and> b3 \<and> b4 \<and> b5, tms))"

text \<open>The four temperature timers.\<close>

definition hrc_temperature_trips :: "hrc_params \<Rightarrow> hrc_inputs \<Rightarrow> pyfloat \<Rightarrow> hrc_timer dict \<Rightarrow>
    bool \<times> bool \<times> hrc_timer dict" where
  "hrc_temperature_trips p i t tms =
     (let ct = hi_chilled_temperature i; hw = hi_heating_temperature i;
          (c1, tms) = hrc_run_timer t ''chilled_temperature_1''
             (fless ct (fadd (hp_chilled_limit p) (Fin 1))) (hp_first_temperature_time p) tms;
          (c2, tms) = hrc_run_timer t ''chilled_temperature_2''
             (fless ct (hp_chilled_limit p)) (hp_second_temperature_time p) tms;
          (h1, tms) = hrc_run_timer t ''heating_temperature_1''
             (fless (fsub (hp_heating_limit p) (Fin (3 / 2))) hw) (hp_first_temperature_time p) tms;
          (h2, tms) = hrc_run_timer t ''heating_temperature_2''
             (fless (hp_heating_limit p) hw) (hp_second_temperature_time p) tms
      in (c1 \<or> c2, h1 \<or> h2, tms))"

text \<open>The latch and the delayed output.\<close>

definition hrc_latch_next :: "bool \<Rightarrow> bool \<Rightarrow> bool \<Rightarrow> hrc_state \<Rightarrow> bool" where
  "hrc_latch_next first_tick disable all_enable st =
     (if first_tick then \<not> disable \<and> all_enable
      else if (disable \<and> \<not> hrc_previous_disable st) \<or> (all_enable \<and> \<not> hrc_previous_all_enable st)
      then \<not> disable \<and> all_enable
      else hrc_latch st)"

definition hrc_output_next :: "bool \<Rightarrow> pyfloat \<Rightarrow> bool \<Rightarrow> hrc_state \<Rightarrow> bool \<times> pyfloat option" where
  "hrc_output_next first_tick t latch st =
     (if first_tick then (latch, if latch then Some t else None)
      else if \<not> latch then (False, None)
      else if \<not> hrc_latch st then (False, Some t)
      else (case hrc_delay_started st of
              None \<Rightarrow> (hrc_enable_output st, None)
            | Some started \<Rightarrow>
                (hrc_enable_output st \<or> fle (Fin 5) (fsub t started), Some started)))"

definition hrc_disable :: "hrc_inputs \<Rightarrow> bool \<Rightarrow> bool \<Rightarrow> bool \<Rightarrow> bool \<Rightarrow> bool" where
  "hrc_disable i low_load_cycle_off previous_enable chilled_trip heating_trip =
     (\<not> hi_cooling_plant_enable i \<or> \<not> hi_heating_plant_enable i \<or> low_load_cycle_off
      \<or> (previous_enable \<and> \<not> hi_cooling_mode i \<and> chilled_trip)
      \<or> (previous_enable \<and> hi_cooling_mode i \<and> heating_trip))"

definition hrc_scan :: "hrc_params \<Rightarrow> hrc_inputs \<Rightarrow> pyfloat \<Rightarrow> bool \<Rightarrow> hrc_state \<Rightarrow>
    (bool \<times> bool) \<times> hrc_state" where
  "hrc_scan p i t first_tick st =
     (let previous_enable = hrc_enable_output st;
          high_cooling_load = greater_hysteresis (hrc_high_cooling_load st) (hi_cooling_load i)
                                (hp_minimum_cooling_capacity p);
          high_heating_load = greater_hysteresis (hrc_high_heating_load st) (hi_heating_load i)
                                (hp_minimum_heating_capacity p);
          (all_enable, tms) = hrc_all_enable p i t previous_enable high_cooling_load high_heating_load
                                (hrc_timers st);
          low_cooling_load = less_hysteresis (hrc_low_cooling_load st) (hi_cooling_load i)
                               (hp_minimum_cooling_capacity p);
          low_heating_load = less_hysteresis (hrc_low_heating_load st) (hi_cooling_load i)
                               (hp_minimum_heating_capacity p);
          hrc_falling_edge = (hrc_previous_hrc_status st \<and> \<not> hi_hrc_status i);
          low_load_cycle_off = (hrc_falling_edge \<and> (low_cooling_load \<or> low_heating_load));
          (chilled_trip, heating_trip, tms) = hrc_temperature_trips p i t tms;
          disable = hrc_disable i low_load_cycle_off previous_enable chilled_trip heating_trip;
          latch = hrc_latch_next first_tick disable all_enable st;
          set_mode = (latch \<and> \<not> hrc_latch st);
          (enable_output, delay_started) = hrc_output_next first_tick t latch st
      in ((enable_output, set_mode),
          \<lparr>hrc_timers = tms, hrc_high_cooling_load = high_cooling_load,
           hrc_high_heating_load = high_heating_load, hrc_low_cooling_load = low_cooling_load,
           hrc_low_heating_load = low_heating_load, hrc_previous_hrc_status = hi_hrc_status i,
           hrc_previous_all_enable = all_enable, hrc_previous_disable = disable, hrc_latch = latch,
           hrc_enable_output = enable_output, hrc_delay_started = delay_started,
           hrc_previous_time = t\<rparr>))"

definition eval_hrc_enable :: "hrc_state kernel" where
  "eval_hrc_enable c ck a s =
     bindE (hrc_read_inputs a) (\<lambda>i.
     bindE (case s of None \<Rightarrow> Inr (hrc_init (now ck))
            | Some st \<Rightarrow> raise_if (fless (now ck) (hrc_previous_time st))
                           ''HRC enable time must be monotonic'' (Inr st)) (\<lambda>st.
     bindE (hrc_read c) (\<lambda>p.
     let ((enable, set_mode), st) = hrc_scan p i (now ck) (s = None) st in
     answers [(''enable'', PBool enable), (''setMode'', PBool set_mode)] st)))"

section \<open>Heat-recovery chiller mode\<close>

record hrc_mode_state =
  hm_comparison :: bool
  hm_cooling_mode :: bool

definition eval_hrc_mode :: "hrc_mode_state kernel" where
  "eval_hrc_mode c ck a s =
     bindE (number_arg a ''coolingLoad'') (\<lambda>cooling_load.
     bindE (number_arg a ''heatingLoad'') (\<lambda>heating_load.
     bindE (cfg_float_req c ''heating_cop'') (\<lambda>cop.
     bindE (fdiv (Fin 1) cop) (\<lambda>q.
     let evaporator_load = fmul heating_load (fsub (Fin 1) q);
         st = setdefault s \<lparr>hm_comparison = False, hm_cooling_mode = False\<rparr>;
         comparison = ((\<not> hm_comparison st \<and> fless cooling_load evaporator_load)
                       \<or> (hm_comparison st \<and> fless cooling_load (fadd evaporator_load (Fin 1)))) in
     bindE (bool_arg a ''setMode'') (\<lambda>set_mode.
     let cooling_mode = (if set_mode then comparison else hm_cooling_mode st) in
     bindE (if cooling_mode then number_arg a ''chilledSetpoint'' else number_arg a ''heatingSetpoint'') (\<lambda>sp.
     answers [(''coolingMode'', PBool cooling_mode), (''supplySetpoint'', PFloat sp)]
       \<lparr>hm_comparison = comparison, hm_cooling_mode = cooling_mode\<rparr>))))))"

section \<open>Stage completion and stage index\<close>

text \<open>The two step commands of the stage index are always wired, so the model reads them up
  front; the source reads each when its branch is reached.\<close>

definition cfg_int_req :: "config \<Rightarrow> string \<Rightarrow> int result" where
  "cfg_int_req c key = bindE (dict_get c key) py_int"

text \<open>An integer mask from 0 through \<open>(1 << count) - 1\<close>.\<close>

definition maximum_mask :: "int \<Rightarrow> int" where
  "maximum_mask count = 2 ^ nat count - 1"

definition read_mask :: "string \<Rightarrow> int \<Rightarrow> args \<Rightarrow> string \<Rightarrow> int result" where
  "read_mask msg count a slot =
     bindE (number_arg a slot) (\<lambda>value.
       if \<not> fis_integer value
          \<or> \<not> (fle (Fin 0) value \<and> fle value (Fin (of_int (maximum_mask count))))
       then Inl (ValueError (msg @ slot @ '' must be an integer mask'')) else ftrunc value)"

record completion_state =
  cm_previous_command_mask :: int
  cm_previous_any_change :: bool
  cm_previous_pre_any_change :: bool
  cm_previous_stage :: int
  cm_previous_stage_change :: bool
  cm_change_latch :: bool
  cm_stage_latch :: bool

definition completion_init :: completion_state where
  "completion_init =
     \<lparr>cm_previous_command_mask = 0, cm_previous_any_change = False, cm_previous_pre_any_change = False,
      cm_previous_stage = 0, cm_previous_stage_change = False, cm_change_latch = False, cm_stage_latch = False\<rparr>"

definition completion_scan :: "int \<Rightarrow> int \<Rightarrow> int \<Rightarrow> completion_state \<Rightarrow> (bool \<times> bool) \<times> completion_state" where
  "completion_scan command_mask status_mask stage st =
     (let any_change = (command_mask \<noteq> cm_previous_command_mask st);
          pre_any_change = cm_previous_any_change st;
          stage_change = (stage \<noteq> cm_previous_stage st);
          change_latch = (\<not> stage_change \<and>
             ((pre_any_change \<and> \<not> cm_previous_pre_any_change st) \<or> cm_change_latch st));
          all_match = (command_mask = status_mask);
          change_and_match = (change_latch \<and> all_match);
          stage_latch = (\<not> change_and_match \<and>
             ((stage_change \<and> \<not> cm_previous_stage_change st) \<or> cm_stage_latch st));
          completed = (cm_stage_latch st \<and> \<not> stage_latch)
      in ((stage_latch, completed),
          \<lparr>cm_previous_command_mask = command_mask, cm_previous_any_change = any_change,
           cm_previous_pre_any_change = pre_any_change, cm_previous_stage = stage,
           cm_previous_stage_change = stage_change, cm_change_latch = change_latch,
           cm_stage_latch = stage_latch\<rparr>))"

definition eval_stage_completion :: "completion_state kernel" where
  "eval_stage_completion c ck a s =
     bindE (cfg_int_req c ''equipment_count'') (\<lambda>count.
     bindE (read_mask ''stage completion '' count a ''commandMask'') (\<lambda>command_mask.
     bindE (read_mask ''stage completion '' count a ''statusMask'') (\<lambda>status_mask.
     bindE (number_arg a ''stage'') (\<lambda>stage_value.
     if \<not> fis_integer stage_value \<or> fless stage_value (Fin 0)
     then Inl (ValueError ''stage completion stage must be a non-negative integer'')
     else bindE (ftrunc stage_value) (\<lambda>stage.
       let ((in_progress, completed), st) =
             completion_scan command_mask status_mask stage (setdefault s completion_init)
       in answers [(''inProgress'', PBool in_progress), (''completed'', PBool completed)] st)))))"

record stage_state =
  sg_stage :: int
  sg_elapsed :: pyfloat

definition available_stages :: "int \<Rightarrow> int \<Rightarrow> int list" where
  "available_stages count availability_mask =
     filter (\<lambda>stage. bit availability_mask (nat (stage - 1))) [1..count]"

definition next_stage :: "int list \<Rightarrow> bool \<Rightarrow> bool \<Rightarrow> bool \<Rightarrow> bool \<Rightarrow> int \<Rightarrow> int" where
  "next_stage available runtime_met lead_enable stage_up stage_down stage =
     (if stage = 0 then (if lead_enable \<and> available \<noteq> [] then hd available else stage)
      else
        (let higher = filter (\<lambda>v. stage < v) available; lower = filter (\<lambda>v. v < stage) available;
             active_available = (stage \<in> set available) in
         if \<not> active_available \<and> higher \<noteq> [] then hd higher
         else if runtime_met \<and> \<not> lead_enable then 0
         else if runtime_met \<and> stage_up \<and> higher \<noteq> [] then hd higher
         else if runtime_met \<and> stage_down \<and> lower \<noteq> [] then last lower
         else stage))"

definition eval_stage_index :: "stage_state kernel" where
  "eval_stage_index c ck a s =
     bindE (cfg_int_req c ''stage_count'') (\<lambda>count.
     bindE (read_mask ''stage index '' count a ''availabilityMask'') (\<lambda>availability_mask.
     let available = available_stages count availability_mask;
         st = setdefault s \<lparr>sg_stage = 0, sg_elapsed = Fin 0\<rparr>; stage = sg_stage st;
         elapsed = (if 0 < stage then fadd (sg_elapsed st) (step_seconds ck) else sg_elapsed st) in
     bindE (bool_arg a ''leadEnable'') (\<lambda>lead_enable.
     bindE (if stage = 0 then Inr False
            else mapE (\<lambda>m. fle m elapsed) (cfg_float_req c ''minimum_runtime_seconds'')) (\<lambda>runtime_met.
     bindE (bool_arg a ''stageUp'') (\<lambda>stage_up.
     bindE (bool_arg a ''stageDown'') (\<lambda>stage_down.
     let nxt = next_stage available runtime_met lead_enable stage_up stage_down stage;
         st = \<lparr>sg_stage = nxt, sg_elapsed = (if nxt \<noteq> stage then Fin 0 else elapsed)\<rparr> in
     bindE (float_of_int nxt) (\<lambda>x. answers [(''stage'', PFloat x)] st)))))))"

section \<open>Typing and state invariants\<close>

lemma sound_bind_inv:
  "soundE Q m \<Longrightarrow> (\<And>x. Q x \<Longrightarrow> soundE P (k x)) \<Longrightarrow> soundE P (bindE m k)"
  by (rule soundE_bind)

text \<open>Off is entered only with a stamp, so \<open>float(None)\<close> is never reached.\<close>

definition availability_inv :: "availability_state \<Rightarrow> bool" where
  "availability_inv st \<longleftrightarrow> (av_mode st = Off \<longrightarrow> av_off_since st \<noteq> None)"

lemma availability_next_sound:
  "availability_inv st \<Longrightarrow> soundE availability_inv (availability_next ck off_time h k v st)"
  by (cases "av_mode st") (auto simp: availability_next_def availability_inv_def)

lemma availability_loop_sound:
  "availability_inv st \<Longrightarrow> soundE availability_inv (availability_loop n ck off_time h k v st)"
proof (induction n arbitrary: st)
  case (Suc n)
  show ?case
    unfolding availability_loop.simps
    by (rule sound_bind_inv [OF availability_next_sound [OF Suc.prems]]) (simp add: Suc.IH)
qed simp

lemma availability_config:
  assumes "check_plant_equipment_availability c = Inr ()"
  shows "cfg_numeric c ''off_time_seconds''"
  using assms finite_number_Inr [of "config_opt c ''off_time_seconds''"]
  by (auto simp: check_plant_equipment_availability_def Let_def bindE_eq_Inr need_iffs intro: config_rules)

interpretation availability: typed_kernel PLANT_EQUIPMENT_AVAILABILITY eval_availability
  "\<lambda>c. check_plant_equipment_availability c = Inr ()" availability_inv
proof
  fix c ck a and s :: "availability_state option"
  assume c: "check_plant_equipment_availability c = Inr ()"
    and a: "args_typed PLANT_EQUIPMENT_AVAILABILITY a" and s: "pred_option availability_inv s"
  have st: "availability_inv (setdefault s \<lparr>av_mode = Available, av_off_since = None\<rparr>)"
    using s by (cases s) (simp_all add: availability_inv_def)
  show "soundE (\<lambda>(r, s'). outcome_typed PLANT_EQUIPMENT_AVAILABILITY r \<and> availability_inv s')
      (eval_availability c ck a s)"
    unfolding eval_availability_def Let_def
    by (intro sound_bind_any sound_bool_arg sound_cfg_float_req availability_config [OF c]
          sound_bind_inv [OF availability_loop_sound [OF st]] sound_answers)
       (use a in \<open>simp_all add: args_typed_iff outcome_typed_def dict_typed_def\<close>)
qed

definition enable_inv :: "enable_state \<Rightarrow> bool" where
  "enable_inv st \<longleftrightarrow> (en_enabled st \<longrightarrow> en_enabled_since st \<noteq> None)"

lemma plant_enable_switch_sound:
  "enable_inv st \<Longrightarrow> soundE enable_inv (plant_enable_switch t m e d st)"
  by (auto simp: plant_enable_switch_def enable_inv_def)

lemma enable_inv_init [simp]:
  "enable_inv (plant_enable_init t l)" "enable_inv (low_request_update t l st) = enable_inv st"
  "enable_inv (st\<lparr>en_previous_time := t\<rparr>) = enable_inv st"
  by (simp_all add: enable_inv_def plant_enable_init_def low_request_update_def)

text \<open>A row of an accepted schedule is a pair of numbers.\<close>

definition row_ok :: "pyval \<Rightarrow> bool" where
  "row_ok row \<longleftrightarrow> (\<exists>t f. row = PList [t, f] \<and> is_number t \<and> is_number f)"

lemma schedule_row_okD: "schedule_row_ok row p = Inr q \<Longrightarrow> row_ok row"
  using finite_number_Inr
  by (auto simp: schedule_row_ok_def row_ok_def Let_def bindE_eq_Inr split: pyval.splits list.splits if_splits)

lemma schedule_rows_okD: "foldE schedule_row_ok rows p = Inr q \<Longrightarrow> list_all row_ok rows"
  by (induction rows arbitrary: p) (auto simp: bindE_eq_Inr dest: schedule_row_okD)

lemma plant_enable_config:
  assumes "check_plant_enable c = Inr ()"
  shows "cfg_numeric c ''outdoor_lockout''" "cfg_numeric c ''outdoor_lockout_hysteresis''"
    "cfg_numeric c ''minimum_state_time_seconds''" "cfg_numeric c ''low_request_time_seconds''"
    "\<exists>n. map_of c ''ignored_requests'' = Some (PInt n)"
    "\<exists>b. map_of c ''have_input_schedule'' = Some (PBool b)"
    "\<exists>s. map_of c ''application'' = Some (PStr s)"
    "\<exists>r rs. map_of c ''schedule'' = Some (PList (r # rs)) \<and> list_all row_ok (r # rs)"
proof -
  have app: "\<exists>s. map_of c ''application'' = Some (PStr s)" if "in_names (config_opt c ''application'') ns = Inr True" for ns
    using that by (auto simp: in_names_def config_opt_def cfg_get_def split: option.splits pyval.splits)
  have ign: "\<exists>n. map_of c ''ignored_requests'' = Some (PInt n)"
    if "case config_opt c ''ignored_requests'' of PInt n \<Rightarrow> 0 \<le> n | _ \<Rightarrow> False"
    using that by (auto simp: config_opt_def cfg_get_def split: option.splits pyval.splits)
  have sched: "\<exists>r rs. map_of c ''schedule'' = Some (PList (r # rs)) \<and> list_all row_ok (r # rs)"
    if *: "(case config_opt c ''schedule'' of
        PList rows \<Rightarrow> raise_if (length rows < 2) m (mapE (\<lambda>_. ()) (foldE schedule_row_ok rows NInf))
      | _ \<Rightarrow> Inl (ValueError m)) = Inr ()" for m
  proof -
    obtain rows where rows: "map_of c ''schedule'' = Some (PList rows)" "2 \<le> length rows"
      "\<exists>q. foldE schedule_row_ok rows NInf = Inr q"
      using * by (auto simp: config_opt_def cfg_get_def raise_if_eq_Inr mapE_eq_Inr
          split: option.splits pyval.splits)
    moreover obtain r rs where "rows = r # rs" using rows(2) by (cases rows) auto
    moreover have "list_all row_ok rows" using rows(3) schedule_rows_okD by blast
    ultimately show ?thesis by auto
  qed
  show "cfg_numeric c ''outdoor_lockout''" "cfg_numeric c ''outdoor_lockout_hysteresis''"
    "cfg_numeric c ''minimum_state_time_seconds''" "cfg_numeric c ''low_request_time_seconds''"
    "\<exists>n. map_of c ''ignored_requests'' = Some (PInt n)"
    "\<exists>b. map_of c ''have_input_schedule'' = Some (PBool b)"
    "\<exists>s. map_of c ''application'' = Some (PStr s)"
    "\<exists>r rs. map_of c ''schedule'' = Some (PList (r # rs)) \<and> list_all row_ok (r # rs)"
    using assms app ign sched
    by (auto simp: check_plant_enable_def bindE_eq_Inr need_iffs is_bool_iff config_opt_def [of c "''have_input_schedule''"]
        cfg_get_def [of c "''have_input_schedule''"] split: option.splits intro: config_rules)
qed

lemma sound_schedule_row: "row_ok row \<Longrightarrow> soundE (\<lambda>(t, f). is_number t) (schedule_row row)"
  by (auto simp: row_ok_def)

lemma sound_schedule_scan:
  "list_all row_ok rows \<Longrightarrow> soundE (\<lambda>_. True) (schedule_scan phase rows e)"
proof (induction rows arbitrary: e)
  case (Cons row rows)
  then obtain t f where "row = PList [t, f]" "is_number t" by (auto simp: row_ok_def)
  then show ?case using Cons by (auto intro!: sound_bind_any soundE_py_float)
qed simp

lemma sound_scheduled_enable:
  assumes "check_plant_enable c = Inr ()"
  shows "soundE (\<lambda>_. True) (scheduled_enable c t)"
proof -
  obtain r rs where m: "map_of c ''schedule'' = Some (PList (r # rs))" and rows: "list_all row_ok (r # rs)"
    using plant_enable_config(8) [OF assms] by blast
  have "row_ok (last (r # rs))" using rows by (metis last_in_set list.distinct(1) list_all_iff)
  then obtain t1 f1 where l: "last (r # rs) = PList [t1, f1]" "is_number t1" by (auto simp: row_ok_def)
  obtain t0 f0 where h: "r = PList [t0, f0]" "is_number t0" using rows by (auto simp: row_ok_def)
  have "config_schedule c = Inr (r # rs)"
    using m by (simp add: config_schedule_def dict_get_def)
  then show ?thesis
    using l h rows
    by (auto simp: scheduled_enable_def simp del: last.simps
        intro!: sound_bind_any soundE_py_float sound_schedule_scan sound_if sound_fmod)
qed

interpretation plant_enable: typed_kernel PLANT_ENABLE eval_plant_enable
  "\<lambda>c. check_plant_enable c = Inr ()" enable_inv
proof
  fix c ck a and s :: "enable_state option"
  assume c: "check_plant_enable c = Inr ()" and a: "args_typed PLANT_ENABLE a"
    and s: "pred_option enable_inv s"
  obtain n b app where get: "map_of c ''ignored_requests'' = Some (PInt n)"
    "map_of c ''have_input_schedule'' = Some (PBool b)" "map_of c ''application'' = Some (PStr app)"
    using plant_enable_config(5,6,7) [OF c] by blast
  have st: "soundE enable_inv (case s of None \<Rightarrow> Inr (plant_enable_init t l)
      | Some st \<Rightarrow> raise_if (fless t (en_previous_time st)) msg (Inr st))" for t l msg
    using s by (cases s) (auto simp: raise_if_def)
  have get': "dict_get c ''ignored_requests'' = Inr (PInt n)" "dict_get c ''application'' = Inr (PStr app)"
    "have_input_schedule c = Inr b"
    using get by (simp_all add: have_input_schedule_def dict_get_def)
  show "soundE (\<lambda>(r, s'). outcome_typed PLANT_ENABLE r \<and> enable_inv s') (eval_plant_enable c ck a s)"
    unfolding eval_plant_enable_def get' bindE_Inr py_int.simps Let_def
    by (intro sound_bind_any sound_number_arg sound_bool_arg sound_cfg_float_req sound_scheduled_enable [OF c]
          sound_if sound_value sound_option sound_mapE_any sound_bind_inv [OF st]
          sound_bind_inv [OF plant_enable_switch_sound] sound_answer outcome_bool plant_enable_config(1-4) [OF c])
       (use a in \<open>simp_all add: args_typed_iff\<close>)
qed

lemma hrc_config:
  assumes "check_plant_hrc_enable c = Inr ()"
  shows "cfg_numeric c ''minimum_chilled_supply_temperature''"
    "cfg_numeric c ''maximum_heating_supply_temperature''" "cfg_numeric c ''minimum_cooling_capacity''"
    "cfg_numeric c ''minimum_heating_capacity''" "cfg_numeric c ''minimum_state_time_seconds''"
    "cfg_numeric c ''sufficient_load_time_seconds''" "cfg_numeric c ''temperature_limit_1_time_seconds''"
    "cfg_numeric c ''temperature_limit_2_time_seconds''"
  using assms by (auto simp: check_plant_hrc_enable_def bindE_eq_Inr need_iffs intro: config_rules)

lemma sound_hrc_read: "check_plant_hrc_enable c = Inr () \<Longrightarrow> soundE (\<lambda>_. True) (hrc_read c)"
  unfolding hrc_read_def by (intro sound_rules hrc_config)

lemma sound_hrc_read_inputs: "args_typed PLANT_HRC_ENABLE a \<Longrightarrow> soundE (\<lambda>_. True) (hrc_read_inputs a)"
  unfolding hrc_read_inputs_def by (intro sound_rules) (simp_all add: args_typed_iff)

interpretation hrc_enable: typed_kernel PLANT_HRC_ENABLE eval_hrc_enable
  "\<lambda>c. check_plant_hrc_enable c = Inr ()" "\<lambda>_. True"
proof
  fix c ck a and s :: "hrc_state option"
  assume c: "check_plant_hrc_enable c = Inr ()" and a: "args_typed PLANT_HRC_ENABLE a"
  show "soundE (\<lambda>(r, s'). outcome_typed PLANT_HRC_ENABLE r \<and> True) (eval_hrc_enable c ck a s)"
    unfolding eval_hrc_enable_def raise_if_def
    by (intro sound_rules sound_hrc_read [OF c] sound_hrc_read_inputs [OF a])
       (simp add: outcome_typed_def dict_typed_def split_beta answers_def)
qed

interpretation hrc_mode: typed_kernel PLANT_HRC_MODE_CONTROL eval_hrc_mode
  "\<lambda>c. check_plant_hrc_mode_control c = Inr ()" "\<lambda>_. True"
proof
  fix c ck a and s :: "hrc_mode_state option"
  assume c: "check_plant_hrc_mode_control c = Inr ()" and a: "args_typed PLANT_HRC_MODE_CONTROL a"
  have "cfg_numeric c ''heating_cop''"
    using c by (auto simp: check_plant_hrc_mode_control_def bindE_eq_Inr need_iffs intro: config_rules)
  then show "soundE (\<lambda>(r, s'). outcome_typed PLANT_HRC_MODE_CONTROL r \<and> True) (eval_hrc_mode c ck a s)"
    unfolding eval_hrc_mode_def using a
    by (intro sound_rules) (simp_all add: args_typed_iff outcome_typed_def dict_typed_def)
qed

lemma count_config:
  "check_count (config_opt c key) \<Longrightarrow> \<exists>n. cfg_int_req c key = Inr n \<and> 1 \<le> n \<and> n \<le> 52"
  by (auto simp: check_count_def config_opt_def cfg_get_def cfg_int_req_def dict_get_def
      split: option.splits pyval.splits)

lemma sound_read_mask [sound_rules]: "numeric_slot a slot \<Longrightarrow> soundE (\<lambda>_. True) (read_mask msg n a slot)"
  unfolding read_mask_def by (intro sound_rules)

interpretation stage_completion: typed_kernel PLANT_STAGE_COMPLETION eval_stage_completion
  "\<lambda>c. check_plant_stage_completion c = Inr ()" "\<lambda>_. True"
proof
  fix c ck a and s :: "completion_state option"
  assume c: "check_plant_stage_completion c = Inr ()" and a: "args_typed PLANT_STAGE_COMPLETION a"
  obtain n where n: "cfg_int_req c ''equipment_count'' = Inr n"
    using c count_config [of c "''equipment_count''"]
    by (auto simp: check_plant_stage_completion_def bindE_eq_Inr)
  show "soundE (\<lambda>(r, s'). outcome_typed PLANT_STAGE_COMPLETION r \<and> True) (eval_stage_completion c ck a s)"
    unfolding eval_stage_completion_def n bindE_Inr using a
    by (intro sound_rules) (simp_all add: args_typed_iff outcome_typed_def dict_typed_def split_beta answers_def)
qed

interpretation stage_index: typed_kernel PLANT_STAGE_INDEX eval_stage_index
  "\<lambda>c. check_plant_stage_index c = Inr ()" "\<lambda>_. True"
proof
  fix c ck a and s :: "stage_state option"
  assume c: "check_plant_stage_index c = Inr ()" and a: "args_typed PLANT_STAGE_INDEX a"
  obtain n where n: "cfg_int_req c ''stage_count'' = Inr n"
    using c count_config [of c "''stage_count''"]
    by (auto simp: check_plant_stage_index_def bindE_eq_Inr)
  have m: "cfg_numeric c ''minimum_runtime_seconds''"
    using c by (auto simp: check_plant_stage_index_def bindE_eq_Inr need_iffs intro: config_rules)
  show "soundE (\<lambda>(r, s'). outcome_typed PLANT_STAGE_INDEX r \<and> True) (eval_stage_index c ck a s)"
    unfolding eval_stage_index_def n bindE_Inr using a m
    by (intro sound_rules) (simp_all add: args_typed_iff outcome_typed_def dict_typed_def)
qed

section \<open>Properties\<close>

text \<open>C31: The five passes of the availability machine are enough: from every state in which Off
  carries its time stamp, the loop ends without an exception in a mode that one more pass would
  keep, whatever the three commands and the off time are.\<close>

theorem availability_settles:
  assumes "availability_inv st"
  shows "\<exists>st' st''. availability_loop 5 ck off_time h k v st = Inr st' \<and> availability_inv st'
     \<and> availability_next ck off_time h k v st' = Inr st'' \<and> av_mode st'' = av_mode st'"
proof -
  have five: "availability_loop 5 ck off_time h k v s = availability_loop (Suc (Suc (Suc (Suc (Suc 0))))) ck off_time h k v s" for s
    by (simp add: eval_nat_numeral)
  show ?thesis
    using assms unfolding five
    by (cases "av_mode st"; cases h; cases k; cases v)
       (auto simp: availability_next_def availability_inv_def)
qed

lemma availability_settles_witness:
  "\<exists>st' st''. availability_loop 5 \<lparr>now = Fin 9, step_seconds = Fin 1\<rparr> (Fin 0) False True True
        \<lparr>av_mode = Heating, av_off_since = None\<rparr> = Inr st' \<and> availability_inv st'
     \<and> availability_next \<lparr>now = Fin 9, step_seconds = Fin 1\<rparr> (Fin 0) False True True st' = Inr st'' \<and> av_mode st'' = av_mode st'"
  by (rule availability_settles) (simp add: availability_inv_def)

text \<open>The plant enable changes its output only after the minimum state time: switching on needs
  that time since the last disabling, switching off since the last enabling.\<close>

theorem plant_enable_minimum_time:
  assumes "eval_plant_enable c ck a (Some st) = Inr (r, st')" and "en_enabled st' \<noteq> en_enabled st"
  shows "\<exists>m since. cfg_float_req c ''minimum_state_time_seconds'' = Inr m
     \<and> (if en_enabled st then en_enabled_since st else Some (en_disabled_since st)) = Some since
     \<and> fle m (fsub (now ck) since) \<and> r = Single (PBool (\<not> en_enabled st))"
proof -
  obtain m e d s st1 where m: "cfg_float_req c ''minimum_state_time_seconds'' = Inr m"
    and sw: "plant_enable_switch (now ck) m e d (low_request_update (now ck) s st) = Inr st1"
    and r: "r = Single (PBool (en_enabled st1))" "st' = st1\<lparr>en_previous_time := now ck\<rparr>"
    using assms(1)
    by (auto simp: eval_plant_enable_def bindE_eq_Inr answer_def Let_def raise_if_eq_Inr)
  have keep: "en_enabled (low_request_update t l st) = en_enabled st"
    "en_enabled_since (low_request_update t l st) = en_enabled_since st"
    "en_disabled_since (low_request_update t l st) = en_disabled_since st" for t l
    by (simp_all add: low_request_update_def)
  show ?thesis
    using m sw r assms(2) by (auto simp: plant_enable_switch_def keep split: if_splits option.splits)
qed

text \<open>The invariant of the heat-recovery chiller: a standing disable has cleared the latch, and
  the output needs the latch.\<close>

definition hrc_inv :: "hrc_state \<Rightarrow> bool" where
  "hrc_inv st \<longleftrightarrow> (hrc_previous_disable st \<longrightarrow> \<not> hrc_latch st) \<and> (hrc_enable_output st \<longrightarrow> hrc_latch st)"

lemma hrc_latch_disabled:
  "hrc_inv st \<Longrightarrow> disable \<Longrightarrow> \<not> hrc_latch_next first_tick disable all_enable st"
  by (auto simp: hrc_latch_next_def hrc_inv_def)

lemma hrc_output_latched:
  "hrc_inv st \<Longrightarrow> fst (hrc_output_next first_tick t latch st) \<Longrightarrow> latch"
  by (auto simp: hrc_output_next_def hrc_inv_def split: if_splits)

lemma hrc_scan_parts:
  assumes "hrc_scan p i t first_tick st = ((e, m), st')"
  obtains all_enable delay where "hrc_latch st' = hrc_latch_next first_tick (hrc_previous_disable st') all_enable st"
    and "hrc_output_next first_tick t (hrc_latch st') st = (e, delay)" and "hrc_enable_output st' = e"
    and "m = (hrc_latch st' \<and> \<not> hrc_latch st)"
    and "\<not> hi_cooling_plant_enable i \<or> \<not> hi_heating_plant_enable i \<longrightarrow> hrc_previous_disable st'"
proof -
  have "\<exists>all_enable delay. hrc_latch st' = hrc_latch_next first_tick (hrc_previous_disable st') all_enable st
    \<and> hrc_output_next first_tick t (hrc_latch st') st = (e, delay) \<and> hrc_enable_output st' = e
    \<and> m = (hrc_latch st' \<and> \<not> hrc_latch st)
    \<and> (\<not> hi_cooling_plant_enable i \<or> \<not> hi_heating_plant_enable i \<longrightarrow> hrc_previous_disable st')"
    using assms by (clarsimp simp: hrc_scan_def Let_def hrc_disable_def split: prod.splits) blast
  then show thesis using that by blast
qed

lemma hrc_scan_answer:
  assumes "hrc_inv st" and "hrc_scan p i t first_tick st = ((e, m), st')"
  shows "hrc_inv st'" and "\<not> hrc_latch st' \<Longrightarrow> \<not> e \<and> \<not> m"
    and "\<not> hi_cooling_plant_enable i \<or> \<not> hi_heating_plant_enable i \<Longrightarrow> \<not> hrc_latch st'"
proof -
  obtain ae delay where latch: "hrc_latch st' = hrc_latch_next first_tick (hrc_previous_disable st') ae st"
    and out: "hrc_output_next first_tick t (hrc_latch st') st = (e, delay)" "hrc_enable_output st' = e"
    and m: "m = (hrc_latch st' \<and> \<not> hrc_latch st)"
    and off: "\<not> hi_cooling_plant_enable i \<or> \<not> hi_heating_plant_enable i \<longrightarrow> hrc_previous_disable st'"
    using hrc_scan_parts [OF assms(2)] .
  have "e \<Longrightarrow> hrc_latch st'"
    using hrc_output_latched [OF assms(1), of first_tick t "hrc_latch st'"] out(1) by simp
  then show "hrc_inv st'" "\<not> hrc_latch st' \<Longrightarrow> \<not> e \<and> \<not> m"
    using latch out(2) m hrc_latch_disabled [OF assms(1)] by (auto simp: hrc_inv_def)
  show "\<not> hi_cooling_plant_enable i \<or> \<not> hi_heating_plant_enable i \<Longrightarrow> \<not> hrc_latch st'"
    using off latch hrc_latch_disabled [OF assms(1)] by simp
qed

lemma hrc_eval_scan:
  assumes "pred_option hrc_inv s" and "eval_hrc_enable c ck a s = Inr (r, s')"
  obtains p i st e m where "hrc_read_inputs a = Inr i" "hrc_inv st" "hrc_scan p i (now ck) (s = None) st = ((e, m), s')"
    "r = Multi [(''enable'', PBool e), (''setMode'', PBool m)]"
proof -
  have init: "hrc_inv (hrc_init (now ck))" by (simp add: hrc_inv_def hrc_init_def)
  obtain i st p where i: "hrc_read_inputs a = Inr i" and st: "hrc_inv st"
    and ans: "(let ((enable, set_mode), st) = hrc_scan p i (now ck) (s = None) st in
       answers [(''enable'', PBool enable), (''setMode'', PBool set_mode)] st) = Inr (r, s')"
    using assms init by (cases s) (auto simp: eval_hrc_enable_def bindE_eq_Inr raise_if_eq_Inr)
  obtain e m st' where run: "hrc_scan p i (now ck) (s = None) st = ((e, m), st')"
    by (metis prod.exhaust)
  have "st' = s'" "r = Multi [(''enable'', PBool e), (''setMode'', PBool m)]"
    using ans by (simp_all add: run answers_def)
  then show thesis using that i st run by blast
qed

lemma hrc_reach_inv:
  assumes "kernel_reach eval_hrc_enable c s"
  shows "pred_option hrc_inv s"
proof (rule kernel_reach_inv [OF assms])
  fix ck a s r s' assume s: "pred_option hrc_inv s" and run: "eval_hrc_enable c ck a s = Inr (r, s')"
  obtain p i st e m where "hrc_inv st" "hrc_scan p i (now ck) (s = None) st = ((e, m), s')"
    using hrc_eval_scan [OF s run] .
  then show "hrc_inv s'" by (rule hrc_scan_answer(1))
qed

text \<open>Whatever the earlier scans were, a heat-recovery chiller is neither enabled nor told to set
  its mode on a scan in which one of the two plants is not enabled.\<close>

theorem hrc_off_without_plants:
  assumes "kernel_reach eval_hrc_enable c s" and "eval_hrc_enable c ck a s = Inr (r, s')"
    and "bool_arg a ''coolingPlantEnable'' = Inr False \<or> bool_arg a ''heatingPlantEnable'' = Inr False"
  shows "r = Multi [(''enable'', PBool False), (''setMode'', PBool False)]"
proof -
  obtain p i st e m where i: "hrc_read_inputs a = Inr i" and inv: "hrc_inv st"
    and run: "hrc_scan p i (now ck) (s = None) st = ((e, m), s')" and r: "r = Multi [(''enable'', PBool e), (''setMode'', PBool m)]"
    using hrc_eval_scan [OF hrc_reach_inv [OF assms(1)] assms(2)] .
  have "\<not> hi_cooling_plant_enable i \<or> \<not> hi_heating_plant_enable i"
    using i assms(3) by (auto simp: hrc_read_inputs_def bindE_eq_Inr)
  then have "\<not> hrc_latch s'" by (rule hrc_scan_answer(3) [OF inv run])
  then show ?thesis using hrc_scan_answer(2) [OF inv run] r by simp
qed

text \<open>Stage completion is reported only on the scan that ends a stage in progress, with the
  commanded equipment equal to the equipment proven on and the stage unchanged.\<close>

theorem completion_needs_match:
  assumes "completion_scan command_mask status_mask stage st = ((in_progress, True), st')"
  shows "cm_stage_latch st \<and> \<not> in_progress \<and> command_mask = status_mask \<and> stage = cm_previous_stage st
     \<and> cm_stage_latch st' = False"
  using assms by (auto simp: completion_scan_def Let_def)

lemma completion_needs_match_witness:
  "let st = \<lparr>cm_previous_command_mask = 3, cm_previous_any_change = False, cm_previous_pre_any_change = True,
             cm_previous_stage = 2, cm_previous_stage_change = False, cm_change_latch = True, cm_stage_latch = True\<rparr>;
       st' = snd (completion_scan 3 3 2 st) in
   cm_stage_latch st \<and> \<not> False \<and> (3::int) = 3 \<and> 2 = cm_previous_stage st \<and> cm_stage_latch st' = False"
  unfolding Let_def by (rule completion_needs_match) (simp add: completion_scan_def)

lemma available_stages_range: "s \<in> set (available_stages n m) \<Longrightarrow> 1 \<le> s \<and> s \<le> n"
  by (simp add: available_stages_def)

lemma next_stage_cases:
  "next_stage available rt lead up down stage \<in> insert 0 (insert stage (set available))"
proof -
  have "filter P available \<noteq> [] \<Longrightarrow> hd (filter P available) \<in> set available" for P
    by (metis hd_in_set filter_is_subset subsetD)
  moreover have "filter P available \<noteq> [] \<Longrightarrow> last (filter P available) \<in> set available" for P
    by (metis last_in_set filter_is_subset subsetD)
  ultimately show ?thesis by (auto simp: next_stage_def Let_def)
qed

lemma stage_index_step:
  assumes "eval_stage_index c ck a s = Inr (r, st')" and "cfg_int_req c ''stage_count'' = Inr n"
  obtains m where "read_mask ''stage index '' n a ''availabilityMask'' = Inr m"
    and "sg_stage st' \<in> insert 0 (insert (sg_stage (setdefault s \<lparr>sg_stage = 0, sg_elapsed = Fin 0\<rparr>)) (set (available_stages n m)))"
    and "\<exists>x. float_of_int (sg_stage st') = Inr x \<and> r = Multi [(''stage'', PFloat x)]"
  using assms next_stage_cases
  by (auto simp: eval_stage_index_def bindE_eq_Inr answers_def Let_def)

text \<open>The stage index stays between zero and the configured number of stages over any scans, and
  a scan moves it only to zero or to a stage whose equipment is available.\<close>

theorem stage_index_available:
  assumes "kernel_reach eval_stage_index c s" and "eval_stage_index c ck a s = Inr (r, st')"
    and "cfg_int_req c ''stage_count'' = Inr n" and "0 \<le> n"
  shows "0 \<le> sg_stage st' \<and> sg_stage st' \<le> n
     \<and> (\<exists>m. read_mask ''stage index '' n a ''availabilityMask'' = Inr m
          \<and> sg_stage st' \<in> insert 0 (insert (sg_stage (setdefault s \<lparr>sg_stage = 0, sg_elapsed = Fin 0\<rparr>))
              (set (available_stages n m))))"
proof -
  have step: "0 \<le> sg_stage s2 \<and> sg_stage s2 \<le> n"
    if s1: "pred_option (\<lambda>st. 0 \<le> sg_stage st \<and> sg_stage st \<le> n) s1"
      and run: "eval_stage_index c ck a s1 = Inr (r, s2)" for ck a s1 r s2
  proof -
    obtain m where "sg_stage s2 \<in> insert 0 (insert (sg_stage (setdefault s1 \<lparr>sg_stage = 0, sg_elapsed = Fin 0\<rparr>))
        (set (available_stages n m)))"
      using stage_index_step [OF run assms(3)] .
    then show ?thesis using s1 assms(4) available_stages_range [of "sg_stage s2" n m] by (cases s1) auto
  qed
  have "pred_option (\<lambda>st. 0 \<le> sg_stage st \<and> sg_stage st \<le> n) s"
    by (rule kernel_reach_inv [OF assms(1)]) (rule step)
  then have "0 \<le> sg_stage st' \<and> sg_stage st' \<le> n" using step assms(2) by blast
  moreover obtain m where "read_mask ''stage index '' n a ''availabilityMask'' = Inr m"
    "sg_stage st' \<in> insert 0 (insert (sg_stage (setdefault s \<lparr>sg_stage = 0, sg_elapsed = Fin 0\<rparr>)) (set (available_stages n m)))"
    using stage_index_step [OF assms(2,3)] .
  ultimately show ?thesis by blast
qed

lemma plant_enable_minimum_time_witness:
  "let c = [(''have_input_schedule'', PBool True), (''ignored_requests'', PInt 0), (''application'', PStr ''Heating''),
            (''outdoor_lockout'', PFloat (Fin 20)), (''outdoor_lockout_hysteresis'', PFloat (Fin 1)),
            (''minimum_state_time_seconds'', PFloat (Fin 900)), (''low_request_time_seconds'', PFloat (Fin 600))];
       ck = \<lparr>now = Fin 1000, step_seconds = Fin 60\<rparr>;
       st = \<lparr>en_enabled = False, en_disabled_since = Fin 0, en_enabled_since = None, en_low_request_since = None,
             en_previous_time = Fin 940\<rparr> in
   \<exists>m since. cfg_float_req c ''minimum_state_time_seconds'' = Inr m
     \<and> (if en_enabled st then en_enabled_since st else Some (en_disabled_since st)) = Some since
     \<and> fle m (fsub (now ck) since) \<and> Single (PBool True) = Single (PBool (\<not> en_enabled st))"
  unfolding Let_def
  by (rule plant_enable_minimum_time [where
        a = "[(''requestCount'', PFloat (Fin 2)), (''outdoorTemperature'', PFloat (Fin 10)), (''scheduleEnabled'', PBool True)]"
        and st' = "\<lparr>en_enabled = True, en_disabled_since = Fin 0, en_enabled_since = Some (Fin 1000),
             en_low_request_since = None, en_previous_time = Fin 1000\<rparr>"])
     (simp_all add: eval_plant_enable_def number_arg_def bool_arg_def dict_get_def have_input_schedule_def cfg_float_req_def
        low_request_update_def outdoor_enable_def outdoor_disable_def plant_enable_switch_def fsub_def fle_def
        answer_def Let_def raise_if_def)

lemma hrc_off_without_plants_witness:
  "let c = [(''minimum_state_time_seconds'', PFloat (Fin 900)), (''sufficient_load_time_seconds'', PFloat (Fin 600)),
            (''minimum_cooling_capacity'', PFloat (Fin 10)), (''minimum_heating_capacity'', PFloat (Fin 10)),
            (''temperature_limit_1_time_seconds'', PFloat (Fin 180)), (''temperature_limit_2_time_seconds'', PFloat (Fin 60)),
            (''minimum_chilled_supply_temperature'', PFloat (Fin 277)), (''maximum_heating_supply_temperature'', PFloat (Fin 333))];
       a = [(''coolingPlantEnable'', PBool True), (''heatingPlantEnable'', PBool False), (''hrcStatus'', PBool True),
            (''coolingLoad'', PFloat (Fin 50)), (''heatingLoad'', PFloat (Fin 50)),
            (''chilledLeavingTemperature'', PFloat (Fin 280)), (''heatingLeavingTemperature'', PFloat (Fin 320)),
            (''coolingMode'', PBool True)] in
   \<exists>r s'. eval_hrc_enable c \<lparr>now = Fin 1, step_seconds = Fin 1\<rparr> a None = Inr (r, s')
     \<and> r = Multi [(''enable'', PBool False), (''setMode'', PBool False)]"
proof -
  let ?c = "[(''minimum_state_time_seconds'', PFloat (Fin 900)), (''sufficient_load_time_seconds'', PFloat (Fin 600)),
            (''minimum_cooling_capacity'', PFloat (Fin 10)), (''minimum_heating_capacity'', PFloat (Fin 10)),
            (''temperature_limit_1_time_seconds'', PFloat (Fin 180)), (''temperature_limit_2_time_seconds'', PFloat (Fin 60)),
            (''minimum_chilled_supply_temperature'', PFloat (Fin 277)), (''maximum_heating_supply_temperature'', PFloat (Fin 333))]"
  let ?a = "[(''coolingPlantEnable'', PBool True), (''heatingPlantEnable'', PBool False), (''hrcStatus'', PBool True),
            (''coolingLoad'', PFloat (Fin 50)), (''heatingLoad'', PFloat (Fin 50)),
            (''chilledLeavingTemperature'', PFloat (Fin 280)), (''heatingLeavingTemperature'', PFloat (Fin 320)),
            (''coolingMode'', PBool True)]"
  have "\<exists>p i. hrc_read ?c = Inr p \<and> hrc_read_inputs ?a = Inr i"
    by (simp add: hrc_read_def hrc_read_inputs_def cfg_float_req_def number_arg_def bool_arg_def dict_get_def)
  then obtain r s' where run: "eval_hrc_enable ?c \<lparr>now = Fin 1, step_seconds = Fin 1\<rparr> ?a None = Inr (r, s')"
    by (auto simp: eval_hrc_enable_def answers_def split_beta Let_def)
  have "bool_arg ?a ''coolingPlantEnable'' = Inr False \<or> bool_arg ?a ''heatingPlantEnable'' = Inr False"
    by (simp add: bool_arg_def dict_get_def)
  from hrc_off_without_plants [OF reach_start run this] run show ?thesis unfolding Let_def by blast
qed

lemma stage_index_available_witness:
  "let c = [(''stage_count'', PInt 3), (''minimum_runtime_seconds'', PFloat (Fin 60))];
       st' = \<lparr>sg_stage = 2, sg_elapsed = Fin 0\<rparr> in
   0 \<le> sg_stage st' \<and> sg_stage st' \<le> 3
     \<and> (\<exists>m. read_mask ''stage index '' 3 [(''availabilityMask'', PFloat (Fin 6)), (''leadEnable'', PBool True),
              (''stageUp'', PBool False), (''stageDown'', PBool False)] ''availabilityMask'' = Inr m
          \<and> sg_stage st' \<in> insert 0 (insert (sg_stage (setdefault None \<lparr>sg_stage = 0, sg_elapsed = Fin 0\<rparr>))
              (set (available_stages 3 m))))"
  unfolding Let_def
proof (rule stage_index_available [OF reach_start])
  let ?a = "[(''availabilityMask'', PFloat (Fin 6)), (''leadEnable'', PBool True),
              (''stageUp'', PBool False), (''stageDown'', PBool False)]"
  have m: "read_mask ''stage index '' 3 ?a ''availabilityMask'' = Inr 6"
    by (simp add: read_mask_def number_arg_def dict_get_def fis_integer_def maximum_mask_def ftrunc_def trunc_rat_def)
  have av: "available_stages 3 6 = [2, 3]" by code_simp
  show "eval_stage_index [(''stage_count'', PInt 3), (''minimum_runtime_seconds'', PFloat (Fin 60))]
      \<lparr>now = Fin 1, step_seconds = Fin 1\<rparr> ?a None = Inr (Multi [(''stage'', PFloat (Fin 2))], \<lparr>sg_stage = 2, sg_elapsed = Fin 0\<rparr>)"
    by (simp add: eval_stage_index_def cfg_int_req_def dict_get_def m av bool_arg_def next_stage_def float_of_int_def answers_def Let_def)
qed (simp_all add: cfg_int_req_def dict_get_def)

end
