(* ===== verification/Psychro.thy ===== *)
theory Psychro
  imports KernelPlant
begin

text \<open>
  \<open>src/bactalk/psychrometrics.py\<close>: the fdlibm arc tangent, ported operation by
  operation, and Stull's wet-bulb approximation over it.  \<open>math.sqrt\<close> is the correctly
  rounded square root, computed here from the integer square root of a scaled operand.
\<close>

section \<open>The bits of a binary64 number\<close>

text \<open>\<open>struct.unpack(">q", struct.pack(">d", value))[0] >> 32\<close>: sign, eleven exponent bits
  and the top twenty mantissa bits.  The quiet NaN is the positive one.\<close>

definition high_word_abs :: "rat \<Rightarrow> int" where
  "high_word_abs q =
     (if q < 2 powi (- 1022) then \<lfloor>q * 2 ^ 1074\<rfloor> div 2 ^ 32
      else (ilog2 q + 1023) * 2 ^ 20 + \<lfloor>(q / 2 powi (ilog2 q) - 1) * 2 ^ 20\<rfloor>)"

fun high_word :: "pyfloat \<Rightarrow> int" where
  "high_word (Fin q) = (if q < 0 then 2 ^ 31 + high_word_abs (- q) else high_word_abs q)"
| "high_word NegZero = 2 ^ 31"
| "high_word PInf = 2146435072"
| "high_word NInf = 2 ^ 31 + 2146435072"
| "high_word NaN = 2146959360"

section \<open>Square root\<close>

definition isqrt_step :: "int \<Rightarrow> int \<Rightarrow> int" where
  "isqrt_step n r = (if (r + 1) * (r + 1) \<le> n then r + 1 else r)"

fun isqrt_bits :: "nat \<Rightarrow> int \<Rightarrow> int" where
  "isqrt_bits k n = (if k = 0 then 0 else isqrt_step n (2 * isqrt_bits (k - 1) (n div 4)))"

declare isqrt_bits.simps [simp del]

lemma isqrt_bits_simps:
  "isqrt_bits 0 n = 0" "isqrt_bits (Suc k) n = isqrt_step n (2 * isqrt_bits k (n div 4))"
  by (simp_all add: isqrt_bits.simps [of 0] isqrt_bits.simps [of "Suc k"])

lemma isqrt_bits:
  "0 \<le> n \<Longrightarrow> n < 4 ^ k \<Longrightarrow>
     0 \<le> isqrt_bits k n \<and> isqrt_bits k n * isqrt_bits k n \<le> n
     \<and> n < (isqrt_bits k n + 1) * (isqrt_bits k n + 1)"
proof (induction k arbitrary: n)
  case 0
  then show ?case by (simp add: isqrt_bits_simps)
next
  case (Suc k)
  define r where "r = isqrt_bits k (n div 4)"
  have "0 \<le> n div 4" "n div 4 < 4 ^ k" using Suc.prems by auto
  from Suc.IH [OF this] have r: "0 \<le> r" "r * r \<le> n div 4" "n div 4 < (r + 1) * (r + 1)"
    by (simp_all add: r_def)
  have "(2 * r) * (2 * r) \<le> n" using r(2) by (simp add: algebra_simps)
  moreover have "n < (2 * r + 2) * (2 * r + 2)" using r(3) by (simp add: algebra_simps)
  ultimately show ?case
    using r(1) by (simp add: isqrt_bits_simps isqrt_step_def r_def [symmetric] algebra_simps)
qed

text \<open>The operand scaled by a power of four to between 118 and 122 bits; half a unit stands
  for an inexact remainder, which decides no tie.\<close>

definition sqrt_rat :: "rat \<Rightarrow> rat" where
  "sqrt_rat q =
     (let s = 60 - ilog2 q div 2; n = \<lfloor>q * 4 powi s\<rfloor>; r = isqrt_bits 64 n in
      (if r * r = n then of_int r else of_int r + 1 / 2) / 2 powi s)"

definition fsqrt :: "pyfloat \<Rightarrow> pyfloat result" where
  "fsqrt x = (case x of
       Fin q \<Rightarrow> if q < 0 then Inl (ValueError ''math domain error'')
                else if q = 0 then Inr x else Inr (rnd (sqrt_rat q))
     | NInf \<Rightarrow> Inl (ValueError ''math domain error'')
     | _ \<Rightarrow> Inr x)"

section \<open>Arc tangent\<close>

definition ATAN_HI :: "pyfloat list" where
  "ATAN_HI =
     [lit (463647609000806093515 / 10 ^ 21),
      lit (785398163397448278999 / 10 ^ 21),
      lit (982793723247329054082 / 10 ^ 21),
      lit (157079632679489655800 / 10 ^ 20)]"

definition ATAN_LO :: "pyfloat list" where
  "ATAN_LO =
     [lit (226987774529616870924 / 10 ^ 37),
      lit (306161699786838301793 / 10 ^ 37),
      lit (139033110312309984516 / 10 ^ 37),
      lit (612323399573676603587 / 10 ^ 37)]"

definition AT :: "pyfloat list" where
  "AT =
     [lit (333333333333329318027 / 10 ^ 21),
      lit (- 199999999998764832476 / 10 ^ 21),
      lit (142857142725034663711 / 10 ^ 21),
      lit (- 111111104054623557880 / 10 ^ 21),
      lit (909088713343650656196 / 10 ^ 22),
      lit (- 769187620504482999495 / 10 ^ 22),
      lit (666107313738753120669 / 10 ^ 22),
      lit (- 583357013379057348645 / 10 ^ 22),
      lit (497687799461593236017 / 10 ^ 22),
      lit (- 365315727442169155270 / 10 ^ 22),
      lit (162858201153657823623 / 10 ^ 22)]"

text \<open>The argument reduction: the table index, with \<open>None\<close> for the source's \<open>-1\<close>, and the
  reduced argument.\<close>

definition atan_reduce :: "int \<Rightarrow> pyfloat \<Rightarrow> (nat option \<times> pyfloat) result" where
  "atan_reduce ix x =
     (if ix < 1071382528 then Inr (None, x)
      else let x = fabs x in
        if ix < 1072889856 then
          (if ix < 1072037888 then
             mapE (\<lambda>y. (Some 0, y)) (fdiv (fsub (fmul (Fin 2) x) (Fin 1)) (fadd (Fin 2) x))
           else mapE (\<lambda>y. (Some 1, y)) (fdiv (fsub x (Fin 1)) (fadd x (Fin 1))))
        else if ix < 1073971200 then
          mapE (\<lambda>y. (Some 2, y)) (fdiv (fsub x (Fin (3 / 2))) (fadd (Fin 1) (fmul (Fin (3 / 2)) x)))
        else mapE (\<lambda>y. (Some 3, y)) (fdiv (Fin (- 1)) x))"

text \<open>A Horner scheme \<open>a + w * (b + w * ...)\<close> over the listed coefficients.\<close>

fun horner :: "pyfloat \<Rightarrow> pyfloat list \<Rightarrow> pyfloat" where
  "horner w [] = Fin 0"
| "horner w [a] = a"
| "horner w (a # b # as) = fadd a (fmul w (horner w (b # as)))"

definition atan_poly :: "bool \<Rightarrow> nat option \<Rightarrow> pyfloat \<Rightarrow> pyfloat" where
  "atan_poly negative index x =
     (let z = fmul x x; w = fmul z z;
          s1 = fmul z (horner w (map (\<lambda>i. AT ! i) [0, 2, 4, 6, 8, 10]));
          s2 = fmul w (horner w (map (\<lambda>i. AT ! i) [1, 3, 5, 7, 9])) in
      case index of
        None \<Rightarrow> fsub x (fmul x (fadd s1 s2))
      | Some i \<Rightarrow>
          (let z = fsub (ATAN_HI ! i) (fsub (fsub (fmul x (fadd s1 s2)) (ATAN_LO ! i)) x)
           in if negative then fneg z else z))"

definition fdlibm_atan :: "pyfloat \<Rightarrow> pyfloat result" where
  "fdlibm_atan x =
     (let hx = high_word x; negative = (2147483648 \<le> hx); ix = hx mod 2147483648 in
      if 1141899264 \<le> ix then
        (if fisnan x then Inr (fadd x x)
         else if negative then Inr (fneg (fadd (ATAN_HI ! 3) (ATAN_LO ! 3)))
         else Inr (fadd (ATAN_HI ! 3) (ATAN_LO ! 3)))
      else if ix < 1071382528 \<and> ix < 1042284544 then Inr x
      else mapE (\<lambda>(index, y). atan_poly negative index y) (atan_reduce ix x))"

section \<open>Wet-bulb temperature\<close>

definition sqrt_or_nan :: "pyfloat \<Rightarrow> pyfloat result" where
  "sqrt_or_nan value = (if fle (Fin 0) value then fsqrt value else Inr NaN)"

definition KELVIN_OFFSET :: pyfloat where
  "KELVIN_OFFSET = lit (27315 / 100)"

definition wet_bulb :: "pyfloat \<Rightarrow> pyfloat \<Rightarrow> pyfloat result" where
  "wet_bulb dry_bulb_kelvin relative_humidity =
     (if \<not> fisfinite dry_bulb_kelvin \<or> \<not> fisfinite relative_humidity then Inr NaN
      else let t_c = fsub dry_bulb_kelvin KELVIN_OFFSET; rh = fmul (Fin 100) relative_humidity in
        if \<not> fisfinite rh then Inr NaN
        else
          bindE (sqrt_or_nan (fadd rh (lit (8313659 / 10 ^ 6)))) (\<lambda>root.
          bindE (fdlibm_atan (fmul (lit (151977 / 10 ^ 6)) root)) (\<lambda>a1.
          bindE (fdlibm_atan (fadd t_c rh)) (\<lambda>a2.
          bindE (fdlibm_atan (fsub rh (lit (1676331 / 10 ^ 6)))) (\<lambda>a3.
          bindE (sqrt_or_nan rh) (\<lambda>root_rh.
          bindE (fdlibm_atan (fmul (lit (23101 / 10 ^ 6)) rh)) (\<lambda>a4.
          Inr (fsub (fadd (fsub (fadd (fadd KELVIN_OFFSET (fmul t_c a1)) a2) a3)
                (fmul (fmul (lit (391838 / 10 ^ 8)) (fmul rh root_rh)) a4))
                (lit (4686035 / 10 ^ 6))))))))))"

definition eval_wet_bulb :: pure_kernel where
  "eval_wet_bulb c a =
     bindE (number_arg a ''dry_bulb'') (\<lambda>t. bindE (number_arg a ''relative_humidity'') (\<lambda>rh.
     bindE (wet_bulb t rh) (\<lambda>y. Inr (Single (PFloat y)))))"

section \<open>Typing\<close>

lemma sound_fsqrt [sound_rules]: "soundE (\<lambda>_. True) (fsqrt x)"
  by (cases x) (simp_all add: fsqrt_def)

lemma sound_atan_reduce [sound_rules]: "soundE (\<lambda>_. True) (atan_reduce ix x)"
  unfolding atan_reduce_def by (intro sound_rules)

lemma sound_fdlibm_atan [sound_rules]: "soundE (\<lambda>_. True) (fdlibm_atan x)"
  unfolding fdlibm_atan_def by (intro sound_rules)

lemma sound_sqrt_or_nan [sound_rules]: "soundE (\<lambda>_. True) (sqrt_or_nan x)"
  unfolding sqrt_or_nan_def by (intro sound_rules)

lemma sound_wet_bulb [sound_rules]: "soundE (\<lambda>_. True) (wet_bulb t rh)"
  unfolding wet_bulb_def by (intro sound_rules)

interpretation wet_bulb: pure_typed_kernel WET_BULB_TEMPERATURE eval_wet_bulb "\<lambda>_. True"
  by unfold_locales (auto simp: eval_wet_bulb_def args_typed_iff intro!: sound_rules)

end
