(* ===== verification/Topo.thy ===== *)
theory Topo
  imports Prelude
begin

text \<open>
  The queue-driven topological sort the program uses for the blocks of a graph and for
  the equipment of a project: pop a node, decrement the in-degree of its successors,
  append those that reach zero.  The loop is defined on the data the code has (a queue,
  an adjacency dictionary, an in-degree dictionary); the contract of the two dictionaries
  is the locale \<open>indegree_graph\<close>, and what the loop computes is proved inside it.
\<close>

type_synonym adjacency = "string list dict"
type_synonym degrees = "int dict"

definition successors :: "adjacency \<Rightarrow> string \<Rightarrow> string list" where
  "successors adj k = (case map_of adj k of None \<Rightarrow> [] | Some ts \<Rightarrow> ts)"

definition degree_of :: "degrees \<Rightarrow> string \<Rightarrow> int" where
  "degree_of ind k = (case map_of ind k of None \<Rightarrow> 0 | Some d \<Rightarrow> d)"

text \<open>The inner loop over the successors of the popped node.\<close>

fun relax :: "string list \<Rightarrow> string list \<Rightarrow> degrees \<Rightarrow> string list \<times> degrees" where
  "relax [] queue ind = (queue, ind)"
| "relax (t # ts) queue ind =
     (let d = degree_of ind t - 1; ind' = AList.update t d ind in
      relax ts (if d = 0 then queue @ [t] else queue) ind')"

text \<open>The outer loop terminates on any input: every iteration either shortens the queue
  or turns a positive in-degree into zero, and a degree never turns positive again.\<close>

definition positives :: "degrees \<Rightarrow> nat" where
  "positives ind = length (filter (\<lambda>(k, d). 0 < d) ind)"

lemma positives_update:
  "positives (AList.update t (degree_of ind t - 1) ind) + (if degree_of ind t = 1 then 1 else 0)
     \<le> positives ind"
  by (induction ind) (auto simp: positives_def degree_of_def split: if_splits)

lemma relax_measure:
  "relax ts queue ind = (queue', ind') \<Longrightarrow> positives ind' + length queue' \<le> positives ind + length queue"
proof (induction ts arbitrary: queue ind)
  case (Cons t ts)
  have "positives ind' + length queue'
      \<le> positives (AList.update t (degree_of ind t - 1) ind)
        + length (if degree_of ind t - 1 = 0 then queue @ [t] else queue)"
    using Cons.prems by (intro Cons.IH) (simp add: Let_def)
  also have "\<dots> \<le> positives ind + length queue"
    using positives_update [of t ind] by auto
  finally show ?case .
qed simp

function kahn :: "adjacency \<Rightarrow> string list \<Rightarrow> degrees \<Rightarrow> string list" where
  "kahn adj [] ind = []"
| "kahn adj (current # queue) ind =
     current # (case relax (successors adj current) queue ind of
                  (queue', ind') \<Rightarrow> kahn adj queue' ind')"
  by pat_completeness auto
termination
  by (relation "measure (\<lambda>(adj, queue, ind). positives ind + length queue)")
     (simp, simp, metis case_prod_conv le_imp_less_Suc relax_measure)

section \<open>What one pass over the successors does\<close>

lemma degree_of_update [simp]:
  "degree_of (AList.update t d ind) k = (if k = t then d else degree_of ind k)"
  by (simp add: degree_of_def)

lemma relax_spec:
  assumes "relax ts queue ind = (queue', ind')"
  shows "degree_of ind' k = degree_of ind k - int (count_list ts k)"
    and "\<exists>zs. queue' = queue @ zs \<and> distinct zs
           \<and> set zs = {k. 1 \<le> degree_of ind k \<and> degree_of ind k \<le> int (count_list ts k)}"
proof -
  have "(\<forall>k. degree_of ind' k = degree_of ind k - int (count_list ts k)) \<and>
    (\<exists>zs. queue' = queue @ zs \<and> distinct zs
       \<and> set zs = {k. 1 \<le> degree_of ind k \<and> degree_of ind k \<le> int (count_list ts k)})"
    using assms
  proof (induction ts arbitrary: queue ind)
    case Nil
    then show ?case by auto
  next
    case (Cons t ts)
    define d where "d = degree_of ind t - 1"
    define ind1 where "ind1 = AList.update t d ind"
    define queue1 where "queue1 = (if d = 0 then queue @ [t] else queue)"
    have run: "relax ts queue1 ind1 = (queue', ind')"
      using Cons.prems by (simp add: d_def ind1_def queue1_def Let_def)
    from Cons.IH [OF run]
    obtain zs where IH: "\<forall>k. degree_of ind' k = degree_of ind1 k - int (count_list ts k)"
      and zs: "queue' = queue1 @ zs" "distinct zs"
        "set zs = {k. 1 \<le> degree_of ind1 k \<and> degree_of ind1 k \<le> int (count_list ts k)}"
      by auto
    define zs1 where "zs1 = (if d = 0 then t # zs else zs)"
    have "queue' = queue @ zs1" "distinct zs1"
      using zs by (auto simp: zs1_def queue1_def ind1_def)
    moreover have "set zs1 = {k. 1 \<le> degree_of ind k \<and> degree_of ind k \<le> int (count_list (t # ts) k)}"
    proof (intro set_eqI)
      fix k
      have "k \<in> set zs \<longleftrightarrow> 1 \<le> degree_of ind1 k \<and> degree_of ind1 k \<le> int (count_list ts k)"
        by (simp add: zs(3))
      then show "k \<in> set zs1 \<longleftrightarrow>
          k \<in> {k. 1 \<le> degree_of ind k \<and> degree_of ind k \<le> int (count_list (t # ts) k)}"
        by (cases "k = t"; cases "d = 0") (simp_all add: zs1_def ind1_def d_def, linarith+)
    qed
    moreover have "\<forall>k. degree_of ind' k = degree_of ind k - int (count_list (t # ts) k)"
      using IH by (auto simp: ind1_def d_def)
    ultimately show ?case by blast
  qed
  then show "degree_of ind' k = degree_of ind k - int (count_list ts k)"
    and "\<exists>zs. queue' = queue @ zs \<and> distinct zs
           \<and> set zs = {k. 1 \<le> degree_of ind k \<and> degree_of ind k \<le> int (count_list ts k)}"
    by auto
qed

section \<open>Lists in which one element comes before another\<close>

definition before :: "'a list \<Rightarrow> 'a \<Rightarrow> 'a \<Rightarrow> bool" where
  "before xs a b \<longleftrightarrow> (\<exists>us vs. xs = us @ b # vs \<and> a \<in> set us)"

lemma before_append: "before (xs @ [b]) a b \<longleftrightarrow> before xs a b \<or> a \<in> set xs"
proof
  assume "before (xs @ [b]) a b"
  then obtain us vs where "xs @ [b] = us @ b # vs" "a \<in> set us" by (auto simp: before_def)
  then show "before xs a b \<or> a \<in> set xs"
    by (cases vs rule: rev_cases) (auto simp: before_def)
next
  assume "before xs a b \<or> a \<in> set xs"
  then show "before (xs @ [b]) a b"
  proof
    assume "before xs a b"
    then show ?thesis unfolding before_def by (metis append.assoc append_Cons)
  next
    assume "a \<in> set xs"
    then show ?thesis by (auto simp: before_def)
  qed
qed

lemma before_prefix: "before xs a b \<Longrightarrow> before (xs @ ys) a b"
  unfolding before_def by (metis append.assoc append_Cons)

lemma before_irrefl: "distinct xs \<Longrightarrow> \<not> before xs a a"
  by (auto simp: before_def)

lemma before_trans: "distinct xs \<Longrightarrow> before xs a b \<Longrightarrow> before xs b c \<Longrightarrow> before xs a c"
proof -
  assume d: "distinct xs" and ab: "before xs a b" and bc: "before xs b c"
  from bc obtain us vs where c: "xs = us @ c # vs" "b \<in> set us" by (auto simp: before_def)
  from ab obtain us' vs' where b: "xs = us' @ b # vs'" "a \<in> set us'" by (auto simp: before_def)
  from c(2) obtain u1 u2 where u: "us = u1 @ b # u2" by (auto simp: in_set_conv_decomp)
  have "us' = u1"
    using d b(1) c(1) u by (auto simp: append_eq_append_conv2 append_eq_Cons_conv Cons_eq_append_conv)
  then have "a \<in> set us" using b(2) u by simp
  then show "before xs a c" using c(1) by (auto simp: before_def)
qed

section \<open>The contract of the two dictionaries, and the sort it gives\<close>

text \<open>
  \<open>nodes g\<close> are the ids in document order, \<open>edges g\<close> the ordering constraints with
  multiplicity.  The client computes \<open>adj g\<close> and \<open>ind g\<close>; for a \<open>good\<close> input they
  list and count the edges.
\<close>

locale indegree_graph =
  fixes nodes :: "'g \<Rightarrow> string list"
    and edges :: "'g \<Rightarrow> (string \<times> string) list"
    and adj :: "'g \<Rightarrow> adjacency"
    and ind :: "'g \<Rightarrow> degrees"
    and good :: "'g \<Rightarrow> bool"
  assumes nodes_distinct: "good g \<Longrightarrow> distinct (nodes g)"
    and edges_nodes: "good g \<Longrightarrow> (s, t) \<in> set (edges g) \<Longrightarrow> s \<in> set (nodes g) \<and> t \<in> set (nodes g)"
    and adj_counts: "good g \<Longrightarrow> count_list (successors (adj g) s) t = count_list (edges g) (s, t)"
    and ind_counts: "good g \<Longrightarrow> t \<in> set (nodes g) \<Longrightarrow>
      degree_of (ind g) t = int (length (filter (\<lambda>e. snd e = t) (edges g)))"
    and ind_other: "good g \<Longrightarrow> t \<notin> set (nodes g) \<Longrightarrow> degree_of (ind g) t = 0"
begin

definition initial_queue :: "'g \<Rightarrow> string list" where
  "initial_queue g = filter (\<lambda>k. degree_of (ind g) k = 0) (nodes g)"

definition pending :: "'g \<Rightarrow> string list \<Rightarrow> string \<Rightarrow> nat" where
  "pending g fin t = length (filter (\<lambda>e. snd e = t \<and> fst e \<notin> set fin) (edges g))"

definition loop_inv :: "'g \<Rightarrow> string list \<Rightarrow> string list \<Rightarrow> degrees \<Rightarrow> bool" where
  "loop_inv g fin queue d \<longleftrightarrow>
     distinct (fin @ queue) \<and> set (fin @ queue) \<subseteq> set (nodes g)
     \<and> (\<forall>t. degree_of d t = int (pending g fin t))
     \<and> (\<forall>t \<in> set (nodes g). t \<in> set (fin @ queue) \<longleftrightarrow> pending g fin t = 0)
     \<and> (\<forall>(s, t) \<in> set (edges g). t \<in> set fin \<longrightarrow> before fin s t)"

lemma pending_outside: "good g \<Longrightarrow> t \<notin> set (nodes g) \<Longrightarrow> pending g fin t = 0"
  using edges_nodes [of g] by (auto simp: pending_def filter_empty_conv)

lemma pending_zero: "pending g fin t = 0 \<longleftrightarrow> (\<forall>s. (s, t) \<in> set (edges g) \<longrightarrow> s \<in> set fin)"
  by (auto simp: pending_def filter_empty_conv)

lemma pending_snoc:
  assumes "c \<notin> set fin"
  shows "int (pending g (fin @ [c]) t) = int (pending g fin t) - int (count_list (edges g) (c, t))"
proof -
  have "length (filter (\<lambda>e. snd e = t \<and> fst e \<notin> set fin) es)
      = length (filter (\<lambda>e. snd e = t \<and> fst e \<notin> set (fin @ [c])) es) + count_list es (c, t)" for es
    using assms by (induction es) auto
  then have "pending g fin t = pending g (fin @ [c]) t + count_list (edges g) (c, t)"
    unfolding pending_def .
  then show ?thesis by simp
qed

lemma step_preserves:
  assumes g: "good g" and inv: "loop_inv g fin (c # queue) d"
    and run: "relax (successors (adj g) c) queue d = (queue', d')"
  shows "loop_inv g (fin @ [c]) queue' d'"
proof -
  let ?n = "\<lambda>t. count_list (edges g) (c, t)"
  from inv have dist: "distinct (fin @ c # queue)" and sub: "set (fin @ c # queue) \<subseteq> set (nodes g)"
    and deg: "\<And>t. degree_of d t = int (pending g fin t)"
    and mem: "\<And>t. t \<in> set (nodes g) \<Longrightarrow> t \<in> set (fin @ c # queue) \<longleftrightarrow> pending g fin t = 0"
    and bef: "\<And>s t. (s, t) \<in> set (edges g) \<Longrightarrow> t \<in> set fin \<Longrightarrow> before fin s t"
    by (auto simp: loop_inv_def)
  have c: "c \<notin> set fin" using dist by simp
  have pend: "int (pending g (fin @ [c]) t) = int (pending g fin t) - int (?n t)" for t
    by (rule pending_snoc [OF c])
  have deg': "degree_of d' t = int (pending g (fin @ [c]) t)" for t
    using relax_spec(1) [OF run, of t] by (simp add: adj_counts [OF g] deg pend)
  obtain zs where q: "queue' = queue @ zs" and zs: "distinct zs"
    "set zs = {k. 1 \<le> degree_of d k \<and> degree_of d k \<le> int (?n k)}"
    using relax_spec(2) [OF run] adj_counts [OF g] by auto
  have zs_iff: "k \<in> set zs \<longleftrightarrow> pending g fin k \<noteq> 0 \<and> pending g (fin @ [c]) k = 0" for k
    using pend [of k] by (auto simp: zs(2) deg)
  then have zs_new: "set zs \<subseteq> set (nodes g)" "set zs \<inter> set (fin @ c # queue) = {}"
    using pending_outside [OF g] mem sub by blast+
  have "distinct ((fin @ [c]) @ queue')" "set ((fin @ [c]) @ queue') \<subseteq> set (nodes g)"
    using dist sub zs(1) zs_new by (auto simp: q)
  moreover have "t \<in> set ((fin @ [c]) @ queue') \<longleftrightarrow> pending g (fin @ [c]) t = 0"
    if "t \<in> set (nodes g)" for t
    using mem [OF that] zs_iff [of t] pend [of t] by (auto simp: q)
  moreover have "before (fin @ [c]) s t"
    if "(s, t) \<in> set (edges g)" "t \<in> set (fin @ [c])" for s t
  proof (cases "t = c")
    case True
    have "pending g fin c = 0" using mem [of c] sub by simp
    then have "s \<in> set fin" using that True by (simp add: pending_zero)
    then show ?thesis using True by (simp add: before_append)
  next
    case False
    then show ?thesis using that bef by (simp add: before_prefix)
  qed
  ultimately show ?thesis using deg' by (auto simp: loop_inv_def)
qed

lemma loop_result:
  assumes "good g" and "loop_inv g fin queue d" and "a = adj g"
  shows "\<exists>d'. loop_inv g (fin @ kahn a queue d) [] d'"
  using assms(2,3)
proof (induction a queue d arbitrary: fin rule: kahn.induct)
  case (1 a d)
  then show ?case by auto
next
  case (2 a c queue d)
  obtain queue' d' where run: "relax (successors (adj g) c) queue d = (queue', d')"
    by (cases "relax (successors (adj g) c) queue d")
  have "loop_inv g (fin @ [c]) queue' d'"
    using step_preserves [OF assms(1) 2(2) run] .
  moreover have "(queue', d') = relax (successors a c) queue d" using run 2(3) by simp
  ultimately obtain d'' where "loop_inv g ((fin @ [c]) @ kahn a queue' d') [] d''"
    using 2(1) 2(3) by blast
  then show ?case using run 2(3) by auto
qed

definition sort_nodes :: "'g \<Rightarrow> string list" where
  "sort_nodes g = kahn (adj g) (initial_queue g) (ind g)"

lemma initial_inv: "good g \<Longrightarrow> loop_inv g [] (initial_queue g) (ind g)"
proof -
  assume g: "good g"
  have "degree_of (ind g) t = int (pending g [] t)" for t
    using ind_counts [OF g, of t] ind_other [OF g, of t] pending_outside [OF g, of t "[]"]
    by (cases "t \<in> set (nodes g)") (simp_all add: pending_def)
  then show ?thesis
    using nodes_distinct [OF g] by (auto simp: loop_inv_def initial_queue_def)
qed

lemma final_inv: "good g \<Longrightarrow> \<exists>d. loop_inv g (sort_nodes g) [] d"
  using loop_result [OF _ initial_inv refl] by (simp add: sort_nodes_def)

lemma sort_distinct: "good g \<Longrightarrow> distinct (sort_nodes g)"
  using final_inv [of g] by (auto simp: loop_inv_def)

lemma sort_subset: "good g \<Longrightarrow> set (sort_nodes g) \<subseteq> set (nodes g)"
  using final_inv [of g] by (auto simp: loop_inv_def)

lemma sort_before: "good g \<Longrightarrow> (s, t) \<in> set (edges g) \<Longrightarrow> t \<in> set (sort_nodes g) \<Longrightarrow>
    before (sort_nodes g) s t"
  using final_inv [of g] by (auto simp: loop_inv_def)

lemma sort_closed:
  assumes "good g" "t \<in> set (nodes g)" "\<And>s. (s, t) \<in> set (edges g) \<Longrightarrow> s \<in> set (sort_nodes g)"
  shows "t \<in> set (sort_nodes g)"
proof -
  have "pending g (sort_nodes g) t = 0" using assms(3) by (auto simp: pending_zero)
  then show ?thesis using final_inv [OF assms(1)] assms(2) by (auto simp: loop_inv_def)
qed

lemma sort_length_iff:
  "good g \<Longrightarrow> length (sort_nodes g) = length (nodes g) \<longleftrightarrow> set (sort_nodes g) = set (nodes g)"
  by (metis card_subset_eq distinct_card finite_set nodes_distinct sort_distinct sort_subset)

text \<open>All nodes come out exactly when the edges have no cycle.\<close>

lemma sort_before_trancl:
  assumes g: "good g" and all: "set (sort_nodes g) = set (nodes g)"
    and st: "(s, t) \<in> (set (edges g))\<^sup>+"
  shows "before (sort_nodes g) s t"
  using st
proof (induction rule: trancl_induct)
  case (base t)
  then show ?case by (metis all edges_nodes g sort_before)
next
  case (step t u)
  then have "before (sort_nodes g) t u" by (metis all edges_nodes g sort_before)
  with step.IH show ?case by (metis before_trans sort_distinct g)
qed

lemma sort_complete_imp_acyclic:
  assumes g: "good g" and all: "set (sort_nodes g) = set (nodes g)"
  shows "acyclic (set (edges g))"
proof (rule acyclicI, rule allI, rule notI)
  fix s assume "(s, s) \<in> (set (edges g))\<^sup>+"
  from sort_before_trancl [OF g all this] show False
    using before_irrefl [OF sort_distinct [OF g]] by simp
qed

lemma acyclic_imp_sort_complete:
  assumes g: "good g" and "acyclic (set (edges g))"
  shows "set (sort_nodes g) = set (nodes g)"
proof -
  have wf: "wf (set (edges g))" using assms(2) by (simp add: finite_acyclic_wf)
  have "t \<in> set (nodes g) \<longrightarrow> t \<in> set (sort_nodes g)" for t
    using wf
  proof (induction t rule: wf_induct_rule)
    case (less t)
    then show ?case using sort_closed [OF g, of t] edges_nodes [OF g] by blast
  qed
  then show ?thesis using sort_subset [OF g] by blast
qed

lemma sort_complete_iff_acyclic:
  "good g \<Longrightarrow> length (sort_nodes g) = length (nodes g) \<longleftrightarrow> acyclic (set (edges g))"
  using sort_length_iff sort_complete_imp_acyclic acyclic_imp_sort_complete by blast

end

end
