(* ===== verification/Graph.thy ===== *)
theory Graph
  imports BlockConfig Topo "HOL-Library.List_Lexorder" "HOL-Library.Char_ord"
begin

text \<open>
  The control graph (\<open>Link\<close>, \<open>ControlGraph\<close> and \<open>graph_changes\<close> in
  \<open>src/bactalk/domain.py\<close>): the validator that accepts a graph, the evaluation order, and
  the structural difference of two revisions.  The topological sort of \<^theory_text>\<open>Topo\<close> is
  interpreted here on the dictionaries the source builds from the links.
\<close>

record link =
  source :: string
  source_slot :: string
  target :: string
  target_slot :: string

record control_graph =
  gname :: string
  blocks :: "block list"
  links :: "link list"
  metadata :: "pyval dict"

definition by_id :: "control_graph \<Rightarrow> block dict" where
  "by_id g = dict_of bid (\<lambda>b. b) (blocks g)"

definition block_ids :: "control_graph \<Rightarrow> string list" where
  "block_ids g = map bid (blocks g)"

definition zero_indegree :: "control_graph \<Rightarrow> degrees" where
  "zero_indegree g = dict_of bid (\<lambda>_. 0) (blocks g)"

text \<open>The two statements under \<open>if ... kind not in FEEDBACK_KINDS\<close>.\<close>

definition add_edge :: "block \<Rightarrow> link \<Rightarrow> adjacency \<times> degrees \<Rightarrow> adjacency \<times> degrees" where
  "add_edge tb l s = (case s of (adj, ind) \<Rightarrow>
     if is_feedback_kind (bkind tb) then (adj, ind)
     else (AList.update (source l) (successors adj (source l) @ [target l]) adj,
           AList.update (target l) (degree_of ind (target l) + 1) ind))"

section \<open>\<open>ControlGraph.validate_graph\<close>\<close>

type_synonym link_state = "(string \<times> string) list \<times> adjacency \<times> degrees"

definition check_link :: "block dict \<Rightarrow> link \<Rightarrow> link_state \<Rightarrow> link_state result" where
  "check_link ids l s = (case s of (wired, edges) \<Rightarrow>
     case (map_of ids (source l), map_of ids (target l)) of
       (Some sb, Some tb) \<Rightarrow>
         (case map_of (outputs (block_slots (bkind sb))) (source_slot l) of
            None \<Rightarrow> Inl (ValueError (''unknown output '' @ dotted (source l) (source_slot l)))
          | Some st \<Rightarrow>
              (case map_of (inputs (block_slots (bkind tb))) (target_slot l) of
                 None \<Rightarrow> Inl (ValueError (''unknown input '' @ dotted (target l) (target_slot l)))
               | Some tt \<Rightarrow>
                   raise_if (st \<noteq> tt)
                     (''type mismatch on '' @ dotted (source l) (source_slot l) @ '' -> ''
                        @ dotted (target l) (target_slot l))
                  (raise_if ((target l, target_slot l) \<in> set wired)
                     (''input has multiple drivers: '' @ dotted (target l) (target_slot l))
                     (Inr ((target l, target_slot l) # wired, add_edge tb l edges)))))
     | _ \<Rightarrow> Inl (ValueError (''link references unknown block: '' @ source l @ '' -> '' @ target l)))"

definition check_connected :: "(string \<times> string) list \<Rightarrow> block \<Rightarrow> unit result" where
  "check_connected wired b = checks
     (map (\<lambda>slot. need ((bid b, slot) \<in> set wired)
             (''required input is not connected: '' @ dotted (bid b) slot))
        (map fst (inputs (block_slots (bkind b)))))"

definition validate_graph :: "control_graph \<Rightarrow> unit result" where
  "validate_graph g =
     raise_if (length (by_id g) \<noteq> length (blocks g)) ''block ids must be unique''
       (bindE (foldE (check_link (by_id g)) (links g) ([], [], zero_indegree g)) (\<lambda>(wired, adj, ind).
        bindE (checks (map (check_connected wired) (blocks g))) (\<lambda>_.
        let queue = map fst (filter (\<lambda>(k, d). d = 0) ind);
            seen = length (kahn adj queue ind)
        in raise_if (seen \<noteq> length (blocks g)) ''control graph contains a cycle'' okE)))"

text \<open>A \<open>ControlGraph\<close> object exists only when its name, its blocks and its links pass.\<close>

definition graph_ok :: "control_graph \<Rightarrow> bool" where
  "graph_ok g \<longleftrightarrow> is_ident (gname g) \<and> list_all block_ok (blocks g) \<and> validate_graph g = Inr ()"

section \<open>\<open>ControlGraph.topological_order\<close>\<close>

definition order_edges :: "control_graph \<Rightarrow> (adjacency \<times> degrees) result" where
  "order_edges g =
     foldE (\<lambda>l s. bindE (dict_get (by_id g) (target l)) (\<lambda>tb. Inr (add_edge tb l s)))
       (links g) ([], zero_indegree g)"

definition topological_order :: "control_graph \<Rightarrow> block list result" where
  "topological_order g =
     bindE (order_edges g) (\<lambda>(adj, ind).
       let queue = filter (\<lambda>k. degree_of ind k = 0) (block_ids g) in
       traverseE (dict_get (by_id g)) (kahn adj queue ind))"

section \<open>What the links describe\<close>

text \<open>The ordering constraints: every link whose target reads its input in the same scan.\<close>

definition feeds :: "control_graph \<Rightarrow> link \<Rightarrow> bool" where
  "feeds g l \<longleftrightarrow> (case map_of (by_id g) (target l) of
                    None \<Rightarrow> False | Some tb \<Rightarrow> \<not> is_feedback_kind (bkind tb))"

definition graph_edges :: "control_graph \<Rightarrow> (string \<times> string) list" where
  "graph_edges g = map (\<lambda>l. (source l, target l)) (filter (feeds g) (links g))"

text \<open>The accumulated dictionaries, without the checks.\<close>

definition edge_step :: "control_graph \<Rightarrow> link \<Rightarrow> adjacency \<times> degrees \<Rightarrow> adjacency \<times> degrees" where
  "edge_step g l s = (case map_of (by_id g) (target l) of None \<Rightarrow> s | Some tb \<Rightarrow> add_edge tb l s)"

definition edge_dicts :: "control_graph \<Rightarrow> adjacency \<times> degrees" where
  "edge_dicts g = fold (edge_step g) (links g) ([], zero_indegree g)"

text \<open>A link is well formed when both ends exist, the slots exist, and their types agree.\<close>

definition link_ok :: "control_graph \<Rightarrow> link \<Rightarrow> bool" where
  "link_ok g l \<longleftrightarrow> (\<exists>sb tb t. map_of (by_id g) (source l) = Some sb
      \<and> map_of (by_id g) (target l) = Some tb
      \<and> map_of (outputs (block_slots (bkind sb))) (source_slot l) = Some t
      \<and> map_of (inputs (block_slots (bkind tb))) (target_slot l) = Some t)"

definition wiring_ok :: "control_graph \<Rightarrow> bool" where
  "wiring_ok g \<longleftrightarrow> distinct (block_ids g) \<and> (\<forall>l \<in> set (links g). link_ok g l)"

lemma by_id_Some:
  "distinct (block_ids g) \<Longrightarrow> map_of (by_id g) i = Some b \<longleftrightarrow> b \<in> set (blocks g) \<and> bid b = i"
proof -
  assume d: "distinct (block_ids g)"
  have d': "distinct (map fst (map (\<lambda>b. (bid b, b)) (blocks g)))"
    using d by (simp add: block_ids_def comp_def)
  show ?thesis
    using d unfolding by_id_def map_of_dict_of_distinct [OF d [unfolded block_ids_def]]
      map_of_eq_Some_iff [OF d'] by auto
qed

lemma by_id_None: "map_of (by_id g) i = None \<longleftrightarrow> i \<notin> set (block_ids g)"
  using keys_dict_of [of bid "\<lambda>b. b" "blocks g"]
  by (simp add: by_id_def map_of_eq_None_iff block_ids_def)

lemma by_id_unique: "length (by_id g) = length (blocks g) \<longleftrightarrow> distinct (block_ids g)"
  by (simp add: by_id_def length_dict_of_eq block_ids_def)

lemma degree_zero_indegree [simp]: "degree_of (zero_indegree g) k = 0"
proof -
  have "map_of (zero_indegree g) k = Some d \<Longrightarrow> d = 0" for d
    by (auto simp: zero_indegree_def map_of_dict_of dest!: map_of_SomeD)
  then show ?thesis by (auto simp: degree_of_def split: option.splits)
qed

lemma successors_update [simp]:
  "successors (AList.update s ts adj) k = (if k = s then ts else successors adj k)"
  by (simp add: successors_def)

lemma edge_dicts_fold:
  assumes "fold (edge_step g) ls (adj, ind) = (adj', ind')"
  shows "count_list (successors adj' s) t = count_list (successors adj s) t
           + count_list (map (\<lambda>l. (source l, target l)) (filter (feeds g) ls)) (s, t)
    \<and> degree_of ind' t = degree_of ind t
           + int (length (filter (\<lambda>e. snd e = t) (map (\<lambda>l. (source l, target l)) (filter (feeds g) ls))))"
  using assms
proof (induction ls arbitrary: adj ind)
  case (Cons l ls)
  obtain adj1 ind1 where s1: "edge_step g l (adj, ind) = (adj1, ind1)"
    by (cases "edge_step g l (adj, ind)")
  have "count_list (successors adj1 s) t
      = count_list (successors adj s) t + (if feeds g l \<and> (source l, target l) = (s, t) then 1 else 0)"
    "degree_of ind1 t = degree_of ind t + (if feeds g l \<and> target l = t then 1 else 0)"
    using s1 by (auto simp: feeds_def edge_step_def add_edge_def split: option.splits if_splits)
  moreover have "fold (edge_step g) ls (adj1, ind1) = (adj', ind')"
    using Cons.prems by (simp add: s1)
  ultimately show ?case using Cons.IH by auto
qed simp

lemma edge_dicts_counts:
  "count_list (successors (fst (edge_dicts g)) s) t = count_list (graph_edges g) (s, t)"
  "degree_of (snd (edge_dicts g)) t = int (length (filter (\<lambda>e. snd e = t) (graph_edges g)))"
  using edge_dicts_fold [of g "links g" "[]" "zero_indegree g" "fst (edge_dicts g)" "snd (edge_dicts g)" s t]
  by (simp_all add: edge_dicts_def graph_edges_def successors_def)

lemma wiring_edges:
  assumes "wiring_ok g" and "(s, t) \<in> set (graph_edges g)"
  shows "s \<in> set (block_ids g)" and "t \<in> set (block_ids g)"
proof -
  obtain l where l: "l \<in> set (links g)" "source l = s" "target l = t"
    using assms(2) by (auto simp: graph_edges_def)
  then have "link_ok g l" using assms(1) by (simp add: wiring_ok_def)
  then have "map_of (by_id g) (source l) \<noteq> None" "map_of (by_id g) (target l) \<noteq> None"
    by (auto simp: link_ok_def)
  then show "s \<in> set (block_ids g)" "t \<in> set (block_ids g)" by (simp_all add: by_id_None l)
qed

text \<open>The control graph is an instance of the sort's contract.\<close>

interpretation order: indegree_graph block_ids graph_edges "\<lambda>g. fst (edge_dicts g)"
  "\<lambda>g. snd (edge_dicts g)" wiring_ok
proof
  fix g s t
  assume g: "wiring_ok g"
  show "distinct (block_ids g)" using g by (simp add: wiring_ok_def)
  show "count_list (successors (fst (edge_dicts g)) s) t = count_list (graph_edges g) (s, t)"
    by (rule edge_dicts_counts)
  show "degree_of (snd (edge_dicts g)) t = int (length (filter (\<lambda>e. snd e = t) (graph_edges g)))"
    by (rule edge_dicts_counts)
  show "s \<in> set (block_ids g) \<and> t \<in> set (block_ids g)" if "(s, t) \<in> set (graph_edges g)"
    using wiring_edges [OF g that] by simp
  show "degree_of (snd (edge_dicts g)) t = 0" if t: "t \<notin> set (block_ids g)"
  proof -
    have "filter (\<lambda>e. snd e = t) (graph_edges g) = []"
      using wiring_edges(2) [OF g] t by (auto simp: filter_empty_conv)
    then show ?thesis by (simp add: edge_dicts_counts)
  qed
qed

section \<open>What the validator establishes\<close>

text \<open>The link loop succeeds exactly on well-formed, singly driven links, and then its
  dictionaries are \<^const>\<open>edge_dicts\<close>.\<close>

definition driven :: "link \<Rightarrow> string \<times> string" where
  "driven l = (target l, target_slot l)"

lemma check_link_Inr:
  "check_link (by_id g) l (c, e) = Inr s' \<longleftrightarrow>
     link_ok g l \<and> driven l \<notin> set c
     \<and> s' = (driven l # c, edge_step g l e)"
  by (auto simp: check_link_def link_ok_def driven_def edge_step_def raise_if_eq_Inr split: option.splits)

lemma link_loop_Inr:
  "foldE (check_link (by_id g)) ls (c, e) = Inr s' \<longleftrightarrow>
     (\<forall>l \<in> set ls. link_ok g l) \<and> distinct (map driven ls) \<and> set (map driven ls) \<inter> set c = {}
     \<and> s' = (rev (map driven ls) @ c,
             fold (edge_step g) ls e)"
proof (induction ls arbitrary: c e)
  case (Cons l ls)
  show ?case by (auto simp: bindE_eq_Inr check_link_Inr Cons.IH)
qed auto

lemma check_connected_Inr:
  "check_connected c b = Inr u \<longleftrightarrow>
     (\<forall>slot \<in> set (map fst (inputs (block_slots (bkind b)))). (bid b, slot) \<in> set c)"
  by (auto simp: check_connected_def checks_Inr_iff)

definition inputs_driven :: "control_graph \<Rightarrow> bool" where
  "inputs_driven g \<longleftrightarrow> distinct (map driven (links g))
     \<and> (\<forall>b \<in> set (blocks g). \<forall>slot \<in> set (map fst (inputs (block_slots (bkind b)))).
          (bid b, slot) \<in> set (map driven (links g)))"

text \<open>The queue the validator builds from the in-degree dictionary.\<close>

lemma fold_keys_same:
  assumes "wiring_ok g" "set ls \<subseteq> set (links g)" "map fst ind = block_ids g"
  shows "map fst (snd (fold (edge_step g) ls (adj, ind))) = block_ids g"
  using assms(2,3)
proof (induction ls arbitrary: adj ind)
  case (Cons l ls)
  have "link_ok g l" using Cons.prems(1) assms(1) by (simp add: wiring_ok_def)
  then obtain tb where tb: "map_of (by_id g) (target l) = Some tb" by (auto simp: link_ok_def)
  then have mem: "target l \<in> set (map fst ind)"
    using Cons.prems(2) by_id_None [of g "target l"] by auto
  then have "map fst (AList.update (target l) d ind) = block_ids g" for d
    using Cons.prems(2) by (simp add: update_keys)
  then show ?case
    using Cons.prems Cons.IH by (simp add: tb edge_step_def add_edge_def)
qed simp

lemma zero_indegree_keys: "distinct (block_ids g) \<Longrightarrow> map fst (zero_indegree g) = block_ids g"
proof -
  have "map fst (fold (\<lambda>x. AList.update (bid x) (0::int)) bs d) = map fst d @ map bid bs"
    if "distinct (map fst d @ map bid bs)" for bs and d :: degrees
    using that
  proof (induction bs arbitrary: d)
    case (Cons b bs)
    have "distinct (map fst (AList.update (bid b) 0 d) @ map bid bs)"
      using Cons.prems by (auto simp: update_keys dom_update)
    from Cons.IH [OF this] show ?case
      using Cons.prems by (simp add: update_keys)
  qed simp
  from this [of "[]" "blocks g"] show "distinct (block_ids g) \<Longrightarrow> ?thesis"
    by (simp add: zero_indegree_def dict_of_def block_ids_def)
qed

lemma queue_from_items:
  assumes "distinct (map fst ind)"
  shows "map fst (filter (\<lambda>(k, d). d = 0) ind) = filter (\<lambda>k. degree_of ind k = 0) (map fst ind)"
proof -
  have "degree_of ind k = d" if "(k, d) \<in> set ind" for k d
    using assms that by (simp add: degree_of_def)
  then have "filter (\<lambda>(k, d). d = 0) ind = filter (\<lambda>kd. degree_of ind (fst kd) = 0) ind"
    by (intro filter_cong) auto
  then show ?thesis by (simp add: filter_map comp_def)
qed

lemma items_queue:
  assumes "wiring_ok g"
  shows "map fst (filter (\<lambda>(k, d). d = 0) (snd (edge_dicts g))) = order.initial_queue g"
proof -
  have d: "distinct (block_ids g)" using assms by (simp add: wiring_ok_def)
  have "map fst (snd (edge_dicts g)) = block_ids g"
    using fold_keys_same [OF assms subset_refl zero_indegree_keys [OF d]] by (simp add: edge_dicts_def)
  then show ?thesis
    using queue_from_items [of "snd (edge_dicts g)"] d by (simp add: order.initial_queue_def)
qed

lemma validate_graph_iff:
  "validate_graph g = Inr () \<longleftrightarrow> wiring_ok g \<and> inputs_driven g \<and> acyclic (set (graph_edges g))"
proof (cases "wiring_ok g \<and> distinct (map driven (links g))")
  case True
  then have g: "wiring_ok g" and d: "distinct (map driven (links g))" by simp_all
  have loop: "foldE (check_link (by_id g)) (links g) ([], [], zero_indegree g)
      = Inr (rev (map driven (links g)), edge_dicts g)"
    using g d by (simp add: link_loop_Inr wiring_ok_def edge_dicts_def)
  obtain adj ind where e: "edge_dicts g = (adj, ind)" by (cases "edge_dicts g")
  have "kahn adj (map fst (filter (\<lambda>(k, d). d = 0) ind)) ind = order.sort_nodes g"
    using items_queue [OF g] by (simp add: order.sort_nodes_def e)
  moreover have "length (order.sort_nodes g) = length (blocks g) \<longleftrightarrow> acyclic (set (graph_edges g))"
    using order.sort_complete_iff_acyclic [OF g] by (simp add: block_ids_def)
  moreover have "length (by_id g) = length (blocks g)"
    using g by (simp add: by_id_unique wiring_ok_def)
  moreover have "checks (map (check_connected (rev (map driven (links g)))) (blocks g)) = Inr ()
      \<longleftrightarrow> inputs_driven g"
    using d by (auto simp: checks_Inr_iff check_connected_Inr inputs_driven_def)
  ultimately show ?thesis
    using g by (auto simp: validate_graph_def loop e bindE_eq_Inr raise_if_eq_Inr okE_def Let_def)
next
  case False
  then show ?thesis
    by (auto simp: validate_graph_def raise_if_eq_Inr bindE_eq_Inr link_loop_Inr by_id_unique
        wiring_ok_def inputs_driven_def)
qed

lemma graph_okD:
  assumes "graph_ok g"
  shows "wiring_ok g" "inputs_driven g" "acyclic (set (graph_edges g))"
    "distinct (block_ids g)" "b \<in> set (blocks g) \<Longrightarrow> block_ok b"
    "b \<in> set (blocks g) \<Longrightarrow> is_ident (bid b)"
  using assms by (auto simp: graph_ok_def validate_graph_iff list_all_iff wiring_ok_def block_ok_def)

lemma order_edges_eq: "wiring_ok g \<Longrightarrow> order_edges g = Inr (edge_dicts g)"
proof -
  assume g: "wiring_ok g"
  have "foldE (\<lambda>l s. bindE (dict_get (by_id g) (target l)) (\<lambda>tb. Inr (add_edge tb l s))) ls s
      = Inr (fold (edge_step g) ls s)"
    if "set ls \<subseteq> set (links g)" for ls s
    using that
  proof (induction ls arbitrary: s)
    case (Cons l ls)
    have "link_ok g l" using Cons.prems g by (simp add: wiring_ok_def)
    then obtain tb where "map_of (by_id g) (target l) = Some tb" by (auto simp: link_ok_def)
    then show ?case using Cons by (simp add: dict_get_def edge_step_def)
  qed simp
  then show ?thesis by (simp add: order_edges_def edge_dicts_def)
qed

text \<open>The order exists on a well-wired graph and is the sort of the interpretation.\<close>

lemma topological_order_sort:
  assumes "wiring_ok g"
  shows "\<exists>bs. topological_order g = Inr bs \<and> map bid bs = order.sort_nodes g \<and> set bs \<subseteq> set (blocks g)"
proof -
  let ?lookup = "\<lambda>i. the (map_of (by_id g) i)"
  have d: "distinct (block_ids g)" using assms by (simp add: wiring_ok_def)
  have known: "map_of (by_id g) i = Some (?lookup i)" if "i \<in> set (order.sort_nodes g)" for i
    using that order.sort_subset [OF assms] by_id_None [of g i] by auto
  then have "traverseE (dict_get (by_id g)) (order.sort_nodes g) = Inr (map ?lookup (order.sort_nodes g))"
    by (intro traverseE_Inr) simp
  moreover have "bid (?lookup i) = i \<and> ?lookup i \<in> set (blocks g)" if "i \<in> set (order.sort_nodes g)" for i
    using known [OF that] by_id_Some [OF d, of i] by simp
  ultimately show ?thesis
    by (auto simp: topological_order_def order_edges_eq [OF assms] order.sort_nodes_def
        order.initial_queue_def split_beta Let_def map_idI)
qed

text \<open>C28: the validator accepts a graph exactly when it is a well-wired dataflow: block ids are
  distinct, every link joins existing slots of one type, every input slot has exactly one
  driver, and the links into blocks other than the feedback kinds form no cycle.\<close>

theorem validate_graph_accepts:
  "validate_graph g = Inr () \<longleftrightarrow> wiring_ok g \<and> inputs_driven g \<and> acyclic (set (graph_edges g))"
  by (rule validate_graph_iff)

end
