(* ===== verification/Interp.thy ===== *)
theory Interp
  imports Psychro Graph
begin

text \<open>
  \<open>GraphInterpreter\<close> (\<open>src/bactalk/simulator.py\<close>): the dispatch of
  \<open>_evaluate_block\<close>, the state kept per block id, the three deferred updates, and
  \<open>evaluate\<close>, one scan of the graph.  An exception aborts the scan; the state it leaves
  behind is not modelled, since every caller abandons the interpreter then.
\<close>

section \<open>The state kept under a block's id\<close>

datatype (plugins only: code) block_state =
    PreS (the_PreS: pre_state)
  | DelayS (the_DelayS: delay_state)
  | EdgeS (the_EdgeS: edge_state)
  | InitS (the_InitS: init_state)
  | ChangeS (the_ChangeS: change_state)
  | NumericLatchS (the_NumericLatchS: latch_state)
  | BooleanLatchS (the_BooleanLatchS: latch_state)
  | SetResetS (the_SetResetS: set_reset_state)
  | HysteresisS (the_HysteresisS: hysteresis_state)
  | HoldS (the_HoldS: hold_state)
  | TimerS (the_TimerS: timer_state)
  | ResetTimerS (the_ResetTimerS: reset_timer_state)
  | AccumulatingS (the_AccumulatingS: accumulating_state)
  | SamplerS (the_SamplerS: sampler_state)
  | FirstOrderS (the_FirstOrderS: hold1_state)
  | TriggerS (the_TriggerS: trigger_state)
  | AverageS (the_AverageS: average_state)
  | SlewS (the_SlewS: slew_state)
  | IntegratorS (the_IntegratorS: integrator_state)
  | CounterS (the_CounterS: counter_state)
  | UnitDelayS (the_UnitDelayS: unit_delay_state)
  | PiS (the_PiS: pi_state)
  | PidS (the_PidS: pid_state)
  | TrimS (the_TrimS: trim_state)
  | AvailabilityS (the_AvailabilityS: availability_state)
  | EnableS (the_EnableS: enable_state)
  | HrcS (the_HrcS: hrc_state)
  | HrcModeS (the_HrcModeS: hrc_mode_state)
  | CompletionS (the_CompletionS: completion_state)
  | StageS (the_StageS: stage_state)

definition narrow :: "(block_state \<Rightarrow> bool) \<Rightarrow> (block_state \<Rightarrow> 's) \<Rightarrow> block_state option \<Rightarrow> 's option" where
  "narrow is_s the_s s = (case s of None \<Rightarrow> None | Some v \<Rightarrow> if is_s v then Some (the_s v) else None)"

type_synonym block_kernel =
  "config \<Rightarrow> clock \<Rightarrow> args \<Rightarrow> block_state option \<Rightarrow> (outcome \<times> block_state option) result"

definition lift_pure :: "pure_kernel \<Rightarrow> block_kernel" where
  "lift_pure f c ck a s = mapE (\<lambda>r. (r, s)) (f c a)"

definition lift_state :: "('s \<Rightarrow> block_state) \<Rightarrow> (block_state \<Rightarrow> bool) \<Rightarrow> (block_state \<Rightarrow> 's) \<Rightarrow> 's kernel \<Rightarrow>
    block_kernel" where
  "lift_state wrap is_s the_s kern c ck a s =
     mapE (\<lambda>(r, st). (r, Some (wrap st))) (kern c ck a (narrow is_s the_s s))"

definition lift_emit :: "(block_state \<Rightarrow> bool) \<Rightarrow> (block_state \<Rightarrow> 's) \<Rightarrow> 's emitter \<Rightarrow> block_kernel" where
  "lift_emit is_s the_s emit c ck a s = mapE (\<lambda>r. (r, s)) (emit c ck (narrow is_s the_s s))"

section \<open>Dispatch\<close>

definition unsupported :: pure_kernel where
  "unsupported c a = Inl (ValueError ''unsupported block kind'')"

definition eval_assert_warning :: pure_kernel where
  "eval_assert_warning c a = mapE (\<lambda>v. Multi [(''ok'', PBool v)]) (bool_arg a ''condition'')"

fun block_kernel :: "block_kind \<Rightarrow> block_kernel" where
  "block_kernel NUMERIC_INPUT = lift_pure unsupported"
| "block_kernel BOOLEAN_INPUT = lift_pure unsupported"
| "block_kernel NUMERIC_CONST = lift_pure eval_const"
| "block_kernel BOOLEAN_CONST = lift_pure eval_const"
| "block_kernel NUMERIC_OUTPUT = lift_pure eval_output"
| "block_kernel BOOLEAN_OUTPUT = lift_pure eval_output"
| "block_kernel ADD = lift_pure (eval_binary fadd)"
| "block_kernel SUBTRACT = lift_pure (eval_binary fsub)"
| "block_kernel MULTIPLY = lift_pure (eval_binary fmul)"
| "block_kernel DIVIDE = lift_pure eval_divide"
| "block_kernel MINIMUM = lift_pure (eval_binary fmin)"
| "block_kernel MAXIMUM = lift_pure (eval_binary fmax)"
| "block_kernel AVERAGE = lift_pure eval_average"
| "block_kernel GREATER_THAN = lift_pure (eval_compare (\<lambda>x y. fless y x))"
| "block_kernel GREATER_THAN_OR_EQUAL = lift_pure (eval_compare (\<lambda>x y. fle y x))"
| "block_kernel LESS_THAN = lift_pure (eval_compare fless)"
| "block_kernel LESS_THAN_OR_EQUAL = lift_pure (eval_compare fle)"
| "block_kernel EQUAL = lift_pure (eval_compare feq)"
| "block_kernel NOT_EQUAL = lift_pure (eval_compare (\<lambda>x y. \<not> feq x y))"
| "block_kernel AND = lift_pure eval_and"
| "block_kernel OR = lift_pure eval_or"
| "block_kernel XOR = lift_pure eval_xor"
| "block_kernel NOT = lift_pure eval_not"
| "block_kernel NUMERIC_SWITCH = lift_pure eval_switch"
| "block_kernel BOOLEAN_SWITCH = lift_pure eval_switch"
| "block_kernel NUMERIC_ROUND = lift_pure eval_round"
| "block_kernel RESET = lift_pure eval_reset"
| "block_kernel WET_BULB_TEMPERATURE = lift_pure eval_wet_bulb"
| "block_kernel BOOLEAN_ASSERT_WARNING = lift_pure eval_assert_warning"
| "block_kernel BOOLEAN_DELAY = lift_state DelayS is_DelayS the_DelayS eval_boolean_delay"
| "block_kernel ONE_SHOT = lift_state EdgeS is_EdgeS the_EdgeS eval_one_shot"
| "block_kernel BOOLEAN_FALLING_EDGE = lift_state EdgeS is_EdgeS the_EdgeS eval_falling_edge"
| "block_kernel MOVING_AVERAGE = lift_state AverageS is_AverageS the_AverageS eval_moving_average"
| "block_kernel NUMERIC_SAMPLER = lift_state SamplerS is_SamplerS the_SamplerS eval_sampler"
| "block_kernel NUMERIC_FIRST_ORDER_HOLD = lift_state FirstOrderS is_FirstOrderS the_FirstOrderS eval_first_order_hold"
| "block_kernel BOOLEAN_SAMPLE_TRIGGER = lift_state TriggerS is_TriggerS the_TriggerS eval_sample_trigger"
| "block_kernel NUMERIC_CHANGED = lift_state ChangeS is_ChangeS the_ChangeS (eval_change value_changed)"
| "block_kernel NUMERIC_INCREASED = lift_state ChangeS is_ChangeS the_ChangeS (eval_change value_increased)"
| "block_kernel NUMERIC_DECREASED = lift_state ChangeS is_ChangeS the_ChangeS (eval_change value_decreased)"
| "block_kernel NUMERIC_LIMIT_SLEW_RATE = lift_state SlewS is_SlewS the_SlewS eval_slew_rate"
| "block_kernel NUMERIC_LATCH = lift_state NumericLatchS is_NumericLatchS the_NumericLatchS (eval_latch (PFloat (Fin 0)))"
| "block_kernel BOOLEAN_LATCH = lift_state BooleanLatchS is_BooleanLatchS the_BooleanLatchS (eval_latch (PBool False))"
| "block_kernel BOOLEAN_PRE_HOST_TICK = lift_state PreS is_PreS the_PreS eval_pre_host_tick"
| "block_kernel BOOLEAN_INITIALIZATION = lift_state InitS is_InitS the_InitS eval_initialization"
| "block_kernel BOOLEAN_SET_RESET = lift_state SetResetS is_SetResetS the_SetResetS eval_set_reset"
| "block_kernel BOOLEAN_TRUE_FALSE_HOLD = lift_state HoldS is_HoldS the_HoldS eval_true_false_hold"
| "block_kernel HYSTERESIS = lift_state HysteresisS is_HysteresisS the_HysteresisS eval_hysteresis"
| "block_kernel TIMER = lift_state TimerS is_TimerS the_TimerS eval_timer"
| "block_kernel TIMER_WITH_RESET = lift_state ResetTimerS is_ResetTimerS the_ResetTimerS eval_timer_with_reset"
| "block_kernel TIMER_ACCUMULATING = lift_state AccumulatingS is_AccumulatingS the_AccumulatingS eval_timer_accumulating"
| "block_kernel TRIM_AND_RESPOND = lift_state TrimS is_TrimS the_TrimS eval_trim_and_respond"
| "block_kernel TRIM_AND_RESPOND_HOLD = lift_state TrimS is_TrimS the_TrimS eval_trim_and_respond"
| "block_kernel PI_LOOP = lift_state PiS is_PiS the_PiS eval_pi_loop"
| "block_kernel PID_WITH_RESET = lift_state PidS is_PidS the_PidS eval_pid"
| "block_kernel PLANT_EQUIPMENT_AVAILABILITY = lift_state AvailabilityS is_AvailabilityS the_AvailabilityS eval_availability"
| "block_kernel PLANT_ENABLE = lift_state EnableS is_EnableS the_EnableS eval_plant_enable"
| "block_kernel PLANT_HRC_ENABLE = lift_state HrcS is_HrcS the_HrcS eval_hrc_enable"
| "block_kernel PLANT_HRC_MODE_CONTROL = lift_state HrcModeS is_HrcModeS the_HrcModeS eval_hrc_mode"
| "block_kernel PLANT_STAGE_COMPLETION = lift_state CompletionS is_CompletionS the_CompletionS eval_stage_completion"
| "block_kernel PLANT_STAGE_INDEX = lift_state StageS is_StageS the_StageS eval_stage_index"
| "block_kernel NUMERIC_UNIT_DELAY = lift_emit is_UnitDelayS the_UnitDelayS emit_unit_delay"
| "block_kernel NUMERIC_INTEGRATOR_WITH_RESET = lift_emit is_IntegratorS the_IntegratorS emit_integrator"
| "block_kernel NUMERIC_ON_COUNTER = lift_emit is_CounterS the_CounterS emit_counter"

text \<open>\<open>inputs.get(block.id, block.config.get("default", 0.0))\<close>\<close>

definition eval_input :: "block \<Rightarrow> pyval dict \<Rightarrow> pyval" where
  "eval_input b ins = cfg_get ins (bid b) (cfg_get (bconfig b) ''default'' (PFloat (Fin 0)))"

definition evaluate_block :: "block \<Rightarrow> args \<Rightarrow> pyval dict \<Rightarrow> clock \<Rightarrow> block_state option \<Rightarrow>
    (outcome \<times> block_state option) result" where
  "evaluate_block b a ins ck s =
     (if bkind b \<in> {NUMERIC_INPUT, BOOLEAN_INPUT} then Inr (Single (eval_input b ins), s)
      else block_kernel (bkind b) (bconfig b) ck a s)"

text \<open>The event of a failed assertion; the validator admits only string messages.\<close>

record assert_event =
  ev_block_id :: string
  ev_message :: string
  ev_time :: pyfloat

definition assert_events :: "block \<Rightarrow> clock \<Rightarrow> outcome \<Rightarrow> assert_event list" where
  "assert_events b ck r =
     (if bkind b = BOOLEAN_ASSERT_WARNING \<and> r = Multi [(''ok'', PBool False)] then
        [\<lparr>ev_block_id = bid b,
          ev_message = (case map_of (bconfig b) ''message'' of Some (PStr m) \<Rightarrow> m | _ \<Rightarrow> ''''),
          ev_time = now ck\<rparr>]
      else [])"

section \<open>Wires\<close>

type_synonym wires = "(string \<times> string) dict"

definition wires_of :: "wires dict \<Rightarrow> string \<Rightarrow> wires" where
  "wires_of inc i = (case map_of inc i of None \<Rightarrow> [] | Some d \<Rightarrow> d)"

definition add_wire :: "link \<Rightarrow> wires dict \<Rightarrow> wires dict" where
  "add_wire l inc = AList.update (target l)
     (AList.update (target_slot l) (source l, source_slot l) (wires_of inc (target l))) inc"

definition incoming :: "control_graph \<Rightarrow> wires dict" where
  "incoming g = fold add_wire (links g) []"

definition read_wire :: "pyval dict \<Rightarrow> string \<times> string \<Rightarrow> pyval result" where
  "read_wire vals w = (case w of (s, slot) \<Rightarrow> dict_get vals (dotted s slot))"

definition gather_args :: "pyval dict \<Rightarrow> wires \<Rightarrow> args result" where
  "gather_args vals ws = traverseE (\<lambda>(slot, w). mapE (Pair slot) (read_wire vals w)) ws"

text \<open>What a result adds to the values of the scan.\<close>

definition record_outcome :: "string \<Rightarrow> outcome \<Rightarrow> pyval dict \<Rightarrow> pyval dict result" where
  "record_outcome i r vals = (case r of
       Single v \<Rightarrow> Inr (AList.update (dotted i ''out'') v (AList.update i v vals))
     | Multi vs \<Rightarrow>
         (case vs of
            [] \<Rightarrow> Inl (RuntimeError ''StopIteration'')
          | (_, v) # _ \<Rightarrow>
              Inr (AList.update i v (fold (\<lambda>(slot, v). AList.update (dotted i slot) v) vs vals))))"

section \<open>One scan\<close>

record interp =
  in_state :: "block_state dict"
  in_time :: pyfloat
  in_events :: "assert_event list"

definition interp_init :: interp where
  "interp_init = \<lparr>in_state = [], in_time = Fin 0, in_events = []\<rparr>"

type_synonym scan_state = "pyval dict \<times> block_state dict \<times> assert_event list"

definition store_state :: "string \<Rightarrow> block_state option \<Rightarrow> block_state dict \<Rightarrow> block_state dict" where
  "store_state i s states = (case s of None \<Rightarrow> states | Some st \<Rightarrow> AList.update i st states)"

definition scan_block :: "wires dict \<Rightarrow> pyval dict \<Rightarrow> clock \<Rightarrow> block \<Rightarrow> scan_state \<Rightarrow> scan_state result" where
  "scan_block inc ins ck b sc = (case sc of (vals, states, events) \<Rightarrow>
     bindE (if is_feedback_kind (bkind b) then Inr [] else gather_args vals (wires_of inc (bid b))) (\<lambda>a.
     bindE (evaluate_block b a ins ck (map_of states (bid b))) (\<lambda>(r, s).
     bindE (record_outcome (bid b) r vals) (\<lambda>vals.
     Inr (vals, store_state (bid b) s states, events @ assert_events b ck r)))))"

text \<open>The deferred updates, each over the blocks of its kind in evaluation order.\<close>

definition in_wire :: "wires dict \<Rightarrow> block \<Rightarrow> (string \<times> string) result" where
  "in_wire inc b = dict_get (wires_of inc (bid b)) ''in''"

definition defer_unit_delay :: "wires dict \<Rightarrow> pyval dict \<Rightarrow> clock \<Rightarrow> block \<Rightarrow> block_state dict \<Rightarrow>
    block_state dict result" where
  "defer_unit_delay inc vals ck b states =
     bindE (in_wire inc b) (\<lambda>w. bindE (read_wire vals w) (\<lambda>v.
     bindE (update_unit_delay (bconfig b) ck [(''in'', v)]
              (narrow is_UnitDelayS the_UnitDelayS (map_of states (bid b)))) (\<lambda>st.
     Inr (AList.update (bid b) (UnitDelayS st) states))))"

definition defer_pre :: "wires dict \<Rightarrow> pyval dict \<Rightarrow> block \<Rightarrow> block_state dict \<Rightarrow> block_state dict result" where
  "defer_pre inc vals b states =
     bindE (in_wire inc b) (\<lambda>w. bindE (read_wire vals w) (\<lambda>v.
     Inr (AList.update (bid b)
            (PreS (update_pre_host_tick (bconfig b) v (narrow is_PreS the_PreS (map_of states (bid b))))) states)))"

definition update_state_block :: "block \<Rightarrow> clock \<Rightarrow> args \<Rightarrow> block_state option \<Rightarrow> block_state result" where
  "update_state_block b ck a s =
     (if bkind b = NUMERIC_INTEGRATOR_WITH_RESET then
        mapE IntegratorS (update_integrator (bconfig b) ck a (narrow is_IntegratorS the_IntegratorS s))
      else if bkind b = NUMERIC_ON_COUNTER then
        mapE CounterS (update_counter (bconfig b) ck a (narrow is_CounterS the_CounterS s))
      else Inl (ValueError ''no deferred update''))"

definition defer_state :: "wires dict \<Rightarrow> pyval dict \<Rightarrow> clock \<Rightarrow> block \<Rightarrow> block_state dict \<Rightarrow>
    block_state dict result" where
  "defer_state inc vals ck b states =
     bindE (gather_args vals (wires_of inc (bid b))) (\<lambda>a.
     bindE (update_state_block b ck a (map_of states (bid b))) (\<lambda>st.
     Inr (AList.update (bid b) st states)))"

definition unit_delay_blocks :: "block list \<Rightarrow> block list" where
  "unit_delay_blocks bs = filter (\<lambda>b. bkind b = NUMERIC_UNIT_DELAY) bs"

definition pre_blocks :: "block list \<Rightarrow> block list" where
  "pre_blocks bs = filter (\<lambda>b. bkind b = BOOLEAN_PRE_HOST_TICK) bs"

definition state_blocks :: "block list \<Rightarrow> block list" where
  "state_blocks bs = filter (\<lambda>b. is_feedback_kind (bkind b)
     \<and> bkind b \<noteq> NUMERIC_UNIT_DELAY \<and> bkind b \<noteq> BOOLEAN_PRE_HOST_TICK) bs"

definition run_deferred :: "wires dict \<Rightarrow> pyval dict \<Rightarrow> clock \<Rightarrow> block list \<Rightarrow> block_state dict \<Rightarrow>
    block_state dict result" where
  "run_deferred inc vals ck bs states =
     bindE (foldE (defer_unit_delay inc vals ck) (unit_delay_blocks bs) states) (\<lambda>states.
     bindE (foldE (defer_pre inc vals) (pre_blocks bs) states) (\<lambda>states.
     foldE (defer_state inc vals ck) (state_blocks bs) states))"

definition evaluate :: "control_graph \<Rightarrow> interp \<Rightarrow> pyval dict \<Rightarrow> pyfloat \<Rightarrow> (pyval dict \<times> interp) result" where
  "evaluate g ip ins step =
     raise_if (fless step (Fin 0)) ''step_seconds must be non-negative''
       (let t = fadd (in_time ip) step; ck = \<lparr>now = t, step_seconds = step\<rparr>; inc = incoming g in
        bindE (topological_order g) (\<lambda>order.
        bindE (foldE (scan_block inc ins ck) order ([], in_state ip, [])) (\<lambda>(vals, states, events).
        bindE (run_deferred inc vals ck order states) (\<lambda>states.
        Inr (vals, \<lparr>in_state = states, in_time = t, in_events = events\<rparr>)))))"

text \<open>A run of the interpreter over successive samples.\<close>

fun evaluate_run :: "control_graph \<Rightarrow> interp \<Rightarrow> (pyval dict \<times> pyfloat) list \<Rightarrow> (pyval dict list \<times> interp) result" where
  "evaluate_run g ip [] = Inr ([], ip)"
| "evaluate_run g ip ((ins, step) # samples) =
     bindE (evaluate g ip ins step) (\<lambda>(vals, ip).
     bindE (evaluate_run g ip samples) (\<lambda>(vs, ip). Inr (vals # vs, ip)))"

end
