(* ===== verification/Specs.thy ===== *)
theory Specs
  imports Interp
begin

text \<open>
  The acceptance vocabulary of \<open>src/bactalk/domain.py\<close>: expectations, faults, timeline
  phases, cases and qualification profiles, each with the validator pydantic runs when the
  object is built.  A value that may be absent is \<^const>\<open>PNone\<close> or an option.
\<close>

section \<open>Expectations\<close>

datatype comparison_operator = EQ | NE | GT | GTE | LT | LTE | BETWEEN

record output_expectation =
  ex_target :: string
  ex_operator :: comparison_operator
  ex_value :: pyval
  ex_upper :: "pyfloat option"
  ex_tolerance :: pyfloat

text \<open>A \<open>float | bool\<close> field.\<close>

definition float_or_bool :: "pyval \<Rightarrow> bool" where
  "float_or_bool v \<longleftrightarrow> is_number v \<or> is_bool v"

definition validate_range :: "output_expectation \<Rightarrow> unit result" where
  "validate_range e =
     (if ex_operator e = BETWEEN then
        (if is_bool (ex_value e) \<or> ex_upper e = None
         then Inl (ValueError ''between expectations require numeric value and upper'')
         else bindE (py_float (ex_value e)) (\<lambda>v.
           raise_if (case ex_upper e of None \<Rightarrow> False | Some u \<Rightarrow> fless u v)
             ''between expectation value cannot exceed upper'' okE))
      else raise_if (ex_upper e \<noteq> None) ''upper is only valid for a between expectation'' okE)"

definition expectation_ok :: "output_expectation \<Rightarrow> bool" where
  "expectation_ok e \<longleftrightarrow> is_ident (ex_target e) \<and> float_or_bool (ex_value e)
     \<and> fle (Fin 0) (ex_tolerance e) \<and> validate_range e = Inr ()"

section \<open>Faults\<close>

datatype fault_kind = FORCE | BIAS | SCALE | DRIFT | STUCK | STALE | DROPOUT | INVERT

record fault_injection =
  fi_id :: string
  fi_target :: string
  fi_kind :: fault_kind
  fi_value :: pyval
  fi_quality_target :: "string option"

definition parameters_match_kind :: "fault_injection \<Rightarrow> unit result" where
  "parameters_match_kind f =
     (let value_required = (fi_kind f \<in> {FORCE, BIAS, SCALE, DRIFT, DROPOUT}) in checks
      [raise_if (value_required \<and> fi_value f = PNone) ''fault requires value'' okE,
       raise_if (\<not> value_required \<and> fi_value f \<noteq> PNone) ''fault does not accept value'' okE,
       guarded (fi_kind f \<in> {BIAS, SCALE, DRIFT})
         (need_finite (fi_value f) ''fault value must be finite numeric''),
       raise_if (fi_quality_target f = Some (fi_target f))
         ''fault quality_target must differ from target'' okE])"

definition name_ok :: "string \<Rightarrow> bool" where
  "name_ok s \<longleftrightarrow> is_ident s \<and> length s \<le> 120"

definition fault_ok :: "fault_injection \<Rightarrow> bool" where
  "fault_ok f \<longleftrightarrow> name_ok (fi_id f) \<and> name_ok (fi_target f)
     \<and> (fi_value f = PNone \<or> float_or_bool (fi_value f))
     \<and> pred_option name_ok (fi_quality_target f) \<and> parameters_match_kind f = Inr ()"

section \<open>Qualification\<close>

datatype qualification_category =
    NORMAL_OPERATION | DISABLED_SHUTDOWN | UNOCCUPIED_SHUTDOWN | MODE_TRANSITION | OUTPUT_BOUNDS
  | ALARM_BEHAVIOR | HIGH_PRESSURE_SHUTDOWN | FIRE_SMOKE_SHUTDOWN | FREEZE_PROTECTION
  | SENSOR_INVALID | SENSOR_STALE | COMMUNICATIONS_LOSS | ACTUATOR_PROOF_FAILURE
  | EQUIPMENT_UNAVAILABLE | ALL_EQUIPMENT_UNAVAILABLE | MANUAL_OVERRIDE | POWER_CYCLE
  | LEAD_LAG_ROTATION | RECOVERY

datatype qualification_level = REQUIRED | CONDITIONAL | NOT_APPLICABLE

record qualification_requirement =
  qr_category :: qualification_category
  qr_level :: qualification_level
  qr_description :: string
  qr_fault_required :: bool
  qr_recovery_required :: bool

definition applicability_is_coherent :: "qualification_requirement \<Rightarrow> unit result" where
  "applicability_is_coherent r =
     raise_if (qr_level r = NOT_APPLICABLE \<and> (qr_fault_required r \<or> qr_recovery_required r))
       ''not-applicable qualifications cannot require fault evidence'' okE"

record qualification_profile =
  qp_id :: string
  qp_version :: string
  qp_source :: string
  qp_requirements :: "qualification_requirement list"

definition categories_are_unique :: "qualification_profile \<Rightarrow> unit result" where
  "categories_are_unique p =
     raise_if (has_duplicates (map qr_category (qp_requirements p)))
       ''qualification profile categories must be unique'' okE"

section \<open>Acceptance cases\<close>

record acceptance_phase =
  ph_name :: string
  ph_inputs :: "pyval dict"
  ph_repeat :: nat
  ph_step_seconds :: pyfloat
  ph_faults :: "fault_injection list"
  ph_expectations :: "output_expectation list"

definition fault_ids_are_unique :: "acceptance_phase \<Rightarrow> unit result" where
  "fault_ids_are_unique p =
     raise_if (has_duplicates (map fi_id (ph_faults p)))
       ''fault ids must be unique within an acceptance phase'' okE"

text \<open>\<open>Field(ge=1, le=1_000_000)\<close> and \<open>Field(gt=0.0, le=86_400.0)\<close>.\<close>

definition repeat_ok :: "nat \<Rightarrow> bool" where
  "repeat_ok n \<longleftrightarrow> 1 \<le> n \<and> n \<le> 1000000"

definition step_ok :: "pyfloat \<Rightarrow> bool" where
  "step_ok x \<longleftrightarrow> fless (Fin 0) x \<and> fle x (Fin 86400)"

definition phase_ok :: "acceptance_phase \<Rightarrow> bool" where
  "phase_ok p \<longleftrightarrow> 1 \<le> length (ph_name p) \<and> length (ph_name p) \<le> 200
     \<and> list_all (\<lambda>(_, v). float_or_bool v) (ph_inputs p)
     \<and> repeat_ok (ph_repeat p) \<and> step_ok (ph_step_seconds p)
     \<and> list_all fault_ok (ph_faults p) \<and> list_all expectation_ok (ph_expectations p)
     \<and> fault_ids_are_unique p = Inr ()"

record acceptance_case =
  ac_name :: string
  ac_inputs :: "pyval dict"
  ac_expectations :: "output_expectation list"
  ac_repeat :: nat
  ac_step_seconds :: pyfloat
  ac_faults :: "fault_injection list"
  ac_qualifications :: "qualification_category list"
  ac_timeline :: "acceptance_phase list"

definition validate_timeline_mode :: "acceptance_case \<Rightarrow> unit result" where
  "validate_timeline_mode c =
     (let timeline = (ac_timeline c \<noteq> []) in checks
      [raise_if (timeline \<and> ac_inputs c \<noteq> [])
         ''timeline acceptance cases cannot also declare top-level inputs'' okE,
       raise_if (timeline \<and> ac_faults c \<noteq> [])
         ''timeline acceptance cases declare faults on individual phases'' okE,
       raise_if (timeline \<and> (ac_repeat c \<noteq> 1 \<or> \<not> feq (ac_step_seconds c) (Fin 1)))
         ''timeline acceptance cases set repeat and step_seconds on each phase'' okE,
       raise_if (has_duplicates (map ph_name (ac_timeline c)))
         ''acceptance phase names must be unique within a case'' okE,
       raise_if (has_duplicates (map fi_id (ac_faults c)))
         ''fault ids must be unique within an acceptance case'' okE,
       raise_if (has_duplicates (ac_qualifications c))
         ''acceptance-case qualification categories must be unique'' okE])"

definition case_ok :: "acceptance_case \<Rightarrow> bool" where
  "case_ok c \<longleftrightarrow> 1 \<le> length (ac_name c) \<and> length (ac_name c) \<le> 200
     \<and> list_all (\<lambda>(_, v). float_or_bool v) (ac_inputs c)
     \<and> ac_expectations c \<noteq> [] \<and> list_all expectation_ok (ac_expectations c)
     \<and> repeat_ok (ac_repeat c) \<and> step_ok (ac_step_seconds c)
     \<and> list_all fault_ok (ac_faults c) \<and> list_all phase_ok (ac_timeline c)
     \<and> validate_timeline_mode c = Inr ()"

end
