(* ===== verification/Faults.thy ===== *)
theory Faults
  imports Specs
begin

text \<open>
  \<open>FaultInjector\<close> (\<open>src/bactalk/simulator.py\<close>): faults are validated against the
  inputs of the graph and then applied in order to a copy of the inputs.  A fault keeps
  the value captured when it became active and the time it has been active; both are
  dropped when it is no longer listed, and restarted when its signature changes.
\<close>

record fault_state =
  fs_signature :: "string \<times> fault_kind \<times> pyval \<times> string option"
  fs_captured :: pyval
  fs_elapsed :: pyfloat

record injector =
  ij_input_types :: "data_type dict"
  ij_defaults :: "pyval dict"
  ij_state :: "fault_state dict"

definition add_input :: "block \<Rightarrow> injector \<Rightarrow> injector result" where
  "add_input b ij =
     (if bkind b = NUMERIC_INPUT then
        bindE (cfg_float (bconfig b) ''default'' (Fin 0)) (\<lambda>x.
        Inr (ij\<lparr>ij_input_types := AList.update (bid b) NUMERIC (ij_input_types ij),
                ij_defaults := AList.update (bid b) (PFloat x) (ij_defaults ij)\<rparr>))
      else if bkind b = BOOLEAN_INPUT then
        Inr (ij\<lparr>ij_input_types := AList.update (bid b) BOOLEAN (ij_input_types ij),
                ij_defaults := AList.update (bid b) (PBool (cfg_bool (bconfig b) ''default'' False))
                                 (ij_defaults ij)\<rparr>)
      else Inr ij)"

definition injector_init :: "control_graph \<Rightarrow> injector result" where
  "injector_init g =
     foldE add_input (blocks g) \<lparr>ij_input_types = [], ij_defaults = [], ij_state = []\<rparr>"

definition injector_from_inputs :: "data_type dict \<Rightarrow> pyval dict \<Rightarrow> injector" where
  "injector_from_inputs types defaults =
     \<lparr>ij_input_types = types, ij_defaults = defaults, ij_state = []\<rparr>"

section \<open>\<open>_validate\<close>\<close>

definition validate_fault :: "data_type dict \<Rightarrow> fault_injection \<Rightarrow> string list \<Rightarrow> string list result" where
  "validate_fault types f targets = (case map_of types (fi_target f) of
       None \<Rightarrow> Inl (ValueError ''fault target is not a graph input'')
     | Some data_type \<Rightarrow>
         raise_if (fi_target f \<in> set targets) ''multiple active faults target input''
        (raise_if (fi_kind f \<in> {BIAS, SCALE, DRIFT} \<and> data_type \<noteq> NUMERIC)
           ''fault requires a numeric target''
        (raise_if (fi_kind f = INVERT \<and> data_type \<noteq> BOOLEAN)
           ''fault requires a boolean target''
        (raise_if (fi_kind f \<in> {FORCE, DROPOUT} \<and> is_bool (fi_value f) \<noteq> (data_type = BOOLEAN))
           ''fault value type does not match target''
        (raise_if (case fi_quality_target f of None \<Rightarrow> False
                   | Some q \<Rightarrow> map_of types q \<noteq> Some BOOLEAN)
           ''fault quality_target must be a Boolean graph input''
           (Inr (fi_target f # targets)))))))"

definition validate_faults :: "data_type dict \<Rightarrow> fault_injection list \<Rightarrow> unit result" where
  "validate_faults types fs = mapE (\<lambda>_. ()) (foldE (validate_fault types) fs [])"

section \<open>\<open>apply\<close>\<close>

definition fault_signature :: "fault_injection \<Rightarrow> string \<times> fault_kind \<times> pyval \<times> string option" where
  "fault_signature f = (fi_target f, fi_kind f, fi_value f, fi_quality_target f)"

text \<open>Tuple comparison tries identity first, so equal values compare equal even as NaN.\<close>

definition same_signature :: "string \<times> fault_kind \<times> pyval \<times> string option \<Rightarrow>
    string \<times> fault_kind \<times> pyval \<times> string option \<Rightarrow> bool" where
  "same_signature a b = (case (a, b) of ((t, k, v, q), (t', k', v', q')) \<Rightarrow>
     t = t' \<and> k = k' \<and> (v = v' \<or> py_eq v v') \<and> q = q')"

definition applied_value :: "fault_injection \<Rightarrow> pyval \<Rightarrow> fault_state \<Rightarrow> pyval result" where
  "applied_value f raw st = (case fi_kind f of
       STUCK \<Rightarrow> Inr (fs_captured st)
     | STALE \<Rightarrow> Inr (fs_captured st)
     | FORCE \<Rightarrow> if fi_value f = PNone then Inl (AssertionError ''validated fault value is missing'')
                else Inr (fi_value f)
     | DROPOUT \<Rightarrow> if fi_value f = PNone then Inl (AssertionError ''validated fault value is missing'')
                else Inr (fi_value f)
     | INVERT \<Rightarrow> Inr (PBool (\<not> truthy raw))
     | BIAS \<Rightarrow> bindE (py_float raw) (\<lambda>x. bindE (py_float (fi_value f)) (\<lambda>v. Inr (PFloat (fadd x v))))
     | SCALE \<Rightarrow> bindE (py_float raw) (\<lambda>x. bindE (py_float (fi_value f)) (\<lambda>v. Inr (PFloat (fmul x v))))
     | DRIFT \<Rightarrow> bindE (py_float raw) (\<lambda>x. bindE (py_float (fi_value f)) (\<lambda>v.
                  Inr (PFloat (fadd x (fmul v (fs_elapsed st)))))))"

definition fault_prefix :: "fault_injection \<Rightarrow> string" where
  "fault_prefix f = ''fault.'' @ fi_id f"

definition fault_evidence :: "fault_injection \<Rightarrow> pyval \<Rightarrow> pyval \<Rightarrow> fault_state \<Rightarrow> pyval dict \<Rightarrow> pyval dict" where
  "fault_evidence f raw applied st ev =
     (let p = fault_prefix f;
          ev = AList.update (p @ ''.active'') (PBool True) ev;
          ev = AList.update (p @ ''.elapsed_seconds'') (PFloat (fs_elapsed st)) ev;
          ev = AList.update (p @ ''.raw'') raw ev;
          ev = AList.update (p @ ''.applied'') applied ev;
          ev = (case fi_quality_target f of None \<Rightarrow> ev
                | Some q \<Rightarrow> AList.update (''effective.'' @ q) (PBool False) ev)
      in AList.update (''effective.'' @ fi_target f) applied ev)"

text \<open>The state a fault continues with: its own when the signature is unchanged.\<close>

definition fault_state_of :: "fault_injection \<Rightarrow> pyval \<Rightarrow> fault_state option \<Rightarrow> fault_state" where
  "fault_state_of f raw s =
     (let fresh = \<lparr>fs_signature = fault_signature f, fs_captured = raw, fs_elapsed = Fin 0\<rparr> in
      case s of None \<Rightarrow> fresh
      | Some st \<Rightarrow> if same_signature (fs_signature st) (fault_signature f) then st else fresh)"

type_synonym injection = "pyval dict \<times> pyval dict \<times> fault_state dict"

definition apply_fault :: "pyval dict \<Rightarrow> pyval dict \<Rightarrow> pyfloat \<Rightarrow> fault_injection \<Rightarrow> injection \<Rightarrow> injection result" where
  "apply_fault defaults ins step f s = (case s of (effective, ev, states) \<Rightarrow>
     bindE (dict_get defaults (fi_target f)) (\<lambda>d.
     let raw = cfg_get ins (fi_target f) d;
         st = fault_state_of f raw (map_of states (fi_id f));
         st = st\<lparr>fs_elapsed := fadd (fs_elapsed st) step\<rparr> in
     bindE (applied_value f raw st) (\<lambda>applied.
     let effective = AList.update (fi_target f) applied effective;
         effective = (case fi_quality_target f of None \<Rightarrow> effective
                      | Some q \<Rightarrow> AList.update q (PBool False) effective)
     in Inr (effective, fault_evidence f raw applied st ev, AList.update (fi_id f) st states))))"

definition drop_inactive :: "fault_injection list \<Rightarrow> fault_state dict \<Rightarrow> fault_state dict" where
  "drop_inactive fs states = filter (\<lambda>(i, _). i \<in> set (map fi_id fs)) states"

definition apply_faults :: "injector \<Rightarrow> pyval dict \<Rightarrow> fault_injection list \<Rightarrow> pyfloat \<Rightarrow>
    (pyval dict \<times> pyval dict \<times> injector) result" where
  "apply_faults ij ins fs step =
     bindE (validate_faults (ij_input_types ij) fs) (\<lambda>_.
     bindE (foldE (apply_fault (ij_defaults ij) ins step) fs (ins, [], drop_inactive fs (ij_state ij)))
       (\<lambda>(effective, ev, states). Inr (effective, ev, ij\<lparr>ij_state := states\<rparr>)))"

section \<open>What an active fault can change\<close>

definition fault_reach :: "fault_injection list \<Rightarrow> string set" where
  "fault_reach fs = set (map fi_target fs) \<union> set (List.map_filter fi_quality_target fs)"

lemma fault_reach_Cons [simp]:
  "fault_reach (f # fs) = insert (fi_target f) (set_option (fi_quality_target f)) \<union> fault_reach fs"
  by (auto simp: fault_reach_def List.map_filter_def split: option.splits)

lemma apply_fault_frame:
  assumes "apply_fault defaults ins step f (eff, ev, states) = Inr (eff', ev', states')"
  shows "k \<notin> insert (fi_target f) (set_option (fi_quality_target f)) \<Longrightarrow> map_of eff' k = map_of eff k"
    and "i \<noteq> fi_id f \<Longrightarrow> map_of states' i = map_of states i"
  using assms by (auto simp: apply_fault_def bindE_eq_Inr Let_def split: option.splits)

lemma apply_fault_loop_frame:
  "foldE (apply_fault defaults ins step) fs (eff, ev, states) = Inr (eff', ev', states') \<Longrightarrow>
     (k \<notin> fault_reach fs \<longrightarrow> map_of eff' k = map_of eff k)
     \<and> (i \<notin> set (map fi_id fs) \<longrightarrow> map_of states' i = map_of states i)"
proof (induction fs arbitrary: eff ev states)
  case (Cons f fs)
  obtain eff1 ev1 states1 where 1: "apply_fault defaults ins step f (eff, ev, states) = Inr (eff1, ev1, states1)"
    "foldE (apply_fault defaults ins step) fs (eff1, ev1, states1) = Inr (eff', ev', states')"
    using Cons.prems by (auto simp: bindE_eq_Inr)
  show ?case using Cons.IH [OF 1(2)] apply_fault_frame [OF 1(1)] by auto
qed simp

lemma map_of_drop_inactive: "map_of (drop_inactive fs states) i = (if i \<in> set (map fi_id fs) then map_of states i else None)"
  by (induction states) (auto simp: drop_inactive_def)

lemma apply_faultsE:
  assumes "apply_faults ij ins fs step = Inr (eff, ev, ij')"
  obtains states where
    "foldE (apply_fault (ij_defaults ij) ins step) fs (ins, [], drop_inactive fs (ij_state ij)) = Inr (eff, ev, states)"
    "ij' = ij\<lparr>ij_state := states\<rparr>"
  using assms by (auto simp: apply_faults_def bindE_eq_Inr)

text \<open>Applying faults changes only the values of the fault targets and of their quality
  targets: every other input reaches the interpreter as supplied.  The injector keeps no
  state for a fault that is no longer listed, so a fault that returns starts afresh, and
  its declared input types and defaults never change.\<close>

theorem faults_change_only_targets:
  assumes "apply_faults ij ins fs step = Inr (eff, ev, ij')"
  shows "(k \<notin> fault_reach fs \<longrightarrow> map_of eff k = map_of ins k)
    \<and> (i \<notin> set (map fi_id fs) \<longrightarrow> map_of (ij_state ij') i = None)
    \<and> ij_input_types ij' = ij_input_types ij \<and> ij_defaults ij' = ij_defaults ij"
proof -
  obtain states where loop: "foldE (apply_fault (ij_defaults ij) ins step) fs
      (ins, [], drop_inactive fs (ij_state ij)) = Inr (eff, ev, states)" and ij': "ij' = ij\<lparr>ij_state := states\<rparr>"
    using apply_faultsE [OF assms] by blast
  show ?thesis
    using apply_fault_loop_frame [OF loop, of k i] by (auto simp: ij' map_of_drop_inactive)
qed

definition sample_injector :: injector where
  "sample_injector = injector_from_inputs [(''oat'', NUMERIC), (''oat_ok'', BOOLEAN), (''fan'', BOOLEAN)]
     [(''oat'', PFloat (Fin 0)), (''oat_ok'', PBool True), (''fan'', PBool False)]"

definition sample_fault :: "fault_kind \<Rightarrow> pyval \<Rightarrow> fault_injection" where
  "sample_fault k v = \<lparr>fi_id = ''f'', fi_target = ''oat'', fi_kind = k, fi_value = v,
     fi_quality_target = Some ''oat_ok''\<rparr>"

definition sample_readings :: "int \<Rightarrow> pyval dict" where
  "sample_readings n = [(''oat'', PFloat (Fin (of_int n))), (''fan'', PBool True)]"

lemma faults_change_only_targets_witness:
  "\<exists>eff ev ij'. apply_faults sample_injector (sample_readings 20)
       [sample_fault FORCE (PFloat (Fin 5))] (Fin 1) = Inr (eff, ev, ij')
     \<and> map_of eff ''oat'' = Some (PFloat (Fin 5)) \<and> map_of eff ''oat_ok'' = Some (PBool False)
     \<and> map_of eff ''fan'' = map_of (sample_readings 20) ''fan''
     \<and> map_of (ij_state ij') ''g'' = None"
proof -
  obtain eff ev ij' where run: "apply_faults sample_injector (sample_readings 20)
      [sample_fault FORCE (PFloat (Fin 5))] (Fin 1) = Inr (eff, ev, ij')"
    and v: "map_of eff ''oat'' = Some (PFloat (Fin 5))" "map_of eff ''oat_ok'' = Some (PBool False)"
    by (simp add: apply_faults_def validate_faults_def validate_fault_def sample_injector_def
        injector_from_inputs_def sample_fault_def sample_readings_def raise_if_def apply_fault_def
        applied_value_def dict_get_def drop_inactive_def Let_def)
  have "map_of eff ''fan'' = map_of (sample_readings 20) ''fan''" "map_of (ij_state ij') ''g'' = None"
    using faults_change_only_targets [OF run, of "''fan''" "''g''"]
    by (simp_all add: sample_fault_def fault_reach_def List.map_filter_def)
  then show ?thesis using run v by blast
qed

section \<open>A stuck or stale sensor over time\<close>

text \<open>Successive scans with the same faults.\<close>

fun apply_run :: "injector \<Rightarrow> fault_injection list \<Rightarrow> (pyval dict \<times> pyfloat) list \<Rightarrow>
    (pyval dict list \<times> injector) result" where
  "apply_run ij fs [] = Inr ([], ij)"
| "apply_run ij fs ((ins, step) # rest) =
     bindE (apply_faults ij ins fs step) (\<lambda>(eff, _, ij). 
     bindE (apply_run ij fs rest) (\<lambda>(effs, ij). Inr (eff # effs, ij)))"

definition captured_by :: "injector \<Rightarrow> fault_injection \<Rightarrow> pyval option" where
  "captured_by ij f = (case map_of (ij_state ij) (fi_id f) of
       Some st \<Rightarrow> if same_signature (fs_signature st) (fault_signature f) then Some (fs_captured st) else None
     | None \<Rightarrow> None)"

definition raw_value :: "injector \<Rightarrow> fault_injection \<Rightarrow> pyval dict \<Rightarrow> pyval" where
  "raw_value ij f ins = cfg_get ins (fi_target f) (the (map_of (ij_defaults ij) (fi_target f)))"

lemma same_signature_refl [simp]: "same_signature s s"
  by (cases s) (simp add: same_signature_def)

lemma apply_stuck:
  assumes run: "apply_faults ij ins [f] step = Inr (eff, ev, ij')" and kind: "fi_kind f \<in> {STUCK, STALE}"
    and q: "fi_quality_target f \<noteq> Some (fi_target f)"
    and v: "v = (case captured_by ij f of Some c \<Rightarrow> c | None \<Rightarrow> raw_value ij f ins)"
  shows "map_of eff (fi_target f) = Some v" and "captured_by ij' f = Some v"
proof -
  obtain states where loop: "foldE (apply_fault (ij_defaults ij) ins step) [f]
      (ins, [], drop_inactive [f] (ij_state ij)) = Inr (eff, ev, states)" and ij': "ij' = ij\<lparr>ij_state := states\<rparr>"
    using apply_faultsE [OF run] by blast
  let ?s = "fault_state_of f (raw_value ij f ins) (map_of (drop_inactive [f] (ij_state ij)) (fi_id f))"
  let ?st = "?s\<lparr>fs_elapsed := fadd (fs_elapsed ?s) step\<rparr>"
  obtain w where w: "applied_value f (raw_value ij f ins) ?st = Inr w"
    and eff: "eff = (case fi_quality_target f of None \<Rightarrow> AList.update (fi_target f) w ins
        | Some q \<Rightarrow> AList.update q (PBool False) (AList.update (fi_target f) w ins))"
    and states: "states = AList.update (fi_id f) ?st (drop_inactive [f] (ij_state ij))"
    using loop by (auto simp: apply_fault_def bindE_eq_Inr Let_def raw_value_def)
  have cap: "fs_captured ?s = v" and sig: "same_signature (fs_signature ?s) (fault_signature f)"
    by (simp_all add: v captured_by_def fault_state_of_def map_of_drop_inactive Let_def fault_signature_def
        split: option.split)
  have "w = v" using w kind cap by (elim insertE) (simp_all add: applied_value_def)
  then show "map_of eff (fi_target f) = Some v"
    using q by (auto simp: eff split: option.splits)
  show "captured_by ij' f = Some v"
    using cap sig by (simp add: captured_by_def ij' states)
qed

lemma apply_run_captured:
  "apply_run ij [f] samples = Inr (effs, ij') \<Longrightarrow> fi_kind f \<in> {STUCK, STALE} \<Longrightarrow>
     fi_quality_target f \<noteq> Some (fi_target f) \<Longrightarrow> captured_by ij f = Some v \<Longrightarrow>
     list_all (\<lambda>eff. map_of eff (fi_target f) = Some v) effs"
proof (induction samples arbitrary: ij effs)
  case (Cons sample samples)
  obtain ins step where s: "sample = (ins, step)" by (cases sample)
  obtain eff ev ij1 effs1 where 1: "apply_faults ij ins [f] step = Inr (eff, ev, ij1)"
    "apply_run ij1 [f] samples = Inr (effs1, ij')" "effs = eff # effs1"
    using Cons.prems(1) by (auto simp: s bindE_eq_Inr)
  have v: "v = (case captured_by ij f of Some c \<Rightarrow> c | None \<Rightarrow> raw_value ij f ins)"
    using Cons.prems(4) by simp
  note st = apply_stuck [OF 1(1) Cons.prems(2,3) v]
  show ?case using Cons.IH [OF 1(2) Cons.prems(2,3) st(2)] st(1) 1(3) by simp
qed simp

text \<open>A stuck or stale sensor holds the reading of the scan in which the fault became
  active: whatever the raw input does afterwards, every scan with the fault present sees
  that first reading.\<close>

theorem stuck_fault_holds_first_reading:
  assumes "apply_run ij [f] ((ins, step) # samples) = Inr (effs, ij')"
    and "fi_kind f \<in> {STUCK, STALE}" and "fi_quality_target f \<noteq> Some (fi_target f)"
    and "map_of (ij_state ij) (fi_id f) = None"
  shows "length effs = Suc (length samples)
    \<and> list_all (\<lambda>eff. map_of eff (fi_target f) = Some (raw_value ij f ins)) effs"
proof -
  obtain eff ev ij1 effs1 where 1: "apply_faults ij ins [f] step = Inr (eff, ev, ij1)"
    "apply_run ij1 [f] samples = Inr (effs1, ij')" "effs = eff # effs1"
    using assms(1) by (auto simp: bindE_eq_Inr)
  have v: "raw_value ij f ins = (case captured_by ij f of Some c \<Rightarrow> c | None \<Rightarrow> raw_value ij f ins)"
    using assms(4) by (simp add: captured_by_def)
  have "apply_run i fs xs = Inr (ys, j) \<Longrightarrow> length ys = length xs" for i fs xs ys j
    by (induction xs arbitrary: i ys) (auto simp: bindE_eq_Inr)
  note len = this [OF 1(2)]
  note st = apply_stuck [OF 1(1) assms(2,3) v]
  show ?thesis using apply_run_captured [OF 1(2) assms(2,3) st(2)] st(1) len by (simp add: 1(3))
qed

lemma stuck_fault_holds_first_reading_witness:
  "\<exists>effs ij'. apply_run sample_injector [sample_fault STUCK PNone]
       [(sample_readings 20, Fin 1), (sample_readings 30, Fin 1)] = Inr (effs, ij')
     \<and> length effs = 2 \<and> list_all (\<lambda>eff. map_of eff ''oat'' = Some (PFloat (Fin 20))) effs"
proof -
  let ?f = "sample_fault STUCK PNone"
  obtain effs ij' where run: "apply_run sample_injector [?f]
      [(sample_readings 20, Fin 1), (sample_readings 30, Fin 1)] = Inr (effs, ij')"
    by (simp add: apply_faults_def validate_faults_def validate_fault_def sample_injector_def
        injector_from_inputs_def sample_fault_def sample_readings_def raise_if_def apply_fault_def
        applied_value_def dict_get_def drop_inactive_def Let_def)
  have "raw_value sample_injector ?f (sample_readings 20) = PFloat (Fin 20)"
    by (simp add: raw_value_def sample_fault_def sample_readings_def cfg_get_def)
  with stuck_fault_holds_first_reading [OF run] run show ?thesis
    by (simp add: sample_injector_def injector_from_inputs_def sample_fault_def)
qed

end
