(* ===== verification/Harness.thy ===== *)
theory Harness
  imports Faults
begin

text \<open>
  The acceptance harness of \<open>src/bactalk/simulator.py\<close>: comparing a value with an
  expectation, running one acceptance case on a fresh interpreter and a fresh fault
  injector, and the two coverage reports.  A report's texts (\<open>str(observed)\<close> and the
  rendered expectation) are kept as the values they render.
\<close>

section \<open>Expectations\<close>

definition compare_values :: "pyval \<Rightarrow> comparison_operator \<Rightarrow> pyval \<Rightarrow> pyfloat option \<Rightarrow> pyfloat \<Rightarrow> bool result" where
  "compare_values observed op expected upper tolerance =
     (if is_bool expected then
        Inr (case op of EQ \<Rightarrow> observed = expected | NE \<Rightarrow> observed \<noteq> expected | _ \<Rightarrow> False)
      else if is_bool observed then Inr False
      else
        bindE (py_float observed) (\<lambda>actual. bindE (py_float expected) (\<lambda>goal.
        Inr (case op of
            EQ \<Rightarrow> fle (fabs (fsub actual goal)) tolerance
          | NE \<Rightarrow> fless tolerance (fabs (fsub actual goal))
          | GT \<Rightarrow> fless goal actual
          | GTE \<Rightarrow> fle goal (fadd actual tolerance)
          | LT \<Rightarrow> fless actual goal
          | LTE \<Rightarrow> fle (fsub actual tolerance) goal
          | BETWEEN \<Rightarrow> (case upper of None \<Rightarrow> False
                        | Some u \<Rightarrow> fle (fsub goal tolerance) actual \<and> fle actual (fadd u tolerance))))))"

text \<open>What an assertion expected: an expectation of the case, or the fixed text of a built-in one.\<close>

datatype expected = Expectation output_expectation | ExpectedText string

record assertion_result =
  as_name :: string
  as_passed :: bool
  as_observed :: pyval
  as_expected :: expected

definition evaluate_expectation :: "string \<Rightarrow> pyval dict \<Rightarrow> string list \<Rightarrow> output_expectation \<Rightarrow>
    assertion_result result" where
  "evaluate_expectation label vals block_names e =
     (if ex_target e \<notin> set block_names
      then Inl (ValueError (''acceptance case references unknown block '' @ ex_target e))
      else bindE (dict_get vals (ex_target e)) (\<lambda>observed.
        mapE (\<lambda>passed. \<lparr>as_name = label @ '': '' @ ex_target e, as_passed = passed,
                        as_observed = observed, as_expected = Expectation e\<rparr>)
          (compare_values observed (ex_operator e) (ex_value e) (ex_upper e) (ex_tolerance e))))"

definition evaluate_expectations :: "string \<Rightarrow> output_expectation list \<Rightarrow> pyval dict \<Rightarrow> string list \<Rightarrow>
    assertion_result list result" where
  "evaluate_expectations label es vals block_names =
     traverseE (evaluate_expectation label vals block_names) es"

section \<open>One acceptance case\<close>

record harness =
  hn_interp :: interp
  hn_injector :: injector
  hn_values :: "pyval dict"
  hn_samples :: "pyval dict list"
  hn_scan :: nat

definition py_count :: "nat \<Rightarrow> pyval" where
  "py_count n = PFloat (rnd (of_nat n))"

text \<open>The priming evaluation with a zero step.\<close>

definition prime :: "control_graph \<Rightarrow> pyval dict \<Rightarrow> fault_injection list \<Rightarrow> harness \<Rightarrow> harness result" where
  "prime g ins fs h =
     bindE (apply_faults (hn_injector h) ins fs (Fin 0)) (\<lambda>(primed, _, ij).
     bindE (evaluate g (hn_interp h) primed (Fin 0)) (\<lambda>(_, ip).
     Inr (h\<lparr>hn_interp := ip, hn_injector := ij\<rparr>)))"

text \<open>One scan: faults, evaluation, and the sample with its leading counters.\<close>

definition scan_once :: "control_graph \<Rightarrow> pyval dict \<Rightarrow> fault_injection list \<Rightarrow> pyfloat \<Rightarrow> (nat \<Rightarrow> pyval dict) \<Rightarrow>
    harness \<Rightarrow> harness result" where
  "scan_once g ins fs step header h =
     bindE (apply_faults (hn_injector h) ins fs step) (\<lambda>(effective, evidence, ij).
     bindE (evaluate g (hn_interp h) effective step) (\<lambda>(vals, ip).
     let scan = hn_scan h + 1;
         sample = dict_update (dict_update (dict_update (header scan) ins) evidence) vals
     in Inr (h\<lparr>hn_interp := ip, hn_injector := ij, hn_values := vals,
               hn_samples := hn_samples h @ [sample], hn_scan := scan\<rparr>)))"

fun scan_repeat :: "control_graph \<Rightarrow> pyval dict \<Rightarrow> fault_injection list \<Rightarrow> pyfloat \<Rightarrow>
    (nat \<Rightarrow> nat \<Rightarrow> pyval dict) \<Rightarrow> nat \<Rightarrow> nat \<Rightarrow> harness \<Rightarrow> harness result" where
  "scan_repeat g ins fs step header i 0 h = Inr h"
| "scan_repeat g ins fs step header i (Suc n) h =
     bindE (scan_once g ins fs step (header (Suc i)) h) (scan_repeat g ins fs step header (Suc i) n)"

definition timeline_header :: "nat \<Rightarrow> nat \<Rightarrow> nat \<Rightarrow> pyval dict" where
  "timeline_header phase_index phase_step scan =
     [(''step'', py_count scan), (''phase'', py_count phase_index), (''phase_step'', py_count phase_step)]"

definition single_header :: "nat \<Rightarrow> nat \<Rightarrow> pyval dict" where
  "single_header i scan = [(''step'', py_count i)]"

fun run_phases :: "control_graph \<Rightarrow> string \<Rightarrow> nat \<Rightarrow> acceptance_phase list \<Rightarrow> pyval dict \<Rightarrow> harness \<Rightarrow>
    assertion_result list \<Rightarrow> (harness \<times> assertion_result list) result" where
  "run_phases g name i [] current h as = Inr (h, as)"
| "run_phases g name i (p # ps) current h as =
     (let current = dict_update current (ph_inputs p) in
      bindE (prime g current (ph_faults p) h) (\<lambda>h.
      bindE (scan_repeat g current (ph_faults p) (ph_step_seconds p) (timeline_header i) 0 (ph_repeat p) h) (\<lambda>h.
      bindE (evaluate_expectations (name @ '' / '' @ ph_name p) (ph_expectations p) (hn_values h) (block_ids g)) (\<lambda>new.
      run_phases g name (Suc i) ps current h (as @ new)))))"

record scenario_result =
  sr_name :: string
  sr_passed :: bool
  sr_assertions :: "assertion_result list"
  sr_samples :: "pyval dict list"

definition run_case :: "control_graph \<Rightarrow> acceptance_case \<Rightarrow> scenario_result result" where
  "run_case g c =
     bindE (injector_init g) (\<lambda>ij.
     let h = \<lparr>hn_interp = interp_init, hn_injector = ij, hn_values = [], hn_samples = [], hn_scan = 0\<rparr> in
     bindE (if ac_timeline c \<noteq> [] then run_phases g (ac_name c) 1 (ac_timeline c) [] h []
            else bindE (prime g (ac_inputs c) (ac_faults c) h) (\<lambda>h.
                 bindE (scan_repeat g (ac_inputs c) (ac_faults c) (ac_step_seconds c) single_header 0
                          (ac_repeat c) h) (\<lambda>h. Inr (h, [])))) (\<lambda>(h, as).
     bindE (evaluate_expectations (ac_name c) (ac_expectations c) (hn_values h) (block_ids g)) (\<lambda>final.
     let as = as @ final in
     Inr \<lparr>sr_name = ac_name c, sr_passed = list_all as_passed as, sr_assertions = as,
          sr_samples = hn_samples h\<rparr>)))"

section \<open>Decision coverage\<close>

definition boolean_decision_kinds :: "block_kind list" where
  "boolean_decision_kinds =
     [GREATER_THAN, GREATER_THAN_OR_EQUAL, LESS_THAN, LESS_THAN_OR_EQUAL, EQUAL, NOT_EQUAL,
      AND, OR, XOR, NOT, BOOLEAN_DELAY, ONE_SHOT, NUMERIC_CHANGED, NUMERIC_INCREASED,
      NUMERIC_DECREASED]"

definition selector_source :: "control_graph \<Rightarrow> block \<Rightarrow> string result" where
  "selector_source g b =
     (case filter (\<lambda>l. target l = bid b \<and> target_slot l = ''selector'') (links g) of
        [] \<Rightarrow> Inl (RuntimeError ''StopIteration'')
      | l # _ \<Rightarrow> Inr (source l))"

definition decisions_of :: "control_graph \<Rightarrow> (string \<times> string) list result" where
  "decisions_of g =
     bindE (traverseE (\<lambda>b. mapE (\<lambda>s. (dotted (bid b) ''selector'', s)) (selector_source g b))
              (filter (\<lambda>b. bkind b \<in> {NUMERIC_SWITCH, BOOLEAN_SWITCH}) (blocks g))) (\<lambda>switches.
     Inr (map (\<lambda>b. (bid b, bid b)) (filter (\<lambda>b. bkind b \<in> set boolean_decision_kinds) (blocks g))
          @ switches))"

text \<open>\<open>sorted({bool(sample[key]) for sample in samples if key in sample})\<close>\<close>

definition observed_outcomes :: "pyval dict list \<Rightarrow> string \<Rightarrow> bool list" where
  "observed_outcomes samples key =
     (let seen = [truthy v. sample \<leftarrow> samples, v \<leftarrow> (case map_of sample key of None \<Rightarrow> [] | Some v \<Rightarrow> [v])]
      in (if False \<in> set seen then [False] else []) @ (if True \<in> set seen then [True] else []))"

record decision_entry =
  de_decision :: string
  de_observed :: "bool list"
  de_both :: bool

record decision_report =
  dr_outcomes_observed :: nat
  dr_outcomes_possible :: nat
  dr_percent :: pyfloat
  dr_gaps :: "string list"
  dr_decisions :: "decision_entry list"

definition decision_entry_of :: "pyval dict list \<Rightarrow> string \<times> string \<Rightarrow> decision_entry" where
  "decision_entry_of samples d =
     (let observed = observed_outcomes samples (snd d) in
      \<lparr>de_decision = fst d, de_observed = observed, de_both = (length observed = 2)\<rparr>)"

definition decision_coverage :: "control_graph \<Rightarrow> scenario_result list \<Rightarrow> decision_report result" where
  "decision_coverage g results =
     bindE (decisions_of g) (\<lambda>ds.
     let samples = concat (map sr_samples results);
         entries = map (decision_entry_of samples) ds;
         observed = sum_list (map (length \<circ> de_observed) entries);
         possible = length entries * 2
     in Inr \<lparr>dr_outcomes_observed = observed, dr_outcomes_possible = possible,
             dr_percent = (if possible = 0 then Fin 100
                           else fround_digits 1 (rnd (of_nat (100 * observed) / of_nat possible))),
             dr_gaps = map de_decision (filter (\<lambda>e. \<not> de_both e) entries),
             dr_decisions = entries\<rparr>)"

section \<open>Fault coverage\<close>

fun fault_kind_value :: "fault_kind \<Rightarrow> string" where
  "fault_kind_value FORCE = ''force''"
| "fault_kind_value BIAS = ''bias''"
| "fault_kind_value SCALE = ''scale''"
| "fault_kind_value DRIFT = ''drift''"
| "fault_kind_value STUCK = ''stuck''"
| "fault_kind_value STALE = ''stale''"
| "fault_kind_value DROPOUT = ''dropout''"
| "fault_kind_value INVERT = ''invert''"

record fault_declaration =
  fd_case :: string
  fd_phase :: "string option"
  fd_fault :: fault_injection

definition case_declarations :: "acceptance_case \<Rightarrow> fault_declaration list" where
  "case_declarations c =
     (if ac_timeline c \<noteq> [] then
        [\<lparr>fd_case = ac_name c, fd_phase = Some (ph_name p), fd_fault = f\<rparr>.
           p \<leftarrow> ac_timeline c, f \<leftarrow> ph_faults p]
      else map (\<lambda>f. \<lparr>fd_case = ac_name c, fd_phase = None, fd_fault = f\<rparr>) (ac_faults c))"

fun recovery_phases :: "string \<Rightarrow> bool \<Rightarrow> acceptance_phase list \<Rightarrow> string list" where
  "recovery_phases name had_fault [] = []"
| "recovery_phases name had_fault (p # ps) =
     (if had_fault \<and> ph_faults p = [] then [name @ '' / '' @ ph_name p] else [])
     @ recovery_phases name (ph_faults p \<noteq> []) ps"

definition sorted_set :: "string list \<Rightarrow> string list" where
  "sorted_set xs = sort (remdups xs)"

record fault_report =
  fr_activation_count :: nat
  fr_fault_case_count :: nat
  fr_fault_cases_passed :: nat
  fr_kinds :: "string list"
  fr_targets :: "string list"
  fr_quality_targets :: "string list"
  fr_recovery_phases :: "string list"
  fr_declarations :: "fault_declaration list"

definition fault_coverage :: "acceptance_case list \<Rightarrow> scenario_result list \<Rightarrow> fault_report" where
  "fault_coverage cases results =
     (let declarations = concat (map case_declarations cases);
          names = remdups (map fd_case declarations);
          status = dict_of sr_name sr_passed results in
      \<lparr>fr_activation_count = length declarations,
       fr_fault_case_count = length names,
       fr_fault_cases_passed = length (filter (\<lambda>n. map_of status n = Some True) names),
       fr_kinds = sorted_set (map (fault_kind_value \<circ> fi_kind \<circ> fd_fault) declarations),
       fr_targets = sorted_set (map (fi_target \<circ> fd_fault) declarations),
       fr_quality_targets = sorted_set (concat (map (\<lambda>d.
          case fi_quality_target (fd_fault d) of None \<Rightarrow> [] | Some q \<Rightarrow> [q]) declarations)),
       fr_recovery_phases = concat (map (\<lambda>c. recovery_phases (ac_name c) False (ac_timeline c)) cases),
       fr_declarations = declarations\<rparr>)"

section \<open>What the reports mean\<close>

lemma set_observed_outcomes:
  "b \<in> set (observed_outcomes samples key) \<longleftrightarrow>
     (\<exists>sample \<in> set samples. \<exists>v. map_of sample key = Some v \<and> truthy v = b)"
proof -
  have "b \<in> set (observed_outcomes samples key) \<longleftrightarrow> b \<in> truthy ` {v. \<exists>sample \<in> set samples. map_of sample key = Some v}"
    (is "_ = (b \<in> ?seen)")
  proof -
    have "set [truthy v. sample \<leftarrow> samples, v \<leftarrow> (case map_of sample key of None \<Rightarrow> [] | Some v \<Rightarrow> [v])] = ?seen"
      by (induction samples) (auto split: option.splits)
    then show ?thesis
      by (cases b) (simp_all only: observed_outcomes_def Let_def set_append Un_iff, auto)
  qed
  then show ?thesis by auto
qed

lemma length_observed_outcomes:
  "length (observed_outcomes samples key) \<le> 2"
  "length (observed_outcomes samples key) = 2 \<longleftrightarrow> (\<forall>b. b \<in> set (observed_outcomes samples key))"
  by (simp_all add: observed_outcomes_def Let_def all_bool_eq)

lemma sum_list_le_full:
  "(\<And>x. x \<in> set xs \<Longrightarrow> f x \<le> (c :: nat)) \<Longrightarrow>
     sum_list (map f xs) \<le> length xs * c \<and>
     (sum_list (map f xs) = length xs * c \<longleftrightarrow> (\<forall>x \<in> set xs. f x = c))"
proof (induction xs)
  case (Cons x xs)
  have "f x \<le> c" and "sum_list (map f xs) \<le> length xs * c"
    and "sum_list (map f xs) = length xs * c \<longleftrightarrow> (\<forall>x \<in> set xs. f x = c)"
    using Cons by auto
  then show ?case by auto
qed simp

text \<open>The decision report never counts more outcomes than there are, reports no gap
  exactly when every possible outcome was counted, and that is the case exactly when every
  decision of the graph was seen both true and false in some sample of some case.\<close>

theorem decision_coverage_complete:
  assumes "decision_coverage g results = Inr r" and "decisions_of g = Inr ds"
  shows "dr_outcomes_observed r \<le> dr_outcomes_possible r
    \<and> (dr_gaps r = [] \<longleftrightarrow> dr_outcomes_observed r = dr_outcomes_possible r)
    \<and> (dr_gaps r = [] \<longleftrightarrow> (\<forall>(d, key) \<in> set ds. \<forall>b. \<exists>res \<in> set results. \<exists>sample \<in> set (sr_samples res).
          \<exists>v. map_of sample key = Some v \<and> truthy v = b))"
proof -
  let ?samples = "concat (map sr_samples results)"
  let ?entries = "map (decision_entry_of ?samples) ds"
  have both: "de_both (decision_entry_of ?samples d) \<longleftrightarrow> length (de_observed (decision_entry_of ?samples d)) = 2"
    and le: "length (de_observed (decision_entry_of ?samples d)) \<le> 2" for d
    by (simp_all add: decision_entry_of_def Let_def length_observed_outcomes(1))
  have r: "dr_outcomes_observed r = sum_list (map (length \<circ> de_observed) ?entries)"
      "dr_outcomes_possible r = length ?entries * 2"
      "dr_gaps r = [] \<longleftrightarrow> (\<forall>d \<in> set ds. length (de_observed (decision_entry_of ?samples d)) = 2)"
    using assms by (auto simp: decision_coverage_def Let_def filter_empty_conv both)
  have sum: "sum_list (map (length \<circ> de_observed) ?entries) \<le> length ?entries * 2 \<and>
      (sum_list (map (length \<circ> de_observed) ?entries) = length ?entries * 2 \<longleftrightarrow>
        (\<forall>e \<in> set ?entries. (length \<circ> de_observed) e = 2))"
    by (rule sum_list_le_full) (auto simp: le)
  have seen: "length (de_observed (decision_entry_of ?samples d)) = 2 \<longleftrightarrow>
      (\<forall>b. \<exists>res \<in> set results. \<exists>sample \<in> set (sr_samples res). \<exists>v. map_of sample (snd d) = Some v \<and> truthy v = b)" for d
    by (simp add: decision_entry_of_def Let_def length_observed_outcomes(2) set_observed_outcomes)
  show ?thesis
    using sum unfolding r by (auto simp: seen)
qed

text \<open>One comparison sampled on both sides.\<close>

definition sample_comparison :: control_graph where
  "sample_comparison = \<lparr>gname = ''cmp'',
     blocks = [\<lparr>bid = ''hot'', bkind = GREATER_THAN, blabel = ''hot'', bconfig = [], pos_x = 0, pos_y = 0\<rparr>],
     links = [], metadata = []\<rparr>"

definition sample_result :: "bool \<Rightarrow> scenario_result" where
  "sample_result b = \<lparr>sr_name = ''case'', sr_passed = True, sr_assertions = [],
     sr_samples = [[(''hot'', PBool b)]]\<rparr>"

lemma decision_coverage_complete_witness:
  "\<exists>r. decision_coverage sample_comparison [sample_result True, sample_result False] = Inr r
     \<and> dr_gaps r = [] \<and> dr_outcomes_observed r = 2"
proof -
  have ds: "decisions_of sample_comparison = Inr [(''hot'', ''hot'')]"
    by (simp add: decisions_of_def sample_comparison_def boolean_decision_kinds_def)
  obtain r where run: "decision_coverage sample_comparison [sample_result True, sample_result False] = Inr r"
    by (simp add: decision_coverage_def ds Let_def)
  have "dr_outcomes_possible r = 2" using run by (auto simp: decision_coverage_def ds Let_def)
  moreover have "\<forall>b. b \<or> \<not> b" by simp
  ultimately show ?thesis
    using run decision_coverage_complete [OF run ds]
    by (auto simp: sample_result_def all_bool_eq)
qed

text \<open>A Boolean input that is neither supplied nor configured reads as the number zero.
  A Boolean expectation on that value fails whichever Boolean it names, although the fault
  injector gives the same input the default \<open>False\<close>.\<close>

theorem unsupplied_boolean_input_reads_zero:
  assumes "bkind b = BOOLEAN_INPUT" and "map_of (bconfig b) ''default'' = None" and "map_of ins (bid b) = None"
    and "add_input b ij = Inr ij'"
  shows "eval_input b ins = PFloat (Fin 0)
    \<and> compare_values (eval_input b ins) EQ (PBool expected) upper tolerance = Inr False
    \<and> map_of (ij_defaults ij') (bid b) = Some (PBool False)"
proof -
  have "eval_input b ins = PFloat (Fin 0)" using assms(2,3) by (simp add: eval_input_def cfg_get_def)
  moreover have "map_of (ij_defaults ij') (bid b) = Some (PBool False)"
    using assms(1,2,4) by (auto simp: add_input_def cfg_bool_def cfg_get_def)
  ultimately show ?thesis by (simp add: compare_values_def)
qed

lemma unsupplied_boolean_input_reads_zero_witness:
  "let b = \<lparr>bid = ''run'', bkind = BOOLEAN_INPUT, blabel = ''run'', bconfig = [], pos_x = 0, pos_y = 0\<rparr> in
     compare_values (eval_input b []) EQ (PBool False) None (Fin 0) = Inr False"
proof -
  let ?b = "\<lparr>bid = ''run'', bkind = BOOLEAN_INPUT, blabel = ''run'', bconfig = [], pos_x = 0, pos_y = 0\<rparr>"
  have "add_input ?b sample_injector = Inr (sample_injector
      \<lparr>ij_input_types := AList.update ''run'' BOOLEAN (ij_input_types sample_injector),
       ij_defaults := AList.update ''run'' (PBool (cfg_bool [] ''default'' False)) (ij_defaults sample_injector)\<rparr>)"
    by (simp add: add_input_def)
  from unsupplied_boolean_input_reads_zero [OF _ _ _ this, of "[]" False None "Fin 0"] show ?thesis by (auto simp: Let_def)
qed

end
