(* ===== verification/Qualification.thy ===== *)
theory Qualification
  imports Harness
begin

text \<open>
  \<open>src/bactalk/qualification.py\<close>: the built-in safety profiles and the matrix that
  grades tagged acceptance evidence against a profile.
\<close>

section \<open>Built-in profiles\<close>

definition req :: "qualification_category \<Rightarrow> qualification_level \<Rightarrow> bool \<Rightarrow> bool \<Rightarrow> string \<Rightarrow>
    qualification_requirement" where
  "req category level fault recovery description =
     \<lparr>qr_category = category, qr_level = level, qr_description = description,
      qr_fault_required = fault, qr_recovery_required = recovery\<rparr>"

definition conditional_common :: "qualification_requirement list" where
  "conditional_common =
    [
     req SENSOR_INVALID CONDITIONAL True False
       ''Invalid sensor quality selects an explicit safe fallback and alarm policy.'',
     req SENSOR_STALE CONDITIONAL True False
       ''Stale telemetry is detected and handled without silently trusting the held value.'',
     req COMMUNICATIONS_LOSS CONDITIONAL True False
       ''Loss of the upstream/downstream communications dependency reaches a defined state.'',
     req MANUAL_OVERRIDE CONDITIONAL False False
       ''Manual and emergency overrides have explicit precedence, indication, and release behavior.'',
     req POWER_CYCLE CONDITIONAL False False
       ''Initialization after restart preserves safety and avoids unintended commands.'']"

definition profile_g36_vav_reheat :: qualification_profile where
  "profile_g36_vav_reheat =
    \<lparr>qp_id = ''terminal-vav-reheat-safety-v1'', qp_version = ''1.0.0'',
     qp_source = ''BACTalk baseline derived from the installed bounded G36 terminal pack'',
     qp_requirements =
    [
     req NORMAL_OPERATION REQUIRED False False
       ''Heating and cooling demand drive bounded terminal outputs.'',
     req UNOCCUPIED_SHUTDOWN REQUIRED False False
       ''Unoccupied mode reaches the declared minimum/safe terminal state.'',
     req MODE_TRANSITION REQUIRED False False
       ''Heating, deadband, cooling, and occupancy transitions are exercised.'',
     req OUTPUT_BOUNDS REQUIRED False False
       ''Damper and valve commands remain inside configured limits.'',
     req ACTUATOR_PROOF_FAILURE CONDITIONAL True False
       ''Damper or reheat actuator failure behavior is defined when proof/feedback exists.''] @ conditional_common\<rparr>"

definition profile_custom_ahu_safety_cooling :: qualification_profile where
  "profile_custom_ahu_safety_cooling =
    \<lparr>qp_id = ''ahu-safety-cooling-v1'', qp_version = ''1.0.0'',
     qp_source = ''BACTalk AHU safety baseline; project hazards remain contractor-authoritative'',
     qp_requirements =
    [
     req NORMAL_OPERATION REQUIRED False False
       ''Occupied enable and cooling control produce bounded commands.'',
     req UNOCCUPIED_SHUTDOWN REQUIRED False False
       ''Unoccupied mode shuts down commanded equipment.'',
     req HIGH_PRESSURE_SHUTDOWN REQUIRED False False
       ''High duct pressure overrides normal fan command and alarms.'',
     req OUTPUT_BOUNDS REQUIRED False False
       ''All analog commands remain within configured physical bounds.'',
     req FIRE_SMOKE_SHUTDOWN CONDITIONAL False False
       ''Fire/smoke interlocks drive the project-specific shutdown or smoke-control state.'',
     req FREEZE_PROTECTION CONDITIONAL False False
       ''Every specified freeze-protection stage and reset path is exercised.'',
     req ACTUATOR_PROOF_FAILURE CONDITIONAL True False
       ''Fan/valve/damper proof loss asserts the defined fallback and alarm.''] @ conditional_common\<rparr>"

definition profile_exhaust_fan_proof :: qualification_profile where
  "profile_exhaust_fan_proof =
    \<lparr>qp_id = ''exhaust-fan-proof-safety-v1'', qp_version = ''1.0.0'',
     qp_source = ''BACTalk exhaust proof pack'',
     qp_requirements =
    [
     req NORMAL_OPERATION REQUIRED False False
       ''Enable produces a fan command without a nuisance proof alarm.'',
     req ACTUATOR_PROOF_FAILURE REQUIRED True False
       ''Loss of fan proof beyond the configured delay asserts the alarm.'',
     req ALARM_BEHAVIOR REQUIRED False False
       ''Proof alarm delay, assertion, and clear behavior are explicit.'',
     req RECOVERY REQUIRED True True
       ''Restored proof clears the alarm while preserving the commanded operating state.'',
     req FIRE_SMOKE_SHUTDOWN CONDITIONAL False False
       ''Fire/smoke interlock behavior is defined when this fan participates in life safety.''] @ conditional_common\<rparr>"

definition profile_ahu_duct_static_pi :: qualification_profile where
  "profile_ahu_duct_static_pi =
    \<lparr>qp_id = ''ahu-duct-static-loop-safety-v1'', qp_version = ''1.0.0'',
     qp_source = ''BACTalk duct-static PI pack'',
     qp_requirements =
    [
     req DISABLED_SHUTDOWN REQUIRED False False
       ''Disabled loop commands zero output.'',
     req NORMAL_OPERATION REQUIRED False False
       ''Loop responds in the correct direction below and above setpoint.'',
     req OUTPUT_BOUNDS REQUIRED False False
       ''Fan-speed command remains between zero and one hundred percent.'',
     req ACTUATOR_PROOF_FAILURE CONDITIONAL True False
       ''Fan proof loss disables or limits the loop according to the project sequence.''] @ conditional_common\<rparr>"

definition profile_two_pump_availability_selector :: qualification_profile where
  "profile_two_pump_availability_selector =
    \<lparr>qp_id = ''two-pump-selector-safety-v1'', qp_version = ''1.0.0'',
     qp_source = ''BACTalk fail-closed duty/standby selector'',
     qp_requirements =
    [
     req DISABLED_SHUTDOWN REQUIRED False False
       ''Disabled system commands neither pump.'',
     req NORMAL_OPERATION REQUIRED False False
       ''Selected available lead pump runs without commanding standby.'',
     req EQUIPMENT_UNAVAILABLE REQUIRED True False
       ''Lead unavailability transfers command to the available standby pump.'',
     req ALL_EQUIPMENT_UNAVAILABLE REQUIRED True False
       ''Loss of all available pumps fails closed and asserts the no-pump alarm.'',
     req LEAD_LAG_ROTATION CONDITIONAL False False
       ''Rotation and restart persistence are exercised when runtime/cycle rotation is used.'',
     req RECOVERY CONDITIONAL True True
       ''A recovered pump returns through the declared reset/reselection policy.''] @ conditional_common\<rparr>"

definition builtin_profiles :: "(string \<times> qualification_profile) list" where
  "builtin_profiles =
    [(''G36_VAV_REHEAT'', profile_g36_vav_reheat),
     (''CUSTOM_AHU_SAFETY_COOLING'', profile_custom_ahu_safety_cooling),
     (''EXHAUST_FAN_PROOF'', profile_exhaust_fan_proof),
     (''AHU_DUCT_STATIC_PI'', profile_ahu_duct_static_pi),
     (''TWO_PUMP_AVAILABILITY_SELECTOR'', profile_two_pump_availability_selector)]"

definition builtin_qualification_profile :: "string option \<Rightarrow> qualification_profile option" where
  "builtin_qualification_profile family =
     (case family of None \<Rightarrow> None | Some f \<Rightarrow> map_of builtin_profiles f)"

section \<open>Evidence\<close>

definition case_faults :: "acceptance_case \<Rightarrow> fault_injection list" where
  "case_faults c = (if ac_timeline c \<noteq> [] then concat (map ph_faults (ac_timeline c)) else ac_faults c)"

fun has_recovery_from :: "bool \<Rightarrow> acceptance_phase list \<Rightarrow> bool" where
  "has_recovery_from seen [] = False"
| "has_recovery_from seen (p # ps) =
     (if ph_faults p \<noteq> [] then has_recovery_from True ps
      else if seen \<and> ph_expectations p \<noteq> [] then True
      else has_recovery_from seen ps)"

definition case_has_recovery :: "acceptance_case \<Rightarrow> bool" where
  "case_has_recovery c = has_recovery_from False (ac_timeline c)"

datatype requirement_status =
    Passed | NotApplicable | Failed | InsufficientFault | InsufficientRecovery
  | NeedsApplicabilityReview | Missing

definition addressed :: "requirement_status \<Rightarrow> bool" where
  "addressed s \<longleftrightarrow> s \<in> {Passed, NotApplicable}"

record matrix_row =
  mr_requirement :: qualification_requirement
  mr_status :: requirement_status
  mr_evidence_cases :: "string list"

definition tagged_cases :: "qualification_requirement \<Rightarrow> acceptance_case list \<Rightarrow> acceptance_case list" where
  "tagged_cases r cases = filter (\<lambda>c. qr_category r \<in> set (ac_qualifications c)) cases"

definition passing_cases :: "bool dict \<Rightarrow> acceptance_case list \<Rightarrow> acceptance_case list" where
  "passing_cases result_by_name cs = filter (\<lambda>c. map_of result_by_name (ac_name c) = Some True) cs"

definition requirement_status_of :: "qualification_requirement \<Rightarrow> acceptance_case list \<Rightarrow>
    acceptance_case list \<Rightarrow> requirement_status" where
  "requirement_status_of r tagged passing =
     (let has_fault = (\<exists>c \<in> set passing. case_faults c \<noteq> []);
          has_recovery = (\<exists>c \<in> set passing. case_has_recovery c) in
      if qr_level r = NOT_APPLICABLE then NotApplicable
      else if tagged \<noteq> [] \<and> passing = [] then Failed
      else if passing \<noteq> [] \<and> qr_fault_required r \<and> \<not> has_fault then InsufficientFault
      else if passing \<noteq> [] \<and> qr_recovery_required r \<and> \<not> has_recovery then InsufficientRecovery
      else if passing \<noteq> [] then Passed
      else if qr_level r = CONDITIONAL then NeedsApplicabilityReview
      else Missing)"

definition assess_requirement :: "acceptance_case list \<Rightarrow> bool dict \<Rightarrow> qualification_requirement \<Rightarrow> matrix_row" where
  "assess_requirement cases result_by_name r =
     (let tagged = tagged_cases r cases; passing = passing_cases result_by_name tagged in
      \<lparr>mr_requirement = r, mr_status = requirement_status_of r tagged passing,
       mr_evidence_cases = map ac_name passing\<rparr>)"

record qualification_matrix =
  qm_profile :: "(string \<times> string \<times> string) option"
  qm_required_passed :: nat
  qm_required_count :: nat
  qm_conditional_addressed :: nat
  qm_conditional_count :: nat
  qm_complete :: bool
  qm_requirements :: "matrix_row list"
  qm_blockers :: "qualification_category list"

definition rows_at :: "qualification_level \<Rightarrow> matrix_row list \<Rightarrow> matrix_row list" where
  "rows_at level rows = filter (\<lambda>row. qr_level (mr_requirement row) = level) rows"

text \<open>A blocker is kept as its category; the unknown-profile blocker has no category and
  shows as an incomplete matrix without a profile.\<close>

definition assess_qualification_matrix :: "string option \<Rightarrow> acceptance_case list \<Rightarrow> scenario_result list \<Rightarrow>
    qualification_profile option \<Rightarrow> qualification_matrix" where
  "assess_qualification_matrix family cases results profile =
     (case (case profile of Some p \<Rightarrow> Some p | None \<Rightarrow> builtin_qualification_profile family) of
        None \<Rightarrow>
          \<lparr>qm_profile = None, qm_required_passed = 0, qm_required_count = 0,
           qm_conditional_addressed = 0, qm_conditional_count = 0, qm_complete = False,
           qm_requirements = [], qm_blockers = []\<rparr>
      | Some selected \<Rightarrow>
          (let result_by_name = dict_of sr_name sr_passed results;
               rows = map (assess_requirement cases result_by_name) (qp_requirements selected);
               blockers = map (qr_category \<circ> mr_requirement) (filter (\<lambda>row. \<not> addressed (mr_status row)) rows);
               required = rows_at REQUIRED rows; conditional = rows_at CONDITIONAL rows in
           \<lparr>qm_profile = Some (qp_id selected, qp_version selected, qp_source selected),
            qm_required_passed = length (filter (addressed \<circ> mr_status) required),
            qm_required_count = length required,
            qm_conditional_addressed = length (filter (addressed \<circ> mr_status) conditional),
            qm_conditional_count = length conditional,
            qm_complete = (blockers = []), qm_requirements = rows, qm_blockers = blockers\<rparr>))"

section \<open>The acceptance suite\<close>

record test_report =
  tr_passed :: bool
  tr_scenarios :: "scenario_result list"
  tr_decisions :: decision_report
  tr_faults :: fault_report
  tr_matrix :: qualification_matrix

text \<open>\<open>run_generic_acceptance_suite\<close>; the family comes from the graph's metadata.\<close>

definition metadata_family :: "control_graph \<Rightarrow> string option" where
  "metadata_family g = (case map_of (metadata g) ''sequence_family'' of
       Some (PStr s) \<Rightarrow> Some s | _ \<Rightarrow> None)"

definition run_generic_acceptance_suite :: "control_graph \<Rightarrow> acceptance_case list \<Rightarrow>
    qualification_profile option \<Rightarrow> test_report result" where
  "run_generic_acceptance_suite g cases profile =
     bindE (traverseE (run_case g) cases) (\<lambda>results.
     bindE (decision_coverage g results) (\<lambda>decisions.
     Inr \<lparr>tr_passed = list_all sr_passed results, tr_scenarios = results, tr_decisions = decisions,
          tr_faults = fault_coverage cases results,
          tr_matrix = assess_qualification_matrix (metadata_family g) cases results profile\<rparr>))"

section \<open>What a complete matrix means\<close>

lemma requirement_passed:
  assumes "requirement_status_of r tagged passing = Passed"
  shows "passing \<noteq> []"
    and "qr_fault_required r \<Longrightarrow> \<exists>c \<in> set passing. case_faults c \<noteq> []"
    and "qr_recovery_required r \<Longrightarrow> \<exists>c \<in> set passing. case_has_recovery c"
  using assms by (auto simp: requirement_status_of_def Let_def split: if_splits)

lemma requirement_not_applicable:
  "requirement_status_of r tagged passing = NotApplicable \<longleftrightarrow> qr_level r = NOT_APPLICABLE"
  by (auto simp: requirement_status_of_def Let_def)

lemma has_recovery_from_iff:
  "has_recovery_from seen ps \<longleftrightarrow>
     (\<exists>us p vs. ps = us @ p # vs \<and> ph_faults p = [] \<and> ph_expectations p \<noteq> []
        \<and> (seen \<or> (\<exists>u \<in> set us. ph_faults u \<noteq> [])))"
proof (induction ps arbitrary: seen)
  case (Cons p ps)
  show ?case
  proof (cases "ph_faults p = [] \<and> seen \<and> ph_expectations p \<noteq> []")
    case True
    then show ?thesis by (auto intro!: exI [of _ "[]"])
  next
    case False
    have step: "has_recovery_from seen (p # ps) = has_recovery_from (seen \<or> ph_faults p \<noteq> []) ps"
      using False by auto
    have "(\<exists>us q vs. p # ps = us @ q # vs \<and> ph_faults q = [] \<and> ph_expectations q \<noteq> []
              \<and> (seen \<or> (\<exists>u \<in> set us. ph_faults u \<noteq> [])))
        \<longleftrightarrow> (\<exists>us q vs. ps = us @ q # vs \<and> ph_faults q = [] \<and> ph_expectations q \<noteq> []
              \<and> ((seen \<or> ph_faults p \<noteq> []) \<or> (\<exists>u \<in> set us. ph_faults u \<noteq> [])))"
      (is "?L = ?R")
    proof
      assume ?L
      then obtain us q vs where *: "p # ps = us @ q # vs" "ph_faults q = []" "ph_expectations q \<noteq> []"
        "seen \<or> (\<exists>u \<in> set us. ph_faults u \<noteq> [])" by blast
      then obtain us' where "us = p # us'" using False by (cases us) auto
      then show ?R using * by auto
    next
      assume ?R
      then obtain us q vs where "ps = us @ q # vs" "ph_faults q = []" "ph_expectations q \<noteq> []"
        "(seen \<or> ph_faults p \<noteq> []) \<or> (\<exists>u \<in> set us. ph_faults u \<noteq> [])" by blast
      then show ?L by (intro exI [of _ "p # us"] exI [of _ q] exI [of _ vs]) auto
    qed
    then show ?thesis using step Cons.IH by simp
  qed
qed simp

lemma map_of_dict_of_Some: "map_of (dict_of key val xs) k = Some v \<Longrightarrow> \<exists>x \<in> set xs. key x = k \<and> val x = v"
  by (auto simp: map_of_dict_of dest!: map_of_SomeD)

lemma passing_caseD:
  assumes "c \<in> set (passing_cases (dict_of sr_name sr_passed results) (tagged_cases r cases))"
  shows "c \<in> set cases" and "qr_category r \<in> set (ac_qualifications c)"
    and "\<exists>res \<in> set results. sr_name res = ac_name c \<and> sr_passed res"
  using assms by (auto simp: passing_cases_def tagged_cases_def dest!: map_of_dict_of_Some)

text \<open>A case that counts as evidence for a requirement: tagged with its category, and run with
  a passing result.\<close>

definition passed_evidence :: "acceptance_case list \<Rightarrow> scenario_result list \<Rightarrow> qualification_requirement \<Rightarrow>
    acceptance_case \<Rightarrow> bool" where
  "passed_evidence cases results r c \<longleftrightarrow> c \<in> set cases \<and> qr_category r \<in> set (ac_qualifications c)
     \<and> (\<exists>res \<in> set results. sr_name res = ac_name c \<and> sr_passed res)"

text \<open>A fault phase followed later by a fault-free phase that checks something.\<close>

definition shows_recovery :: "acceptance_phase list \<Rightarrow> bool" where
  "shows_recovery ps \<longleftrightarrow> (\<exists>us p vs. ps = us @ p # vs \<and> ph_faults p = [] \<and> ph_expectations p \<noteq> []
     \<and> (\<exists>u \<in> set us. ph_faults u \<noteq> []))"

lemma case_has_recovery_iff: "case_has_recovery c \<longleftrightarrow> shows_recovery (ac_timeline c)"
  by (simp add: case_has_recovery_def has_recovery_from_iff shows_recovery_def)

lemma complete_row:
  assumes "qm_complete (assess_qualification_matrix family cases results (Some p))"
    and "r \<in> set (qp_requirements p)"
  shows "addressed (mr_status (assess_requirement cases (dict_of sr_name sr_passed results) r))"
  using assms by (auto simp: assess_qualification_matrix_def Let_def filter_empty_conv)

text \<open>C30: a complete qualification matrix is backed by evidence.  Every applicable requirement
  of the profile has a tagged acceptance case that ran and passed; a requirement that asks
  for a fault has one that injects a fault, and one that asks for recovery has one whose
  timeline checks a fault-free phase after a faulted phase.\<close>

theorem complete_matrix_evidence:
  assumes complete: "qm_complete (assess_qualification_matrix family cases results (Some p))"
    and r: "r \<in> set (qp_requirements p)" and app: "qr_level r \<noteq> NOT_APPLICABLE"
  shows "(\<exists>c. passed_evidence cases results r c)
    \<and> (qr_fault_required r \<longrightarrow> (\<exists>c. passed_evidence cases results r c \<and> case_faults c \<noteq> []))
    \<and> (qr_recovery_required r \<longrightarrow>
        (\<exists>c. passed_evidence cases results r c \<and> shows_recovery (ac_timeline c)))"
proof -
  let ?passing = "passing_cases (dict_of sr_name sr_passed results) (tagged_cases r cases)"
  have "requirement_status_of r (tagged_cases r cases) ?passing \<in> {Passed, NotApplicable}"
    using complete_row [OF complete r] by (simp add: addressed_def assess_requirement_def Let_def)
  then have "requirement_status_of r (tagged_cases r cases) ?passing = Passed"
    using app requirement_not_applicable [of r "tagged_cases r cases" ?passing] by blast
  note passed = requirement_passed [OF this]
  have ev: "passed_evidence cases results r c" if "c \<in> set ?passing" for c
    using passing_caseD [OF that] by (simp add: passed_evidence_def)
  show ?thesis
    using passed ev by (fastforce simp: case_has_recovery_iff neq_Nil_conv)
qed

definition sample_recovery_case :: acceptance_case where
  "sample_recovery_case =
     (let e = \<lparr>ex_target = ''out'', ex_operator = EQ, ex_value = PBool True, ex_upper = None, ex_tolerance = Fin 0\<rparr>;
          phase = (\<lambda>n fs. \<lparr>ph_name = n, ph_inputs = [], ph_repeat = 1, ph_step_seconds = Fin 1,
                           ph_faults = fs, ph_expectations = [e]\<rparr>) in
      \<lparr>ac_name = ''recover'', ac_inputs = [], ac_expectations = [e], ac_repeat = 1, ac_step_seconds = Fin 1,
       ac_faults = [], ac_qualifications = [RECOVERY],
       ac_timeline = [phase ''fault'' [sample_fault STUCK PNone], phase ''clear'' []]\<rparr>)"

definition sample_profile :: qualification_profile where
  "sample_profile = \<lparr>qp_id = ''p'', qp_version = ''1'', qp_source = ''s'',
     qp_requirements = [\<lparr>qr_category = RECOVERY, qr_level = REQUIRED, qr_description = ''recovers'',
       qr_fault_required = True, qr_recovery_required = True\<rparr>]\<rparr>"

lemma complete_matrix_evidence_witness:
  "\<exists>c. passed_evidence [sample_recovery_case]
         [\<lparr>sr_name = ''recover'', sr_passed = True, sr_assertions = [], sr_samples = []\<rparr>]
         (hd (qp_requirements sample_profile)) c \<and> shows_recovery (ac_timeline c)"
proof -
  let ?results = "[\<lparr>sr_name = ''recover'', sr_passed = True, sr_assertions = [], sr_samples = []\<rparr>]"
  have complete: "qm_complete (assess_qualification_matrix None [sample_recovery_case] ?results (Some sample_profile))"
    by (simp add: assess_qualification_matrix_def Let_def sample_profile_def assess_requirement_def
        tagged_cases_def passing_cases_def sample_recovery_case_def dict_of_def requirement_status_of_def
        case_faults_def case_has_recovery_def addressed_def)
  show ?thesis
    using complete_matrix_evidence [OF complete, of "hd (qp_requirements sample_profile)"]
    by (simp add: sample_profile_def)
qed

end
