(* ===== verification/Jobs.thy ===== *)
theory Jobs
  imports Qualification
begin

text \<open>
  The job contract of \<open>src/bactalk/domain.py\<close>: BACnet scans, points, virtual actuators,
  deliverables, and \<open>JobSpec.unique_points\<close>, which checks all references between them.
  A validator that normalises a field returns the updated object.
\<close>

section \<open>Text helpers\<close>

definition py_space :: "char \<Rightarrow> bool" where
  "py_space c \<longleftrightarrow> (let n = of_char c :: nat in n \<in> {9, 10, 11, 12, 13, 28, 29, 30, 31, 32, 133, 160})"

definition strip :: "string \<Rightarrow> string" where
  "strip s = rev (dropWhile py_space (rev (dropWhile py_space s)))"

definition removeprefix :: "string \<Rightarrow> string \<Rightarrow> string" where
  "removeprefix p s = (if take (length p) s = p then drop (length p) s else s)"

fun split_on :: "char \<Rightarrow> string \<Rightarrow> string list" where
  "split_on sep [] = [[]]"
| "split_on sep (c # cs) =
     (if c = sep then [] # split_on sep cs
      else (case split_on sep cs of [] \<Rightarrow> [[c]] | w # ws \<Rightarrow> (c # w) # ws))"

definition digit_value :: "char \<Rightarrow> int" where
  "digit_value c = of_char c - 48"

definition digits_value :: "string \<Rightarrow> int" where
  "digits_value s = foldl (\<lambda>n c. 10 * n + digit_value c) 0 s"

text \<open>\<open>^[a-z-]+,[0-9]+$\<close>\<close>

definition object_id_ok :: "string \<Rightarrow> bool" where
  "object_id_ok s = (case split_on (CHR '','') s of
       [k, n] \<Rightarrow> k \<noteq> [] \<and> n \<noteq> [] \<and> list_all (\<lambda>c. ascii_lower c \<or> c = CHR ''-'') k \<and> list_all ascii_digit n
     | _ \<Rightarrow> False)"

text \<open>\<open>(?:station:\|)?slot:/[A-Za-z0-9_$./-]+\<close>, and the path segments behind it.\<close>

definition ord_char :: "char \<Rightarrow> bool" where
  "ord_char c \<longleftrightarrow> ident_char c \<or> c \<in> set ''$./-''"

definition slot_path :: "string \<Rightarrow> string" where
  "slot_path s = removeprefix ''slot:/'' (removeprefix ''station:|'' s)"

definition ord_ok :: "string \<Rightarrow> bool" where
  "ord_ok s \<longleftrightarrow> (let t = removeprefix ''station:|'' s in
     take 6 t = ''slot:/'' \<and> drop 6 t \<noteq> [] \<and> list_all ord_char (drop 6 t))"

definition normalize_ord :: "string \<Rightarrow> string \<Rightarrow> string result" where
  "normalize_ord msg s =
     (let normalized = strip s in
      raise_if (\<not> ord_ok normalized) (msg @ '' must be an exact station slot ord without queries or escapes'')
     (raise_if (\<exists>part \<in> set (split_on (CHR ''/'') (slot_path normalized)). part \<in> {'''', ''.'', ''..''})
        (msg @ '' contains an invalid component path segment'')
        (Inr (if take 9 normalized = ''station:|'' then normalized else ''station:|'' @ normalized))))"

section \<open>BACnet scans\<close>

record bacnet_object =
  bo_id :: string
  bo_data_type :: data_type
  bo_writable :: bool

datatype transport = BacnetIp | Mstp

record bacnet_device =
  bd_instance :: int
  bd_transport :: transport
  bd_network_number :: "int option"
  bd_mac_address :: "int option"
  bd_objects :: "bacnet_object list"

definition unique_objects :: "bacnet_device \<Rightarrow> unit result" where
  "unique_objects d =
     raise_if (has_duplicates (map bo_id (bd_objects d)))
       ''BACnet object ids must be unique within a device''
       (if bd_transport d = Mstp then
          raise_if (bd_network_number d = None \<or> bd_mac_address d = None)
            ''MS/TP devices require network_number and mac_address'' okE
        else raise_if (bd_network_number d \<noteq> None \<or> bd_mac_address d \<noteq> None)
            ''network_number and mac_address are only valid for MS/TP devices'' okE)"

definition unique_devices :: "bacnet_device list \<Rightarrow> unit result" where
  "unique_devices ds =
     raise_if (has_duplicates (map bd_instance ds)) ''BACnet device instances must be unique'' okE"

section \<open>Points\<close>

datatype point_role = SENSOR | SETPOINT | COMMAND | STATUS | ALARM

record point_spec =
  pt_name :: string
  pt_data_type :: data_type
  pt_role :: point_role
  pt_default :: pyval
  pt_required :: bool
  pt_device_instance :: "int option"
  pt_bacnet_object :: "string option"
  pt_niagara_ord :: "string option"
  pt_write_priority :: "int option"

definition object_instance :: "string \<Rightarrow> int" where
  "object_instance s = digits_value (last (split_on (CHR '','') s))"

definition point_is_valid :: "point_spec \<Rightarrow> point_spec result" where
  "point_is_valid p =
     bindE (case pt_bacnet_object p of
              None \<Rightarrow> okE
            | Some obj \<Rightarrow> raise_if (4194302 < object_instance obj)
                            ''BACnet object instance exceeds 4,194,302'' okE) (\<lambda>_.
     bindE (case pt_niagara_ord p of
              None \<Rightarrow> Inr p
            | Some x \<Rightarrow> mapE (\<lambda>x'. p\<lparr>pt_niagara_ord := Some x'\<rparr>) (normalize_ord ''niagara_ord'' x)) (\<lambda>p.
     if pt_write_priority p = None then Inr p
     else raise_if (pt_niagara_ord p = None) ''niagara_write_priority requires niagara_ord''
         (raise_if (pt_role p \<notin> {COMMAND, ALARM})
            ''niagara_write_priority is only valid for command or alarm points'' (Inr p))))"

section \<open>Virtual actuators\<close>

datatype actuator_kind = Valve | Damper

record actuator_spec =
  va_id :: string
  va_kind :: actuator_kind
  va_command_point :: string
  va_position_point :: string
  va_open_proof_point :: "string option"
  va_closed_proof_point :: "string option"
  va_stroke_open_seconds :: pyfloat
  va_stroke_close_seconds :: pyfloat
  va_minimum_position :: pyfloat
  va_maximum_position :: pyfloat
  va_fail_position :: pyfloat
  va_command_deadband :: pyfloat
  va_proof_timeout_seconds :: pyfloat
  va_open_proof_threshold :: pyfloat
  va_closed_proof_threshold :: pyfloat
  va_leakage_percent :: pyfloat
  va_flow_exponent :: pyfloat

definition option_list :: "'a option \<Rightarrow> 'a list" where
  "option_list x = (case x of None \<Rightarrow> [] | Some v \<Rightarrow> [v])"

definition bound_points :: "actuator_spec \<Rightarrow> string list" where
  "bound_points a = [va_command_point a, va_position_point a]
     @ option_list (va_open_proof_point a) @ option_list (va_closed_proof_point a)"

definition physical_contract_is_coherent :: "actuator_spec \<Rightarrow> unit result" where
  "physical_contract_is_coherent a =
     raise_if (fle (va_maximum_position a) (va_minimum_position a))
       ''virtual actuator minimum_position must be below maximum_position''
    (raise_if (\<not> (fle (va_minimum_position a) (va_fail_position a)
                  \<and> fle (va_fail_position a) (va_maximum_position a)))
       ''virtual actuator fail_position must be inside its travel range''
    (raise_if (fle (va_open_proof_threshold a) (va_closed_proof_threshold a))
       ''closed proof threshold must be below open proof threshold''
    (raise_if (has_duplicates (bound_points a))
       ''virtual actuator point bindings must be distinct'' okE)))"

text \<open>The declared field ranges, \<open>gt\<close> or \<open>ge\<close> below and \<open>le\<close> above.\<close>

definition in_range :: "pyfloat \<Rightarrow> pyfloat \<Rightarrow> pyfloat \<Rightarrow> bool" where
  "in_range lo hi x \<longleftrightarrow> fle lo x \<and> fle x hi"

definition actuator_ranges :: "actuator_spec \<Rightarrow> bool" where
  "actuator_ranges a \<longleftrightarrow>
     fless (Fin 0) (va_stroke_open_seconds a) \<and> fle (va_stroke_open_seconds a) (Fin 3600)
     \<and> fless (Fin 0) (va_stroke_close_seconds a) \<and> fle (va_stroke_close_seconds a) (Fin 3600)
     \<and> in_range (Fin 0) (Fin 100) (va_minimum_position a)
     \<and> in_range (Fin 0) (Fin 100) (va_maximum_position a)
     \<and> in_range (Fin 0) (Fin 100) (va_fail_position a)
     \<and> in_range (Fin 0) (Fin 25) (va_command_deadband a)
     \<and> in_range (Fin 0) (Fin 86400) (va_proof_timeout_seconds a)
     \<and> in_range (Fin 0) (Fin 100) (va_open_proof_threshold a)
     \<and> in_range (Fin 0) (Fin 100) (va_closed_proof_threshold a)
     \<and> in_range (Fin 0) (Fin 100) (va_leakage_percent a)
     \<and> fless (Fin 0) (va_flow_exponent a) \<and> fle (va_flow_exponent a) (Fin 10)"

definition actuator_ok :: "actuator_spec \<Rightarrow> bool" where
  "actuator_ok a \<longleftrightarrow> name_ok (va_id a) \<and> list_all name_ok (bound_points a)
     \<and> actuator_ranges a \<and> physical_contract_is_coherent a = Inr ()"

section \<open>Deliverables\<close>

datatype alarm_trigger = BooleanTrue | BooleanFalse | Above | Below | OutsideRange

record alarm_requirement =
  al_point :: string
  al_routing :: "string list"
  al_trigger :: alarm_trigger
  al_high_limit :: "pyfloat option"
  al_low_limit :: "pyfloat option"
  al_deadband :: pyfloat

definition boolean_trigger :: "alarm_trigger \<Rightarrow> bool" where
  "boolean_trigger t \<longleftrightarrow> t \<in> {BooleanTrue, BooleanFalse}"

definition alarm_is_valid :: "alarm_requirement \<Rightarrow> unit result" where
  "alarm_is_valid a =
     raise_if (has_duplicates (al_routing a)) ''alarm routing destinations must be unique''
       (case al_trigger a of
          Above \<Rightarrow> raise_if (al_high_limit a = None \<or> al_low_limit a \<noteq> None)
                     ''above alarms require high_limit only'' okE
        | Below \<Rightarrow> raise_if (al_low_limit a = None \<or> al_high_limit a \<noteq> None)
                     ''below alarms require low_limit only'' okE
        | OutsideRange \<Rightarrow>
            (case (al_low_limit a, al_high_limit a) of
               (Some lo, Some hi) \<Rightarrow> raise_if (fle hi lo) ''alarm low_limit must be below high_limit'' okE
             | _ \<Rightarrow> Inl (ValueError ''outside_range alarms require low_limit and high_limit''))
        | _ \<Rightarrow> raise_if (al_high_limit a \<noteq> None \<or> al_low_limit a \<noteq> None
                        \<or> \<not> feq (al_deadband a) (Fin 0))
                ''boolean alarms cannot declare numeric limits or deadband'' okE)"

record weekly_period =
  wp_day :: nat
  wp_start :: string
  wp_end :: string
  wp_value :: pyval

text \<open>\<open>time.fromisoformat\<close> on \<open>HH:MM\<close> text matching \<open>^[0-2][0-9]:[0-5][0-9]$\<close>, in minutes.\<close>

definition parse_time :: "string \<Rightarrow> nat result" where
  "parse_time s = (case s of
       [h1, h2, _, m1, m2] \<Rightarrow>
         (let h = nat (digits_value [h1, h2]); m = nat (digits_value [m1, m2]) in
          if h \<le> 23 then Inr (60 * h + m)
          else Inl (ValueError ''schedule times must be valid 24-hour HH:MM values''))
     | _ \<Rightarrow> Inl (ValueError ''schedule times must be valid 24-hour HH:MM values''))"

definition period_is_forward :: "weekly_period \<Rightarrow> unit result" where
  "period_is_forward p =
     bindE (parse_time (wp_start p)) (\<lambda>start. bindE (parse_time (wp_end p)) (\<lambda>finish.
     raise_if (finish \<le> start) ''schedule period end must be later than start'' okE))"

record schedule_requirement =
  sc_id :: string
  sc_output_point :: string
  sc_timezone :: string
  sc_default_value :: pyval
  sc_weekly_periods :: "weekly_period list"

text \<open>\<open>zip(ordered, ordered[1:])\<close>: the first neighbouring pair that overlaps.\<close>

fun neighbours_overlap :: "weekly_period list \<Rightarrow> bool" where
  "neighbours_overlap (p # q # ps) \<longleftrightarrow> wp_start q < wp_end p \<or> neighbours_overlap (q # ps)"
| "neighbours_overlap _ \<longleftrightarrow> False"

definition day_periods :: "nat \<Rightarrow> weekly_period list \<Rightarrow> weekly_period list" where
  "day_periods d ps = filter (\<lambda>p. wp_day p = d) ps"

definition schedule_is_valid :: "(string \<Rightarrow> bool) \<Rightarrow> schedule_requirement \<Rightarrow> unit result" where
  "schedule_is_valid zone_exists s =
     raise_if (\<not> zone_exists (sc_timezone s)) ''unknown IANA timezone''
    (raise_if (\<exists>p \<in> set (sc_weekly_periods s). is_bool (sc_default_value s) \<noteq> is_bool (wp_value p))
       ''schedule period values must match the default value type''
    (raise_if (\<exists>p \<in> set (sc_weekly_periods s).
                 neighbours_overlap (sort_key wp_start (day_periods (wp_day p) (sc_weekly_periods s))))
       ''schedule periods overlap'' okE))"

datatype history_mode = FixedInterval | Cov

record history_requirement =
  hr_point :: string
  hr_mode :: history_mode
  hr_interval_seconds :: "int option"
  hr_cov_tolerance :: "pyfloat option"

definition history_is_valid :: "history_requirement \<Rightarrow> unit result" where
  "history_is_valid h = checks
     [raise_if (hr_mode h = FixedInterval \<and> (hr_interval_seconds h = None \<or> hr_cov_tolerance h \<noteq> None))
        ''fixed_interval history requires interval_seconds only'' okE,
      raise_if (hr_mode h = Cov \<and> (hr_cov_tolerance h = None \<or> hr_interval_seconds h \<noteq> None))
        ''cov history requires cov_tolerance only'' okE]"

record graphics_view =
  gv_id :: string
  gv_points :: "string list"

definition graphics_is_valid :: "graphics_view \<Rightarrow> unit result" where
  "graphics_is_valid v =
     raise_if (has_duplicates (gv_points v)) ''graphics view points must be unique'' okE"

text \<open>The shop profile: the station folder is a relative component path, and the two ords are
  normalised as those of a point.\<close>

datatype template_mode = CompareOnly | InsertMode | ReplaceMode

record shop_profile =
  sp_station_template_mode :: template_mode
  sp_station_folder :: "string option"
  sp_site_ord :: "string option"
  sp_equipment_ord :: "string option"

definition folder_char :: "char \<Rightarrow> bool" where
  "folder_char c \<longleftrightarrow> ident_char c \<or> c \<in> set ''$.-''"

definition normalize_folder :: "string \<Rightarrow> string result" where
  "normalize_folder s =
     (let folder = map (\<lambda>c. if c = CHR 0x5C then CHR ''/'' else c) s; parts = split_on (CHR ''/'') folder in
      raise_if (''..'' \<in> set parts \<or> hd s \<in> {CHR ''/'', CHR 0x5C}
                \<or> (\<exists>part \<in> set parts. part = [] \<or> \<not> list_all folder_char part))
        ''station_folder must be a relative Niagara component path'' (Inr folder))"

definition normalize_opt :: "(string \<Rightarrow> string result) \<Rightarrow> string option \<Rightarrow> string option result" where
  "normalize_opt f x = (case x of None \<Rightarrow> Inr None | Some s \<Rightarrow> mapE Some (f s))"

definition station_folder_is_relative :: "shop_profile \<Rightarrow> shop_profile result" where
  "station_folder_is_relative p =
     bindE (if sp_station_folder p = Some [] then Inr (Some [])
            else normalize_opt normalize_folder (sp_station_folder p)) (\<lambda>folder.
     bindE (normalize_opt (normalize_ord ''niagara_site_ord'') (sp_site_ord p)) (\<lambda>site.
     bindE (normalize_opt (normalize_ord ''niagara_equipment_ord'') (sp_equipment_ord p)) (\<lambda>equipment.
     Inr (p\<lparr>sp_station_folder := folder, sp_site_ord := site, sp_equipment_ord := equipment\<rparr>))))"

record deliverables =
  dl_shop_profile :: "shop_profile option"
  dl_alarms :: "alarm_requirement list"
  dl_schedules :: "schedule_requirement list"
  dl_histories :: "history_requirement list"
  dl_graphics :: "graphics_view list"

definition identifiers_are_unique :: "deliverables \<Rightarrow> unit result" where
  "identifiers_are_unique d = checks
     (map (\<lambda>(label, values). raise_if (has_duplicates values) (label @ '' must be unique'') okE)
        [(''alarm points'', map al_point (dl_alarms d)),
         (''schedule ids'', map sc_id (dl_schedules d)),
         (''schedule output points'', map sc_output_point (dl_schedules d)),
         (''history points'', map hr_point (dl_histories d)),
         (''graphics ids'', map gv_id (dl_graphics d))])"

section \<open>The job\<close>

record sequence_spec =
  sq_family :: string
  sq_parameters :: "pyval dict"
  sq_library :: "string option"
  sq_controller_id :: "string option"

definition library_reference_is_complete :: "sequence_spec \<Rightarrow> unit result" where
  "library_reference_is_complete s =
     (let expected = (if sq_library s = Some ''plant_controls'' then Some ''LBNL_PLANT_CONTROLLER''
                      else if sq_library s = Some ''g36'' then Some ''LBNL_G36_CONTROLLER'' else None) in
      raise_if ((sq_library s = None) \<noteq> (sq_controller_id s = None))
        ''sequence library and controller_id must be supplied together''
     (raise_if (expected \<noteq> None \<and> Some (sq_family s) \<noteq> expected)
        ''library jobs must use the sequence family of the library'' okE))"

record job_spec =
  jb_site :: string
  jb_equipment_name :: string
  jb_sequence :: sequence_spec
  jb_control_graph :: "control_graph option"
  jb_points :: "point_spec list"
  jb_acceptance_tests :: "acceptance_case list"
  jb_qualification_profile :: "qualification_profile option"
  jb_deliverables :: deliverables
  jb_bacnet_scan :: "bacnet_device list option"
  jb_virtual_actuators :: "actuator_spec list"

type_synonym point_table = "point_spec dict"

definition point_table :: "point_spec list \<Rightarrow> point_table" where
  "point_table ps = dict_of pt_name (\<lambda>p. p) ps"

definition check_actuator :: "point_table \<Rightarrow> actuator_spec \<Rightarrow> unit result" where
  "check_actuator points a = (case (map_of points (va_command_point a), map_of points (va_position_point a)) of
       (Some command, Some position) \<Rightarrow>
         raise_if (pt_data_type command \<noteq> NUMERIC \<or> pt_role command \<noteq> COMMAND)
           ''virtual actuator command point must be a numeric command''
        (raise_if (pt_data_type position \<noteq> NUMERIC \<or> pt_role position \<notin> {SENSOR, STATUS})
           ''virtual actuator position point must be numeric sensor/status''
        (raise_if (\<exists>name \<in> set (option_list (va_open_proof_point a) @ option_list (va_closed_proof_point a)).
                     case map_of points name of None \<Rightarrow> True
                     | Some proof \<Rightarrow> pt_data_type proof \<noteq> BOOLEAN \<or> pt_role proof \<notin> {SENSOR, STATUS})
           ''virtual actuator proof point must be a Boolean sensor/status'' okE))
     | _ \<Rightarrow> Inl (ValueError ''virtual actuator references an unknown command or position point''))"

definition check_alarm :: "point_table \<Rightarrow> alarm_requirement \<Rightarrow> unit result" where
  "check_alarm points a = (case map_of points (al_point a) of
       None \<Rightarrow> Inl (ValueError ''alarm requirement references unknown point'')
     | Some p \<Rightarrow>
         raise_if (pt_role p \<noteq> ALARM) ''alarm requirement point must have alarm role''
        (raise_if (pt_data_type p = BOOLEAN \<and> \<not> boolean_trigger (al_trigger a))
           ''boolean alarm point requires a boolean trigger''
        (raise_if (pt_data_type p = NUMERIC \<and> boolean_trigger (al_trigger a))
           ''numeric alarm point requires numeric limits'' okE)))"

definition check_schedule :: "point_table \<Rightarrow> schedule_requirement \<Rightarrow> unit result" where
  "check_schedule points s = (case map_of points (sc_output_point s) of
       None \<Rightarrow> Inl (ValueError ''schedule references unknown point'')
     | Some p \<Rightarrow>
         raise_if ((pt_data_type p = BOOLEAN) \<noteq> is_bool (sc_default_value s))
           ''schedule default must match the point type''
        (raise_if (\<exists>w \<in> set (sc_weekly_periods s). (pt_data_type p = BOOLEAN) \<noteq> is_bool (wp_value w))
           ''schedule period values must match the point type'' okE))"

definition check_references :: "point_table \<Rightarrow> deliverables \<Rightarrow> unit result" where
  "check_references points d = checks
     (map (\<lambda>h. raise_if (map_of points (hr_point h) = None)
             ''history requirement references unknown point'' okE) (dl_histories d)
      @ map (\<lambda>v. raise_if (\<exists>n \<in> set (gv_points v). map_of points n = None)
             ''graphics view references unknown points'' okE) (dl_graphics d))"

text \<open>The BACnet binding of a point; an unspecified device instance is filled in.\<close>

definition bind_point :: "bacnet_device list \<Rightarrow> point_spec \<Rightarrow> point_spec result" where
  "bind_point devices p = (case pt_bacnet_object p of
       None \<Rightarrow> Inr p
     | Some obj \<Rightarrow>
         (let sole = (case devices of [d] \<Rightarrow> Some d | _ \<Rightarrow> None);
              device = (case pt_device_instance p of
                          None \<Rightarrow> sole
                        | Some n \<Rightarrow> (case filter (\<lambda>d. bd_instance d = n) devices of
                                       [] \<Rightarrow> sole | d # _ \<Rightarrow> Some d)) in
          case device of
            None \<Rightarrow> Inl (ValueError ''point has no matching BACnet device'')
          | Some d \<Rightarrow>
              (let p = (if pt_device_instance p = None then p\<lparr>pt_device_instance := Some (bd_instance d)\<rparr> else p) in
               case filter (\<lambda>ob. bo_id ob = obj) (bd_objects d) of
                 [] \<Rightarrow> Inl (ValueError ''point references missing BACnet object'')
               | ob # _ \<Rightarrow>
                   raise_if (bo_data_type ob \<noteq> pt_data_type p) ''point type does not match BACnet object''
                  (raise_if (pt_role p = COMMAND \<and> \<not> bo_writable ob)
                     ''command point maps to a read-only object'' (Inr p)))))"

definition unique_points :: "job_spec \<Rightarrow> job_spec result" where
  "unique_points job =
     (let points = point_table (jb_points job); acts = jb_virtual_actuators job; d = jb_deliverables job in
      raise_if (has_duplicates (map pt_name (jb_points job))) ''point names must be unique''
     (raise_if (has_duplicates (map va_id acts)) ''virtual actuator ids must be unique''
     (raise_if (has_duplicates (map va_command_point acts)) ''virtual actuator command points must be unique''
     (raise_if (has_duplicates (map va_position_point acts)) ''virtual actuator position points must be unique''
     (bindE (checks (map (check_actuator points) acts)) (\<lambda>_.
      bindE (checks (map (check_alarm points) (dl_alarms d))) (\<lambda>_.
      bindE (checks (map (check_schedule points) (dl_schedules d))) (\<lambda>_.
      bindE (check_references points d) (\<lambda>_.
      case jb_bacnet_scan job of
        None \<Rightarrow> Inr job
      | Some devices \<Rightarrow> mapE (\<lambda>ps. job\<lparr>jb_points := ps\<rparr>) (traverseE (bind_point devices) (jb_points job)))))))))))"

section \<open>Accepted schedules\<close>

text \<open>The pattern of the two time fields.\<close>

definition time_shape :: "string \<Rightarrow> bool" where
  "time_shape s \<longleftrightarrow> (case s of
       [h1, h2, c, m1, m2] \<Rightarrow> list_all ascii_digit [h1, h2, m1, m2] \<and> c = CHR '':'' \<and> digit_value m1 \<le> 5
     | _ \<Rightarrow> False)"

definition period_ok :: "weekly_period \<Rightarrow> bool" where
  "period_ok p \<longleftrightarrow> time_shape (wp_start p) \<and> time_shape (wp_end p) \<and> period_is_forward p = Inr ()"

lemma of_char_int: "(of_char c :: int) = int (of_char c)"
  by (rule of_nat_of_char [symmetric])

lemma digit_bounds: "ascii_digit c \<Longrightarrow> 0 \<le> digit_value c \<and> digit_value c \<le> 9"
  by (simp add: ascii_digit_def digit_value_def Let_def of_char_int)

lemma digit_order:
  "c < d \<longleftrightarrow> digit_value c < digit_value d" "c = d \<longleftrightarrow> digit_value c = digit_value d"
  by (simp_all add: digit_value_def less_char_def of_char_int)

lemma parse_time_order:
  assumes "time_shape s" "time_shape t" "parse_time s = Inr m" "parse_time t = Inr n"
  shows "s < t \<longleftrightarrow> m < n"
proof -
  obtain h1 h2 m1 m2 where s: "s = [h1, h2, CHR '':'', m1, m2]" "ascii_digit h1" "ascii_digit h2"
    "ascii_digit m1" "ascii_digit m2" "digit_value m1 \<le> 5"
    using assms(1) by (auto simp: time_shape_def split: list.splits)
  obtain k1 k2 n1 n2 where t: "t = [k1, k2, CHR '':'', n1, n2]" "ascii_digit k1" "ascii_digit k2"
    "ascii_digit n1" "ascii_digit n2" "digit_value n1 \<le> 5"
    using assms(2) by (auto simp: time_shape_def split: list.splits)
  have m: "int m = 60 * (10 * digit_value h1 + digit_value h2) + (10 * digit_value m1 + digit_value m2)"
    using assms(3) digit_bounds s(2-5)
    by (fastforce simp: s(1) parse_time_def digits_value_def Let_def split: if_splits)
  have n: "int n = 60 * (10 * digit_value k1 + digit_value k2) + (10 * digit_value n1 + digit_value n2)"
    using assms(4) digit_bounds t(2-5)
    by (fastforce simp: t(1) parse_time_def digits_value_def Let_def split: if_splits)
  have "s < t \<longleftrightarrow> int m < int n"
    unfolding m n using digit_bounds s(2-6) t(2-6)
    by (simp add: s(1) t(1) digit_order) (smt (verit))
  then show ?thesis by simp
qed

text \<open>The minutes of the day a period holds its value.\<close>

definition covers :: "weekly_period \<Rightarrow> nat \<Rightarrow> bool" where
  "covers p m \<longleftrightarrow> (\<exists>a b. parse_time (wp_start p) = Inr a \<and> parse_time (wp_end p) = Inr b \<and> a \<le> m \<and> m < b)"

lemma period_times:
  assumes "period_ok p"
  obtains a b where "parse_time (wp_start p) = Inr a" "parse_time (wp_end p) = Inr b" "a < b"
  using assms by (auto simp: period_ok_def period_is_forward_def bindE_eq_Inr raise_if_eq_Inr)

lemma neighbours_apart:
  assumes "list_all period_ok (p # ps)" and "sorted (map wp_start (p # ps))" and "\<not> neighbours_overlap (p # ps)"
    and "q \<in> set ps"
  shows "\<not> wp_start q < wp_end p"
  using assms
  by (cases ps) (auto dest: order.strict_trans1 simp: not_less)

lemma covers_at_most_once:
  "list_all period_ok ps \<Longrightarrow> sorted (map wp_start ps) \<Longrightarrow> \<not> neighbours_overlap ps \<Longrightarrow>
     length (filter (\<lambda>p. covers p m) ps) \<le> 1"
proof (induction ps)
  case (Cons p ps)
  have tail: "\<not> neighbours_overlap ps" using Cons.prems(3) by (cases ps) auto
  have "\<not> covers q m" if p: "covers p m" and q: "q \<in> set ps" for q
  proof -
    have ok: "period_ok p" "period_ok q" using Cons.prems(1) q by (auto simp: list_all_iff)
    obtain b where b: "parse_time (wp_end p) = Inr b" "m < b" using p by (auto simp: covers_def)
    obtain a where a: "parse_time (wp_start q) = Inr a" using period_times [OF ok(2)] by blast
    have "\<not> a < b"
      using neighbours_apart [OF Cons.prems q] parse_time_order [OF _ _ a b(1)] ok by (simp add: period_ok_def)
    then show ?thesis using a b(2) by (auto simp: covers_def)
  qed
  then have "covers p m \<Longrightarrow> filter (\<lambda>p. covers p m) ps = []" by (auto simp: filter_empty_conv)
  then show ?case using Cons tail by auto
qed simp

text \<open>An accepted weekly schedule is unambiguous: at no minute of a weekday do two of its
  periods apply.  The source compares the \<open>HH:MM\<close> texts of neighbours after sorting them.\<close>

theorem schedule_unambiguous:
  assumes valid: "schedule_is_valid zone_exists s = Inr ()" and ok: "list_all period_ok (sc_weekly_periods s)"
    and i: "i < length (sc_weekly_periods s)" and j: "j < length (sc_weekly_periods s)"
    and day: "wp_day (sc_weekly_periods s ! i) = wp_day (sc_weekly_periods s ! j)"
    and "covers (sc_weekly_periods s ! i) m" and "covers (sc_weekly_periods s ! j) m"
  shows "i = j"
proof (rule ccontr)
  let ?ps = "sc_weekly_periods s" let ?d = "wp_day (?ps ! i)"
  let ?sorted = "sort_key wp_start (day_periods ?d ?ps)"
  assume "i \<noteq> j"
  then have "card {i, j} \<le> card {k. k < length ?ps \<and> wp_day (?ps ! k) = ?d \<and> covers (?ps ! k) m}"
    using assms by (intro card_mono) auto
  then have two: "2 \<le> length (filter (\<lambda>p. wp_day p = ?d \<and> covers p m) ?ps)"
    using \<open>i \<noteq> j\<close> by (simp add: length_filter_conv_card)
  have "\<not> neighbours_overlap ?sorted"
    using valid i by (auto simp: schedule_is_valid_def raise_if_eq_Inr)
  moreover have "list_all period_ok ?sorted" using ok by (auto simp: list_all_iff day_periods_def)
  ultimately have "length (filter (\<lambda>p. covers p m) ?sorted) \<le> 1"
    by (intro covers_at_most_once) simp_all
  moreover have "length (filter (\<lambda>p. covers p m) ?sorted) = length (filter (\<lambda>p. covers p m) (day_periods ?d ?ps))"
    by (simp add: filter_sort)
  ultimately show False
    using two by (simp add: day_periods_def conj_commute)
qed

definition sample_schedule :: schedule_requirement where
  "sample_schedule = \<lparr>sc_id = ''occ'', sc_output_point = ''occ'', sc_timezone = ''UTC'', sc_default_value = PBool False,
     sc_weekly_periods = [\<lparr>wp_day = 0, wp_start = ''13:00'', wp_end = ''17:30'', wp_value = PBool True\<rparr>,
                          \<lparr>wp_day = 0, wp_start = ''08:00'', wp_end = ''12:00'', wp_value = PBool True\<rparr>]\<rparr>"

lemma schedule_unambiguous_witness: "\<not> covers (sc_weekly_periods sample_schedule ! 1) 800"
proof
  assume "covers (sc_weekly_periods sample_schedule ! 1) 800"
  moreover have "schedule_is_valid (\<lambda>_. True) sample_schedule = Inr ()"
    by (simp add: schedule_is_valid_def sample_schedule_def day_periods_def raise_if_def okE_def)
  moreover have "list_all period_ok (sc_weekly_periods sample_schedule)" by code_simp
  moreover have "covers (sc_weekly_periods sample_schedule ! 0) 800"
    by (auto simp: covers_def sample_schedule_def parse_time_def digits_value_def digit_value_def Let_def)
  ultimately show False
    using schedule_unambiguous [of "\<lambda>_. True" sample_schedule 0 1 800] by (simp add: sample_schedule_def)
qed

section \<open>Normalised slot paths\<close>

lemma removeprefix_append: "take (length p) s = p \<Longrightarrow> s = p @ removeprefix p s"
  by (metis append_take_drop_id removeprefix_def)

lemma removeprefix_station: "take 9 s \<noteq> ''station:|'' \<Longrightarrow> removeprefix ''station:|'' s = s"
  by (simp add: removeprefix_def eval_nat_numeral)

lemma ord_char_not_space: "ord_char c \<Longrightarrow> \<not> py_space c"
  by (auto simp: ord_char_def ident_char_def ascii_alpha_def ascii_digit_def py_space_def Let_def)

text \<open>A normalised station ord is in canonical form: it carries the \<open>station:|\<close> prefix, its
  path consists of the allowed characters, no segment is empty, \<open>.\<close> or \<open>..\<close>, and
  normalising it again returns it unchanged.\<close>

theorem normalize_ord_canonical:
  assumes "normalize_ord msg s = Inr t"
  shows "take 15 t = ''station:|slot:/'' \<and> list_all ord_char (drop 15 t)
    \<and> (\<forall>part \<in> set (split_on (CHR ''/'') (drop 15 t)). part \<notin> {'''', ''.'', ''..''})
    \<and> normalize_ord msg t = Inr t"
proof -
  let ?n = "strip s" let ?t = "removeprefix ''station:|'' ?n"
  have ord: "take 6 ?t = ''slot:/''" "drop 6 ?t \<noteq> []" "list_all ord_char (drop 6 ?t)"
    and parts: "\<forall>part \<in> set (split_on (CHR ''/'') (slot_path ?n)). part \<notin> {'''', ''.'', ''..''}"
    and t: "t = (if take 9 ?n = ''station:|'' then ?n else ''station:|'' @ ?n)"
    using assms by (auto simp: normalize_ord_def ord_ok_def Let_def raise_if_eq_Inr)
  obtain p where p: "?t = ''slot:/'' @ p" "p = drop 6 ?t"
    using ord(1) append_take_drop_id [of 6 ?t] by metis
  have t': "t = ''station:|'' @ ''slot:/'' @ p"
  proof (cases "take 9 ?n = ''station:|''")
    case True
    then have "?n = ''station:|'' @ ?t"
      by (intro removeprefix_append) (simp add: eval_nat_numeral)
    then have "?n = ''station:|'' @ ''slot:/'' @ p" by (subst (asm) p(1))
    moreover have "t = ?n" unfolding t by (rule if_P [OF True])
    ultimately show ?thesis by (rule trans [rotated])
  next
    case False
    then have "?t = ?n" by (rule removeprefix_station)
    then show ?thesis using False t p(1) by simp
  qed
  have ne: "p \<noteq> []" and chars: "list_all ord_char p" using ord(2,3) p(2) by simp_all
  have path: "slot_path ?n = p" "slot_path t = p"
    using p(1) by (simp_all add: slot_path_def t') (simp_all add: removeprefix_def)
  have "\<not> py_space (last p)"
    using chars last_in_set [OF ne] ord_char_not_space by (auto simp: list_all_iff)
  then have "strip t = t"
    using ne by (cases p rule: rev_cases) (simp_all add: t' strip_def py_space_def)
  moreover have "ord_ok t"
    using ne chars by (simp add: ord_ok_def t' removeprefix_def)
  ultimately have "normalize_ord msg t = Inr t"
    using parts path by (simp add: normalize_ord_def Let_def raise_if_def) (simp add: t')
  then show ?thesis using parts chars path by (simp add: t')
qed

lemma normalize_ord_canonical_witness:
  "normalize_ord ''ord'' (''station:|slot:/Drivers/Ahu1'') = Inr (''station:|slot:/Drivers/Ahu1'')"
proof -
  have "normalize_ord ''ord'' ('' slot:/Drivers/Ahu1 '') = Inr (''station:|slot:/Drivers/Ahu1'')"
    by code_simp
  from normalize_ord_canonical [OF this] show ?thesis by blast
qed

end
