(* ===== verification/Soundness.thy ===== *)
theory Soundness
  imports Interp
begin

text \<open>
  Type soundness of the interpreter: on a validated graph, with inputs of the declared
  types, no scan fails with a lookup or typing exception, every block's value has the
  type of its slot, and the state kept per block satisfies the invariant of its kernel.
  Each kernel contributes through its interpretation of \<open>typed_kernel\<close>,
  \<open>pure_typed_kernel\<close> or \<open>deferred_block\<close>; the graph contributes the evaluation order.
\<close>

section \<open>Invariants of the stored states\<close>

fun state_inv :: "block_state \<Rightarrow> bool" where
  "state_inv (NumericLatchS st) = has_type NUMERIC (latch_out st)"
| "state_inv (BooleanLatchS st) = has_type BOOLEAN (latch_out st)"
| "state_inv (AverageS st) = average_inv st"
| "state_inv (AvailabilityS st) = availability_inv st"
| "state_inv (EnableS st) = enable_inv st"
| "state_inv _ = True"

definition states_ok :: "block_state dict \<Rightarrow> bool" where
  "states_ok states \<longleftrightarrow> (\<forall>i st. map_of states i = Some st \<longrightarrow> state_inv st)"

lemma states_okD: "states_ok states \<Longrightarrow> pred_option state_inv (map_of states i)"
  by (cases "map_of states i") (simp_all add: states_ok_def)

lemma states_ok_update: "states_ok states \<Longrightarrow> state_inv st \<Longrightarrow> states_ok (AList.update i st states)"
  by (auto simp: states_ok_def)

lemma states_ok_store: "states_ok states \<Longrightarrow> pred_option state_inv s \<Longrightarrow> states_ok (store_state i s states)"
  by (cases s) (auto simp: store_state_def intro: states_ok_update)

section \<open>From a kernel's contract to the dispatched block\<close>

abbreviation block_result :: "block_kind \<Rightarrow> outcome \<times> block_state option \<Rightarrow> bool" where
  "block_result k \<equiv> \<lambda>(r, s). outcome_typed k r \<and> pred_option state_inv s"

lemma lift_pure_sound:
  assumes "pure_typed_kernel k f cfg_good" and "cfg_good c" and "args_typed k a"
    and "pred_option state_inv s"
  shows "soundE (block_result k) (lift_pure f c ck a s)"
  unfolding lift_pure_def
  by (rule soundE_mapE) (use pure_typed_kernel.pure_sound [OF assms(1-3)] assms(4) in simp)

lemma narrow_inv:
  "pred_option state_inv s \<Longrightarrow> (\<And>v. is_s v \<Longrightarrow> state_inv v \<Longrightarrow> good (the_s v)) \<Longrightarrow>
     pred_option good (narrow is_s the_s s)"
  by (cases s) (simp_all add: narrow_def)

lemma lift_state_sound:
  assumes "typed_kernel k kern cfg_good good" and "cfg_good c" and "args_typed k a"
    and "pred_option state_inv s"
    and "\<And>v. is_s v \<Longrightarrow> state_inv v \<Longrightarrow> good (the_s v)" and "\<And>x. good x \<Longrightarrow> state_inv (wrap x)"
  shows "soundE (block_result k) (lift_state wrap is_s the_s kern c ck a s)"
  unfolding lift_state_def
  by (rule soundE_mapE, rule soundE_mono [OF typed_kernel.scan_sound [OF assms(1-3)
      narrow_inv [where is_s = is_s and the_s = the_s, OF assms(4)]]])
     (auto simp: assms(5,6))

lemma lift_emit_sound:
  assumes "deferred_block k emit upd cfg_good" and "cfg_good c" and "pred_option state_inv s"
  shows "soundE (block_result k) (lift_emit is_s the_s emit c ck a s)"
  unfolding lift_emit_def
  by (rule soundE_mapE) (use deferred_block.emit_sound [OF assms(1,2)] assms(3) in simp)

interpretation assert_warning: pure_typed_kernel BOOLEAN_ASSERT_WARNING eval_assert_warning "\<lambda>_. True"
  by unfold_locales
    (auto simp: eval_assert_warning_def args_typed_iff boolean_slot_def bool_arg_def dict_get_def
      outcome_typed_def dict_typed_def)

lemmas pure_kernels =
  lift_pure_sound [OF numeric_const.pure_typed_kernel_axioms]
  lift_pure_sound [OF boolean_const.pure_typed_kernel_axioms]
  lift_pure_sound [OF numeric_output.pure_typed_kernel_axioms]
  lift_pure_sound [OF boolean_output.pure_typed_kernel_axioms]
  lift_pure_sound [OF add.pure_typed_kernel_axioms]
  lift_pure_sound [OF subtract.pure_typed_kernel_axioms]
  lift_pure_sound [OF multiply.pure_typed_kernel_axioms]
  lift_pure_sound [OF divide.pure_typed_kernel_axioms]
  lift_pure_sound [OF minimum.pure_typed_kernel_axioms]
  lift_pure_sound [OF maximum.pure_typed_kernel_axioms]
  lift_pure_sound [OF average.pure_typed_kernel_axioms]
  lift_pure_sound [OF greater.pure_typed_kernel_axioms]
  lift_pure_sound [OF greater_equal.pure_typed_kernel_axioms]
  lift_pure_sound [OF less.pure_typed_kernel_axioms]
  lift_pure_sound [OF less_equal.pure_typed_kernel_axioms]
  lift_pure_sound [OF equal.pure_typed_kernel_axioms]
  lift_pure_sound [OF not_equal.pure_typed_kernel_axioms]
  lift_pure_sound [OF conj.pure_typed_kernel_axioms]
  lift_pure_sound [OF disj.pure_typed_kernel_axioms]
  lift_pure_sound [OF xor.pure_typed_kernel_axioms]
  lift_pure_sound [OF neg.pure_typed_kernel_axioms]
  lift_pure_sound [OF numeric_switch.pure_typed_kernel_axioms]
  lift_pure_sound [OF boolean_switch.pure_typed_kernel_axioms]
  lift_pure_sound [OF rounding.pure_typed_kernel_axioms]
  lift_pure_sound [OF reset.pure_typed_kernel_axioms]
  lift_pure_sound [OF wet_bulb.pure_typed_kernel_axioms]
  lift_pure_sound [OF assert_warning.pure_typed_kernel_axioms]

lemmas state_kernels =
  lift_state_sound [where wrap = DelayS and is_s = is_DelayS and the_s = the_DelayS, OF boolean_delay.typed_kernel_axioms]
  lift_state_sound [where wrap = EdgeS and is_s = is_EdgeS and the_s = the_EdgeS, OF one_shot.typed_kernel_axioms]
  lift_state_sound [where wrap = EdgeS and is_s = is_EdgeS and the_s = the_EdgeS, OF falling_edge.typed_kernel_axioms]
  lift_state_sound [where wrap = AverageS and is_s = is_AverageS and the_s = the_AverageS, OF moving_average.typed_kernel_axioms]
  lift_state_sound [where wrap = SamplerS and is_s = is_SamplerS and the_s = the_SamplerS, OF sampler.typed_kernel_axioms]
  lift_state_sound [where wrap = FirstOrderS and is_s = is_FirstOrderS and the_s = the_FirstOrderS, OF first_order_hold.typed_kernel_axioms]
  lift_state_sound [where wrap = TriggerS and is_s = is_TriggerS and the_s = the_TriggerS, OF sample_trigger.typed_kernel_axioms]
  lift_state_sound [where wrap = ChangeS and is_s = is_ChangeS and the_s = the_ChangeS, OF changed.typed_kernel_axioms]
  lift_state_sound [where wrap = ChangeS and is_s = is_ChangeS and the_s = the_ChangeS, OF increased.typed_kernel_axioms]
  lift_state_sound [where wrap = ChangeS and is_s = is_ChangeS and the_s = the_ChangeS, OF decreased.typed_kernel_axioms]
  lift_state_sound [where wrap = SlewS and is_s = is_SlewS and the_s = the_SlewS, OF slew_rate.typed_kernel_axioms]
  lift_state_sound [where wrap = NumericLatchS and is_s = is_NumericLatchS and the_s = the_NumericLatchS, OF numeric_latch.typed_kernel_axioms]
  lift_state_sound [where wrap = BooleanLatchS and is_s = is_BooleanLatchS and the_s = the_BooleanLatchS, OF boolean_latch.typed_kernel_axioms]
  lift_state_sound [where wrap = PreS and is_s = is_PreS and the_s = the_PreS, OF pre_host_tick.typed_kernel_axioms]
  lift_state_sound [where wrap = InitS and is_s = is_InitS and the_s = the_InitS, OF initialization.typed_kernel_axioms]
  lift_state_sound [where wrap = SetResetS and is_s = is_SetResetS and the_s = the_SetResetS, OF set_reset.typed_kernel_axioms]
  lift_state_sound [where wrap = HoldS and is_s = is_HoldS and the_s = the_HoldS, OF true_false_hold.typed_kernel_axioms]
  lift_state_sound [where wrap = HysteresisS and is_s = is_HysteresisS and the_s = the_HysteresisS, OF hysteresis.typed_kernel_axioms]
  lift_state_sound [where wrap = TimerS and is_s = is_TimerS and the_s = the_TimerS, OF timer.typed_kernel_axioms]
  lift_state_sound [where wrap = ResetTimerS and is_s = is_ResetTimerS and the_s = the_ResetTimerS, OF timer_with_reset.typed_kernel_axioms]
  lift_state_sound [where wrap = AccumulatingS and is_s = is_AccumulatingS and the_s = the_AccumulatingS, OF timer_accumulating.typed_kernel_axioms]
  lift_state_sound [where wrap = TrimS and is_s = is_TrimS and the_s = the_TrimS, OF trim.typed_kernel_axioms]
  lift_state_sound [where wrap = TrimS and is_s = is_TrimS and the_s = the_TrimS, OF trim_hold.typed_kernel_axioms]
  lift_state_sound [where wrap = PiS and is_s = is_PiS and the_s = the_PiS, OF pi_loop.typed_kernel_axioms]
  lift_state_sound [where wrap = PidS and is_s = is_PidS and the_s = the_PidS, OF pid.typed_kernel_axioms]
  lift_state_sound [where wrap = AvailabilityS and is_s = is_AvailabilityS and the_s = the_AvailabilityS, OF availability.typed_kernel_axioms]
  lift_state_sound [where wrap = EnableS and is_s = is_EnableS and the_s = the_EnableS, OF plant_enable.typed_kernel_axioms]
  lift_state_sound [where wrap = HrcS and is_s = is_HrcS and the_s = the_HrcS, OF hrc_enable.typed_kernel_axioms]
  lift_state_sound [where wrap = HrcModeS and is_s = is_HrcModeS and the_s = the_HrcModeS, OF hrc_mode.typed_kernel_axioms]
  lift_state_sound [where wrap = CompletionS and is_s = is_CompletionS and the_s = the_CompletionS, OF stage_completion.typed_kernel_axioms]
  lift_state_sound [where wrap = StageS and is_s = is_StageS and the_s = the_StageS, OF stage_index.typed_kernel_axioms]

lemmas emit_kernels =
  lift_emit_sound [where is_s = is_UnitDelayS and the_s = the_UnitDelayS, OF unit_delay.deferred_block_axioms]
  lift_emit_sound [where is_s = is_IntegratorS and the_s = the_IntegratorS, OF integrator.deferred_block_axioms]
  lift_emit_sound [where is_s = is_CounterS and the_s = the_CounterS, OF counter.deferred_block_axioms]

text \<open>What the proof needs of a block's configuration: the validator's checks, and a numeric
  \<open>disabled_output\<close>, which the validator leaves open.\<close>

definition config_ok :: "block \<Rightarrow> bool" where
  "config_ok b \<longleftrightarrow> block_ok b \<and>
     (bkind b = PI_LOOP \<longrightarrow> cfg_numeric_opt (bconfig b) ''disabled_output'')"

lemma state_inv_the:
  "is_AverageS v \<Longrightarrow> state_inv v \<Longrightarrow> average_inv (the_AverageS v)"
  "is_NumericLatchS v \<Longrightarrow> state_inv v \<Longrightarrow> is_number (latch_out (the_NumericLatchS v))"
  "is_BooleanLatchS v \<Longrightarrow> state_inv v \<Longrightarrow> is_bool (latch_out (the_BooleanLatchS v))"
  "is_AvailabilityS v \<Longrightarrow> state_inv v \<Longrightarrow> availability_inv (the_AvailabilityS v)"
  "is_EnableS v \<Longrightarrow> state_inv v \<Longrightarrow> enable_inv (the_EnableS v)"
  by (cases v; simp)+

lemma latch_kernels:
  "check_numeric_latch c = Inr () \<Longrightarrow> args_typed NUMERIC_LATCH a \<Longrightarrow> pred_option state_inv s \<Longrightarrow>
     soundE (block_result NUMERIC_LATCH) (lift_state NumericLatchS is_NumericLatchS the_NumericLatchS
       (eval_latch (PFloat (Fin 0))) c ck a s)"
  "check_boolean_latch c = Inr () \<Longrightarrow> args_typed BOOLEAN_LATCH a \<Longrightarrow> pred_option state_inv s \<Longrightarrow>
     soundE (block_result BOOLEAN_LATCH) (lift_state BooleanLatchS is_BooleanLatchS the_BooleanLatchS
       (eval_latch (PBool False)) c ck a s)"
  by (rule state_kernels; simp add: state_inv_the)+

text \<open>The host-tick delay emits its state; it has no arguments yet at that point.\<close>

lemma pre_kernel_sound:
  "soundE (block_result BOOLEAN_PRE_HOST_TICK) (lift_state PreS is_PreS the_PreS eval_pre_host_tick c ck a s)"
  by (simp add: lift_state_def eval_pre_host_tick_def Let_def answer_def outcome_typed_def)

lemma block_kernel_sound:
  assumes b: "config_ok b" and a: "\<not> is_feedback_kind (bkind b) \<Longrightarrow> args_typed (bkind b) a"
    and s: "pred_option state_inv s" and k: "bkind b \<notin> {NUMERIC_INPUT, BOOLEAN_INPUT}"
  shows "soundE (block_result (bkind b)) (block_kernel (bkind b) (bconfig b) ck a s)"
proof -
  have v: "validate_config b = Inr ()" using b by (simp add: config_ok_def block_ok_def)
  have pi: "bkind b = PI_LOOP \<Longrightarrow> pi_config_ok (bconfig b)"
    using b validate_configD [OF v] by (simp add: config_ok_def pi_config_ok_def)
  have ud: "bkind b = NUMERIC_UNIT_DELAY \<Longrightarrow> unit_delay_config_ok (bconfig b)"
    using validate_configD [OF v] by (simp add: unit_delay_config_ok_def)
  have sp: "bkind b = k \<Longrightarrow> k \<in> {NUMERIC_SAMPLER, NUMERIC_FIRST_ORDER_HOLD, NUMERIC_UNIT_DELAY} \<Longrightarrow>
      check_sample_period k (bconfig b) = Inr ()" for k
    using validate_configD [OF v] by simp
  have ini: "bkind b = k \<Longrightarrow> k \<in> {NUMERIC_UNIT_DELAY, NUMERIC_CHANGED, NUMERIC_INCREASED, NUMERIC_DECREASED} \<Longrightarrow>
      check_initial_number k (bconfig b) = Inr ()" for k
    using validate_configD [OF v] by simp
  have trim: "bkind b = TRIM_AND_RESPOND \<Longrightarrow> check_trim_and_respond False (bconfig b) = Inr ()"
    "bkind b = TRIM_AND_RESPOND_HOLD \<Longrightarrow> check_trim_and_respond True (bconfig b) = Inr ()"
    using validate_configD(12) [OF v] by simp_all
  show ?thesis
    using a s k
    by (cases "bkind b")
       (simp_all add: pure_kernels state_kernels emit_kernels state_inv_the latch_kernels pre_kernel_sound
         pi ud sp ini trim validate_configD [OF v])
qed

section \<open>Wires\<close>

definition wire_step :: "string \<Rightarrow> link \<Rightarrow> wires \<Rightarrow> wires" where
  "wire_step i l d = (if target l = i then AList.update (target_slot l) (source l, source_slot l) d else d)"

lemma wires_of_fold:
  "wires_of (fold add_wire ls inc) i = fold (wire_step i) ls (wires_of inc i)"
proof (induction ls arbitrary: inc)
  case (Cons l ls)
  have "wires_of (add_wire l inc) i = wire_step i l (wires_of inc i)"
    by (simp add: wires_of_def add_wire_def wire_step_def)
  then show ?case by (simp add: Cons.IH)
qed simp

lemma wires_incoming: "wires_of (incoming g) i = fold (wire_step i) (links g) []"
  by (simp add: incoming_def wires_of_fold) (simp add: wires_of_def)

lemma set_update_subset: "set (AList.update k v d) \<subseteq> insert (k, v) (set d)"
  by (induction d) auto

lemma wire_from_link:
  assumes "(slot, w) \<in> set (wires_of (incoming g) i)"
  shows "\<exists>l \<in> set (links g). target l = i \<and> target_slot l = slot \<and> w = (source l, source_slot l)"
proof -
  have "set (fold (wire_step i) ls d) \<subseteq> set d \<union>
      {(target_slot l, source l, source_slot l) | l. l \<in> set ls \<and> target l = i}" for ls d
  proof (induction ls arbitrary: d)
    case (Cons l ls)
    have "set (wire_step i l d) \<subseteq> set d \<union> {(target_slot l, source l, source_slot l) |_::unit. target l = i}"
      using set_update_subset [of "target_slot l" _ d] by (auto simp: wire_step_def)
    then show ?case using Cons.IH [of "wire_step i l d"] by auto
  qed simp
  from this [of "links g" "[]"] assms show ?thesis by (auto simp: wires_incoming)
qed

lemma wires_distinct: "distinct (map fst (wires_of (incoming g) i))"
proof -
  have "distinct (map fst d) \<Longrightarrow> distinct (map fst (fold (wire_step i) ls d))" for ls d
    by (induction ls arbitrary: d) (simp_all add: wire_step_def distinct_update)
  from this [of "[]"] show ?thesis by (simp add: wires_incoming)
qed

lemma wire_exists:
  assumes "l \<in> set (links g)"
  shows "map_of (wires_of (incoming g) (target l)) (target_slot l) \<noteq> None"
proof -
  have keep: "map_of d k \<noteq> None \<Longrightarrow> map_of (fold (wire_step i) ls d) k \<noteq> None" for ls d i k
    by (induction ls arbitrary: d) (simp_all add: wire_step_def)
  have "l \<in> set ls \<Longrightarrow> map_of (fold (wire_step (target l)) ls d) (target_slot l) \<noteq> None" for ls d
  proof (induction ls arbitrary: d)
    case (Cons m ls)
    show ?case
    proof (cases "l = m")
      case True
      have "map_of (wire_step (target l) l d) (target_slot l) \<noteq> None" by (simp add: wire_step_def)
      from keep [OF this, of "target l" ls] True show ?thesis by simp
    next
      case False
      then show ?thesis using Cons by simp
    qed
  qed simp
  then show ?thesis using assms by (simp add: wires_incoming)
qed

section \<open>Values of the evaluated blocks\<close>

text \<open>\<open>vals_ok us vals\<close>: every output slot of the blocks \<open>us\<close>, and the block's own name, has
  a value of the declared type.\<close>

definition slot_value :: "pyval dict \<Rightarrow> string \<Rightarrow> string \<Rightarrow> data_type \<Rightarrow> bool" where
  "slot_value vals i slot t \<longleftrightarrow> (\<exists>v. map_of vals (dotted i slot) = Some v \<and> has_type t v)"

definition block_value :: "pyval dict \<Rightarrow> block \<Rightarrow> bool" where
  "block_value vals b \<longleftrightarrow>
     (\<forall>(slot, t) \<in> set (outputs (block_slots (bkind b))). slot_value vals (bid b) slot t)
     \<and> (\<exists>v. map_of vals (bid b) = Some v \<and> has_type (snd (hd (outputs (block_slots (bkind b))))) v)"

definition vals_ok :: "block list \<Rightarrow> pyval dict \<Rightarrow> bool" where
  "vals_ok us vals \<longleftrightarrow> (\<forall>b \<in> set us. block_value vals b)"

lemma traverseE_all:
  "(\<And>x. x \<in> set xs \<Longrightarrow> \<exists>y. f x = Inr y \<and> Q x y) \<Longrightarrow> \<exists>ys. traverseE f xs = Inr ys \<and> list_all2 Q xs ys"
proof (induction xs)
  case (Cons x xs)
  obtain y where y: "f x = Inr y" "Q x y" using Cons.prems [of x] by auto
  obtain ys where ys: "traverseE f xs = Inr ys" "list_all2 Q xs ys" using Cons by auto
  show ?case using y ys by auto
qed simp

lemma list_all2_keys:
  assumes "list_all2 (\<lambda>(k, w) (k', v). k' = k \<and> Q k w v) xs ys" and "map_of xs k = Some w"
  shows "\<exists>v. map_of ys k = Some v \<and> Q k w v"
  using assms by (induction xs ys rule: list_all2_induct) (auto split: if_splits)

text \<open>The link behind a wire fixes the type of what is read.\<close>

lemma gather_sound:
  assumes g: "graph_ok g" and b: "b \<in> set (blocks g)" and us: "set us \<subseteq> set (blocks g)"
    and ok: "vals_ok us vals"
    and srcs: "\<And>l. l \<in> set (links g) \<Longrightarrow> target l = bid b \<Longrightarrow> source l \<in> set (map bid us)"
  shows "\<exists>a. gather_args vals (wires_of (incoming g) (bid b)) = Inr a \<and> args_typed (bkind b) a"
proof -
  let ?ws = "wires_of (incoming g) (bid b)"
  let ?Q = "\<lambda>slot (w :: string \<times> string) v. \<forall>t. map_of (inputs (block_slots (bkind b))) slot = Some t \<longrightarrow> has_type t v"
  note d = graph_okD(4) [OF g]
  have one: "\<exists>y. mapE (Pair slot) (read_wire vals w) = Inr y \<and> (\<lambda>(k, w) (k', v). k' = k \<and> ?Q k w v) (slot, w) y"
    if w: "(slot, w) \<in> set ?ws" for slot w
  proof -
    obtain l where l: "l \<in> set (links g)" "target l = bid b" "target_slot l = slot" "w = (source l, source_slot l)"
      using wire_from_link [OF w] by auto
    obtain sb tb t where sb: "map_of (by_id g) (source l) = Some sb" and tb: "map_of (by_id g) (target l) = Some tb"
      and out: "map_of (outputs (block_slots (bkind sb))) (source_slot l) = Some t"
      and inp: "map_of (inputs (block_slots (bkind tb))) (target_slot l) = Some t"
      using graph_okD(1) [OF g] l(1) by (auto simp: wiring_ok_def link_ok_def)
    have "tb = b" using tb l(2) b d by (metis by_id_Some option.inject)
    obtain u where u: "u \<in> set us" "bid u = source l" using srcs [OF l(1,2)] by auto
    have "map_of (by_id g) (source l) = Some u" using u us d by (auto simp: by_id_Some)
    then have "sb = u" using sb by simp
    then have "(source_slot l, t) \<in> set (outputs (block_slots (bkind u)))"
      using out by (simp add: map_of_SomeD)
    then have "slot_value vals (source l) (source_slot l) t"
      using ok u unfolding vals_ok_def block_value_def by fastforce
    then show ?thesis
      using l inp \<open>tb = b\<close> by (auto simp: slot_value_def read_wire_def dict_get_def)
  qed
  obtain a where a: "gather_args vals ?ws = Inr a"
    "list_all2 (\<lambda>(k, w) (k', v). k' = k \<and> ?Q k w v) ?ws a"
    using traverseE_all [of ?ws "\<lambda>(slot, w). mapE (Pair slot) (read_wire vals w)"
        "\<lambda>(k, w) (k', v). k' = k \<and> ?Q k w v"] one by (auto simp: gather_args_def)
  have "\<exists>v. map_of a slot = Some v \<and> has_type t v"
    if st: "(slot, t) \<in> set (inputs (block_slots (bkind b)))" for slot t
  proof -
    have t: "map_of (inputs (block_slots (bkind b))) slot = Some t"
      using st slots_distinct [of "bkind b"] by (simp add: map_of_eq_Some_iff)
    have "slot \<in> set (map fst (inputs (block_slots (bkind b))))" using st by force
    then have "(bid b, slot) \<in> set (map driven (links g))"
      using graph_okD(2) [OF g] b unfolding inputs_driven_def by blast
    then obtain l where "l \<in> set (links g)" "target l = bid b" "target_slot l = slot"
      by (auto simp: driven_def)
    then obtain w where "map_of ?ws slot = Some w" using wire_exists [of l g] by auto
    from list_all2_keys [OF a(2) this] t show ?thesis by auto
  qed
  then have "args_typed (bkind b) a"
    by (fastforce simp: args_typed_def list_all_iff)
  with a(1) show ?thesis by blast
qed

section \<open>Recording a result\<close>

lemma fold_update_pairs:
  "fold (\<lambda>(slot, v). AList.update (dotted i slot) v) vs d
     = fold (\<lambda>x. AList.update (dotted i (fst x)) (snd x)) vs d"
  by (rule arg_cong [of _ _ "\<lambda>f. fold f vs d"]) (auto simp: fun_eq_iff)

lemma map_of_dotted:
  assumes "is_ident i" "distinct (map fst vs)" "(slot, v) \<in> set vs"
  shows "map_of (fold (\<lambda>(slot, v). AList.update (dotted i slot) v) vs d) (dotted i slot) = Some v"
proof -
  have inj: "dotted i a = dotted i b \<longleftrightarrow> a = b" for a b using assms(1) by simp
  have "map_of (rev (map (\<lambda>x. (dotted i (fst x), snd x)) vs)) (dotted i slot) = Some v"
    using assms(2,3) inj
    by (subst map_of_eq_Some_iff)
       (auto simp: rev_map [symmetric] comp_def distinct_map inj_on_def intro!: image_eqI [of _ _ "(slot, v)"])
  then show ?thesis by (simp add: fold_update_pairs map_of_fold_update)
qed

lemma map_of_not_dotted:
  "(\<And>slot. k \<noteq> dotted i slot) \<Longrightarrow>
     map_of (fold (\<lambda>(slot, v). AList.update (dotted i slot) v) vs d) k = map_of d k"
  by (induction vs arbitrary: d) auto

lemma dict_typed_map: "dict_typed ts vs \<Longrightarrow> map fst vs = map fst ts"
  unfolding dict_typed_def by (induction ts vs rule: list_all2_induct) auto

lemma dict_typed_lookup:
  "dict_typed ts vs \<Longrightarrow> (slot, t) \<in> set ts \<Longrightarrow> \<exists>v. (slot, v) \<in> set vs \<and> has_type t v"
  unfolding dict_typed_def by (induction ts vs rule: list_all2_induct) auto

lemma record_sound:
  assumes i: "is_ident (bid b)" and r: "outcome_typed (bkind b) r"
  shows "\<exists>vals'. record_outcome (bid b) r vals = Inr vals' \<and> block_value vals' b
    \<and> (\<forall>b'. is_ident (bid b') \<longrightarrow> bid b' \<noteq> bid b \<longrightarrow> block_value vals b' \<longrightarrow> block_value vals' b')"
proof (cases r)
  case (Single v)
  then obtain t where "outputs (block_slots (bkind b)) = [(''out'', t)]" "has_type t v"
    using r by (cases "outputs (block_slots (bkind b))"; cases "tl (outputs (block_slots (bkind b)))")
      (auto simp: outcome_typed_def)
  then show ?thesis
    using i Single by (auto simp: record_outcome_def block_value_def slot_value_def)
next
  case (Multi vs)
  have ty: "dict_typed (outputs (block_slots (bkind b))) vs" using r Multi by (simp add: outcome_typed_def)
  have dist: "distinct (map fst vs)" using dict_typed_map [OF ty] slots_distinct [of "bkind b"] by simp
  obtain s0 v0 vs' where vs: "vs = (s0, v0) # vs'"
    using dict_typed_map [OF ty] outputs_nonempty [of "bkind b"] by (cases vs) auto
  define vals' where "vals' = AList.update (bid b) v0
    (fold (\<lambda>(slot, v). AList.update (dotted (bid b) slot) v) vs vals)"
  have run: "record_outcome (bid b) r vals = Inr vals'"
    by (simp add: record_outcome_def Multi vals'_def vs)
  have "slot_value vals' (bid b) slot t" if st: "(slot, t) \<in> set (outputs (block_slots (bkind b)))" for slot t
  proof -
    obtain v where "(slot, v) \<in> set vs" "has_type t v" using dict_typed_lookup [OF ty st] by auto
    then show ?thesis using map_of_dotted [OF i dist] i by (auto simp: slot_value_def vals'_def)
  qed
  moreover have "has_type (snd (hd (outputs (block_slots (bkind b))))) v0"
    using ty vs by (cases "outputs (block_slots (bkind b))") (auto simp: dict_typed_def)
  ultimately have "block_value vals' b" by (auto simp: block_value_def vals'_def)
  moreover have "block_value vals' b'" if "is_ident (bid b')" "bid b' \<noteq> bid b" "block_value vals b'" for b'
  proof -
    have "map_of vals' (dotted (bid b') slot) = map_of vals (dotted (bid b') slot)" for slot
      using that i by (simp add: vals'_def map_of_not_dotted)
    moreover have "map_of vals' (bid b') = map_of vals (bid b')"
      using that i by (simp add: vals'_def map_of_not_dotted)
    ultimately show ?thesis using that(3) by (simp add: block_value_def slot_value_def)
  qed
  ultimately show ?thesis using run by blast
qed

section \<open>The scan\<close>

text \<open>The inputs the input blocks read have the declared types.\<close>

definition inputs_typed :: "control_graph \<Rightarrow> pyval dict \<Rightarrow> bool" where
  "inputs_typed g ins \<longleftrightarrow> (\<forall>b \<in> set (blocks g).
     (bkind b = NUMERIC_INPUT \<longrightarrow> has_type NUMERIC (eval_input b ins))
     \<and> (bkind b = BOOLEAN_INPUT \<longrightarrow> has_type BOOLEAN (eval_input b ins)))"

lemma evaluate_block_sound:
  assumes "config_ok b" and "\<not> is_feedback_kind (bkind b) \<Longrightarrow> args_typed (bkind b) a"
    and "pred_option state_inv s" and "b \<in> set (blocks g)" and "inputs_typed g ins"
  shows "soundE (block_result (bkind b)) (evaluate_block b a ins ck s)"
proof (cases "bkind b \<in> {NUMERIC_INPUT, BOOLEAN_INPUT}")
  case True
  have "outcome_typed (bkind b) (Single (eval_input b ins))"
    using True assms(4,5) by (elim insertE) (simp_all add: inputs_typed_def outcome_typed_def)
  then show ?thesis
    using assms(3) True by (simp add: evaluate_block_def)
next
  case False
  then have "evaluate_block b a ins ck s = block_kernel (bkind b) (bconfig b) ck a s"
    by (simp only: evaluate_block_def if_False)
  moreover have "soundE (block_result (bkind b)) (block_kernel (bkind b) (bconfig b) ck a s)"
    by (rule block_kernel_sound) (use assms(1-3) False in auto)
  ultimately show ?thesis by (simp only:)
qed

definition scan_ok :: "block list \<Rightarrow> scan_state \<Rightarrow> bool" where
  "scan_ok us sc = (case sc of (vals, states, _) \<Rightarrow> vals_ok us vals \<and> states_ok states)"

lemma scan_block_sound:
  assumes g: "graph_ok g" and c: "config_ok b" and ins: "inputs_typed g ins"
    and b: "b \<in> set (blocks g)" and us: "set us \<subseteq> set (blocks g)" and new: "bid b \<notin> set (map bid us)"
    and srcs: "\<And>l. \<not> is_feedback_kind (bkind b) \<Longrightarrow> l \<in> set (links g) \<Longrightarrow> target l = bid b \<Longrightarrow>
      source l \<in> set (map bid us)"
    and ok: "scan_ok us sc"
  shows "soundE (scan_ok (us @ [b])) (scan_block (incoming g) ins ck b sc)"
proof -
  obtain vals states events where sc: "sc = (vals, states, events)" by (cases sc)
  have vok: "vals_ok us vals" and sok: "states_ok states" using ok by (simp_all add: scan_ok_def sc)
  obtain a where a: "(if is_feedback_kind (bkind b) then Inr [] else gather_args vals (wires_of (incoming g) (bid b))) = Inr a"
    "\<not> is_feedback_kind (bkind b) \<Longrightarrow> args_typed (bkind b) a"
  proof (cases "is_feedback_kind (bkind b)")
    case True
    then show ?thesis by (intro that [of "[]"]) simp_all
  next
    case False
    obtain a where "gather_args vals (wires_of (incoming g) (bid b)) = Inr a" "args_typed (bkind b) a"
      using gather_sound [OF g b us vok srcs [OF False]] by blast
    then show ?thesis using False by (intro that [of a]) simp_all
  qed
  have E: "soundE (block_result (bkind b)) (evaluate_block b a ins ck (map_of states (bid b)))"
    by (rule evaluate_block_sound [OF c _ states_okD [OF sok] b ins]) (rule a(2))
  have R: "soundE (scan_ok (us @ [b]))
      (bindE (record_outcome (bid b) r vals) (\<lambda>vals.
        Inr (vals, store_state (bid b) s states, events @ assert_events b ck r)))"
    if rs: "outcome_typed (bkind b) r" "pred_option state_inv s" for r s
  proof -
    obtain vals' where vals': "record_outcome (bid b) r vals = Inr vals'" "block_value vals' b"
      and keep: "\<And>b'. is_ident (bid b') \<Longrightarrow> bid b' \<noteq> bid b \<Longrightarrow> block_value vals b' \<Longrightarrow> block_value vals' b'"
      using record_sound [OF graph_okD(6) [OF g b] rs(1)] by blast
    have "block_value vals' u" if u: "u \<in> set us" for u
    proof (rule keep)
      show "is_ident (bid u)" using graph_okD(6) [OF g] u us by blast
      show "bid u \<noteq> bid b" using new u by (metis image_eqI list.set_map)
      show "block_value vals u" using vok u by (simp add: vals_ok_def)
    qed
    then have "vals_ok (us @ [b]) vals'" using vals'(2) by (simp add: vals_ok_def)
    then show ?thesis
      using vals'(1) states_ok_store [OF sok rs(2)] by (simp add: scan_ok_def)
  qed
  show ?thesis
    unfolding scan_block_def sc prod.case a(1) bindE_Inr
  proof (rule soundE_bind [OF E])
    fix x assume x: "block_result (bkind b) x"
    show "soundE (scan_ok (us @ [b])) (case x of (r, s) \<Rightarrow>
        bindE (record_outcome (bid b) r vals) (\<lambda>vals.
          Inr (vals, store_state (bid b) s states, events @ assert_events b ck r)))"
      using R [of "fst x" "snd x"] x by (cases x) simp
  qed
qed

text \<open>The evaluation order of an accepted graph: every block once, and the source of every
  wire of a non-feedback block before it.\<close>

lemma order_props:
  assumes g: "graph_ok g" and run: "topological_order g = Inr bs"
  shows "distinct (map bid bs)" and "set bs = set (blocks g)"
    and "bs = us @ b # vs \<Longrightarrow> \<not> is_feedback_kind (bkind b) \<Longrightarrow> l \<in> set (links g) \<Longrightarrow>
      target l = bid b \<Longrightarrow> source l \<in> set (map bid us)"
proof -
  note w = graph_okD(1) [OF g] and d = graph_okD(4) [OF g]
  have ids: "map bid bs = order.sort_nodes g" and sub: "set bs \<subseteq> set (blocks g)"
    using topological_order_sort [OF w] run by auto
  show dist: "distinct (map bid bs)" using order.sort_distinct [OF w] ids by simp
  have all: "set (map bid bs) = set (block_ids g)"
    using order.acyclic_imp_sort_complete [OF w graph_okD(3) [OF g]] ids by simp
  show "set bs = set (blocks g)"
  proof (rule antisym [OF sub], rule subsetI)
    fix b assume b: "b \<in> set (blocks g)"
    then have "bid b \<in> set (map bid bs)" unfolding all block_ids_def by simp
    then obtain b' where b': "b' \<in> set bs" "bid b' = bid b" by auto
    then have "b' = b" using sub b d by (auto simp: block_ids_def distinct_map inj_on_def)
    then show "b \<in> set bs" using b' by simp
  qed
  assume split: "bs = us @ b # vs" and fb: "\<not> is_feedback_kind (bkind b)"
    and l: "l \<in> set (links g)" and t: "target l = bid b"
  have "b \<in> set (blocks g)" using sub split by auto
  then have "map_of (by_id g) (target l) = Some b" using d t by (simp add: by_id_Some)
  then have "feeds g l" using fb by (simp add: feeds_def)
  then have "(source l, bid b) \<in> set (graph_edges g)"
    using l t by (auto simp: graph_edges_def intro!: image_eqI [of _ _ l])
  moreover have "bid b \<in> set (order.sort_nodes g)" unfolding ids [symmetric] split by simp
  ultimately have "before (map bid bs) (source l) (bid b)"
    unfolding ids by (rule order.sort_before [OF w])
  then obtain xs ys where xs: "map bid bs = xs @ bid b # ys" "source l \<in> set xs"
    by (auto simp: before_def)
  have "bid b \<notin> set (map bid us)" "bid b \<notin> set (map bid vs)" using dist split by auto
  then have "xs = map bid us"
    using xs(1) append_Cons_eq_iff [of "bid b" "map bid us" "map bid vs" xs ys] by (simp add: split)
  then show "source l \<in> set (map bid us)" using xs(2) by simp
qed

lemma soundE_foldE_prefix:
  assumes "\<And>us x vs s. xs = us @ x # vs \<Longrightarrow> I us s \<Longrightarrow> soundE (I (us @ [x])) (f x s)" and "I [] s"
  shows "soundE (I xs) (foldE f xs s)"
proof -
  have "xs = us @ vs \<Longrightarrow> I us s \<Longrightarrow> soundE (I xs) (foldE f vs s)" for us vs s
  proof (induction vs arbitrary: us s)
    case (Cons v vs)
    have "soundE (I (us @ [v])) (f v s)" using assms(1) Cons.prems by blast
    then show ?case
      using Cons.IH [of "us @ [v]"] Cons.prems by (auto intro: soundE_bind)
  qed simp
  from this [of "[]" xs] show ?thesis using assms(2) by simp
qed

definition configs_ok :: "control_graph \<Rightarrow> bool" where
  "configs_ok g \<longleftrightarrow> (\<forall>b \<in> set (blocks g). config_ok b)"

lemma scan_sound:
  assumes g: "graph_ok g" and c: "configs_ok g" and ins: "inputs_typed g ins"
    and bs: "topological_order g = Inr bs" and st: "states_ok states"
  shows "soundE (scan_ok bs) (foldE (scan_block (incoming g) ins ck) bs ([], states, []))"
proof (rule soundE_foldE_prefix)
  show "scan_ok [] ([], states, [])" using st by (simp add: scan_ok_def vals_ok_def)
next
  fix us b vs sc
  assume split: "bs = us @ b # vs" and ok: "scan_ok us sc"
  have "b \<in> set (blocks g)" "set us \<subseteq> set (blocks g)" "bid b \<notin> set (map bid us)"
    using order_props(1,2) [OF g bs] split by auto
  then show "soundE (scan_ok (us @ [b])) (scan_block (incoming g) ins ck b sc)"
    using scan_block_sound [OF g _ ins _ _ _ order_props(3) [OF g bs split] ok] c
    by (simp add: configs_ok_def)
qed

section \<open>The deferred updates\<close>

lemma deferred_args:
  assumes g: "graph_ok g" and b: "b \<in> set (blocks g)" and ok: "vals_ok (blocks g) vals"
  shows "\<exists>a. gather_args vals (wires_of (incoming g) (bid b)) = Inr a \<and> args_typed (bkind b) a"
proof (rule gather_sound [OF g b subset_refl ok])
  fix l assume "l \<in> set (links g)"
  then have "link_ok g l" using graph_okD(1) [OF g] by (simp add: wiring_ok_def)
  then have "map_of (by_id g) (source l) \<noteq> None" by (auto simp: link_ok_def)
  then show "source l \<in> set (map bid (blocks g))" by (simp add: by_id_None block_ids_def)
qed

lemma narrow_any: "pred_option (\<lambda>_. True) (narrow is_s the_s s)"
  by (cases "narrow is_s the_s s") simp_all

lemma unit_delay_arg:
  assumes "args_typed NUMERIC_UNIT_DELAY a" "map_of a ''in'' = Some v"
  shows "args_typed NUMERIC_UNIT_DELAY [(''in'', v)]"
  using assms by (simp add: args_typed_def)

text \<open>Each deferred update of an accepted block succeeds or fails benignly, and keeps the
  state invariants.\<close>

definition feedback_ok :: "control_graph \<Rightarrow> block \<Rightarrow> bool" where
  "feedback_ok g b \<longleftrightarrow> b \<in> set (blocks g) \<and> config_ok b"

lemma feedback_config:
  assumes "feedback_ok g b"
  shows "bkind b = NUMERIC_UNIT_DELAY \<Longrightarrow> unit_delay_config_ok (bconfig b)"
    and "bkind b = NUMERIC_INTEGRATOR_WITH_RESET \<Longrightarrow> check_integrator (bconfig b) = Inr ()"
    and "bkind b = NUMERIC_ON_COUNTER \<Longrightarrow> check_on_counter (bconfig b) = Inr ()"
proof -
  have v: "validate_config b = Inr ()" using assms by (simp add: feedback_ok_def config_ok_def block_ok_def)
  show "bkind b = NUMERIC_UNIT_DELAY \<Longrightarrow> unit_delay_config_ok (bconfig b)"
    "bkind b = NUMERIC_INTEGRATOR_WITH_RESET \<Longrightarrow> check_integrator (bconfig b) = Inr ()"
    "bkind b = NUMERIC_ON_COUNTER \<Longrightarrow> check_on_counter (bconfig b) = Inr ()"
    using validate_configD [OF v] by (simp_all add: unit_delay_config_ok_def)
qed

text \<open>The single wire of a block with one input.\<close>

lemma in_wire_value:
  assumes g: "graph_ok g" and b: "b \<in> set (blocks g)" and ok: "vals_ok (blocks g) vals"
    and inp: "inputs (block_slots (bkind b)) = [(''in'', t)]"
  shows "\<exists>w v. in_wire (incoming g) b = Inr w \<and> read_wire vals w = Inr v \<and> args_typed (bkind b) [(''in'', v)]"
proof -
  obtain a where a: "gather_args vals (wires_of (incoming g) (bid b)) = Inr a" "args_typed (bkind b) a"
    using deferred_args [OF g b ok] by blast
  have "(bid b, ''in'') \<in> set (map driven (links g))"
    using graph_okD(2) [OF g] b inp unfolding inputs_driven_def by auto
  then obtain l where l: "l \<in> set (links g)" "target l = bid b" "target_slot l = ''in''"
    by (auto simp: driven_def)
  then obtain w where w: "map_of (wires_of (incoming g) (bid b)) ''in'' = Some w"
    using wire_exists [of l g] by auto
  have "\<exists>v. map_of xs' k = Some v \<and> read_wire vals w = Inr v"
    if "traverseE (\<lambda>(slot, w). mapE (Pair slot) (read_wire vals w)) xs = Inr xs'" "map_of xs k = Some w"
    for xs xs' k
    using that by (induction xs arbitrary: xs') (auto simp: bindE_eq_Inr mapE_eq_Inr split: if_splits)
  from this [OF a(1) [unfolded gather_args_def] w]
  obtain v where v: "map_of a ''in'' = Some v" "read_wire vals w = Inr v" by blast
  have "args_typed (bkind b) [(''in'', v)]" using a(2) v(1) inp by (simp add: args_typed_def)
  then show ?thesis using w v(2) by (auto simp: in_wire_def dict_get_def)
qed

lemma defer_unit_delay_sound:
  assumes g: "graph_ok g" and b: "feedback_ok g b" "bkind b = NUMERIC_UNIT_DELAY"
    and ok: "vals_ok (blocks g) vals" and st: "states_ok states"
  shows "soundE states_ok (defer_unit_delay (incoming g) vals ck b states)"
proof -
  obtain w v where w: "in_wire (incoming g) b = Inr w" "read_wire vals w = Inr v"
    "args_typed NUMERIC_UNIT_DELAY [(''in'', v)]"
    using in_wire_value [OF g _ ok, of b NUMERIC] b by (auto simp: feedback_ok_def)
  show ?thesis
    unfolding defer_unit_delay_def w(1,2) bindE_Inr
    by (rule soundE_bind [OF unit_delay.update_sound [OF feedback_config(1) [OF b] w(3)]])
       (simp add: states_ok_update st)
qed

lemma defer_pre_sound:
  assumes g: "graph_ok g" and b: "feedback_ok g b" "bkind b = BOOLEAN_PRE_HOST_TICK"
    and ok: "vals_ok (blocks g) vals" and st: "states_ok states"
  shows "soundE states_ok (defer_pre (incoming g) vals b states)"
proof -
  obtain w v where w: "in_wire (incoming g) b = Inr w" "read_wire vals w = Inr v"
    using in_wire_value [OF g _ ok, of b BOOLEAN] b by (auto simp: feedback_ok_def)
  show ?thesis
    unfolding defer_pre_def w bindE_Inr by (simp add: states_ok_update st)
qed

lemma defer_state_sound:
  assumes g: "graph_ok g" and b: "feedback_ok g b"
    and k: "bkind b = NUMERIC_INTEGRATOR_WITH_RESET \<or> bkind b = NUMERIC_ON_COUNTER"
    and ok: "vals_ok (blocks g) vals" and st: "states_ok states"
  shows "soundE states_ok (defer_state (incoming g) vals ck b states)"
proof -
  obtain a where a: "gather_args vals (wires_of (incoming g) (bid b)) = Inr a" "args_typed (bkind b) a"
    using deferred_args [OF g _ ok] b by (auto simp: feedback_ok_def)
  have "soundE state_inv (update_state_block b ck a s)" for s
  proof (cases "bkind b = NUMERIC_INTEGRATOR_WITH_RESET")
    case True
    then have "soundE (\<lambda>_. True) (update_integrator (bconfig b) ck a s')" for s'
      using integrator.update_sound [OF feedback_config(2) [OF b True]] a(2) by simp
    then show ?thesis using True by (simp add: update_state_block_def soundE_mapE)
  next
    case False
    then have c: "bkind b = NUMERIC_ON_COUNTER" using k by simp
    then have "soundE (\<lambda>_. True) (update_counter (bconfig b) ck a s')" for s'
      using counter.update_sound [OF feedback_config(3) [OF b c]] a(2) by simp
    then show ?thesis using c by (simp add: update_state_block_def soundE_mapE)
  qed
  then show ?thesis
    unfolding defer_state_def a(1) bindE_Inr
    by (rule soundE_bind) (simp add: states_ok_update st)
qed

lemma run_deferred_sound:
  assumes g: "graph_ok g" and c: "configs_ok g" and bs: "set bs \<subseteq> set (blocks g)"
    and ok: "vals_ok (blocks g) vals" and st: "states_ok states"
  shows "soundE states_ok (run_deferred (incoming g) vals ck bs states)"
proof -
  have fb: "feedback_ok g b" if "b \<in> set bs" for b
    using that bs c by (auto simp: feedback_ok_def configs_ok_def)
  have sk: "bkind b = NUMERIC_INTEGRATOR_WITH_RESET \<or> bkind b = NUMERIC_ON_COUNTER"
    if "b \<in> set (state_blocks bs)" for b
    using that by (cases "bkind b") (auto simp: state_blocks_def)
  show ?thesis
    unfolding run_deferred_def
    by (intro soundE_bind [of states_ok] soundE_foldE defer_unit_delay_sound [OF g] defer_pre_sound [OF g]
          defer_state_sound [OF g] ok st fb sk)
       (auto simp: unit_delay_blocks_def pre_blocks_def state_blocks_def)
qed

section \<open>Soundness of the interpreter\<close>

lemma evaluate_sound:
  assumes g: "graph_ok g" and c: "configs_ok g" and ins: "inputs_typed g ins"
    and st: "states_ok (in_state ip)"
  shows "soundE (\<lambda>(vals, ip'). vals_ok (blocks g) vals \<and> states_ok (in_state ip')) (evaluate g ip ins step)"
proof -
  obtain bs where bs: "topological_order g = Inr bs"
    using topological_order_sort [OF graph_okD(1) [OF g]] by blast
  have all: "set bs = set (blocks g)" by (rule order_props(2) [OF g bs])
  let ?ck = "\<lparr>now = fadd (in_time ip) step, step_seconds = step\<rparr>"
  have E: "soundE (scan_ok bs) (foldE (scan_block (incoming g) ins ?ck) bs ([], in_state ip, []))"
    by (rule scan_sound [OF g c ins bs st])
  have R: "soundE (\<lambda>(vals, ip'). vals_ok (blocks g) vals \<and> states_ok (in_state ip'))
      (bindE (run_deferred (incoming g) vals ?ck bs states) (\<lambda>states.
        Inr (vals, \<lparr>in_state = states, in_time = fadd (in_time ip) step, in_events = events\<rparr>)))"
    if "scan_ok bs (vals, states, events)" for vals states events
  proof -
    have ok: "vals_ok (blocks g) vals" "states_ok states"
      using that all by (simp_all add: scan_ok_def vals_ok_def)
    show ?thesis
      by (rule soundE_bind [OF run_deferred_sound [OF g c _ ok]]) (simp_all add: all ok)
  qed
  show ?thesis
    unfolding evaluate_def bs Let_def bindE_Inr
  proof (intro soundE_raise_if soundE_bind [OF E])
    fix x assume "scan_ok bs x"
    then show "soundE (\<lambda>(vals, ip'). vals_ok (blocks g) vals \<and> states_ok (in_state ip'))
        (case x of (vals, states, events) \<Rightarrow> bindE (run_deferred (incoming g) vals ?ck bs states) (\<lambda>states.
          Inr (vals, \<lparr>in_state = states, in_time = fadd (in_time ip) step, in_events = events\<rparr>)))"
      using R [of "fst x" "fst (snd x)" "snd (snd x)"] by (cases x) simp
  qed
qed

lemma evaluate_run_sound:
  assumes g: "graph_ok g" and c: "configs_ok g" and ins: "\<And>i s. (i, s) \<in> set samples \<Longrightarrow> inputs_typed g i"
    and st: "states_ok (in_state ip)"
  shows "soundE (\<lambda>(vs, ip'). list_all (vals_ok (blocks g)) vs \<and> states_ok (in_state ip'))
    (evaluate_run g ip samples)"
  using ins st
proof (induction samples arbitrary: ip)
  case (Cons sample samples)
  obtain i s where i: "sample = (i, s)" by (cases sample)
  have E: "soundE (\<lambda>(vals, ip'). vals_ok (blocks g) vals \<and> states_ok (in_state ip')) (evaluate g ip i s)"
    using Cons.prems i by (intro evaluate_sound [OF g c]) auto
  show ?case
    unfolding i evaluate_run.simps
  proof (rule soundE_bind [OF E])
    fix x :: "pyval dict \<times> interp" assume x: "case x of (vals, ip') \<Rightarrow> vals_ok (blocks g) vals \<and> states_ok (in_state ip')"
    obtain vals and ip' :: interp where [simp]: "x = (vals, ip')" by (cases x)
    have rest: "soundE (\<lambda>(vs, ip'). list_all (vals_ok (blocks g)) vs \<and> states_ok (in_state ip'))
        (evaluate_run g ip' samples)"
      using Cons.prems x by (intro Cons.IH) auto
    show "soundE (\<lambda>(vs, ip'). list_all (vals_ok (blocks g)) vs \<and> states_ok (in_state ip'))
        (case x of (vals, ip) \<Rightarrow> bindE (evaluate_run g ip samples) (\<lambda>(vs, ip). Inr (vals # vs, ip)))"
      using x by (simp, intro soundE_bind [OF rest]) auto
  qed
qed simp

end
