(* ===== verification/Validation.thy ===== *)
theory Validation
  imports Jobs Soundness
begin

text \<open>
  \<open>src/bactalk/validation.py\<close>: the gate that binds a graph to the authorized points and
  to the acceptance tests of its job.
\<close>

definition is_input_kind :: "block_kind \<Rightarrow> bool" where
  "is_input_kind k \<longleftrightarrow> k \<in> {NUMERIC_INPUT, BOOLEAN_INPUT}"

definition is_output_kind :: "block_kind \<Rightarrow> bool" where
  "is_output_kind k \<longleftrightarrow> k \<in> {NUMERIC_OUTPUT, BOOLEAN_OUTPUT}"

definition is_boundary :: "block \<Rightarrow> bool" where
  "is_boundary b \<longleftrightarrow> is_input_kind (bkind b) \<or> is_output_kind (bkind b)"

definition boundary_type :: "block \<Rightarrow> data_type result" where
  "boundary_type b =
     (if bkind b \<in> {NUMERIC_INPUT, NUMERIC_OUTPUT} then Inr NUMERIC
      else if bkind b \<in> {BOOLEAN_INPUT, BOOLEAN_OUTPUT} then Inr BOOLEAN
      else Inl (ValueError ''block is not a boundary I/O block''))"

definition assert_value_type :: "pyval \<Rightarrow> data_type \<Rightarrow> unit result" where
  "assert_value_type v t =
     (if t = BOOLEAN then raise_if (\<not> is_bool v) ''value must be boolean'' okE
      else raise_if (\<not> is_number v) ''value must be numeric'' okE)"

definition validate_default :: "block \<Rightarrow> pyval \<Rightarrow> unit result" where
  "validate_default b d = (case config_opt (bconfig b) ''default'' of
       PNone \<Rightarrow> Inl (ValueError ''input block must declare the job point default'')
     | actual \<Rightarrow>
         bindE (if is_bool d then Inr (actual = d)
                else if is_bool actual then Inr False
                else bindE (py_float actual) (\<lambda>x. bindE (py_float d) (\<lambda>y. Inr (feq x y)))) (\<lambda>same.
         raise_if (\<not> same) ''input block default does not match job point default'' okE))"

section \<open>One acceptance case\<close>

definition check_case_input :: "block dict \<Rightarrow> string \<times> pyval \<Rightarrow> unit result" where
  "check_case_input input_blocks nv = (case map_of input_blocks (fst nv) of
       None \<Rightarrow> Inl (ValueError ''acceptance case input is not a graph input'')
     | Some b \<Rightarrow> bindE (boundary_type b) (assert_value_type (snd nv)))"

definition check_case_expectation :: "block dict \<Rightarrow> output_expectation \<Rightarrow> unit result" where
  "check_case_expectation output_blocks e = (case map_of output_blocks (ex_target e) of
       None \<Rightarrow> Inl (ValueError ''acceptance case target is not a graph output'')
     | Some b \<Rightarrow>
         bindE (boundary_type b) (\<lambda>t.
         bindE (assert_value_type (ex_value e) t) (\<lambda>_.
         raise_if (t = BOOLEAN \<and> ex_operator e \<notin> {EQ, NE})
           ''boolean expectation only supports eq or ne'' okE)))"

definition case_inputs :: "acceptance_case \<Rightarrow> (string \<times> pyval) list" where
  "case_inputs c = ac_inputs c @ concat (map ph_inputs (ac_timeline c))"

definition case_expectations :: "acceptance_case \<Rightarrow> output_expectation list" where
  "case_expectations c = ac_expectations c @ concat (map ph_expectations (ac_timeline c))"

definition validate_case :: "block dict \<Rightarrow> block dict \<Rightarrow> acceptance_case \<Rightarrow> string list result" where
  "validate_case input_blocks output_blocks c =
     bindE (checks (map (check_case_input input_blocks) (case_inputs c))) (\<lambda>_.
     bindE (checks (map (check_case_expectation output_blocks) (case_expectations c))) (\<lambda>_.
     Inr (map ex_target (case_expectations c))))"

section \<open>The contract\<close>

definition blocks_where :: "(block \<Rightarrow> bool) \<Rightarrow> control_graph \<Rightarrow> block dict" where
  "blocks_where p g = dict_of bid (\<lambda>b. b) (filter p (blocks g))"

definition check_boundary :: "point_table \<Rightarrow> block \<Rightarrow> unit result" where
  "check_boundary points b = (case map_of points (bid b) of
       None \<Rightarrow> Inl (ValueError ''graph boundary block is not an authorized job point'')
     | Some p \<Rightarrow>
         bindE (boundary_type b) (\<lambda>t.
         raise_if (t \<noteq> pt_data_type p) ''graph boundary block type does not match its job point''
        (raise_if (pt_role p \<in> {SENSOR, SETPOINT} \<and> \<not> is_input_kind (bkind b))
           ''sensor or setpoint point must be a graph input''
        (raise_if (pt_role p \<in> {COMMAND, ALARM} \<and> is_input_kind (bkind b))
           ''command or alarm point must be a graph output''
        (if is_input_kind (bkind b) then validate_default b (pt_default p) else okE)))))"

definition validate_job_graph_contract :: "job_spec \<Rightarrow> control_graph \<Rightarrow> unit result" where
  "validate_job_graph_contract job g =
     (let points = point_table (jb_points job);
          boundary = filter is_boundary (blocks g);
          input_blocks = blocks_where (is_input_kind \<circ> bkind) g;
          output_blocks = blocks_where (is_output_kind \<circ> bkind) g;
          tests = jb_acceptance_tests job in
      bindE (checks (map (check_boundary points) boundary)) (\<lambda>_.
      raise_if (\<exists>p \<in> set (jb_points job). pt_required p \<and> pt_name p \<notin> set (map bid boundary))
        ''required job points are absent from the graph''
        (if tests = [] then okE
         else raise_if (has_duplicates (map ac_name tests)) ''acceptance case names must be unique''
           (bindE (traverseE (validate_case input_blocks output_blocks) tests) (\<lambda>covered.
            raise_if (\<exists>k \<in> set (map fst output_blocks). k \<notin> set (concat covered))
              ''custom acceptance tests do not observe graph outputs'' okE)))))"

section \<open>What the contract gives the acceptance run\<close>

lemma boundary_type_input:
  "is_input_kind (bkind b) \<Longrightarrow> boundary_type b = Inr t \<Longrightarrow>
     bkind b = (case t of NUMERIC \<Rightarrow> NUMERIC_INPUT | BOOLEAN \<Rightarrow> BOOLEAN_INPUT)"
  by (auto simp: is_input_kind_def boundary_type_def split: if_splits)

lemma assert_value_type_Inr: "assert_value_type v t = Inr u \<longleftrightarrow> has_type t v"
  by (cases t) (auto simp: assert_value_type_def raise_if_def okE_def)

lemma validate_default_typed:
  assumes "validate_default b d = Inr u" and "block_ok b" and "is_input_kind (bkind b)"
  shows "\<exists>v. map_of (bconfig b) ''default'' = Some v
    \<and> has_type (if bkind b = NUMERIC_INPUT then NUMERIC else BOOLEAN) v"
proof -
  have v: "validate_config b = Inr ()" using assms(2) by (simp add: block_ok_def)
  obtain x where x: "map_of (bconfig b) ''default'' = Some x"
    using assms(1) by (auto simp: validate_default_def config_opt_def cfg_get_def split: option.splits)
  have "bkind b = NUMERIC_INPUT \<Longrightarrow> is_number x" "bkind b = BOOLEAN_INPUT \<Longrightarrow> is_bool x"
    using validate_configD(3,4) [OF v] x by (auto simp: check_numeric_input_def check_boolean_input_def)
  then show ?thesis using x assms(3) by (auto simp: is_input_kind_def)
qed

text \<open>Inputs by name: every supplied value is typed by the input block of that name, and
  unsupplied inputs have a typed default.\<close>

definition names_typed :: "control_graph \<Rightarrow> pyval dict \<Rightarrow> bool" where
  "names_typed g d \<longleftrightarrow> (\<forall>b \<in> set (blocks g). \<forall>v. map_of d (bid b) = Some v \<longrightarrow>
     (bkind b = NUMERIC_INPUT \<longrightarrow> is_number v) \<and> (bkind b = BOOLEAN_INPUT \<longrightarrow> is_bool v))"

definition defaults_declared :: "control_graph \<Rightarrow> bool" where
  "defaults_declared g \<longleftrightarrow> (\<forall>b \<in> set (blocks g). is_input_kind (bkind b) \<longrightarrow>
     (\<exists>v. map_of (bconfig b) ''default'' = Some v
        \<and> has_type (if bkind b = NUMERIC_INPUT then NUMERIC else BOOLEAN) v))"

lemma names_typed_inputs: "names_typed g d \<Longrightarrow> defaults_declared g \<Longrightarrow> inputs_typed g d"
  by (fastforce simp: names_typed_def defaults_declared_def inputs_typed_def eval_input_def cfg_get_def
      is_input_kind_def split: option.splits)

lemma contract_defaults:
  assumes "validate_job_graph_contract job g = Inr ()" and "graph_ok g"
  shows "defaults_declared g"
proof -
  have "\<exists>v. map_of (bconfig b) ''default'' = Some v
      \<and> has_type (if bkind b = NUMERIC_INPUT then NUMERIC else BOOLEAN) v"
    if b: "b \<in> set (blocks g)" "is_input_kind (bkind b)" for b
  proof -
    have "check_boundary (point_table (jb_points job)) b = Inr ()"
      using assms(1) b
      by (auto simp: validate_job_graph_contract_def Let_def bindE_eq_Inr checks_Inr_iff is_boundary_def)
    then obtain d where "validate_default b d = Inr ()"
      using b(2) by (auto simp: check_boundary_def bindE_eq_Inr raise_if_eq_Inr split: option.splits)
    from validate_default_typed [OF this graph_okD(5) [OF assms(2) b(1)] b(2)] show ?thesis .
  qed
  then show ?thesis by (simp add: defaults_declared_def)
qed

section \<open>What the contract promises of the graph's boundary\<close>

lemma blocks_where_Some: "map_of (blocks_where p g) i = Some b \<Longrightarrow> b \<in> set (blocks g) \<and> p b \<and> bid b = i"
  by (auto simp: blocks_where_def dest: map_of_dict_of_Some)

lemma keys_blocks_where: "set (map fst (blocks_where p g)) = bid ` {b \<in> set (blocks g). p b}"
  unfolding blocks_where_def keys_dict_of by auto

lemma point_table_Some: "map_of (point_table ps) n = Some p \<Longrightarrow> p \<in> set ps \<and> pt_name p = n"
  by (auto simp: point_table_def dest: map_of_dict_of_Some)

lemma contract_parts:
  assumes "validate_job_graph_contract job g = Inr ()"
  shows "\<forall>b \<in> set (blocks g). is_boundary b \<longrightarrow> check_boundary (point_table (jb_points job)) b = Inr ()"
    and "\<forall>p \<in> set (jb_points job). pt_required p \<longrightarrow> (\<exists>b \<in> set (blocks g). is_boundary b \<and> bid b = pt_name p)"
    and "jb_acceptance_tests job \<noteq> [] \<Longrightarrow> \<exists>covered.
      traverseE (validate_case (blocks_where (is_input_kind \<circ> bkind) g) (blocks_where (is_output_kind \<circ> bkind) g))
        (jb_acceptance_tests job) = Inr covered
      \<and> (\<forall>b \<in> set (blocks g). is_output_kind (bkind b) \<longrightarrow> bid b \<in> set (concat covered))"
proof -
  let ?tests = "jb_acceptance_tests job"
  let ?vc = "validate_case (blocks_where (is_input_kind \<circ> bkind) g) (blocks_where (is_output_kind \<circ> bkind) g)"
  have boundary: "\<forall>b \<in> set (filter is_boundary (blocks g)). check_boundary (point_table (jb_points job)) b = Inr ()"
    and required: "\<not> (\<exists>p \<in> set (jb_points job). pt_required p \<and>
        pt_name p \<notin> set (map bid (filter is_boundary (blocks g))))"
    and tests: "?tests \<noteq> [] \<Longrightarrow> \<exists>covered. traverseE ?vc ?tests = Inr covered
        \<and> \<not> (\<exists>k \<in> set (map fst (blocks_where (is_output_kind \<circ> bkind) g)). k \<notin> set (concat covered))"
    using assms
    by (simp_all add: validate_job_graph_contract_def Let_def bindE_eq_Inr checks_Inr_iff raise_if_eq_Inr
        okE_def del: set_map set_filter set_concat split: if_splits)
       (auto simp del: set_filter set_concat)
  show "\<forall>b \<in> set (blocks g). is_boundary b \<longrightarrow> check_boundary (point_table (jb_points job)) b = Inr ()"
    using boundary by simp
  show "\<forall>p \<in> set (jb_points job). pt_required p \<longrightarrow> (\<exists>b \<in> set (blocks g). is_boundary b \<and> bid b = pt_name p)"
    using required by fastforce
  show "?tests \<noteq> [] \<Longrightarrow> \<exists>covered. traverseE ?vc ?tests = Inr covered
      \<and> (\<forall>b \<in> set (blocks g). is_output_kind (bkind b) \<longrightarrow> bid b \<in> set (concat covered))"
    using tests by (fastforce simp: keys_blocks_where simp del: set_map set_concat)
qed

lemma validate_case_targets:
  "traverseE (validate_case ins outs) cs = Inr covered \<Longrightarrow>
     concat covered = concat (map (\<lambda>c. map ex_target (case_expectations c)) cs)"
  by (induction cs arbitrary: covered) (auto simp: bindE_eq_Inr validate_case_def)

end
