(* ===== verification/Acceptance.thy ===== *)
theory Acceptance
  imports Validation
begin

text \<open>
  Type soundness of the acceptance harness: on a graph that passed the schema and the job
  contract, fault injection only ever replaces an input by a value of its type, so no
  acceptance case fails with a lookup or typing exception.
\<close>

section \<open>The fault injector of a graph\<close>

fun input_type :: "block_kind \<Rightarrow> data_type option" where
  "input_type NUMERIC_INPUT = Some NUMERIC"
| "input_type BOOLEAN_INPUT = Some BOOLEAN"
| "input_type _ = None"

lemma input_type_eq:
  "input_type k = Some t \<longleftrightarrow> (k = NUMERIC_INPUT \<and> t = NUMERIC) \<or> (k = BOOLEAN_INPUT \<and> t = BOOLEAN)"
  by (cases k) auto

definition typed_by :: "data_type dict \<Rightarrow> pyval dict \<Rightarrow> bool" where
  "typed_by types d \<longleftrightarrow>
     (\<forall>i t v. map_of types i = Some t \<longrightarrow> map_of d i = Some v \<longrightarrow> has_type t v)"

text \<open>The injector knows exactly the input blocks among \<open>us\<close>, with typed defaults.\<close>

definition injector_for :: "block list \<Rightarrow> injector \<Rightarrow> bool" where
  "injector_for us ij \<longleftrightarrow>
     (\<forall>b \<in> set us. map_of (ij_input_types ij) (bid b) = input_type (bkind b))
     \<and> (\<forall>i t. map_of (ij_input_types ij) i = Some t \<longrightarrow>
          i \<in> bid ` set us \<and> (\<exists>v. map_of (ij_defaults ij) i = Some v \<and> has_type t v))"

lemma injector_forD:
  assumes "injector_for us ij"
  shows "b \<in> set us \<Longrightarrow> map_of (ij_input_types ij) (bid b) = input_type (bkind b)"
    and "map_of (ij_input_types ij) i = Some t \<Longrightarrow> i \<in> bid ` set us"
    and "map_of (ij_input_types ij) i = Some t \<Longrightarrow> \<exists>v. map_of (ij_defaults ij) i = Some v \<and> has_type t v"
  using assms by (simp_all add: injector_for_def)

definition captured_ok :: "data_type dict \<Rightarrow> fault_state dict \<Rightarrow> bool" where
  "captured_ok types states \<longleftrightarrow> (\<forall>i st. map_of states i = Some st \<longrightarrow>
     (\<forall>t. map_of types (fst (fs_signature st)) = Some t \<longrightarrow> has_type t (fs_captured st)))"

lemma typed_byD: "typed_by types d \<Longrightarrow> map_of types i = Some t \<Longrightarrow> map_of d i = Some v \<Longrightarrow> has_type t v"
  by (simp add: typed_by_def)

lemma typed_by_update: "typed_by types d \<Longrightarrow> (\<And>t. map_of types i = Some t \<Longrightarrow> has_type t v) \<Longrightarrow>
    typed_by types (AList.update i v d)"
  by (auto simp: typed_by_def)

lemma typed_by_dict_update:
  assumes "typed_by types d" and "\<And>i v. (i, v) \<in> set e \<Longrightarrow> \<forall>t. map_of types i = Some t \<longrightarrow> has_type t v"
  shows "typed_by types (dict_update d e)"
  using assms unfolding dict_update_def
proof (induction e arbitrary: d)
  case (Cons x e)
  obtain i v where x: "x = (i, v)" by (cases x)
  have *: "typed_by types (AList.update i v d)"
    using Cons.prems x by (intro typed_by_update) auto
  have "typed_by types (fold (\<lambda>(k, v). AList.update k v) e (AList.update i v d))"
    by (rule Cons.IH [OF *]) (use Cons.prems(2) in auto)
  then show ?case by (simp add: x)
qed simp

lemma injector_names_typed:
  assumes "injector_for (blocks g) ij"
  shows "typed_by (ij_input_types ij) d \<longleftrightarrow> names_typed g d"
proof
  assume t: "typed_by (ij_input_types ij) d"
  show "names_typed g d"
    unfolding names_typed_def
  proof (intro ballI allI impI)
    fix b v assume b: "b \<in> set (blocks g)" "map_of d (bid b) = Some v"
    show "(bkind b = NUMERIC_INPUT \<longrightarrow> is_number v) \<and> (bkind b = BOOLEAN_INPUT \<longrightarrow> is_bool v)"
      using typed_byD [OF t _ b(2)] injector_forD(1) [OF assms b(1)] by fastforce
  qed
next
  assume n: "names_typed g d"
  show "typed_by (ij_input_types ij) d"
    unfolding typed_by_def
  proof (intro allI impI)
    fix i t v assume i: "map_of (ij_input_types ij) i = Some t" "map_of d i = Some v"
    then obtain b where b: "b \<in> set (blocks g)" "i = bid b"
      using injector_forD(2) [OF assms] by blast
    then have "input_type (bkind b) = Some t" using injector_forD(1) [OF assms] i(1) by simp
    then show "has_type t v" using n b i(2) by (auto simp: names_typed_def input_type_eq)
  qed
qed

text \<open>Building it from an accepted graph.\<close>

lemma add_input_for:
  assumes "block_ok b" and "bid b \<notin> set (map bid us)" and "injector_for us ij"
  shows "soundE (injector_for (us @ [b])) (add_input b ij)"
proof -
  have v: "validate_config b = Inr ()" using assms(1) by (simp add: block_ok_def)
  have new: "map_of (ij_input_types ij) (bid b) = None"
    using injector_forD(2) [OF assms(3)] assms(2) by (cases "map_of (ij_input_types ij) (bid b)") auto
  have keep: "map_of (AList.update (bid b) t (ij_input_types ij)) (bid u) = input_type (bkind u)"
    if "u \<in> set us" for u t
  proof -
    have "bid u \<noteq> bid b" using that assms(2) by (metis image_eqI list.set_map)
    then show ?thesis using that assms(3) by (simp add: injector_for_def)
  qed
  show ?thesis
  proof (cases "bkind b = NUMERIC_INPUT")
    case True
    have "cfg_numeric_opt (bconfig b) ''default''"
      using validate_configD(3) [OF v True]
      by (auto simp: check_numeric_input_def cfg_numeric_opt_def split: option.splits)
    then have "soundE (\<lambda>_. True) (cfg_float (bconfig b) ''default'' (Fin 0))" by (rule sound_cfg_float)
    then show ?thesis
      unfolding add_input_def if_P [OF True]
    proof (rule soundE_bind)
      fix x :: pyfloat
      show "soundE (injector_for (us @ [b]))
         (Inr (ij\<lparr>ij_input_types := AList.update (bid b) NUMERIC (ij_input_types ij),
                ij_defaults := AList.update (bid b) (PFloat x) (ij_defaults ij)\<rparr>))"
        using keep True assms(3) by (auto simp: injector_for_def)
    qed
  next
    case False
    note not_numeric = False
    show ?thesis
    proof (cases "bkind b = BOOLEAN_INPUT")
      case True
      then show ?thesis using keep assms(3) by (auto simp: add_input_def injector_for_def)
    next
      case False
      then have none: "input_type (bkind b) = None" using not_numeric by (cases "bkind b") simp_all
      have "injector_for (us @ [b]) ij" using none new assms(3) by (simp add: injector_for_def)
      then show ?thesis using False not_numeric by (simp add: add_input_def)
    qed
  qed
qed

lemma injector_init_sound:
  assumes g: "graph_ok g"
  shows "soundE (\<lambda>ij. injector_for (blocks g) ij \<and> ij_state ij = []) (injector_init g)"
  unfolding injector_init_def
proof (rule soundE_foldE_prefix [where I = "\<lambda>us ij. injector_for us ij \<and> ij_state ij = []"])
  fix us b vs ij
  assume split: "blocks g = us @ b # vs" and ij: "injector_for us ij \<and> ij_state ij = []"
  have "block_ok b" using graph_okD(5) [OF g] split by simp
  moreover have "bid b \<notin> set (map bid us)"
    using graph_okD(4) [OF g] by (simp add: block_ids_def split)
  ultimately have "soundE (injector_for (us @ [b])) (add_input b ij)"
    using ij by (intro add_input_for) simp_all
  moreover have "ij_state ij' = []" if "add_input b ij = Inr ij'" for ij'
    using that ij by (auto simp: add_input_def bindE_eq_Inr split: if_splits)
  ultimately show "soundE (\<lambda>ij. injector_for (us @ [b]) ij \<and> ij_state ij = []) (add_input b ij)"
    by (cases "add_input b ij") simp_all
qed (simp add: injector_for_def)

section \<open>Applying faults\<close>

text \<open>What the injector's own validation establishes of one fault.\<close>

definition fault_valid :: "data_type dict \<Rightarrow> fault_injection \<Rightarrow> bool" where
  "fault_valid types f \<longleftrightarrow> (\<exists>t. map_of types (fi_target f) = Some t
     \<and> (fi_kind f \<in> {BIAS, SCALE, DRIFT} \<longrightarrow> t = NUMERIC) \<and> (fi_kind f = INVERT \<longrightarrow> t = BOOLEAN)
     \<and> (fi_kind f \<in> {FORCE, DROPOUT} \<longrightarrow> is_bool (fi_value f) = (t = BOOLEAN)))
     \<and> (\<forall>q. fi_quality_target f = Some q \<longrightarrow> map_of types q = Some BOOLEAN)"

lemma validate_fault_valid: "validate_fault types f ts = Inr ts' \<Longrightarrow> fault_valid types f \<and> ts' = fi_target f # ts
    \<and> fi_target f \<notin> set ts"
  by (auto simp: validate_fault_def fault_valid_def raise_if_eq_Inr split: option.splits)

lemma foldE_validate:
  "foldE (validate_fault types) fs ts = Inr ts' \<Longrightarrow> distinct ts \<Longrightarrow>
     list_all (fault_valid types) fs \<and> distinct (map fi_target fs @ ts)"
proof (induction fs arbitrary: ts)
  case (Cons f fs)
  obtain u where u: "validate_fault types f ts = Inr u" "foldE (validate_fault types) fs u = Inr ts'"
    using Cons.prems(1) by (auto simp: bindE_eq_Inr)
  have v: "fault_valid types f" "u = fi_target f # ts" "fi_target f \<notin> set ts"
    using validate_fault_valid [OF u(1)] by simp_all
  have "distinct u" using v(2,3) Cons.prems(2) by simp
  from Cons.IH [OF u(2) this] show ?case using v by auto
qed simp

lemma validate_faultsD:
  assumes "validate_faults types fs = Inr u"
  shows "list_all (fault_valid types) fs" and "distinct (map fi_target fs)"
proof -
  obtain ts where "foldE (validate_fault types) fs [] = Inr ts"
    using assms by (auto simp: validate_faults_def mapE_eq_Inr)
  from foldE_validate [OF this] show "list_all (fault_valid types) fs" "distinct (map fi_target fs)"
    by auto
qed

text \<open>An applied value has the type of its target.\<close>

lemma fault_ok_value:
  assumes "fault_ok f"
  shows "fi_kind f \<in> {BIAS, SCALE, DRIFT} \<Longrightarrow> is_number (fi_value f)"
    and "fi_value f \<noteq> PNone \<Longrightarrow> float_or_bool (fi_value f)"
  using assms
  by (auto simp: fault_ok_def parameters_match_kind_def Let_def guarded_def need_iffs bindE_eq_Inr
      dest: finite_number_Inr)

lemma sound_scaled:
  assumes "is_number raw" and "is_number v"
  shows "soundE is_number (bindE (py_float raw) (\<lambda>x. bindE (py_float v) (\<lambda>y. Inr (PFloat (op x y)))))"
  using assms by (intro soundE_bind [OF soundE_py_float]) simp_all

lemma applied_value_typed:
  assumes f: "fault_ok f" and t: "map_of types (fi_target f) = Some t" and v: "fault_valid types f"
    and raw: "has_type t raw" and cap: "has_type t (fs_captured st)"
  shows "soundE (has_type t) (applied_value f raw st)"
proof (cases "fi_kind f \<in> {BIAS, SCALE, DRIFT}")
  case True
  then have "t = NUMERIC" using v t by (auto simp: fault_valid_def)
  moreover have "soundE is_number (applied_value f raw st)"
    using True raw \<open>t = NUMERIC\<close> fault_ok_value(1) [OF f True]
    by (auto simp: applied_value_def intro: sound_scaled)
  ultimately show ?thesis by (auto elim: soundE_mono)
next
  case False
  have "fi_value f \<noteq> PNone \<Longrightarrow> fi_kind f \<in> {FORCE, DROPOUT} \<Longrightarrow> has_type t (fi_value f)"
    using v t fault_ok_value(2) [OF f] by (cases t) (auto simp: fault_valid_def float_or_bool_def)
  moreover have "fi_kind f = INVERT \<Longrightarrow> t = BOOLEAN" using v t by (auto simp: fault_valid_def)
  ultimately show ?thesis
    using False cap by (cases "fi_kind f") (auto simp: applied_value_def)
qed

text \<open>One fault, and a list of them.\<close>

definition injection_ok :: "data_type dict \<Rightarrow> injection \<Rightarrow> bool" where
  "injection_ok types s \<longleftrightarrow> (case s of (effective, _, states) \<Rightarrow>
     typed_by types effective \<and> captured_ok types states)"

lemma fst_signature: "fst (fault_signature f) = fi_target f"
  by (simp add: fault_signature_def)

lemma fault_state_of_typed:
  assumes "captured_ok types states" and "map_of types (fi_target f) = Some t" and "has_type t raw"
  shows "has_type t (fs_captured (fault_state_of f raw (map_of states i)))"
    and "fst (fs_signature (fault_state_of f raw (map_of states i))) = fi_target f"
proof -
  have sig: "same_signature a (fault_signature f) \<Longrightarrow> fst a = fi_target f" for a
    by (auto simp: same_signature_def fault_signature_def split: prod.splits)
  show "fst (fs_signature (fault_state_of f raw (map_of states i))) = fi_target f"
    by (cases "map_of states i") (auto simp: fault_state_of_def Let_def fst_signature dest: sig)
  show "has_type t (fs_captured (fault_state_of f raw (map_of states i)))"
  proof (cases "map_of states i")
    case (Some st)
    then have "same_signature (fs_signature st) (fault_signature f) \<Longrightarrow> has_type t (fs_captured st)"
      using assms(1,2) sig by (simp add: captured_ok_def)
    then show ?thesis using Some assms(3) by (simp add: fault_state_of_def Let_def)
  qed (simp add: fault_state_of_def Let_def assms(3))
qed

lemma captured_ok_update:
  "captured_ok types states \<Longrightarrow> (\<And>t. map_of types (fst (fs_signature st)) = Some t \<Longrightarrow> has_type t (fs_captured st)) \<Longrightarrow>
     captured_ok types (AList.update i st states)"
  by (auto simp: captured_ok_def)

lemma apply_fault_sound:
  assumes ij: "injector_for bs ij" and ins: "typed_by (ij_input_types ij) ins"
    and f: "fault_ok f" and v: "fault_valid (ij_input_types ij) f" and s: "injection_ok (ij_input_types ij) s"
  shows "soundE (injection_ok (ij_input_types ij)) (apply_fault (ij_defaults ij) ins step f s)"
proof -
  let ?types = "ij_input_types ij"
  obtain effective ev states where seq: "s = (effective, ev, states)" by (cases s)
  obtain t where t: "map_of ?types (fi_target f) = Some t" using v by (auto simp: fault_valid_def)
  obtain d where d: "map_of (ij_defaults ij) (fi_target f) = Some d" "has_type t d"
    using injector_forD(3) [OF ij t] by blast
  let ?raw = "cfg_get ins (fi_target f) d"
  let ?st = "fault_state_of f ?raw (map_of states (fi_id f))"
  let ?st' = "?st\<lparr>fs_elapsed := fadd (fs_elapsed ?st) step\<rparr>"
  have raw: "has_type t ?raw"
    using typed_byD [OF ins t] d(2) by (simp add: cfg_get_def split: option.splits)
  have cap: "captured_ok ?types states" and eff: "typed_by ?types effective"
    using s by (simp_all add: injection_ok_def seq)
  note st = fault_state_of_typed [OF cap t raw, of "fi_id f"]
  have q: "typed_by ?types (AList.update q (PBool False) e)"
    if "typed_by ?types e" "fi_quality_target f = Some q" for e q
    using that v by (intro typed_by_update) (auto simp: fault_valid_def)
  have st': "captured_ok ?types (AList.update (fi_id f) ?st' states)"
    using cap st t by (intro captured_ok_update) simp_all
  have "soundE (has_type t) (applied_value f ?raw ?st')"
    using st(1) by (intro applied_value_typed [OF f t v raw]) simp
  then show ?thesis
    unfolding apply_fault_def seq prod.case Let_def dict_get_def d option.case bindE_Inr
  proof (rule soundE_bind)
    fix applied assume "has_type t applied"
    then have "typed_by ?types (AList.update (fi_target f) applied effective)"
      using eff t by (intro typed_by_update) simp_all
    then show "soundE (injection_ok ?types) (Inr (case fi_quality_target f of
         None \<Rightarrow> AList.update (fi_target f) applied effective
       | Some q \<Rightarrow> AList.update q (PBool False) (AList.update (fi_target f) applied effective),
       fault_evidence f ?raw applied ?st' ev, AList.update (fi_id f) ?st' states))"
      using st' q by (cases "fi_quality_target f") (simp_all add: injection_ok_def)
  qed
qed

text \<open>The state of the injector between scans.\<close>

definition injector_ok :: "control_graph \<Rightarrow> injector \<Rightarrow> bool" where
  "injector_ok g ij \<longleftrightarrow> injector_for (blocks g) ij \<and> captured_ok (ij_input_types ij) (ij_state ij)"

lemma map_of_filter_key: "map_of (filter (\<lambda>(k, _). P k) d) i = (if P i then map_of d i else None)"
  by (induction d) auto

lemma captured_ok_drop: "captured_ok types states \<Longrightarrow> captured_ok types (drop_inactive fs states)"
  by (simp add: captured_ok_def drop_inactive_def map_of_filter_key)

lemma apply_faults_sound:
  assumes ij: "injector_ok g ij" and ins: "names_typed g ins" and fs: "list_all fault_ok fs"
  shows "soundE (\<lambda>(effective, ev, ij'). names_typed g effective \<and> injector_ok g ij') (apply_faults ij ins fs step)"
proof (cases "validate_faults (ij_input_types ij) fs")
  case (Inl e)
  then have "\<exists>m. e = ValueError m"
    unfolding validate_faults_def mapE_def bindE_eq_Inl
  proof (elim disjE exE conjE)
    have "foldE (validate_fault types) fs ts = Inl e \<Longrightarrow> \<exists>m. e = ValueError m" for types ts
      by (induction fs arbitrary: ts)
        (auto simp: bindE_eq_Inl validate_fault_def raise_if_def split: option.splits if_splits)
    then show "foldE (validate_fault (ij_input_types ij)) fs [] = Inl e \<Longrightarrow> \<exists>m. e = ValueError m" by blast
  qed simp
  then show ?thesis using Inl by (auto simp: apply_faults_def)
next
  case (Inr u)
  let ?types = "ij_input_types ij"
  have for_g: "injector_for (blocks g) ij" and cap: "captured_ok ?types (ij_state ij)"
    using ij by (simp_all add: injector_ok_def)
  have typed: "typed_by ?types ins" using ins injector_names_typed [OF for_g] by simp
  have valid: "list_all (fault_valid ?types) fs" by (rule validate_faultsD(1) [OF Inr])
  have "soundE (injection_ok ?types)
      (foldE (apply_fault (ij_defaults ij) ins step) fs (ins, [], drop_inactive fs (ij_state ij)))"
  proof (rule soundE_foldE)
    show "injection_ok ?types (ins, [], drop_inactive fs (ij_state ij))"
      using typed captured_ok_drop [OF cap] by (simp add: injection_ok_def)
    show "soundE (injection_ok ?types) (apply_fault (ij_defaults ij) ins step f s)"
      if "f \<in> set fs" "injection_ok ?types s" for f s
      using that valid fs by (intro apply_fault_sound [OF for_g typed]) (auto simp: list_all_iff)
  qed
  then show ?thesis
    unfolding apply_faults_def Inr bindE_Inr
  proof (rule soundE_bind)
    fix s assume s: "injection_ok ?types s"
    obtain effective ev states where seq: "s = (effective, ev, states)" by (cases s)
    have "names_typed g effective" using s injector_names_typed [OF for_g] by (simp add: injection_ok_def seq)
    moreover have "injector_ok g (ij\<lparr>ij_state := states\<rparr>)"
      using s for_g by (simp add: injection_ok_def seq injector_ok_def injector_for_def)
    ultimately show "soundE (\<lambda>(effective, ev, ij'). names_typed g effective \<and> injector_ok g ij')
        (case s of (effective, ev, states) \<Rightarrow> Inr (effective, ev, ij\<lparr>ij_state := states\<rparr>))"
      by (simp add: seq)
  qed
qed

section \<open>Running a case\<close>

definition harness_ok :: "control_graph \<Rightarrow> harness \<Rightarrow> bool" where
  "harness_ok g h \<longleftrightarrow> injector_ok g (hn_injector h) \<and> states_ok (in_state (hn_interp h))"

text \<open>What the contract gives the interpreter: an accepted graph whose inputs all have typed
  defaults.\<close>

definition runnable :: "control_graph \<Rightarrow> bool" where
  "runnable g \<longleftrightarrow> graph_ok g \<and> configs_ok g \<and> defaults_declared g"

lemma evaluate_harness:
  assumes g: "runnable g" and h: "harness_ok g h" and ins: "names_typed g ins" and fs: "list_all fault_ok fs"
    and k: "\<And>effective ev ij vals ip. injector_ok g ij \<Longrightarrow> states_ok (in_state ip) \<Longrightarrow>
      vals_ok (blocks g) vals \<Longrightarrow> Q (k ev ij vals ip)"
  shows "soundE Q (bindE (apply_faults (hn_injector h) ins fs step) (\<lambda>(effective, ev, ij).
     bindE (evaluate g (hn_interp h) effective step) (\<lambda>(vals, ip). Inr (k ev ij vals ip))))"
proof -
  have A: "soundE (\<lambda>(effective, ev, ij'). names_typed g effective \<and> injector_ok g ij')
      (apply_faults (hn_injector h) ins fs step)"
    using h by (intro apply_faults_sound ins fs) (simp add: harness_ok_def)
  have E: "soundE (\<lambda>(vals, ip'). vals_ok (blocks g) vals \<and> states_ok (in_state ip'))
      (evaluate g (hn_interp h) effective step)" if "names_typed g effective" for effective
    using g h names_typed_inputs [OF that]
    by (intro evaluate_sound) (simp_all add: runnable_def harness_ok_def)
  show ?thesis
  proof (rule soundE_bind [OF A])
    fix r :: "pyval dict \<times> pyval dict \<times> injector"
    assume r: "case r of (effective, ev, ij') \<Rightarrow> names_typed g effective \<and> injector_ok g ij'"
    obtain effective ev ij where req: "r = (effective, ev, ij)" by (cases r)
    have n: "names_typed g effective" "injector_ok g ij" using r by (simp_all add: req)
    have "soundE Q (bindE (evaluate g (hn_interp h) effective step) (\<lambda>(vals, ip). Inr (k ev ij vals ip)))"
      by (rule soundE_bind [OF E [OF n(1)]]) (use k n(2) in auto)
    then show "soundE Q (case r of (effective, ev, ij) \<Rightarrow>
        bindE (evaluate g (hn_interp h) effective step) (\<lambda>(vals, ip). Inr (k ev ij vals ip)))"
      by (simp add: req)
  qed
qed

lemma prime_sound:
  assumes "runnable g" "harness_ok g h" "names_typed g ins" "list_all fault_ok fs"
  shows "soundE (harness_ok g) (prime g ins fs h)"
proof -
  have "prime g ins fs h = bindE (apply_faults (hn_injector h) ins fs (Fin 0)) (\<lambda>(effective, ev, ij).
     bindE (evaluate g (hn_interp h) effective (Fin 0)) (\<lambda>(vals, ip).
       Inr (h\<lparr>hn_interp := ip, hn_injector := ij\<rparr>)))"
    by (simp add: prime_def)
  moreover have "soundE (harness_ok g) \<dots>"
    by (rule evaluate_harness [OF assms]) (simp add: harness_ok_def)
  ultimately show ?thesis by (simp only:)
qed

abbreviation scanned :: "control_graph \<Rightarrow> harness \<Rightarrow> bool" where
  "scanned g h \<equiv> harness_ok g h \<and> vals_ok (blocks g) (hn_values h)"

lemma scan_once_sound:
  assumes "runnable g" "harness_ok g h" "names_typed g ins" "list_all fault_ok fs"
  shows "soundE (scanned g) (scan_once g ins fs step header h)"
  unfolding scan_once_def Let_def
  by (rule evaluate_harness [OF assms]) (simp add: harness_ok_def)

lemma scan_repeat_sound:
  assumes "runnable g" "names_typed g ins" "list_all fault_ok fs" and "harness_ok g h"
    and "n = 0 \<Longrightarrow> vals_ok (blocks g) (hn_values h)"
  shows "soundE (scanned g) (scan_repeat g ins fs step header i n h)"
  using assms(4,5)
proof (induction n arbitrary: i h)
  case (Suc n)
  show ?case
    unfolding scan_repeat.simps
    by (rule soundE_bind [OF scan_once_sound [OF assms(1) Suc.prems(1) assms(2,3)]])
       (use Suc.IH in simp)
qed simp

section \<open>Judging a case\<close>

lemma comparison_sound:
  assumes "float_or_bool observed" and "float_or_bool expected"
  shows "soundE (\<lambda>_. True) (compare_values observed op expected upper tolerance)"
proof -
  consider "is_bool expected" | "\<not> is_bool expected" "is_bool observed"
    | "\<not> is_bool expected" "\<not> is_bool observed" "is_number observed" "is_number expected"
    using assms by (auto simp: float_or_bool_def)
  then show ?thesis
  proof cases
    case 3
    then have "soundE (\<lambda>_. True) (py_float observed)" "soundE (\<lambda>_. True) (py_float expected)"
      by (simp_all add: soundE_py_float)
    then show ?thesis
      using 3 by (cases "py_float observed"; cases "py_float expected") (simp_all add: compare_values_def)
  qed (simp_all add: compare_values_def)
qed

lemma vals_ok_observed:
  assumes "vals_ok (blocks g) vals" and "i \<in> set (block_ids g)"
  shows "\<exists>v. map_of vals i = Some v \<and> float_or_bool v"
proof -
  obtain b where b: "b \<in> set (blocks g)" "bid b = i" using assms(2) by (auto simp: block_ids_def)
  then have "block_value vals b" using assms(1) by (simp add: vals_ok_def)
  then obtain v t where "map_of vals i = Some v" "has_type t v"
    using b(2) by (auto simp: block_value_def)
  then show ?thesis by (cases t) (auto simp: float_or_bool_def)
qed

lemma soundE_traverseE:
  "(\<And>x. x \<in> set xs \<Longrightarrow> soundE (\<lambda>_. True) (f x)) \<Longrightarrow> soundE (\<lambda>_. True) (traverseE f xs)"
proof (induction xs)
  case (Cons x xs)
  have "soundE (\<lambda>_. True) (f x)" "soundE (\<lambda>_. True) (traverseE f xs)"
    using Cons by simp_all
  then show ?case by (cases "f x"; cases "traverseE f xs") simp_all
qed simp

lemma evaluate_expectations_sound:
  assumes "vals_ok (blocks g) vals" and "list_all expectation_ok es"
  shows "soundE (\<lambda>_. True) (evaluate_expectations label es vals (block_ids g))"
  unfolding evaluate_expectations_def
proof (rule soundE_traverseE)
  fix e assume "e \<in> set es"
  then have e: "float_or_bool (ex_value e)" using assms(2) by (auto simp: list_all_iff expectation_ok_def)
  show "soundE (\<lambda>_. True) (evaluate_expectation label vals (block_ids g) e)"
  proof (cases "ex_target e \<in> set (block_ids g)")
    case True
    then obtain v where "map_of vals (ex_target e) = Some v" "float_or_bool v"
      using vals_ok_observed [OF assms(1)] by blast
    then show ?thesis
      using comparison_sound [OF _ e] True by (auto simp: evaluate_expectation_def dict_get_def intro!: soundE_mapE)
  qed (simp add: evaluate_expectation_def)
qed

section \<open>A whole case\<close>

text \<open>Every input a case supplies is typed by the input block of that name, if there is one.\<close>

definition input_declared :: "control_graph \<Rightarrow> string \<times> pyval \<Rightarrow> bool" where
  "input_declared g nv \<longleftrightarrow> (\<forall>b \<in> set (blocks g). bid b = fst nv \<longrightarrow>
     (bkind b = NUMERIC_INPUT \<longrightarrow> is_number (snd nv)) \<and> (bkind b = BOOLEAN_INPUT \<longrightarrow> is_bool (snd nv)))"

lemma input_declaredD: "input_declared g nv \<Longrightarrow> b \<in> set (blocks g) \<Longrightarrow> bid b = fst nv \<Longrightarrow>
    (bkind b = NUMERIC_INPUT \<longrightarrow> is_number (snd nv)) \<and> (bkind b = BOOLEAN_INPUT \<longrightarrow> is_bool (snd nv))"
  by (simp add: input_declared_def)

lemma names_typed_update:
  assumes d: "names_typed g d" and e: "list_all (input_declared g) e"
  shows "names_typed g (dict_update d e)"
proof -
  have "(bkind b = NUMERIC_INPUT \<longrightarrow> is_number v) \<and> (bkind b = BOOLEAN_INPUT \<longrightarrow> is_bool v)"
    if b: "b \<in> set (blocks g)" and v: "map_of (dict_update d e) (bid b) = Some v" for b v
  proof (cases "map_of (rev e) (bid b)")
    case None
    then have "map_of d (bid b) = Some v" using v by (simp add: map_of_dict_update)
    then show ?thesis using d b by (simp add: names_typed_def)
  next
    case (Some w)
    then have "w = v" using v by (simp add: map_of_dict_update)
    then have "(bid b, v) \<in> set e" using map_of_SomeD [OF Some] by simp
    then have "input_declared g (bid b, v)" using e by (auto simp: list_all_iff)
    from input_declaredD [OF this b] show ?thesis by simp
  qed
  then show ?thesis unfolding names_typed_def by blast
qed

lemma names_typed_Nil: "names_typed g []"
  by (simp add: names_typed_def)

lemma names_typed_declared: "list_all (input_declared g) d \<Longrightarrow> names_typed g d"
  unfolding names_typed_def list_all_iff
  by (metis fst_conv input_declaredD map_of_SomeD snd_conv)

lemma run_phases_sound:
  assumes g: "runnable g"
  shows "names_typed g current \<Longrightarrow> harness_ok g h \<Longrightarrow> list_all phase_ok ps \<Longrightarrow>
     list_all (\<lambda>p. list_all (input_declared g) (ph_inputs p)) ps \<Longrightarrow>
     (ps = [] \<Longrightarrow> vals_ok (blocks g) (hn_values h)) \<Longrightarrow>
     soundE (\<lambda>(h, as). vals_ok (blocks g) (hn_values h)) (run_phases g name i ps current h as)"
proof (induction ps arbitrary: i current h as)
  case (Cons p ps)
  have p: "repeat_ok (ph_repeat p)" "list_all fault_ok (ph_faults p)" "list_all expectation_ok (ph_expectations p)"
    using Cons.prems(3) by (simp_all add: phase_ok_def)
  let ?cur = "dict_update current (ph_inputs p)"
  have cur: "names_typed g ?cur" using Cons.prems(1,4) by (intro names_typed_update) simp_all
  have N: "soundE (\<lambda>(h, as). vals_ok (blocks g) (hn_values h))
      (bindE (evaluate_expectations (name @ '' / '' @ ph_name p) (ph_expectations p) (hn_values h2) (block_ids g))
        (\<lambda>new. run_phases g name (Suc i) ps ?cur h2 (as @ new)))" if "scanned g h2" for h2
    by (rule soundE_bind [OF evaluate_expectations_sound [OF _ p(3)]])
       (use that cur Cons.prems(3,4) Cons.IH in auto)
  have R: "soundE (scanned g) (scan_repeat g ?cur (ph_faults p) (ph_step_seconds p) (timeline_header i) 0 (ph_repeat p) h1)"
    if "harness_ok g h1" for h1
    using p(1) by (intro scan_repeat_sound g cur p(2) that) (simp add: repeat_ok_def)
  show ?case
    unfolding run_phases.simps Let_def
    by (rule soundE_bind [OF prime_sound [OF g Cons.prems(2) cur p(2)]], rule soundE_bind [OF R], assumption, rule N)
qed simp

lemma concat_map_memI: "x \<in> set xs \<Longrightarrow> y \<in> set (f x) \<Longrightarrow> y \<in> set (concat (map f xs))"
  by auto

lemma run_case_sound:
  assumes g: "runnable g" and c: "case_ok c" and ins: "list_all (input_declared g) (case_inputs c)"
  shows "soundE (\<lambda>_. True) (run_case g c)"
proof -
  have run: "soundE (\<lambda>(h, as). vals_ok (blocks g) (hn_values h))
      (if ac_timeline c \<noteq> [] then run_phases g (ac_name c) 1 (ac_timeline c) [] h []
       else bindE (prime g (ac_inputs c) (ac_faults c) h) (\<lambda>h.
            bindE (scan_repeat g (ac_inputs c) (ac_faults c) (ac_step_seconds c) single_header 0 (ac_repeat c) h)
              (\<lambda>h. Inr (h, []))))"
    if h: "harness_ok g h" for h
  proof (cases "ac_timeline c = []")
    case False
    have ps: "list_all phase_ok (ac_timeline c)" using c by (simp add: case_ok_def)
    have "list_all (\<lambda>p. list_all (input_declared g) (ph_inputs p)) (ac_timeline c)"
      using ins unfolding list_all_iff case_inputs_def by (metis Un_iff concat_map_memI set_append)
    then show ?thesis
      using False by (simp, intro run_phases_sound [OF g names_typed_Nil h ps]) simp_all
  next
    case True
    have t: "names_typed g (ac_inputs c)"
      using ins by (intro names_typed_declared) (simp add: case_inputs_def)
    have f: "list_all fault_ok (ac_faults c)" and r: "ac_repeat c \<noteq> 0"
      using c by (auto simp: case_ok_def repeat_ok_def)
    have R: "soundE (scanned g)
        (scan_repeat g (ac_inputs c) (ac_faults c) (ac_step_seconds c) single_header 0 (ac_repeat c) h1)"
      if "harness_ok g h1" for h1
      using r by (intro scan_repeat_sound g t f that) simp
    show ?thesis
      using True
      by (simp, intro soundE_bind [OF prime_sound [OF g h t f]] soundE_bind [OF R]) simp_all
  qed
  have I: "soundE (\<lambda>ij. injector_ok g ij) (injector_init g)"
    using g by (intro soundE_mono [OF injector_init_sound]) (auto simp: runnable_def injector_ok_def captured_ok_def)
  have es: "list_all expectation_ok (ac_expectations c)" using c by (simp add: case_ok_def)
  show ?thesis
    unfolding run_case_def Let_def
  proof (rule soundE_bind [OF I], rule soundE_bind [OF run])
    show "harness_ok g \<lparr>hn_interp = interp_init, hn_injector = ij, hn_values = [], hn_samples = [], hn_scan = 0\<rparr>"
      if "injector_ok g ij" for ij
      using that by (simp add: harness_ok_def interp_init_def states_ok_def)
  next
    fix r :: "harness \<times> assertion_result list"
    assume r: "case r of (h, as) \<Rightarrow> vals_ok (blocks g) (hn_values h)"
    obtain h as where req: "r = (h, as)" by (cases r)
    have "soundE (\<lambda>_. True) (bindE (evaluate_expectations (ac_name c) (ac_expectations c) (hn_values h) (block_ids g))
        (\<lambda>final. Inr \<lparr>sr_name = ac_name c, sr_passed = list_all as_passed (as @ final),
           sr_assertions = as @ final, sr_samples = hn_samples h\<rparr>))"
      using r by (intro soundE_bind [OF evaluate_expectations_sound [OF _ es]]) (simp_all add: req)
    then show "soundE (\<lambda>_. True) (case r of (h, as) \<Rightarrow>
        bindE (evaluate_expectations (ac_name c) (ac_expectations c) (hn_values h) (block_ids g))
          (\<lambda>final. Inr \<lparr>sr_name = ac_name c, sr_passed = list_all as_passed (as @ final),
             sr_assertions = as @ final, sr_samples = hn_samples h\<rparr>))"
      by (simp add: req)
  qed
qed

section \<open>From the contract to the suite\<close>

lemma traverseE_memberD: "traverseE f xs = Inr ys \<Longrightarrow> x \<in> set xs \<Longrightarrow> \<exists>y. f x = Inr y"
  by (induction xs arbitrary: ys) (auto simp: bindE_eq_Inr)

lemma contract_inputs:
  assumes g: "graph_ok g" and con: "validate_job_graph_contract job g = Inr ()" and c: "c \<in> set (jb_acceptance_tests job)"
  shows "list_all (input_declared g) (case_inputs c)"
proof -
  let ?ins = "blocks_where (is_input_kind \<circ> bkind) g"
  let ?outs = "blocks_where (is_output_kind \<circ> bkind) g"
  have ne: "jb_acceptance_tests job \<noteq> []" using c by auto
  obtain covered where "traverseE (validate_case ?ins ?outs) (jb_acceptance_tests job) = Inr covered"
    using con ne by (auto simp: validate_job_graph_contract_def Let_def bindE_eq_Inr raise_if_eq_Inr)
  then obtain out where "validate_case ?ins ?outs c = Inr out"
    using c traverseE_memberD by metis
  then have chk: "check_case_input ?ins nv = Inr ()" if "nv \<in> set (case_inputs c)" for nv
    using that by (auto simp: validate_case_def bindE_eq_Inr checks_Inr_iff)
  show ?thesis
    unfolding list_all_iff input_declared_def
  proof (intro ballI impI)
    fix nv b assume nv: "nv \<in> set (case_inputs c)" and b: "b \<in> set (blocks g)" and i: "bid b = fst nv"
    obtain b' where b': "map_of ?ins (fst nv) = Some b'" "bindE (boundary_type b') (assert_value_type (snd nv)) = Inr ()"
      using chk [OF nv] by (auto simp: check_case_input_def split: option.splits)
    have "b' \<in> set (blocks g)" "is_input_kind (bkind b')" "bid b' = fst nv"
      using map_of_dict_of_Some [OF b'(1) [unfolded blocks_where_def]] by auto
    then have eq: "b' = b"
      using graph_okD(4) [OF g] b i by (auto simp: block_ids_def distinct_map inj_on_def)
    then show "(bkind b = NUMERIC_INPUT \<longrightarrow> is_number (snd nv)) \<and> (bkind b = BOOLEAN_INPUT \<longrightarrow> is_bool (snd nv))"
      using b'(2) by (auto simp: bindE_eq_Inr boundary_type_def assert_value_type_Inr split: if_splits)
  qed
qed

lemma selector_source_sound: "soundE (\<lambda>_. True) (selector_source g b)"
  by (simp add: selector_source_def split: list.splits)

lemma decision_coverage_sound: "soundE (\<lambda>_. True) (decision_coverage g results)"
proof -
  have "soundE (\<lambda>_. True) (decisions_of g)"
    unfolding decisions_of_def
    by (intro soundE_bind [OF soundE_traverseE] soundE_mapE selector_source_sound) simp
  then show ?thesis
    unfolding decision_coverage_def Let_def by (rule soundE_bind) simp
qed

lemma suite_sound:
  assumes g: "graph_ok g" and c: "configs_ok g" and con: "validate_job_graph_contract job g = Inr ()"
    and tests: "list_all case_ok (jb_acceptance_tests job)"
  shows "soundE (\<lambda>_. True) (run_generic_acceptance_suite g (jb_acceptance_tests job) profile)"
proof -
  have r: "runnable g" using g c contract_defaults [OF con g] by (simp add: runnable_def)
  have "soundE (\<lambda>_. True) (traverseE (run_case g) (jb_acceptance_tests job))"
    using tests contract_inputs [OF g con]
    by (intro soundE_traverseE run_case_sound [OF r]) (auto simp: list_all_iff)
  then show ?thesis
    unfolding run_generic_acceptance_suite_def
    by (rule soundE_bind, intro soundE_bind [OF decision_coverage_sound]) simp
qed

end
