(* ===== verification/PyTime.thy ===== *)
theory PyTime
  imports PyValue
begin

text \<open>
  Aware and naive \<open>datetime\<close> values as the standard library computes with them: the proleptic
  Gregorian calendar, comparison and difference of aware values through their UTC instant,
  \<open>timedelta.total_seconds\<close>, and \<open>isoformat\<close>.
\<close>

record datetime =
  dt_year :: int
  dt_month :: int
  dt_day :: int
  dt_hour :: int
  dt_minute :: int
  dt_second :: int
  dt_microsecond :: int
  dt_offset :: "int option"

section \<open>The calendar\<close>

definition is_leap :: "int \<Rightarrow> bool" where
  "is_leap y \<longleftrightarrow> y mod 4 = 0 \<and> (y mod 100 \<noteq> 0 \<or> y mod 400 = 0)"

definition days_before_year :: "int \<Rightarrow> int" where
  "days_before_year y = (let p = y - 1 in p * 365 + p div 4 - p div 100 + p div 400)"

definition month_lengths :: "int \<Rightarrow> int list" where
  "month_lengths y = [31, if is_leap y then 29 else 28, 31, 30, 31, 30, 31, 31, 30, 31, 30, 31]"

definition days_before_month :: "int \<Rightarrow> int \<Rightarrow> int" where
  "days_before_month y m = sum_list (take (nat (m - 1)) (month_lengths y))"

definition ordinal :: "datetime \<Rightarrow> int" where
  "ordinal d = days_before_year (dt_year d) + days_before_month (dt_year d) (dt_month d) + dt_day d"

text \<open>The UTC instant in microseconds; the offset is in seconds.\<close>

definition instant :: "datetime \<Rightarrow> int" where
  "instant d = ((ordinal d * 86400 + dt_hour d * 3600 + dt_minute d * 60 + dt_second d)
                - (case dt_offset d of None \<Rightarrow> 0 | Some s \<Rightarrow> s)) * 1000000 + dt_microsecond d"

definition is_aware :: "datetime \<Rightarrow> bool" where
  "is_aware d \<longleftrightarrow> dt_offset d \<noteq> None"

text \<open>\<open>(a - b).total_seconds()\<close>: the difference in microseconds over a million, rounded once.\<close>

definition seconds_since :: "datetime \<Rightarrow> datetime \<Rightarrow> pyfloat" where
  "seconds_since a b = rnd (of_int (instant a - instant b) / 1000000)"

section \<open>\<open>isoformat\<close>\<close>

definition digit_char :: "int \<Rightarrow> char" where
  "digit_char n = char_of (nat (48 + n mod 10))"

fun pad_digits :: "nat \<Rightarrow> int \<Rightarrow> string" where
  "pad_digits 0 n = []"
| "pad_digits (Suc k) n = pad_digits k (n div 10) @ [digit_char n]"

definition iso_offset :: "int \<Rightarrow> string" where
  "iso_offset s =
     (let a = \<bar>s\<bar> in (if s < 0 then ''-'' else ''+'') @ pad_digits 2 (a div 3600) @ '':''
        @ pad_digits 2 (a div 60 mod 60) @ (if a mod 60 = 0 then [] else '':'' @ pad_digits 2 (a mod 60)))"

definition isoformat :: "datetime \<Rightarrow> string" where
  "isoformat d =
     pad_digits 4 (dt_year d) @ ''-'' @ pad_digits 2 (dt_month d) @ ''-'' @ pad_digits 2 (dt_day d) @ ''T''
     @ pad_digits 2 (dt_hour d) @ '':'' @ pad_digits 2 (dt_minute d) @ '':'' @ pad_digits 2 (dt_second d)
     @ (if dt_microsecond d = 0 then [] else ''.'' @ pad_digits 6 (dt_microsecond d))
     @ (case dt_offset d of None \<Rightarrow> [] | Some s \<Rightarrow> iso_offset s)"

text \<open>A date in UTC with the given seconds after midnight, for the examples.\<close>

definition at_second :: "int \<Rightarrow> datetime" where
  "at_second s = \<lparr>dt_year = 2026, dt_month = 1, dt_day = 2, dt_hour = s div 3600, dt_minute = s div 60 mod 60,
     dt_second = s mod 60, dt_microsecond = 0, dt_offset = Some 0\<rparr>"

lemma instant_at_second: "instant (at_second s) = instant (at_second 0) + s * 1000000"
proof -
  have "s div 3600 = s div 60 div 60" by (simp add: zdiv_zmult2_eq [symmetric])
  moreover have "s div 60 div 60 * 60 + s div 60 mod 60 = s div 60" by (rule div_mult_mod_eq)
  moreover have "s div 60 * 60 + s mod 60 = s" by (rule div_mult_mod_eq)
  ultimately have "s div 3600 * 3600 + s div 60 mod 60 * 60 + s mod 60 = s" by linarith
  then show ?thesis by (simp add: instant_def at_second_def ordinal_def algebra_simps)
qed

lemma seconds_since_at: "seconds_since (at_second a) (at_second b) = rnd (of_int (a - b))"
proof -
  have "instant (at_second a) - instant (at_second b) = (a - b) * 1000000"
    by (subst (1 2) instant_at_second) simp
  then have "of_int (instant (at_second a) - instant (at_second b)) / 1000000 = (of_int (a - b) :: rat)"
    by (simp only: of_int_mult of_int_numeral) simp
  then show ?thesis by (simp only: seconds_since_def)
qed

end
