(* ===== verification/Safety.thy ===== *)
theory Safety
  imports PyTime
begin

text \<open>
  The command policy gateway of \<open>src/bactalk/safety.py\<close>: the authorization kernel between an
  approved control program and a point that can be written.  It keeps the last accepted
  command of every point.  The keyed hash (\<open>hmac.new(key, payload, sha256).hexdigest()\<close>) is
  an argument of the definitions.
\<close>

datatype gateway_mode = Disabled | Simulation | IsolatedLab

datatype denial_code =
    GATEWAY_DISABLED | EMERGENCY_STOP | POINT_NOT_ALLOWLISTED | ARTIFACT_MISMATCH | LEASE_INVALID
  | TELEMETRY_STALE | OUT_OF_BOUNDS | RATE_LIMIT

record command_policy =
  np_point :: string
  np_minimum :: pyfloat
  np_maximum :: pyfloat
  np_max_delta_per_second :: pyfloat
  np_max_telemetry_age_seconds :: pyfloat

definition ordered_bounds :: "command_policy \<Rightarrow> unit result" where
  "ordered_bounds p = raise_if (fle (np_maximum p) (np_minimum p))
     ''command policy minimum must be less than maximum'' (Inr ())"

definition policy_ok :: "command_policy \<Rightarrow> bool" where
  "policy_ok p \<longleftrightarrow> is_ident (np_point p) \<and> fisfinite (np_minimum p) \<and> fisfinite (np_maximum p)
     \<and> fisfinite (np_max_delta_per_second p) \<and> fless (Fin 0) (np_max_delta_per_second p)
     \<and> fisfinite (np_max_telemetry_age_seconds p) \<and> fless (Fin 0) (np_max_telemetry_age_seconds p)
     \<and> ordered_bounds p = Inr ()"

record command_lease =
  cl_id :: string
  cl_artifact :: string
  cl_issued_by :: string
  cl_valid_from :: datetime
  cl_valid_until :: datetime
  cl_signature :: string

definition ordered_window :: "command_lease \<Rightarrow> unit result" where
  "ordered_window l =
     raise_if (\<not> is_aware (cl_valid_from l) \<or> \<not> is_aware (cl_valid_until l))
       ''command lease timestamps must be timezone-aware''
    (raise_if (instant (cl_valid_until l) \<le> instant (cl_valid_from l))
       ''command lease must have a positive validity window'' (Inr ()))"

record command_request =
  cr_id :: string
  cr_point :: string
  cr_value :: pyfloat
  cr_artifact :: string
  cr_lease_id :: string
  cr_telemetry_at :: datetime

definition aware_telemetry_time :: "command_request \<Rightarrow> unit result" where
  "aware_telemetry_time r = raise_if (\<not> is_aware (cr_telemetry_at r))
     ''telemetry timestamp must be timezone-aware'' (Inr ())"

record command_decision =
  cd_allowed :: bool
  cd_code :: "denial_code option"
  cd_reason :: string
  cd_evaluated_at :: datetime

record accepted_command =
  ac_value :: pyfloat
  ac_accepted_at :: datetime

text \<open>\<open>re.fullmatch(r"[a-f0-9]{64}", s)\<close>\<close>

definition hex_digit :: "char \<Rightarrow> bool" where
  "hex_digit c \<longleftrightarrow> ascii_digit c \<or> c \<in> set ''abcdef''"

definition sha256_shape :: "string \<Rightarrow> bool" where
  "sha256_shape s \<longleftrightarrow> length s = 64 \<and> list_all hex_digit s"

section \<open>Signatures\<close>

type_synonym keyed_hash = "string \<Rightarrow> string \<Rightarrow> string"

definition lease_payload :: "command_lease \<Rightarrow> string" where
  "lease_payload l =
     cl_id l @ [CHR 0x0A] @ cl_artifact l @ [CHR 0x0A] @ cl_issued_by l @ [CHR 0x0A]
     @ isoformat (cl_valid_from l) @ [CHR 0x0A] @ isoformat (cl_valid_until l)"

definition command_lease_signature :: "keyed_hash \<Rightarrow> command_lease \<Rightarrow> string \<Rightarrow> string result" where
  "command_lease_signature hmac l key =
     raise_if (length key < 32) ''command lease signing key must contain at least 32 bytes''
       (Inr (hmac key (lease_payload l)))"

section \<open>\<open>CommandPolicyGateway\<close>\<close>

record gateway =
  gw_policies :: "command_policy dict"
  gw_artifact :: string
  gw_key :: string
  gw_mode :: gateway_mode
  gw_emergency_stop :: bool
  gw_accepted :: "accepted_command dict"

definition gateway_init :: "command_policy list \<Rightarrow> string \<Rightarrow> string \<Rightarrow> gateway_mode \<Rightarrow> gateway result" where
  "gateway_init policies artifact key mode =
     (let table = dict_of np_point (\<lambda>p. p) policies in
      raise_if (length table \<noteq> length policies) ''command policies must have unique point names''
     (raise_if (\<not> sha256_shape artifact) ''approved artifact hash must be a lowercase SHA-256 digest''
     (raise_if (length key < 32) ''command lease verification key must contain at least 32 bytes''
       (Inr \<lparr>gw_policies = table, gw_artifact = artifact, gw_key = key, gw_mode = mode,
             gw_emergency_stop = False, gw_accepted = []\<rparr>))))"

text \<open>The rate check against the last accepted command of the point.\<close>

definition rate_exceeded :: "command_policy \<Rightarrow> accepted_command \<Rightarrow> pyfloat \<Rightarrow> datetime \<Rightarrow> bool" where
  "rate_exceeded p previous v t =
     (let elapsed = seconds_since t (ac_accepted_at previous);
          allowed_delta = fmul (np_max_delta_per_second p) (fmax (Fin 0) elapsed)
      in fless allowed_delta (fabs (fsub v (ac_value previous))))"

definition denial :: "keyed_hash \<Rightarrow> gateway \<Rightarrow> command_request \<Rightarrow> command_lease \<Rightarrow> datetime \<Rightarrow>
    (denial_code \<times> string) option result" where
  "denial hmac g r l t =
     (if gw_mode g = Disabled then Inr (Some (GATEWAY_DISABLED, ''command gateway is disabled''))
      else if gw_emergency_stop g then Inr (Some (EMERGENCY_STOP, ''emergency stop is active''))
      else case map_of (gw_policies g) (cr_point r) of
        None \<Rightarrow> Inr (Some (POINT_NOT_ALLOWLISTED, ''point is not allowlisted''))
      | Some policy \<Rightarrow>
          if cr_artifact r \<noteq> gw_artifact g \<or> cl_artifact l \<noteq> gw_artifact g
          then Inr (Some (ARTIFACT_MISMATCH, ''request is not bound to the approved artifact''))
          else if cr_lease_id r \<noteq> cl_id l
                  \<or> \<not> (instant (cl_valid_from l) \<le> instant t \<and> instant t \<le> instant (cl_valid_until l))
          then Inr (Some (LEASE_INVALID, ''command lease is missing, expired, or not active''))
          else bindE (command_lease_signature hmac l (gw_key g)) (\<lambda>expected.
            if cl_signature l \<noteq> expected
            then Inr (Some (LEASE_INVALID, ''command lease signature is invalid''))
            else (let telemetry_age = seconds_since t (cr_telemetry_at r) in
              if fless telemetry_age (Fin 0) \<or> fless (np_max_telemetry_age_seconds policy) telemetry_age
              then Inr (Some (TELEMETRY_STALE, ''source telemetry is stale or from the future''))
              else if \<not> (fle (np_minimum policy) (cr_value r) \<and> fle (cr_value r) (np_maximum policy))
              then Inr (Some (OUT_OF_BOUNDS, ''requested value is outside engineering bounds''))
              else case map_of (gw_accepted g) (cr_point r) of
                  None \<Rightarrow> Inr None
                | Some previous \<Rightarrow>
                    if rate_exceeded policy previous (cr_value r) t
                    then Inr (Some (RATE_LIMIT, ''requested value exceeds rate-of-change limit''))
                    else Inr None)))"

definition authorize :: "keyed_hash \<Rightarrow> gateway \<Rightarrow> command_request \<Rightarrow> command_lease \<Rightarrow> datetime \<Rightarrow>
    (command_decision \<times> gateway) result" where
  "authorize hmac g r l t =
     raise_if (\<not> is_aware t) ''evaluation time must be timezone-aware''
      (bindE (denial hmac g r l t) (\<lambda>d. case d of
         Some (code, reason) \<Rightarrow>
           Inr (\<lparr>cd_allowed = False, cd_code = Some code, cd_reason = reason, cd_evaluated_at = t\<rparr>, g)
       | None \<Rightarrow>
           Inr (\<lparr>cd_allowed = True, cd_code = None,
                 cd_reason = ''request satisfies the isolated command policy'', cd_evaluated_at = t\<rparr>,
                g\<lparr>gw_accepted := AList.update (cr_point r) \<lparr>ac_value = cr_value r, ac_accepted_at = t\<rparr>
                                  (gw_accepted g)\<rparr>)))"

section \<open>What an allowed command satisfies\<close>

definition lease_active :: "keyed_hash \<Rightarrow> gateway \<Rightarrow> command_request \<Rightarrow> command_lease \<Rightarrow> datetime \<Rightarrow> bool" where
  "lease_active hmac g r l t \<longleftrightarrow> cr_artifact r = gw_artifact g \<and> cl_artifact l = gw_artifact g
     \<and> cr_lease_id r = cl_id l \<and> instant (cl_valid_from l) \<le> instant t \<and> instant t \<le> instant (cl_valid_until l)
     \<and> 32 \<le> length (gw_key g) \<and> cl_signature l = hmac (gw_key g) (lease_payload l)"

definition command_safe :: "gateway \<Rightarrow> command_policy \<Rightarrow> command_request \<Rightarrow> datetime \<Rightarrow> bool" where
  "command_safe g p r t \<longleftrightarrow> fle (np_minimum p) (cr_value r) \<and> fle (cr_value r) (np_maximum p)
     \<and> \<not> fless (seconds_since t (cr_telemetry_at r)) (Fin 0)
     \<and> \<not> fless (np_max_telemetry_age_seconds p) (seconds_since t (cr_telemetry_at r))
     \<and> pred_option (\<lambda>previous. \<not> rate_exceeded p previous (cr_value r) t) (map_of (gw_accepted g) (cr_point r))"

text \<open>The gateway after accepting a request.\<close>

definition accept :: "command_request \<Rightarrow> datetime \<Rightarrow> gateway \<Rightarrow> gateway" where
  "accept r t g = g\<lparr>gw_accepted := AList.update (cr_point r) \<lparr>ac_value = cr_value r, ac_accepted_at = t\<rparr>
                                     (gw_accepted g)\<rparr>"

lemma denial_None_iff:
  "denial hmac g r l t = Inr None \<longleftrightarrow>
     gw_mode g \<noteq> Disabled \<and> \<not> gw_emergency_stop g \<and> lease_active hmac g r l t
     \<and> (\<exists>p. map_of (gw_policies g) (cr_point r) = Some p \<and> command_safe g p r t)"
proof (cases "map_of (gw_policies g) (cr_point r)")
  case (Some p)
  have chain: "(if c then Inr (Some x) else m) = Inr None \<longleftrightarrow> \<not> c \<and> m = (Inr None :: 'a option result)"
    for c x m by simp
  have previous: "(case m of None \<Rightarrow> Inr None | Some c \<Rightarrow> f c) = (Inr None :: 'a option result)
      \<longleftrightarrow> pred_option (\<lambda>c. f c = Inr None) m" for m f by (cases m) simp_all
  show ?thesis
    unfolding denial_def Some option.case(2) Let_def chain previous bindE_eq_Inr
      command_lease_signature_def raise_if_eq_Inr lease_active_def command_safe_def
    by (simp add: not_less eq_commute [of "cl_signature l"]) (simp only: conj_ac)
qed (auto simp: denial_def)

lemma authorizeE:
  assumes "authorize hmac g r l t = Inr (d, g')"
  obtains (allowed) "cd_allowed d" "denial hmac g r l t = Inr None" "g' = accept r t g"
    | (denied) code reason where "\<not> cd_allowed d" "cd_code d = Some code"
        "denial hmac g r l t = Inr (Some (code, reason))" "g' = g"
proof -
  obtain x where x: "denial hmac g r l t = Inr x"
    using assms by (cases "denial hmac g r l t") (simp_all add: authorize_def raise_if_def split: if_splits)
  show thesis
  proof (cases x)
    case None
    then show thesis
      using assms x by (intro allowed) (auto simp: authorize_def raise_if_eq_Inr accept_def)
  next
    case (Some cr)
    obtain code reason where "cr = (code, reason)" by (cases cr)
    then show thesis
      using assms x Some by (intro denied [of code reason]) (auto simp: authorize_def raise_if_eq_Inr)
  qed
qed

text \<open>C35: the gateway fails closed.  A command is allowed only outside the disabled mode, without an
  emergency stop, for an allowlisted point, under a signed and currently valid lease bound to
  the approved artifact, on fresh telemetry, inside the engineering bounds and within the
  rate of change since the last accepted command; a denied command leaves the gateway as it
  was.\<close>

theorem allowed_only_if_safe:
  assumes "authorize hmac g r l t = Inr (d, g')"
  shows "(cd_allowed d \<longleftrightarrow> gw_mode g \<noteq> Disabled \<and> \<not> gw_emergency_stop g \<and> lease_active hmac g r l t
      \<and> (\<exists>p. map_of (gw_policies g) (cr_point r) = Some p \<and> command_safe g p r t))
    \<and> g' = (if cd_allowed d then accept r t g else g)"
  using assms
  by (cases rule: authorizeE) (simp_all add: denial_None_iff [symmetric])

section \<open>Runs of the gateway\<close>

text \<open>What can happen to a gateway: a request is authorized, or the operator sets the mode or the
  emergency stop.\<close>

inductive gateway_step :: "keyed_hash \<Rightarrow> gateway \<Rightarrow> gateway \<Rightarrow> bool" for hmac where
  step_authorize: "authorize hmac g r l t = Inr (d, g') \<Longrightarrow> gateway_step hmac g g'"
| step_mode: "gateway_step hmac g (g\<lparr>gw_mode := m\<rparr>)"
| step_stop: "gateway_step hmac g (g\<lparr>gw_emergency_stop := b\<rparr>)"

inductive gateway_reach :: "keyed_hash \<Rightarrow> gateway \<Rightarrow> bool" for hmac where
  reach_new: "list_all policy_ok policies \<Longrightarrow> gateway_init policies artifact key mode = Inr g \<Longrightarrow>
     gateway_reach hmac g"
| reach_step: "gateway_reach hmac g \<Longrightarrow> gateway_step hmac g g' \<Longrightarrow> gateway_reach hmac g'"

inductive_cases gateway_stepE: "gateway_step hmac g g'"

definition gateway_inv :: "gateway \<Rightarrow> bool" where
  "gateway_inv g \<longleftrightarrow> 32 \<le> length (gw_key g) \<and> sha256_shape (gw_artifact g)
     \<and> (\<forall>i p. map_of (gw_policies g) i = Some p \<longrightarrow> policy_ok p \<and> np_point p = i)
     \<and> (\<forall>i c. map_of (gw_accepted g) i = Some c \<longrightarrow> (\<exists>p. map_of (gw_policies g) i = Some p
          \<and> fle (np_minimum p) (ac_value c) \<and> fle (ac_value c) (np_maximum p)))"

lemma gateway_inv_init:
  assumes "list_all policy_ok policies" and "gateway_init policies artifact key mode = Inr g"
  shows "gateway_inv g"
proof -
  have "policy_ok p \<and> np_point p = i" if "map_of (dict_of np_point (\<lambda>p. p) policies) i = Some p" for i p
    using that assms(1) by (auto simp: map_of_dict_of list_all_iff dest!: map_of_SomeD)
  then show ?thesis
    using assms(2) by (auto simp: gateway_init_def Let_def raise_if_eq_Inr gateway_inv_def)
qed

lemma gateway_inv_accept:
  assumes "gateway_inv g" and "map_of (gw_policies g) (cr_point r) = Some p" and "command_safe g p r t"
  shows "gateway_inv (accept r t g)"
  using assms by (auto simp: gateway_inv_def accept_def command_safe_def)

lemma gateway_inv_step: "gateway_step hmac g g' \<Longrightarrow> gateway_inv g \<Longrightarrow> gateway_inv g'"
proof (induction rule: gateway_step.induct)
  case (step_authorize g r l t d g')
  from step_authorize.hyps show ?case
    using step_authorize.prems
    by (cases rule: authorizeE) (auto simp: denial_None_iff intro: gateway_inv_accept)
qed (simp_all add: gateway_inv_def)

text \<open>C36: whatever requests, mode changes and emergency stops a gateway has seen, every command it
  ever accepted last for a point lies within the bounds of that point's policy.\<close>

theorem accepted_within_bounds:
  assumes "gateway_reach hmac g" and "map_of (gw_accepted g) i = Some c"
  shows "\<exists>p. map_of (gw_policies g) i = Some p \<and> policy_ok p
    \<and> fle (np_minimum p) (ac_value c) \<and> fle (ac_value c) (np_maximum p)"
proof -
  have "gateway_inv g"
    using assms(1) by (induction rule: gateway_reach.induct) (auto intro: gateway_inv_init gateway_inv_step)
  then show ?thesis using assms(2) unfolding gateway_inv_def by blast
qed

section \<open>The rate limit over a run\<close>

text \<open>A sequence of requests; the accepted ones are collected in order.\<close>

fun authorize_all :: "keyed_hash \<Rightarrow> gateway \<Rightarrow> (command_request \<times> command_lease \<times> datetime) list \<Rightarrow>
    ((command_request \<times> datetime) list \<times> gateway) result" where
  "authorize_all hmac g [] = Inr ([], g)"
| "authorize_all hmac g ((r, l, t) # rest) =
     bindE (authorize hmac g r l t) (\<lambda>(d, g).
     bindE (authorize_all hmac g rest) (\<lambda>(accepted, g).
     Inr (if cd_allowed d then (r, t) # accepted else accepted, g)))"

definition commands_of :: "string \<Rightarrow> (command_request \<times> datetime) list \<Rightarrow> accepted_command list" where
  "commands_of i xs =
     map (\<lambda>(r, t). \<lparr>ac_value = cr_value r, ac_accepted_at = t\<rparr>) (filter (\<lambda>(r, _). cr_point r = i) xs)"

fun rate_chain :: "command_policy \<Rightarrow> accepted_command list \<Rightarrow> bool" where
  "rate_chain p (c # d # cs) \<longleftrightarrow> \<not> rate_exceeded p c (ac_value d) (ac_accepted_at d) \<and> rate_chain p (d # cs)"
| "rate_chain p _ \<longleftrightarrow> True"

definition last_accepted :: "gateway \<Rightarrow> string \<Rightarrow> accepted_command list" where
  "last_accepted g i = (case map_of (gw_accepted g) i of None \<Rightarrow> [] | Some c \<Rightarrow> [c])"

lemma authorize_all_chain:
  "authorize_all hmac g xs = Inr (accepted, g') \<Longrightarrow> map_of (gw_policies g) i = Some p \<Longrightarrow>
     rate_chain p (last_accepted g i @ commands_of i accepted)"
proof (induction xs arbitrary: g accepted)
  case Nil
  then show ?case by (simp add: commands_of_def last_accepted_def split: option.splits)
next
  case (Cons x xs)
  obtain r l t where x: "x = (r, l, t)" by (cases x)
  obtain d g1 rest where 1: "authorize hmac g r l t = Inr (d, g1)" "authorize_all hmac g1 xs = Inr (rest, g')"
    "accepted = (if cd_allowed d then (r, t) # rest else rest)"
    using Cons.prems(1) by (auto simp: x bindE_eq_Inr)
  from 1(1) show ?case
  proof (cases rule: authorizeE)
    case denied
    then show ?thesis using Cons.IH [OF 1(2)] Cons.prems(2) 1(3) by simp
  next
    case allowed
    have chain: "rate_chain p (last_accepted g1 i @ commands_of i rest)"
      using Cons.IH [OF 1(2)] Cons.prems(2) by (simp add: allowed(3) accept_def)
    show ?thesis
    proof (cases "cr_point r = i")
      case False
      then show ?thesis
        using chain 1(3) allowed(1,3) by (simp add: commands_of_def last_accepted_def accept_def)
    next
      case True
      have "command_safe g p r t"
        using allowed(2) Cons.prems(2) by (auto simp: denial_None_iff True)
      then have safe: "pred_option (\<lambda>c. \<not> rate_exceeded p c (cr_value r) t) (map_of (gw_accepted g) i)"
        by (simp add: command_safe_def True)
      have acc: "commands_of i accepted = \<lparr>ac_value = cr_value r, ac_accepted_at = t\<rparr> # commands_of i rest"
        using 1(3) allowed(1) True by (simp add: commands_of_def)
      have "last_accepted g1 i = [\<lparr>ac_value = cr_value r, ac_accepted_at = t\<rparr>]"
        by (simp add: allowed(3) accept_def last_accepted_def True)
      then show ?thesis
        using chain safe by (cases "map_of (gw_accepted g) i") (simp_all add: acc last_accepted_def)
    qed
  qed
qed

text \<open>Over any sequence of requests, two consecutive commands accepted for a point differ by no
  more than the policy's rate times the seconds between them; a clock that runs backwards
  allows no change at all.\<close>

theorem accepted_rate_limited:
  assumes "authorize_all hmac g xs = Inr (accepted, g')" and "map_of (gw_policies g) i = Some p"
    and "commands_of i accepted = us @ c # d # vs"
  shows "\<not> fless (fmul (np_max_delta_per_second p)
      (fmax (Fin 0) (seconds_since (ac_accepted_at d) (ac_accepted_at c)))) (fabs (fsub (ac_value d) (ac_value c)))"
proof -
  have mid: "rate_chain p (ws @ c # d # vs) \<Longrightarrow> \<not> rate_exceeded p c (ac_value d) (ac_accepted_at d)" for ws
  proof (induction ws)
    case (Cons x xs)
    then show ?case by (cases "xs @ c # d # vs") auto
  qed simp
  from mid [of "last_accepted g i @ us"] have "\<not> rate_exceeded p c (ac_value d) (ac_accepted_at d)"
    using authorize_all_chain [OF assms(1,2)] assms(3) by simp
  then show ?thesis by (simp add: rate_exceeded_def Let_def)
qed

section \<open>Example\<close>

definition zeros :: string where
  "zeros = replicate 64 (CHR ''0'')"

definition sample_policy :: command_policy where
  "sample_policy = \<lparr>np_point = ''valve'', np_minimum = Fin 0, np_maximum = Fin 100,
     np_max_delta_per_second = Fin 2, np_max_telemetry_age_seconds = Fin 30\<rparr>"

definition sample_gateway :: gateway where
  "sample_gateway = \<lparr>gw_policies = [(''valve'', sample_policy)], gw_artifact = zeros,
     gw_key = replicate 32 (CHR ''k''), gw_mode = Simulation, gw_emergency_stop = False, gw_accepted = []\<rparr>"

definition sample_hash :: keyed_hash where
  "sample_hash key payload = zeros"

definition sample_lease :: command_lease where
  "sample_lease = \<lparr>cl_id = ''lease-01'', cl_artifact = zeros, cl_issued_by = ''lab'', cl_valid_from = at_second 0,
     cl_valid_until = at_second 3600, cl_signature = zeros\<rparr>"

definition sample_request :: "int \<Rightarrow> int \<Rightarrow> command_request" where
  "sample_request v s = \<lparr>cr_id = ''request-1'', cr_point = ''valve'', cr_value = Fin (of_int v), cr_artifact = zeros,
     cr_lease_id = ''lease-01'', cr_telemetry_at = at_second s\<rparr>"

lemma sample_new: "gateway_init [sample_policy] zeros (replicate 32 (CHR ''k'')) Simulation = Inr sample_gateway"
proof -
  have "sha256_shape zeros" by code_simp
  then show ?thesis by (simp add: gateway_init_def sample_gateway_def sample_policy_def dict_of_def raise_if_def Let_def)
qed

lemma sample_reach: "gateway_reach sample_hash sample_gateway"
proof (rule reach_new [OF _ sample_new])
  have "is_ident ''valve''" by code_simp
  then show "list_all policy_ok [sample_policy]"
    by (simp add: policy_ok_def sample_policy_def ordered_bounds_def raise_if_def)
qed

lemma sample_allowed:
  assumes "gw_policies g = [(''valve'', sample_policy)]" "gw_artifact g = zeros" "length (gw_key g) = 32"
    "gw_mode g = Simulation" "\<not> gw_emergency_stop g" "0 \<le> s" "s \<le> 3600" "0 \<le> v" "v \<le> 100"
    "pred_option (\<lambda>c. \<not> rate_exceeded sample_policy c (Fin (of_int v)) (at_second s)) (map_of (gw_accepted g) ''valve'')"
  shows "\<exists>d. cd_allowed d \<and> authorize sample_hash g (sample_request v s) sample_lease (at_second s)
      = Inr (d, accept (sample_request v s) (at_second s) g)"
proof -
  have "instant (at_second 0) \<le> instant (at_second s)" "instant (at_second s) \<le> instant (at_second 3600)"
    using assms(6,7) by (simp_all add: instant_at_second [of s] instant_at_second [of 3600])
  then have "denial sample_hash g (sample_request v s) sample_lease (at_second s) = Inr None"
    unfolding denial_None_iff using assms
    by (simp add: lease_active_def command_safe_def sample_request_def sample_lease_def sample_hash_def
        sample_policy_def seconds_since_at)
  then show ?thesis by (simp add: authorize_def raise_if_def accept_def at_second_def is_aware_def)
qed

lemma allowed_only_if_safe_witness:
  "\<exists>d g'. authorize sample_hash sample_gateway (sample_request 40 10) sample_lease (at_second 10) = Inr (d, g')
     \<and> cd_allowed d \<and> command_safe sample_gateway sample_policy (sample_request 40 10) (at_second 10)"
proof -
  obtain d where d: "cd_allowed d" and run: "authorize sample_hash sample_gateway (sample_request 40 10)
      sample_lease (at_second 10) = Inr (d, accept (sample_request 40 10) (at_second 10) sample_gateway)"
    using sample_allowed [of sample_gateway 10 40] by (auto simp: sample_gateway_def)
  have "map_of (gw_policies sample_gateway) (cr_point (sample_request 40 10)) = Some sample_policy"
    by (simp add: sample_gateway_def sample_request_def)
  then show ?thesis using allowed_only_if_safe [OF run] d run by auto
qed

lemma accepted_within_bounds_witness:
  "\<exists>g c. gateway_reach sample_hash g \<and> map_of (gw_accepted g) ''valve'' = Some c
     \<and> (\<exists>p. map_of (gw_policies g) ''valve'' = Some p \<and> fle (np_minimum p) (ac_value c))"
proof -
  let ?g = "accept (sample_request 40 10) (at_second 10) sample_gateway"
  obtain d where "authorize sample_hash sample_gateway (sample_request 40 10)
      sample_lease (at_second 10) = Inr (d, ?g)"
    using sample_allowed [of sample_gateway 10 40] by (auto simp: sample_gateway_def)
  then have reach: "gateway_reach sample_hash ?g"
    using reach_step [OF sample_reach step_authorize] by blast
  have acc: "map_of (gw_accepted ?g) ''valve'' = Some \<lparr>ac_value = Fin 40, ac_accepted_at = at_second 10\<rparr>"
    by (simp add: accept_def sample_request_def)
  show ?thesis using accepted_within_bounds [OF reach acc] reach acc by blast
qed

lemma accepted_rate_limited_witness:
  "\<not> fless (fmul (Fin 2) (fmax (Fin 0) (seconds_since (at_second 20) (at_second 10)))) (fabs (fsub (Fin 50) (Fin 40)))"
proof -
  let ?g1 = "accept (sample_request 40 10) (at_second 10) sample_gateway"
  let ?g2 = "accept (sample_request 50 20) (at_second 20) ?g1"
  obtain d where d: "cd_allowed d" "authorize sample_hash sample_gateway (sample_request 40 10)
      sample_lease (at_second 10) = Inr (d, ?g1)"
    using sample_allowed [of sample_gateway 10 40] by (auto simp: sample_gateway_def)
  have "\<not> rate_exceeded sample_policy \<lparr>ac_value = Fin 40, ac_accepted_at = at_second 10\<rparr> (Fin 50) (at_second 20)"
    by (simp add: rate_exceeded_def sample_policy_def seconds_since_at fmax_def fmul_def fsub_def)
  then obtain e where e: "cd_allowed e" "authorize sample_hash ?g1 (sample_request 50 20)
      sample_lease (at_second 20) = Inr (e, ?g2)"
    using sample_allowed [of ?g1 20 50] by (auto simp: sample_gateway_def accept_def sample_request_def)
  have run: "authorize_all sample_hash sample_gateway
      [(sample_request 40 10, sample_lease, at_second 10), (sample_request 50 20, sample_lease, at_second 20)]
      = Inr ([(sample_request 40 10, at_second 10), (sample_request 50 20, at_second 20)], ?g2)"
    using d e by simp
  have p: "map_of (gw_policies sample_gateway) ''valve'' = Some sample_policy" by (simp add: sample_gateway_def)
  have "commands_of ''valve'' [(sample_request 40 10, at_second 10), (sample_request 50 20, at_second 20)]
      = [] @ \<lparr>ac_value = Fin 40, ac_accepted_at = at_second 10\<rparr> # \<lparr>ac_value = Fin 50, ac_accepted_at = at_second 20\<rparr> # []"
    by (simp add: commands_of_def sample_request_def)
  from accepted_rate_limited [OF run p this] show ?thesis by (simp add: sample_policy_def)
qed

section \<open>What a signature binds\<close>

text \<open>The payload joins the fields with newlines, and neither the lease id nor the issuer excludes a
  newline.  These two leases name different artifacts.\<close>

definition lease_named :: "string \<Rightarrow> string \<Rightarrow> string \<Rightarrow> string \<Rightarrow> command_lease" where
  "lease_named i artifact issuer signature =
     \<lparr>cl_id = i, cl_artifact = artifact, cl_issued_by = issuer, cl_valid_from = at_second 0,
      cl_valid_until = at_second 3600, cl_signature = signature\<rparr>"

text \<open>C37: a lease signature does not bind the artifact.  There are two well-formed leases for different
  artifacts with the same signature under every keyed hash and every key: the text signed is
  the same, because the fields are joined by newlines and may contain newlines themselves.\<close>

theorem lease_signature_ambiguous:
  "\<exists>l l'. ordered_window l = Inr () \<and> ordered_window l' = Inr ()
     \<and> sha256_shape (cl_artifact l) \<and> sha256_shape (cl_artifact l') \<and> cl_artifact l \<noteq> cl_artifact l'
     \<and> (\<forall>hmac key. command_lease_signature hmac l key = command_lease_signature hmac l' key)"
proof -
  let ?ones = "replicate 64 (CHR ''1'')"
  let ?l = "lease_named ''lease-01'' zeros (?ones @ [CHR 0x0A] @ ''lab'') zeros"
  let ?l' = "lease_named (''lease-01'' @ [CHR 0x0A] @ zeros) ?ones ''lab'' zeros"
  have window: "ordered_window (lease_named i a s x) = Inr ()" for i a s x
    using instant_at_second [of 3600]
    by (simp add: ordered_window_def lease_named_def raise_if_def is_aware_def) (simp add: at_second_def)
  have "lease_payload ?l = lease_payload ?l'" by (simp add: lease_payload_def lease_named_def)
  then have "command_lease_signature hmac ?l key = command_lease_signature hmac ?l' key" for hmac key
    by (simp add: command_lease_signature_def)
  moreover have "sha256_shape zeros" "sha256_shape ?ones" "zeros \<noteq> ?ones" by code_simp+
  ultimately show ?thesis
    using window by (intro exI [of _ ?l] exI [of _ ?l']) (simp add: lease_named_def)
qed

end
