(* ===== verification/FloatFacts.thy ===== *)
theory FloatFacts
  imports PyFloat
begin

text \<open>
  Further facts on rounded arithmetic used outside the interpreter: when a result is a
  number, when a difference is not zero, and the bounds of \<open>min(max(x, lo), hi)\<close>.
\<close>

section \<open>Results that are numbers\<close>

lemma fadd_not_NaN: "fisfinite a \<Longrightarrow> b \<noteq> NaN \<Longrightarrow> fadd a b \<noteq> NaN"
  by (cases a; cases b) simp_all

lemma fneg_NaN [simp]: "fneg a = NaN \<longleftrightarrow> a = NaN"
  by (cases a) auto

lemma fabs_NaN [simp]: "fabs a = NaN \<longleftrightarrow> a = NaN"
  by (cases a) auto

lemma fcopysign_NaN [simp]: "fcopysign a b = NaN \<longleftrightarrow> a = NaN"
  by (simp add: fcopysign_def)

lemma fsub_not_NaN: "fisfinite a \<Longrightarrow> b \<noteq> NaN \<Longrightarrow> fsub a b \<noteq> NaN"
  by (simp add: fsub_def fadd_not_NaN)

lemma zero_of_sign_NaN [simp]: "zero_of_sign s \<noteq> NaN"
  by (simp add: zero_of_sign_def)

lemma inf_of_sign_NaN [simp]: "inf_of_sign s \<noteq> NaN"
  by (simp add: inf_of_sign_def)

lemma fisnan_iff: "fisnan a \<longleftrightarrow> a = NaN"
  by (cases a) auto

lemma is_zero_finite: "is_zero a \<Longrightarrow> fisfinite a"
  by (cases a) simp_all

lemma fmul_not_NaN: "a \<noteq> NaN \<Longrightarrow> fisfinite b \<Longrightarrow> fisfinite a \<or> \<not> is_zero b \<Longrightarrow> fmul a b \<noteq> NaN"
  by (auto simp: fmul_def Let_def fisnan_iff dest: is_zero_finite)

lemma fdiv_not_NaN:
  assumes "a \<noteq> NaN" and "fisfinite b" and "\<not> is_zero b"
  obtains q where "fdiv a b = Inr q" "q \<noteq> NaN"
proof -
  have "\<exists>q. fdiv a b = Inr q \<and> q \<noteq> NaN"
    using assms by (simp add: fdiv_def Let_def fisnan_iff)
  then show thesis using that by blast
qed

lemma fmin_not_NaN: "a \<noteq> NaN \<Longrightarrow> b \<noteq> NaN \<Longrightarrow> fmin a b \<noteq> NaN"
  by (simp add: fmin_def)

lemma fmin_le: "a \<noteq> NaN \<Longrightarrow> b \<noteq> NaN \<Longrightarrow> fle (fmin a b) a \<and> fle (fmin a b) b"
  by (auto simp: fmin_def not_fless_iff fless_imp_fle)

lemma fle_between_finite: "fle (Fin x) a \<Longrightarrow> fle a (Fin y) \<Longrightarrow> fisfinite a"
  by (cases a) (auto simp: fle_def)

lemma fle_fisfinite: "fle a b \<Longrightarrow> fle b c \<Longrightarrow> fisfinite a \<Longrightarrow> fisfinite c \<Longrightarrow> fisfinite b"
  by (cases a; cases b; cases c) (auto simp: fle_def)

section \<open>Differences that are not zero\<close>

lemma rnd_rat_positive:
  assumes "2 powi (- 1074) \<le> q"
  shows "0 < rnd_rat q"
proof -
  have "rnd_rat (of_int 1 * 2 powi (- 1074)) = (of_int 1 * 2 powi (- 1074) :: rat)"
    by (rule rnd_rat_exact) simp_all
  moreover have "rnd_rat (2 powi (- 1074)) \<le> rnd_rat q" by (rule rnd_rat_mono [OF assms])
  moreover have "(0::rat) < 2 powi (- 1074)" by (rule powi2_pos)
  ultimately show ?thesis by (simp only: of_int_1 mult_1)
qed

text \<open>A representable value is an integer multiple of the smallest positive one.\<close>

lemma representable_multiple:
  assumes "rnd_rat q = q"
  obtains n where "q = of_int n * 2 powi (- 1074)"
proof -
  obtain m where m: "rnd_rat q = of_int m * 2 powi ulp_exp q" using rnd_rat_shape by blast
  define k where "k = nat (ulp_exp q + 1074)"
  have k: "ulp_exp q = int k + (- 1074)" using ulp_exp_ge [of q] by (simp add: k_def)
  have "q = of_int m * (2 ^ k * 2 powi (- 1074))"
    using m assms by (simp only: k powi2_add power_int_of_nat)
  then have "q = of_int (m * 2 ^ k) * 2 powi (- 1074)" by simp
  then show thesis by (rule that)
qed

lemma wf_finite_representable: "wf_float a \<Longrightarrow> fisfinite a \<Longrightarrow> rnd_rat (fval a) = fval a"
  by (cases a) simp_all

lemma fsub_positive:
  assumes "wf_float a" "wf_float b" "fisfinite a" "fisfinite b" "fless b a"
  shows "fless (Fin 0) (fsub a b)"
proof -
  obtain m where m: "fval a = of_int m * 2 powi (- 1074)"
    using representable_multiple [OF wf_finite_representable [OF assms(1,3)]] by blast
  obtain n where n: "fval b = of_int n * 2 powi (- 1074)"
    using representable_multiple [OF wf_finite_representable [OF assms(2,4)]] by blast
  have lt: "fval b < fval a" using assms(3-5) by (simp add: fless_finite)
  then have "n < m" unfolding m n by (simp only: mult_less_cancel_right_pos [OF powi2_pos] of_int_less_iff)
  then have "of_int 1 \<le> (of_int (m - n) :: rat)" by simp
  then have "of_int 1 * 2 powi (- 1074) \<le> of_int (m - n) * (2 powi (- 1074) :: rat)"
    by (rule mult_right_mono) (rule less_imp_le [OF powi2_pos])
  then have "2 powi (- 1074) \<le> fval a - fval b"
    by (simp only: m n of_int_diff left_diff_distrib of_int_1 mult_1)
  then have pos: "0 < rnd_rat (fval a - fval b)" by (rule rnd_rat_positive)
  have "fsub a b = rnd (fval a - fval b)"
    using lt assms(3,4) by (cases a; cases b) (auto simp: fsub_def)
  then show ?thesis using pos by (auto simp: rnd_def Let_def)
qed

lemma percent_difference_finite:
  assumes "fle (Fin 0) a" "fle a (Fin 100)" "fle (Fin 0) b" "fle b (Fin 100)"
  shows "fisfinite (fsub a b)"
proof -
  have fin: "fisfinite a" "fisfinite b" using assms fle_between_finite by blast+
  have b: "0 \<le> fval a" "fval a \<le> 100" "0 \<le> fval b" "fval b \<le> 100"
    using assms fin by (simp_all add: fle_finite)
  have "rnd_rat (of_int (- 100)) \<le> rnd_rat (fval a - fval b)" "rnd_rat (fval a - fval b) \<le> rnd_rat (of_int 100)"
    using b by (intro rnd_rat_mono; simp)+
  moreover have "rnd_rat (of_int 100) = 100" "rnd_rat (of_int (- 100)) = - 100"
    by (subst rnd_rat_of_int; simp)+
  moreover have "(100::rat) < 2 ^ 1024" by simp
  ultimately have "\<bar>rnd_rat (fval a - fval b)\<bar> < 2 ^ 1024" by linarith
  then have "fisfinite (rnd (fval a - fval b))" by (simp add: fisfinite_rnd)
  moreover have "fsub a b = rnd (fval a - fval b) \<or> fsub a b = NegZero"
    using fin by (cases a; cases b) (auto simp: fsub_def)
  ultimately show ?thesis by auto
qed

section \<open>\<open>min(max(x, lo), hi)\<close>\<close>

definition clip :: "pyfloat \<Rightarrow> pyfloat \<Rightarrow> pyfloat \<Rightarrow> pyfloat" where
  "clip x lo hi = fmin (fmax x lo) hi"

lemma clip_bounds:
  assumes "fle lo hi" and "x \<noteq> NaN"
  shows "fle lo (clip x lo hi)" and "fle (clip x lo hi) hi"
  using assms fle_not_NaN [OF assms(1)]
  by (auto simp: clip_def fmin_def fmax_def not_fless_iff intro: fless_imp_fle fle_trans)

lemma clip_not_NaN: "fle lo hi \<Longrightarrow> x \<noteq> NaN \<Longrightarrow> clip x lo hi \<noteq> NaN"
  using clip_bounds(1) fle_not_NaN by blast

lemma clip_wf: "wf_float x \<Longrightarrow> wf_float lo \<Longrightarrow> wf_float hi \<Longrightarrow> wf_float (clip x lo hi)"
  by (simp add: clip_def fmin_def fmax_def)

end
