(* ===== verification/Actuator.thy ===== *)
theory Actuator
  imports Jobs FloatFacts
begin

text \<open>
  The virtual actuator of \<open>src/bactalk/integrations/virtual_actuator.py\<close>: a valve or damper
  with a stroke time, physical and feedback faults, end-of-travel proofs and a proof alarm.
  The power \<open>normalized ** flow_exponent\<close> is the C library's \<open>pow\<close>, which is not correctly
  rounded; it is an argument of the step.
\<close>

record actuator_fault =
  vf_command_available :: bool
  vf_stuck_position :: "pyfloat option"
  vf_minimum_travel :: "pyfloat option"
  vf_maximum_travel :: "pyfloat option"
  vf_feedback_bias :: pyfloat
  vf_feedback_stuck_position :: "pyfloat option"
  vf_open_proof_failed :: bool
  vf_closed_proof_failed :: bool

definition no_fault :: actuator_fault where
  "no_fault = \<lparr>vf_command_available = True, vf_stuck_position = None, vf_minimum_travel = None,
     vf_maximum_travel = None, vf_feedback_bias = Fin 0, vf_feedback_stuck_position = None,
     vf_open_proof_failed = False, vf_closed_proof_failed = False\<rparr>"

definition travel_limits_are_coherent :: "actuator_fault \<Rightarrow> unit result" where
  "travel_limits_are_coherent f =
     raise_if (case (vf_minimum_travel f, vf_maximum_travel f) of
                 (Some lo, Some hi) \<Rightarrow> fless hi lo | _ \<Rightarrow> False)
       ''minimum_travel cannot exceed maximum_travel'' (Inr ())"

definition percent :: "pyfloat \<Rightarrow> bool" where
  "percent x \<longleftrightarrow> in_range (Fin 0) (Fin 100) x"

definition actuator_fault_ok :: "actuator_fault \<Rightarrow> bool" where
  "actuator_fault_ok f \<longleftrightarrow> pred_option percent (vf_stuck_position f) \<and> pred_option percent (vf_minimum_travel f)
     \<and> pred_option percent (vf_maximum_travel f) \<and> in_range (Fin (- 100)) (Fin 100) (vf_feedback_bias f)
     \<and> pred_option percent (vf_feedback_stuck_position f) \<and> travel_limits_are_coherent f = Inr ()"

record actuator_sample =
  vs_command :: pyfloat
  vs_effective_target :: pyfloat
  vs_physical_position :: pyfloat
  vs_feedback_position :: pyfloat
  vs_flow_percent :: pyfloat
  vs_open_proof :: bool
  vs_closed_proof :: bool
  vs_traveling :: bool
  vs_command_feedback_mismatch :: bool
  vs_mismatch_seconds :: pyfloat
  vs_proof_alarm :: bool
  vs_command_available :: bool

record actuator =
  vr_spec :: actuator_spec
  vr_position :: pyfloat
  vr_mismatch_seconds :: pyfloat
  vr_elapsed_seconds :: pyfloat
  vr_last_sample :: "actuator_sample option"

definition actuator_init :: "actuator_spec \<Rightarrow> pyfloat option \<Rightarrow> actuator" where
  "actuator_init spec initial_position =
     (let initial = (case initial_position of None \<Rightarrow> va_fail_position spec | Some x \<Rightarrow> x) in
      \<lparr>vr_spec = spec, vr_position = clip initial (va_minimum_position spec) (va_maximum_position spec),
       vr_mismatch_seconds = Fin 0, vr_elapsed_seconds = Fin 0, vr_last_sample = None\<rparr>)"

text \<open>The travel limits in force under a fault.\<close>

definition travel_minimum :: "actuator_spec \<Rightarrow> actuator_fault \<Rightarrow> pyfloat" where
  "travel_minimum spec f = fmax (va_minimum_position spec)
     (case vf_minimum_travel f of Some x \<Rightarrow> x | None \<Rightarrow> va_minimum_position spec)"

definition travel_maximum :: "actuator_spec \<Rightarrow> actuator_fault \<Rightarrow> pyfloat" where
  "travel_maximum spec f = fmin (va_maximum_position spec)
     (case vf_maximum_travel f of Some x \<Rightarrow> x | None \<Rightarrow> va_maximum_position spec)"

text \<open>The largest change of one step, and the position the stroke reaches.\<close>

definition maximum_change :: "actuator_spec \<Rightarrow> pyfloat \<Rightarrow> pyfloat \<Rightarrow> pyfloat result" where
  "maximum_change spec step delta =
     fdiv (fmul (fsub (va_maximum_position spec) (va_minimum_position spec)) step)
       (if fless (Fin 0) delta then va_stroke_open_seconds spec else va_stroke_close_seconds spec)"

definition stroke :: "actuator_spec \<Rightarrow> pyfloat \<Rightarrow> pyfloat \<Rightarrow> pyfloat \<Rightarrow> pyfloat result" where
  "stroke spec step goal current =
     (let delta = fsub goal current in
      if fless (va_command_deadband spec) (fabs delta) \<and> \<not> is_zero step then
        mapE (\<lambda>m. fadd current (fcopysign (fmin (fabs delta) m) delta)) (maximum_change spec step delta)
      else Inr current)"

definition feedback_of :: "actuator_fault \<Rightarrow> pyfloat \<Rightarrow> pyfloat" where
  "feedback_of f position =
     clip (case vf_feedback_stuck_position f of Some x \<Rightarrow> x | None \<Rightarrow> fadd position (vf_feedback_bias f))
       (Fin 0) (Fin 100)"

definition flow_percent :: "(pyfloat \<Rightarrow> pyfloat \<Rightarrow> pyfloat result) \<Rightarrow> actuator_spec \<Rightarrow> pyfloat \<Rightarrow> pyfloat result" where
  "flow_percent pow spec position =
     bindE (fdiv (fsub position (va_minimum_position spec))
                 (fsub (va_maximum_position spec) (va_minimum_position spec))) (\<lambda>q.
     bindE (pow (clip q (Fin 0) (Fin 1)) (va_flow_exponent spec)) (\<lambda>w.
     Inr (clip (fadd (va_leakage_percent spec) (fmul (fsub (Fin 100) (va_leakage_percent spec)) w))
            (Fin 0) (Fin 100))))"

definition actuator_step :: "(pyfloat \<Rightarrow> pyfloat \<Rightarrow> pyfloat result) \<Rightarrow> pyfloat \<Rightarrow> pyfloat \<Rightarrow> actuator_fault \<Rightarrow>
    actuator \<Rightarrow> (actuator_sample \<times> actuator) result" where
  "actuator_step pow command step f vr =
     (let spec = vr_spec vr; lo = travel_minimum spec f; hi = travel_maximum spec f in
      raise_if (\<not> fisfinite command) ''virtual actuator command must be finite''
     (raise_if (\<not> fisfinite step \<or> fless step (Fin 0))
        ''virtual actuator step_seconds must be finite and non-negative''
     (raise_if (fless hi lo) ''actuator fault travel limits do not overlap configured travel''
       (let requested = clip command (Fin 0) (Fin 100);
            goal = clip (if vf_command_available f then requested else va_fail_position spec) lo hi;
            current = clip (vr_position vr) lo hi in
        bindE (case vf_stuck_position f of
                 Some x \<Rightarrow> Inr (clip x lo hi)
               | None \<Rightarrow> stroke spec step goal current) (\<lambda>current.
        let position = clip current lo hi;
            feedback = feedback_of f position;
            mismatch = fless (va_command_deadband spec) (fabs (fsub feedback goal));
            mismatch_seconds = (if mismatch then fadd (vr_mismatch_seconds vr) step else Fin 0) in
        bindE (flow_percent pow spec position) (\<lambda>flow.
        let sample =
          \<lparr>vs_command = requested, vs_effective_target = goal, vs_physical_position = position,
           vs_feedback_position = feedback, vs_flow_percent = flow,
           vs_open_proof = fle (va_open_proof_threshold spec) position \<and> \<not> vf_open_proof_failed f,
           vs_closed_proof = fle position (va_closed_proof_threshold spec) \<and> \<not> vf_closed_proof_failed f,
           vs_traveling = fless (va_command_deadband spec) (fabs (fsub position goal)),
           vs_command_feedback_mismatch = mismatch, vs_mismatch_seconds = mismatch_seconds,
           vs_proof_alarm = mismatch \<and> fle (va_proof_timeout_seconds spec) mismatch_seconds,
           vs_command_available = vf_command_available f\<rparr>
        in Inr (sample, vr\<lparr>vr_position := position, vr_mismatch_seconds := mismatch_seconds,
                          vr_elapsed_seconds := fadd (vr_elapsed_seconds vr) step,
                          vr_last_sample := Some sample\<rparr>)))))))"

section \<open>A specification of doubles\<close>

text \<open>The declared ranges make every field a finite number; a Python float is representable.\<close>

definition spec_floats :: "actuator_spec \<Rightarrow> pyfloat list" where
  "spec_floats a = [va_minimum_position a, va_maximum_position a, va_fail_position a, va_command_deadband a,
     va_leakage_percent a, va_stroke_open_seconds a, va_stroke_close_seconds a]"

definition travel_ok :: "actuator_spec \<Rightarrow> bool" where
  "travel_ok a \<longleftrightarrow> actuator_ok a \<and> wf_float (va_minimum_position a) \<and> wf_float (va_maximum_position a)"

lemma travel_okD:
  assumes "travel_ok a"
  shows "list_all fisfinite (spec_floats a)" and "fless (va_minimum_position a) (va_maximum_position a)"
    and "fle (Fin 0) (va_minimum_position a)" and "fle (va_maximum_position a) (Fin 100)"
    and "fle (va_minimum_position a) (va_fail_position a)" and "fle (va_fail_position a) (va_maximum_position a)"
    and "fless (Fin 0) (va_stroke_open_seconds a)" and "fless (Fin 0) (va_stroke_close_seconds a)"
    and "fless (Fin 0) (fsub (va_maximum_position a) (va_minimum_position a))"
proof -
  have r: "actuator_ranges a" and c: "physical_contract_is_coherent a = Inr ()"
    and w: "wf_float (va_minimum_position a)" "wf_float (va_maximum_position a)"
    using assms by (simp_all add: travel_ok_def actuator_ok_def)
  have fin: "list_all fisfinite (spec_floats a)"
    using r by (auto simp: actuator_ranges_def in_range_def spec_floats_def
        intro: fle_between_finite [OF fless_imp_fle] fle_between_finite)
  then show "list_all fisfinite (spec_floats a)" .
  show *: "fless (va_minimum_position a) (va_maximum_position a)"
    using c fin by (simp add: physical_contract_is_coherent_def raise_if_eq_Inr not_fle_iff spec_floats_def)
  show "fle (Fin 0) (va_minimum_position a)" "fle (va_maximum_position a) (Fin 100)"
    "fless (Fin 0) (va_stroke_open_seconds a)" "fless (Fin 0) (va_stroke_close_seconds a)"
    using r by (simp_all add: actuator_ranges_def in_range_def)
  show "fle (va_minimum_position a) (va_fail_position a)" "fle (va_fail_position a) (va_maximum_position a)"
    using c by (simp_all add: physical_contract_is_coherent_def raise_if_eq_Inr)
  show "fless (Fin 0) (fsub (va_maximum_position a) (va_minimum_position a))"
    using w * fin by (intro fsub_positive) (simp_all add: spec_floats_def)
qed

definition travel_inv :: "actuator \<Rightarrow> bool" where
  "travel_inv vr \<longleftrightarrow> travel_ok (vr_spec vr)
     \<and> fle (va_minimum_position (vr_spec vr)) (vr_position vr) \<and> fle (vr_position vr) (va_maximum_position (vr_spec vr))"

lemma travel_inv_init:
  assumes "travel_ok spec" and "pred_option (\<lambda>x. x \<noteq> NaN) p"
  shows "travel_inv (actuator_init spec p)"
proof -
  note t = travel_okD [OF assms(1)]
  have ne: "va_fail_position spec \<noteq> NaN" using t(5) fle_not_NaN by blast
  have "fle (va_minimum_position spec) (va_maximum_position spec)" using t(2) by (rule fless_imp_fle)
  from clip_bounds [OF this] show ?thesis
    using assms ne by (cases p) (simp_all add: travel_inv_def actuator_init_def Let_def)
qed

lemma travel_limits:
  assumes t: "travel_ok a" and f: "actuator_fault_ok f"
  shows "fle (va_minimum_position a) (travel_minimum a f)" and "fle (travel_maximum a f) (va_maximum_position a)"
proof -
  have "fle (va_minimum_position a) (va_maximum_position a)" using travel_okD(2) [OF t] by (rule fless_imp_fle)
  then have n: "va_minimum_position a \<noteq> NaN" "va_maximum_position a \<noteq> NaN" using fle_not_NaN by blast+
  show "fle (va_minimum_position a) (travel_minimum a f)" "fle (travel_maximum a f) (va_maximum_position a)"
    using n by (auto simp: travel_minimum_def travel_maximum_def fmax_def fmin_def split: option.split
        intro: fless_imp_fle)
qed

lemma maximum_change_number:
  assumes t: "travel_ok a" and s: "fisfinite step"
  obtains m where "maximum_change a step delta = Inr m" "m \<noteq> NaN"
proof -
  let ?w = "fsub (va_maximum_position a) (va_minimum_position a)"
  let ?s = "if fless (Fin 0) delta then va_stroke_open_seconds a else va_stroke_close_seconds a"
  have fin: "fisfinite (va_maximum_position a)" "fisfinite (va_minimum_position a)" "fisfinite ?s" and pos: "fless (Fin 0) ?s"
    using travel_okD(1,7,8) [OF t] by (auto simp: spec_floats_def)
  have nz: "\<not> is_zero ?s" using pos by (cases ?s) auto
  have order: "fle (va_minimum_position a) (va_maximum_position a)"
    using travel_okD(2) [OF t] by (rule fless_imp_fle)
  have "fisfinite ?w"
    using travel_okD(3,4) [OF t] fle_trans [OF travel_okD(3) [OF t] order] fle_trans [OF order travel_okD(4) [OF t]]
    by (intro percent_difference_finite)
  then have "fmul ?w step \<noteq> NaN" using s by (intro fmul_not_NaN) auto
  then obtain q where "fdiv (fmul ?w step) ?s = Inr q" "q \<noteq> NaN"
    using fdiv_not_NaN [OF _ fin(3) nz] by blast
  then show thesis using that by (simp add: maximum_change_def)
qed

section \<open>One step\<close>

lemma stroke_number:
  assumes t: "travel_ok a" and s: "fisfinite step" and "fisfinite current" "goal \<noteq> NaN"
  obtains x where "stroke a step goal current = Inr x" "x \<noteq> NaN"
proof -
  have d: "fsub goal current \<noteq> NaN"
    using assms(3,4) by (cases goal; cases current) (simp_all add: fsub_def)
  obtain m where m: "maximum_change a step (fsub goal current) = Inr m" "m \<noteq> NaN"
    using maximum_change_number [OF t s] by blast
  have "fcopysign (fmin (fabs (fsub goal current)) m) (fsub goal current) \<noteq> NaN"
    using d m(2) by (simp add: fmin_not_NaN)
  then show thesis
    using that assms(3) m(1) fisfinite_not(1) [OF assms(3)]
    by (cases "fless (va_command_deadband a) (fabs (fsub goal current)) \<and> \<not> is_zero step")
       (auto simp: stroke_def Let_def fadd_not_NaN)
qed

text \<open>What is used of the C library's power: with the configured exponent it maps the unit interval
  into itself.\<close>

definition pow_unit :: "(pyfloat \<Rightarrow> pyfloat \<Rightarrow> pyfloat result) \<Rightarrow> pyfloat \<Rightarrow> bool" where
  "pow_unit pow e \<longleftrightarrow> (\<forall>x. fle (Fin 0) x \<and> fle x (Fin 1) \<longrightarrow>
     (\<exists>w. pow x e = Inr w \<and> fle (Fin 0) w \<and> fle w (Fin 1)))"

lemma clip_percent: "x \<noteq> NaN \<Longrightarrow> percent (clip x (Fin 0) (Fin 100))"
  using clip_bounds [of "Fin 0" "Fin 100" x] by (simp add: percent_def in_range_def)

lemma flow_number:
  assumes t: "travel_ok a" and p: "fle (va_minimum_position a) p" "fle p (va_maximum_position a)"
    and pow: "pow_unit pow (va_flow_exponent a)"
  obtains y where "flow_percent pow a p = Inr y" "percent y"
proof -
  let ?range = "fsub (va_maximum_position a) (va_minimum_position a)"
  have lo: "fle (Fin 0) p" "fle p (Fin 100)"
    using fle_trans [OF travel_okD(3) [OF t] p(1)] fle_trans [OF p(2) travel_okD(4) [OF t]] by blast+
  have order: "fle (va_minimum_position a) (va_maximum_position a)" using p by (rule fle_trans)
  have r: "fisfinite ?range" "\<not> is_zero ?range"
    using percent_difference_finite [OF fle_trans [OF travel_okD(3) [OF t] order] travel_okD(4) [OF t]
        travel_okD(3) [OF t] fle_trans [OF order travel_okD(4) [OF t]]] travel_okD(9) [OF t]
    by (auto elim: is_zero.elims)
  have n: "fisfinite (fsub p (va_minimum_position a))"
    using lo travel_okD(3) [OF t] fle_trans [OF order travel_okD(4) [OF t]] by (intro percent_difference_finite)
  obtain q where q: "fdiv (fsub p (va_minimum_position a)) ?range = Inr q" "q \<noteq> NaN"
    using fdiv_not_NaN [OF fisfinite_not(1) [OF n] r] by blast
  have "fle (Fin 0) (clip q (Fin 0) (Fin 1))" "fle (clip q (Fin 0) (Fin 1)) (Fin 1)"
    using q(2) by (intro clip_bounds; simp)+
  then obtain w where w: "pow (clip q (Fin 0) (Fin 1)) (va_flow_exponent a) = Inr w" "fle (Fin 0) w" "fle w (Fin 1)"
    using pow by (auto simp: pow_unit_def)
  have leak: "fle (Fin 0) (va_leakage_percent a)" "fle (va_leakage_percent a) (Fin 100)"
    using t by (simp_all add: travel_ok_def actuator_ok_def actuator_ranges_def in_range_def)
  have rest: "fisfinite (fsub (Fin 100) (va_leakage_percent a))"
    using leak by (intro percent_difference_finite) simp_all
  have "fmul (fsub (Fin 100) (va_leakage_percent a)) w \<noteq> NaN"
    using fle_between_finite [OF w(2,3)] rest by (intro fmul_not_NaN) auto
  then have "fadd (va_leakage_percent a) (fmul (fsub (Fin 100) (va_leakage_percent a)) w) \<noteq> NaN"
    using fle_between_finite [OF leak] by (intro fadd_not_NaN)
  from clip_percent [OF this] show thesis
    by (intro that) (simp_all add: flow_percent_def q(1) w(1))
qed

text \<open>The actuator model is total and stays inside its travel.  For an accepted specification, a
  fault whose travel limits overlap the configured travel, a finite command and a finite,
  non-negative step, the step returns; the new position lies within the limits in force (so
  within the configured travel), and feedback and flow are percentages.\<close>

theorem actuator_step_total:
  assumes inv: "travel_inv vr" and f: "actuator_fault_ok f" and c: "fisfinite command"
    and s: "fisfinite step" "\<not> fless step (Fin 0)"
    and lim: "fle (travel_minimum (vr_spec vr) f) (travel_maximum (vr_spec vr) f)"
    and pow: "pow_unit pow (va_flow_exponent (vr_spec vr))"
  shows "\<exists>sample vr'. actuator_step pow command step f vr = Inr (sample, vr') \<and> travel_inv vr'
    \<and> fle (travel_minimum (vr_spec vr) f) (vr_position vr') \<and> fle (vr_position vr') (travel_maximum (vr_spec vr) f)
    \<and> percent (vs_feedback_position sample) \<and> percent (vs_flow_percent sample)"
proof -
  let ?a = "vr_spec vr" let ?lo = "travel_minimum ?a f" let ?hi = "travel_maximum ?a f"
  note t = inv [unfolded travel_inv_def, THEN conjunct1]
  note l = travel_limits [OF t f]
  have n: "vr_position vr \<noteq> NaN" using inv fle_not_NaN by (auto simp: travel_inv_def)
  have fail: "va_fail_position ?a \<noteq> NaN" using fle_not_NaN [OF travel_okD(5) [OF t]] by simp
  have fin: "fisfinite x" if "fle ?lo x" "fle x ?hi" for x
  proof (rule fle_between_finite)
    show "fle (Fin 0) x" by (rule fle_trans [OF travel_okD(3) [OF t] fle_trans [OF l(1) that(1)]])
    show "fle x (Fin 100)" by (rule fle_trans [OF fle_trans [OF that(2) l(2)] travel_okD(4) [OF t]])
  qed
  let ?goal = "clip (if vf_command_available f then clip command (Fin 0) (Fin 100) else va_fail_position ?a) ?lo ?hi"
  let ?current = "clip (vr_position vr) ?lo ?hi"
  have "clip command (Fin 0) (Fin 100) \<noteq> NaN" using c by (intro clip_not_NaN) simp_all
  then have g: "?goal \<noteq> NaN" using fail by (intro clip_not_NaN [OF lim]) simp
  have cur: "fisfinite ?current" using clip_bounds [OF lim n] by (rule fin)
  obtain x where x: "(case vf_stuck_position f of Some x \<Rightarrow> Inr (clip x ?lo ?hi)
      | None \<Rightarrow> stroke ?a step ?goal ?current) = Inr x" "x \<noteq> NaN"
  proof (cases "vf_stuck_position f")
    case None
    then show thesis using that stroke_number [OF t s(1) cur g] by auto
  next
    case (Some y)
    then have "y \<noteq> NaN" using f fle_not_NaN by (auto simp: actuator_fault_ok_def percent_def in_range_def)
    then show thesis using that Some clip_not_NaN [OF lim] by auto
  qed
  let ?p = "clip x ?lo ?hi"
  note p = clip_bounds [OF lim x(2)]
  note pa = fle_trans [OF l(1) p(1)] fle_trans [OF p(2) l(2)]
  obtain y where y: "flow_percent pow ?a ?p = Inr y" "percent y" using flow_number [OF t pa pow] by blast
  have "fadd ?p (vf_feedback_bias f) \<noteq> NaN"
    using f fin [OF p] fle_not_NaN by (intro fadd_not_NaN) (auto simp: actuator_fault_ok_def in_range_def)
  then have fb: "percent (feedback_of f ?p)"
    unfolding feedback_of_def using f fle_not_NaN
    by (intro clip_percent) (auto simp: actuator_fault_ok_def percent_def in_range_def split: option.splits)
  have nl: "\<not> fless ?hi ?lo" using lim fless_fle_irrefl by blast
  show ?thesis
    unfolding actuator_step_def Let_def
    using c s nl x(1) y fb p pa t by (auto simp: raise_if_def travel_inv_def)
qed

definition sample_spec :: actuator_spec where
  "sample_spec = \<lparr>va_id = ''v1'', va_kind = Valve, va_command_point = ''cmd'', va_position_point = ''pos'',
     va_open_proof_point = None, va_closed_proof_point = None, va_stroke_open_seconds = Fin 100,
     va_stroke_close_seconds = Fin 50, va_minimum_position = Fin 0, va_maximum_position = Fin 100,
     va_fail_position = Fin 0, va_command_deadband = Fin 1, va_proof_timeout_seconds = Fin 30,
     va_open_proof_threshold = Fin 95, va_closed_proof_threshold = Fin 5, va_leakage_percent = Fin 0,
     va_flow_exponent = Fin 1\<rparr>"

lemma sample_travel: "travel_ok sample_spec"
proof -
  have names: "name_ok ''v1'' \<and> name_ok ''cmd'' \<and> name_ok ''pos''" by code_simp
  have "wf_float (Fin 0)" "wf_float (Fin 100)"
    using wf_rnd [of 0] wf_rnd [of 100] by simp_all
  then show ?thesis
    using names
    by (simp add: travel_ok_def actuator_ok_def sample_spec_def bound_points_def option_list_def
        actuator_ranges_def in_range_def physical_contract_is_coherent_def raise_if_def okE_def has_duplicates_iff)
qed

lemma actuator_step_total_witness:
  "\<exists>sample vr'. actuator_step (\<lambda>x e. Inr x) (Fin 80) (Fin 10) no_fault (actuator_init sample_spec None)
       = Inr (sample, vr') \<and> fle (vr_position vr') (Fin 100)"
proof -
  let ?vr = "actuator_init sample_spec None"
  have inv: "travel_inv ?vr" by (rule travel_inv_init [OF sample_travel]) simp
  have spec: "vr_spec ?vr = sample_spec" by (simp add: actuator_init_def Let_def)
  have f: "actuator_fault_ok no_fault"
    by (simp add: actuator_fault_ok_def no_fault_def travel_limits_are_coherent_def raise_if_def in_range_def)
  have lim: "travel_minimum sample_spec no_fault = Fin 0" "travel_maximum sample_spec no_fault = Fin 100"
    by (simp_all add: travel_minimum_def travel_maximum_def sample_spec_def no_fault_def fmax_def fmin_def)
  have pow: "pow_unit (\<lambda>x e. Inr x) e" for e by (simp add: pow_unit_def)
  show ?thesis
    using actuator_step_total [OF inv f, of "Fin 80" "Fin 10" "\<lambda>x e. Inr x"] pow by (auto simp: spec lim)
qed

end
