(* ===== verification/Security.thy ===== *)
theory Security
  imports PyValue
begin

text \<open>
  \<open>src/bactalk/security.py\<close> and the identity middleware of \<open>src/bactalk/api.py\<close>: roles and
  what they permit, bearer-token authentication, the role a request needs, and the
  hash-chained audit log.  The token hash (\<open>sha256(token).hexdigest()\<close>) and the event digest
  (\<open>sha256\<close> of the sorted compact JSON) are arguments of the definitions.
\<close>

section \<open>Roles\<close>

datatype role = VIEWER | PROGRAMMER | APPROVER | ADMIN

record principal =
  pr_subject :: string
  pr_display_name :: string
  pr_tenant_id :: string
  pr_roles :: "role set"
  pr_credential_id :: string

definition permits :: "principal \<Rightarrow> role \<Rightarrow> bool" where
  "permits p required \<longleftrightarrow>
     (if ADMIN \<in> pr_roles p \<or> required \<in> pr_roles p then True
      else required = VIEWER \<and> pr_roles p \<inter> {PROGRAMMER, APPROVER} \<noteq> {})"

definition starts_with :: "string \<Rightarrow> string \<Rightarrow> bool" where
  "starts_with prefix s \<longleftrightarrow> take (length prefix) s = prefix"

definition ends_with :: "string \<Rightarrow> string \<Rightarrow> bool" where
  "ends_with suffix s \<longleftrightarrow> length suffix \<le> length s \<and> drop (length s - length suffix) s = suffix"

definition upper_char :: "char \<Rightarrow> char" where
  "upper_char c = (if ascii_lower c then char_of (of_char c - (32 :: nat)) else c)"

definition required_role :: "string \<Rightarrow> string \<Rightarrow> role option" where
  "required_role verb path =
     (if \<not> starts_with ''/api/'' path \<or> path \<in> {''/api/health'', ''/api/security/status''} then None
      else if path = ''/api/security/audit/status'' then Some ADMIN
      else if ends_with ''/approve'' path \<or> ends_with ''/reject'' path then Some APPROVER
      else if map upper_char verb \<in> {''POST'', ''PUT'', ''PATCH'', ''DELETE''} then Some PROGRAMMER
      else Some VIEWER)"

section \<open>Credentials\<close>

record credential =
  cr_credential_id :: string
  cr_token_sha256 :: string
  cr_principal :: principal

record security_config =
  se_enabled :: bool
  se_credentials :: "credential list"
  se_require_https :: bool

definition local_development :: security_config where
  "local_development = \<lparr>se_enabled = False, se_credentials = [], se_require_https = False\<rparr>"

text \<open>\<open>_identifier\<close>: \<open>[A-Za-z0-9][A-Za-z0-9_.:@/-]{0,127}\<close>\<close>

definition read_identifier :: "pyval \<Rightarrow> string result" where
  "read_identifier v = (case v of
       PStr (c # cs) \<Rightarrow>
         raise_if (\<not> ((ascii_alpha c \<or> ascii_digit c)
                    \<and> list_all (\<lambda>d. ident_char d \<or> d \<in> set ''.:@/-'') cs \<and> length cs \<le> 127))
           ''identifier is invalid'' (Inr (c # cs))
     | _ \<Rightarrow> Inl (ValueError ''identifier is invalid''))"

definition sha256_text :: "string \<Rightarrow> bool" where
  "sha256_text s \<longleftrightarrow> length s = 64 \<and> list_all (\<lambda>c. ascii_digit c \<or> c \<in> set ''abcdef'') s"

definition role_of :: "pyval \<Rightarrow> role result" where
  "role_of v = (case v of
       PStr s \<Rightarrow>
         (if s = ''viewer'' then Inr VIEWER else if s = ''programmer'' then Inr PROGRAMMER
          else if s = ''approver'' then Inr APPROVER else if s = ''admin'' then Inr ADMIN
          else Inl (ValueError ''roles are invalid''))
     | _ \<Rightarrow> Inl (ValueError ''roles are invalid''))"

definition read_roles :: "pyval \<Rightarrow> role set result" where
  "read_roles v = (case v of
       PList (r # rs) \<Rightarrow> mapE set (traverseE role_of (r # rs))
     | _ \<Rightarrow> Inl (ValueError ''roles cannot be empty''))"

text \<open>One entry of \<open>tokens\<close>; uniqueness is checked against the entries read before.\<close>

definition read_credential :: "pyval \<Rightarrow> credential list \<Rightarrow> credential list result" where
  "read_credential item cs = (case item of
       PDict d \<Rightarrow>
         bindE (read_identifier (cfg_get d ''id'' PNone)) (\<lambda>i.
         bindE (read_identifier (cfg_get d ''subject'' PNone)) (\<lambda>subject.
         bindE (read_identifier (cfg_get d ''tenant_id'' PNone)) (\<lambda>tenant.
         bindE (case cfg_get d ''display_name'' PNone of
                  PStr n \<Rightarrow> raise_if (\<not> (2 \<le> length n \<and> length n \<le> 120))
                             ''display_name must contain 2-120 characters'' (Inr n)
                | _ \<Rightarrow> Inl (ValueError ''display_name must contain 2-120 characters'')) (\<lambda>name.
         bindE (case cfg_get d ''token_sha256'' PNone of
                  PStr h \<Rightarrow> raise_if (\<not> sha256_text h) ''token_sha256 must be a lowercase SHA-256 digest'' (Inr h)
                | _ \<Rightarrow> Inl (ValueError ''token_sha256 must be a lowercase SHA-256 digest'')) (\<lambda>h.
         bindE (read_roles (cfg_get d ''roles'' PNone)) (\<lambda>roles.
         raise_if (i \<in> set (map cr_credential_id cs) \<or> h \<in> set (map cr_token_sha256 cs))
           ''credential ids and token hashes must be unique''
           (Inr (cs @ [\<lparr>cr_credential_id = i, cr_token_sha256 = h,
                        cr_principal = \<lparr>pr_subject = subject, pr_display_name = name, pr_tenant_id = tenant,
                                        pr_roles = roles, pr_credential_id = i\<rparr>\<rparr>]))))))))
     | _ \<Rightarrow> Inl (ValueError ''token must be an object''))"

definition read_config :: "pyval \<Rightarrow> bool \<Rightarrow> security_config result" where
  "read_config payload require_https = (case payload of
       PDict d \<Rightarrow>
         raise_if (cfg_get d ''schema'' PNone \<noteq> PStr ''bactalk.auth/v1'')
           ''authentication config must use schema bactalk.auth/v1''
           (case cfg_get d ''tokens'' PNone of
              PList (t # ts) \<Rightarrow> mapE (\<lambda>cs. \<lparr>se_enabled = True, se_credentials = cs, se_require_https = require_https\<rparr>)
                                 (foldE read_credential (t # ts) [])
            | _ \<Rightarrow> Inl (ValueError ''authentication config requires at least one token''))
     | _ \<Rightarrow> Inl (ValueError ''authentication config must use schema bactalk.auth/v1''))"

definition hash_token :: "(string \<Rightarrow> string) \<Rightarrow> string \<Rightarrow> string result" where
  "hash_token sha256 token =
     raise_if (length token < 32) ''production bearer tokens must contain at least 32 characters'' (Inr (sha256 token))"

text \<open>The last credential whose digest matches.\<close>

definition authenticate :: "(string \<Rightarrow> string) \<Rightarrow> security_config \<Rightarrow> string option \<Rightarrow> principal option" where
  "authenticate sha256 s authorization =
     (if \<not> se_enabled s then None
      else case authorization of
        None \<Rightarrow> None
      | Some a \<Rightarrow>
          if \<not> starts_with ''Bearer '' a then None
          else let token = drop 7 a in
            if token = [] \<or> 4096 < length token then None
            else fold (\<lambda>c matched. if sha256 token = cr_token_sha256 c then Some (cr_principal c) else matched)
                   (se_credentials s) None)"

text \<open>\<open>enforce_identity_and_audit\<close>: a refusal with its status code, or the principal with which the
  request is handled.\<close>

definition admit :: "(string \<Rightarrow> string) \<Rightarrow> security_config \<Rightarrow> bool \<Rightarrow> string \<Rightarrow> string \<Rightarrow> string option \<Rightarrow>
    nat + principal option" where
  "admit sha256 s is_https verb path authorization =
     (case (if se_enabled s then required_role verb path else None) of
        None \<Rightarrow> Inr None
      | Some r \<Rightarrow>
          if se_require_https s \<and> \<not> is_https then Inl 400
          else (case authenticate sha256 s authorization of
                  None \<Rightarrow> Inl 401
                | Some p \<Rightarrow> if permits p r then Inr (Some p) else Inl 403))"

section \<open>The audit log\<close>

text \<open>A line of the log file: white space only, not JSON, or what \<open>json.loads\<close> reads.\<close>

datatype audit_line = Blank | Malformed | Entry pyval

type_synonym event_digest = "pyval dict \<Rightarrow> string"

definition zero_hash :: string where
  "zero_hash = replicate 64 (CHR ''0'')"

definition unsigned_event :: "pyval dict \<Rightarrow> pyval dict" where
  "unsigned_event e = filter (\<lambda>(k, _). k \<noteq> ''event_hash'') e"

definition event_hash :: "event_digest \<Rightarrow> pyval dict \<Rightarrow> string" where
  "event_hash digest e = digest (unsigned_event e)"

definition check_line :: "event_digest \<Rightarrow> string \<Rightarrow> audit_line \<Rightarrow> string result" where
  "check_line digest previous l = (case l of
       Entry (PDict e) \<Rightarrow>
         raise_if (cfg_get e ''previous_hash'' PNone \<noteq> PStr previous
                   \<or> cfg_get e ''event_hash'' PNone \<noteq> PStr (event_hash digest e))
           ''audit hash chain verification failed'' (Inr (event_hash digest e))
     | Entry _ \<Rightarrow> Inl AttributeError
     | _ \<Rightarrow> Inl (ValueError ''audit log is invalid JSON''))"

fun verify_from :: "event_digest \<Rightarrow> string \<Rightarrow> nat \<Rightarrow> audit_line list \<Rightarrow> (nat \<times> string) result" where
  "verify_from digest previous n [] = Inr (n, previous)"
| "verify_from digest previous n (l # ls) =
     bindE (check_line digest previous l) (\<lambda>h. verify_from digest h (Suc n) ls)"

definition audit_verify :: "event_digest \<Rightarrow> audit_line list \<Rightarrow> (nat \<times> string) result" where
  "audit_verify digest ls = verify_from digest zero_hash 0 ls"

text \<open>\<open>str(json.loads(last)["event_hash"])\<close>; \<open>py_str\<close> is \<open>str\<close>.\<close>

definition last_hash :: "(pyval \<Rightarrow> string) \<Rightarrow> audit_line list \<Rightarrow> string result" where
  "last_hash py_str ls =
     (let kept = filter (\<lambda>l. l \<noteq> Blank) ls in
      if kept = [] then Inr zero_hash
      else case last kept of
        Entry (PDict e) \<Rightarrow> mapE py_str (dict_get e ''event_hash'')
      | Entry _ \<Rightarrow> Inl (TypeError ''indices'')
      | _ \<Rightarrow> Inl (ValueError ''invalid JSON''))"

record audit_request =
  au_event_id :: string
  au_occurred_at :: string
  au_request_id :: string
  au_principal :: "principal option"
  au_action :: string
  au_outcome :: string
  au_verb :: string
  au_path :: string
  au_status_code :: int

definition audit_event :: "audit_request \<Rightarrow> string \<Rightarrow> pyval dict" where
  "audit_event r previous =
     (let p = au_principal r; field = (\<lambda>f. case p of None \<Rightarrow> PNone | Some p \<Rightarrow> PStr (f p)) in
      [(''schema'', PStr ''bactalk.audit-event/v1''), (''event_id'', PStr (au_event_id r)),
       (''occurred_at'', PStr (au_occurred_at r)), (''request_id'', PStr (au_request_id r)),
       (''actor'', case p of None \<Rightarrow> PStr ''anonymous'' | Some p \<Rightarrow> PStr (pr_subject p)),
       (''actor_display_name'', field pr_display_name), (''tenant_id'', field pr_tenant_id),
       (''credential_id'', field pr_credential_id), (''action'', PStr (au_action r)),
       (''outcome'', PStr (au_outcome r)), (''method'', PStr (au_verb r)), (''path'', PStr (au_path r)),
       (''status_code'', PInt (au_status_code r)), (''previous_hash'', PStr previous)])"

definition audit_append :: "event_digest \<Rightarrow> (pyval \<Rightarrow> string) \<Rightarrow> audit_request \<Rightarrow> audit_line list \<Rightarrow>
    audit_line list result" where
  "audit_append digest py_str r ls =
     bindE (last_hash py_str ls) (\<lambda>previous.
     let e = audit_event r previous in
     Inr (ls @ [Entry (PDict (AList.update ''event_hash'' (PStr (event_hash digest e)) e))]))"

text \<open>The identity middleware around a handler, which answers a status code for the principal set on
  the request.  The request record carries the identifiers and time the log takes from outside.\<close>

definition role_value :: "role \<Rightarrow> string" where
  "role_value r = (case r of VIEWER \<Rightarrow> ''viewer'' | PROGRAMMER \<Rightarrow> ''programmer'' | APPROVER \<Rightarrow> ''approver'' | ADMIN \<Rightarrow> ''admin'')"

definition enforce_identity_and_audit :: "event_digest \<Rightarrow> (pyval \<Rightarrow> string) \<Rightarrow> (string \<Rightarrow> string) \<Rightarrow> security_config \<Rightarrow>
    bool \<Rightarrow> audit_request \<Rightarrow> string option \<Rightarrow> (principal option \<Rightarrow> nat) \<Rightarrow> audit_line list \<Rightarrow>
    (nat \<times> audit_line list) result" where
  "enforce_identity_and_audit digest py_str sha256 s is_https a authorization call_next ls =
     (let role = required_role (au_verb a) (au_path a);
          principal = (if se_enabled s \<and> role \<noteq> None \<and> \<not> (se_require_https s \<and> \<not> is_https)
                       then authenticate sha256 s authorization else None);
          code = (case admit sha256 s is_https (au_verb a) (au_path a) authorization of
                    Inl refused \<Rightarrow> refused | Inr p \<Rightarrow> call_next p) in
      case role of
        None \<Rightarrow> Inr (code, ls)
      | Some r \<Rightarrow>
          mapE (Pair code) (audit_append digest py_str
            (a\<lparr>au_principal := principal, au_action := ''api.'' @ role_value r,
               au_outcome := if code < 400 then ''allowed'' else ''denied-or-failed'', au_status_code := int code\<rparr>) ls))"

section \<open>What authorization guarantees\<close>

lemma authenticate_member:
  assumes "authenticate sha256 s authorization = Some p"
  shows "\<exists>c \<in> set (se_credentials s). cr_principal c = p \<and>
    (\<exists>token. authorization = Some (''Bearer '' @ token) \<and> sha256 token = cr_token_sha256 c)"
proof -
  obtain a where a: "authorization = Some a" "starts_with ''Bearer '' a"
    "fold (\<lambda>c matched. if sha256 (drop 7 a) = cr_token_sha256 c then Some (cr_principal c) else matched)
       (se_credentials s) None = Some p"
    using assms by (auto simp: authenticate_def Let_def split: option.splits if_splits)
  have shape: "a = ''Bearer '' @ drop 7 a"
  proof -
    have "take 7 a = ''Bearer ''" using a(2) by (simp add: starts_with_def eval_nat_numeral)
    then show ?thesis using append_take_drop_id [of 7 a] by metis
  qed
  have "fold (\<lambda>c matched. if sha256 t = cr_token_sha256 c then Some (cr_principal c) else matched) cs m = Some p
      \<Longrightarrow> m = Some p \<or> (\<exists>c \<in> set cs. cr_principal c = p \<and> sha256 t = cr_token_sha256 c)" for t cs m
    by (induction cs arbitrary: m) (auto split: if_splits)
  from this [OF a(3)] obtain c where "c \<in> set (se_credentials s)" "cr_principal c = p"
    "sha256 (drop 7 a) = cr_token_sha256 c" by auto
  then show ?thesis using a(1) shape by blast
qed

lemma admit_Inr:
  "se_enabled s \<Longrightarrow> required_role verb path = Some r \<Longrightarrow>
     admit sha256 s is_https verb path authorization = Inr p \<longleftrightarrow>
       (\<not> se_require_https s \<or> is_https)
       \<and> (\<exists>q. p = Some q \<and> authenticate sha256 s authorization = Some q \<and> permits q r)"
  by (auto simp: admit_def split: option.splits)

text \<open>A request that decides about a candidate, and any other whose HTTP method is a writing one.  The
  role of a request depends on method and path alone; whether its handler stores anything does not
  enter (reading the job queue may store the failure of a job whose worker is lost).\<close>

definition decides :: "string \<Rightarrow> bool" where
  "decides path \<longleftrightarrow> starts_with ''/api/'' path \<and> (ends_with ''/approve'' path \<or> ends_with ''/reject'' path)"

definition writing_method :: "string \<Rightarrow> string \<Rightarrow> bool" where
  "writing_method verb path \<longleftrightarrow> starts_with ''/api/'' path \<and> map upper_char verb \<in> {''POST'', ''PUT'', ''PATCH'', ''DELETE''}
     \<and> path \<notin> {''/api/health'', ''/api/security/status''}"

lemma decides_role: "decides path \<Longrightarrow> required_role verb path = Some APPROVER"
  by (auto simp: decides_def required_role_def ends_with_def)

lemma writing_role:
  "writing_method verb path \<Longrightarrow> required_role verb path \<in> {Some PROGRAMMER, Some APPROVER, Some ADMIN}"
  by (auto simp: writing_method_def required_role_def)

text \<open>C38: duties are separated.  With authentication enabled, every admitted request to approve or
  reject comes with the bearer token of a configured credential whose principal is an approver
  or an administrator, and every other admitted request with a writing method (POST, PUT, PATCH or
  DELETE) outside the two public status paths with one of a programmer, an approver or an
  administrator: under \<open>/api/\<close> a principal that is only a viewer gets past this check with a reading
  method alone, and one that is only a viewer or a programmer approves and rejects nothing.\<close>

theorem duties_separated:
  assumes "se_enabled s" and "admit sha256 s is_https verb path authorization = Inr p"
    and "decides path \<or> writing_method verb path"
  shows "\<exists>c \<in> set (se_credentials s). \<exists>token. p = Some (cr_principal c)
    \<and> authorization = Some (''Bearer '' @ token) \<and> sha256 token = cr_token_sha256 c
    \<and> pr_roles (cr_principal c) \<inter> (if decides path then {APPROVER, ADMIN} else {PROGRAMMER, APPROVER, ADMIN}) \<noteq> {}"
proof -
  obtain r where r: "required_role verb path = Some r" "r \<in> (if decides path then {APPROVER} else {PROGRAMMER, APPROVER, ADMIN})"
    using assms(3) decides_role writing_role by (cases "decides path") fastforce+
  obtain q where q: "p = Some q" "authenticate sha256 s authorization = Some q" "permits q r"
    using assms(2) by (auto simp: admit_Inr [OF assms(1) r(1)])
  have "pr_roles q \<inter> (if decides path then {APPROVER, ADMIN} else {PROGRAMMER, APPROVER, ADMIN}) \<noteq> {}"
    using q(3) r(2) by (auto simp: permits_def split: if_splits)
  then show ?thesis using authenticate_member [OF q(2)] q(1) by blast
qed

definition sample_security :: security_config where
  "sample_security = \<lparr>se_enabled = True,
     se_credentials = [\<lparr>cr_credential_id = ''c1'', cr_token_sha256 = ''t'', cr_principal =
       \<lparr>pr_subject = ''ann'', pr_display_name = ''Ann'', pr_tenant_id = ''site'', pr_roles = {APPROVER},
        pr_credential_id = ''c1''\<rparr>\<rparr>], se_require_https = True\<rparr>"

lemma duties_separated_witness:
  "admit (\<lambda>t. t) sample_security True ''POST'' ''/api/runs/1/approve'' (Some ''Bearer t'')
      = Inr (Some (cr_principal (hd (se_credentials sample_security))))
   \<and> (\<exists>c \<in> set (se_credentials sample_security). \<exists>token.
        Some (cr_principal (hd (se_credentials sample_security))) = Some (cr_principal c)
        \<and> Some ''Bearer t'' = Some (''Bearer '' @ token) \<and> token = cr_token_sha256 c
        \<and> pr_roles (cr_principal c) \<inter> {APPROVER, ADMIN} \<noteq> {})"
proof -
  have d: "decides ''/api/runs/1/approve''" by code_simp
  have a: "admit (\<lambda>t. t) sample_security True ''POST'' ''/api/runs/1/approve'' (Some ''Bearer t'')
      = Inr (Some (cr_principal (hd (se_credentials sample_security))))"
    by (simp add: admit_def decides_role [OF d] sample_security_def authenticate_def starts_with_def permits_def)
  have "se_enabled sample_security" by (simp add: sample_security_def)
  from duties_separated [OF this a disjI1 [OF d]] show ?thesis using a by (simp only: d if_True simp_thms)
qed

lemma read_credential_Inr:
  "read_credential item cs = Inr cs' \<Longrightarrow>
     \<exists>c. cs' = cs @ [c] \<and> cr_token_sha256 c \<notin> set (map cr_token_sha256 cs) \<and> pr_roles (cr_principal c) \<noteq> {}"
  unfolding read_credential_def
  by (cases item) (auto simp: bindE_eq_Inr raise_if_eq_Inr read_roles_def mapE_eq_Inr traverseE_length
      split: pyval.splits list.splits)

lemma read_config_distinct:
  assumes "read_config payload require_https = Inr s"
  shows "se_enabled s \<and> distinct (map cr_token_sha256 (se_credentials s))"
proof -
  have "distinct (map cr_token_sha256 cs)" if "foldE read_credential ts [] = Inr cs" for ts cs
    by (rule foldE_invariant [OF _ _ that]) (auto dest!: read_credential_Inr)
  then show ?thesis
    using assms by (auto simp: read_config_def raise_if_eq_Inr mapE_eq_Inr simp del: foldE.simps split: pyval.splits list.splits)
qed

lemma match_digest:
  assumes "distinct (map cr_token_sha256 cs)" and "c \<in> set cs"
  shows "fold (\<lambda>d matched. if cr_token_sha256 c = cr_token_sha256 d then Some (cr_principal d) else matched) cs m
    = Some (cr_principal c)"
  using assms
proof (induction cs rule: rev_induct)
  case (snoc d ds)
  then show ?case by (cases "c = d") (force simp: image_iff)+
qed simp

text \<open>C40: issued tokens work.  For a configuration file that was accepted, the token whose hash
  \<open>hash_token\<close> printed for one of its entries authenticates as exactly that entry's principal,
  unless it is longer than the header limit.\<close>

theorem issued_token_authenticates:
  assumes "read_config payload require_https = Inr s" and "c \<in> set (se_credentials s)"
    and "hash_token sha256 token = Inr (cr_token_sha256 c)" and "length token \<le> 4096"
  shows "authenticate sha256 s (Some (''Bearer '' @ token)) = Some (cr_principal c)"
proof -
  have d: "se_enabled s" "distinct (map cr_token_sha256 (se_credentials s))"
    using read_config_distinct [OF assms(1)] by simp_all
  have t: "token \<noteq> []" "sha256 token = cr_token_sha256 c"
    using assms(3) by (auto simp: hash_token_def raise_if_eq_Inr)
  have "fold (\<lambda>d matched. if cr_token_sha256 c = cr_token_sha256 d then Some (cr_principal d) else matched)
      (se_credentials s) None = Some (cr_principal c)"
    by (rule match_digest [OF d(2) assms(2)])
  then show ?thesis
    using d(1) t assms(4) by (simp add: authenticate_def starts_with_def)
qed

definition sample_config :: pyval where
  "sample_config = PDict [(''schema'', PStr ''bactalk.auth/v1''), (''tokens'', PList [PDict
     [(''id'', PStr ''c1''), (''subject'', PStr ''ann''), (''tenant_id'', PStr ''site''), (''display_name'', PStr ''Ann''),
      (''token_sha256'', PStr zero_hash), (''roles'', PList [PStr ''approver''])]])]"

lemma issued_token_authenticates_witness:
  "\<exists>s c. read_config sample_config True = Inr s
     \<and> authenticate (\<lambda>t. zero_hash) s (Some (''Bearer '' @ replicate 40 (CHR ''t''))) = Some c \<and> pr_roles c = {APPROVER}"
proof -
  have ok: "sha256_text zero_hash" by code_simp
  have i: "read_identifier (PStr ''c1'') = Inr ''c1'' \<and> read_identifier (PStr ''ann'') = Inr ''ann''
      \<and> read_identifier (PStr ''site'') = Inr ''site''" by code_simp
  obtain s c where r: "read_config sample_config True = Inr s" "se_credentials s = [c]" "cr_token_sha256 c = zero_hash"
    "pr_roles (cr_principal c) = {APPROVER}"
    using ok i by (auto simp: read_config_def sample_config_def cfg_get_def read_credential_def read_roles_def role_of_def)
  have "hash_token (\<lambda>t. zero_hash) (replicate 40 (CHR ''t'')) = Inr (cr_token_sha256 c)"
    by (simp add: hash_token_def r(3))
  from issued_token_authenticates [OF r(1) _ this] show ?thesis using r by auto
qed

section \<open>What the audit chain guarantees\<close>

lemma verify_from_append:
  "verify_from digest previous n (xs @ ys) =
     bindE (verify_from digest previous n xs) (\<lambda>(m, h). verify_from digest h m ys)"
  by (induction xs arbitrary: previous n) (simp_all add: bindE_assoc)

lemma verify_from_count: "verify_from digest previous n xs = Inr (m, h) \<Longrightarrow> m = n + length xs"
  by (induction xs arbitrary: previous n) (fastforce simp: bindE_eq_Inr)+

lemma check_line_Inr:
  "check_line digest previous l = Inr h \<longleftrightarrow> (\<exists>e. l = Entry (PDict e) \<and> map_of e ''previous_hash'' = Some (PStr previous)
     \<and> map_of e ''event_hash'' = Some (PStr h) \<and> h = event_hash digest e)"
  by (auto simp: check_line_def raise_if_eq_Inr cfg_get_def split: option.splits audit_line.splits pyval.splits)

lemma map_of_unsigned_event: "k \<noteq> ''event_hash'' \<Longrightarrow> map_of (unsigned_event e) k = map_of e k"
  by (induction e) (auto simp: unsigned_event_def)

text \<open>Two lines that record the same event: the same fields but for the hash, and the same hash.\<close>

definition same_line :: "audit_line \<Rightarrow> audit_line \<Rightarrow> bool" where
  "same_line a b \<longleftrightarrow> (\<exists>e f. a = Entry (PDict e) \<and> b = Entry (PDict f) \<and> unsigned_event e = unsigned_event f
     \<and> map_of e ''event_hash'' = map_of f ''event_hash'')"

definition collision_between :: "event_digest \<Rightarrow> audit_line list \<Rightarrow> audit_line list \<Rightarrow> bool" where
  "collision_between digest xs ys \<longleftrightarrow> (\<exists>e f. Entry (PDict e) \<in> set xs \<and> Entry (PDict f) \<in> set ys
     \<and> unsigned_event e \<noteq> unsigned_event f \<and> event_hash digest e = event_hash digest f)"

text \<open>C39: the audit log is tamper evident.  If two logs of the same length both verify and end in the
  same head hash, then they record the same events in the same order, unless an event of one and
  an event of the other are a collision of the digest: editing, reordering or replacing an event
  changes the head.\<close>

theorem audit_tamper_evident:
  assumes "audit_verify digest xs = Inr (n, h)" and "audit_verify digest ys = Inr (n, h)"
  shows "list_all2 same_line xs ys \<or> collision_between digest xs ys"
proof -
  have "length xs = length ys"
    using assms verify_from_count [of digest zero_hash 0 xs n h] verify_from_count [of digest zero_hash 0 ys n h]
    by (simp add: audit_verify_def)
  then show ?thesis
    using assms
  proof (induction xs ys arbitrary: n h rule: rev_induct2)
    case (4 x xs y ys)
    obtain m k where x: "verify_from digest zero_hash 0 xs = Inr (m, k)" "check_line digest k x = Inr h"
      using 4(3) by (auto simp: audit_verify_def verify_from_append bindE_eq_Inr)
    obtain m' k' where y: "verify_from digest zero_hash 0 ys = Inr (m', k')" "check_line digest k' y = Inr h"
      using 4(4) by (auto simp: audit_verify_def verify_from_append bindE_eq_Inr)
    obtain e where e: "x = Entry (PDict e)" "map_of e ''previous_hash'' = Some (PStr k)"
      "map_of e ''event_hash'' = Some (PStr h)" "h = event_hash digest e" using x(2) check_line_Inr by blast
    obtain f where f: "y = Entry (PDict f)" "map_of f ''previous_hash'' = Some (PStr k')"
      "map_of f ''event_hash'' = Some (PStr h)" "h = event_hash digest f" using y(2) check_line_Inr by blast
    show ?case
    proof (cases "unsigned_event e = unsigned_event f")
      case False
      then have "collision_between digest (xs @ [x]) (ys @ [y])"
        unfolding collision_between_def using e f by (intro exI [of _ e] exI [of _ f]) simp
      then show ?thesis by blast
    next
      case un: True
      then have "k = k'"
      using e(2) f(2) map_of_unsigned_event [of "''previous_hash''" e] map_of_unsigned_event [of "''previous_hash''" f] by simp
      moreover have "m = m'" using verify_from_count [OF x(1)] verify_from_count [OF y(1)] 4(2) by simp
      ultimately have "list_all2 same_line xs ys \<or> collision_between digest xs ys"
        using 4(1) [of m k] 4(2) x(1) y(1) by (simp add: audit_verify_def)
      moreover have "same_line x y" using e f un by (auto simp: same_line_def)
      moreover have "collision_between digest xs ys \<Longrightarrow> collision_between digest (xs @ [x]) (ys @ [y])"
        by (auto simp: collision_between_def)
      ultimately show ?thesis by (auto simp: list_all2_appendI)
    qed
  qed simp_all
qed

lemma verify_from_kept: "verify_from digest previous n xs = Inr r \<Longrightarrow> filter (\<lambda>l. l \<noteq> Blank) xs = xs"
  by (induction xs arbitrary: previous n) (auto simp: bindE_eq_Inr check_line_def)

text \<open>Appending keeps the chain valid: a verified log extended by any request verifies again, one
  event longer, and its new head is the hash of the appended event, which names the old head.\<close>

lemma append_verifies:
  assumes "audit_verify digest ls = Inr (n, h)" and "\<forall>s. py_str (PStr s) = s"
  shows "\<exists>e. audit_append digest py_str r ls = Inr (ls @ [Entry (PDict e)])
    \<and> (\<forall>k. k \<noteq> ''event_hash'' \<longrightarrow> map_of e k = map_of (audit_event r h) k)
    \<and> audit_verify digest (ls @ [Entry (PDict e)]) = Inr (Suc n, event_hash digest e)"
proof -
  have last: "last_hash py_str ls = Inr h"
  proof (cases ls rule: rev_cases)
    case Nil
    then show ?thesis using assms(1) by (simp add: last_hash_def audit_verify_def)
  next
    case (snoc ks l)
    then obtain k where "check_line digest k l = Inr h"
      using assms(1) by (auto simp: audit_verify_def verify_from_append bindE_eq_Inr)
    then show ?thesis
      using snoc assms(2) verify_from_kept [of digest zero_hash 0 ls] assms(1)
      by (auto simp: last_hash_def check_line_Inr dict_get_def audit_verify_def)
  qed
  let ?e = "audit_event r h"
  let ?s = "AList.update ''event_hash'' (PStr (event_hash digest ?e)) ?e"
  have fresh: "map_of ?e ''event_hash'' = None" and prev: "map_of ?e ''previous_hash'' = Some (PStr h)"
    by (simp_all add: audit_event_def Let_def)
  have "unsigned_event (AList.update ''event_hash'' v e) = unsigned_event e" if "map_of e ''event_hash'' = None" for v e
    using that by (induction e) (auto simp: unsigned_event_def split: if_splits)
  from this [OF fresh] have h': "event_hash digest ?s = event_hash digest ?e" by (simp add: event_hash_def)
  have "check_line digest h (Entry (PDict ?s)) = Inr (event_hash digest ?e)"
    unfolding check_line_Inr using prev h' by simp
  then show ?thesis
    using assms(1) last h'
    by (intro exI [of _ ?s]) (simp add: audit_append_def Let_def audit_verify_def verify_from_append)
qed

section \<open>Every request is on the record\<close>

text \<open>Every request is on the record.  While the log verifies, the middleware always answers; a
  request that needs a role is answered with the refusal of the admission, or by the handler
  under the admitted principal, and the log then holds exactly one more event, with that status
  code and the matching outcome, and still verifies.  A request that needs no role is handled
  and leaves the log as it was.\<close>

theorem requests_audited:
  assumes "audit_verify digest ls = Inr (n, h)" and "\<forall>s. py_str (PStr s) = s"
  shows "\<exists>code ls'. enforce_identity_and_audit digest py_str sha256 s is_https a authorization call_next ls = Inr (code, ls')
    \<and> code = (case admit sha256 s is_https (au_verb a) (au_path a) authorization of Inl c \<Rightarrow> c | Inr p \<Rightarrow> call_next p)
    \<and> (case required_role (au_verb a) (au_path a) of
         None \<Rightarrow> ls' = ls
       | Some r \<Rightarrow> (\<exists>e. ls' = ls @ [Entry (PDict e)] \<and> map_of e ''status_code'' = Some (PInt (int code))
           \<and> map_of e ''outcome'' = Some (PStr (if code < 400 then ''allowed'' else ''denied-or-failed''))
           \<and> audit_verify digest ls' = Inr (Suc n, event_hash digest e)))"
proof (cases "required_role (au_verb a) (au_path a)")
  case None
  then show ?thesis by (simp add: enforce_identity_and_audit_def admit_def)
next
  case (Some r)
  let ?code = "case admit sha256 s is_https (au_verb a) (au_path a) authorization of Inl c \<Rightarrow> c | Inr p \<Rightarrow> call_next p"
  let ?principal = "if se_enabled s \<and> \<not> (se_require_https s \<and> \<not> is_https) then authenticate sha256 s authorization else None"
  let ?r = "a\<lparr>au_principal := ?principal, au_action := ''api.'' @ role_value r,
    au_outcome := if ?code < 400 then ''allowed'' else ''denied-or-failed'', au_status_code := int ?code\<rparr>"
  obtain e where e: "audit_append digest py_str ?r ls = Inr (ls @ [Entry (PDict e)])"
    "\<And>k. k \<noteq> ''event_hash'' \<Longrightarrow> map_of e k = map_of (audit_event ?r h) k"
    "audit_verify digest (ls @ [Entry (PDict e)]) = Inr (Suc n, event_hash digest e)"
    using append_verifies [OF assms, of ?r] by blast
  have "enforce_identity_and_audit digest py_str sha256 s is_https a authorization call_next ls
      = Inr (?code, ls @ [Entry (PDict e)])"
    unfolding enforce_identity_and_audit_def Let_def Some using e(1) by simp
  moreover have "map_of e ''status_code'' = Some (PInt (int ?code))"
    "map_of e ''outcome'' = Some (PStr (if ?code < 400 then ''allowed'' else ''denied-or-failed''))"
    by (simp_all add: e(2) audit_event_def Let_def)
  ultimately show ?thesis using e(3) unfolding Some by simp
qed

definition sample_audit :: audit_request where
  "sample_audit = \<lparr>au_event_id = ''e1'', au_occurred_at = ''2026-01-02T00:00:00+00:00'', au_request_id = ''r1'',
     au_principal = None, au_action = ''api.viewer'', au_outcome = ''allowed'', au_verb = ''GET'',
     au_path = ''/api/runs'', au_status_code = 200\<rparr>"

definition sample_log :: "audit_line list" where
  "sample_log = [Entry (PDict ((''event_hash'', PStr ''h'') # audit_event sample_audit zero_hash))]"

lemma sample_log_verifies: "audit_verify (\<lambda>d. ''h'') sample_log = Inr (1, ''h'')"
  by (simp add: audit_verify_def sample_log_def check_line_def cfg_get_def audit_event_def sample_audit_def
      raise_if_def event_hash_def Let_def)

lemma audit_tamper_evident_witness:
  "list_all2 same_line sample_log sample_log \<or> collision_between (\<lambda>d. ''h'') sample_log sample_log"
  by (rule audit_tamper_evident [OF sample_log_verifies sample_log_verifies])

lemma requests_audited_witness:
  "\<exists>code ls. enforce_identity_and_audit (\<lambda>d. ''h'') (\<lambda>v. case v of PStr s \<Rightarrow> s | _ \<Rightarrow> ''None'') (\<lambda>t. t) sample_security
       False sample_audit None (\<lambda>p. 200) sample_log = Inr (code, ls) \<and> code = 400"
proof -
  have "\<forall>s. (\<lambda>v. case v of PStr s \<Rightarrow> s | _ \<Rightarrow> ''None'') (PStr s) = s" by simp
  have r: "required_role ''GET'' ''/api/runs'' = Some VIEWER" by code_simp
  from requests_audited [OF sample_log_verifies \<open>\<forall>s. _ s\<close>, of "\<lambda>t. t" sample_security False sample_audit None "\<lambda>p. 200"]
  show ?thesis by (auto simp: admit_def sample_audit_def r sample_security_def)
qed

end
