(* ===== verification/Vav.thy ===== *)
theory Vav
  imports Acceptance
begin

text \<open>
  The built-in acceptance suite of \<open>src/bactalk/simulator.py\<close> for VAV graphs without their own
  cases (\<open>VavPlantSimulator\<close> and the second half of \<open>run_acceptance_suite\<close>): a zone model
  closes the loop around the graph for two scenarios, three further scans probe shutdown,
  alarm and deadband, and the qualification matrix is graded on fixed tags.
\<close>

section \<open>The zone\<close>

record vav_scenario =
  vz_initial_temp :: pyfloat
  vz_occupied :: bool
  vz_ambient_temp :: pyfloat
  vz_steps :: nat

definition zone_inputs :: "pyfloat \<Rightarrow> bool \<Rightarrow> pyval dict" where
  "zone_inputs temp occupied =
     [(''ZoneTemp'', PFloat temp), (''CoolingSetpoint'', PFloat (Fin 74)), (''HeatingSetpoint'', PFloat (Fin 70)),
      (''Occupied'', PBool occupied)]"

definition output_float :: "pyval dict \<Rightarrow> string \<Rightarrow> pyfloat result" where
  "output_float outs name = bindE (dict_get outs name) py_float"

definition percent_of :: "pyfloat \<Rightarrow> pyfloat \<Rightarrow> pyfloat result" where
  "percent_of x gain = mapE (\<lambda>q. fmul q gain) (fdiv x (Fin 100))"

definition zone_step :: "vav_scenario \<Rightarrow> pyfloat \<Rightarrow> pyfloat \<Rightarrow> pyfloat \<Rightarrow> pyfloat result" where
  "zone_step s temp damper valve =
     (let envelope = fmul (fsub (vz_ambient_temp s) temp) (rnd (12 / 1000)) in
      bindE (if vz_occupied s then percent_of damper (rnd (18 / 100)) else Inr (Fin 0)) (\<lambda>cooling.
      bindE (if vz_occupied s then percent_of valve (rnd (58 / 100)) else Inr (Fin 0)) (\<lambda>heating.
      Inr (fadd temp (fadd (fsub envelope cooling) heating)))))"

text \<open>One minute: the graph commands the zone, then the zone moves.\<close>

definition vav_minute :: "control_graph \<Rightarrow> vav_scenario \<Rightarrow> nat \<Rightarrow> interp \<Rightarrow> pyfloat \<Rightarrow>
    (pyval dict \<times> pyval dict \<times> pyfloat \<times> interp) result" where
  "vav_minute g s minute ip temp =
     bindE (evaluate g ip (zone_inputs temp (vz_occupied s)) (Fin 1)) (\<lambda>(outs, ip).
     bindE (output_float outs ''DamperCommand'') (\<lambda>damper.
     bindE (output_float outs ''ValveCommand'') (\<lambda>valve.
     bindE (zone_step s temp damper valve) (\<lambda>temp.
     bindE (output_float outs ''CoolingDemand'') (\<lambda>cooling.
     bindE (output_float outs ''HeatingDemand'') (\<lambda>heating.
     let shown = (\<lambda>x. PFloat (fround_digits 3 x)) in
     Inr ([(''minute'', PFloat (rnd (of_nat minute))), (''ZoneTemp'', shown temp), (''DamperCommand'', shown damper),
           (''ValveCommand'', shown valve), (''CoolingDemand'', shown cooling), (''HeatingDemand'', shown heating)],
          outs, temp, ip)))))))"

fun run_minutes :: "control_graph \<Rightarrow> vav_scenario \<Rightarrow> nat \<Rightarrow> nat \<Rightarrow> interp \<Rightarrow> pyfloat \<Rightarrow> pyval dict \<Rightarrow>
    (pyval dict list \<times> pyval dict \<times> interp) result" where
  "run_minutes g s 0 minute ip temp last_outputs = Inr ([], last_outputs, ip)"
| "run_minutes g s (Suc n) minute ip temp last_outputs =
     bindE (vav_minute g s minute ip temp) (\<lambda>(sample, outs, temp, ip).
     bindE (run_minutes g s n (Suc minute) ip temp outs) (\<lambda>(samples, final, ip).
     Inr (sample # samples, final, ip)))"

definition run_scenario :: "control_graph \<Rightarrow> vav_scenario \<Rightarrow> interp \<Rightarrow> (pyval dict list \<times> pyval dict \<times> interp) result" where
  "run_scenario g s ip = run_minutes g s (vz_steps s) 0 ip (vz_initial_temp s) []"

section \<open>The assertions\<close>

definition assertion :: "string \<Rightarrow> bool \<Rightarrow> pyval \<Rightarrow> string \<Rightarrow> assertion_result" where
  "assertion name passed observed expected_text =
     \<lparr>as_name = name, as_passed = passed, as_observed = observed, as_expected = ExpectedText expected_text\<rparr>"

definition scenario_of :: "string \<Rightarrow> assertion_result list \<Rightarrow> pyval dict list \<Rightarrow> scenario_result" where
  "scenario_of name assertions samples =
     \<lparr>sr_name = name, sr_passed = list_all as_passed assertions, sr_assertions = assertions, sr_samples = samples\<rparr>"

definition column :: "pyval dict list \<Rightarrow> string \<Rightarrow> pyfloat list result" where
  "column samples name = traverseE (\<lambda>sample. output_float sample name) samples"

definition extreme :: "(pyfloat \<Rightarrow> pyfloat \<Rightarrow> pyfloat) \<Rightarrow> pyfloat list \<Rightarrow> pyfloat result" where
  "extreme pick xs = (case xs of [] \<Rightarrow> Inl (ValueError ''iterable argument is empty'') | x # xs \<Rightarrow> Inr (foldl pick x xs))"

definition bounded_percent :: "pyfloat \<Rightarrow> bool" where
  "bounded_percent x \<longleftrightarrow> fle (Fin 0) x \<and> fle x (Fin 100)"

definition cooling_scenario :: "pyfloat \<Rightarrow> pyval dict list \<Rightarrow> pyval dict \<Rightarrow> scenario_result result" where
  "cooling_scenario minimum_damper samples final =
     bindE (output_float (last samples) ''ZoneTemp'') (\<lambda>temp.
     bindE (bindE (column samples ''DamperCommand'') (extreme fmin)) (\<lambda>damper.
     bindE (dict_get final ''CoolingDemand'') (\<lambda>raw. bindE (py_float raw) (\<lambda>demand.
     bindE (bindE (column samples ''CoolingDemand'') (extreme fmax)) (\<lambda>cooling.
     bindE (bindE (column samples ''HeatingDemand'') (extreme fmax)) (\<lambda>heating.
     Inr (scenario_of ''occupied cooling response''
       [assertion ''zone moves toward cooling setpoint'' (fless temp (Fin 78)) (PFloat temp) ''< 78.0 F'',
        assertion ''occupied damper minimum is maintained'' (fle minimum_damper damper) (PFloat damper) ''>= minimum'',
        assertion ''cooling command remains bounded'' (bounded_percent demand) raw ''0..100%'',
        assertion ''cooling demand responds above setpoint'' (fless (Fin 0) cooling) (PFloat cooling) ''> 0%'',
        assertion ''heating remains off during cooling'' (feq heating (Fin 0)) (PFloat heating) ''0%''] samples)))))))"

definition heating_scenario :: "pyval dict list \<Rightarrow> pyval dict \<Rightarrow> scenario_result result" where
  "heating_scenario samples final =
     bindE (output_float (last samples) ''ZoneTemp'') (\<lambda>temp.
     bindE (dict_get final ''HeatingDemand'') (\<lambda>raw. bindE (py_float raw) (\<lambda>demand.
     bindE (bindE (column samples ''CoolingDemand'') (extreme fmax)) (\<lambda>cooling.
     Inr (scenario_of ''occupied heating response''
       [assertion ''zone moves toward heating setpoint'' (fless (Fin 65) temp) (PFloat temp) ''> 65.0 F'',
        assertion ''heating command remains bounded'' (bounded_percent demand) raw ''0..100%'',
        assertion ''cooling remains off during heating'' (feq cooling (Fin 0)) (PFloat cooling) ''0%''] samples)))))"

text \<open>An assertion on one output of a single scan.\<close>

definition probe :: "pyval dict \<Rightarrow> string \<times> (pyval \<Rightarrow> bool) \<times> string \<times> string \<Rightarrow> assertion_result result" where
  "probe outs p = (case p of (name, holds, output, text_of) \<Rightarrow>
     mapE (\<lambda>v. assertion name (holds v) v text_of) (dict_get outs output))"

definition probe_scan :: "control_graph \<Rightarrow> string \<Rightarrow> pyfloat \<Rightarrow> bool \<Rightarrow> (string \<times> (pyval \<Rightarrow> bool) \<times> string \<times> string) list \<Rightarrow>
    interp \<Rightarrow> (scenario_result \<times> interp) result" where
  "probe_scan g name temp occupied probes ip =
     bindE (evaluate g ip (zone_inputs temp occupied) (Fin 1)) (\<lambda>(outs, ip).
     bindE (traverseE (probe outs) probes) (\<lambda>assertions.
     Inr (scenario_of name assertions [], ip)))"

definition equals :: "pyfloat \<Rightarrow> pyval \<Rightarrow> bool" where
  "equals x v \<longleftrightarrow> py_eq v (PFloat x)"

definition shutdown_probes :: "(string \<times> (pyval \<Rightarrow> bool) \<times> string \<times> string) list" where
  "shutdown_probes =
     [(''damper is disabled'', equals (Fin 0), ''DamperCommand'', ''0%''),
      (''reheat is disabled'', equals (Fin 0), ''ValveCommand'', ''0%''),
      (''alarm is occupancy-gated'', \<lambda>v. v = PBool False, ''HighZoneTempAlarm'', ''false'')]"

definition alarm_probes :: "(string \<times> (pyval \<Rightarrow> bool) \<times> string \<times> string) list" where
  "alarm_probes =
     [(''high temperature alarm activates'', \<lambda>v. v = PBool True, ''HighZoneTempAlarm'', ''true''),
      (''cooling saturates'', equals (Fin 100), ''CoolingDemand'', ''100%'')]"

definition deadband_probes :: "pyfloat \<Rightarrow> (string \<times> (pyval \<Rightarrow> bool) \<times> string \<times> string) list" where
  "deadband_probes minimum_damper =
     [(''cooling is zero in deadband'', equals (Fin 0), ''CoolingDemand'', ''0%''),
      (''heating is zero in deadband'', equals (Fin 0), ''HeatingDemand'', ''0%''),
      (''occupied minimum is maintained in deadband'', equals minimum_damper, ''DamperCommand'', ''minimum''),
      (''high temperature alarm remains clear below limit'', \<lambda>v. v = PBool False, ''HighZoneTempAlarm'', ''false'')]"

section \<open>The suite\<close>

definition vav_case :: "string \<Rightarrow> string \<Rightarrow> pyval \<Rightarrow> qualification_category list \<Rightarrow> acceptance_case" where
  "vav_case name goal v categories =
     \<lparr>ac_name = name, ac_inputs = [],
      ac_expectations = [\<lparr>ex_target = goal, ex_operator = EQ, ex_value = v, ex_upper = None, ex_tolerance = Fin 0\<rparr>],
      ac_repeat = 1, ac_step_seconds = Fin 1, ac_faults = [], ac_qualifications = categories, ac_timeline = []\<rparr>"

definition vav_cases :: "pyfloat \<Rightarrow> acceptance_case list" where
  "vav_cases minimum_damper =
     [vav_case ''occupied cooling response'' ''DamperCommand'' (PFloat (Fin 0)) [NORMAL_OPERATION, MODE_TRANSITION, OUTPUT_BOUNDS],
      vav_case ''occupied heating response'' ''ValveCommand'' (PFloat (Fin 0)) [NORMAL_OPERATION, MODE_TRANSITION, OUTPUT_BOUNDS],
      vav_case ''unoccupied shutdown'' ''DamperCommand'' (PFloat (Fin 0)) [UNOCCUPIED_SHUTDOWN, MODE_TRANSITION],
      vav_case ''occupied high temperature alarm'' ''HighZoneTempAlarm'' (PBool True) [ALARM_BEHAVIOR, OUTPUT_BOUNDS],
      vav_case ''occupied deadband and false-alarm check'' ''DamperCommand'' (PFloat minimum_damper) [MODE_TRANSITION, OUTPUT_BOUNDS]]"

definition vav_parameter :: "control_graph \<Rightarrow> string \<Rightarrow> pyfloat \<Rightarrow> pyfloat result" where
  "vav_parameter g name otherwise = (case cfg_get (metadata g) ''parameters'' (PDict []) of
       PDict d \<Rightarrow> py_float (cfg_get d name (PFloat otherwise))
     | _ \<Rightarrow> Inl AttributeError)"

definition vav_scenarios :: "control_graph \<Rightarrow> scenario_result list result" where
  "vav_scenarios g =
     bindE (vav_parameter g ''minimum_damper_pct'' (Fin 20)) (\<lambda>minimum_damper.
     bindE (vav_parameter g ''high_zone_temp_f'' (Fin 80)) (\<lambda>limit.
     bindE (run_scenario g \<lparr>vz_initial_temp = Fin 78, vz_occupied = True, vz_ambient_temp = Fin 85, vz_steps = 30\<rparr>
              interp_init) (\<lambda>(samples, final, plant).
     bindE (cooling_scenario minimum_damper samples final) (\<lambda>cooling.
     bindE (run_scenario g \<lparr>vz_initial_temp = Fin 65, vz_occupied = True, vz_ambient_temp = Fin 35, vz_steps = 30\<rparr>
              plant) (\<lambda>(samples, final, plant).
     bindE (heating_scenario samples final) (\<lambda>heating.
     bindE (probe_scan g ''unoccupied shutdown'' (Fin 82) False shutdown_probes interp_init) (\<lambda>(shutdown, ip).
     bindE (probe_scan g ''occupied high temperature alarm'' (fmax (Fin 82) (fadd limit (Fin 2))) True alarm_probes ip) (\<lambda>(alarm, ip).
     bindE (probe_scan g ''occupied deadband and false-alarm check'' (Fin 72) True (deadband_probes minimum_damper) ip) (\<lambda>(deadband, ip).
     Inr [cooling, heating, shutdown, alarm, deadband])))))))))"

definition run_vav_suite :: "control_graph \<Rightarrow> qualification_profile option \<Rightarrow> test_report result" where
  "run_vav_suite g profile =
     bindE (vav_scenarios g) (\<lambda>results.
     bindE (vav_parameter g ''minimum_damper_pct'' (Fin 20)) (\<lambda>minimum_damper.
     bindE (decision_coverage g results) (\<lambda>decisions.
     Inr \<lparr>tr_passed = list_all sr_passed results, tr_scenarios = results, tr_decisions = decisions,
          tr_faults = fault_coverage (vav_cases minimum_damper) results,
          tr_matrix = assess_qualification_matrix (Some ''G36_VAV_REHEAT'') (vav_cases minimum_damper) results profile\<rparr>)))"

text \<open>\<open>run_acceptance_suite\<close> with a job.\<close>

definition run_acceptance_suite :: "control_graph \<Rightarrow> job_spec \<Rightarrow> test_report result" where
  "run_acceptance_suite g job =
     bindE (validate_job_graph_contract job g) (\<lambda>_.
     if jb_acceptance_tests job \<noteq> []
     then run_generic_acceptance_suite g (jb_acceptance_tests job) (jb_qualification_profile job)
     else raise_if (map_of (metadata g) ''sequence_family'' \<noteq> Some (PStr ''G36_VAV_REHEAT''))
       ''custom control graphs require acceptance_tests''
       (run_vav_suite g (jb_qualification_profile job)))"

section \<open>What a passing report means\<close>

lemma generic_report_passed:
  assumes "run_generic_acceptance_suite g cases profile = Inr r"
  shows "tr_passed r \<longleftrightarrow> list_all sr_passed (tr_scenarios r)"
  using assms by (auto simp: run_generic_acceptance_suite_def bindE_eq_Inr)

lemma suite_report_passed:
  assumes "run_acceptance_suite g job = Inr r"
  shows "tr_passed r \<longleftrightarrow> list_all sr_passed (tr_scenarios r)"
  using assms generic_report_passed
  by (auto simp: run_acceptance_suite_def run_vav_suite_def bindE_eq_Inr raise_if_eq_Inr split: if_splits)

lemma suite_contract: "run_acceptance_suite g job = Inr r \<Longrightarrow> validate_job_graph_contract job g = Inr ()"
  by (auto simp: run_acceptance_suite_def bindE_eq_Inr)

end
