(* ===== verification/Samples.thy ===== *)
theory Samples
  imports Vav
begin

text \<open>
  A small validated graph and a job whose contract it satisfies, used where a property is
  applied to a concrete program.
\<close>

section \<open>The graph\<close>

text \<open>A graph that inverts a command: input, gate, output.\<close>

definition sample_graph :: control_graph where
  "sample_graph = \<lparr>gname = ''invert'',
     blocks = [\<lparr>bid = ''cmd'', bkind = BOOLEAN_INPUT, blabel = ''cmd'',
                 bconfig = [(''default'', PBool False)], pos_x = 0, pos_y = 0\<rparr>,
               \<lparr>bid = ''inv'', bkind = NOT, blabel = ''inv'', bconfig = [], pos_x = 0, pos_y = 0\<rparr>,
               \<lparr>bid = ''fan'', bkind = BOOLEAN_OUTPUT, blabel = ''fan'', bconfig = [], pos_x = 0, pos_y = 0\<rparr>],
     links = [\<lparr>source = ''cmd'', source_slot = ''out'', target = ''inv'', target_slot = ''in''\<rparr>,
              \<lparr>source = ''inv'', source_slot = ''out'', target = ''fan'', target_slot = ''in''\<rparr>],
     metadata = []\<rparr>"

lemma sample_ids: "is_ident (gname sample_graph)" "list_all (\<lambda>b. is_ident (bid b)) (blocks sample_graph)"
  by code_simp+

lemma sample_wiring: "validate_graph sample_graph = Inr ()"
  by code_simp

lemma sample_configs: "list_all (\<lambda>b. validate_config b = Inr ()) (blocks sample_graph)"
  by (simp add: sample_graph_def validate_config_def check_override_def guarded_def check_boolean_input_def
      config_opt_def cfg_get_def okE_def raise_if_def need_def)

lemma sample_graph_ok: "graph_ok sample_graph"
  using sample_ids sample_wiring sample_configs by (auto simp: graph_ok_def block_ok_def list_all_iff)

lemma sample_configs_ok: "configs_ok sample_graph"
  using graph_okD(5) [OF sample_graph_ok] by (simp add: configs_ok_def config_ok_def) (simp add: sample_graph_def)

section \<open>The job\<close>

definition sample_case :: acceptance_case where
  "sample_case = \<lparr>ac_name = ''stops'', ac_inputs = [(''cmd'', PBool True)],
     ac_expectations = [\<lparr>ex_target = ''fan'', ex_operator = EQ, ex_value = PBool False, ex_upper = None,
                         ex_tolerance = Fin 0\<rparr>],
     ac_repeat = 1, ac_step_seconds = Fin 1, ac_faults = [], ac_qualifications = [], ac_timeline = []\<rparr>"

definition sample_sequence :: sequence_spec where
  "sample_sequence = \<lparr>sq_family = ''FAN_STOP'', sq_parameters = [], sq_library = None, sq_controller_id = None\<rparr>"

definition sample_job :: job_spec where
  "sample_job =
     (let point = (\<lambda>n r. \<lparr>pt_name = n, pt_data_type = BOOLEAN, pt_role = r, pt_default = PBool False,
                          pt_required = True, pt_device_instance = None, pt_bacnet_object = None,
                          pt_niagara_ord = None, pt_write_priority = None\<rparr>) in
      \<lparr>jb_site = ''plant'', jb_equipment_name = ''Fan_1'', jb_sequence = sample_sequence, jb_control_graph = Some sample_graph,
       jb_points = [point ''cmd'' SETPOINT, point ''fan'' COMMAND], jb_acceptance_tests = [sample_case],
       jb_qualification_profile = None,
       jb_deliverables = \<lparr>dl_shop_profile = None, dl_alarms = [], dl_schedules = [], dl_histories = [], dl_graphics = []\<rparr>,
       jb_bacnet_scan = None, jb_virtual_actuators = []\<rparr>)"

lemma sample_contract: "validate_job_graph_contract sample_job sample_graph = Inr ()"
  by code_simp

lemma sample_case_ok: "case_ok sample_case"
proof -
  have "is_ident ''fan''" by code_simp
  then show ?thesis
    by (simp add: case_ok_def sample_case_def expectation_ok_def float_or_bool_def repeat_ok_def step_ok_def
        validate_range_def validate_timeline_mode_def raise_if_def okE_def)
qed

section \<open>Its acceptance run\<close>

lemma sample_order: "topological_order sample_graph = Inr (blocks sample_graph)"
  by code_simp

lemma sample_incoming:
  "incoming sample_graph = [(''inv'', [(''in'', ''cmd'', ''out'')]), (''fan'', [(''in'', ''inv'', ''out'')])]"
  by code_simp

lemma sample_block_ids: "block_ids sample_graph = [''cmd'', ''inv'', ''fan'']"
  by code_simp

lemma sample_injector_init:
  "injector_init sample_graph =
     Inr \<lparr>ij_input_types = [(''cmd'', BOOLEAN)], ij_defaults = [(''cmd'', PBool False)], ij_state = []\<rparr>"
  by code_simp

definition sample_values :: "pyval dict" where
  "sample_values = [(''cmd'', PBool True), (''cmd.out'', PBool True), (''inv'', PBool False), (''inv.out'', PBool False),
     (''fan'', PBool False), (''fan.out'', PBool False)]"

lemma sample_fold:
  "foldE (scan_block [(''inv'', [(''in'', ''cmd'', ''out'')]), (''fan'', [(''in'', ''inv'', ''out'')])]
     [(''cmd'', PBool True)] ck) (blocks sample_graph) ([], [], []) = Inr (sample_values, [], [])"
  by (simp add: sample_graph_def sample_values_def scan_block_def wires_of_def gather_args_def evaluate_block_def
      eval_input_def record_outcome_def assert_events_def store_state_def dotted_def read_wire_def lift_pure_def
      eval_not_def bool_arg_def eval_output_def cfg_get_def dict_get_def)

lemma sample_deferred: "run_deferred inc vals ck (blocks sample_graph) states = Inr states"
  by (simp add: sample_graph_def run_deferred_def unit_delay_blocks_def pre_blocks_def state_blocks_def)

lemma sample_scan:
  "\<not> fless step (Fin 0) \<Longrightarrow> in_state ip = [] \<Longrightarrow> evaluate sample_graph ip [(''cmd'', PBool True)] step
     = Inr (sample_values, \<lparr>in_state = [], in_time = fadd (in_time ip) step, in_events = []\<rparr>)"
  by (simp add: evaluate_def sample_order sample_incoming Let_def sample_fold sample_deferred)

lemma sample_case_passes: "\<exists>s. run_case sample_graph sample_case = Inr s \<and> sr_passed s"
  by (simp add: run_case_def sample_injector_init sample_case_def prime_def scan_once_def apply_faults_def
      validate_faults_def drop_inactive_def sample_scan interp_init_def Let_def sample_values_def
      evaluate_expectations_def evaluate_expectation_def compare_values_def sample_block_ids dict_get_def)

lemma sample_suite_passes: "\<exists>r. run_acceptance_suite sample_graph sample_job = Inr r \<and> tr_passed r"
proof -
  obtain s where s: "run_case sample_graph sample_case = Inr s" "sr_passed s" using sample_case_passes by blast
  have d: "decisions_of sample_graph = Inr [(''inv'', ''inv'')]" by code_simp
  have "jb_acceptance_tests sample_job = [sample_case]" by (simp add: sample_job_def)
  then show ?thesis
    using s by (simp add: run_acceptance_suite_def sample_contract run_generic_acceptance_suite_def
        decision_coverage_def d Let_def)
qed

end
