(* ===== verification/Agent.thy ===== *)
theory Agent
  imports Samples
begin

text \<open>
  The programming agent (\<open>ProgrammingAgent\<close> of \<open>src/bactalk/agent.py\<close>) and the structural
  difference of two graphs (\<open>graph_changes\<close> of \<open>src/bactalk/domain.py\<close>).  The agent plans,
  tests and revises at most a fixed number of times; the planner is a protocol of the source
  with two operations, and is a record of two functions here.
\<close>

section \<open>Equality of dumped values\<close>

text \<open>\<open>==\<close> on what \<open>model_dump(mode="json")\<close> returns: numbers by value, lists in order,
  dictionaries by key.\<close>

fun json_eq :: "pyval \<Rightarrow> pyval \<Rightarrow> bool" and json_list_eq :: "pyval list \<Rightarrow> pyval list \<Rightarrow> bool"
  and json_dict_within :: "pyval dict \<Rightarrow> pyval dict \<Rightarrow> bool" where
  "json_eq (PList xs) w = (case w of PList ys \<Rightarrow> json_list_eq xs ys | _ \<Rightarrow> False)"
| "json_eq (PDict d) w = (case w of PDict e \<Rightarrow> length d = length e \<and> json_dict_within d e | _ \<Rightarrow> False)"
| "json_eq v w = py_eq v w"
| "json_list_eq [] ys = (ys = [])"
| "json_list_eq (x # xs) ys = (case ys of [] \<Rightarrow> False | y # ys \<Rightarrow> json_eq x y \<and> json_list_eq xs ys)"
| "json_dict_within [] e = True"
| "json_dict_within ((k, v) # d) e =
     ((case map_of e k of None \<Rightarrow> False | Some w \<Rightarrow> json_eq v w) \<and> json_dict_within d e)"

definition dump_eq :: "block \<Rightarrow> block \<Rightarrow> bool" where
  "dump_eq b c \<longleftrightarrow> bid b = bid c \<and> bkind b = bkind c \<and> blabel b = blabel c \<and> pos_x b = pos_x c \<and> pos_y b = pos_y c
     \<and> json_eq (PDict (bconfig b)) (PDict (bconfig c))"

section \<open>\<open>graph_changes\<close>\<close>

record change_set =
  ch_added :: "string list"
  ch_modified :: "string list"
  ch_removed :: "string list"

definition link_key :: "link \<Rightarrow> string" where
  "link_key l = ''link:'' @ source l @ ''.'' @ source_slot l @ ''->'' @ target l @ ''.'' @ target_slot l"

definition graph_changes :: "control_graph \<Rightarrow> control_graph \<Rightarrow> change_set" where
  "graph_changes old new =
     (let previous_blocks = by_id old; current_blocks = by_id new;
          names = (\<lambda>d. sorted_set (map fst d));
          missing = (\<lambda>d e. filter (\<lambda>k. map_of e k = None) (names d));
          altered = filter (\<lambda>k. case (map_of previous_blocks k, map_of current_blocks k) of
                        (Some b, Some c) \<Rightarrow> \<not> dump_eq b c | _ \<Rightarrow> False) (names previous_blocks);
          previous_links = map link_key (links old); current_links = map link_key (links new);
          without = (\<lambda>xs ys. sorted_set (filter (\<lambda>k. k \<notin> set ys) xs)) in
      \<lparr>ch_added = map (\<lambda>k. ''block:'' @ k) (missing current_blocks previous_blocks)
                  @ without current_links previous_links,
       ch_modified = map (\<lambda>k. ''block:'' @ k) altered
                     @ (if json_eq (PDict (metadata old)) (PDict (metadata new)) then [] else [''graph:metadata''])
                     @ (if gname old = gname new then [] else [''graph:name'']),
       ch_removed = map (\<lambda>k. ''block:'' @ k) (missing previous_blocks current_blocks)
                    @ without previous_links current_links\<rparr>)"

section \<open>The agent\<close>

record agent_failure =
  fa_scenario :: string
  fa_assertion :: string
  fa_observed :: pyval
  fa_expected :: expected

record agent_attempt =
  at_iteration :: nat
  at_passed :: bool
  at_failed_assertions :: "string list"
  at_failures :: "agent_failure list"
  at_graph_sha256 :: string
  at_changes :: change_set

record agent_result =
  ar_graph :: control_graph
  ar_report :: test_report
  ar_attempts :: "agent_attempt list"

record planner =
  pl_plan :: "job_spec \<Rightarrow> control_graph result"
  pl_revise :: "job_spec \<Rightarrow> control_graph \<Rightarrow> test_report \<Rightarrow> control_graph result"

definition failures_of :: "test_report \<Rightarrow> agent_failure list" where
  "failures_of report =
     concat (map (\<lambda>s. map (\<lambda>a. \<lparr>fa_scenario = sr_name s, fa_assertion = as_name a, fa_observed = as_observed a,
                               fa_expected = as_expected a\<rparr>)
                       (filter (\<lambda>a. \<not> as_passed a) (sr_assertions s))) (tr_scenarios report))"

definition no_changes :: change_set where
  "no_changes = \<lparr>ch_added = [], ch_modified = [], ch_removed = []\<rparr>"

definition attempt_of :: "(control_graph \<Rightarrow> string) \<Rightarrow> nat \<Rightarrow> control_graph option \<Rightarrow> control_graph \<Rightarrow> test_report \<Rightarrow>
    agent_attempt" where
  "attempt_of digest iteration previous g report =
     (let failures = failures_of report in
      \<lparr>at_iteration = iteration, at_passed = tr_passed report, at_failed_assertions = map fa_assertion failures,
       at_failures = failures, at_graph_sha256 = digest g,
       at_changes = (case previous of None \<Rightarrow> no_changes | Some p \<Rightarrow> graph_changes p g)\<rparr>)"

text \<open>The loop from an iteration on; \<open>left\<close> counts the iterations of the range.\<close>

fun agent_loop :: "(control_graph \<Rightarrow> string) \<Rightarrow> planner \<Rightarrow> job_spec \<Rightarrow> nat \<Rightarrow> nat \<Rightarrow> nat \<Rightarrow> control_graph option \<Rightarrow>
    control_graph \<Rightarrow> agent_attempt list \<Rightarrow> agent_result result" where
  "agent_loop digest pl job max_attempts 0 iteration previous g attempts = Inl (AssertionError ''unreachable'')"
| "agent_loop digest pl job max_attempts (Suc left) iteration previous g attempts =
     bindE (run_acceptance_suite g job) (\<lambda>report.
     let attempts = attempts @ [attempt_of digest iteration previous g report] in
     if tr_passed report \<or> iteration = max_attempts
     then Inr \<lparr>ar_graph = g, ar_report = report, ar_attempts = attempts\<rparr>
     else bindE (pl_revise pl job g report) (\<lambda>g'.
       agent_loop digest pl job max_attempts left (Suc iteration) (Some g) g' attempts))"

definition agent_run :: "(control_graph \<Rightarrow> string) \<Rightarrow> planner \<Rightarrow> nat \<Rightarrow> job_spec \<Rightarrow> agent_result result" where
  "agent_run digest pl max_attempts job =
     raise_if (max_attempts < 1) ''max_attempts must be at least one''
      (bindE (pl_plan pl job) (\<lambda>g. agent_loop digest pl job max_attempts max_attempts 1 None g []))"

section \<open>What the agent returns\<close>

text \<open>The attempts of a finished run: numbered from one, all failed but possibly the last.\<close>

definition attempts_ok :: "nat \<Rightarrow> agent_attempt list \<Rightarrow> bool" where
  "attempts_ok n attempts \<longleftrightarrow> map at_iteration attempts = [1..<Suc n] \<and> list_all (\<lambda>a. \<not> at_passed a) attempts"

lemma agent_loop_result:
  assumes "agent_loop digest pl job m left i previous g attempts = Inr r" and "attempts_ok (i - 1) attempts"
    and "i + left = Suc m" and "0 < i"
  shows "run_acceptance_suite (ar_graph r) job = Inr (ar_report r)
    \<and> (\<exists>before final. ar_attempts r = before @ [final] \<and> attempts_ok (length before) before
        \<and> at_iteration final = Suc (length before) \<and> Suc (length before) \<le> m
        \<and> at_passed final = tr_passed (ar_report r) \<and> at_graph_sha256 final = digest (ar_graph r)
        \<and> (tr_passed (ar_report r) \<or> Suc (length before) = m))"
  using assms
proof (induction left arbitrary: i previous g attempts)
  case (Suc left)
  obtain report where rep: "run_acceptance_suite g job = Inr report"
    using Suc.prems(1) by (cases "run_acceptance_suite g job") simp_all
  have len: "length attempts = i - 1"
    using Suc.prems(2) by (metis attempts_ok_def diff_Suc_1 length_map length_upt)
  let ?a = "attempt_of digest i previous g report"
  have a: "at_iteration ?a = i" "at_passed ?a = tr_passed report" "at_graph_sha256 ?a = digest g"
    by (simp_all add: attempt_of_def Let_def)
  show ?case
  proof (cases "tr_passed report \<or> i = m")
    case True
    then have r: "ar_graph r = g" "ar_report r = report" "ar_attempts r = attempts @ [?a]"
      using Suc.prems(1) rep by auto
    show ?thesis
      using rep Suc.prems(2-4) True len a unfolding r
      by (intro conjI exI [of _ attempts] exI [of _ ?a]) auto
  next
    case False
    obtain g' where "agent_loop digest pl job m left (Suc i) (Some g) g' (attempts @ [?a]) = Inr r"
      using Suc.prems(1) rep False by (auto simp: bindE_eq_Inr Let_def)
    moreover have "attempts_ok (Suc i - 1) (attempts @ [?a])"
      using Suc.prems(2,4) False a by (cases i) (auto simp: attempts_ok_def)
    ultimately show ?thesis using Suc.prems(3) by (intro Suc.IH) auto
  qed
qed simp

lemma agent_run_tested:
  assumes "agent_run digest pl m job = Inr r"
  shows "run_acceptance_suite (ar_graph r) job = Inr (ar_report r)
    \<and> (\<exists>before final. ar_attempts r = before @ [final] \<and> attempts_ok (length before) before
        \<and> at_iteration final = Suc (length before) \<and> Suc (length before) \<le> m
        \<and> at_passed final = tr_passed (ar_report r) \<and> at_graph_sha256 final = digest (ar_graph r)
        \<and> (tr_passed (ar_report r) \<or> Suc (length before) = m))"
proof -
  obtain g where g: "agent_loop digest pl job m m 1 None g [] = Inr r"
    using assms by (auto simp: agent_run_def raise_if_eq_Inr bindE_eq_Inr)
  show ?thesis by (rule agent_loop_result [OF g]) (simp_all add: attempts_ok_def)
qed

text \<open>C12: the agent is bounded and cannot grade its own work.  Whatever the planner does, a returned
  result carries the report the acceptance suite gives for exactly the returned graph, after
  at most the allowed number of attempts, numbered in order, of which only the last can have
  passed; a failing result uses up all attempts.\<close>

theorem agent_result_is_tested:
  assumes "agent_run digest pl m job = Inr r"
  shows "run_acceptance_suite (ar_graph r) job = Inr (ar_report r)
    \<and> (\<exists>before final. ar_attempts r = before @ [final] \<and> attempts_ok (length before) before
        \<and> at_iteration final = Suc (length before) \<and> Suc (length before) \<le> m
        \<and> at_passed final = tr_passed (ar_report r) \<and> at_graph_sha256 final = digest (ar_graph r)
        \<and> (tr_passed (ar_report r) \<or> Suc (length before) = m))"
  using assms by (rule agent_run_tested)

lemma agent_result_is_tested_witness:
  "\<exists>r. agent_run (\<lambda>g. ''sha'') \<lparr>pl_plan = \<lambda>job. Inr sample_graph, pl_revise = \<lambda>job g report. Inr g\<rparr> 3 sample_job = Inr r
     \<and> run_acceptance_suite (ar_graph r) sample_job = Inr (ar_report r) \<and> tr_passed (ar_report r)"
proof -
  let ?pl = "\<lparr>pl_plan = \<lambda>job. Inr sample_graph, pl_revise = \<lambda>job g report. Inr g\<rparr>"
  obtain report where "run_acceptance_suite sample_graph sample_job = Inr report" "tr_passed report"
    using sample_suite_passes by blast
  then obtain r where r: "agent_run (\<lambda>g. ''sha'') ?pl 3 sample_job = Inr r" "tr_passed (ar_report r)"
    by (simp add: agent_run_def eval_nat_numeral Let_def)
  then show ?thesis using agent_result_is_tested [OF r(1)] by blast
qed

end
