(* ===== verification/Artifacts.thy ===== *)
theory Artifacts
  imports Prelude "HOL-Library.List_Lexorder" "HOL-Library.Char_ord" "HOL-Library.Multiset"
begin

text \<open>
  Files and the digest of a set of files (\<open>artifact_hash\<close> of \<open>src/bactalk/service.py\<close>).  A
  path is the list of its components, a file store maps paths to bytes, and SHA-256 is an
  argument of the definitions.  The digest frames every relative name and content with its
  length, so it binds each file of the set: what two equal digests imply is proved here.
\<close>

type_synonym path = "string list"
type_synonym store = "path \<Rightarrow> string option"
type_synonym sha = "string \<Rightarrow> string"

section \<open>Paths\<close>

fun common_prefix :: "path \<Rightarrow> path \<Rightarrow> path" where
  "common_prefix (a # p) (b # q) = (if a = b then a # common_prefix p q else [])"
| "common_prefix _ _ = []"

text \<open>\<open>os.path.commonpath\<close>\<close>

fun commonpath :: "path list \<Rightarrow> path" where
  "commonpath [] = []"
| "commonpath [p] = p"
| "commonpath (p # ps) = common_prefix p (commonpath ps)"

text \<open>\<open>path.relative_to(common).as_posix()\<close>\<close>

fun as_posix :: "path \<Rightarrow> string" where
  "as_posix [] = []"
| "as_posix [c] = c"
| "as_posix (c # p) = c @ [CHR ''/''] @ as_posix p"

section \<open>The digest\<close>

text \<open>\<open>n.to_bytes(8, "big")\<close>\<close>

fun big_endian :: "nat \<Rightarrow> nat \<Rightarrow> string" where
  "big_endian 0 n = []"
| "big_endian (Suc k) n = big_endian k (n div 256) @ [char_of (n mod 256)]"

definition to_bytes8 :: "nat \<Rightarrow> string result" where
  "to_bytes8 n = (if n < 2 ^ 64 then Inr (big_endian 8 n) else Inl OverflowError)"

definition read_bytes :: "store \<Rightarrow> path \<Rightarrow> string result" where
  "read_bytes store p = (case store p of None \<Rightarrow> Inl (OSError ''no such file'') | Some c \<Rightarrow> Inr c)"

definition frame :: "string \<times> string \<Rightarrow> string result" where
  "frame entry = (case entry of (name, content) \<Rightarrow>
     bindE (to_bytes8 (length name)) (\<lambda>n.
     bindE (to_bytes8 (length content)) (\<lambda>m.
     Inr (n @ name @ m @ content))))"

definition relative_name :: "path list \<Rightarrow> path \<Rightarrow> string" where
  "relative_name paths p = as_posix (drop (length (commonpath (map butlast paths))) p)"

definition artifact_entries :: "store \<Rightarrow> path list \<Rightarrow> (string \<times> string) list result" where
  "artifact_entries store paths =
     traverseE (\<lambda>p. mapE (Pair (relative_name paths p)) (read_bytes store p)) (sort_key (relative_name paths) paths)"

definition artifact_hash :: "sha \<Rightarrow> store \<Rightarrow> path list \<Rightarrow> string result" where
  "artifact_hash sha store paths =
     raise_if (paths = []) ''at least one artifact is required''
      (bindE (artifact_entries store paths) (\<lambda>entries.
       mapE (\<lambda>framed. sha (concat framed)) (traverseE frame entries)))"

section \<open>Framing is injective\<close>

lemma length_big_endian [simp]: "length (big_endian k n) = k"
  by (induction k arbitrary: n) simp_all

lemma big_endian_inj: "big_endian k n = big_endian k m \<Longrightarrow> n < 256 ^ k \<Longrightarrow> m < 256 ^ k \<Longrightarrow> n = m"
proof (induction k arbitrary: n m)
  case (Suc k)
  have "of_char (char_of (n mod 256)) = (of_char (char_of (m mod 256)) :: nat)"
    using Suc.prems(1) by simp
  then have "n mod 256 = m mod 256" by (simp add: of_char_of)
  moreover have "n div 256 = m div 256"
    using Suc.prems by (intro Suc.IH) (simp_all add: less_mult_imp_div_less mult.commute)
  ultimately show ?case by (metis div_mult_mod_eq)
qed simp

lemma to_bytes8_Inr: "to_bytes8 n = Inr b \<longleftrightarrow> n < 2 ^ 64 \<and> b = big_endian 8 n"
  by (auto simp: to_bytes8_def)

lemma to_bytes8_inj: "to_bytes8 n = Inr b \<Longrightarrow> to_bytes8 m = Inr b \<Longrightarrow> n = m"
  using big_endian_inj [of 8 n m] by (simp add: to_bytes8_Inr)

lemma frame_Inr:
  "frame e = Inr f \<longleftrightarrow> (\<exists>n m. to_bytes8 (length (fst e)) = Inr n \<and> to_bytes8 (length (snd e)) = Inr m
     \<and> f = n @ fst e @ m @ snd e)"
  by (auto simp: frame_def bindE_eq_Inr split: prod.splits)

lemma frame_prefix_free:
  assumes "frame e = Inr f" and "frame e' = Inr f'" and "f @ r = f' @ r'"
  shows "e = e' \<and> r = r'"
proof -
  obtain n m n' m' where
    1: "to_bytes8 (length (fst e)) = Inr n" "to_bytes8 (length (snd e)) = Inr m" "f = n @ fst e @ m @ snd e" and
    2: "to_bytes8 (length (fst e')) = Inr n'" "to_bytes8 (length (snd e')) = Inr m'" "f' = n' @ fst e' @ m' @ snd e'"
    using assms(1,2) by (auto simp: frame_Inr)
  have len: "length n = 8" "length n' = 8" "length m = 8" "length m' = 8"
    using 1 2 by (auto simp: to_bytes8_Inr)
  have eq: "n @ fst e @ m @ snd e @ r = n' @ fst e' @ m' @ snd e' @ r'" using assms(3) 1(3) 2(3) by simp
  then have n: "n = n'" "fst e @ m @ snd e @ r = fst e' @ m' @ snd e' @ r'" using len by simp_all
  then have "length (fst e) = length (fst e')" using to_bytes8_inj 1(1) 2(1) by simp
  then have f: "fst e = fst e'" "m @ snd e @ r = m' @ snd e' @ r'" using n(2) by simp_all
  then have m: "m = m'" "snd e @ r = snd e' @ r'" using len by simp_all
  then have "length (snd e) = length (snd e')" using to_bytes8_inj 1(2) 2(2) by simp
  then show ?thesis using f m by (simp add: prod_eq_iff)
qed

lemma frame_nonempty: "frame e = Inr f \<Longrightarrow> f \<noteq> []"
proof -
  assume "frame e = Inr f"
  then have "8 \<le> length f" by (auto simp: frame_Inr to_bytes8_Inr)
  then show "f \<noteq> []" by auto
qed

lemma frames_inj:
  "traverseE frame es = Inr fs \<Longrightarrow> traverseE frame es' = Inr fs' \<Longrightarrow> concat fs = concat fs' \<Longrightarrow> es = es'"
proof (induction es arbitrary: fs es' fs')
  case Nil
  then show ?case by (cases es') (auto simp: bindE_eq_Inr dest: frame_nonempty)
next
  case (Cons e es)
  from Cons.prems(1) obtain f gs where f: "frame e = Inr f" "traverseE frame es = Inr gs" "fs = f # gs"
    by (auto simp: bindE_eq_Inr)
  show ?case
  proof (cases es')
    case Nil
    then show ?thesis using Cons.prems f frame_nonempty by auto
  next
    case (Cons e' rest)
    with Cons.prems(2) obtain f' gs' where f': "frame e' = Inr f'" "traverseE frame rest = Inr gs'" "fs' = f' # gs'"
      by (auto simp: bindE_eq_Inr)
    have "e = e' \<and> concat gs = concat gs'"
      using Cons.prems(3) f(3) f'(3) by (intro frame_prefix_free [OF f(1) f'(1)]) simp
    then show ?thesis using Cons.IH [OF f(2) f'(2)] Cons by simp
  qed
qed

section \<open>What a digest binds\<close>

text \<open>The text hashed for a store and a list of paths.\<close>

definition artifact_payload :: "store \<Rightarrow> path list \<Rightarrow> string result" where
  "artifact_payload store paths =
     bindE (artifact_entries store paths) (\<lambda>entries. mapE concat (traverseE frame entries))"

text \<open>Two different payloads with the same digest.\<close>

definition payload_collision :: "sha \<Rightarrow> store \<Rightarrow> store \<Rightarrow> path list \<Rightarrow> bool" where
  "payload_collision sha store store' paths \<longleftrightarrow> (\<exists>x y. artifact_payload store paths = Inr x
     \<and> artifact_payload store' paths = Inr y \<and> x \<noteq> y \<and> sha x = sha y)"

lemma artifact_hash_payload:
  "artifact_hash sha store paths = Inr d \<longleftrightarrow> paths \<noteq> [] \<and> (\<exists>x. artifact_payload store paths = Inr x \<and> d = sha x)"
  by (auto simp: artifact_hash_def artifact_payload_def raise_if_eq_Inr bindE_eq_Inr mapE_eq_Inr)

lemma traverse_entries_eq:
  "traverseE (\<lambda>p. mapE (Pair (n p)) (read_bytes store p)) ps = Inr es \<Longrightarrow>
   traverseE (\<lambda>p. mapE (Pair (n p)) (read_bytes store' p)) ps = Inr es \<Longrightarrow> p \<in> set ps \<Longrightarrow> store p = store' p"
  by (induction ps arbitrary: es) (auto simp: bindE_eq_Inr mapE_eq_Inr read_bytes_def split: option.splits)

lemma same_payload_same_files:
  assumes "artifact_payload store paths = Inr x" and "artifact_payload store' paths = Inr x" and "p \<in> set paths"
  shows "store p = store' p"
proof -
  obtain es fs es' fs' where 1: "artifact_entries store paths = Inr es" "traverseE frame es = Inr fs" "x = concat fs"
    and 2: "artifact_entries store' paths = Inr es'" "traverseE frame es' = Inr fs'" "x = concat fs'"
    using assms(1,2) by (auto simp: artifact_payload_def bindE_eq_Inr mapE_eq_Inr)
  then have "es' = es" using frames_inj [OF 1(2) 2(2)] by simp
  then show ?thesis using 1(1) 2(1) assms(3) unfolding artifact_entries_def
    by (intro traverse_entries_eq [where ps = "sort_key (relative_name paths) paths"]) simp_all
qed

lemma same_digest_same_files:
  assumes "artifact_hash sha store paths = Inr d" and "artifact_hash sha store' paths = Inr d"
    and "\<not> payload_collision sha store store' paths" and "p \<in> set paths"
  shows "store p = store' p"
proof -
  obtain x y where "artifact_payload store paths = Inr x" "artifact_payload store' paths = Inr y" "sha x = sha y"
    using assms(1,2) by (auto simp: artifact_hash_payload)
  then show ?thesis using assms(3,4) same_payload_same_files unfolding payload_collision_def by metis
qed

text \<open>The digest exists when every file does and every length fits eight bytes.\<close>

lemma artifact_hash_total:
  assumes "paths \<noteq> []"
    and "\<And>p. p \<in> set paths \<Longrightarrow> \<exists>c. store p = Some c \<and> length c < 2 ^ 64 \<and> length (relative_name paths p) < 2 ^ 64"
  shows "\<exists>d. artifact_hash sha store paths = Inr d"
proof -
  have "artifact_entries store paths
      = Inr (map (\<lambda>p. (relative_name paths p, the (store p))) (sort_key (relative_name paths) paths))"
    unfolding artifact_entries_def using assms(2) by (intro traverseE_Inr) (force simp: read_bytes_def)
  moreover have frames: "\<exists>fs. traverseE frame es = Inr fs"
    if "list_all (\<lambda>(n, c). length n < 2 ^ 64 \<and> length c < 2 ^ 64) es" for es
    using that by (induction es) (auto simp: frame_def to_bytes8_def)
  moreover have "list_all (\<lambda>(n, c). length n < 2 ^ 64 \<and> length c < 2 ^ 64)
      (map (\<lambda>p. (relative_name paths p, the (store p))) (sort_key (relative_name paths) paths))"
    using assms(2) by (fastforce simp: list_all_iff)
  then obtain fs where "traverseE frame
      (map (\<lambda>p. (relative_name paths p, the (store p))) (sort_key (relative_name paths) paths)) = Inr fs"
    using frames by blast
  ultimately show ?thesis using assms(1) by (simp add: artifact_hash_def)
qed

section \<open>Moving and reordering files\<close>

text \<open>Relative names, as the exporters produce them: not empty, no slash inside a component.\<close>

definition plain_path :: "path \<Rightarrow> bool" where
  "plain_path p \<longleftrightarrow> p \<noteq> [] \<and> list_all (\<lambda>c. CHR ''/'' \<notin> set c) p"

lemma as_posix_Cons: "p \<noteq> [] \<Longrightarrow> as_posix (c # p) = c @ CHR ''/'' # as_posix p"
  by (cases p) simp_all

lemma as_posix_inj: "plain_path p \<Longrightarrow> plain_path q \<Longrightarrow> as_posix p = as_posix q \<Longrightarrow> p = q"
proof (induction p arbitrary: q)
  case (Cons c p)
  obtain d r where q: "q = d # r" using Cons.prems(2) by (cases q) (auto simp: plain_path_def)
  have free: "CHR ''/'' \<notin> set c" "CHR ''/'' \<notin> set d" using Cons.prems(1,2) by (auto simp: plain_path_def q)
  have shape: "as_posix (c # p) = (if p = [] then c else c @ CHR ''/'' # as_posix p)"
    "as_posix (d # r) = (if r = [] then d else d @ CHR ''/'' # as_posix r)"
    by (simp_all add: as_posix_Cons)
  have eq: "(if p = [] then c else c @ CHR ''/'' # as_posix p) = (if r = [] then d else d @ CHR ''/'' # as_posix r)"
    using Cons.prems(3) unfolding q shape .
  have "(p = []) = (r = [])"
  proof (rule ccontr)
    assume "(p = []) \<noteq> (r = [])"
    then have "c = d @ CHR ''/'' # as_posix r \<or> d = c @ CHR ''/'' # as_posix p" using eq by (simp split: if_splits)
    then have "CHR ''/'' \<in> set c \<or> CHR ''/'' \<in> set d" by (metis in_set_conv_decomp)
    then show False using free by blast
  qed
  then have empty: "r = [] \<longleftrightarrow> p = []" by simp
  show ?case
  proof (cases "p = []")
    case True
    have "r = []" using True empty by simp
    moreover have "c = d" using eq unfolding True \<open>r = []\<close> if_P [OF refl] .
    ultimately show ?thesis using True q by simp
  next
    case False
    have "r \<noteq> []" using False empty by simp
    have "c @ CHR ''/'' # as_posix p = d @ CHR ''/'' # as_posix r"
      using eq unfolding if_not_P [OF False] if_not_P [OF \<open>r \<noteq> []\<close>] .
    then have "c = d" "as_posix p = as_posix r" using append_sep_inject [OF free] by simp_all
    moreover have "plain_path p" "plain_path r" using False \<open>r \<noteq> []\<close> Cons.prems(1,2) by (auto simp: plain_path_def q)
    ultimately have "p = r" by (intro Cons.IH)
    then show ?thesis unfolding q \<open>c = d\<close> by (rule arg_cong)
  qed
qed (simp add: plain_path_def)

lemma common_prefix_append: "common_prefix (d @ p) (d @ q) = d @ common_prefix p q"
  by (induction d) simp_all

lemma commonpath_append: "ps \<noteq> [] \<Longrightarrow> commonpath (map ((@) d) ps) = d @ commonpath ps"
  by (induction ps rule: commonpath.induct) (simp_all add: common_prefix_append)

lemma common_prefix_Nil [simp]: "common_prefix p [] = []"
  by (cases p) simp_all

lemma commonpath_Nil: "[] \<in> set ps \<Longrightarrow> commonpath ps = []"
  by (induction ps rule: commonpath.induct) auto

lemma relative_name_append:
  assumes "p \<in> set rels" and "length p = 1" and "list_all (\<lambda>q. q \<noteq> []) rels"
  shows "relative_name (map ((@) d) rels) (d @ q) = as_posix q"
proof -
  have shift: "map butlast (map ((@) d) rels) = map ((@) d) (map butlast rels)"
    using assms(3) by (induction rels) (auto simp: butlast_append)
  have "butlast p = []" using assms(2) by (cases p) simp_all
  then have "[] \<in> set (map butlast rels)" using assms(1) by (metis image_eqI list.set_map)
  then have "commonpath (map butlast (map ((@) d) rels)) = d"
    unfolding shift using commonpath_append [of "map butlast rels" d] by (cases rels) (simp_all add: commonpath_Nil)
  then show ?thesis by (simp add: relative_name_def)
qed

lemma insort_key_map: "insort_key f (g x) (map g xs) = map g (insort_key (\<lambda>x. f (g x)) x xs)"
  by (induction xs) auto

lemma sort_key_map: "sort_key f (map g xs) = map g (sort_key (\<lambda>x. f (g x)) xs)"
  by (induction xs) (simp_all add: insort_key_map)

lemma traverseE_map: "traverseE f (map g xs) = traverseE (\<lambda>x. f (g x)) xs"
  by (induction xs) simp_all

text \<open>The digest of a set of files does not depend on where they are nor on their order.\<close>

lemma artifact_hash_relocate:
  assumes perm: "mset rels' = mset rels" and plain: "list_all plain_path rels" and top: "p \<in> set rels" "length p = 1"
    and same: "\<And>q. q \<in> set rels \<Longrightarrow> store' (e @ q) = store (d @ q)"
  shows "artifact_hash sha store' (map ((@) e) rels') = artifact_hash sha store (map ((@) d) rels)"
proof -
  have set: "set rels' = set rels" using perm by (metis set_mset_mset)
  have ne: "list_all (\<lambda>q. q \<noteq> []) rels" "list_all (\<lambda>q. q \<noteq> []) rels'"
    using plain set by (auto simp: list_all_iff plain_path_def)
  have nd: "relative_name (map ((@) d) rels) (d @ q) = as_posix q" for q
    by (rule relative_name_append [OF top ne(1)])
  have ne': "relative_name (map ((@) e) rels') (e @ q) = as_posix q" for q
    by (rule relative_name_append [OF _ top(2) ne(2)]) (simp add: set top(1))
  have "inj_on as_posix (set rels)"
    using plain as_posix_inj by (auto simp: inj_on_def list_all_iff)
  then have sorted: "sort_key as_posix rels' = sort_key as_posix rels"
    using perm by (intro sort_key_inj_key_eq) (simp_all add: set)
  have "artifact_entries store' (map ((@) e) rels') = artifact_entries store (map ((@) d) rels)"
    unfolding artifact_entries_def sort_key_map traverseE_map nd ne' sorted
    using same by (intro traverseE_cong) (simp add: read_bytes_def)
  moreover have "rels' = [] \<longleftrightarrow> rels = []" using set by (metis set_empty)
  ultimately show ?thesis by (simp add: artifact_hash_def)
qed

end
