(* ===== verification/Runs.thy ===== *)
theory Runs
  imports Agent Artifacts
begin

text \<open>
  Runs of the workbench: \<open>RunRecord\<close> of \<open>src/bactalk/domain.py\<close>, the repository
  (\<open>repository.py\<close>) and \<open>WorkbenchService\<close> (\<open>service.py\<close>): a run is created from what the
  agent returns, its files are signed by one digest, qualification tiers append evidence and
  sign again, a reviewer approves or rejects exactly one digest, and only an approved run
  whose files still match is exported.  Manifests are kept as the records they hold, apart
  from the other files; time stamps are left out.  What the compiler, the exporters and the
  semantic validator produce is an argument (\<open>build\<close>).
\<close>

section \<open>Records\<close>

datatype run_status = FAILED | READY_FOR_REVIEW | APPROVED | REJECTED

datatype run_origin = CONTRACTOR | AI_PROPOSAL

datatype target_kind = NIAGARA_BOG | NIAGARA_PROGRAM_SOURCE_PACKAGE

record approval =
  ap_reviewer :: string
  ap_actor_id :: "string option"
  ap_tenant_id :: "string option"
  ap_authentication :: string
  ap_artifact :: string

record rejection =
  rj_reviewer :: string
  rj_actor_id :: "string option"
  rj_tenant_id :: "string option"
  rj_authentication :: string
  rj_reason :: "string option"
  rj_artifact :: string

record run_record =
  rr_id :: string
  rr_origin :: run_origin
  rr_parent :: "string option"
  rr_job :: job_spec
  rr_status :: run_status
  rr_graph_path :: path
  rr_target_kind :: target_kind
  rr_target_path :: "path option"
  rr_bog_path :: "path option"
  rr_program_package_path :: "path option"
  rr_report_path :: path
  rr_manifest_path :: path
  rr_job_path :: "path option"
  rr_template_bog_path :: "path option"
  rr_template_analysis_path :: "path option"
  rr_assembled_bog_path :: "path option"
  rr_assembly_manifest_path :: "path option"
  rr_semantic_model_path :: "path option"
  rr_semantic_validation_path :: "path option"
  rr_deliverable_manifest_path :: "path option"
  rr_deliverable_paths :: "path list"
  rr_volttron_manifest_path :: "path option"
  rr_volttron_paths :: "path list"
  rr_nhaystack_manifest_path :: "path option"
  rr_nhaystack_paths :: "path list"
  rr_bacnet_lab_manifest_path :: "path option"
  rr_bacnet_lab_paths :: "path list"
  rr_environment_pack_path :: "path option"
  rr_environment_manifest_path :: "path option"
  rr_environment_paths :: "path list"
  rr_source_paths :: "path list"
  rr_boptest_path :: "path option"
  rr_alfalfa_path :: "path option"
  rr_shadow_path :: "path option"
  rr_verification_paths :: "path list"
  rr_artifact :: string
  rr_approval :: "approval option"
  rr_rejection :: "rejection option"
  rr_changes :: change_set
  rr_attempts :: "agent_attempt list"

definition review_state_is_consistent :: "run_record \<Rightarrow> unit result" where
  "review_state_is_consistent r =
     (if rr_status r = APPROVED then
        raise_if (rr_approval r = None \<or> rr_rejection r \<noteq> None)
          ''approved runs require approval and cannot contain rejection'' okE
      else if rr_status r = REJECTED then
        raise_if (rr_rejection r = None \<or> rr_approval r \<noteq> None)
          ''rejected runs require rejection and cannot contain approval'' okE
      else raise_if (rr_approval r \<noteq> None \<or> rr_rejection r \<noteq> None)
        ''undecided runs cannot contain approval or rejection'' okE)"

section \<open>The repository\<close>

text \<open>\<open>RequirementApproval\<close>, kept under its sequence id and requirements digest.\<close>

record requirement_approval =
  ra_sequence_id :: string
  ra_digest :: string
  ra_reviewer :: string

record workbench =
  wb_root :: path
  wb_files :: "(path \<times> string) list"
  wb_manifests :: "(path \<times> run_record) list"
  wb_requirements :: "requirement_approval list option"

abbreviation store_of :: "workbench \<Rightarrow> store" where
  "store_of w \<equiv> map_of (wb_files w)"

definition is_alnum :: "string \<Rightarrow> bool" where
  "is_alnum s \<longleftrightarrow> s \<noteq> [] \<and> list_all (\<lambda>c. ascii_alpha c \<or> ascii_digit c) s"

definition run_directory :: "path \<Rightarrow> string \<Rightarrow> path result" where
  "run_directory base i = raise_if (\<not> is_alnum i) ''invalid run id'' (Inr (base @ [i]))"

definition staging_directory :: "path \<Rightarrow> string \<Rightarrow> path result" where
  "staging_directory base i = raise_if (\<not> is_alnum i) ''invalid run id'' (Inr (base @ [''.'' @ i @ ''.staging'']))"

definition manifest_of :: "path \<Rightarrow> string \<Rightarrow> path" where
  "manifest_of base i = base @ [i, ''manifest.json'']"

definition under :: "path \<Rightarrow> path \<Rightarrow> bool" where
  "under d p \<longleftrightarrow> take (length d) p = d"

definition dir_exists :: "workbench \<Rightarrow> path \<Rightarrow> bool" where
  "dir_exists w d \<longleftrightarrow> list_ex (under d) (map fst (wb_files w)) \<or> list_ex (under d) (map fst (wb_manifests w))"

definition get_run :: "workbench \<Rightarrow> string \<Rightarrow> run_record result" where
  "get_run w i =
     bindE (run_directory (wb_root w) i) (\<lambda>_.
     case map_of (wb_manifests w) (manifest_of (wb_root w) i) of
       None \<Rightarrow> Inl (KeyError i)
     | Some r \<Rightarrow> bindE (review_state_is_consistent r) (\<lambda>_. Inr r))"

definition save_run :: "run_record \<Rightarrow> workbench \<Rightarrow> workbench" where
  "save_run r w = w\<lparr>wb_manifests := AList.update (rr_manifest_path r) r (wb_manifests w)\<rparr>"

definition write_files :: "path \<Rightarrow> (path \<times> string) list \<Rightarrow> (path \<times> string) list \<Rightarrow> (path \<times> string) list" where
  "write_files d fs files = fold (\<lambda>(p, c). AList.update (d @ p) c) fs files"

text \<open>\<open>os.replace(staging, final)\<close>\<close>

definition rename_dir :: "path \<Rightarrow> path \<Rightarrow> (path \<times> string) list \<Rightarrow> (path \<times> string) list" where
  "rename_dir d e files = map (\<lambda>(p, c). (if under d p then e @ drop (length d) p else p, c)) files"

definition begin_staged :: "workbench \<Rightarrow> string \<Rightarrow> path result" where
  "begin_staged w i =
     bindE (staging_directory (wb_root w) i) (\<lambda>staging.
     bindE (run_directory (wb_root w) i) (\<lambda>final.
     if dir_exists w final \<or> dir_exists w staging then Inl (OSError ''file exists'') else Inr staging))"

definition commit_staged :: "path \<Rightarrow> run_record \<Rightarrow> workbench \<Rightarrow> workbench result" where
  "commit_staged staging r w =
     bindE (staging_directory (wb_root w) (rr_id r)) (\<lambda>expected.
     raise_if (staging \<noteq> expected) ''staging directory does not match run id''
     (bindE (run_directory (wb_root w) (rr_id r)) (\<lambda>final.
      if dir_exists w final then Inl (OSError ''file exists'')
      else raise_if (rr_manifest_path r \<noteq> final @ [''manifest.json''])
        ''record manifest path does not point at final run directory''
        (Inr (save_run r (w\<lparr>wb_files := rename_dir staging final (wb_files w)\<rparr>))))))"

section \<open>Integrity\<close>

definition opt_path :: "path option \<Rightarrow> path list" where
  "opt_path p = (case p of None \<Rightarrow> [] | Some p \<Rightarrow> [p])"

definition first_path :: "path option list \<Rightarrow> path option" where
  "first_path ps = (case concat (map opt_path ps) of [] \<Rightarrow> None | p # _ \<Rightarrow> Some p)"

definition record_artifact_paths :: "run_record \<Rightarrow> path list" where
  "record_artifact_paths r =
     [rr_graph_path r, rr_report_path r] @ opt_path (first_path [rr_target_path r, rr_bog_path r])
     @ opt_path (rr_job_path r) @ opt_path (rr_template_bog_path r) @ opt_path (rr_template_analysis_path r)
     @ opt_path (rr_assembled_bog_path r) @ opt_path (rr_assembly_manifest_path r)
     @ opt_path (rr_semantic_model_path r) @ opt_path (rr_semantic_validation_path r)
     @ opt_path (rr_deliverable_manifest_path r) @ rr_deliverable_paths r @ rr_volttron_paths r
     @ rr_nhaystack_paths r @ rr_bacnet_lab_paths r @ rr_environment_paths r @ rr_source_paths r
     @ rr_verification_paths r"

definition check_bound :: "bool \<Rightarrow> string \<Rightarrow> 'a result \<Rightarrow> 'a result" where
  "check_bound bad message rest = (if bad then Inl (ArtifactChangedError message) else rest)"

definition verify_record :: "sha \<Rightarrow> store \<Rightarrow> run_record \<Rightarrow> unit result" where
  "verify_record sha store r =
     bindE (artifact_hash sha store (record_artifact_paths r)) (\<lambda>current.
     check_bound (current \<noteq> rr_artifact r) ''artifact changed after validation; create a new run''
    (check_bound (case rr_approval r of None \<Rightarrow> False | Some a \<Rightarrow> ap_artifact a \<noteq> current)
       ''approval is not bound to the current artifact''
    (check_bound (case rr_rejection r of None \<Rightarrow> False | Some j \<Rightarrow> rj_artifact j \<noteq> current)
       ''rejection is not bound to the current artifact'' okE)))"

definition verify_integrity :: "sha \<Rightarrow> workbench \<Rightarrow> string \<Rightarrow> run_record result" where
  "verify_integrity sha w i =
     bindE (get_run w i) (\<lambda>r. bindE (verify_record sha (store_of w) r) (\<lambda>_. Inr r))"

section \<open>Decisions\<close>

definition protocol_reference :: "job_spec \<Rightarrow> (string \<times> string) option" where
  "protocol_reference job = (case map_of (sq_parameters (jb_sequence job)) ''protocol'' of
       Some (PDict d) \<Rightarrow>
         (case (map_of d ''sequence_id'', map_of d ''requirements_digest'') of
            (Some (PStr s), Some (PStr h)) \<Rightarrow> Some (s, h)
          | _ \<Rightarrow> None)
     | _ \<Rightarrow> None)"

definition lower_char :: "char \<Rightarrow> bool" where
  "lower_char c \<longleftrightarrow> ascii_lower c \<or> ascii_digit c"

text \<open>\<open>[a-z0-9][a-z0-9-]{1,80}\<close> and \<open>[0-9a-f]{64}\<close>\<close>

definition sequence_id_ok :: "string \<Rightarrow> bool" where
  "sequence_id_ok s \<longleftrightarrow> 2 \<le> length s \<and> length s \<le> 81 \<and> lower_char (hd s)
     \<and> list_all (\<lambda>c. lower_char c \<or> c = CHR ''-'') (tl s)"

definition digest_ok :: "string \<Rightarrow> bool" where
  "digest_ok s \<longleftrightarrow> length s = 64 \<and> list_all (\<lambda>c. ascii_digit c \<or> c \<in> set ''abcdef'') s"

definition find_approval :: "requirement_approval list \<Rightarrow> string \<Rightarrow> string \<Rightarrow> requirement_approval option result" where
  "find_approval as sequence_id digest =
     raise_if (\<not> digest_ok digest) ''invalid requirements digest''
    (raise_if (\<not> sequence_id_ok sequence_id) ''invalid sequence id''
      (Inr (find (\<lambda>a. ra_sequence_id a = sequence_id \<and> ra_digest a = digest) as)))"

definition is_approved :: "requirement_approval list \<Rightarrow> string \<Rightarrow> string \<Rightarrow> bool result" where
  "is_approved as sequence_id digest = mapE (\<lambda>a. a \<noteq> None) (find_approval as sequence_id digest)"

definition save_approval :: "requirement_approval \<Rightarrow> requirement_approval list \<Rightarrow> requirement_approval list result" where
  "save_approval a as =
     raise_if (\<not> sequence_id_ok (ra_sequence_id a)) ''invalid sequence id''
      (if (\<exists>b \<in> set as. ra_sequence_id b = ra_sequence_id a \<and> ra_digest b = ra_digest a)
       then Inl (OSError ''already approved'') else Inr (as @ [a]))"

definition require_requirements_approval :: "workbench \<Rightarrow> job_spec \<Rightarrow> unit result" where
  "require_requirements_approval w job = (case protocol_reference job of
       None \<Rightarrow> okE
     | Some (sequence_id, digest) \<Rightarrow>
         bindE (case wb_requirements w of None \<Rightarrow> Inr False | Some as \<Rightarrow> is_approved as sequence_id digest) (\<lambda>ok.
         if ok then okE else Inl (ApprovalRequiredError ''requirements are unapproved'')))"

definition require_status :: "bool \<Rightarrow> string \<Rightarrow> 'a result \<Rightarrow> 'a result" where
  "require_status good message rest = (if good then rest else Inl (ApprovalRequiredError message))"

record reviewer_identity =
  ri_reviewer :: string
  ri_actor_id :: "string option"
  ri_tenant_id :: "string option"
  ri_authentication :: string

definition approve :: "sha \<Rightarrow> string \<Rightarrow> reviewer_identity \<Rightarrow> string option \<Rightarrow> workbench \<Rightarrow> (run_record \<times> workbench) result" where
  "approve sha i who expected w =
     bindE (get_run w i) (\<lambda>r.
     require_status (rr_status r = READY_FOR_REVIEW) ''only a passing run can be approved''
      (bindE (verify_record sha (store_of w) r) (\<lambda>_.
       bindE (require_requirements_approval w (rr_job r)) (\<lambda>_.
       check_bound (case expected of None \<Rightarrow> False | Some h \<Rightarrow> h \<noteq> rr_artifact r)
         ''the artifact changed since it was reviewed''
         (let approved = r\<lparr>rr_status := APPROVED,
             rr_approval := Some \<lparr>ap_reviewer = ri_reviewer who, ap_actor_id = ri_actor_id who,
               ap_tenant_id = ri_tenant_id who, ap_authentication = ri_authentication who,
               ap_artifact = rr_artifact r\<rparr>\<rparr> in
          Inr (approved, save_run approved w))))))"

definition reject :: "sha \<Rightarrow> string \<Rightarrow> reviewer_identity \<Rightarrow> string option \<Rightarrow> workbench \<Rightarrow> (run_record \<times> workbench) result" where
  "reject sha i who reason w =
     bindE (get_run w i) (\<lambda>r.
     require_status (rr_status r = READY_FOR_REVIEW) ''only a passing candidate awaiting review can be rejected''
      (bindE (verify_record sha (store_of w) r) (\<lambda>_.
       let rejected = r\<lparr>rr_status := REJECTED,
           rr_rejection := Some \<lparr>rj_reviewer = ri_reviewer who, rj_actor_id = ri_actor_id who,
             rj_tenant_id = ri_tenant_id who, rj_authentication = ri_authentication who, rj_reason = reason,
             rj_artifact = rr_artifact r\<rparr>\<rparr> in
       Inr (rejected, save_run rejected w))))"

definition export_path :: "sha \<Rightarrow> string \<Rightarrow> workbench \<Rightarrow> path result" where
  "export_path sha i w =
     bindE (get_run w i) (\<lambda>r.
     require_status (rr_status r = APPROVED \<and> rr_approval r \<noteq> None) ''human approval is required before export''
      (bindE (verify_record sha (store_of w) r) (\<lambda>_.
       bindE (require_requirements_approval w (rr_job r)) (\<lambda>_.
       case first_path [rr_assembled_bog_path r, rr_target_path r, rr_bog_path r] of
         None \<Rightarrow> Inl (ArtifactChangedError ''run has no signed target artifact'')
       | Some p \<Rightarrow> Inr p))))"

text \<open>The entries of \<open>review_bundle_path\<close>'s archive, without the rendered manifest.\<close>

definition review_bundle :: "sha \<Rightarrow> string \<Rightarrow> workbench \<Rightarrow> (path \<times> string) list result" where
  "review_bundle sha i w =
     bindE (get_run w i) (\<lambda>r.
     require_status (rr_status r = APPROVED \<and> rr_approval r \<noteq> None) ''human approval is required before bundle export''
      (bindE (verify_record sha (store_of w) r) (\<lambda>_.
       traverseE (\<lambda>p. mapE (Pair (drop (length (wb_root w) + 1) p)) (read_bytes (store_of w) p))
         (record_artifact_paths r))))"

end
