(* ===== verification/Materialize.thy ===== *)
theory Materialize
  imports Runs
begin

text \<open>
  \<open>WorkbenchService.create_run\<close> and \<open>_materialize_run\<close> of \<open>src/bactalk/service.py\<close>: the files
  of a new run are written to a staging directory, signed by one digest and moved into place
  with the record that names them.  The contents come from the compiler, the exporters and
  the validators, which are one argument (\<open>build\<close>); the lane of the lowering matrix is another.
\<close>

section \<open>Source documents\<close>

definition path_of :: "string \<Rightarrow> path" where
  "path_of s = filter (\<lambda>c. c \<noteq> [] \<and> c \<noteq> ''.'') (split_on (CHR ''/'') s)"

definition safe_char :: "char \<Rightarrow> bool" where
  "safe_char c \<longleftrightarrow> ident_char c \<or> c \<in> set ''.-''"

text \<open>\<open>re.sub(r"[^A-Za-z0-9._-]+", "_", s)\<close>: a run of other characters becomes one underscore.\<close>

fun collapse :: "bool \<Rightarrow> string \<Rightarrow> string" where
  "collapse inside [] = []"
| "collapse inside (c # cs) =
     (if safe_char c then c # collapse False cs
      else if inside then collapse True cs else CHR ''_'' # collapse True cs)"

definition strip_chars :: "string \<Rightarrow> string \<Rightarrow> string" where
  "strip_chars cs s = rev (dropWhile (\<lambda>c. c \<in> set cs) (rev (dropWhile (\<lambda>c. c \<in> set cs) s)))"

definition safe_source_name :: "string \<Rightarrow> string result" where
  "safe_source_name value =
     (let basename = (case rev (path_of value) of [] \<Rightarrow> [] | c # _ \<Rightarrow> c);
          cleaned = strip_chars ''._'' (collapse False basename) in
      raise_if (cleaned = []) ''source document filename is empty after normalization'' (Inr (take 200 cleaned)))"

definition add_source :: "string \<times> string \<Rightarrow> (path \<times> string) list \<Rightarrow> (path \<times> string) list result" where
  "add_source document files = (case document of (original, content) \<Rightarrow>
     bindE (safe_source_name original) (\<lambda>name.
     raise_if ([''sources'', name] \<in> set (map fst files)) ''duplicate normalized source document filename''
       (Inr (files @ [([''sources'', name], content)]))))"

definition source_files :: "string dict \<Rightarrow> (path \<times> string) list result" where
  "source_files documents = foldE add_source (sort_key fst documents) []"

section \<open>What is built\<close>

text \<open>An exporter's artifacts, by relative path, and its manifest.\<close>

type_synonym package = "(string \<times> string) list \<times> string"

record build =
  bu_job_text :: string
  bu_graph_text :: string
  bu_report_text :: string
  bu_unsigned :: "(path \<times> string) list"
  bu_target :: string
  bu_conforms :: bool
  bu_semantic_model :: string
  bu_semantic_validation :: string
  bu_deliverables :: package
  bu_volttron :: "package option"
  bu_nhaystack :: package
  bu_bacnet_lab :: "package option"
  bu_environment :: "(string \<times> package) option"
  bu_template :: "(string \<times> string) option"
  bu_assembly :: "string \<times> string"
  bu_template_changes :: "change_set option"

definition in_dir :: "string \<Rightarrow> (string \<times> string) list \<Rightarrow> (path \<times> string) list" where
  "in_dir d fs = map (\<lambda>(p, c). (d # path_of p, c)) fs"

definition package_files :: "string \<Rightarrow> package \<Rightarrow> (path \<times> string) list" where
  "package_files d p = in_dir d (fst p) @ [([d, ''manifest.json''], snd p)]"

definition opt_package :: "string \<Rightarrow> package option \<Rightarrow> (path \<times> string) list" where
  "opt_package d p = (case p of None \<Rightarrow> [] | Some p \<Rightarrow> package_files d p)"

definition environment_files :: "build \<Rightarrow> (path \<times> string) list" where
  "environment_files b = (case bu_environment b of
       None \<Rightarrow> []
     | Some (pack, p) \<Rightarrow> ([''environment'', ''contractor-environment-pack.zip''], pack) # package_files ''environment'' p)"

definition target_name :: "target_kind \<Rightarrow> control_graph \<Rightarrow> string" where
  "target_name kind g = (case kind of NIAGARA_BOG \<Rightarrow> gname g @ ''.bog''
     | NIAGARA_PROGRAM_SOURCE_PACKAGE \<Rightarrow> gname g @ ''-niagara-program-source.zip'')"

definition assembly_mode :: "job_spec \<Rightarrow> template_mode" where
  "assembly_mode job = (case dl_shop_profile (jb_deliverables job) of
       None \<Rightarrow> CompareOnly | Some p \<Rightarrow> sp_station_template_mode p)"

definition assembles :: "run_record \<Rightarrow> build \<Rightarrow> bool" where
  "assembles r b \<longleftrightarrow> bu_template b \<noteq> None \<and> assembly_mode (rr_job r) \<noteq> CompareOnly \<and> rr_target_kind r = NIAGARA_BOG"

definition template_files :: "run_record \<Rightarrow> build \<Rightarrow> (path \<times> string) list" where
  "template_files r b = (case bu_template b of
       None \<Rightarrow> []
     | Some (bog, analysis) \<Rightarrow> [([''contractor-template.bog''], bog), ([''template-analysis.json''], analysis)])"

definition assembly_files :: "run_record \<Rightarrow> build \<Rightarrow> (path \<times> string) list" where
  "assembly_files r b =
     (if assembles r b then [([''assembled-station.bog''], fst (bu_assembly b)), ([''station-assembly.json''], snd (bu_assembly b))]
      else [])"

text \<open>The files in the order they are written, and those the digest signs in its order.\<close>

definition core_files :: "run_record \<Rightarrow> control_graph \<Rightarrow> build \<Rightarrow> (path \<times> string) list" where
  "core_files r g b =
     [([''job-spec.json''], bu_job_text b), ([''control-graph.json''], bu_graph_text b),
      ([target_name (rr_target_kind r) g], bu_target b), ([''test-report.json''], bu_report_text b),
      ([''semantic-model.ttl''], bu_semantic_model b), ([''semantic-validation.json''], bu_semantic_validation b)]"

definition deliverable_files :: "build \<Rightarrow> (path \<times> string) list" where
  "deliverable_files b = in_dir ''deliverables'' (fst (bu_deliverables b))"

definition exported_files :: "run_record \<Rightarrow> build \<Rightarrow> (path \<times> string) list \<Rightarrow> (path \<times> string) list" where
  "exported_files r b sources =
     sources @ opt_package ''volttron'' (bu_volttron b) @ package_files ''nhaystack'' (bu_nhaystack b)
     @ opt_package ''bacnet-lab'' (bu_bacnet_lab b) @ environment_files b @ template_files r b @ assembly_files r b"

definition deliverable_manifest :: "build \<Rightarrow> path \<times> string" where
  "deliverable_manifest b = ([''deliverables'', ''manifest.json''], snd (bu_deliverables b))"

definition signed_files :: "run_record \<Rightarrow> control_graph \<Rightarrow> build \<Rightarrow> (path \<times> string) list \<Rightarrow> (path \<times> string) list" where
  "signed_files r g b sources =
     core_files r g b @ [deliverable_manifest b] @ deliverable_files b @ exported_files r b sources"

definition written_files :: "run_record \<Rightarrow> control_graph \<Rightarrow> build \<Rightarrow> (path \<times> string) list \<Rightarrow> (path \<times> string) list" where
  "written_files r g b sources =
     bu_unsigned b @ core_files r g b @ deliverable_files b @ [deliverable_manifest b] @ exported_files r b sources"

section \<open>The record of a new run\<close>

definition located :: "path \<Rightarrow> (path \<times> string) list \<Rightarrow> path list" where
  "located d fs = map (\<lambda>(p, c). d @ p) fs"

definition materialized_record :: "path \<Rightarrow> run_record \<Rightarrow> control_graph \<Rightarrow> build \<Rightarrow> (path \<times> string) list \<Rightarrow> string \<Rightarrow>
    bool \<Rightarrow> run_record" where
  "materialized_record d r g b sources digest baseline =
     (let bog = (if rr_target_kind r = NIAGARA_BOG then Some (d @ [target_name NIAGARA_BOG g]) else None);
          program = (if rr_target_kind r = NIAGARA_BOG then None else Some (d @ [target_name (rr_target_kind r) g]));
          only = (\<lambda>c p. if c then Some (d @ p) else None) in
      r\<lparr>rr_graph_path := d @ [''control-graph.json''], rr_target_path := first_path [bog, program],
        rr_bog_path := bog, rr_program_package_path := program,
        rr_report_path := d @ [''test-report.json''], rr_manifest_path := d @ [''manifest.json''],
        rr_job_path := Some (d @ [''job-spec.json'']),
        rr_template_bog_path := only (bu_template b \<noteq> None) [''contractor-template.bog''],
        rr_template_analysis_path := only (bu_template b \<noteq> None) [''template-analysis.json''],
        rr_assembled_bog_path := only (assembles r b) [''assembled-station.bog''],
        rr_assembly_manifest_path := only (assembles r b) [''station-assembly.json''],
        rr_semantic_model_path := Some (d @ [''semantic-model.ttl'']),
        rr_semantic_validation_path := Some (d @ [''semantic-validation.json'']),
        rr_deliverable_manifest_path := Some (d @ [''deliverables'', ''manifest.json'']),
        rr_deliverable_paths := located d (deliverable_files b),
        rr_volttron_manifest_path := only (bu_volttron b \<noteq> None) [''volttron'', ''manifest.json''],
        rr_volttron_paths := located d (opt_package ''volttron'' (bu_volttron b)),
        rr_nhaystack_manifest_path := Some (d @ [''nhaystack'', ''manifest.json'']),
        rr_nhaystack_paths := located d (package_files ''nhaystack'' (bu_nhaystack b)),
        rr_bacnet_lab_manifest_path := only (bu_bacnet_lab b \<noteq> None) [''bacnet-lab'', ''manifest.json''],
        rr_bacnet_lab_paths := located d (opt_package ''bacnet-lab'' (bu_bacnet_lab b)),
        rr_environment_pack_path := only (bu_environment b \<noteq> None) [''environment'', ''contractor-environment-pack.zip''],
        rr_environment_manifest_path := only (bu_environment b \<noteq> None) [''environment'', ''manifest.json''],
        rr_environment_paths := located d (environment_files b),
        rr_source_paths := located d sources, rr_artifact := digest,
        rr_changes := (case bu_template_changes b of
            Some c \<Rightarrow> if baseline \<or> bu_template b = None then rr_changes r else c
          | None \<Rightarrow> rr_changes r)\<rparr>)"

definition materialize :: "sha \<Rightarrow> run_record \<Rightarrow> control_graph \<Rightarrow> build \<Rightarrow> string dict \<Rightarrow> bool \<Rightarrow> workbench \<Rightarrow>
    (run_record \<times> workbench) result" where
  "materialize sha r g b documents baseline w =
     bindE (begin_staged w (rr_id r)) (\<lambda>staging.
     bindE (run_directory (wb_root w) (rr_id r)) (\<lambda>final.
     raise_if (\<not> bu_conforms b) ''Brick semantic validation failed''
     (bindE (source_files documents) (\<lambda>sources.
      let files = write_files staging (written_files r g b sources) (wb_files w) in
      bindE (artifact_hash sha (map_of files) (located staging (signed_files r g b sources))) (\<lambda>digest.
      let record = materialized_record final r g b sources digest baseline in
      mapE (Pair record) (commit_staged staging record (w\<lparr>wb_files := files\<rparr>)))))))"

section \<open>\<open>create_run\<close>\<close>

datatype lane = NativeLane | ProgramObjectsLane | BlockedLane

record services =
  sv_sha :: sha
  sv_graph_digest :: "control_graph \<Rightarrow> string"
  sv_planner :: planner
  sv_max_attempts :: nat
  sv_lowering :: "control_graph \<Rightarrow> lane"
  sv_build :: "job_spec \<Rightarrow> control_graph \<Rightarrow> test_report \<Rightarrow> target_kind \<Rightarrow> build result"

record run_request =
  rq_id :: string
  rq_job :: job_spec
  rq_template :: bool
  rq_documents :: "string dict"
  rq_baseline :: "control_graph option"
  rq_origin :: run_origin
  rq_parent :: "string option"

definition provisional_run :: "run_request \<Rightarrow> agent_result \<Rightarrow> target_kind \<Rightarrow> run_record" where
  "provisional_run q a kind =
     \<lparr>rr_id = rq_id q, rr_origin = rq_origin q, rr_parent = rq_parent q, rr_job = rq_job q,
      rr_status = (if tr_passed (ar_report a) then READY_FOR_REVIEW else FAILED), rr_graph_path = [],
      rr_target_kind = kind, rr_target_path = None, rr_bog_path = None, rr_program_package_path = None,
      rr_report_path = [], rr_manifest_path = [], rr_job_path = None, rr_template_bog_path = None,
      rr_template_analysis_path = None, rr_assembled_bog_path = None, rr_assembly_manifest_path = None,
      rr_semantic_model_path = None, rr_semantic_validation_path = None, rr_deliverable_manifest_path = None,
      rr_deliverable_paths = [], rr_volttron_manifest_path = None, rr_volttron_paths = [],
      rr_nhaystack_manifest_path = None, rr_nhaystack_paths = [], rr_bacnet_lab_manifest_path = None,
      rr_bacnet_lab_paths = [], rr_environment_pack_path = None, rr_environment_manifest_path = None,
      rr_environment_paths = [], rr_source_paths = [], rr_boptest_path = None, rr_alfalfa_path = None,
      rr_shadow_path = None, rr_verification_paths = [], rr_artifact = [], rr_approval = None,
      rr_rejection = None,
      rr_changes = (case rq_baseline q of Some old \<Rightarrow> graph_changes old (ar_graph a)
        | None \<Rightarrow> \<lparr>ch_added = block_ids (ar_graph a), ch_modified = [], ch_removed = []\<rparr>),
      rr_attempts = ar_attempts a\<rparr>"

definition create_run :: "services \<Rightarrow> run_request \<Rightarrow> workbench \<Rightarrow> (agent_result \<times> run_record \<times> workbench) result" where
  "create_run sv q w =
     (let job = rq_job q; mode = assembly_mode job in
      raise_if (mode \<noteq> CompareOnly \<and> \<not> rq_template q) ''station_template_mode requires a contractor station BOG''
     (raise_if (16 < length (rq_documents q)) ''a run accepts at most 16 source documents''
     (raise_if (50 * 1024 * 1024 < sum_list (map (length \<circ> snd) (rq_documents q)))
        ''source documents exceed the 50 MiB aggregate limit''
     (bindE (agent_run (sv_graph_digest sv) (sv_planner sv) (sv_max_attempts sv) job) (\<lambda>a.
      raise_if (sv_lowering sv (ar_graph a) = BlockedLane) ''no native Niagara lowering for this graph''
       (let program = (sv_lowering sv (ar_graph a) = ProgramObjectsLane);
            kind = (if program then NIAGARA_PROGRAM_SOURCE_PACKAGE else NIAGARA_BOG) in
        raise_if (program \<and> mode \<noteq> CompareOnly)
          ''Niagara ProgramObject source packages require licensed Workbench compilation before contractor-station assembly''
         (bindE (sv_build sv job (ar_graph a) (ar_report a) kind) (\<lambda>b.
          mapE (Pair a) (materialize (sv_sha sv) (provisional_run q a kind) (ar_graph a) b (rq_documents q)
            (rq_baseline q \<noteq> None) w)))))))))"

section \<open>A new run verifies\<close>

lemma split_on_free: "w \<in> set (split_on sep s) \<Longrightarrow> sep \<notin> set w"
  by (induction s arbitrary: w) (auto split: if_splits list.splits)

lemma path_of_free: "list_all (\<lambda>c. CHR ''/'' \<notin> set c) (path_of s)"
  using split_on_free by (auto simp: path_of_def list_all_iff)

lemma collapse_safe: "c \<in> set (collapse inside s) \<Longrightarrow> safe_char c"
  by (induction s arbitrary: inside) (auto simp: safe_char_def ident_char_def split: if_splits)

lemma set_strip_chars: "set (strip_chars cs s) \<subseteq> set s"
  by (auto simp: strip_chars_def dest!: set_dropWhileD)

lemma slash_not_safe: "\<not> safe_char (CHR ''/'')"
  by code_simp

lemma safe_source_name_free: "safe_source_name s = Inr n \<Longrightarrow> CHR ''/'' \<notin> set n"
  using slash_not_safe collapse_safe set_strip_chars
  by (fastforce simp: safe_source_name_def Let_def raise_if_eq_Inr dest!: in_set_takeD)

lemma source_files_plain:
  assumes "source_files documents = Inr sources"
  shows "list_all plain_path (map fst sources)"
proof -
  have free: "CHR ''/'' \<notin> set ''sources''" by code_simp
  show ?thesis
    using assms unfolding source_files_def
  proof (rule foldE_invariant [rotated 2])
    fix document files files'
    assume "list_all plain_path (map fst files)" and "add_source document files = Inr files'"
    then show "list_all plain_path (map fst files')"
      using safe_source_name_free free
      by (auto simp: add_source_def bindE_eq_Inr raise_if_eq_Inr plain_path_def split: prod.splits)
  qed simp
qed

lemma in_dir_plain: "CHR ''/'' \<notin> set d \<Longrightarrow> list_all plain_path (map fst (in_dir d fs))"
  using path_of_free by (auto simp: in_dir_def list_all_iff plain_path_def)

lemma package_files_plain: "CHR ''/'' \<notin> set d \<Longrightarrow> list_all plain_path (map fst (package_files d p))"
  using in_dir_plain by (auto simp: package_files_def plain_path_def)

lemma signed_files_plain:
  assumes "list_all plain_path (map fst sources)" and "CHR ''/'' \<notin> set (gname g)"
  shows "list_all plain_path (map fst (signed_files r g b sources))"
proof -
  have free: "CHR ''/'' \<notin> set d" if "d \<in> {''deliverables'', ''volttron'', ''nhaystack'', ''bacnet-lab'', ''environment''}" for d
    using that by auto
  have core: "list_all plain_path (map fst (core_files r g b))"
    using assms(2) by (auto simp: core_files_def plain_path_def target_name_def split: target_kind.splits)
  have env: "list_all plain_path (map fst (environment_files b))"
    using package_files_plain [of "''environment''"]
    by (auto simp: environment_files_def plain_path_def split: option.splits)
  show ?thesis
    using assms(1) core env in_dir_plain package_files_plain free
    by (simp add: signed_files_def exported_files_def deliverable_files_def deliverable_manifest_def opt_package_def
        template_files_def assembly_files_def plain_path_def split: option.splits)
qed

lemma located_map: "located d fs = map ((@) d) (map fst fs)"
  by (simp add: located_def case_prod_beta')

text \<open>The relative paths of the record, in the order the record lists them.\<close>

definition record_rels :: "run_record \<Rightarrow> control_graph \<Rightarrow> build \<Rightarrow> (path \<times> string) list \<Rightarrow> path list" where
  "record_rels r g b sources =
     [[''control-graph.json''], [''test-report.json''], [target_name (rr_target_kind r) g], [''job-spec.json'']]
     @ map fst (template_files r b) @ map fst (assembly_files r b)
     @ [[''semantic-model.ttl''], [''semantic-validation.json''], [''deliverables'', ''manifest.json'']]
     @ map fst (deliverable_files b) @ map fst (opt_package ''volttron'' (bu_volttron b))
     @ map fst (package_files ''nhaystack'' (bu_nhaystack b)) @ map fst (opt_package ''bacnet-lab'' (bu_bacnet_lab b))
     @ map fst (environment_files b) @ map fst sources"

lemma record_rels_paths:
  assumes "rr_verification_paths r = []"
  shows "record_artifact_paths (materialized_record d r g b sources digest baseline) = map ((@) d) (record_rels r g b sources)"
  using assms
  by (cases "rr_target_kind r"; cases "bu_template b"; cases "assembles r b")
     (simp_all add: record_artifact_paths_def materialized_record_def Let_def record_rels_def opt_path_def first_path_def
       located_map template_files_def assembly_files_def assembles_def split: prod.splits)

lemma record_rels_perm: "mset (record_rels r g b sources) = mset (map fst (signed_files r g b sources))"
  by (simp add: record_rels_def signed_files_def core_files_def exported_files_def deliverable_manifest_def)

lemma under_append [simp]: "under d (d @ p)"
  by (simp add: under_def)

lemma underD: "under d p \<Longrightarrow> p = d @ drop (length d) p"
  unfolding under_def by (metis append_take_drop_id)

lemma map_of_rename_dir:
  "\<not> list_ex (under e) (map fst files) \<Longrightarrow> map_of (rename_dir d e files) (e @ q) = map_of files (d @ q)"
proof (induction files)
  case (Cons f files)
  obtain k c where f: "f = (k, c)" by (cases f)
  have "\<not> under e k" using Cons.prems f by simp
  then have k: "k \<noteq> e @ q" by auto
  have "e @ q = (if under d k then e @ drop (length d) k else k) \<longleftrightarrow> d @ q = k"
    using underD [of d k] k by auto
  moreover have "map_of (rename_dir d e files) (e @ q) = map_of files (d @ q)" using Cons by simp
  moreover have "rename_dir d e ((k, c) # files)
      = ((if under d k then e @ drop (length d) k else k), c) # rename_dir d e files"
    by (simp add: rename_dir_def)
  ultimately show ?case by (simp add: f split del: if_split cong: if_cong)
qed (simp add: rename_dir_def)

lemma materialize_verifies:
  assumes m: "materialize sha r g b documents baseline w = Inr (record, w')"
    and name: "CHR ''/'' \<notin> set (gname g)" and ver: "rr_verification_paths r = []"
    and undecided: "rr_approval r = None" "rr_rejection r = None" "rr_status r \<in> {READY_FOR_REVIEW, FAILED}"
  shows "verify_integrity sha w' (rr_id r) = Inr record"
proof -
  obtain staging sources digest where
    st: "begin_staged w (rr_id r) = Inr staging" and
    src: "source_files documents = Inr sources" and
    dg: "artifact_hash sha (map_of (write_files staging (written_files r g b sources) (wb_files w)))
           (located staging (signed_files r g b sources)) = Inr digest" and
    rec: "record = materialized_record (wb_root w @ [rr_id r]) r g b sources digest baseline" and
    cs: "commit_staged staging record (w\<lparr>wb_files := write_files staging (written_files r g b sources) (wb_files w)\<rparr>) = Inr w'"
    using m by (auto simp: materialize_def bindE_eq_Inr raise_if_eq_Inr mapE_eq_Inr Let_def run_directory_def)
  let ?final = "wb_root w @ [rr_id r]" let ?files = "write_files staging (written_files r g b sources) (wb_files w)"
  have id: "is_alnum (rr_id r)" using m by (auto simp: materialize_def bindE_eq_Inr run_directory_def raise_if_eq_Inr)
  have fields: "rr_id record = rr_id r" "rr_manifest_path record = ?final @ [''manifest.json'']" "rr_artifact record = digest"
    "rr_approval record = None" "rr_rejection record = None" "rr_status record = rr_status r"
    using undecided by (simp_all add: rec materialized_record_def Let_def)
  have w': "\<not> list_ex (under ?final) (map fst ?files)"
    "w' = save_run record (w\<lparr>wb_files := rename_dir staging ?final ?files\<rparr>)"
    using cs id by (auto simp: commit_staged_def bindE_eq_Inr raise_if_eq_Inr run_directory_def staging_directory_def
        fields dir_exists_def split: if_splits)
  have plain: "list_all plain_path (map fst (signed_files r g b sources))"
    by (rule signed_files_plain [OF source_files_plain [OF src] name])
  have top: "[''job-spec.json''] \<in> set (map fst (signed_files r g b sources))"
    by (simp add: signed_files_def core_files_def)
  have "artifact_hash sha (map_of (rename_dir staging ?final ?files)) (map ((@) ?final) (record_rels r g b sources))
      = artifact_hash sha (map_of ?files) (map ((@) staging) (map fst (signed_files r g b sources)))"
    using map_of_rename_dir [OF w'(1)]
    by (intro artifact_hash_relocate [OF record_rels_perm plain top]) simp_all
  then have "artifact_hash sha (store_of w') (record_artifact_paths record) = Inr digest"
    using dg unfolding located_map rec record_rels_paths [OF ver] by (simp add: w'(2) save_run_def)
  then have "verify_record sha (store_of w') record = Inr ()"
    by (simp add: verify_record_def fields check_bound_def okE_def)
  moreover have "get_run w' (rr_id r) = Inr record"
    using undecided(3) id fields
    by (auto simp: get_run_def run_directory_def w'(2) save_run_def manifest_of_def
        review_state_is_consistent_def okE_def)
  ultimately show ?thesis by (simp add: verify_integrity_def)
qed

lemma create_run_verifies:
  assumes "create_run sv q w = Inr (a, r, w')" and "CHR ''/'' \<notin> set (gname (ar_graph a))"
  shows "verify_integrity (sv_sha sv) w' (rq_id q) = Inr r
    \<and> agent_run (sv_graph_digest sv) (sv_planner sv) (sv_max_attempts sv) (rq_job q) = Inr a
    \<and> rr_status r = (if tr_passed (ar_report a) then READY_FOR_REVIEW else FAILED)"
proof -
  obtain kind b where run: "agent_run (sv_graph_digest sv) (sv_planner sv) (sv_max_attempts sv) (rq_job q) = Inr a"
    and m: "materialize (sv_sha sv) (provisional_run q a kind) (ar_graph a) b (rq_documents q) (rq_baseline q \<noteq> None) w = Inr (r, w')"
    using assms(1) by (auto simp: create_run_def Let_def raise_if_eq_Inr bindE_eq_Inr mapE_eq_Inr)
  have "verify_integrity (sv_sha sv) w' (rr_id (provisional_run q a kind)) = Inr r"
    by (rule materialize_verifies [OF m assms(2)]) (simp_all add: provisional_run_def)
  moreover have "rr_status r = rr_status (provisional_run q a kind)"
    using m by (auto simp: materialize_def bindE_eq_Inr raise_if_eq_Inr mapE_eq_Inr Let_def materialized_record_def)
  ultimately show ?thesis using run by (simp add: provisional_run_def)
qed

text \<open>C11: a new run is born consistent.  Whatever the compiler, the exporters and the planner
  produce, a run that was created passes its own integrity check where it now lies, although it
  was signed under other paths and in another order; it awaits review exactly when the
  acceptance report of the agent's graph passed.\<close>

theorem new_run_verifies:
  assumes "create_run sv q w = Inr (a, r, w')" and "CHR ''/'' \<notin> set (gname (ar_graph a))"
  shows "verify_integrity (sv_sha sv) w' (rq_id q) = Inr r
    \<and> agent_run (sv_graph_digest sv) (sv_planner sv) (sv_max_attempts sv) (rq_job q) = Inr a
    \<and> rr_status r = (if tr_passed (ar_report a) then READY_FOR_REVIEW else FAILED)"
  using assms by (rule create_run_verifies)

section \<open>Example\<close>

definition sample_build :: build where
  "sample_build = \<lparr>bu_job_text = ''job'', bu_graph_text = ''graph'', bu_report_text = ''report'', bu_unsigned = [],
     bu_target = ''bog'', bu_conforms = True, bu_semantic_model = ''model'', bu_semantic_validation = ''valid'',
     bu_deliverables = ([], ''manifest''), bu_volttron = None, bu_nhaystack = ([], ''manifest''), bu_bacnet_lab = None,
     bu_environment = None, bu_template = None, bu_assembly = ('''', ''''), bu_template_changes = None\<rparr>"

definition services_with :: "sha \<Rightarrow> services" where
  "services_with sha = \<lparr>sv_sha = sha, sv_graph_digest = \<lambda>g. ''sha'',
     sv_planner = \<lparr>pl_plan = \<lambda>job. Inr sample_graph, pl_revise = \<lambda>job g report. Inr g\<rparr>, sv_max_attempts = 3,
     sv_lowering = \<lambda>g. NativeLane, sv_build = \<lambda>job g report kind. Inr sample_build\<rparr>"

definition sample_services :: services where
  "sample_services = services_with (\<lambda>s. s)"

definition sample_request :: run_request where
  "sample_request = \<lparr>rq_id = ''a1'', rq_job = sample_job, rq_template = False, rq_documents = [], rq_baseline = None,
     rq_origin = CONTRACTOR, rq_parent = None\<rparr>"

definition empty_workbench :: workbench where
  "empty_workbench = \<lparr>wb_root = [''runs''], wb_files = [], wb_manifests = [], wb_requirements = None\<rparr>"

lemma sample_agent:
  "\<exists>a. agent_run (sv_graph_digest (services_with sha)) (sv_planner (services_with sha)) (sv_max_attempts (services_with sha)) sample_job
     = Inr a \<and> ar_graph a = sample_graph \<and> tr_passed (ar_report a)"
proof -
  obtain report where "run_acceptance_suite sample_graph sample_job = Inr report" "tr_passed report"
    using sample_suite_passes by blast
  then show ?thesis by (simp add: services_with_def agent_run_def eval_nat_numeral Let_def)
qed

definition sample_signed :: "(path \<times> string) list" where
  "sample_signed = [([''job-spec.json''], ''job''), ([''control-graph.json''], ''graph''), ([''invert.bog''], ''bog''),
      ([''test-report.json''], ''report''), ([''semantic-model.ttl''], ''model''), ([''semantic-validation.json''], ''valid''),
      ([''deliverables'', ''manifest.json''], ''manifest''), ([''nhaystack'', ''manifest.json''], ''manifest'')]"

definition sample_staging :: path where
  "sample_staging = [''runs'', ''.a1.staging'']"

lemma sample_staged_files:
  "list_all (\<lambda>p. (case map_of (write_files sample_staging sample_signed []) p of None \<Rightarrow> False | Some c \<Rightarrow> length c < 100)
     \<and> length (relative_name (located sample_staging sample_signed) p) < 100) (located sample_staging sample_signed)"
  by code_simp

lemma sample_staged_apart: "\<not> list_ex (under [''runs'', ''a1'']) (map fst (write_files sample_staging sample_signed []))"
  by code_simp

lemma sample_digest:
  "\<exists>d. artifact_hash sha (map_of (write_files sample_staging sample_signed [])) (located sample_staging sample_signed) = Inr d"
proof (rule artifact_hash_total)
  fix p assume "p \<in> set (located sample_staging sample_signed)"
  then have "(case map_of (write_files sample_staging sample_signed []) p of None \<Rightarrow> False | Some c \<Rightarrow> length c < 100)
      \<and> length (relative_name (located sample_staging sample_signed) p) < 100"
    using sample_staged_files by (simp only: list_all_iff)
  then show "\<exists>c. map_of (write_files sample_staging sample_signed []) p = Some c \<and> length c < 2 ^ 64
      \<and> length (relative_name (located sample_staging sample_signed) p) < 2 ^ 64"
    by (auto split: option.splits)
qed (simp add: located_def sample_signed_def)

definition sample_directory :: path where
  "sample_directory = [''runs'', ''a1'']"

definition sample_files :: "(path \<times> string) list" where
  "sample_files = rename_dir sample_staging sample_directory (write_files sample_staging sample_signed [])"

definition sample_saved :: "run_record \<Rightarrow> workbench" where
  "sample_saved record = save_run record (empty_workbench\<lparr>wb_files := sample_files\<rparr>)"

lemma sample_materialize:
  assumes "rr_id r = ''a1''" and "rr_target_kind r = NIAGARA_BOG"
  shows "\<exists>digest record. record = materialized_record sample_directory r sample_graph sample_build [] digest False
     \<and> materialize sha r sample_graph sample_build [] False empty_workbench = Inr (record, sample_saved record)"
proof -
  have signed: "signed_files r sample_graph sample_build [] = sample_signed"
    using assms(2) by (simp add: signed_files_def core_files_def target_name_def deliverable_manifest_def deliverable_files_def
        exported_files_def opt_package_def package_files_def in_dir_def environment_files_def template_files_def
        assembly_files_def assembles_def sample_build_def sample_graph_def sample_signed_def)
  have written: "written_files r sample_graph sample_build [] = sample_signed"
    unfolding signed [symmetric] by (simp add: written_files_def signed_files_def deliverable_files_def in_dir_def sample_build_def)
  have id: "is_alnum ''a1''" by code_simp
  have st: "begin_staged empty_workbench ''a1'' = Inr sample_staging"
    by (simp add: begin_staged_def staging_directory_def run_directory_def id dir_exists_def empty_workbench_def sample_staging_def)
  have cs: "commit_staged sample_staging rec
      (empty_workbench\<lparr>wb_files := write_files sample_staging sample_signed []\<rparr>) = Inr (sample_saved rec)"
    if "rr_id rec = ''a1''" "rr_manifest_path rec = [''runs'', ''a1'', ''manifest.json'']" for rec
    using that id sample_staged_apart
    by (simp add: commit_staged_def staging_directory_def run_directory_def dir_exists_def empty_workbench_def sample_staging_def
        sample_saved_def sample_files_def sample_directory_def)
  have b: "bu_conforms sample_build" "wb_root empty_workbench = [''runs'']" "wb_files empty_workbench = []"
    by (simp_all add: sample_build_def empty_workbench_def)
  obtain digest where d: "artifact_hash sha (map_of (write_files sample_staging sample_signed []))
      (located sample_staging sample_signed) = Inr digest" using sample_digest by blast
  let ?rec = "materialized_record sample_directory r sample_graph sample_build [] digest False"
  have "rr_id ?rec = ''a1''" "rr_manifest_path ?rec = [''runs'', ''a1'', ''manifest.json'']"
    using assms(1) by (simp_all add: materialized_record_def Let_def sample_directory_def)
  then have "commit_staged sample_staging ?rec
      (empty_workbench\<lparr>wb_files := write_files sample_staging sample_signed []\<rparr>) = Inr (sample_saved ?rec)" using cs by blast
  then have "materialize sha r sample_graph sample_build [] False empty_workbench = Inr (?rec, sample_saved ?rec)"
    unfolding materialize_def assms(1) st run_directory_def sample_directory_def
    by (simp add: id b source_files_def written signed d Let_def)
  then show ?thesis by blast
qed

lemma sample_create:
  "\<exists>a digest r. r = materialized_record sample_directory (provisional_run sample_request a NIAGARA_BOG) sample_graph
       sample_build [] digest False
     \<and> create_run (services_with sha) sample_request empty_workbench = Inr (a, r, sample_saved r)
     \<and> ar_graph a = sample_graph \<and> tr_passed (ar_report a)"
proof -
  obtain a where a: "agent_run (sv_graph_digest (services_with sha)) (sv_planner (services_with sha))
      (sv_max_attempts (services_with sha)) sample_job = Inr a" "ar_graph a = sample_graph" "tr_passed (ar_report a)"
    using sample_agent [of sha] by blast
  obtain digest r where r: "r = materialized_record sample_directory (provisional_run sample_request a NIAGARA_BOG)
      sample_graph sample_build [] digest False" and
    m: "materialize sha (provisional_run sample_request a NIAGARA_BOG) sample_graph sample_build []
      False empty_workbench = Inr (r, sample_saved r)"
    using sample_materialize [of "provisional_run sample_request a NIAGARA_BOG" sha]
    by (auto simp: provisional_run_def sample_request_def)
  have "create_run (services_with sha) sample_request empty_workbench = Inr (a, r, sample_saved r)"
    using a m by (simp add: create_run_def Let_def sample_request_def assembly_mode_def sample_job_def)
      (simp add: services_with_def)
  then show ?thesis using r a by blast
qed

lemma new_run_verifies_witness:
  "\<exists>a r w. create_run sample_services sample_request empty_workbench = Inr (a, r, w)
     \<and> verify_integrity (\<lambda>s. s) w ''a1'' = Inr r \<and> rr_status r = READY_FOR_REVIEW"
proof -
  obtain a r where run: "create_run sample_services sample_request empty_workbench = Inr (a, r, sample_saved r)"
    "ar_graph a = sample_graph" "tr_passed (ar_report a)"
    using sample_create [of "\<lambda>s. s"] unfolding sample_services_def by blast
  from new_run_verifies [OF run(1)] run show ?thesis
    by (auto simp: sample_services_def services_with_def sample_request_def sample_graph_def)
qed

end
