(* ===== verification/Lifecycle.thy ===== *)
theory Lifecycle
  imports Materialize
begin

text \<open>
  The life of a run: the qualification tiers of \<open>WorkbenchService\<close> (\<open>service.py\<close>), which read
  the record, run an engine and later write evidence and a new digest, and the histories of
  requests in which they interleave with reviews.  An engine's verdict and its evidence files
  are arguments; anybody may change files on disk at any time, but not the manifests.
\<close>

section \<open>Qualification requests\<close>

datatype tier = Boptest | Alfalfa | Shadow

datatype tier_request =
    BoptestSingle "string list"
  | BoptestSuite "(string \<times> int) list"
  | AlfalfaModel "string list" string string
  | AlfalfaBacnet "string list" string string
  | ShadowRuntime string string

fun tier_of :: "tier_request \<Rightarrow> tier" where
  "tier_of (BoptestSingle _) = Boptest"
| "tier_of (BoptestSuite _) = Boptest"
| "tier_of (AlfalfaModel _ _ _) = Alfalfa"
| "tier_of (AlfalfaBacnet _ _ _) = Alfalfa"
| "tier_of (ShadowRuntime _ _) = Shadow"

definition validate_oracles :: "string list \<Rightarrow> unit result" where
  "validate_oracles ids =
     raise_if (ids = []) ''qualification requires at least one trajectory oracle''
    (raise_if (has_duplicates ids) ''trajectory oracle ids must be unique'' okE)"

definition validate_suite :: "(string \<times> int) list \<Rightarrow> unit result" where
  "validate_suite cases =
     raise_if (cases = []) ''BOPTEST qualification cases cannot be empty''
    (raise_if (50 < length cases) ''BOPTEST qualification suites cannot exceed 50 cases''
    (raise_if (1000000 < sum_list (map snd cases)) ''BOPTEST qualification suites cannot exceed 1000000 steps''
    (raise_if (has_duplicates (map fst cases)) ''BOPTEST qualification case ids must be unique'' okE)))"

definition lower :: "char \<Rightarrow> char" where
  "lower c = (if 65 \<le> (of_char c :: nat) \<and> (of_char c :: nat) \<le> 90 then char_of (of_char c + 32 :: nat) else c)"

text \<open>\<open>Path(name).suffix\<close>\<close>

definition suffix_of :: "string \<Rightarrow> string" where
  "suffix_of s =
     (let t = takeWhile (\<lambda>c. c \<noteq> CHR ''.'') (rev s) in
      if t = [] \<or> length s \<le> Suc (length t) then [] else CHR ''.'' # rev t)"

definition validate_model :: "string \<Rightarrow> string \<Rightarrow> unit result" where
  "validate_model bytes filename =
     raise_if (bytes = []) ''Alfalfa FMU is empty''
    (raise_if (512 * 1024 * 1024 < length bytes) ''Alfalfa FMU exceeds the admission limit''
    (bindE (safe_source_name filename) (\<lambda>name.
     raise_if (map lower (suffix_of name) \<noteq> ''.fmu'') ''Alfalfa model must use the .fmu extension'' okE)))"

definition tier_path :: "tier \<Rightarrow> run_record \<Rightarrow> path option" where
  "tier_path t r = (case t of Boptest \<Rightarrow> rr_boptest_path r | Alfalfa \<Rightarrow> rr_alfalfa_path r | Shadow \<Rightarrow> rr_shadow_path r)"

definition set_tier_path :: "tier \<Rightarrow> path \<Rightarrow> run_record \<Rightarrow> run_record" where
  "set_tier_path t p r = (case t of Boptest \<Rightarrow> r\<lparr>rr_boptest_path := Some p\<rparr>
     | Alfalfa \<Rightarrow> r\<lparr>rr_alfalfa_path := Some p\<rparr> | Shadow \<Rightarrow> r\<lparr>rr_shadow_path := Some p\<rparr>)"

definition tier_directory :: "tier \<Rightarrow> string" where
  "tier_directory t = (case t of Boptest \<Rightarrow> ''boptest-verification'' | Alfalfa \<Rightarrow> ''alfalfa-verification''
     | Shadow \<Rightarrow> ''shadow-verification'')"

text \<open>The names of \<open>PLAUSIBLE_POLICIES\<close> in \<open>niagara/shadow/policy.py\<close>.\<close>

definition plausible_policies :: "string list" where
  "plausible_policies = [''default'', ''reverse-links'', ''shuffled-1'', ''breadth'', ''timers-first'',
     ''coarse-module-tick'', ''long-pulses'', ''document-start'', ''document-ticks'', ''multivibrator-low'']"

definition validate_request :: "tier_request \<Rightarrow> run_record \<Rightarrow> unit result" where
  "validate_request q r = (case q of
       BoptestSingle ids \<Rightarrow> validate_oracles ids
     | BoptestSuite cases \<Rightarrow> validate_suite cases
     | AlfalfaModel ids bytes filename \<Rightarrow> bindE (validate_oracles ids) (\<lambda>_. validate_model bytes filename)
     | AlfalfaBacnet ids bytes filename \<Rightarrow>
         raise_if (rr_bacnet_lab_manifest_path r = None)
           ''BACnet-coupled Alfalfa qualification requires a mapped BACnet scan''
          (bindE (validate_oracles ids) (\<lambda>_. validate_model bytes filename))
     | ShadowRuntime policy band \<Rightarrow>
         raise_if (rr_target_kind r \<noteq> NIAGARA_BOG) ''Shadow Runtime qualification needs a native .bog target''
        (raise_if (first_path [rr_target_path r, rr_bog_path r] = None) ''run has no signed .bog artifact''
        (raise_if (policy \<notin> set plausible_policies) ''unknown Shadow Runtime policy''
        (raise_if (band \<notin> {''default'', ''coarse''}) ''unknown band set'' okE))))"

section \<open>Qualifying\<close>

text \<open>What a tier does before its engine starts; it keeps the record it has read.\<close>

definition qualify_begin :: "sha \<Rightarrow> tier_request \<Rightarrow> string \<Rightarrow> string option \<Rightarrow> workbench \<Rightarrow>
    run_record result" where
  "qualify_begin sha q i expected w =
     bindE (get_run w i) (\<lambda>r.
     check_bound (case expected of None \<Rightarrow> False | Some h \<Rightarrow> rr_artifact r \<noteq> h)
       ''candidate changed after qualification was submitted''
    (require_status (rr_status r = READY_FOR_REVIEW) ''qualification requires a passing candidate awaiting review''
    (bindE (verify_record sha (store_of w) r) (\<lambda>_.
     raise_if (tier_path (tier_of q) r \<noteq> None) ''qualification is append-once; create a new run to retest''
    (bindE (validate_request q r) (\<lambda>_. Inr r))))))"

text \<open>What it does when the engine is done: the evidence is moved into place, and the files of the
  record it had read, as they are now, are signed together with it.\<close>

definition qualify_finish :: "sha \<Rightarrow> tier \<Rightarrow> run_record \<Rightarrow> (path \<times> string) list \<Rightarrow> bool \<Rightarrow> workbench \<Rightarrow>
    (run_record \<times> workbench) result" where
  "qualify_finish sha t r staged passed w =
     bindE (run_directory (wb_root w) (rr_id r)) (\<lambda>d.
     let destination = d @ [tier_directory t] in
     raise_if (dir_exists w destination) ''verification directory already exists''
      (let files = write_files destination staged (wb_files w);
           final = map ((@) destination) (sort (map fst staged)) in
       bindE (artifact_hash sha (map_of files) (record_artifact_paths r @ final)) (\<lambda>digest.
       let updated = (set_tier_path t (destination @ [''evidence.json'']) r)
             \<lparr>rr_status := if passed then READY_FOR_REVIEW else FAILED,
              rr_verification_paths := rr_verification_paths r @ final, rr_artifact := digest\<rparr> in
       Inr (updated, save_run updated (w\<lparr>wb_files := files\<rparr>)))))"

section \<open>Histories\<close>

record system =
  sy_wb :: workbench
  sy_pending :: "(tier \<times> run_record) list"

datatype wb_event =
    Created agent_result run_record
  | Approved run_record
  | Rejected run_record
  | Begun tier run_record
  | Finished tier run_record
  | Changed

text \<open>One request of the service, or a change of files.  A qualification is two requests.\<close>

inductive wb_step :: "services \<Rightarrow> system \<Rightarrow> wb_event \<Rightarrow> system \<Rightarrow> bool" for sv where
  wb_create: "create_run sv q (sy_wb s) = Inr (a, r, w) \<Longrightarrow> wb_step sv s (Created a r) (s\<lparr>sy_wb := w\<rparr>)"
| wb_approve: "approve (sv_sha sv) i who expected (sy_wb s) = Inr (r, w) \<Longrightarrow> wb_step sv s (Approved r) (s\<lparr>sy_wb := w\<rparr>)"
| wb_reject: "reject (sv_sha sv) i who reason (sy_wb s) = Inr (r, w) \<Longrightarrow> wb_step sv s (Rejected r) (s\<lparr>sy_wb := w\<rparr>)"
| wb_begin: "qualify_begin (sv_sha sv) q i expected (sy_wb s) = Inr r \<Longrightarrow>
     wb_step sv s (Begun (tier_of q) r) (s\<lparr>sy_pending := (tier_of q, r) # sy_pending s\<rparr>)"
| wb_finish: "(t, r) \<in> set (sy_pending s) \<Longrightarrow>
     qualify_finish (sv_sha sv) t r staged passed (sy_wb s) = Inr (r', w) \<Longrightarrow>
     wb_step sv s (Finished t r') \<lparr>sy_wb = w, sy_pending = remove1 (t, r) (sy_pending s)\<rparr>"
| wb_change: "wb_step sv s Changed (s\<lparr>sy_wb := (sy_wb s)\<lparr>wb_files := files, wb_requirements := requirements\<rparr>\<rparr>)"

text \<open>A history pairs every event with the workbench it found.\<close>

inductive history :: "services \<Rightarrow> (workbench \<times> wb_event) list \<Rightarrow> system \<Rightarrow> bool" for sv where
  history_start: "wb_manifests w = [] \<Longrightarrow> history sv [] \<lparr>sy_wb = w, sy_pending = []\<rparr>"
| history_step: "history sv h s \<Longrightarrow> wb_step sv s e s' \<Longrightarrow> history sv (h @ [(sy_wb s, e)]) s'"

section \<open>What every history keeps\<close>

text \<open>The run began as a graph that passed the acceptance suite of its job.\<close>

definition created_passing :: "(workbench \<times> wb_event) list \<Rightarrow> run_record \<Rightarrow> bool" where
  "created_passing h r \<longleftrightarrow> (\<exists>w a r0. (w, Created a r0) \<in> set h \<and> rr_id r0 = rr_id r \<and> rr_job r0 = rr_job r
     \<and> tr_passed (ar_report a) \<and> run_acceptance_suite (ar_graph a) (rr_job r) = Inr (ar_report a))"

text \<open>The record was written by an approval, on files that matched its digest.\<close>

definition approved_by :: "sha \<Rightarrow> (workbench \<times> wb_event) list \<Rightarrow> run_record \<Rightarrow> bool" where
  "approved_by sha h r \<longleftrightarrow> (\<exists>w. (w, Approved r) \<in> set h
     \<and> artifact_hash sha (store_of w) (record_artifact_paths r) = Inr (rr_artifact r))"

definition record_inv :: "sha \<Rightarrow> path \<Rightarrow> (workbench \<times> wb_event) list \<Rightarrow> run_record \<Rightarrow> bool" where
  "record_inv sha base h r \<longleftrightarrow> rr_manifest_path r = manifest_of base (rr_id r)
     \<and> (rr_status r \<noteq> FAILED \<longrightarrow> created_passing h r) \<and> (rr_status r = APPROVED \<longrightarrow> approved_by sha h r)"

definition wb_inv :: "sha \<Rightarrow> (workbench \<times> wb_event) list \<Rightarrow> workbench \<Rightarrow> bool" where
  "wb_inv sha h w \<longleftrightarrow> (\<forall>k r. map_of (wb_manifests w) k = Some r \<longrightarrow>
     k = rr_manifest_path r \<and> record_inv sha (wb_root w) h r)"

definition system_inv :: "sha \<Rightarrow> (workbench \<times> wb_event) list \<Rightarrow> system \<Rightarrow> bool" where
  "system_inv sha h s \<longleftrightarrow> wb_inv sha h (sy_wb s)
     \<and> (\<forall>(t, r) \<in> set (sy_pending s). record_inv sha (wb_root (sy_wb s)) h r \<and> rr_status r = READY_FOR_REVIEW)"

lemma record_inv_mono: "record_inv sha base h r \<Longrightarrow> record_inv sha base (h @ [x]) r"
  unfolding record_inv_def created_passing_def approved_by_def by fastforce

lemma wb_inv_mono: "wb_inv sha h w \<Longrightarrow> wb_inv sha (h @ [x]) w"
  using record_inv_mono unfolding wb_inv_def by blast

lemma wb_inv_save:
  assumes "wb_inv sha h w" and "record_inv sha (wb_root w) h r"
  shows "wb_inv sha h (save_run r w)"
  using assms by (auto simp: wb_inv_def save_run_def)

lemma wb_inv_files: "wb_inv sha h (w\<lparr>wb_files := files\<rparr>) = wb_inv sha h w"
  "wb_inv sha h (w\<lparr>wb_files := files, wb_requirements := rs\<rparr>) = wb_inv sha h w"
  by (simp_all add: wb_inv_def)

lemma get_run_Inr:
  "get_run w i = Inr r \<longleftrightarrow> is_alnum i \<and> map_of (wb_manifests w) (manifest_of (wb_root w) i) = Some r
     \<and> review_state_is_consistent r = Inr ()"
  by (auto simp: get_run_def run_directory_def bindE_eq_Inr raise_if_eq_Inr split: option.splits)

lemma get_run_inv:
  assumes "get_run w i = Inr r" and "wb_inv sha h w"
  shows "record_inv sha (wb_root w) h r \<and> rr_id r = i"
proof -
  have r: "manifest_of (wb_root w) i = rr_manifest_path r" "record_inv sha (wb_root w) h r"
    using assms unfolding get_run_Inr wb_inv_def by blast+
  then show ?thesis unfolding record_inv_def manifest_of_def by simp
qed

lemma verify_record_Inr:
  "verify_record sha store r = Inr () \<longleftrightarrow> artifact_hash sha store (record_artifact_paths r) = Inr (rr_artifact r)
     \<and> pred_option (\<lambda>a. ap_artifact a = rr_artifact r) (rr_approval r)
     \<and> pred_option (\<lambda>j. rj_artifact j = rr_artifact r) (rr_rejection r)"
  by (auto simp: verify_record_def bindE_eq_Inr check_bound_def okE_def split: option.splits)

lemma require_status_Inr [simp]: "require_status good message m = Inr x \<longleftrightarrow> good \<and> m = Inr x"
  by (simp add: require_status_def)

lemma check_bound_Inr [simp]: "check_bound bad message m = Inr x \<longleftrightarrow> \<not> bad \<and> m = Inr x"
  by (simp add: check_bound_def)

lemma differs_iff: "(case e of None \<Rightarrow> False | Some h \<Rightarrow> h \<noteq> x) \<longleftrightarrow> \<not> pred_option (\<lambda>h. h = x) e"
  by (cases e) simp_all

lemma approve_Inr:
  assumes "approve sha i who expected w = Inr (r', w')"
  obtains r a where "get_run w i = Inr r" "rr_status r = READY_FOR_REVIEW"
    "artifact_hash sha (store_of w) (record_artifact_paths r) = Inr (rr_artifact r)"
    "require_requirements_approval w (rr_job r) = Inr ()" "pred_option (\<lambda>h. h = rr_artifact r) expected"
    "w' = save_run r' w" "r' = r\<lparr>rr_status := APPROVED, rr_approval := Some a\<rparr>"
    "ap_artifact a = rr_artifact r"
proof -
  obtain r where r: "get_run w i = Inr r" "rr_status r = READY_FOR_REVIEW" "verify_record sha (store_of w) r = Inr ()"
    "require_requirements_approval w (rr_job r) = Inr ()" "pred_option (\<lambda>h. h = rr_artifact r) expected"
    "r' = r\<lparr>rr_status := APPROVED, rr_approval := Some \<lparr>ap_reviewer = ri_reviewer who, ap_actor_id = ri_actor_id who,
       ap_tenant_id = ri_tenant_id who, ap_authentication = ri_authentication who, ap_artifact = rr_artifact r\<rparr>\<rparr>"
    "w' = save_run r' w"
    using assms unfolding approve_def bindE_eq_Inr require_status_Inr check_bound_Inr differs_iff Let_def by force
  then show thesis by (intro that [OF r(1,2) _ r(4,5,7,6)]) (simp_all add: verify_record_Inr)
qed

lemma reject_Inr:
  assumes "reject sha i who reason w = Inr (r', w')"
  obtains r j where "get_run w i = Inr r" "rr_status r = READY_FOR_REVIEW"
    "artifact_hash sha (store_of w) (record_artifact_paths r) = Inr (rr_artifact r)"
    "w' = save_run r' w" "r' = r\<lparr>rr_status := REJECTED, rr_rejection := Some j\<rparr>"
    "rj_artifact j = rr_artifact r"
proof -
  obtain r where r: "get_run w i = Inr r" "rr_status r = READY_FOR_REVIEW" "verify_record sha (store_of w) r = Inr ()"
    "r' = r\<lparr>rr_status := REJECTED, rr_rejection := Some \<lparr>rj_reviewer = ri_reviewer who, rj_actor_id = ri_actor_id who,
       rj_tenant_id = ri_tenant_id who, rj_authentication = ri_authentication who, rj_reason = reason,
       rj_artifact = rr_artifact r\<rparr>\<rparr>"
    "w' = save_run r' w"
    using assms unfolding reject_def bindE_eq_Inr require_status_Inr Let_def by force
  then show thesis by (intro that [OF r(1,2) _ r(5,4)]) (simp_all add: verify_record_Inr)
qed

lemma paths_of_decision [simp]:
  "record_artifact_paths (r\<lparr>rr_status := st, rr_approval := a\<rparr>) = record_artifact_paths r"
  "record_artifact_paths (r\<lparr>rr_status := st, rr_rejection := j\<rparr>) = record_artifact_paths r"
  by (simp_all add: record_artifact_paths_def)

lemma qualify_begin_Inr:
  "qualify_begin sha q i expected w = Inr r \<Longrightarrow> get_run w i = Inr r \<and> rr_status r = READY_FOR_REVIEW
     \<and> tier_path (tier_of q) r = None"
  by (auto simp: qualify_begin_def bindE_eq_Inr raise_if_eq_Inr)

lemma tier_path_keeps [simp]:
  "rr_id (set_tier_path t p r) = rr_id r" "rr_job (set_tier_path t p r) = rr_job r"
  "rr_manifest_path (set_tier_path t p r) = rr_manifest_path r"
  "rr_approval (set_tier_path t p r) = rr_approval r" "rr_rejection (set_tier_path t p r) = rr_rejection r"
  by (simp_all add: set_tier_path_def split: tier.split)

lemma tier_path_set [simp]:
  "tier_path u (set_tier_path t p r) = (if u = t then Some p else tier_path u r)"
  "tier_path u (r\<lparr>rr_status := st, rr_verification_paths := ps, rr_artifact := d\<rparr>) = tier_path u r"
  by (cases u; cases t; simp add: tier_path_def set_tier_path_def)+

lemma qualify_finish_Inr:
  assumes "qualify_finish sha t r staged passed w = Inr (r', w')"
  obtains files where "w' = save_run r' (w\<lparr>wb_files := files\<rparr>)" "rr_id r' = rr_id r" "rr_job r' = rr_job r"
    "rr_manifest_path r' = rr_manifest_path r" "rr_approval r' = rr_approval r" "rr_rejection r' = rr_rejection r"
    "rr_status r' = (if passed then READY_FOR_REVIEW else FAILED)"
    "\<And>u. tier_path u r' \<noteq> None \<longleftrightarrow> u = t \<or> tier_path u r \<noteq> None"
  using assms by (auto simp: qualify_finish_def bindE_eq_Inr raise_if_eq_Inr Let_def)

lemma create_run_Inr:
  assumes "create_run sv q w = Inr (a, r, w')"
  obtains files where "w' = save_run r (w\<lparr>wb_files := files\<rparr>)" "rr_manifest_path r = manifest_of (wb_root w) (rr_id r)"
    "rr_job r = rq_job q" "rr_status r = (if tr_passed (ar_report a) then READY_FOR_REVIEW else FAILED)"
    "run_acceptance_suite (ar_graph a) (rq_job q) = Inr (ar_report a)"
    "is_alnum (rr_id r)" "map_of (wb_manifests w) (manifest_of (wb_root w) (rr_id r)) = None"
    "rr_approval r = None" "rr_rejection r = None" "\<And>t. tier_path t r = None"
    "rr_target_path r \<noteq> None" "rr_id r = rq_id q"
proof -
  obtain kind b where run: "agent_run (sv_graph_digest sv) (sv_planner sv) (sv_max_attempts sv) (rq_job q) = Inr a"
    and m: "materialize (sv_sha sv) (provisional_run q a kind) (ar_graph a) b (rq_documents q) (rq_baseline q \<noteq> None) w = Inr (r, w')"
    using assms by (auto simp: create_run_def Let_def raise_if_eq_Inr bindE_eq_Inr mapE_eq_Inr)
  obtain sources digest staging files where
    r: "r = materialized_record (wb_root w @ [rr_id (provisional_run q a kind)]) (provisional_run q a kind) (ar_graph a) b
      sources digest (rq_baseline q \<noteq> None)" and
    cs: "commit_staged staging r (w\<lparr>wb_files := files\<rparr>) = Inr w'"
    using m by (auto simp: materialize_def bindE_eq_Inr raise_if_eq_Inr mapE_eq_Inr Let_def run_directory_def)
  show thesis
  proof (rule that)
    show "w' = save_run r (w\<lparr>wb_files := rename_dir staging (wb_root w @ [rr_id r]) files\<rparr>)"
      using cs by (auto simp: commit_staged_def bindE_eq_Inr raise_if_eq_Inr run_directory_def split: if_splits)
    have "\<not> list_ex (under (wb_root w @ [rr_id r])) (map fst (wb_manifests w))"
      using cs by (auto simp: commit_staged_def bindE_eq_Inr raise_if_eq_Inr run_directory_def dir_exists_def split: if_splits)
    moreover have "under (wb_root w @ [rr_id r]) (manifest_of (wb_root w) (rr_id r))"
      by (simp add: under_def manifest_of_def)
    ultimately show "map_of (wb_manifests w) (manifest_of (wb_root w) (rr_id r)) = None"
      by (force simp: map_of_eq_None_iff list_ex_iff)
    show "is_alnum (rr_id r)"
      using cs by (auto simp: commit_staged_def bindE_eq_Inr raise_if_eq_Inr run_directory_def split: if_splits)
    show "rr_target_path r \<noteq> None"
      by (simp add: r materialized_record_def Let_def first_path_def opt_path_def)
    show "tier_path t r = None" for t
      by (cases t) (simp_all add: r tier_path_def materialized_record_def Let_def provisional_run_def)
    show "run_acceptance_suite (ar_graph a) (rq_job q) = Inr (ar_report a)" using agent_run_tested [OF run] by blast
  qed (simp_all add: r materialized_record_def Let_def provisional_run_def manifest_of_def)
qed

lemma wb_step_inv:
  assumes "wb_step sv s e s'" and "system_inv (sv_sha sv) h s"
  shows "system_inv (sv_sha sv) (h @ [(sy_wb s, e)]) s'"
proof -
  let ?h = "h @ [(sy_wb s, e)]"
  have w: "wb_inv (sv_sha sv) h (sy_wb s)" using assms(2) by (simp add: system_inv_def)
  note w' = wb_inv_mono [OF w]
  have pend: "\<forall>(t, r) \<in> set (sy_pending s). record_inv (sv_sha sv) (wb_root (sy_wb s)) ?h r \<and> rr_status r = READY_FOR_REVIEW"
    using assms(2) record_inv_mono by (fastforce simp: system_inv_def)
  have keep: "system_inv (sv_sha sv) ?h (s\<lparr>sy_wb := save_run r (sy_wb s)\<rparr>)"
    if "record_inv (sv_sha sv) (wb_root (sy_wb s)) ?h r" for r
    using wb_inv_save [OF w' that] pend by (simp add: system_inv_def) (simp add: save_run_def)
  show ?thesis
    using assms(1)
  proof cases
    case (wb_create q a r w)
    from wb_create(3) show ?thesis
    proof (rule create_run_Inr)
      fix files
      assume *: "w = save_run r ((sy_wb s)\<lparr>wb_files := files\<rparr>)" "rr_manifest_path r = manifest_of (wb_root (sy_wb s)) (rr_id r)"
        "rr_job r = rq_job q" "rr_status r = (if tr_passed (ar_report a) then READY_FOR_REVIEW else FAILED)"
        "run_acceptance_suite (ar_graph a) (rq_job q) = Inr (ar_report a)"
      then have "record_inv (sv_sha sv) (wb_root (sy_wb s)) ?h r"
        by (auto simp: record_inv_def created_passing_def wb_create(1) split: if_splits)
      then have "wb_inv (sv_sha sv) ?h w"
        unfolding *(1) using w' by (intro wb_inv_save) (simp_all add: wb_inv_files)
      then show ?thesis using pend by (simp add: system_inv_def wb_create(2) *(1)) (simp add: save_run_def)
    qed
  next
    case (wb_approve i who expected r w)
    from wb_approve(3) show ?thesis
    proof (rule approve_Inr)
      fix r0 a
      assume *: "get_run (sy_wb s) i = Inr r0" "rr_status r0 = READY_FOR_REVIEW"
        "artifact_hash (sv_sha sv) (store_of (sy_wb s)) (record_artifact_paths r0) = Inr (rr_artifact r0)"
        "w = save_run r (sy_wb s)" "r = r0\<lparr>rr_status := APPROVED, rr_approval := Some a\<rparr>"
      note r = *(5)
      have "approved_by (sv_sha sv) ?h r" using *(3) by (auto simp: approved_by_def wb_approve(1) r)
      moreover have "record_inv (sv_sha sv) (wb_root (sy_wb s)) ?h r0"
        using get_run_inv [OF *(1) w'] by simp
      ultimately have "record_inv (sv_sha sv) (wb_root (sy_wb s)) ?h r"
        using *(2) by (auto simp: record_inv_def created_passing_def r)
      then show ?thesis unfolding wb_approve(2) *(4) by (rule keep)
    qed
  next
    case (wb_reject i who reason r w)
    from wb_reject(3) show ?thesis
    proof (rule reject_Inr)
      fix r0 j
      assume *: "get_run (sy_wb s) i = Inr r0" "rr_status r0 = READY_FOR_REVIEW"
        "w = save_run r (sy_wb s)" "r = r0\<lparr>rr_status := REJECTED, rr_rejection := Some j\<rparr>"
      note r = *(4)
      have "record_inv (sv_sha sv) (wb_root (sy_wb s)) ?h r0"
        using get_run_inv [OF *(1) w'] by simp
      then have "record_inv (sv_sha sv) (wb_root (sy_wb s)) ?h r"
        using *(2) by (auto simp: record_inv_def created_passing_def r)
      then show ?thesis unfolding wb_reject(2) *(3) by (rule keep)
    qed
  next
    case (wb_begin q i expected r)
    then have "record_inv (sv_sha sv) (wb_root (sy_wb s)) ?h r" "rr_status r = READY_FOR_REVIEW"
      using qualify_begin_Inr [OF wb_begin(3)] get_run_inv [OF _ w'] by blast+
    then show ?thesis using w' pend by (simp add: system_inv_def wb_begin(2))
  next
    case (wb_finish t r staged passed r' w)
    have r: "record_inv (sv_sha sv) (wb_root (sy_wb s)) ?h r" "rr_status r = READY_FOR_REVIEW"
      using pend wb_finish(3) by auto
    from wb_finish(4) show ?thesis
    proof (rule qualify_finish_Inr)
      fix files
      assume *: "w = save_run r' ((sy_wb s)\<lparr>wb_files := files\<rparr>)" "rr_id r' = rr_id r" "rr_job r' = rr_job r"
        "rr_manifest_path r' = rr_manifest_path r" "rr_status r' = (if passed then READY_FOR_REVIEW else FAILED)"
      have "record_inv (sv_sha sv) (wb_root (sy_wb s)) ?h r'"
        using r * by (auto simp: record_inv_def created_passing_def)
      then have "wb_inv (sv_sha sv) ?h w"
        unfolding *(1) using w' by (intro wb_inv_save) (simp_all add: wb_inv_files)
      moreover have "\<forall>(t, r) \<in> set (remove1 (t, r) (sy_pending s)). record_inv (sv_sha sv) (wb_root (sy_wb s)) ?h r
          \<and> rr_status r = READY_FOR_REVIEW"
        using pend set_remove1_subset [of "(t, r)" "sy_pending s"] by blast
      ultimately show ?thesis by (simp add: system_inv_def wb_finish(2) *(1)) (simp add: save_run_def)
    qed
  next
    case (wb_change files requirements)
    then show ?thesis using w' pend by (simp add: system_inv_def wb_inv_files)
  qed
qed

lemma history_inv: "history sv h s \<Longrightarrow> system_inv (sv_sha sv) h s"
proof (induction rule: history.induct)
  case (history_start w)
  then show ?case by (simp add: system_inv_def wb_inv_def)
next
  case (history_step h s e s')
  then show ?case by (intro wb_step_inv)
qed

end
