(* ===== verification/JobQueue.thy ===== *)
theory JobQueue
  imports Lifecycle PyTime
begin

text \<open>
  The durable queue of qualification jobs (\<open>QualificationJobRepository\<close> of
  \<open>src/bactalk/qualification_jobs.py\<close>).  Every operation runs under the repository's file
  lock and is one step here; the clock is an argument, in microseconds.  An integrity error is
  a \<open>RuntimeError\<close>, as in the source; pydantic's validation error is a \<open>ValueError\<close>.
\<close>

section \<open>Records\<close>

datatype job_status = QUEUED | RUNNING | CANCEL_REQUESTED | CANCELED | SUCCEEDED | JOB_FAILED

definition terminal_statuses :: "job_status set" where
  "terminal_statuses = {CANCELED, SUCCEEDED, JOB_FAILED}"

definition working :: "job_status \<Rightarrow> bool" where
  "working s \<longleftrightarrow> s \<in> {RUNNING, CANCEL_REQUESTED}"

datatype job_kind = AlfalfaJob | BoptestJob | ShadowJob

record job_progress =
  pg_phase :: string
  pg_completed :: int
  pg_total :: int
  pg_percent :: pyfloat

record job_record =
  jq_schema :: nat
  jq_id :: string
  jq_broker_id :: string
  jq_run :: string
  jq_candidate :: "string option"
  jq_kind :: job_kind
  jq_transport :: string
  jq_status :: job_status
  jq_model_filename :: "string option"
  jq_model_sha :: "string option"
  jq_request_sha :: string
  jq_input_sha :: string
  jq_created :: int
  jq_updated :: int
  jq_started :: "int option"
  jq_completed :: "int option"
  jq_heartbeat :: "int option"
  jq_lease :: "int option"
  jq_worker :: "string option"
  jq_actor :: "string option"
  jq_tenant :: "string option"
  jq_progress :: job_progress
  jq_cancellation :: bool
  jq_error :: "string option"
  jq_result :: "string option"
  jq_passed :: "bool option"

definition short :: "nat \<Rightarrow> string option \<Rightarrow> bool" where
  "short n s \<longleftrightarrow> pred_option (\<lambda>s. length s \<le> n) s"

definition job_id_ok :: "string \<Rightarrow> bool" where
  "job_id_ok s \<longleftrightarrow> length s = 32 \<and> list_all (\<lambda>c. c \<in> set ''0123456789abcdef'') s"

definition progress_ok :: "job_progress \<Rightarrow> bool" where
  "progress_ok p \<longleftrightarrow> 1 \<le> length (pg_phase p) \<and> length (pg_phase p) \<le> 120 \<and> 0 \<le> pg_completed p \<and> 0 \<le> pg_total p
     \<and> fisfinite (pg_percent p) \<and> fle (Fin 0) (pg_percent p) \<and> fle (pg_percent p) (Fin 100)"

text \<open>The declared patterns and lengths of the fields.\<close>

definition fields_ok :: "job_record \<Rightarrow> bool" where
  "fields_ok r \<longleftrightarrow> jq_schema r \<in> {1, 2, 3} \<and> job_id_ok (jq_id r) \<and> job_id_ok (jq_broker_id r) \<and> is_alnum (jq_run r)
     \<and> pred_option digest_ok (jq_candidate r) \<and> pred_option digest_ok (jq_model_sha r) \<and> digest_ok (jq_request_sha r)
     \<and> digest_ok (jq_input_sha r) \<and> pred_option digest_ok (jq_result r)
     \<and> jq_transport r \<in> {''direct'', ''bacnet_ip_loopback'', ''boptest_rest'', ''shadow_runtime''}
     \<and> pred_option (\<lambda>n. n \<noteq> [] \<and> length n \<le> 240) (jq_model_filename r)
     \<and> short 240 (jq_worker r) \<and> short 240 (jq_actor r) \<and> short 240 (jq_tenant r) \<and> short 4000 (jq_error r)
     \<and> progress_ok (jq_progress r)"

definition valid_kind_contract :: "job_record \<Rightarrow> unit result" where
  "valid_kind_contract r =
     raise_if (jq_schema r = 3 \<and> jq_candidate r = None) ''v3 qualification jobs require the submitted candidate digest''
     (case jq_kind r of
        AlfalfaJob \<Rightarrow>
          raise_if (jq_transport r \<notin> {''direct'', ''bacnet_ip_loopback''}) ''Alfalfa qualification has an invalid transport''
         (raise_if (jq_model_filename r = None \<or> jq_model_sha r = None) ''Alfalfa qualification requires an immutable FMU'' okE)
      | BoptestJob \<Rightarrow>
          raise_if (jq_transport r \<noteq> ''boptest_rest'') ''BOPTEST qualification has an invalid transport''
         (raise_if (jq_model_filename r \<noteq> None \<or> jq_model_sha r \<noteq> None)
            ''BOPTEST qualification cannot contain an uploaded FMU'' okE)
      | ShadowJob \<Rightarrow>
          raise_if (jq_transport r \<noteq> ''shadow_runtime'') ''Shadow Runtime qualification has an invalid transport''
         (raise_if (jq_model_filename r \<noteq> None \<or> jq_model_sha r \<noteq> None)
            ''Shadow Runtime qualification cannot contain an uploaded FMU'' okE))"

definition validate_job :: "job_record \<Rightarrow> unit result" where
  "validate_job r = raise_if (\<not> fields_ok r) ''invalid qualification job'' (valid_kind_contract r)"

definition kind_text :: "job_kind \<Rightarrow> string" where
  "kind_text k = (case k of AlfalfaJob \<Rightarrow> ''alfalfa'' | BoptestJob \<Rightarrow> ''boptest'' | ShadowJob \<Rightarrow> ''shadow'')"

definition or_text :: "string \<Rightarrow> string option \<Rightarrow> string" where
  "or_text alternative s = (case s of None \<Rightarrow> alternative | Some t \<Rightarrow> if t = [] then alternative else t)"

definition qualification_input_sha :: "sha \<Rightarrow> nat \<Rightarrow> job_kind \<Rightarrow> string \<Rightarrow> string option \<Rightarrow> string \<Rightarrow> string option \<Rightarrow> string result" where
  "qualification_input_sha sha version kind run candidate request model =
     (let join = (\<lambda>parts. concat (map (\<lambda>p. p @ '':'') (butlast parts)) @ last parts) in
      if version = 1 then Inr (sha (join [run, request, or_text [] model]))
      else if version = 2 then Inr (sha (join [kind_text kind, run, request, or_text ''-'' model]))
      else case candidate of
             None \<Rightarrow> Inl (RuntimeError ''v3 qualification job is missing its submitted candidate digest'')
           | Some c \<Rightarrow> Inr (sha (join [kind_text kind, run, c, request, or_text ''-'' model])))"

section \<open>The repository\<close>

record job_store =
  js_records :: "(string \<times> job_record) list"
  js_requests :: "(string \<times> string) list"
  js_models :: "(string \<times> string) list"

definition check_digest :: "sha \<Rightarrow> string option \<Rightarrow> string \<Rightarrow> unit result" where
  "check_digest sha content digest = (case content of
       None \<Rightarrow> Inl (OSError ''no such file'')
     | Some c \<Rightarrow> if sha c \<noteq> digest then Inl (RuntimeError ''digest changed'') else okE)"

definition read_job :: "sha \<Rightarrow> job_store \<Rightarrow> string \<Rightarrow> job_record result" where
  "read_job sha js i =
     raise_if (\<not> job_id_ok i) ''invalid qualification job id''
      (case map_of (js_records js) i of
         None \<Rightarrow> Inl (KeyError i)
       | Some r \<Rightarrow>
           bindE (validate_job r) (\<lambda>_.
           bindE (check_digest sha (map_of (js_requests js) i) (jq_request_sha r)) (\<lambda>_.
           bindE (case jq_model_sha r of None \<Rightarrow> okE | Some m \<Rightarrow> check_digest sha (map_of (js_models js) i) m) (\<lambda>_.
           bindE (qualification_input_sha sha (jq_schema r) (jq_kind r) (jq_run r) (jq_candidate r) (jq_request_sha r)
             (jq_model_sha r)) (\<lambda>expected.
           if expected \<noteq> jq_input_sha r then Inl (RuntimeError ''input digest is invalid'') else Inr r)))))"

definition save_job :: "int \<Rightarrow> job_record \<Rightarrow> job_store \<Rightarrow> job_record \<times> job_store" where
  "save_job tm r js =
     (let updated = r\<lparr>jq_updated := tm\<rparr> in (updated, js\<lparr>js_records := AList.update (jq_id r) updated (js_records js)\<rparr>))"

text \<open>Records that do not validate are skipped.\<close>

definition active_for :: "string \<Rightarrow> job_record \<Rightarrow> bool" where
  "active_for run r \<longleftrightarrow> validate_job r = Inr () \<and> jq_run r = run \<and> jq_status r \<notin> terminal_statuses"

record job_request =
  jn_run :: string
  jn_candidate :: string
  jn_actor :: "string option"
  jn_tenant :: "string option"

text \<open>The part the three operations share; \<open>job\<close> is the random identifier.\<close>

definition create_job :: "sha \<Rightarrow> int \<Rightarrow> string \<Rightarrow> job_request \<Rightarrow> job_kind \<Rightarrow> string \<Rightarrow> int \<Rightarrow> string \<Rightarrow> (string \<times> string) option \<Rightarrow>
    job_store \<Rightarrow> (job_record \<times> job_store) result" where
  "create_job sha tm job q kind transport total_count request model js =
     raise_if (list_ex (\<lambda>(i, r). active_for (jn_run q) r) (js_records js)) ''run already has an active qualification job''
     (raise_if (\<not> job_id_ok job) ''invalid qualification job id''
      (let model_sha = map_option (\<lambda>(name, bytes). sha bytes) model in
       bindE (qualification_input_sha sha 3 kind (jn_run q) (Some (jn_candidate q)) (sha request) model_sha) (\<lambda>input.
       let r = \<lparr>jq_schema = 3, jq_id = job, jq_broker_id = job, jq_run = jn_run q, jq_candidate = Some (jn_candidate q),
             jq_kind = kind, jq_transport = transport, jq_status = QUEUED, jq_model_filename = map_option fst model,
             jq_model_sha = model_sha, jq_request_sha = sha request, jq_input_sha = input, jq_created = tm, jq_updated = tm,
             jq_started = None, jq_completed = None, jq_heartbeat = None, jq_lease = None, jq_worker = None,
             jq_actor = jn_actor q, jq_tenant = jn_tenant q,
             jq_progress = \<lparr>pg_phase = ''queued'', pg_completed = 0, pg_total = total_count, pg_percent = Fin 0\<rparr>,
             jq_cancellation = False, jq_error = None, jq_result = None, jq_passed = None\<rparr> in
       bindE (validate_job r) (\<lambda>_.
       if job \<in> set (map fst (js_records js)) then Inl (OSError ''directory not empty'')
       else Inr (r, js\<lparr>js_records := AList.update job r (js_records js),
              js_requests := AList.update job request (js_requests js),
              js_models := (case model of None \<Rightarrow> js_models js | Some (name, bytes) \<Rightarrow> AList.update job bytes (js_models js))\<rparr>)))))"

section \<open>Submitting\<close>

record alfalfa_payload =
  pa_oracles :: "string list"
  pa_steps :: int
  pa_step_seconds :: pyfloat
  pa_transport :: string

record boptest_payload =
  pb_oracles :: "string list"
  pb_steps :: "int option"
  pb_step_seconds :: "pyfloat option"
  pb_start_time :: pyfloat
  pb_warmup_period :: pyfloat
  pb_scenario :: "string option option"
  pb_cases :: "(string \<times> int) list"

record shadow_payload =
  ps_policy :: string
  ps_kernel_backend :: string
  ps_band_set :: string

definition seconds_ok :: "pyfloat \<Rightarrow> bool" where
  "seconds_ok x \<longleftrightarrow> fisfinite x \<and> fless (Fin 0) x \<and> fle x (Fin 86400)"

definition steps_ok :: "int \<Rightarrow> bool" where
  "steps_ok n \<longleftrightarrow> 1 \<le> n \<and> n \<le> 100000"

definition alfalfa_payload_ok :: "alfalfa_payload \<Rightarrow> bool" where
  "alfalfa_payload_ok p \<longleftrightarrow> 1 \<le> length (pa_oracles p) \<and> length (pa_oracles p) \<le> 1000 \<and> steps_ok (pa_steps p)
     \<and> seconds_ok (pa_step_seconds p) \<and> pa_transport p \<in> {''direct'', ''bacnet_ip_loopback''}"

definition boptest_fields_ok :: "boptest_payload \<Rightarrow> bool" where
  "boptest_fields_ok p \<longleftrightarrow> length (pb_oracles p) \<le> 1000 \<and> pred_option steps_ok (pb_steps p)
     \<and> pred_option seconds_ok (pb_step_seconds p) \<and> fisfinite (pb_start_time p) \<and> fle (Fin 0) (pb_start_time p)
     \<and> fisfinite (pb_warmup_period p) \<and> fle (Fin 0) (pb_warmup_period p) \<and> length (pb_cases p) \<le> 50"

definition shadow_payload_ok :: "shadow_payload \<Rightarrow> bool" where
  "shadow_payload_ok p \<longleftrightarrow> 1 \<le> length (ps_policy p) \<and> length (ps_policy p) \<le> 64
     \<and> ps_kernel_backend p \<in> {''auto'', ''python'', ''jvm''} \<and> ps_band_set p \<in> {''default'', ''coarse''}"

definition valid_qualification_mode :: "boptest_payload \<Rightarrow> unit result" where
  "valid_qualification_mode p =
     (let timed = (\<not> feq (pb_start_time p) (Fin 0) \<or> \<not> feq (pb_warmup_period p) (Fin 0)) in
      if pb_cases p \<noteq> [] then
        raise_if (pb_oracles p \<noteq> [] \<or> pb_steps p \<noteq> None \<or> pb_step_seconds p \<noteq> None \<or> timed \<or> pb_scenario p \<noteq> None)
          ''BOPTEST suite cases cannot be combined with legacy single-run fields''
       (raise_if (has_duplicates (map fst (pb_cases p))) ''BOPTEST qualification case ids must be unique''
       (raise_if (1000000 < sum_list (map snd (pb_cases p))) ''BOPTEST qualification suites cannot exceed 1000000 steps'' okE))
      else
        raise_if (pb_oracles p = [] \<or> pb_steps p = None \<or> pb_step_seconds p = None)
          ''BOPTEST qualification requires either cases or single-run oracles, steps, and step_seconds''
       (raise_if (has_duplicates (pb_oracles p)) ''BOPTEST trajectory oracle ids must be unique''
       (raise_if ((case pb_scenario p of Some (Some _) \<Rightarrow> timed | _ \<Rightarrow> False))
          ''named BOPTEST time periods cannot be combined with explicit start or warmup'' okE)))"

definition total_steps :: "boptest_payload \<Rightarrow> int result" where
  "total_steps p =
     (if pb_cases p \<noteq> [] then Inr (sum_list (map snd (pb_cases p)))
      else case pb_steps p of None \<Rightarrow> Inl (ValueError ''single-run BOPTEST payload has no step count'') | Some n \<Rightarrow> Inr n)"

text \<open>\<open>Path(name).name\<close>\<close>

definition path_name :: "string \<Rightarrow> string" where
  "path_name s = (case rev (path_of s) of [] \<Rightarrow> [] | c # _ \<Rightarrow> c)"

definition has_suffix :: "string \<Rightarrow> string \<Rightarrow> bool" where
  "has_suffix suffix s \<longleftrightarrow> take (length suffix) (rev s) = rev suffix"

definition create_alfalfa :: "sha \<Rightarrow> (alfalfa_payload \<Rightarrow> string) \<Rightarrow> int \<Rightarrow> string \<Rightarrow> job_request \<Rightarrow> alfalfa_payload \<Rightarrow>
    string \<Rightarrow> string \<Rightarrow> job_store \<Rightarrow> (job_record \<times> job_store) result" where
  "create_alfalfa sha encode tm job q p model_bytes filename js =
     raise_if (\<not> is_alnum (jn_run q)) ''invalid run id''
    (raise_if (model_bytes = []) ''Alfalfa FMU is empty''
    (raise_if (512 * 1024 * 1024 < length model_bytes) ''Alfalfa FMU exceeds the limit''
    (raise_if (path_name filename \<noteq> filename \<or> \<not> has_suffix ''.fmu'' (map lower filename))
       ''Alfalfa model filename must be a basename ending in .fmu''
      (create_job sha tm job q AlfalfaJob (pa_transport p) (pa_steps p) (encode p) (Some (filename, model_bytes)) js))))"

definition create_boptest :: "sha \<Rightarrow> (boptest_payload \<Rightarrow> string) \<Rightarrow> int \<Rightarrow> string \<Rightarrow> job_request \<Rightarrow> boptest_payload \<Rightarrow>
    job_store \<Rightarrow> (job_record \<times> job_store) result" where
  "create_boptest sha encode tm job q p js =
     raise_if (\<not> is_alnum (jn_run q)) ''invalid run id''
      (bindE (total_steps p) (\<lambda>total_count.
       create_job sha tm job q BoptestJob ''boptest_rest'' total_count (encode p) None js))"

definition create_shadow :: "sha \<Rightarrow> (shadow_payload \<Rightarrow> string) \<Rightarrow> int \<Rightarrow> string \<Rightarrow> job_request \<Rightarrow> shadow_payload \<Rightarrow> int \<Rightarrow>
    job_store \<Rightarrow> (job_record \<times> job_store) result" where
  "create_shadow sha encode tm job q p total_count js =
     raise_if (\<not> is_alnum (jn_run q)) ''invalid run id''
      (create_job sha tm job q ShadowJob ''shadow_runtime'' total_count (encode p) None js)"

section \<open>Running\<close>

text \<open>Every operation reads one record and returns it as it is, or saves another.\<close>

definition update_job :: "sha \<Rightarrow> int \<Rightarrow> string \<Rightarrow> (job_record \<Rightarrow> job_record option result) \<Rightarrow> job_store \<Rightarrow>
    (job_record \<times> job_store) result" where
  "update_job sha tm i change js =
     bindE (read_job sha js i) (\<lambda>r. bindE (change r) (\<lambda>r'. case r' of
         None \<Rightarrow> Inr (r, js)
       | Some r' \<Rightarrow> Inr (save_job tm r' js)))"

definition lease_micros :: int where
  "lease_micros = 300 * 1000000"

definition in_phase :: "string \<Rightarrow> job_record \<Rightarrow> job_progress" where
  "in_phase phase r = (jq_progress r)\<lparr>pg_phase := phase\<rparr>"

definition mark_running :: "int \<Rightarrow> string \<Rightarrow> job_record \<Rightarrow> job_record option result" where
  "mark_running tm worker r =
     (if jq_status r = CANCELED then Inr None
      else raise_if (jq_status r \<noteq> QUEUED) ''qualification job is not queued''
        (Inr (Some (r\<lparr>jq_status := RUNNING, jq_started := Some tm, jq_heartbeat := Some tm,
           jq_lease := Some (tm + lease_micros), jq_worker := Some worker,
           jq_progress := \<lparr>pg_phase = ''starting'', pg_completed = 0, pg_total = pg_total (jq_progress r),
             pg_percent = Fin 0\<rparr>\<rparr>))))"

definition heartbeat :: "int \<Rightarrow> job_record \<Rightarrow> job_record option result" where
  "heartbeat tm r = Inr (if \<not> working (jq_status r) then None
     else Some (r\<lparr>jq_heartbeat := Some tm, jq_lease := Some (tm + lease_micros)\<rparr>))"

definition expire_stale :: "int \<Rightarrow> job_record \<Rightarrow> job_record option result" where
  "expire_stale observed r = Inr (if \<not> working (jq_status r) then None
     else case jq_lease r of
       None \<Rightarrow> None
     | Some l \<Rightarrow> if observed \<le> l then None
         else Some (r\<lparr>jq_status := JOB_FAILED, jq_completed := Some observed, jq_lease := None,
           jq_error := Some ''Qualification worker lease expired; the worker stopped heartbeating before it recorded a terminal result'',
           jq_progress := in_phase ''worker_lost'' r\<rparr>))"

definition percent_done :: "int \<Rightarrow> int \<Rightarrow> pyfloat result" where
  "percent_done completed total_count =
     (if total_count = 0 then Inr (Fin 0)
      else case rnd (of_int (completed * 100) / of_int total_count) of
             PInf \<Rightarrow> Inl OverflowError | NInf \<Rightarrow> Inl OverflowError | x \<Rightarrow> Inr (fmin (Fin 100) x))"

definition update_progress :: "string \<Rightarrow> int \<Rightarrow> int \<Rightarrow> pyfloat \<Rightarrow> job_record \<Rightarrow> job_record option result" where
  "update_progress phase completed total_count percent r =
     (if \<not> working (jq_status r) then Inr None
      else let p = \<lparr>pg_phase = phase, pg_completed = completed, pg_total = total_count, pg_percent = percent\<rparr> in
        raise_if (\<not> progress_ok p) ''invalid progress'' (Inr (Some (r\<lparr>jq_progress := p\<rparr>))))"

definition request_cancel :: "int \<Rightarrow> job_record \<Rightarrow> job_record option result" where
  "request_cancel tm r = Inr (if jq_status r \<in> terminal_statuses then None
     else if jq_status r = QUEUED
     then Some (r\<lparr>jq_status := CANCELED, jq_cancellation := True, jq_completed := Some tm, jq_lease := None,
            jq_progress := in_phase ''canceled'' r\<rparr>)
     else Some (r\<lparr>jq_status := CANCEL_REQUESTED, jq_cancellation := True, jq_progress := in_phase ''cancel_requested'' r\<rparr>))"

definition mark_canceled :: "int \<Rightarrow> string option \<Rightarrow> job_record \<Rightarrow> job_record option result" where
  "mark_canceled tm detail r = Inr (if jq_status r \<in> {SUCCEEDED, JOB_FAILED} then None
     else Some (r\<lparr>jq_status := CANCELED, jq_cancellation := True, jq_completed := Some tm, jq_lease := None,
            jq_error := detail, jq_progress := in_phase ''canceled'' r\<rparr>))"

definition mark_succeeded :: "int \<Rightarrow> string \<Rightarrow> bool \<Rightarrow> job_record \<Rightarrow> job_record option result" where
  "mark_succeeded tm artifact passed r = Inr (if jq_status r \<in> terminal_statuses then None
     else Some (r\<lparr>jq_status := SUCCEEDED, jq_completed := Some tm, jq_lease := None, jq_result := Some artifact,
            jq_passed := Some passed,
            jq_progress := \<lparr>pg_phase = ''completed'', pg_completed = pg_total (jq_progress r),
              pg_total = pg_total (jq_progress r), pg_percent = Fin 100\<rparr>\<rparr>))"

definition mark_failed :: "int \<Rightarrow> string \<Rightarrow> job_record \<Rightarrow> job_record option result" where
  "mark_failed tm message r = Inr (if jq_status r \<in> terminal_statuses then None
     else Some (r\<lparr>jq_status := JOB_FAILED, jq_completed := Some tm, jq_lease := None,
            jq_error := Some (take 4000 message), jq_progress := in_phase ''failed'' r\<rparr>))"

text \<open>The operations as a data type, so that they can be quantified over.\<close>

datatype job_op =
    Run string
  | Heartbeat
  | Expire int
  | Progress string int int
  | Cancel
  | Canceled "string option"
  | Succeeded string bool
  | Failed string

fun change_of :: "job_op \<Rightarrow> int \<Rightarrow> job_record \<Rightarrow> job_record option result" where
  "change_of (Run worker) tm r = mark_running tm worker r"
| "change_of Heartbeat tm r = heartbeat tm r"
| "change_of (Expire observed) tm r = expire_stale observed r"
| "change_of (Progress phase done_steps total_count) tm r =
     bindE (percent_done done_steps total_count) (\<lambda>p. update_progress phase done_steps total_count p r)"
| "change_of Cancel tm r = request_cancel tm r"
| "change_of (Canceled detail) tm r = mark_canceled tm detail r"
| "change_of (Succeeded artifact passed) tm r = mark_succeeded tm artifact passed r"
| "change_of (Failed message) tm r = mark_failed tm message r"

definition run_op :: "sha \<Rightarrow> int \<Rightarrow> string \<Rightarrow> job_op \<Rightarrow> job_store \<Rightarrow> (job_record \<times> job_store) result" where
  "run_op sha tm i op js =
     bindE (case op of Progress _ c n \<Rightarrow> mapE (\<lambda>_. ()) (percent_done c n) | _ \<Rightarrow> okE) (\<lambda>_.
     update_job sha tm i (change_of op tm) js)"

text \<open>What callers pass: a worker id, a cancellation text and a digest within the declared limits.\<close>

fun op_ok :: "job_op \<Rightarrow> bool" where
  "op_ok (Run worker) = (length worker \<le> 240)"
| "op_ok (Canceled detail) = short 4000 detail"
| "op_ok (Succeeded artifact _) = digest_ok artifact"
| "op_ok _ = True"

end
