(* ===== verification/JobLife.thy ===== *)
theory JobLife
  imports JobQueue
begin

text \<open>
  What the histories of the qualification queue keep: the status machine of a job, one unfinished
  job per run, leases of working jobs, and the binding of a job to its inputs.
\<close>

section \<open>The life of a job\<close>

text \<open>The status machine: a job waits, works and ends, and an ended job stays ended.\<close>

definition job_moves :: "(job_status \<times> job_status) set" where
  "job_moves = {QUEUED} \<times> {RUNNING, CANCELED, SUCCEEDED, JOB_FAILED}
     \<union> {(RUNNING, RUNNING)} \<union> {RUNNING, CANCEL_REQUESTED} \<times> {CANCEL_REQUESTED, CANCELED, SUCCEEDED, JOB_FAILED}
     \<union> {(CANCELED, CANCELED)}"

definition same_identity :: "job_record \<Rightarrow> job_record \<Rightarrow> bool" where
  "same_identity r r' \<longleftrightarrow> jq_schema r' = jq_schema r \<and> jq_id r' = jq_id r \<and> jq_broker_id r' = jq_broker_id r
     \<and> jq_run r' = jq_run r \<and> jq_candidate r' = jq_candidate r \<and> jq_kind r' = jq_kind r
     \<and> jq_transport r' = jq_transport r \<and> jq_model_filename r' = jq_model_filename r \<and> jq_model_sha r' = jq_model_sha r
     \<and> jq_request_sha r' = jq_request_sha r \<and> jq_input_sha r' = jq_input_sha r \<and> jq_actor r' = jq_actor r
     \<and> jq_tenant r' = jq_tenant r"

text \<open>A working job holds a lease.\<close>

definition leased :: "job_record \<Rightarrow> bool" where
  "leased r \<longleftrightarrow> (working (jq_status r) \<longrightarrow> jq_lease r \<noteq> None)"

lemmas op_defs = mark_running_def heartbeat_def expire_stale_def update_progress_def request_cancel_def
  mark_canceled_def mark_succeeded_def mark_failed_def

lemma change_of_identity: "change_of op tm r = Inr (Some r') \<Longrightarrow> same_identity r r'"
  by (cases op) (auto simp: op_defs same_identity_def bindE_eq_Inr raise_if_eq_Inr Let_def split: if_splits option.splits)

lemma change_of_moves: "change_of op tm r = Inr (Some r') \<Longrightarrow> (jq_status r, jq_status r') \<in> job_moves"
  by (cases op; cases "jq_status r")
    (auto simp: op_defs job_moves_def working_def terminal_statuses_def bindE_eq_Inr raise_if_eq_Inr Let_def
      split: if_splits option.splits)

lemma change_of_leased: "change_of op tm r = Inr (Some r') \<Longrightarrow> leased r \<Longrightarrow> leased r'"
  by (cases op; cases "jq_status r")
    (auto simp: op_defs leased_def working_def terminal_statuses_def bindE_eq_Inr raise_if_eq_Inr Let_def
      split: if_splits option.splits)

lemma change_of_ended: "change_of op tm r = Inr x \<Longrightarrow> jq_status r \<in> {SUCCEEDED, JOB_FAILED} \<Longrightarrow> x = None"
  by (cases op) (auto simp: op_defs working_def terminal_statuses_def bindE_eq_Inr raise_if_eq_Inr split: if_splits)

lemma progress_phases:
  assumes "progress_ok p"
  shows "1 \<le> length s \<Longrightarrow> length s \<le> 120 \<Longrightarrow> progress_ok (p\<lparr>pg_phase := s\<rparr>)"
    and "1 \<le> length s \<Longrightarrow> length s \<le> 120 \<Longrightarrow>
      progress_ok \<lparr>pg_phase = s, pg_completed = 0, pg_total = pg_total p, pg_percent = Fin 0\<rparr>"
    and "1 \<le> length s \<Longrightarrow> length s \<le> 120 \<Longrightarrow>
      progress_ok \<lparr>pg_phase = s, pg_completed = pg_total p, pg_total = pg_total p, pg_percent = Fin 100\<rparr>"
  using assms by (auto simp: progress_ok_def)

lemma change_of_progress: "change_of op tm r = Inr (Some r') \<Longrightarrow> progress_ok (jq_progress r) \<Longrightarrow> progress_ok (jq_progress r')"
  by (cases op)
    (auto simp: op_defs in_phase_def bindE_eq_Inr raise_if_eq_Inr Let_def progress_phases split: if_splits option.splits)

lemma change_of_texts:
  "change_of op tm r = Inr (Some r') \<Longrightarrow> op_ok op \<Longrightarrow> short 240 (jq_worker r) \<and> short 4000 (jq_error r)
     \<and> pred_option digest_ok (jq_result r) \<Longrightarrow>
   short 240 (jq_worker r') \<and> short 4000 (jq_error r') \<and> pred_option digest_ok (jq_result r')"
  by (cases op) (auto simp: op_defs short_def bindE_eq_Inr raise_if_eq_Inr Let_def split: if_splits option.splits)

lemma validate_job_Inr: "validate_job r = Inr () \<longleftrightarrow> fields_ok r \<and> valid_kind_contract r = Inr ()"
  by (simp add: validate_job_def raise_if_eq_Inr)

lemma same_identity_contract: "same_identity r r' \<Longrightarrow> valid_kind_contract r' = valid_kind_contract r"
  by (cases "jq_kind r") (simp_all add: same_identity_def valid_kind_contract_def)

lemma change_of_valid:
  assumes "change_of op tm r = Inr (Some r')" and "op_ok op" and "validate_job r = Inr ()"
  shows "validate_job r' = Inr ()"
proof -
  note same = change_of_identity [OF assms(1)]
  have r: "fields_ok r" "valid_kind_contract r = Inr ()" using assms(3) by (simp_all add: validate_job_Inr)
  have "progress_ok (jq_progress r')" using change_of_progress [OF assms(1)] r(1) by (simp add: fields_ok_def)
  moreover have "short 240 (jq_worker r') \<and> short 4000 (jq_error r') \<and> pred_option digest_ok (jq_result r')"
    using change_of_texts [OF assms(1,2)] r(1) by (simp add: fields_ok_def)
  ultimately have "fields_ok r'" using same r(1) unfolding fields_ok_def same_identity_def by (elim conjE) (simp only: simp_thms)
  then show ?thesis using same_identity_contract [OF same] r(2) by (simp add: validate_job_Inr)
qed

section \<open>What every history of the queue keeps\<close>

inductive job_step :: "sha \<Rightarrow> job_store \<Rightarrow> job_store \<Rightarrow> bool" for sha where
  submit_alfalfa: "create_alfalfa sha enc_a tm job q pa model_bytes filename js = Inr (r, js') \<Longrightarrow> job_step sha js js'"
| submit_boptest: "create_boptest sha enc_b tm job q pb js = Inr (r, js') \<Longrightarrow> job_step sha js js'"
| submit_shadow: "create_shadow sha enc_s tm job q ps n js = Inr (r, js') \<Longrightarrow> job_step sha js js'"
| operate: "op_ok op \<Longrightarrow> run_op sha tm i op js = Inr (r, js') \<Longrightarrow> job_step sha js js'"
| disturb: "job_step sha js (js\<lparr>js_requests := requests, js_models := models\<rparr>)"

definition recorded :: "sha \<Rightarrow> string \<Rightarrow> job_record \<Rightarrow> bool" where
  "recorded sha i r \<longleftrightarrow> jq_id r = i \<and> validate_job r = Inr () \<and> leased r
     \<and> qualification_input_sha sha (jq_schema r) (jq_kind r) (jq_run r) (jq_candidate r) (jq_request_sha r) (jq_model_sha r)
         = Inr (jq_input_sha r)"

definition active :: "job_record \<Rightarrow> bool" where
  "active r \<longleftrightarrow> jq_status r \<notin> terminal_statuses"

definition queue_inv :: "sha \<Rightarrow> job_store \<Rightarrow> bool" where
  "queue_inv sha js \<longleftrightarrow> distinct (map fst (js_records js))
     \<and> (\<forall>i r. map_of (js_records js) i = Some r \<longrightarrow> recorded sha i r)
     \<and> (\<forall>i j r s. map_of (js_records js) i = Some r \<longrightarrow> map_of (js_records js) j = Some s \<longrightarrow>
          active r \<longrightarrow> active s \<longrightarrow> jq_run r = jq_run s \<longrightarrow> i = j)"

lemma create_job_Inr:
  assumes "create_job sha tm job q kind transport n request model js = Inr (r, js')"
  shows "\<not> list_ex (\<lambda>(i, r). active_for (jn_run q) r) (js_records js) \<and> job \<notin> set (map fst (js_records js))
     \<and> js_records js' = AList.update job r (js_records js) \<and> recorded sha job r \<and> jq_run r = jn_run q \<and> jq_status r = QUEUED"
  using assms
  by (auto simp: create_job_def raise_if_eq_Inr bindE_eq_Inr Let_def recorded_def leased_def working_def split: if_splits)

lemma create_alfalfa_Inr: "create_alfalfa sha enc tm job q p model_bytes filename js = Inr x \<Longrightarrow>
    create_job sha tm job q AlfalfaJob (pa_transport p) (pa_steps p) (enc p) (Some (filename, model_bytes)) js = Inr x"
  by (simp add: create_alfalfa_def raise_if_eq_Inr)

lemma create_boptest_Inr: "create_boptest sha enc tm job q p js = Inr x \<Longrightarrow>
    \<exists>n. create_job sha tm job q BoptestJob ''boptest_rest'' n (enc p) None js = Inr x"
  by (auto simp: create_boptest_def raise_if_eq_Inr bindE_eq_Inr)

lemma create_shadow_Inr: "create_shadow sha enc tm job q p n js = Inr x \<Longrightarrow>
    create_job sha tm job q ShadowJob ''shadow_runtime'' n (enc p) None js = Inr x"
  by (simp add: create_shadow_def raise_if_eq_Inr)

lemma read_job_Inr: "read_job sha js i = Inr r \<Longrightarrow> map_of (js_records js) i = Some r"
  by (auto simp: read_job_def raise_if_eq_Inr bindE_eq_Inr split: option.splits if_splits)

lemma run_op_Inr:
  assumes "run_op sha tm i op js = Inr (r', js')"
  obtains r where "read_job sha js i = Inr r" "r' = r" "js' = js" "change_of op tm r = Inr None"
  | r r1 where "read_job sha js i = Inr r" "change_of op tm r = Inr (Some r1)" "r' = r1\<lparr>jq_updated := tm\<rparr>"
      "js' = js\<lparr>js_records := AList.update (jq_id r1) r' (js_records js)\<rparr>"
proof -
  obtain r x where r: "read_job sha js i = Inr r" "change_of op tm r = Inr x"
    "(case x of None \<Rightarrow> Inr (r, js) | Some r1 \<Rightarrow> Inr (save_job tm r1 js)) = (Inr (r', js') :: (job_record \<times> job_store) result)"
    using assms unfolding run_op_def update_job_def bindE_eq_Inr by (elim exE conjE) (rule that)
  then show thesis
    by (cases x) (simp_all add: that save_job_def Let_def, use that(2) [OF r(1)] in blast)
qed

lemma recorded_updated: "recorded sha i (r\<lparr>jq_updated := tm\<rparr>) = recorded sha i r"
proof -
  have "fields_ok (r\<lparr>jq_updated := tm\<rparr>) = fields_ok r" by (simp add: fields_ok_def)
  moreover have "valid_kind_contract (r\<lparr>jq_updated := tm\<rparr>) = valid_kind_contract r"
    by (rule same_identity_contract) (simp add: same_identity_def)
  ultimately show ?thesis by (simp add: recorded_def leased_def validate_job_def)
qed

lemma change_of_recorded:
  assumes "change_of op tm r = Inr (Some r')" and "op_ok op" and "recorded sha i r"
  shows "recorded sha i (r'\<lparr>jq_updated := tm'\<rparr>)"
  unfolding recorded_updated
  using change_of_identity [OF assms(1)] change_of_valid [OF assms(1,2)] change_of_leased [OF assms(1)] assms(3)
  by (simp add: recorded_def same_identity_def)

lemma active_for_iff: "recorded sha i r \<Longrightarrow> active_for run r \<longleftrightarrow> active r \<and> jq_run r = run"
  by (auto simp: active_for_def active_def recorded_def)

lemma queue_inv_update:
  assumes "queue_inv sha js" and "recorded sha i r" and "js_records js' = AList.update i r (js_records js)"
    and idle: "\<And>j s. j \<noteq> i \<Longrightarrow> map_of (js_records js) j = Some s \<Longrightarrow> active r \<Longrightarrow> active s \<Longrightarrow> jq_run s \<noteq> jq_run r"
  shows "queue_inv sha js'"
proof -
  have "distinct (map fst (js_records js'))" using assms(1,3) by (simp add: queue_inv_def distinct_update)
  moreover have m: "map_of (js_records js') = (map_of (js_records js))(i \<mapsto> r)" by (simp add: assms(3) update_conv')
  moreover have "\<forall>k s. map_of (js_records js) k = Some s \<longrightarrow> recorded sha k s"
    "\<forall>k j r s. map_of (js_records js) k = Some r \<longrightarrow> map_of (js_records js) j = Some s \<longrightarrow>
          active r \<longrightarrow> active s \<longrightarrow> jq_run r = jq_run s \<longrightarrow> k = j"
    using assms(1) unfolding queue_inv_def by blast+
  ultimately show ?thesis
    using assms(2) idle unfolding queue_inv_def m by (auto split: if_splits) metis+
qed

lemma queue_inv_create:
  assumes "create_job sha tm job q kind transport n request model js = Inr (r, js')" and "queue_inv sha js"
  shows "queue_inv sha js'"
proof -
  note c = create_job_Inr [OF assms(1)]
  show ?thesis
  proof (rule queue_inv_update [OF assms(2)])
    fix j s assume *: "map_of (js_records js) j = Some s" "active s"
    have "recorded sha j s" using assms(2) *(1) unfolding queue_inv_def by blast
    moreover have "\<not> active_for (jn_run q) s" using c map_of_SomeD [OF *(1)] by (force simp: list_ex_iff)
    ultimately show "jq_run s \<noteq> jq_run r" using c *(2) active_for_iff by fastforce
  qed (use c in simp_all)
qed

lemma queue_inv_op:
  assumes "run_op sha tm i op js = Inr (r, js')" and "op_ok op" and "queue_inv sha js"
  shows "queue_inv sha js'"
  using assms(1)
proof (rule run_op_Inr)
  fix r0 r1
  assume *: "read_job sha js i = Inr r0" "change_of op tm r0 = Inr (Some r1)" "r = r1\<lparr>jq_updated := tm\<rparr>"
    "js' = js\<lparr>js_records := AList.update (jq_id r1) r (js_records js)\<rparr>"
  have r0: "map_of (js_records js) i = Some r0" using read_job_Inr [OF *(1)] .
  then have rec: "recorded sha i r0" using assms(3) unfolding queue_inv_def by blast
  have r: "recorded sha i r" using change_of_recorded [OF *(2) assms(2) rec] *(3) by simp
  have r1: "jq_id r1 = i" "jq_run r = jq_run r0" "active r \<Longrightarrow> active r0"
    using change_of_identity [OF *(2)] rec change_of_moves [OF *(2)] *(3)
    by (auto simp: same_identity_def recorded_def active_def terminal_statuses_def job_moves_def)
  show ?thesis
  proof (rule queue_inv_update [OF assms(3) r])
    show "js_records js' = AList.update i r (js_records js)" by (simp add: *(4) r1(1))
    fix j s assume "j \<noteq> i" "map_of (js_records js) j = Some s" "active r" "active s"
    then show "jq_run s \<noteq> jq_run r" using r0 r1(2,3) assms(3) unfolding queue_inv_def by metis
  qed
qed (use assms(3) in simp)

lemma queue_inv_step: "job_step sha js js' \<Longrightarrow> queue_inv sha js \<Longrightarrow> queue_inv sha js'"
proof (induction rule: job_step.cases)
  case submit_alfalfa
  then show ?case by (metis create_alfalfa_Inr queue_inv_create)
next
  case submit_boptest
  then show ?case by (metis create_boptest_Inr queue_inv_create)
next
  case submit_shadow
  then show ?case by (metis create_shadow_Inr queue_inv_create)
next
  case operate
  then show ?case using queue_inv_op by blast
qed (simp add: queue_inv_def)

definition empty_queue :: "job_store \<Rightarrow> bool" where
  "empty_queue js \<longleftrightarrow> js_records js = []"

lemma queue_inv_reach:
  assumes "empty_queue js0" and "(job_step sha)\<^sup>*\<^sup>* js0 js"
  shows "queue_inv sha js"
  using assms(2)
proof (induction rule: rtranclp_induct)
  case base
  then show ?case using assms(1) by (simp add: queue_inv_def empty_queue_def)
qed (rule queue_inv_step)

text \<open>C13: a run has at most one unfinished qualification job.  However jobs are submitted, run,
  cancelled, expired and finished, two stored jobs for the same run that are both waiting or
  working are the same job.\<close>

theorem one_active_job_per_run:
  assumes "empty_queue js0" and "(job_step sha)\<^sup>*\<^sup>* js0 js"
    and "map_of (js_records js) i = Some r" and "map_of (js_records js) j = Some s"
    and "jq_run r = jq_run s" and "jq_status r \<notin> terminal_statuses" and "jq_status s \<notin> terminal_statuses"
  shows "i = j"
  using queue_inv_reach [OF assms(1,2)] assms(3-7) unfolding queue_inv_def active_def by blast

lemma same_identity_refl: "same_identity r r"
  by (simp add: same_identity_def)

lemma same_identity_trans: "same_identity r s \<Longrightarrow> same_identity s t \<Longrightarrow> same_identity r t"
  by (simp add: same_identity_def)

text \<open>What one step can do to a stored job.\<close>

definition moved :: "job_record \<Rightarrow> job_record \<Rightarrow> bool" where
  "moved r r' \<longleftrightarrow> same_identity r r' \<and> (r' = r \<or> (jq_status r, jq_status r') \<in> job_moves)
     \<and> (jq_status r \<in> {SUCCEEDED, JOB_FAILED} \<longrightarrow> r' = r)"

lemma moved_refl: "moved r r"
  by (simp add: moved_def same_identity_refl)

lemma create_keeps:
  assumes "create_job sha tm job q kind transport n request model js = Inr (s, js')" and "map_of (js_records js) i = Some r"
  shows "map_of (js_records js') i = Some r"
proof -
  have "i \<noteq> job" using create_job_Inr [OF assms(1)] assms(2) by (metis domI dom_map_of_conv_image_fst list.set_map)
  then show ?thesis using create_job_Inr [OF assms(1)] assms(2) by (simp add: update_conv')
qed

lemma job_step_moves:
  assumes "job_step sha js js'" and "queue_inv sha js" and "map_of (js_records js) i = Some r"
  shows "\<exists>r'. map_of (js_records js') i = Some r' \<and> moved r r'"
  using assms(1)
proof cases
  case submit_alfalfa
  then show ?thesis using create_keeps [OF create_alfalfa_Inr assms(3)] moved_refl by blast
next
  case submit_boptest
  then show ?thesis using create_boptest_Inr create_keeps [OF _ assms(3)] moved_refl by metis
next
  case submit_shadow
  then show ?thesis using create_keeps [OF create_shadow_Inr assms(3)] moved_refl by blast
next
  case (operate op tm j s)
  from operate(2) show ?thesis
  proof (rule run_op_Inr)
    fix r0 r1
    assume *: "read_job sha js j = Inr r0" "change_of op tm r0 = Inr (Some r1)" "s = r1\<lparr>jq_updated := tm\<rparr>"
      "js' = js\<lparr>js_records := AList.update (jq_id r1) s (js_records js)\<rparr>"
    note r0 = read_job_Inr [OF *(1)]
    have "recorded sha j r0" using assms(2) r0 unfolding queue_inv_def by blast
    then have id: "jq_id r1 = j" using change_of_identity [OF *(2)] by (simp add: same_identity_def recorded_def)
    have "moved r0 s"
      using change_of_identity [OF *(2)] change_of_moves [OF *(2)] change_of_ended [OF *(2)] *(3)
      by (auto simp: moved_def same_identity_def)
    then show ?thesis
      using r0 assms(3) moved_refl [of r] by (cases "i = j") (simp_all add: *(4) id update_conv')
  qed (use assms(3) moved_refl in auto)
next
  case disturb
  then show ?thesis using assms(3) moved_refl by auto
qed

text \<open>C14: a finished qualification job stays finished.  A cancelled, succeeded or failed job keeps its
  status and its identity for ever, whatever a late worker, a late heartbeat or a late
  cancellation does, and the record of a succeeded or failed job never changes at all.\<close>

theorem finished_jobs_stay_finished:
  assumes "empty_queue js0" and "(job_step sha)\<^sup>*\<^sup>* js0 js" and "map_of (js_records js) i = Some r"
    and "jq_status r \<in> terminal_statuses" and "(job_step sha)\<^sup>*\<^sup>* js js'"
  shows "\<exists>r'. map_of (js_records js') i = Some r' \<and> jq_status r' = jq_status r \<and> same_identity r r'
    \<and> (jq_status r \<noteq> CANCELED \<longrightarrow> r' = r)"
  using assms(5)
proof (induction rule: rtranclp_induct)
  case base
  then show ?case using assms(3) same_identity_refl by auto
next
  case (step js' js'')
  then obtain r' where r': "map_of (js_records js') i = Some r'" "jq_status r' = jq_status r" "same_identity r r'"
    "jq_status r \<noteq> CANCELED \<longrightarrow> r' = r" by blast
  have "queue_inv sha js'" using step(1) assms(2) by (intro queue_inv_reach [OF assms(1)]) simp
  then obtain r'' where r'': "map_of (js_records js'') i = Some r''" "moved r' r''"
    using job_step_moves [OF step(2) _ r'(1)] by blast
  have "jq_status r'' = jq_status r'" "jq_status r' \<noteq> CANCELED \<longrightarrow> r'' = r'"
    using r''(2) assms(4) r'(2) by (auto simp: moved_def terminal_statuses_def job_moves_def)
  then show ?case
    using r' r'' same_identity_trans [OF r'(3)] by (auto simp: moved_def)
qed

section \<open>A lost worker\<close>

definition expired :: "int \<Rightarrow> job_record \<Rightarrow> job_record" where
  "expired observed r = r\<lparr>jq_status := JOB_FAILED, jq_completed := Some observed, jq_lease := None,
     jq_error := Some ''Qualification worker lease expired; the worker stopped heartbeating before it recorded a terminal result'',
     jq_progress := in_phase ''worker_lost'' r\<rparr>"

lemma expired_simps [simp]:
  "jq_status (expired observed r) = JOB_FAILED" "jq_id (expired observed r) = jq_id r" "same_identity r (expired observed r)"
  by (simp_all add: expired_def same_identity_def)

lemma expire_working:
  assumes "read_job sha js i = Inr r" and "working (jq_status r)" and "jq_lease r = Some l" and "l < observed"
  shows "run_op sha tm i (Expire observed) js = Inr (save_job tm (expired observed r) js)"
proof -
  have "expire_stale observed r = Inr (Some (expired observed r))"
    using assms(2-4) by (simp add: expire_stale_def expired_def)
  then show ?thesis by (simp add: run_op_def update_job_def assms(1) okE_def)
qed

lemma create_job_ready:
  assumes "\<not> list_ex (\<lambda>(i, r). active_for (jn_run q) r) (js_records js)" and "job_id_ok job"
    and "job \<notin> set (map fst (js_records js))" and "is_alnum (jn_run q)" and "\<And>x. digest_ok (sha x)"
    and "digest_ok (jn_candidate q)" and "short 240 (jn_actor q)" and "short 240 (jn_tenant q)" and "0 \<le> n"
  shows "\<exists>r js'. create_shadow sha enc tm job q p n js = Inr (r, js')"
  using assms
  by (simp add: create_shadow_def create_job_def qualification_input_sha_def validate_job_def fields_ok_def
      valid_kind_contract_def progress_ok_def short_def Let_def okE_def fle_def)

lemma no_active:
  assumes "queue_inv sha js" and "\<And>j s. map_of (js_records js) j = Some s \<Longrightarrow> \<not> (active s \<and> jq_run s = run)"
  shows "\<not> list_ex (\<lambda>(i, r). active_for run r) (js_records js)"
proof
  assume "list_ex (\<lambda>(i, r). active_for run r) (js_records js)"
  then obtain j s where s: "(j, s) \<in> set (js_records js)" "active_for run s" by (auto simp: list_ex_iff)
  have "distinct (map fst (js_records js))" using assms(1) by (simp add: queue_inv_def)
  then have j: "map_of (js_records js) j = Some s" using s(1) by (rule map_of_is_SomeI)
  then have "recorded sha j s" using assms(1) unfolding queue_inv_def by blast
  then show False using assms(2) [OF j] s(2) active_for_iff by blast
qed

text \<open>C15: a lost worker does not block its run.  In every history a working job holds a lease; once
  that has run out, asking for the job ends it as failed, and a new qualification of the same run
  is then accepted, whatever else the queue holds.\<close>

theorem lost_worker_unblocks_run:
  assumes "empty_queue js0" and "(job_step sha)\<^sup>*\<^sup>* js0 js" and "read_job sha js i = Inr r" and "working (jq_status r)"
    and "job_id_ok job" and "job \<notin> set (map fst (js_records js))" and "\<And>x. digest_ok (sha x)"
    and "jn_run q = jq_run r" and "digest_ok (jn_candidate q)" and "short 240 (jn_actor q)" and "short 240 (jn_tenant q)"
    and "0 \<le> n"
  shows "\<exists>l. jq_lease r = Some l \<and> (\<forall>observed > l. \<exists>r1 js1 r2 js2. run_op sha tm i (Expire observed) js = Inr (r1, js1)
     \<and> jq_status r1 = JOB_FAILED \<and> create_shadow sha enc tm' job q p n js1 = Inr (r2, js2))"
proof -
  note inv = queue_inv_reach [OF assms(1,2)] note i = read_job_Inr [OF assms(3)]
  have rec: "recorded sha i r" using inv i unfolding queue_inv_def by blast
  then obtain l where l: "jq_lease r = Some l" using assms(4) by (auto simp: recorded_def leased_def)
  have id: "jq_id r = i" "is_alnum (jq_run r)" using rec by (simp_all add: recorded_def validate_job_Inr fields_ok_def)
  have "\<exists>r1 js1 r2 js2. run_op sha tm i (Expire observed) js = Inr (r1, js1)
     \<and> jq_status r1 = JOB_FAILED \<and> create_shadow sha enc tm' job q p n js1 = Inr (r2, js2)" if "l < observed" for observed
  proof -
    obtain r1 js1 where s: "save_job tm (expired observed r) js = (r1, js1)" by fastforce
    then have run: "run_op sha tm i (Expire observed) js = Inr (r1, js1)" and st: "jq_status r1 = JOB_FAILED"
      and recs: "js_records js1 = AList.update i r1 (js_records js)"
      using expire_working [OF assms(3,4) l that] by (auto simp: save_job_def Let_def id)
    have "queue_inv sha js1" using queue_inv_op [OF run _ inv] by simp
    moreover have "\<not> (active s \<and> jq_run s = jq_run r)" if "map_of (js_records js1) j = Some s" for j s
    proof
      assume a: "active s \<and> jq_run s = jq_run r"
      have "j \<noteq> i" using that a st by (auto simp: recs update_conv' active_def terminal_statuses_def)
      moreover have "active r" using assms(4) by (auto simp: active_def working_def terminal_statuses_def)
      moreover have "map_of (js_records js) j = Some s" using that calculation(1) by (simp add: recs update_conv')
      ultimately show False using inv i a unfolding queue_inv_def by metis
    qed
    ultimately have idle: "\<not> list_ex (\<lambda>(i, r). active_for (jn_run q) r) (js_records js1)"
      unfolding assms(8) by (rule no_active)
    have fresh: "job \<notin> set (map fst (js_records js1))"
    proof -
      have "i \<in> set (map fst (js_records js))" using map_of_SomeD [OF i] by force
      then have "set (map fst (js_records js1)) = set (map fst (js_records js))" unfolding recs by (simp add: update_keys)
      then show ?thesis using assms(6) by blast
    qed
    have "\<exists>r2 js2. create_shadow sha enc tm' job q p n js1 = Inr (r2, js2)"
      by (rule create_job_ready [OF idle assms(5) fresh _ assms(7,9-12)]) (simp add: assms(8) id(2))
    then show ?thesis using run st by blast
  qed
  then show ?thesis using l by blast
qed

section \<open>Inputs\<close>

definition input_text :: "job_record \<Rightarrow> string" where
  "input_text r = kind_text (jq_kind r) @ CHR '':'' # jq_run r @ CHR '':'' # or_text [] (jq_candidate r) @ CHR '':''
     # jq_request_sha r @ CHR '':'' # or_text ''-'' (jq_model_sha r)"

lemma input_sha_v3: "jq_schema r = 3 \<Longrightarrow> jq_candidate r = Some c \<Longrightarrow> c \<noteq> [] \<Longrightarrow>
    qualification_input_sha sha (jq_schema r) (jq_kind r) (jq_run r) (jq_candidate r) (jq_request_sha r) (jq_model_sha r)
      = Inr (sha (input_text r))"
  by (simp add: qualification_input_sha_def input_text_def or_text_def)

lemma read_job_recorded:
  assumes "read_job sha js i = Inr r"
  shows "validate_job r = Inr ()" and "check_digest sha (map_of (js_requests js) i) (jq_request_sha r) = Inr ()"
    and "case jq_model_sha r of None \<Rightarrow> True | Some m \<Rightarrow> check_digest sha (map_of (js_models js) i) m = Inr ()"
    and "qualification_input_sha sha (jq_schema r) (jq_kind r) (jq_run r) (jq_candidate r) (jq_request_sha r) (jq_model_sha r)
         = Inr (jq_input_sha r)"
  using assms by (auto simp: read_job_def raise_if_eq_Inr bindE_eq_Inr split: option.splits if_splits)

lemma check_digest_Inr: "check_digest sha content d = Inr () \<longleftrightarrow> (\<exists>c. content = Some c \<and> sha c = d)"
  by (auto simp: check_digest_def okE_def split: option.splits)

lemma digest_no_colon: "digest_ok d \<Longrightarrow> CHR '':'' \<notin> set d \<and> d \<noteq> [] \<and> d \<noteq> ''-''"
proof -
  assume d: "digest_ok d"
  have "\<not> ascii_digit (CHR '':'')" "CHR '':'' \<notin> set ''abcdef''" by code_simp+
  then have "CHR '':'' \<notin> set d" using d by (auto simp: digest_ok_def list_all_iff)
  then show ?thesis using d by (auto simp: digest_ok_def)
qed

lemma alnum_no_colon: "is_alnum s \<Longrightarrow> CHR '':'' \<notin> set s"
proof -
  have "\<not> ascii_digit (CHR '':'')" "\<not> ascii_alpha (CHR '':'')" by code_simp+
  then show "is_alnum s \<Longrightarrow> CHR '':'' \<notin> set s" by (auto simp: is_alnum_def list_all_iff)
qed

lemma kind_no_colon: "CHR '':'' \<notin> set (kind_text k)"
  by (cases k) (simp_all add: kind_text_def)

lemma kind_text_inj: "kind_text k = kind_text k' \<longleftrightarrow> k = k'"
  by (cases k; cases k') (simp_all add: kind_text_def)

lemma input_text_inj:
  assumes "fields_ok r" and "fields_ok r'" and "jq_candidate r \<noteq> None" and "jq_candidate r' \<noteq> None"
    and "input_text r = input_text r'"
  shows "jq_kind r = jq_kind r' \<and> jq_run r = jq_run r' \<and> jq_candidate r = jq_candidate r'
    \<and> jq_request_sha r = jq_request_sha r' \<and> jq_model_sha r = jq_model_sha r'"
proof -
  obtain c c' where c: "jq_candidate r = Some c" "jq_candidate r' = Some c'" using assms(3,4) by blast
  have d: "digest_ok c" "digest_ok c'" "digest_ok (jq_request_sha r)" "digest_ok (jq_request_sha r')"
    "is_alnum (jq_run r)" "is_alnum (jq_run r')" "pred_option digest_ok (jq_model_sha r)" "pred_option digest_ok (jq_model_sha r')"
    using assms(1,2) c by (simp_all add: fields_ok_def)
  have "kind_text (jq_kind r) = kind_text (jq_kind r') \<and> jq_run r = jq_run r' \<and> c = c'
    \<and> jq_request_sha r = jq_request_sha r' \<and> or_text ''-'' (jq_model_sha r) = or_text ''-'' (jq_model_sha r')"
    using assms(5) d digest_no_colon alnum_no_colon kind_no_colon
    by (simp add: input_text_def c or_text_def append_sep_inject)
  moreover have "jq_model_sha r = jq_model_sha r'" if "or_text ''-'' (jq_model_sha r) = or_text ''-'' (jq_model_sha r')"
    using that d(7,8) digest_no_colon
    by (cases "jq_model_sha r"; cases "jq_model_sha r'") (auto simp: or_text_def)
  ultimately show ?thesis by (simp add: kind_text_inj c)
qed

lemma read_job_input:
  assumes "read_job sha js i = Inr r" and "jq_schema r = 3"
  shows "fields_ok r \<and> jq_candidate r \<noteq> None \<and> sha (input_text r) = jq_input_sha r"
proof -
  have f: "fields_ok r" "valid_kind_contract r = Inr ()"
    using read_job_recorded(1) [OF assms(1)] by (simp_all add: validate_job_Inr)
  then obtain c where c: "jq_candidate r = Some c"
    using assms(2) by (auto simp: valid_kind_contract_def raise_if_eq_Inr)
  have "c \<noteq> []" using f(1) digest_no_colon by (auto simp: fields_ok_def c)
  then have "sha (input_text r) = jq_input_sha r"
    using read_job_recorded(4) [OF assms(1)] input_sha_v3 [OF assms(2) c] by (metis Inr_inject)
  then show ?thesis using f(1) c by simp
qed

text \<open>The input digest binds what a worker will run.  Two jobs that can be read and carry the same
  input digest are of the same kind, for the same run and the same candidate digest, with the
  same request and the same model, unless two different texts with the same SHA-256 are at hand.\<close>

theorem job_inputs_bound:
  assumes "read_job sha js i = Inr r" and "read_job sha js' i' = Inr r'" and "jq_schema r = 3" and "jq_schema r' = 3"
    and "jq_input_sha r = jq_input_sha r'"
    and "\<And>x y. (x, y) \<in> {(input_text r, input_text r'), (the (map_of (js_requests js) i), the (map_of (js_requests js') i')),
      (the (map_of (js_models js) i), the (map_of (js_models js') i'))} \<Longrightarrow> sha x = sha y \<Longrightarrow> x = y"
  shows "jq_kind r = jq_kind r' \<and> jq_run r = jq_run r' \<and> jq_candidate r = jq_candidate r'
    \<and> map_of (js_requests js) i = map_of (js_requests js') i'
    \<and> jq_model_sha r = jq_model_sha r' \<and> (jq_model_sha r \<noteq> None \<longrightarrow> map_of (js_models js) i = map_of (js_models js') i')"
proof -
  note r = read_job_input [OF assms(1,3)] and r' = read_job_input [OF assms(2,4)]
  have "sha (input_text r) = sha (input_text r')" using assms(5) r r' by metis
  then have "input_text r = input_text r'" by (rule assms(6) [rotated]) simp
  then have same: "jq_kind r = jq_kind r' \<and> jq_run r = jq_run r' \<and> jq_candidate r = jq_candidate r'
    \<and> jq_request_sha r = jq_request_sha r' \<and> jq_model_sha r = jq_model_sha r'"
    using input_text_inj r r' by blast
  obtain x y where x: "map_of (js_requests js) i = Some x" "sha x = jq_request_sha r"
    and y: "map_of (js_requests js') i' = Some y" "sha y = jq_request_sha r'"
    using read_job_recorded(2) [OF assms(1)] read_job_recorded(2) [OF assms(2)] unfolding check_digest_Inr by blast
  have "sha x = sha y" using x(2) y(2) same by metis
  then have "x = y" by (rule assms(6) [rotated]) (simp add: x(1) y(1))
  then have "map_of (js_requests js) i = map_of (js_requests js') i'" using x(1) y(1) by simp
  moreover have "map_of (js_models js) i = map_of (js_models js') i'" if model: "jq_model_sha r \<noteq> None"
  proof -
    obtain m where m: "jq_model_sha r = Some m" "jq_model_sha r' = Some m" using model same by auto
    obtain x y where x: "map_of (js_models js) i = Some x" "sha x = m" and y: "map_of (js_models js') i' = Some y" "sha y = m"
      using read_job_recorded(3) [OF assms(1)] read_job_recorded(3) [OF assms(2)]
      unfolding m option.case check_digest_Inr by blast
    have "sha x = sha y" using x(2) y(2) by simp
    then have "x = y" by (rule assms(6) [rotated]) (simp add: x(1) y(1))
    then show ?thesis using x(1) y(1) by simp
  qed
  ultimately show ?thesis using same by blast
qed

section \<open>Reading back\<close>

lemma read_job_intro:
  assumes "recorded sha i r" and "map_of (js_records js) i = Some r"
    and "check_digest sha (map_of (js_requests js) i) (jq_request_sha r) = Inr ()"
    and "case jq_model_sha r of None \<Rightarrow> True | Some m \<Rightarrow> check_digest sha (map_of (js_models js) i) m = Inr ()"
  shows "read_job sha js i = Inr r"
proof -
  have "job_id_ok i" using assms(1) by (auto simp: recorded_def validate_job_Inr fields_ok_def)
  then show ?thesis
    using assms by (cases "jq_model_sha r") (simp_all add: read_job_def recorded_def okE_def)
qed

lemma create_job_inputs:
  assumes "create_job sha tm job q kind transport n request model js = Inr (r, js')"
  shows "js_requests js' = AList.update job request (js_requests js) \<and> jq_request_sha r = sha request \<and> jq_schema r = 3
     \<and> jq_kind r = kind \<and> jq_candidate r = Some (jn_candidate q)
     \<and> jq_model_sha r = map_option (\<lambda>(name, bytes). sha bytes) model
     \<and> (case model of None \<Rightarrow> True | Some (name, bytes) \<Rightarrow> js_models js' = AList.update job bytes (js_models js))"
  using assms
  by (auto simp: create_job_def raise_if_eq_Inr bindE_eq_Inr Let_def split: if_splits option.splits)

lemma create_reads:
  assumes "create_job sha tm job q kind transport n request model js = Inr (r, js')"
  shows "read_job sha js' job = Inr r"
  using create_job_Inr [OF assms] create_job_inputs [OF assms]
  by (intro read_job_intro) (auto simp: update_conv' check_digest_Inr split: option.splits)

lemma op_reads:
  assumes "run_op sha tm i op js = Inr (r', js')" and "op_ok op" and "queue_inv sha js"
  shows "read_job sha js' i = Inr r'"
  using assms(1)
proof (rule run_op_Inr)
  fix r0 r1
  assume *: "read_job sha js i = Inr r0" "change_of op tm r0 = Inr (Some r1)" "r' = r1\<lparr>jq_updated := tm\<rparr>"
    "js' = js\<lparr>js_records := AList.update (jq_id r1) r' (js_records js)\<rparr>"
  have rec: "recorded sha i r0" using read_job_Inr [OF *(1)] assms(3) unfolding queue_inv_def by blast
  note same = change_of_identity [OF *(2)]
  have "jq_id r1 = i" "jq_request_sha r' = jq_request_sha r0" "jq_model_sha r' = jq_model_sha r0"
    using same rec *(3) by (simp_all add: same_identity_def recorded_def)
  moreover have "recorded sha i r'" using change_of_recorded [OF *(2) assms(2) rec] *(3) by simp
  ultimately show ?thesis
    using read_job_recorded(2,3) [OF *(1)] by (intro read_job_intro) (simp_all add: *(4) update_conv' cong: option.case_cong)
qed simp

section \<open>Example\<close>

definition zero_sha :: sha where
  "zero_sha s = replicate 64 (CHR ''0'')"

definition sample_job_id :: string where
  "sample_job_id = replicate 32 (CHR ''a'')"

definition other_job_id :: string where
  "other_job_id = replicate 32 (CHR ''b'')"

definition sample_submission :: job_request where
  "sample_submission = \<lparr>jn_run = ''a1'', jn_candidate = replicate 64 (CHR ''0''), jn_actor = None, jn_tenant = None\<rparr>"

definition no_jobs :: job_store where
  "no_jobs = \<lparr>js_records = [], js_requests = [], js_models = []\<rparr>"

definition sample_shadow :: shadow_payload where
  "sample_shadow = \<lparr>ps_policy = ''default'', ps_kernel_backend = ''auto'', ps_band_set = ''default''\<rparr>"

lemma sample_digests:
  "digest_ok (zero_sha s)" "job_id_ok sample_job_id" "job_id_ok other_job_id" "sample_job_id \<noteq> other_job_id"
  "is_alnum (jn_run sample_submission)" "digest_ok (jn_candidate sample_submission)"
  "short 240 (jn_actor sample_submission)" "short 240 (jn_tenant sample_submission)" "empty_queue no_jobs"
  "jn_run sample_submission = ''a1''"
proof -
  have "digest_ok (replicate 64 (CHR ''0''))" by code_simp
  then show "digest_ok (zero_sha s)" "digest_ok (jn_candidate sample_submission)"
    by (simp_all add: zero_sha_def sample_submission_def)
  show "job_id_ok sample_job_id" "job_id_ok other_job_id" "sample_job_id \<noteq> other_job_id" "is_alnum (jn_run sample_submission)"
    by code_simp+
qed (simp_all add: sample_submission_def short_def empty_queue_def no_jobs_def)

lemma sample_submitted:
  "\<exists>r js. (job_step zero_sha)\<^sup>*\<^sup>* no_jobs js \<and> js_records js = [(sample_job_id, r)] \<and> read_job zero_sha js sample_job_id = Inr r
     \<and> jq_run r = jn_run sample_submission \<and> jq_status r = QUEUED \<and> jq_schema r = 3 \<and> jq_kind r = ShadowJob
     \<and> jq_candidate r = Some (jn_candidate sample_submission)"
proof -
  obtain r js where c: "create_shadow zero_sha (\<lambda>p. ''request'') 0 sample_job_id sample_submission sample_shadow 5 no_jobs = Inr (r, js)"
  proof -
    have "\<exists>r js. create_shadow zero_sha (\<lambda>p. ''request'') 0 sample_job_id sample_submission sample_shadow 5 no_jobs = Inr (r, js)"
      by (rule create_job_ready) (simp_all add: no_jobs_def sample_digests(1-8))
    then show thesis using that by blast
  qed
  note c' = create_shadow_Inr [OF c]
  have "js_records js = [(sample_job_id, r)]" using create_job_Inr [OF c'] by (simp add: no_jobs_def)
  moreover have "(job_step zero_sha)\<^sup>*\<^sup>* no_jobs js" by (intro r_into_rtranclp submit_shadow [OF c])
  ultimately show ?thesis
    using create_job_Inr [OF c'] create_reads [OF c'] create_job_inputs [OF c'] by blast
qed

lemma one_active_job_per_run_witness:
  "\<exists>js r. (job_step zero_sha)\<^sup>*\<^sup>* no_jobs js \<and> map_of (js_records js) sample_job_id = Some r \<and> jq_status r = QUEUED
     \<and> (\<forall>j. map_of (js_records js) j = Some r \<longrightarrow> sample_job_id = j)"
proof -
  obtain r js where js: "(job_step zero_sha)\<^sup>*\<^sup>* no_jobs js" "js_records js = [(sample_job_id, r)]" "jq_status r = QUEUED"
    using sample_submitted by blast
  then have r: "map_of (js_records js) sample_job_id = Some r" "jq_status r \<notin> terminal_statuses" by (simp_all add: terminal_statuses_def)
  show ?thesis using one_active_job_per_run [OF sample_digests(9) js(1) r(1) _ refl r(2,2)] js r(1) by blast
qed

lemma finished_jobs_stay_finished_witness:
  "\<exists>js. (job_step zero_sha)\<^sup>*\<^sup>* no_jobs js
     \<and> (\<exists>r. map_of (js_records (js\<lparr>js_requests := [], js_models := []\<rparr>)) sample_job_id = Some r \<and> jq_status r = CANCELED)"
proof -
  obtain r js where js: "(job_step zero_sha)\<^sup>*\<^sup>* no_jobs js" "read_job zero_sha js sample_job_id = Inr r" "jq_status r = QUEUED"
    using sample_submitted by blast
  have inv: "queue_inv zero_sha js" by (rule queue_inv_reach [OF sample_digests(9) js(1)])
  obtain r1 js1 where op: "run_op zero_sha 1 sample_job_id Cancel js = Inr (r1, js1)" "jq_status r1 = CANCELED"
    using js(2,3) by (simp add: run_op_def update_job_def request_cancel_def terminal_statuses_def save_job_def okE_def Let_def)
  have "job_step zero_sha js js1" by (rule operate [OF _ op(1)]) simp
  then have reach: "(job_step zero_sha)\<^sup>*\<^sup>* no_jobs js1" using js(1) by (metis rtranclp.rtrancl_into_rtrancl)
  have r1: "map_of (js_records js1) sample_job_id = Some r1" using op_reads [OF op(1) _ inv] read_job_Inr by simp
  have later: "(job_step zero_sha)\<^sup>*\<^sup>* js1 (js1\<lparr>js_requests := [], js_models := []\<rparr>)" by (intro r_into_rtranclp disturb)
  have "jq_status r1 \<in> terminal_statuses" by (simp add: op(2) terminal_statuses_def)
  from finished_jobs_stay_finished [OF sample_digests(9) reach r1 this later] op(2) reach
  show ?thesis by (intro exI [of _ js1]) auto
qed

lemma sample_running:
  "\<exists>r js0 js. run_op zero_sha 1 sample_job_id (Run ''worker'') js0 = Inr (r, js)
     \<and> (job_step zero_sha)\<^sup>*\<^sup>* no_jobs js \<and> read_job zero_sha js sample_job_id = Inr r \<and> jq_status r = RUNNING
     \<and> jq_run r = jn_run sample_submission \<and> set (map fst (js_records js)) = {sample_job_id}
     \<and> jq_schema r = 3 \<and> jq_kind r = ShadowJob \<and> jq_candidate r = Some (jn_candidate sample_submission)"
proof -
  obtain r js where js: "(job_step zero_sha)\<^sup>*\<^sup>* no_jobs js" "read_job zero_sha js sample_job_id = Inr r" "jq_status r = QUEUED"
    "js_records js = [(sample_job_id, r)]" "jq_run r = jn_run sample_submission"
    "jq_schema r = 3" "jq_kind r = ShadowJob" "jq_candidate r = Some (jn_candidate sample_submission)"
    using sample_submitted by blast
  have inv: "queue_inv zero_sha js" by (rule queue_inv_reach [OF sample_digests(9) js(1)])
  then have id: "jq_id r = sample_job_id" using read_job_Inr [OF js(2)] unfolding queue_inv_def recorded_def by blast
  obtain r1 js1 where op: "run_op zero_sha 1 sample_job_id (Run ''worker'') js = Inr (r1, js1)" "jq_status r1 = RUNNING"
    "same_identity r r1" "js_records js1 = [(sample_job_id, r1)]"
  proof -
    obtain r1 where m: "mark_running 1 ''worker'' r = Inr (Some r1)" using js(3) by (simp add: mark_running_def)
    then have r1: "mark_running 1 ''worker'' r = Inr (Some r1)" "jq_status r1 = RUNNING" "same_identity r r1"
      using change_of_identity [of "Run ''worker''" 1 r r1] js(3)
      by (auto simp: mark_running_def)
    have "run_op zero_sha 1 sample_job_id (Run ''worker'') js = Inr (save_job 1 r1 js)"
      using js(2) r1(1) by (simp add: run_op_def update_job_def okE_def)
    then show thesis using that r1(2,3) js(4) id by (simp add: save_job_def Let_def same_identity_def)
  qed
  have "job_step zero_sha js js1" by (rule operate [OF _ op(1)]) simp
  then have reach: "(job_step zero_sha)\<^sup>*\<^sup>* no_jobs js1" using js(1) by (metis rtranclp.rtrancl_into_rtrancl)
  have "read_job zero_sha js1 sample_job_id = Inr r1" using op_reads [OF op(1) _ inv] by simp
  moreover have "set (map fst (js_records js1)) = {sample_job_id}" using op(4) by simp
  ultimately show ?thesis using op(1-3) reach js(5-8) by (intro exI [of _ r1] exI [of _ js] exI [of _ js1]) (simp add: same_identity_def)
qed

lemma lost_worker_unblocks_run_witness:
  "\<exists>js r l r1 js1 r2 js2. (job_step zero_sha)\<^sup>*\<^sup>* no_jobs js \<and> read_job zero_sha js sample_job_id = Inr r \<and> jq_status r = RUNNING
     \<and> jq_lease r = Some l \<and> run_op zero_sha 2 sample_job_id (Expire (l + 1)) js = Inr (r1, js1) \<and> jq_status r1 = JOB_FAILED
     \<and> create_shadow zero_sha (\<lambda>p. ''request'') 3 other_job_id sample_submission sample_shadow 5 js1 = Inr (r2, js2)"
proof -
  obtain r js where js: "(job_step zero_sha)\<^sup>*\<^sup>* no_jobs js" "read_job zero_sha js sample_job_id = Inr r" "jq_status r = RUNNING"
    "jq_run r = jn_run sample_submission" "set (map fst (js_records js)) = {sample_job_id}"
    using sample_running by blast
  have "working (jq_status r)" "other_job_id \<notin> set (map fst (js_records js))" "(0::int) \<le> 5"
    using js(3,5) sample_digests(4) by (auto simp: working_def)
  from lost_worker_unblocks_run [OF sample_digests(9) js(1,2) this(1) sample_digests(3) this(2) sample_digests(1)
      js(4) [symmetric] sample_digests(6-8) this(3), of 2 "\<lambda>p. ''request''" 3 sample_shadow]
  obtain l where l: "jq_lease r = Some l"
    "\<exists>r1 js1 r2 js2. run_op zero_sha 2 sample_job_id (Expire (l + 1)) js = Inr (r1, js1) \<and> jq_status r1 = JOB_FAILED
       \<and> create_shadow zero_sha (\<lambda>p. ''request'') 3 other_job_id sample_submission sample_shadow 5 js1 = Inr (r2, js2)"
    by auto
  then show ?thesis using js(1-3) by blast
qed

lemma job_inputs_bound_witness:
  "\<exists>js r. read_job zero_sha js sample_job_id = Inr r \<and> jq_schema r = 3
     \<and> map_of (js_requests js) sample_job_id = map_of (js_requests js) sample_job_id \<and> jq_model_sha r = jq_model_sha r"
proof -
  obtain r js where js: "read_job zero_sha js sample_job_id = Inr r" "jq_schema r = 3"
    using sample_submitted by blast
  from job_inputs_bound [OF js(1,1,2,2) refl] js show ?thesis by auto
qed

end
