(* ===== verification/Review.thy ===== *)
theory Review
  imports Lifecycle
begin

text \<open>
  What the reviews of \<open>service.py\<close> guarantee.  Histories in which requests interleave freely:
  an exported target is the one a reviewer approved and the agent's report passed, but a
  qualification that overlaps a decision undoes it.  When qualifications do not overlap
  other requests, the workbench refines a small review machine in which decisions are final.
\<close>

section \<open>Stores of records\<close>

text \<open>What the service needs of a repository: a record that is saved is found under its key, and
  saving it leaves the other keys alone.\<close>

locale record_store =
  fixes lookup :: "'w \<Rightarrow> 'k \<Rightarrow> 'r option"
    and save :: "'r \<Rightarrow> 'w \<Rightarrow> 'w"
    and key :: "'r \<Rightarrow> 'k"
    and admits :: "'w \<Rightarrow> 'r \<Rightarrow> bool"
  assumes lookup_saved: "admits w r \<Longrightarrow> lookup (save r w) (key r) = Some r"
    and lookup_other: "admits w r \<Longrightarrow> k \<noteq> key r \<Longrightarrow> lookup (save r w) k = lookup w k"
begin

lemma lookup_save: "admits w r \<Longrightarrow> lookup (save r w) = (lookup w)(key r \<mapsto> r)"
  using lookup_saved lookup_other by (auto simp: fun_eq_iff)

lemma dom_save: "admits w r \<Longrightarrow> dom (lookup (save r w)) = insert (key r) (dom (lookup w))"
  by (simp add: lookup_save)

lemma save_again:
  assumes "admits w r" and "admits (save r w) r'" and "key r' = key r"
  shows "lookup (save r' (save r w)) = (lookup w)(key r \<mapsto> r')"
  using assms by (simp add: lookup_save)

end

text \<open>The runs of a workbench, under their ids.\<close>

definition find_run :: "workbench \<Rightarrow> string \<Rightarrow> run_record option" where
  "find_run w i = (case get_run w i of Inl _ \<Rightarrow> None | Inr r \<Rightarrow> Some r)"

definition filed :: "workbench \<Rightarrow> run_record \<Rightarrow> bool" where
  "filed w r \<longleftrightarrow> is_alnum (rr_id r) \<and> rr_manifest_path r = manifest_of (wb_root w) (rr_id r)
     \<and> review_state_is_consistent r = Inr ()"

lemma find_run_Some: "find_run w i = Some r \<longleftrightarrow> get_run w i = Inr r"
  by (auto simp: find_run_def split: sum.splits)

lemma find_run_None: "find_run w i = None \<longleftrightarrow> (\<forall>r. get_run w i \<noteq> Inr r)"
  by (auto simp: find_run_def split: sum.splits)

lemma manifest_of_inj [simp]: "manifest_of base i = manifest_of base j \<longleftrightarrow> i = j"
  by (simp add: manifest_of_def)

lemma save_run_simps [simp]:
  "wb_root (save_run r w) = wb_root w" "wb_files (save_run r w) = wb_files w"
  "wb_requirements (save_run r w) = wb_requirements w"
  "map_of (wb_manifests (save_run r w)) = (map_of (wb_manifests w))(rr_manifest_path r \<mapsto> r)"
  by (simp_all add: save_run_def update_conv')

lemma get_saved: "filed w r \<Longrightarrow> get_run (save_run r w) (rr_id r) = Inr r"
  by (simp add: get_run_Inr filed_def)

lemma get_other:
  assumes "filed w r" and "i \<noteq> rr_id r"
  shows "get_run (save_run r w) i = get_run w i"
  using assms by (simp add: get_run_def filed_def split: option.split)

interpretation runs: record_store find_run save_run rr_id filed
proof
  fix w r assume "filed w r"
  then show "find_run (save_run r w) (rr_id r) = Some r" by (simp add: find_run_Some get_saved)
next
  fix w r k assume "filed w r" and "k \<noteq> rr_id r"
  then show "find_run (save_run r w) k = find_run w k" by (simp add: find_run_def get_other)
qed

text \<open>The requirement approvals of the protocol, under sequence id and digest.\<close>

definition find_requirement :: "requirement_approval list \<Rightarrow> string \<times> string \<Rightarrow> requirement_approval option" where
  "find_requirement as k = (case find_approval as (fst k) (snd k) of Inl _ \<Rightarrow> None | Inr a \<Rightarrow> a)"

definition put_requirement :: "requirement_approval \<Rightarrow> requirement_approval list \<Rightarrow> requirement_approval list" where
  "put_requirement a as = (case save_approval a as of Inl _ \<Rightarrow> as | Inr as' \<Rightarrow> as')"

definition new_requirement :: "requirement_approval list \<Rightarrow> requirement_approval \<Rightarrow> bool" where
  "new_requirement as a \<longleftrightarrow> digest_ok (ra_digest a) \<and> (\<exists>as'. save_approval a as = Inr as')"

lemma save_approval_Inr:
  "save_approval a as = Inr as' \<longleftrightarrow> sequence_id_ok (ra_sequence_id a) \<and> as' = as @ [a]
     \<and> (\<forall>b \<in> set as. ra_sequence_id b = ra_sequence_id a \<longrightarrow> ra_digest b \<noteq> ra_digest a)"
  by (auto simp: save_approval_def raise_if_eq_Inr)

lemma find_append: "find P (xs @ ys) = (case find P xs of None \<Rightarrow> find P ys | Some x \<Rightarrow> Some x)"
  by (induction xs) simp_all

interpretation requirements: record_store find_requirement put_requirement "\<lambda>a. (ra_sequence_id a, ra_digest a)" new_requirement
proof
  fix as a assume "new_requirement as a"
  then obtain as' where s: "digest_ok (ra_digest a)" "save_approval a as = Inr as'" by (auto simp: new_requirement_def)
  then have a: "digest_ok (ra_digest a)" "sequence_id_ok (ra_sequence_id a)" "put_requirement a as = as @ [a]"
    "\<forall>b \<in> set as. ra_sequence_id b = ra_sequence_id a \<longrightarrow> ra_digest b \<noteq> ra_digest a"
    using s(2) [unfolded save_approval_Inr] by (simp_all add: put_requirement_def s(2))
  then have "find (\<lambda>b. ra_sequence_id b = ra_sequence_id a \<and> ra_digest b = ra_digest a) as = None"
    by (auto simp: find_None_iff)
  then show "find_requirement (put_requirement a as) (ra_sequence_id a, ra_digest a) = Some a"
    using a by (simp add: find_requirement_def find_approval_def find_append)
  fix k assume "k \<noteq> (ra_sequence_id a, ra_digest a)"
  then have "find (\<lambda>b. ra_sequence_id b = fst k \<and> ra_digest b = snd k) (as @ [a])
      = find (\<lambda>b. ra_sequence_id b = fst k \<and> ra_digest b = snd k) as"
    by (auto simp: find_append prod_eq_iff split: option.split)
  then show "find_requirement (put_requirement a as) k = find_requirement as k"
    by (simp add: find_requirement_def find_approval_def a(3))
qed

section \<open>The review machine\<close>

text \<open>A run is seen as its status with the tiers that have qualified it.\<close>

type_synonym review = "run_status \<times> tier set"

inductive review_step :: "review option \<Rightarrow> review option \<Rightarrow> bool" where
  review_new: "st \<in> {READY_FOR_REVIEW, FAILED} \<Longrightarrow> review_step None (Some (st, {}))"
| review_approve: "review_step (Some (READY_FOR_REVIEW, ts)) (Some (APPROVED, ts))"
| review_reject: "review_step (Some (READY_FOR_REVIEW, ts)) (Some (REJECTED, ts))"
| review_qualify: "t \<notin> ts \<Longrightarrow> st \<in> {READY_FOR_REVIEW, FAILED} \<Longrightarrow>
     review_step (Some (READY_FOR_REVIEW, ts)) (Some (st, insert t ts))"

inductive_cases review_stepE: "review_step (Some (st, ts)) y"

definition review_of :: "workbench \<Rightarrow> string \<Rightarrow> review option" where
  "review_of w i = map_option (\<lambda>r. (rr_status r, {t. tier_path t r \<noteq> None})) (find_run w i)"

text \<open>Requests one after the other: a qualification is one step, during which files may change.\<close>

inductive serial_step :: "services \<Rightarrow> workbench \<Rightarrow> workbench \<Rightarrow> bool" for sv where
  serial_create: "create_run sv q w = Inr (a, r, w') \<Longrightarrow> serial_step sv w w'"
| serial_approve: "approve (sv_sha sv) i who expected w = Inr (r, w') \<Longrightarrow> serial_step sv w w'"
| serial_reject: "reject (sv_sha sv) i who reason w = Inr (r, w') \<Longrightarrow> serial_step sv w w'"
| serial_qualify: "qualify_begin (sv_sha sv) q i expected w = Inr r \<Longrightarrow>
     qualify_finish (sv_sha sv) (tier_of q) r staged passed (w\<lparr>wb_files := files\<rparr>) = Inr (r', w') \<Longrightarrow> serial_step sv w w'"
| serial_change: "serial_step sv w (w\<lparr>wb_files := files, wb_requirements := requirements\<rparr>)"

text \<open>Every manifest is a consistent record, filed under its own id.\<close>

definition kept :: "workbench \<Rightarrow> bool" where
  "kept w \<longleftrightarrow> (\<forall>k r. map_of (wb_manifests w) k = Some r \<longrightarrow> k = rr_manifest_path r \<and> filed w r)"

lemma filed_files [simp]:
  "filed (w\<lparr>wb_files := files\<rparr>) r = filed w r"
  "filed (w\<lparr>wb_files := files, wb_requirements := requirements\<rparr>) r = filed w r"
  "filed (save_run r' w) r = filed w r"
  by (simp_all add: filed_def)

lemma kept_files [simp]:
  "kept (w\<lparr>wb_files := files\<rparr>) = kept w"
  "kept (w\<lparr>wb_files := files, wb_requirements := requirements\<rparr>) = kept w"
  by (simp_all add: kept_def)

lemma find_run_files [simp]:
  "find_run (w\<lparr>wb_files := files\<rparr>) = find_run w"
  "find_run (w\<lparr>wb_files := files, wb_requirements := requirements\<rparr>) = find_run w"
  by (simp_all add: find_run_def get_run_def fun_eq_iff)

lemma kept_save: "kept w \<Longrightarrow> filed w r \<Longrightarrow> kept (save_run r w)"
  by (auto simp: kept_def split: if_splits)

lemma kept_get:
  assumes "kept w" and "get_run w i = Inr r"
  shows "filed w r \<and> rr_id r = i"
proof -
  from assms have "manifest_of (wb_root w) i = rr_manifest_path r" "filed w r" unfolding kept_def get_run_Inr by blast+
  then show ?thesis by (simp add: filed_def)
qed

lemma decided_tier:
  "tier_path t (r\<lparr>rr_status := st, rr_approval := a\<rparr>) = tier_path t r"
  "tier_path t (r\<lparr>rr_status := st, rr_rejection := j\<rparr>) = tier_path t r"
  by (simp_all add: tier_path_def split: tier.split)

lemma decided_filed:
  assumes "filed w r" and "rr_status r = READY_FOR_REVIEW"
  shows "filed w (r\<lparr>rr_status := APPROVED, rr_approval := Some a\<rparr>)"
    and "filed w (r\<lparr>rr_status := REJECTED, rr_rejection := Some j\<rparr>)"
  using assms by (auto simp: filed_def review_state_is_consistent_def raise_if_eq_Inr okE_def)

text \<open>Every step files one record, or changes no manifest.\<close>

lemma serial_step_files:
  assumes "serial_step sv w w'" and "kept w"
  obtains "find_run w' = find_run w" "kept w'"
  | r files where "w' = save_run r (w\<lparr>wb_files := files\<rparr>)" "filed w r"
      "review_step (review_of w (rr_id r)) (Some (rr_status r, {t. tier_path t r \<noteq> None}))"
  using assms(1)
proof cases
  case (serial_create q a r)
  from serial_create(1) show thesis
  proof (rule create_run_Inr)
    fix files
    assume *: "w' = save_run r (w\<lparr>wb_files := files\<rparr>)" "rr_manifest_path r = manifest_of (wb_root w) (rr_id r)"
      "rr_status r = (if tr_passed (ar_report a) then READY_FOR_REVIEW else FAILED)" "is_alnum (rr_id r)"
      "map_of (wb_manifests w) (manifest_of (wb_root w) (rr_id r)) = None" "rr_approval r = None" "rr_rejection r = None"
      "\<And>t. tier_path t r = None"
    have "find_run w (rr_id r) = None" using *(5) by (simp add: find_run_None get_run_Inr)
    then have "review_step (review_of w (rr_id r)) (Some (rr_status r, {t. tier_path t r \<noteq> None}))"
      using *(3,8) by (auto simp: review_of_def intro: review_new)
    then show thesis using * by (intro that(2) [of r files]) (auto simp: filed_def review_state_is_consistent_def okE_def)
  qed
next
  case (serial_approve i who expected r)
  from serial_approve(1) show thesis
  proof (rule approve_Inr)
    fix r0 a
    assume *: "get_run w i = Inr r0" "rr_status r0 = READY_FOR_REVIEW" "w' = save_run r w"
      and r: "r = r0\<lparr>rr_status := APPROVED, rr_approval := Some a\<rparr>"
    note r0 = kept_get [OF assms(2) *(1)]
    then have "review_of w (rr_id r) = Some (READY_FOR_REVIEW, {t. tier_path t r0 \<noteq> None})"
      using *(1,2) by (simp add: review_of_def r find_run_Some [THEN iffD2])
    then show thesis
      using r0 *(2,3) by (intro that(2) [of r "wb_files w"]) (simp_all add: r decided_filed decided_tier review_approve)
  qed
next
  case (serial_reject i who reason r)
  from serial_reject(1) show thesis
  proof (rule reject_Inr)
    fix r0 j
    assume *: "get_run w i = Inr r0" "rr_status r0 = READY_FOR_REVIEW" "w' = save_run r w"
      and r: "r = r0\<lparr>rr_status := REJECTED, rr_rejection := Some j\<rparr>"
    note r0 = kept_get [OF assms(2) *(1)]
    then have "review_of w (rr_id r) = Some (READY_FOR_REVIEW, {t. tier_path t r0 \<noteq> None})"
      using *(1,2) by (simp add: review_of_def r find_run_Some [THEN iffD2])
    then show thesis
      using r0 *(2,3) by (intro that(2) [of r "wb_files w"]) (simp_all add: r decided_filed decided_tier review_reject)
  qed
next
  case (serial_qualify q i expected r staged passed files r')
  from qualify_begin_Inr [OF serial_qualify(1)] have ready: "get_run w i = Inr r" "rr_status r = READY_FOR_REVIEW"
    "tier_path (tier_of q) r = None" by simp_all
  note r = kept_get [OF assms(2) ready(1)]
  from serial_qualify(2) show thesis
  proof (rule qualify_finish_Inr)
    fix files'
    assume *: "w' = save_run r' ((w\<lparr>wb_files := files\<rparr>)\<lparr>wb_files := files'\<rparr>)" "rr_id r' = rr_id r"
      "rr_manifest_path r' = rr_manifest_path r" "rr_approval r' = rr_approval r" "rr_rejection r' = rr_rejection r"
      "rr_status r' = (if passed then READY_FOR_REVIEW else FAILED)"
      "\<And>t. tier_path t r' \<noteq> None \<longleftrightarrow> t = tier_of q \<or> tier_path t r \<noteq> None"
    have "review_of w (rr_id r') = Some (READY_FOR_REVIEW, {t. tier_path t r \<noteq> None})"
      using ready r by (simp add: review_of_def * find_run_Some [THEN iffD2])
    moreover have "{t. tier_path t r' \<noteq> None} = insert (tier_of q) {t. tier_path t r \<noteq> None}" using *(7) by blast
    ultimately show thesis
      using r ready * by (intro that(2) [of r' files'])
        (auto simp: filed_def review_state_is_consistent_def okE_def raise_if_eq_Inr intro: review_qualify split: if_splits)
  qed
next
  case (serial_change files requirements)
  then show thesis using assms(2) by (intro that(1)) simp_all
qed

section \<open>Serial histories refine the review machine\<close>

lemma review_of_save:
  assumes "filed w r"
  shows "review_of (save_run r (w\<lparr>wb_files := files\<rparr>))
    = (review_of w)(rr_id r := Some (rr_status r, {t. tier_path t r \<noteq> None}))"
  using runs.lookup_save [of "w\<lparr>wb_files := files\<rparr>" r] assms by (auto simp: review_of_def fun_eq_iff)

lemma serial_step_simulated:
  assumes "serial_step sv w w'" and "kept w"
  shows "kept w' \<and> (find_run w' = find_run w \<or> (\<exists>i r. review_step (review_of w i) (review_of w' i)
     \<and> find_run w' = (find_run w)(i \<mapsto> r)))"
  using assms
proof (rule serial_step_files)
  fix r files
  assume w': "w' = save_run r (w\<lparr>wb_files := files\<rparr>)" and r: "filed w r"
    and step: "review_step (review_of w (rr_id r)) (Some (rr_status r, {t. tier_path t r \<noteq> None}))"
  have "kept w'" using assms(2) r by (simp add: w' kept_save)
  moreover have "find_run w' = (find_run w)(rr_id r \<mapsto> r)"
    using runs.lookup_save [of "w\<lparr>wb_files := files\<rparr>" r] r by (simp add: w')
  moreover have "review_step (review_of w (rr_id r)) (review_of w' (rr_id r))"
    using step r by (simp add: w' review_of_save)
  ultimately show ?thesis by blast
qed simp_all

lemma serial_kept:
  assumes "wb_manifests w0 = []" and "(serial_step sv)\<^sup>*\<^sup>* w0 w"
  shows "kept w"
  using assms(2)
proof (induction rule: rtranclp_induct)
  case base
  then show ?case by (simp add: kept_def assms(1))
next
  case (step w w')
  then show ?case using serial_step_simulated by blast
qed

text \<open>C7: without overlapping requests the service refines the review machine.  From an empty
  workbench on, every request changes the review of at most one run, and only by a step the
  machine allows: a new run awaits review or has failed, a run awaiting review is approved,
  rejected or qualified by a tier that has not qualified it yet, and nothing else happens.  All
  manifests stay consistent and filed under their own ids.\<close>

theorem serial_review_refines:
  assumes "wb_manifests w0 = []" and "(serial_step sv)\<^sup>*\<^sup>* w0 w" and "serial_step sv w w'"
  shows "kept w' \<and> (review_of w' = review_of w
    \<or> (\<exists>i y. review_step (review_of w i) (Some y) \<and> review_of w' = (review_of w)(i \<mapsto> y)))"
proof -
  have "find_run w' = find_run w \<Longrightarrow> review_of w' = review_of w" by (simp add: review_of_def fun_eq_iff)
  moreover have "find_run w' = (find_run w)(i \<mapsto> r) \<Longrightarrow>
      review_of w' = (review_of w)(i \<mapsto> (rr_status r, {t. tier_path t r \<noteq> None}))" for i r
    by (simp add: review_of_def fun_eq_iff)
  ultimately show ?thesis
    using serial_step_simulated [OF assms(3) serial_kept [OF assms(1,2)]] by (metis fun_upd_same)
qed

lemma decided_kept:
  assumes "serial_step sv w w'" and "kept w" and "find_run w i = Some r" and "rr_status r \<noteq> READY_FOR_REVIEW"
  shows "find_run w' i = Some r"
proof -
  have "\<not> review_step (review_of w i) y" for y
    using assms(3,4) by (auto simp: review_of_def elim: review_stepE)
  then show ?thesis using serial_step_simulated [OF assms(1,2)] assms(3) by (metis fun_upd_other)
qed

text \<open>C8: decisions are final.  Without overlapping requests, the record of a run that was approved,
  was rejected or has failed is never written again: whatever is requested later, the same
  record is found under its id.\<close>

theorem serial_decisions_final:
  assumes "wb_manifests w0 = []" and "(serial_step sv)\<^sup>*\<^sup>* w0 w" and "get_run w i = Inr r"
    and "rr_status r \<noteq> READY_FOR_REVIEW" and "(serial_step sv)\<^sup>*\<^sup>* w w'"
  shows "get_run w' i = Inr r"
  using assms(5)
proof (induction rule: rtranclp_induct)
  case base
  show ?case by (rule assms(3))
next
  case (step w' w'')
  have "kept w'" using assms(1,2) step(1) by (intro serial_kept [OF assms(1), of sv]) auto
  then show ?case using decided_kept [OF step(2)] step(3) assms(4) by (simp add: find_run_Some)
qed

section \<open>What an export guarantees\<close>

lemma history_get:
  assumes "history sv h s" and "get_run (sy_wb s) i = Inr r"
  shows "record_inv (sv_sha sv) (wb_root (sy_wb s)) h r \<and> rr_id r = i"
proof -
  have "wb_inv (sv_sha sv) h (sy_wb s)" using history_inv [OF assms(1)] by (simp add: system_inv_def)
  then show ?thesis by (rule get_run_inv [OF assms(2)])
qed

lemma export_path_Inr:
  assumes "export_path sha i w = Inr p"
  obtains r where "get_run w i = Inr r" "rr_status r = APPROVED" "p \<in> set (record_artifact_paths r)"
    "artifact_hash sha (store_of w) (record_artifact_paths r) = Inr (rr_artifact r)"
    "\<exists>a. rr_approval r = Some a \<and> ap_artifact a = rr_artifact r" "require_requirements_approval w (rr_job r) = Inr ()"
proof -
  obtain r where r: "get_run w i = Inr r" "rr_status r = APPROVED" "rr_approval r \<noteq> None"
    "verify_record sha (store_of w) r = Inr ()" "require_requirements_approval w (rr_job r) = Inr ()"
    "first_path [rr_assembled_bog_path r, rr_target_path r, rr_bog_path r] = Some p"
    using assms by (auto simp: export_path_def bindE_eq_Inr split: option.splits)
  moreover have "p \<in> set (record_artifact_paths r)"
    using r(6) by (auto simp: record_artifact_paths_def first_path_def opt_path_def split: option.splits)
  ultimately show thesis by (intro that [of r]) (auto simp: verify_record_Inr)
qed

text \<open>C4: what is exported is what was approved.  In every history, however requests interleave and
  files change, an exported path is among the signed files of a record that a reviewer approved
  for exactly its digest, the requirement set of its job is approved, and every signed file is
  the file the approval found, unless two different payloads have the same SHA-256.\<close>

theorem exported_as_approved:
  assumes "history sv h s" and "export_path (sv_sha sv) i (sy_wb s) = Inr p"
  shows "\<exists>w0 r a. (w0, Approved r) \<in> set h \<and> rr_id r = i \<and> p \<in> set (record_artifact_paths r)
     \<and> rr_approval r = Some a \<and> ap_artifact a = rr_artifact r
     \<and> require_requirements_approval (sy_wb s) (rr_job r) = Inr ()
     \<and> (payload_collision (sv_sha sv) (store_of w0) (store_of (sy_wb s)) (record_artifact_paths r)
        \<or> (\<forall>q \<in> set (record_artifact_paths r). store_of (sy_wb s) q = store_of w0 q))"
  using assms(2)
proof (rule export_path_Inr)
  fix r
  assume r: "get_run (sy_wb s) i = Inr r" "rr_status r = APPROVED" "p \<in> set (record_artifact_paths r)"
    "artifact_hash (sv_sha sv) (store_of (sy_wb s)) (record_artifact_paths r) = Inr (rr_artifact r)"
    "\<exists>a. rr_approval r = Some a \<and> ap_artifact a = rr_artifact r"
    "require_requirements_approval (sy_wb s) (rr_job r) = Inr ()"
  have inv: "record_inv (sv_sha sv) (wb_root (sy_wb s)) h r" "rr_id r = i"
    using history_get [OF assms(1) r(1)] by simp_all
  then obtain w0 where w0: "(w0, Approved r) \<in> set h"
    "artifact_hash (sv_sha sv) (store_of w0) (record_artifact_paths r) = Inr (rr_artifact r)"
    using r(2) by (auto simp: record_inv_def approved_by_def)
  show ?thesis
    using r inv(2) w0(1) same_digest_same_files [OF w0(2) r(4)] by metis
qed

text \<open>C6: what is exported was tested.  In every history an exported run goes back to a run of the
  agent under the same id and for the same job, whose graph passed the acceptance suite of that
  job; no qualification, review or change of files can introduce an untested run.\<close>

theorem exported_was_tested:
  assumes "history sv h s" and "export_path (sv_sha sv) i (sy_wb s) = Inr p"
  shows "\<exists>w a r0 r. get_run (sy_wb s) i = Inr r \<and> (w, Created a r0) \<in> set h \<and> rr_id r0 = i \<and> rr_job r0 = rr_job r
     \<and> run_acceptance_suite (ar_graph a) (rr_job r) = Inr (ar_report a) \<and> tr_passed (ar_report a)"
  using assms(2)
proof (rule export_path_Inr)
  fix r
  assume r: "get_run (sy_wb s) i = Inr r" "rr_status r = APPROVED"
  have "record_inv (sv_sha sv) (wb_root (sy_wb s)) h r" "rr_id r = i"
    using history_get [OF assms(1) r(1)] by simp_all
  then show ?thesis using r by (force simp: record_inv_def created_passing_def)
qed

section \<open>A passing run can be exported\<close>

lemma artifact_hash_reads:
  assumes "artifact_hash sha store paths = Inr d" and "p \<in> set paths"
  shows "\<exists>c. store p = Some c"
proof -
  have "traverseE (\<lambda>p. mapE (Pair (n p)) (read_bytes store p)) ps = Inr es \<Longrightarrow> p \<in> set ps \<Longrightarrow> \<exists>c. store p = Some c"
    for n :: "path \<Rightarrow> string" and ps es
    by (induction ps arbitrary: es) (auto simp: bindE_eq_Inr mapE_eq_Inr read_bytes_def split: option.splits)
  then show ?thesis using assms by (fastforce simp: artifact_hash_def artifact_entries_def raise_if_eq_Inr bindE_eq_Inr)
qed

lemma approve_ready:
  assumes "get_run w i = Inr r" and "rr_status r = READY_FOR_REVIEW" and "verify_record sha (store_of w) r = Inr ()"
    and "require_requirements_approval w (rr_job r) = Inr ()" and "pred_option (\<lambda>h. h = rr_artifact r) expected"
  obtains a where "approve sha i who expected w
      = Inr (r\<lparr>rr_status := APPROVED, rr_approval := Some a\<rparr>, save_run (r\<lparr>rr_status := APPROVED, rr_approval := Some a\<rparr>) w)"
    "ap_artifact a = rr_artifact r"
proof -
  have "approve sha i who expected w = Inr (r', save_run r' w)"
    if "r' = r\<lparr>rr_status := APPROVED, rr_approval := Some \<lparr>ap_reviewer = ri_reviewer who, ap_actor_id = ri_actor_id who,
       ap_tenant_id = ri_tenant_id who, ap_authentication = ri_authentication who, ap_artifact = rr_artifact r\<rparr>\<rparr>" for r'
    unfolding that approve_def assms(1) Let_def using assms(2-5) by (simp add: require_status_def check_bound_def differs_iff)
  then show thesis by (rule that [OF _ approval.select_convs(5)]) simp
qed

lemma requirements_save: "require_requirements_approval (save_run r w) = require_requirements_approval w"
  by (rule ext) (simp only: require_requirements_approval_def save_run_simps)

lemma export_approved:
  assumes "filed w r" and "rr_status r = READY_FOR_REVIEW" and "verify_record sha (store_of w) r = Inr ()"
    and "require_requirements_approval w (rr_job r) = Inr ()" and "rr_target_path r \<noteq> None"
    and r': "r' = r\<lparr>rr_status := APPROVED, rr_approval := Some a\<rparr>" and "ap_artifact a = rr_artifact r"
  shows "\<exists>p. export_path sha (rr_id r) (save_run r' w) = Inr p \<and> (\<exists>c. store_of (save_run r' w) p = Some c)"
proof -
  have g: "get_run (save_run r' w) (rr_id r) = Inr r'"
    using get_saved [of w r'] decided_filed(1) [OF assms(1,2)] by (simp add: r')
  have fields: "rr_status r' = APPROVED" "rr_approval r' = Some a" "rr_job r' = rr_job r"
    "record_artifact_paths r' = record_artifact_paths r"
    by (simp_all add: r')
  have hash: "artifact_hash sha (store_of w) (record_artifact_paths r) = Inr (rr_artifact r)"
    using assms(3) by (simp add: verify_record_Inr)
  have v: "verify_record sha (store_of (save_run r' w)) r' = Inr ()"
    using assms(3,7) by (simp add: verify_record_Inr fields) (simp add: r')
  have req: "require_requirements_approval (save_run r' w) (rr_job r') = Inr ()"
    using assms(4) by (simp add: requirements_save fields)
  obtain p where p: "first_path [rr_assembled_bog_path r', rr_target_path r', rr_bog_path r'] = Some p"
    using assms(5) by (cases "rr_assembled_bog_path r") (auto simp: r' first_path_def opt_path_def)
  then have "p \<in> set (record_artifact_paths r')"
    by (auto simp: record_artifact_paths_def first_path_def opt_path_def split: option.splits)
  then have "\<exists>c. store_of w p = Some c" using artifact_hash_reads [OF hash] by (simp add: fields)
  moreover have "export_path sha (rr_id r) (save_run r' w) = Inr p"
    unfolding export_path_def g using v req p by (simp add: require_status_def fields)
  ultimately show ?thesis by simp
qed

lemma create_run_filed:
  assumes "create_run sv q w = Inr (a, r, w')"
  shows "filed w' r \<and> rr_id r = rq_id q \<and> rr_target_path r \<noteq> None \<and> rr_job r = rq_job q
    \<and> rr_status r = (if tr_passed (ar_report a) then READY_FOR_REVIEW else FAILED)"
  using assms
proof (rule create_run_Inr)
  fix files
  assume *: "w' = save_run r (w\<lparr>wb_files := files\<rparr>)" "rr_manifest_path r = manifest_of (wb_root w) (rr_id r)"
    "rr_job r = rq_job q" "rr_status r = (if tr_passed (ar_report a) then READY_FOR_REVIEW else FAILED)"
    "is_alnum (rr_id r)" "rr_approval r = None" "rr_rejection r = None" "rr_target_path r \<noteq> None" "rr_id r = rq_id q"
  then show ?thesis by (auto simp: filed_def review_state_is_consistent_def okE_def)
qed

text \<open>C9: a passing run can reach the contractor.  Right after a run was created whose acceptance
  report passed, and whose requirement set is approved where its job names one, any reviewer
  can approve the digest they saw, and the export then returns a file that exists.\<close>

theorem passing_run_can_be_exported:
  assumes "create_run sv q w = Inr (a, r, w')" and "CHR ''/'' \<notin> set (gname (ar_graph a))"
    and "tr_passed (ar_report a)" and "require_requirements_approval w' (rq_job q) = Inr ()"
    and "expected \<in> {None, Some (rr_artifact r)}"
  shows "\<exists>r2 w2 p c. approve (sv_sha sv) (rq_id q) who expected w' = Inr (r2, w2)
     \<and> export_path (sv_sha sv) (rq_id q) w2 = Inr p \<and> store_of w2 p = Some c"
proof -
  have v: "get_run w' (rq_id q) = Inr r" "verify_record (sv_sha sv) (store_of w') r = Inr ()"
    using create_run_verifies [OF assms(1,2)] by (auto simp: verify_integrity_def bindE_eq_Inr)
  have id: "rr_id r = rq_id q" using create_run_filed [OF assms(1)] by simp
  have r: "filed w' r" "rr_target_path r \<noteq> None" "rr_status r = READY_FOR_REVIEW"
    "require_requirements_approval w' (rr_job r) = Inr ()"
    using create_run_filed [OF assms(1)] assms(3,4) by simp_all
  show ?thesis
  proof (rule approve_ready [OF v(1) r(3) v(2) r(4)])
    show "pred_option (\<lambda>h. h = rr_artifact r) expected" using assms(5) by auto
  next
    fix b
    let ?w = "save_run (r\<lparr>rr_status := APPROVED, rr_approval := Some b\<rparr>) w'"
    assume b: "approve (sv_sha sv) (rq_id q) who expected w'
      = Inr (r\<lparr>rr_status := APPROVED, rr_approval := Some b\<rparr>, ?w)"
      "ap_artifact b = rr_artifact r"
    obtain p c where "export_path (sv_sha sv) (rq_id q) ?w = Inr p" "store_of ?w p = Some c"
      using export_approved [OF r(1,3) v(2) r(4,2) refl b(2)] unfolding id by blast
    with b(1) show ?thesis by blast
  qed
qed

section \<open>Overlapping requests\<close>

lemma qualify_finish_verifies:
  assumes "qualify_finish sha t r staged passed w = Inr (r', w')" and "rr_approval r = None" and "rr_rejection r = None"
  shows "verify_record sha (store_of w') r' = Inr ()"
proof -
  obtain files ps d where *: "artifact_hash sha (map_of files) (record_artifact_paths r @ ps) = Inr d"
    "r' = (set_tier_path t (wb_root w @ [rr_id r, tier_directory t, ''evidence.json'']) r)
       \<lparr>rr_status := if passed then READY_FOR_REVIEW else FAILED, rr_verification_paths := rr_verification_paths r @ ps,
         rr_artifact := d\<rparr>" "w' = save_run r' (w\<lparr>wb_files := files\<rparr>)"
    using assms(1) by (auto simp: qualify_finish_def run_directory_def bindE_eq_Inr raise_if_eq_Inr Let_def)
  have "record_artifact_paths r' = record_artifact_paths r @ ps"
    by (cases t) (simp_all add: *(2) record_artifact_paths_def set_tier_path_def)
  moreover have "rr_artifact r' = d" "rr_approval r' = None" "rr_rejection r' = None"
    using assms(2,3) by (simp_all add: *(2))
  ultimately show ?thesis using *(1) by (simp add: verify_record_Inr *(3))
qed

text \<open>C10: a qualification that overlaps a decision undoes it.  When a qualification has begun and the
  run is then approved, finishing the qualification writes the record it had read: the run is
  again undecided or failed, the approval is gone and the export refuses.  Whatever happened to
  the signed files in between, the new record signs them as they are and verifies.\<close>

theorem overlapping_qualification_undoes_approval:
  assumes "kept w" and "qualify_begin sha q i e w = Inr r" and "approve sha i who e' w = Inr (r1, w1)"
    and "qualify_finish sha (tier_of q) r staged passed (w1\<lparr>wb_files := files\<rparr>) = Inr (r2, w2)"
  shows "get_run w1 i = Inr r1 \<and> rr_status r1 = APPROVED
     \<and> get_run w2 i = Inr r2 \<and> rr_status r2 = (if passed then READY_FOR_REVIEW else FAILED) \<and> rr_approval r2 = None
     \<and> verify_record sha (store_of w2) r2 = Inr ()
     \<and> export_path sha i w2 = Inl (ApprovalRequiredError ''human approval is required before export'')"
proof -
  have r: "get_run w i = Inr r" "rr_status r = READY_FOR_REVIEW" using qualify_begin_Inr [OF assms(2)] by simp_all
  note filed = kept_get [OF assms(1) r(1)]
  then have undecided: "rr_approval r = None" "rr_rejection r = None"
    using r(2) by (auto simp: filed_def review_state_is_consistent_def raise_if_eq_Inr)
  obtain a where r1: "r1 = r\<lparr>rr_status := APPROVED, rr_approval := Some a\<rparr>" "w1 = save_run r1 w"
    using approve_Inr [OF assms(3)] r(1) by (metis Inr_inject)
  have 1: "get_run w1 i = Inr r1"
    using get_saved [of w r1] decided_filed(1) [of w r a] filed r(2) by (simp add: r1)
  from assms(4) obtain files' where r2: "w2 = save_run r2 ((w1\<lparr>wb_files := files\<rparr>)\<lparr>wb_files := files'\<rparr>)" "rr_id r2 = rr_id r"
      "rr_manifest_path r2 = rr_manifest_path r" "rr_approval r2 = rr_approval r" "rr_rejection r2 = rr_rejection r"
      "rr_status r2 = (if passed then READY_FOR_REVIEW else FAILED)"
    by (rule qualify_finish_Inr)
  have "filed w r2"
    using filed undecided r2(2-6) by (auto simp: filed_def review_state_is_consistent_def okE_def split: if_splits)
  then have 2: "get_run w2 i = Inr r2"
    using get_saved [of "(w1\<lparr>wb_files := files\<rparr>)\<lparr>wb_files := files'\<rparr>" r2] filed r2(2)
    by (simp add: r2(1)) (simp add: r1(2))
  then have "export_path sha i w2 = Inl (ApprovalRequiredError ''human approval is required before export'')"
    using r2(6) by (simp add: export_path_def require_status_def)
  then show ?thesis
    using 1 2 r2(4,6) undecided qualify_finish_verifies [OF assms(4) undecided] by (simp add: r1(1))
qed

section \<open>Examples\<close>

definition sample_paths :: "path list" where
  "sample_paths = map ((@) sample_directory) [[''control-graph.json''], [''test-report.json''], [''invert.bog''],
     [''job-spec.json''], [''semantic-model.ttl''], [''semantic-validation.json''], [''deliverables'', ''manifest.json''],
     [''nhaystack'', ''manifest.json'']]"

definition sample_evidence :: "(path \<times> string) list" where
  "sample_evidence = [([''evidence.json''], ''evidence'')]"

definition sample_destination :: path where
  "sample_destination = [''runs'', ''a1'', ''boptest-verification'']"

definition sample_final :: "path list" where
  "sample_final = [[''runs'', ''a1'', ''boptest-verification'', ''evidence.json'']]"

definition sample_who :: reviewer_identity where
  "sample_who = \<lparr>ri_reviewer = ''engineer'', ri_actor_id = None, ri_tenant_id = None, ri_authentication = ''token''\<rparr>"

lemma sample_run:
  "\<exists>a r. create_run (services_with sha) sample_request empty_workbench = Inr (a, r, sample_saved r)
     \<and> ar_graph a = sample_graph \<and> tr_passed (ar_report a) \<and> record_artifact_paths r = sample_paths \<and> rr_target_kind r = NIAGARA_BOG"
proof -
  obtain a digest r where r: "r = materialized_record sample_directory (provisional_run sample_request a NIAGARA_BOG)
      sample_graph sample_build [] digest False"
    "create_run (services_with sha) sample_request empty_workbench = Inr (a, r, sample_saved r)"
    "ar_graph a = sample_graph" "tr_passed (ar_report a)"
    using sample_create [of sha] by blast
  have "record_artifact_paths r = sample_paths"
    by (simp add: r(1) record_rels_paths provisional_run_def record_rels_def template_files_def assembly_files_def
        assembles_def deliverable_files_def package_files_def opt_package_def environment_files_def in_dir_def
        sample_build_def sample_graph_def target_name_def sample_paths_def)
  moreover have "rr_target_kind r = NIAGARA_BOG" by (simp add: r(1) materialized_record_def Let_def provisional_run_def)
  ultimately show ?thesis using r by blast
qed

lemma sample_requirements: "require_requirements_approval w sample_job = Inr ()"
  by (simp add: require_requirements_approval_def protocol_reference_def sample_job_def sample_sequence_def okE_def)

lemma sample_name: "CHR ''/'' \<notin> set (gname sample_graph)"
  by (simp add: sample_graph_def)

lemma passing_run_can_be_exported_witness:
  "\<exists>a r w r2 w2 p c. create_run sample_services sample_request empty_workbench = Inr (a, r, w)
     \<and> approve (\<lambda>s. s) ''a1'' sample_who (Some (rr_artifact r)) w = Inr (r2, w2)
     \<and> export_path (\<lambda>s. s) ''a1'' w2 = Inr p \<and> store_of w2 p = Some c"
proof -
  obtain a r where r: "create_run sample_services sample_request empty_workbench = Inr (a, r, sample_saved r)"
    "ar_graph a = sample_graph" "tr_passed (ar_report a)" using sample_run [of "\<lambda>s. s"] unfolding sample_services_def by blast
  have q: "rq_job sample_request = sample_job" "rq_id sample_request = ''a1''" by (simp_all add: sample_request_def)
  have sv: "sv_sha sample_services = (\<lambda>s. s)" by (simp add: sample_services_def services_with_def)
  from passing_run_can_be_exported [OF r(1), of "Some (rr_artifact r)" sample_who] r
  show ?thesis unfolding q sv using sample_name sample_requirements by (metis insertCI)
qed

lemma serial_review_refines_witness:
  "\<exists>w i y. serial_step sample_services empty_workbench w
     \<and> review_step None (Some y) \<and> review_of w = (review_of empty_workbench)(i \<mapsto> y)"
proof -
  obtain a r where r: "create_run sample_services sample_request empty_workbench = Inr (a, r, sample_saved r)"
    using sample_run [of "\<lambda>s. s"] unfolding sample_services_def by blast
  have step: "serial_step sample_services empty_workbench (sample_saved r)" by (rule serial_create [OF r])
  have start: "wb_manifests empty_workbench = []" by (simp add: empty_workbench_def)
  have none: "review_of empty_workbench i = None" for i
    by (simp add: review_of_def find_run_None get_run_Inr start)
  have "review_of (sample_saved r) (rr_id r) \<noteq> None"
    using create_run_filed [OF r] review_of_save [of empty_workbench r sample_files]
    by (simp add: sample_saved_def)
  then show ?thesis
    using serial_review_refines [OF start _ step] step none by (metis rtranclp.rtrancl_refl)
qed

text \<open>The sample run awaits review, whatever the hash.\<close>

lemma sample_ready:
  "\<exists>a r. create_run (services_with sha) sample_request empty_workbench = Inr (a, r, sample_saved r)
     \<and> filed (sample_saved r) r \<and> rr_id r = ''a1'' \<and> rr_target_path r \<noteq> None \<and> rr_job r = sample_job
     \<and> rr_status r = READY_FOR_REVIEW \<and> rr_target_kind r = NIAGARA_BOG \<and> (\<forall>t. tier_path t r = None)
     \<and> get_run (sample_saved r) ''a1'' = Inr r \<and> verify_record sha (store_of (sample_saved r)) r = Inr ()
     \<and> record_artifact_paths r = sample_paths"
proof -
  obtain a r where r: "create_run (services_with sha) sample_request empty_workbench = Inr (a, r, sample_saved r)"
    "ar_graph a = sample_graph" "tr_passed (ar_report a)" "record_artifact_paths r = sample_paths" "rr_target_kind r = NIAGARA_BOG"
    using sample_run [of sha] by blast
  have q: "rq_job sample_request = sample_job" "rq_id sample_request = ''a1''" by (simp_all add: sample_request_def)
  have sv: "sv_sha (services_with sha) = sha" by (simp add: services_with_def)
  have v: "get_run (sample_saved r) ''a1'' = Inr r" "verify_record sha (store_of (sample_saved r)) r = Inr ()"
    using create_run_verifies [OF r(1)] sample_name by (auto simp: verify_integrity_def bindE_eq_Inr r(2) sv q)
  have f: "filed (sample_saved r) r" "rr_id r = ''a1''" "rr_target_path r \<noteq> None" "rr_job r = sample_job"
    "rr_status r = READY_FOR_REVIEW"
    using create_run_filed [OF r(1)] r(3) by (simp_all add: q)
  have "tier_path t r = None" for t using r(1) by (rule create_run_Inr)
  then show ?thesis using r(1,4,5) v f by blast
qed

text \<open>The sample run, approved.\<close>

lemma sample_approved:
  "\<exists>a r r1. create_run sample_services sample_request empty_workbench = Inr (a, r, sample_saved r)
     \<and> approve (\<lambda>s. s) ''a1'' sample_who None (sample_saved r) = Inr (r1, save_run r1 (sample_saved r))
     \<and> get_run (save_run r1 (sample_saved r)) ''a1'' = Inr r1 \<and> rr_status r1 = APPROVED
     \<and> (\<exists>p. export_path (\<lambda>s. s) ''a1'' (save_run r1 (sample_saved r)) = Inr p)
     \<and> rr_status r = READY_FOR_REVIEW \<and> get_run (sample_saved r) ''a1'' = Inr r
     \<and> verify_record (\<lambda>s. s) (store_of (sample_saved r)) r = Inr () \<and> record_artifact_paths r = sample_paths"
proof -
  obtain a r where r: "create_run sample_services sample_request empty_workbench = Inr (a, r, sample_saved r)"
    "record_artifact_paths r = sample_paths"
    and f: "filed (sample_saved r) r" "rr_id r = ''a1''" "rr_target_path r \<noteq> None" "rr_job r = sample_job"
      "rr_status r = READY_FOR_REVIEW"
    and v: "get_run (sample_saved r) ''a1'' = Inr r" "verify_record (\<lambda>s. s) (store_of (sample_saved r)) r = Inr ()"
    using sample_ready [of "\<lambda>s. s"] unfolding sample_services_def by blast
  note req = sample_requirements [of "sample_saved r", folded f(4)]
  obtain b where b: "approve (\<lambda>s. s) ''a1'' sample_who None (sample_saved r)
      = Inr (r\<lparr>rr_status := APPROVED, rr_approval := Some b\<rparr>,
          save_run (r\<lparr>rr_status := APPROVED, rr_approval := Some b\<rparr>) (sample_saved r))" "ap_artifact b = rr_artifact r"
    using approve_ready [OF v(1) f(5) v(2) req, of None sample_who] by auto
  obtain r1 where r1: "r1 = r\<lparr>rr_status := APPROVED, rr_approval := Some b\<rparr>" by blast
  have "get_run (save_run r1 (sample_saved r)) ''a1'' = Inr r1"
    using get_saved [OF decided_filed(1) [OF f(1,5)], of b] f(2) by (simp add: r1)
  moreover have "\<exists>p. export_path (\<lambda>s. s) ''a1'' (save_run r1 (sample_saved r)) = Inr p"
    using export_approved [OF f(1,5) v(2) req f(3) r1 b(2)] f(2) by auto
  moreover have "rr_status r1 = APPROVED" by (simp add: r1)
  ultimately show ?thesis using r b(1) v f(5) unfolding r1 [symmetric] by blast
qed

lemma serial_decisions_final_witness:
  "\<exists>w r. (serial_step sample_services)\<^sup>*\<^sup>* empty_workbench w \<and> rr_status r = APPROVED
     \<and> get_run (w\<lparr>wb_files := [], wb_requirements := None\<rparr>) ''a1'' = Inr r"
proof -
  obtain a r r1 where r: "create_run sample_services sample_request empty_workbench = Inr (a, r, sample_saved r)"
    "approve (\<lambda>s. s) ''a1'' sample_who None (sample_saved r) = Inr (r1, save_run r1 (sample_saved r))"
    "get_run (save_run r1 (sample_saved r)) ''a1'' = Inr r1" "rr_status r1 = APPROVED"
    using sample_approved by blast
  have sv: "sv_sha sample_services = (\<lambda>s. s)" by (simp add: sample_services_def services_with_def)
  have "serial_step sample_services empty_workbench (sample_saved r)" by (rule serial_create [OF r(1)])
  moreover have "serial_step sample_services (sample_saved r) (save_run r1 (sample_saved r))"
    by (rule serial_approve [of sample_services, unfolded sv, OF r(2)])
  ultimately have reach: "(serial_step sample_services)\<^sup>*\<^sup>* empty_workbench (save_run r1 (sample_saved r))"
    by (metis rtranclp.rtrancl_refl rtranclp.rtrancl_into_rtrancl)
  have start: "wb_manifests empty_workbench = []" by (simp add: empty_workbench_def)
  have "(serial_step sample_services)\<^sup>*\<^sup>* (save_run r1 (sample_saved r))
      ((save_run r1 (sample_saved r))\<lparr>wb_files := [], wb_requirements := None\<rparr>)"
    by (intro r_into_rtranclp serial_change)
  with serial_decisions_final [OF start reach r(3)] reach r(4) show ?thesis by auto
qed

text \<open>A history that creates, approves and exports the sample run.\<close>

definition sample_history :: "agent_result \<Rightarrow> run_record \<Rightarrow> run_record \<Rightarrow> (workbench \<times> wb_event) list" where
  "sample_history a r r1 = [(empty_workbench, Created a r), (sample_saved r, Approved r1)]"

lemma sample_history:
  "\<exists>a r r1 s p. history sample_services (sample_history a r r1) s \<and> export_path (sv_sha sample_services) ''a1'' (sy_wb s) = Inr p"
proof -
  obtain a r r1 p where r: "create_run sample_services sample_request empty_workbench = Inr (a, r, sample_saved r)"
    "approve (\<lambda>s. s) ''a1'' sample_who None (sample_saved r) = Inr (r1, save_run r1 (sample_saved r))"
    "export_path (\<lambda>s. s) ''a1'' (save_run r1 (sample_saved r)) = Inr p"
    using sample_approved by blast
  have sv: "sv_sha sample_services = (\<lambda>s. s)" by (simp add: sample_services_def services_with_def)
  let ?s0 = "\<lparr>sy_wb = empty_workbench, sy_pending = []\<rparr>"
  let ?s1 = "?s0\<lparr>sy_wb := sample_saved r\<rparr>" let ?s2 = "?s1\<lparr>sy_wb := save_run r1 (sample_saved r)\<rparr>"
  have "history sample_services [] ?s0" by (rule history_start) (simp add: empty_workbench_def)
  then have "history sample_services ([] @ [(sy_wb ?s0, Created a r)]) ?s1"
    by (rule history_step) (rule wb_create [of _ sample_request], simp add: r(1))
  then have "history sample_services (([] @ [(sy_wb ?s0, Created a r)]) @ [(sy_wb ?s1, Approved r1)]) ?s2"
    by (rule history_step) (rule wb_approve [of _ "''a1''" sample_who None], simp add: r(2) sv)
  then show ?thesis
    using r(3) by (intro exI [of _ a] exI [of _ r] exI [of _ r1] exI [of _ ?s2] exI [of _ p]) (simp add: sample_history_def sv)
qed

lemma exported_as_approved_witness:
  "\<exists>h s w0 r. history sample_services h s \<and> (w0, Approved r) \<in> set h \<and> rr_id r = ''a1''"
  using sample_history exported_as_approved by metis

lemma exported_was_tested_witness:
  "\<exists>h s w a r0. history sample_services h s \<and> (w, Created a r0) \<in> set h \<and> rr_id r0 = ''a1'' \<and> tr_passed (ar_report a)"
  using sample_history exported_was_tested by metis

text \<open>The sample run, qualified while it is approved.\<close>

lemma sample_qualified_files:
  "list_all (\<lambda>p. (case map_of (write_files sample_destination sample_evidence sample_files) p of
       None \<Rightarrow> False | Some c \<Rightarrow> length c < 100)
     \<and> length (relative_name (sample_paths @ sample_final) p) < 100) (sample_paths @ sample_final)"
  by code_simp

lemma sample_no_evidence:
  "\<not> list_ex (under sample_destination) (map fst sample_files)"
  "\<not> under sample_destination [''runs'', ''a1'', ''manifest.json'']"
  "map ((@) sample_destination) (sort (map fst sample_evidence)) = sample_final"
  by code_simp+

lemma sample_qualify_digest:
  "\<exists>d. artifact_hash sha (map_of (write_files sample_destination sample_evidence sample_files)) (sample_paths @ sample_final) = Inr d"
proof (rule artifact_hash_total)
  fix p assume "p \<in> set (sample_paths @ sample_final)"
  then have "(case map_of (write_files sample_destination sample_evidence sample_files) p of None \<Rightarrow> False | Some c \<Rightarrow> length c < 100)
      \<and> length (relative_name (sample_paths @ sample_final) p) < 100"
    using sample_qualified_files by (simp only: list_all_iff)
  then show "\<exists>c. map_of (write_files sample_destination sample_evidence sample_files) p = Some c \<and> length c < 2 ^ 64
      \<and> length (relative_name (sample_paths @ sample_final) p) < 2 ^ 64"
    by (auto split: option.splits)
qed (simp add: sample_final_def)

lemma sample_finish:
  assumes "rr_id r = ''a1''" and "record_artifact_paths r = sample_paths" and "wb_root w = [''runs'']" and "wb_files w = sample_files"
    and "map fst (wb_manifests w) = [[''runs'', ''a1'', ''manifest.json'']]"
  shows "\<exists>r2 w2. qualify_finish sha Boptest r sample_evidence True w = Inr (r2, w2)"
proof -
  have id: "is_alnum ''a1''" by code_simp
  have "dir_exists w sample_destination = False"
    using sample_no_evidence(1,2) assms(4,5) by (simp add: dir_exists_def)
  moreover obtain d where "artifact_hash sha (map_of (write_files sample_destination sample_evidence sample_files))
      (sample_paths @ sample_final) = Inr d" using sample_qualify_digest by blast
  ultimately show ?thesis
    using id sample_no_evidence(3) assms
    by (simp add: qualify_finish_def run_directory_def tier_directory_def Let_def sample_destination_def)
qed

lemma overlapping_qualification_undoes_approval_witness:
  "\<exists>w r1 r2 w2. (\<exists>w1. approve (\<lambda>s. s) ''a1'' sample_who None w = Inr (r1, w1) \<and> get_run w1 ''a1'' = Inr r1)
     \<and> rr_status r1 = APPROVED \<and> get_run w2 ''a1'' = Inr r2 \<and> rr_approval r2 = None"
proof -
  obtain a r r1 where r: "create_run sample_services sample_request empty_workbench = Inr (a, r, sample_saved r)"
    "approve (\<lambda>s. s) ''a1'' sample_who None (sample_saved r) = Inr (r1, save_run r1 (sample_saved r))"
    "rr_status r = READY_FOR_REVIEW" "get_run (sample_saved r) ''a1'' = Inr r"
    "verify_record (\<lambda>s. s) (store_of (sample_saved r)) r = Inr ()" "record_artifact_paths r = sample_paths"
    using sample_approved by blast
  have kept0: "kept empty_workbench" by (simp add: kept_def empty_workbench_def)
  then have k: "kept (sample_saved r)"
    using serial_step_simulated [OF serial_create [OF r(1)]] by blast
  have r': "rr_id r = ''a1''" "rr_manifest_path r = [''runs'', ''a1'', ''manifest.json'']" "\<And>t. tier_path t r = None"
    using r(1) by (rule create_run_Inr; simp add: sample_request_def empty_workbench_def manifest_of_def)+
  have r1: "rr_manifest_path r1 = rr_manifest_path r"
    using r(2) by (rule approve_Inr) (use r(4) in simp)
  have root: "wb_root (sample_saved r) = [''runs'']" "wb_files (sample_saved r) = sample_files"
    "map fst (wb_manifests (save_run r1 (sample_saved r))) = [[''runs'', ''a1'', ''manifest.json'']]"
    by (simp_all add: sample_saved_def save_run_def empty_workbench_def r1 r'(2))
  let ?q = "BoptestSingle [''temperature'']" let ?w = "(save_run r1 (sample_saved r))\<lparr>wb_files := sample_files\<rparr>"
  have start: "qualify_begin (\<lambda>s. s) ?q ''a1'' None (sample_saved r) = Inr r"
    by (simp add: qualify_begin_def r(3-5) require_status_def check_bound_def r'(3) validate_request_def validate_oracles_def okE_def)
  obtain r2 w2 where finish: "qualify_finish (\<lambda>s. s) (tier_of ?q) r sample_evidence True ?w = Inr (r2, w2)"
    using sample_finish [OF r'(1) r(6), of ?w "\<lambda>s. s"] root by auto
  show ?thesis
    using overlapping_qualification_undoes_approval [OF k start r(2) finish] r(2) by blast
qed

end
