(* ===== verification/JobExec.thy ===== *)
theory JobExec
  imports JobLife Review
begin

text \<open>
  The workers of the qualification queue (the three executors of \<open>qualification_jobs.py\<close>): a
  worker takes a job, reads its payload, starts the qualification of its run, and when the
  engine is done finishes the qualification and the job.  The engine's outcome and the
  decoding of the stored payload are arguments; between start and finish anything may happen
  to the queue and the workbench.
\<close>

section \<open>Starting\<close>

record decoders =
  dc_alfalfa :: "string \<Rightarrow> alfalfa_payload result"
  dc_boptest :: "string \<Rightarrow> boptest_payload result"
  dc_shadow :: "string \<Rightarrow> shadow_payload result"

definition read_entry :: "(string \<times> string) list \<Rightarrow> string \<Rightarrow> string result" where
  "read_entry files i = (case map_of files i of None \<Rightarrow> Inl (OSError ''no such file'') | Some c \<Rightarrow> Inr c)"

definition stored_request :: "sha \<Rightarrow> job_store \<Rightarrow> string \<Rightarrow> string result" where
  "stored_request sha js i = bindE (read_job sha js i) (\<lambda>_. read_entry (js_requests js) i)"

text \<open>The call of the service a job stands for.\<close>

definition service_call :: "sha \<Rightarrow> decoders \<Rightarrow> job_store \<Rightarrow> string \<Rightarrow> job_record \<Rightarrow> tier_request result" where
  "service_call sha dc js i r =
     bindE (stored_request sha js i) (\<lambda>request. case jq_kind r of
       AlfalfaJob \<Rightarrow>
         bindE (dc_alfalfa dc request) (\<lambda>p. case jq_model_filename r of
             None \<Rightarrow> Inl (RuntimeError ''qualification job has no FMU filename'')
           | Some filename \<Rightarrow> mapE (\<lambda>model.
               if pa_transport p = ''bacnet_ip_loopback'' then AlfalfaBacnet (pa_oracles p) model filename
               else AlfalfaModel (pa_oracles p) model filename) (read_entry (js_models js) i))
     | BoptestJob \<Rightarrow>
         mapE (\<lambda>p. if pb_cases p \<noteq> [] then BoptestSuite (pb_cases p) else BoptestSingle (pb_oracles p)) (dc_boptest dc request)
     | ShadowJob \<Rightarrow> mapE (\<lambda>p. ShadowRuntime (ps_policy p) (ps_band_set p)) (dc_shadow dc request))"

datatype started =
    Skipped job_record
  | Engine job_record tier_request run_record
  | Crashed py_error

definition fail_job :: "sha \<Rightarrow> (py_error \<Rightarrow> string) \<Rightarrow> int \<Rightarrow> string \<Rightarrow> py_error \<Rightarrow> job_store \<Rightarrow> job_store" where
  "fail_job sha describe tm i e js = (case run_op sha tm i (Failed (describe e)) js of Inl _ \<Rightarrow> js | Inr (r, js') \<Rightarrow> js')"

definition start_job :: "sha \<Rightarrow> decoders \<Rightarrow> (py_error \<Rightarrow> string) \<Rightarrow> int \<Rightarrow> string \<Rightarrow> string \<Rightarrow> job_store \<Rightarrow> workbench \<Rightarrow>
    (started \<times> job_store) result" where
  "start_job sha dc describe tm i worker js w =
     bindE (run_op sha tm i (Run worker) js) (\<lambda>(r, js').
     if jq_status r = CANCELED then Inr (Skipped r, js')
     else case bindE (service_call sha dc js' i r) (\<lambda>q.
              mapE (Pair q) (qualify_begin sha q (jq_run r) (jq_candidate r) w)) of
         Inl e \<Rightarrow> Inr (Crashed e, fail_job sha describe tm i e js')
       | Inr (q, run) \<Rightarrow> Inr (Engine r q run, js'))"

section \<open>Finishing\<close>

datatype engine_outcome =
    EngineDone "(path \<times> string) list" bool
  | EngineCancelled string
  | EngineFailed py_error

text \<open>The qualification is finished first, its evidence is read back from the run, and only then
  the job is.  The result is the job's record, or the exception after the job was marked failed.\<close>

definition finish_job :: "sha \<Rightarrow> (py_error \<Rightarrow> string) \<Rightarrow> int \<Rightarrow> string \<Rightarrow> tier_request \<Rightarrow> run_record \<Rightarrow> engine_outcome \<Rightarrow>
    job_store \<Rightarrow> workbench \<Rightarrow> job_record result \<times> job_store \<times> workbench" where
  "finish_job sha describe tm i q run outcome js w =
     (let crash = (\<lambda>e w. (Inl e, fail_job sha describe tm i e js, w)) in
      case outcome of
        EngineCancelled detail \<Rightarrow>
          (case run_op sha tm i (Canceled (Some detail)) js of Inl e \<Rightarrow> (Inl e, js, w) | Inr (r, js') \<Rightarrow> (Inr r, js', w))
      | EngineFailed e \<Rightarrow> crash e w
      | EngineDone staged passed \<Rightarrow>
          (case qualify_finish sha (tier_of q) run staged passed w of
             Inl e \<Rightarrow> crash e w
           | Inr (run', w') \<Rightarrow>
               (case bindE (verify_integrity sha w' (rr_id run)) (\<lambda>_.
                       run_op sha tm i (Succeeded (rr_artifact run') passed) js) of
                  Inl e \<Rightarrow> crash e w'
                | Inr (r, js') \<Rightarrow> (Inr r, js', w'))))"

section \<open>A worker runs what was submitted\<close>

lemma start_job_Engine:
  assumes "start_job sha dc describe tm i worker js w = Inr (Engine r q run, js')"
  shows "run_op sha tm i (Run worker) js = Inr (r, js') \<and> jq_status r \<noteq> CANCELED
    \<and> service_call sha dc js' i r = Inr q \<and> qualify_begin sha q (jq_run r) (jq_candidate r) w = Inr run"
  using assms
  by (auto simp: start_job_def bindE_eq_Inr mapE_eq_Inr split: if_splits sum.splits)

lemma qualify_begin_expected:
  assumes "qualify_begin sha q i (Some h) w = Inr r"
  shows "rr_artifact r = h \<and> verify_record sha (store_of w) r = Inr ()"
  using assms by (auto simp: qualify_begin_def bindE_eq_Inr raise_if_eq_Inr)

lemma tier_of_call:
  "service_call sha dc js i r = Inr q \<Longrightarrow>
    tier_of q = (case jq_kind r of AlfalfaJob \<Rightarrow> Alfalfa | BoptestJob \<Rightarrow> Boptest | ShadowJob \<Rightarrow> Shadow)"
  by (cases "jq_kind r")
    (auto simp: service_call_def bindE_eq_Inr mapE_eq_Inr split: option.splits if_splits)

lemma run_op_running:
  assumes "run_op sha tm i (Run worker) js = Inr (r, js')" and "jq_status r \<noteq> CANCELED"
  shows "jq_status r = RUNNING \<and> (\<exists>r0. read_job sha js i = Inr r0 \<and> jq_status r0 = QUEUED \<and> same_identity r0 r)"
  using assms(1)
proof (rule run_op_Inr)
  fix r0 assume "read_job sha js i = Inr r0" "r = r0" "change_of (Run worker) tm r0 = Inr None"
  then show ?thesis using assms(2) by (auto simp: mark_running_def raise_if_eq_Inr split: if_splits)
next
  fix r0 r1
  assume *: "read_job sha js i = Inr r0" "change_of (Run worker) tm r0 = Inr (Some r1)" "r = r1\<lparr>jq_updated := tm\<rparr>"
  have "same_identity r0 r" using change_of_identity [OF *(2)] by (simp add: *(3) same_identity_def)
  moreover have "jq_status r0 = QUEUED" "jq_status r1 = RUNNING"
    using *(2) by (auto simp: mark_running_def raise_if_eq_Inr split: if_splits)
  ultimately show ?thesis using *(1) by (simp add: *(3))
qed

text \<open>A worker starts only what was submitted.  When a worker starts the engine for a job of the
  current format, the job was waiting, the run awaits review, its digest is the candidate digest
  the job was submitted with and its files match it, and the run has not been qualified by the
  job's tier.\<close>

theorem worker_starts_submitted_candidate:
  assumes "start_job sha dc describe tm i worker js w = Inr (Engine r q run, js')" and "jq_schema r = 3"
  shows "\<exists>r0. read_job sha js i = Inr r0 \<and> jq_status r0 = QUEUED \<and> same_identity r0 r \<and> jq_status r = RUNNING
    \<and> get_run w (jq_run r) = Inr run \<and> rr_status run = READY_FOR_REVIEW \<and> jq_candidate r0 = Some (rr_artifact run)
    \<and> verify_record sha (store_of w) run = Inr () \<and> tier_path (tier_of q) run = None
    \<and> tier_of q = (case jq_kind r of AlfalfaJob \<Rightarrow> Alfalfa | BoptestJob \<Rightarrow> Boptest | ShadowJob \<Rightarrow> Shadow)"
proof -
  note s = start_job_Engine [OF assms(1)]
  then obtain r0 where r0: "read_job sha js i = Inr r0" "jq_status r0 = QUEUED" "same_identity r0 r" "jq_status r = RUNNING"
    using run_op_running by blast
  have "jq_candidate r0 \<noteq> None" using read_job_input [OF r0(1)] r0(3) assms(2) by (simp add: same_identity_def)
  then obtain h where h: "jq_candidate r0 = Some h" "jq_candidate r = Some h" using r0(3) by (auto simp: same_identity_def)
  then show ?thesis
    using s r0 qualify_begin_Inr [of sha q "jq_run r" "jq_candidate r" w run] qualify_begin_expected [of sha q "jq_run r" h w run]
      tier_of_call by auto
qed

section \<open>What a finished job reports\<close>

lemma qualify_finish_filed:
  assumes "qualify_finish sha t run staged passed w = Inr (run', w')" and "filed w run" and "rr_status run = READY_FOR_REVIEW"
  shows "rr_id run' = rr_id run \<and> get_run w' (rr_id run) = Inr run' \<and> tier_path t run' \<noteq> None
    \<and> rr_status run' = (if passed then READY_FOR_REVIEW else FAILED) \<and> verify_integrity sha w' (rr_id run) = Inr run'"
proof -
  have undecided: "rr_approval run = None" "rr_rejection run = None"
    using assms(2,3) by (auto simp: filed_def review_state_is_consistent_def raise_if_eq_Inr)
  note v = qualify_finish_verifies [OF assms(1) undecided]
  from assms(1) show ?thesis
  proof (rule qualify_finish_Inr)
    fix files
    assume *: "w' = save_run run' (w\<lparr>wb_files := files\<rparr>)" "rr_id run' = rr_id run" "rr_manifest_path run' = rr_manifest_path run"
      "rr_approval run' = rr_approval run" "rr_rejection run' = rr_rejection run"
      "rr_status run' = (if passed then READY_FOR_REVIEW else FAILED)"
      "\<And>u. tier_path u run' \<noteq> None \<longleftrightarrow> u = t \<or> tier_path u run \<noteq> None"
    have "filed w run'"
      using assms(2) undecided *(2-6) by (auto simp: filed_def review_state_is_consistent_def okE_def split: if_splits)
    then have "get_run w' (rr_id run) = Inr run'"
      using get_saved [of "w\<lparr>wb_files := files\<rparr>" run'] *(2) by (simp add: *(1))
    then show ?thesis using * v by (simp add: verify_integrity_def)
  qed
qed

lemma run_op_succeeded:
  assumes "run_op sha tm i (Succeeded artifact passed) js = Inr (r, js')" and "read_job sha js i = Inr r0"
  shows "if jq_status r0 \<in> terminal_statuses then r = r0 \<and> js' = js
    else jq_status r = SUCCEEDED \<and> jq_result r = Some artifact \<and> jq_passed r = Some passed"
  using assms by (auto simp: run_op_def update_job_def mark_succeeded_def save_job_def okE_def Let_def split: if_splits)

text \<open>A job that succeeds reports what the run now holds.  When finishing turns an unfinished job
  into a succeeded one, the run has been saved with evidence of the job's tier, the job's result
  is the digest of that run, it is reported as passed exactly when the run awaits review again,
  and the run's files match its digest.\<close>

theorem succeeded_job_matches_run:
  assumes "finish_job sha describe tm i q run outcome js w = (Inr r, js', w')" and "jq_status r = SUCCEEDED"
    and "read_job sha js i = Inr r0" and "jq_status r0 \<notin> terminal_statuses"
    and "filed w run" and "rr_status run = READY_FOR_REVIEW"
  shows "\<exists>run'. get_run w' (rr_id run) = Inr run' \<and> tier_path (tier_of q) run' \<noteq> None
    \<and> jq_result r = Some (rr_artifact run') \<and> jq_passed r = Some (rr_status run' = READY_FOR_REVIEW)
    \<and> verify_integrity sha w' (rr_id run) = Inr run'"
proof (cases outcome)
  case (EngineDone staged passed)
  then obtain run' where f: "qualify_finish sha (tier_of q) run staged passed w = Inr (run', w')"
    and o: "run_op sha tm i (Succeeded (rr_artifact run') passed) js = Inr (r, js')"
    using assms(1) by (auto simp: finish_job_def Let_def bindE_eq_Inr split: sum.splits)
  from qualify_finish_filed [OF f assms(5,6)] run_op_succeeded [OF o assms(3)] assms(4) show ?thesis
    by (intro exI [of _ run']) (auto split: if_splits)
next
  case (EngineCancelled detail)
  then obtain js2 where "run_op sha tm i (Canceled (Some detail)) js = Inr (r, js2)"
    using assms(1) by (auto simp: finish_job_def Let_def split: sum.splits)
  then have False using assms(2-4)
    by (auto simp: run_op_def update_job_def mark_canceled_def save_job_def okE_def Let_def terminal_statuses_def split: if_splits)
  then show ?thesis ..
next
  case (EngineFailed e)
  then show ?thesis using assms(1) by (simp add: finish_job_def Let_def)
qed

text \<open>C16: a worker that was given up still qualifies its run.  When a job was ended as failed because
  its worker's lease had run out, and the worker then finishes, the run is saved with the new
  evidence, digest and status, while the job remains failed as if there were no result.\<close>

theorem late_worker_still_qualifies:
  assumes "read_job sha js i = Inr r" and "jq_status r = JOB_FAILED"
    and "filed w run" and "rr_status run = READY_FOR_REVIEW"
    and "qualify_finish sha (tier_of q) run staged passed w = Inr (run', w')"
  shows "finish_job sha describe tm i q run (EngineDone staged passed) js w = (Inr r, js, w')
    \<and> get_run w' (rr_id run) = Inr run' \<and> tier_path (tier_of q) run' \<noteq> None
    \<and> rr_status run' = (if passed then READY_FOR_REVIEW else FAILED)"
proof -
  have "run_op sha tm i (Succeeded (rr_artifact run') passed) js = Inr (r, js)"
    using assms(1,2) by (simp add: run_op_def update_job_def mark_succeeded_def terminal_statuses_def okE_def)
  then show ?thesis
    using qualify_finish_filed [OF assms(5,3,4)] assms(5) by (simp add: finish_job_def)
qed

section \<open>Example\<close>

definition sample_decoders :: decoders where
  "sample_decoders = \<lparr>dc_alfalfa = \<lambda>_. Inl (ValueError ''request''), dc_boptest = \<lambda>_. Inl (ValueError ''request''),
     dc_shadow = \<lambda>_. Inr sample_shadow\<rparr>"

definition sample_describe :: "py_error \<Rightarrow> string" where
  "sample_describe e = ''error''"

lemma sample_root: "wb_root (sample_saved r) = [''runs'']" "wb_files (sample_saved r) = sample_files"
  "map fst (wb_manifests (sample_saved r)) = [rr_manifest_path r]"
  by (simp_all add: sample_saved_def save_run_def empty_workbench_def)

lemma sample_manifest: "filed (sample_saved r) r \<Longrightarrow> rr_id r = ''a1'' \<Longrightarrow> rr_manifest_path r = [''runs'', ''a1'', ''manifest.json'']"
  by (simp add: filed_def sample_root manifest_of_def)

lemma worker_starts_submitted_candidate_witness:
  "\<exists>js0 js r run. start_job zero_sha sample_decoders sample_describe 1 sample_job_id ''worker'' js0 (sample_saved run)
       = Inr (Engine r (ShadowRuntime ''default'' ''default'') run, js) \<and> jq_status r = RUNNING
     \<and> jq_candidate r = Some (rr_artifact run)"
proof -
  obtain r js0 js where js: "run_op zero_sha 1 sample_job_id (Run ''worker'') js0 = Inr (r, js)"
    "read_job zero_sha js sample_job_id = Inr r" "jq_status r = RUNNING" "jq_run r = jn_run sample_submission"
    "jq_schema r = 3" "jq_kind r = ShadowJob" "jq_candidate r = Some (jn_candidate sample_submission)"
    using sample_running by blast
  obtain a run where run: "rr_target_path run \<noteq> None" "rr_status run = READY_FOR_REVIEW" "rr_target_kind run = NIAGARA_BOG"
    "\<forall>t. tier_path t run = None" "get_run (sample_saved run) ''a1'' = Inr run"
    "verify_record zero_sha (store_of (sample_saved run)) run = Inr ()"
    using sample_ready [of zero_sha] by blast
  have digest: "jn_candidate sample_submission = rr_artifact run"
    using run(6) by (auto simp: verify_record_Inr artifact_hash_payload zero_sha_def sample_submission_def)
  obtain c where "map_of (js_requests js) sample_job_id = Some c"
    using read_job_recorded(2) [OF js(2)] by (auto simp: check_digest_Inr)
  then have call: "service_call zero_sha sample_decoders js sample_job_id r = Inr (ShadowRuntime ''default'' ''default'')"
    using js(2,6) by (simp add: service_call_def stored_request_def read_entry_def sample_decoders_def sample_shadow_def)
  obtain p where "first_path [rr_target_path run, rr_bog_path run] = Some p"
    using run(1) by (auto simp: first_path_def opt_path_def)
  then have "qualify_begin zero_sha (ShadowRuntime ''default'' ''default'') (jq_run r) (jq_candidate r) (sample_saved run) = Inr run"
    using run by (simp add: qualify_begin_def js(4,7) digest sample_digests(10) check_bound_def require_status_def
        validate_request_def plausible_policies_def okE_def)
  then have start: "start_job zero_sha sample_decoders sample_describe 1 sample_job_id ''worker'' js0 (sample_saved run)
      = Inr (Engine r (ShadowRuntime ''default'' ''default'') run, js)"
    using js(1,3) call by (simp add: start_job_def)
  from worker_starts_submitted_candidate [OF start js(5)] start js(7) digest show ?thesis by auto
qed

lemma sample_saved_finish:
  assumes "filed (sample_saved run) run" and "rr_id run = ''a1''" and "record_artifact_paths run = sample_paths"
  shows "\<exists>r2 w2. qualify_finish sha Boptest run sample_evidence True (sample_saved run) = Inr (r2, w2)"
  by (rule sample_finish [OF assms(2,3)]) (simp_all add: sample_root sample_manifest [OF assms(1,2)])

lemma succeeded_job_matches_run_witness:
  "\<exists>js run r js' w'. finish_job zero_sha sample_describe 5 sample_job_id (BoptestSingle [''temperature'']) run
       (EngineDone sample_evidence True) js (sample_saved run) = (Inr r, js', w')
     \<and> jq_status r = SUCCEEDED \<and> jq_passed r = Some True
     \<and> (\<exists>run'. get_run w' ''a1'' = Inr run' \<and> jq_result r = Some (rr_artifact run'))"
proof -
  obtain r0 js where js: "read_job zero_sha js sample_job_id = Inr r0" "jq_status r0 = RUNNING" using sample_running by blast
  obtain a run where run: "filed (sample_saved run) run" "rr_id run = ''a1''" "rr_status run = READY_FOR_REVIEW"
    "record_artifact_paths run = sample_paths"
    using sample_ready [of zero_sha] by blast
  obtain run' w' where f: "qualify_finish zero_sha Boptest run sample_evidence True (sample_saved run) = Inr (run', w')"
    using sample_saved_finish [OF run(1,2,4), of zero_sha] by auto
  note q = qualify_finish_filed [OF f run(1,3)]
  have active: "jq_status r0 \<notin> terminal_statuses" using js(2) by (simp add: terminal_statuses_def)
  obtain r js' where o: "run_op zero_sha 5 sample_job_id (Succeeded (rr_artifact run') True) js = Inr (r, js')"
    using js(1) active by (simp add: run_op_def update_job_def mark_succeeded_def save_job_def okE_def Let_def)
  have s: "jq_status r = SUCCEEDED" "jq_passed r = Some True" using run_op_succeeded [OF o js(1)] active by simp_all
  have finish: "finish_job zero_sha sample_describe 5 sample_job_id (BoptestSingle [''temperature'']) run
      (EngineDone sample_evidence True) js (sample_saved run) = (Inr r, js', w')"
    using f o q by (simp add: finish_job_def)
  from succeeded_job_matches_run [OF finish s(1) js(1) active run(1,3)] finish s run(2) show ?thesis
    by - (rule exI [of _ js], rule exI [of _ run], rule exI [of _ r], rule exI [of _ js'], rule exI [of _ w'], auto)
qed

lemma late_worker_still_qualifies_witness:
  "\<exists>js run r w'. finish_job zero_sha sample_describe 5 sample_job_id (BoptestSingle [''temperature'']) run
       (EngineDone sample_evidence True) js (sample_saved run) = (Inr r, js, w')
     \<and> jq_status r = JOB_FAILED \<and> (\<exists>run'. get_run w' ''a1'' = Inr run' \<and> tier_path Boptest run' \<noteq> None)"
proof -
  obtain r0 js where js: "read_job zero_sha js sample_job_id = Inr r0" "jq_status r0 = RUNNING" "(job_step zero_sha)\<^sup>*\<^sup>* no_jobs js"
    using sample_running by blast
  have inv: "queue_inv zero_sha js" by (rule queue_inv_reach [OF sample_digests(9) js(3)])
  have rec: "recorded zero_sha sample_job_id r0" using inv read_job_Inr [OF js(1)] unfolding queue_inv_def by blast
  then obtain l where l: "jq_lease r0 = Some l" using js(2) by (auto simp: recorded_def leased_def working_def)
  obtain r js1 where s: "save_job 3 (expired (l + 1) r0) js = (r, js1)" by fastforce
  then have o: "run_op zero_sha 3 sample_job_id (Expire (l + 1)) js = Inr (r, js1)" and st: "jq_status r = JOB_FAILED"
    using expire_working [OF js(1) _ l, of "l + 1" 3] js(2) by (auto simp: working_def save_job_def Let_def)
  have r: "read_job zero_sha js1 sample_job_id = Inr r" by (rule op_reads [OF o _ inv]) simp
  obtain a run where run: "filed (sample_saved run) run" "rr_id run = ''a1''" "rr_status run = READY_FOR_REVIEW"
    "record_artifact_paths run = sample_paths"
    using sample_ready [of zero_sha] by blast
  obtain run' w' where f: "qualify_finish zero_sha (tier_of (BoptestSingle [''temperature''])) run sample_evidence True
      (sample_saved run) = Inr (run', w')"
    using sample_saved_finish [OF run(1,2,4), of zero_sha] by auto
  from late_worker_still_qualifies [OF r st run(1,3) f, of sample_describe 5] st run(2) show ?thesis
    by - (rule exI [of _ js1], rule exI [of _ run], rule exI [of _ r], rule exI [of _ w'], auto)
qed

end
