(* ===== verification/Projects.thy ===== *)
theory Projects
  imports Validation
begin

text \<open>
  The whole-building intake contract of \<open>src/bactalk/projects.py\<close>: relationships between
  equipment, typed signals between independently compiled programs, aggregations of
  several signals into one input, the acceptance phases written against qualified point
  names, and the validator that admits a project.  The evaluation order of the equipment
  (\<open>_equipment_order\<close> in \<open>src/bactalk/project_simulator.py\<close>) is a second instance of the
  locale \<open>indegree_graph\<close>.
\<close>

section \<open>The schema\<close>

record relationship =
  rl_source :: string
  rl_relation :: string
  rl_target :: string

record signal_binding =
  sb_source_equipment :: string
  sb_source_point :: string
  sb_target_equipment :: string
  sb_target_point :: string

record signal_source =
  ss_equipment :: string
  ss_point :: string

datatype reduction = ReduceSum | ReduceMax | ReduceAny

record signal_aggregation =
  sg_target_equipment :: string
  sg_target_point :: string
  sg_sources :: "signal_source list"
  sg_reduce :: reduction

record project_expectation =
  pe_equipment :: string
  pe_point :: string
  pe_operator :: comparison_operator
  pe_value :: pyval
  pe_upper :: "pyfloat option"
  pe_tolerance :: pyfloat

definition project_expectation_range :: "project_expectation \<Rightarrow> unit result" where
  "project_expectation_range e =
     (if pe_operator e = BETWEEN then
        (if is_bool (pe_value e) \<or> pe_upper e = None
         then Inl (ValueError ''between expectations require numeric value and upper'')
         else bindE (py_float (pe_value e)) (\<lambda>v.
           raise_if (case pe_upper e of None \<Rightarrow> False | Some u \<Rightarrow> fless u v)
             ''between expectation value cannot exceed upper'' okE))
      else raise_if (pe_upper e \<noteq> None) ''upper is only valid for a between expectation'' okE)"

definition project_expectation_ok :: "project_expectation \<Rightarrow> bool" where
  "project_expectation_ok e \<longleftrightarrow> is_ident (pe_equipment e) \<and> is_ident (pe_point e)
     \<and> float_or_bool (pe_value e) \<and> fle (Fin 0) (pe_tolerance e) \<and> project_expectation_range e = Inr ()"

record project_phase =
  pp_name :: string
  pp_inputs :: "pyval dict"
  pp_repeat :: nat
  pp_step_seconds :: pyfloat
  pp_expectations :: "project_expectation list"

text \<open>\<open>_qualified_point\<close>; the characters are those of \<^typ>\<open>char\<close>, of which the alphabetic
  ones are the ASCII letters.\<close>

definition qualified_part :: "string \<Rightarrow> bool" where
  "qualified_part name \<longleftrightarrow> name \<noteq> [] \<and> (ascii_alpha (hd name) \<or> hd name = CHR ''_'')
     \<and> (let rest = filter (\<lambda>c. c \<noteq> CHR ''_'') name in
        rest \<noteq> [] \<and> list_all (\<lambda>c. ascii_alpha c \<or> ascii_digit c) rest)"

definition qualified_point :: "string \<Rightarrow> (string \<times> string) option" where
  "qualified_point s = (case split_on (CHR ''.'') s of
       [equipment, point] \<Rightarrow>
         if qualified_part equipment \<and> qualified_part point then Some (equipment, point) else None
     | _ \<Rightarrow> None)"

definition qualified_inputs :: "project_phase \<Rightarrow> unit result" where
  "qualified_inputs p = checks
     (map (\<lambda>kv. raise_if (qualified_point (fst kv) = None)
             ''project acceptance inputs must use EquipmentName.PointName keys'' okE) (pp_inputs p))"

definition project_phase_ok :: "project_phase \<Rightarrow> bool" where
  "project_phase_ok p \<longleftrightarrow> 1 \<le> length (pp_name p) \<and> length (pp_name p) \<le> 200
     \<and> list_all (\<lambda>(_, v). float_or_bool v) (pp_inputs p)
     \<and> repeat_ok (pp_repeat p) \<and> step_ok (pp_step_seconds p)
     \<and> pp_expectations p \<noteq> [] \<and> list_all project_expectation_ok (pp_expectations p)
     \<and> qualified_inputs p = Inr ()"

record project_case =
  pc_name :: string
  pc_phases :: "project_phase list"

definition unique_phases :: "project_case \<Rightarrow> unit result" where
  "unique_phases c =
     raise_if (has_duplicates (map pp_name (pc_phases c))) ''project acceptance phase names must be unique'' okE"

definition project_case_ok :: "project_case \<Rightarrow> bool" where
  "project_case_ok c \<longleftrightarrow> 1 \<le> length (pc_name c) \<and> length (pc_name c) \<le> 200
     \<and> pc_phases c \<noteq> [] \<and> length (pc_phases c) \<le> 10000
     \<and> list_all project_phase_ok (pc_phases c) \<and> unique_phases c = Inr ()"

datatype station_mode = NoAssembly | InsertStation | ReplaceStation

record project_spec =
  pj_name :: string
  pj_site :: string
  pj_equipment :: "job_spec list"
  pj_relationships :: "relationship list"
  pj_bindings :: "signal_binding list"
  pj_aggregations :: "signal_aggregation list"
  pj_acceptance_tests :: "project_case list"
  pj_assembly_mode :: station_mode

section \<open>The signal edges between equipment\<close>

text \<open>One edge enters the adjacency and in-degree dictionaries once, however many signals
  share it; the in-degree of an unknown equipment is a \<open>KeyError\<close>.\<close>

definition add_signal_edge :: "string \<times> string \<Rightarrow> adjacency \<times> degrees \<Rightarrow> (adjacency \<times> degrees) result" where
  "add_signal_edge e s = (case (e, s) of ((src, tgt), (adj, ind)) \<Rightarrow>
     if tgt \<in> set (successors adj src) then Inr (adj, ind)
     else bindE (dict_get ind tgt) (\<lambda>d.
       Inr (AList.update src (successors adj src @ [tgt]) adj, AList.update tgt (d + 1) ind)))"

definition equipment_names :: "project_spec \<Rightarrow> string list" where
  "equipment_names p = map jb_equipment_name (pj_equipment p)"

definition zero_degrees :: "project_spec \<Rightarrow> degrees" where
  "zero_degrees p = dict_of (\<lambda>n. n) (\<lambda>_. 0) (equipment_names p)"

definition binding_edge :: "signal_binding \<Rightarrow> string \<times> string" where
  "binding_edge b = (sb_source_equipment b, sb_target_equipment b)"

definition aggregation_edges :: "signal_aggregation \<Rightarrow> (string \<times> string) list" where
  "aggregation_edges a = map (\<lambda>s. (ss_equipment s, sg_target_equipment a)) (sg_sources a)"

definition signal_edges :: "project_spec \<Rightarrow> (string \<times> string) list" where
  "signal_edges p = map binding_edge (pj_bindings p) @ concat (map aggregation_edges (pj_aggregations p))"

section \<open>\<open>_equipment_order\<close>\<close>

text \<open>\<open>sorted(adjacency[current])\<close>: the dictionary does not change once the loop runs, so the
  successors are sorted beforehand.\<close>

definition sort_successors :: "adjacency \<Rightarrow> adjacency" where
  "sort_successors adj = map (\<lambda>(k, ts). (k, sort ts)) adj"

definition equipment_order :: "project_spec \<Rightarrow> string list result" where
  "equipment_order p =
     bindE (foldE add_signal_edge (signal_edges p) ([], zero_degrees p)) (\<lambda>(adj, ind).
       let queue = sort (map fst (filter (\<lambda>(k, d). d = 0) ind));
           ordered = kahn (sort_successors adj) queue ind
       in raise_if (length ordered \<noteq> length (equipment_names p)) ''project signal graph is cyclic''
            (Inr ordered))"

section \<open>\<open>_validate_signal_contracts\<close>\<close>

definition job_table :: "project_spec \<Rightarrow> job_spec dict" where
  "job_table p = dict_of jb_equipment_name (\<lambda>j. j) (pj_equipment p)"

definition find_point :: "job_spec \<Rightarrow> string \<Rightarrow> point_spec option" where
  "find_point job name = find (\<lambda>pt. pt_name pt = name) (jb_points job)"

definition is_output_role :: "point_role \<Rightarrow> bool" where
  "is_output_role r \<longleftrightarrow> r \<in> {COMMAND, ALARM}"

text \<open>What the two loops carry: the driven targets and the two dictionaries.\<close>

type_synonym contracts = "(string \<times> string) list \<times> adjacency \<times> degrees"

definition externally_bound :: "point_spec \<Rightarrow> bool" where
  "externally_bound pt \<longleftrightarrow> pt_bacnet_object pt \<noteq> None \<or> pt_niagara_ord pt \<noteq> None"

definition schedule_driven :: "job_spec \<Rightarrow> point_spec \<Rightarrow> bool" where
  "schedule_driven job pt \<longleftrightarrow> (\<exists>s \<in> set (dl_schedules (jb_deliverables job)). sc_output_point s = pt_name pt)"

definition drive_target :: "string \<times> string \<Rightarrow> contracts \<Rightarrow> contracts result" where
  "drive_target key c = (case c of (fed, e) \<Rightarrow>
     raise_if (key \<in> set fed) ''project signal target has multiple drivers'' (Inr (key # fed, e)))"

definition connect :: "string \<times> string \<Rightarrow> contracts \<Rightarrow> contracts result" where
  "connect e c = (case c of (fed, s) \<Rightarrow> mapE (Pair fed) (add_signal_edge e s))"

definition check_binding_ends :: "job_spec \<Rightarrow> point_spec \<Rightarrow> point_spec \<Rightarrow> unit result" where
  "check_binding_ends target_job src tgt =
     raise_if (\<not> is_output_role (pt_role src)) ''signal source must be a command or alarm output''
    (raise_if (is_output_role (pt_role tgt)) ''signal target must be an input''
    (raise_if (pt_data_type src \<noteq> pt_data_type tgt) ''project signal binding source and target types must match''
    (raise_if (externally_bound tgt)
       ''bound target cannot also be driven by BACnet or an external Niagara ORD''
    (raise_if (schedule_driven target_job tgt) ''bound target cannot also be schedule-driven'' okE))))"

definition check_binding :: "job_spec dict \<Rightarrow> signal_binding \<Rightarrow> contracts \<Rightarrow> contracts result" where
  "check_binding jobs b c =
     raise_if (sb_source_equipment b = sb_target_equipment b)
       ''project signal bindings must connect different equipment''
     (case (map_of jobs (sb_source_equipment b), map_of jobs (sb_target_equipment b)) of
        (Some source_job, Some target_job) \<Rightarrow>
          (case (find_point source_job (sb_source_point b), find_point target_job (sb_target_point b)) of
             (Some src, Some tgt) \<Rightarrow>
               bindE (check_binding_ends target_job src tgt) (\<lambda>_.
               bindE (drive_target (sb_target_equipment b, sb_target_point b) c) (connect (binding_edge b)))
           | _ \<Rightarrow> Inl (ValueError ''project signal binding references an unknown point''))
      | _ \<Rightarrow> Inl (ValueError ''project signal binding references unknown equipment''))"

definition check_aggregation_target :: "reduction \<Rightarrow> point_spec \<Rightarrow> unit result" where
  "check_aggregation_target r tgt =
     raise_if (is_output_role (pt_role tgt)) ''aggregation target must be an input''
    (bindE (if r = ReduceAny
            then raise_if (pt_data_type tgt \<noteq> BOOLEAN) ''an 'any' aggregation needs a boolean target'' okE
            else raise_if (pt_data_type tgt \<noteq> NUMERIC) ''the aggregation needs a numeric target'' okE) (\<lambda>_.
     raise_if (externally_bound tgt) ''aggregated target cannot also be driven by BACnet or an ORD'' okE))"

definition check_signal_source :: "job_spec dict \<Rightarrow> string \<Rightarrow> point_spec \<Rightarrow> signal_source \<Rightarrow>
    (string \<times> string) list \<times> contracts \<Rightarrow> ((string \<times> string) list \<times> contracts) result" where
  "check_signal_source jobs target_equipment tgt s c = (case c of (seen, contracts) \<Rightarrow>
     raise_if (ss_equipment s = target_equipment) ''project signal aggregations must connect different equipment''
     (case map_of jobs (ss_equipment s) of
        None \<Rightarrow> Inl (ValueError ''project signal aggregation references unknown equipment'')
      | Some source_job \<Rightarrow>
         (case find_point source_job (ss_point s) of
            None \<Rightarrow> Inl (ValueError ''project signal aggregation references an unknown point'')
          | Some pt \<Rightarrow>
              raise_if (\<not> is_output_role (pt_role pt)) ''aggregation source must be a command or alarm output''
             (raise_if (pt_data_type pt \<noteq> pt_data_type tgt) ''aggregation source and target types must match''
             (raise_if ((ss_equipment s, ss_point s) \<in> set seen) ''aggregation sources must be unique''
             (bindE (connect (ss_equipment s, target_equipment) contracts) (\<lambda>contracts.
              Inr ((ss_equipment s, ss_point s) # seen, contracts))))))))"

definition check_aggregation :: "job_spec dict \<Rightarrow> signal_aggregation \<Rightarrow> contracts \<Rightarrow> contracts result" where
  "check_aggregation jobs a c = (case map_of jobs (sg_target_equipment a) of
       None \<Rightarrow> Inl (ValueError ''project signal aggregation references unknown equipment'')
     | Some target_job \<Rightarrow>
         (case find_point target_job (sg_target_point a) of
            None \<Rightarrow> Inl (ValueError ''project signal aggregation references an unknown point'')
          | Some tgt \<Rightarrow>
              bindE (check_aggregation_target (sg_reduce a) tgt) (\<lambda>_.
              bindE (drive_target (sg_target_equipment a, sg_target_point a) c) (\<lambda>c.
              mapE snd (foldE (check_signal_source jobs (sg_target_equipment a) tgt) (sg_sources a) ([], c))))))"

text \<open>The acceptance phases: inputs must be undriven inputs of the right type, expectations
  must observe outputs.\<close>

definition check_project_input :: "job_spec dict \<Rightarrow> (string \<times> string) list \<Rightarrow> string \<times> pyval \<Rightarrow> unit result" where
  "check_project_input jobs fed kv = (case qualified_point (fst kv) of
       None \<Rightarrow> Inl (ValueError ''invalid qualified project input'')
     | Some (equipment, point) \<Rightarrow>
         (case (case map_of jobs equipment of None \<Rightarrow> None | Some job \<Rightarrow> find_point job point) of
            None \<Rightarrow> Inl (ValueError ''project input is not an equipment input'')
          | Some pt \<Rightarrow>
              raise_if (is_output_role (pt_role pt)) ''project input is not an equipment input''
             (raise_if ((equipment, point) \<in> set fed) ''project input is driven by a signal binding''
             (raise_if ((pt_data_type pt = BOOLEAN) \<noteq> is_bool (snd kv))
                ''project input has the wrong data type'' okE))))"

definition job_outputs :: "job_spec \<Rightarrow> point_spec dict" where
  "job_outputs job = dict_of pt_name (\<lambda>pt. pt) (filter (\<lambda>pt. is_output_role (pt_role pt)) (jb_points job))"

definition outputs_by_job :: "project_spec \<Rightarrow> point_spec dict dict" where
  "outputs_by_job p = dict_of jb_equipment_name job_outputs (pj_equipment p)"

definition check_project_expectation :: "point_spec dict dict \<Rightarrow> project_expectation \<Rightarrow> unit result" where
  "check_project_expectation outs e =
     (case map_of (case map_of outs (pe_equipment e) of None \<Rightarrow> [] | Some d \<Rightarrow> d) (pe_point e) of
        None \<Rightarrow> Inl (ValueError ''project expectation is not an equipment output'')
      | Some pt \<Rightarrow>
          raise_if ((pt_data_type pt = BOOLEAN) \<noteq> is_bool (pe_value e)) ''project expectation has the wrong data type''
         (raise_if (pt_data_type pt = BOOLEAN \<and> pe_operator e \<notin> {EQ, NE})
            ''boolean project expectations only support eq or ne'' okE))"

definition check_project_phase :: "project_spec \<Rightarrow> (string \<times> string) list \<Rightarrow> project_phase \<Rightarrow> unit result" where
  "check_project_phase p fed ph =
     bindE (checks (map (check_project_input (job_table p) fed) (pp_inputs ph))) (\<lambda>_.
     checks (map (check_project_expectation (outputs_by_job p)) (pp_expectations ph)))"

definition project_phases :: "project_spec \<Rightarrow> project_phase list" where
  "project_phases p = concat (map pc_phases (pj_acceptance_tests p))"

definition observed_outputs :: "project_spec \<Rightarrow> (string \<times> string) list" where
  "observed_outputs p =
     map (\<lambda>e. (pe_equipment e, pe_point e)) (concat (map pp_expectations (project_phases p)))"

definition downstream_outputs :: "project_spec \<Rightarrow> (string \<times> string) list result" where
  "downstream_outputs p =
     mapE concat (traverseE (\<lambda>e. mapE (\<lambda>d. map (Pair e) (map fst d)) (dict_get (outputs_by_job p) e))
       (remdups (map sb_target_equipment (pj_bindings p) @ map sg_target_equipment (pj_aggregations p))))"

definition validate_signal_contracts :: "project_spec \<Rightarrow> unit result" where
  "validate_signal_contracts p =
     bindE (foldE (check_binding (job_table p)) (pj_bindings p) ([], [], zero_degrees p)) (\<lambda>c.
     bindE (foldE (check_aggregation (job_table p)) (pj_aggregations p) c) (\<lambda>(fed, adj, ind).
     let signals = pj_bindings p \<noteq> [] \<or> pj_aggregations p \<noteq> [];
         visited = length (kahn adj (map fst (filter (\<lambda>(k, d). d = 0) ind)) ind) in
     raise_if (visited \<noteq> length (job_table p)) ''project signal bindings contain an equipment cycle''
    (raise_if (signals \<and> pj_acceptance_tests p = [])
       ''cross-equipment signal bindings require project acceptance tests''
    (bindE (checks (map (check_project_phase p fed) (project_phases p))) (\<lambda>_.
     if signals then
       bindE (downstream_outputs p) (\<lambda>outs.
       raise_if (\<exists>k \<in> set outs. k \<notin> set (observed_outputs p))
         ''project acceptance tests do not observe downstream outputs'' okE)
     else okE)))))"

section \<open>\<open>validate_topology\<close>\<close>

fun check_relationships :: "string list \<Rightarrow> (string \<times> string \<times> string) list \<Rightarrow> relationship list \<Rightarrow> unit result" where
  "check_relationships known seen [] = okE"
| "check_relationships known seen (r # rs) =
     raise_if (rl_source r \<notin> set known \<or> rl_target r \<notin> set known) ''relationship references unknown equipment''
    (raise_if ((rl_source r, rl_relation r, rl_target r) \<in> set seen) ''project relationships must be unique''
    (check_relationships known ((rl_source r, rl_relation r, rl_target r) # seen) rs))"

definition conflicting_mode :: "job_spec \<Rightarrow> bool" where
  "conflicting_mode job \<longleftrightarrow> (case dl_shop_profile (jb_deliverables job) of
       None \<Rightarrow> False | Some prof \<Rightarrow> sp_station_template_mode prof \<noteq> CompareOnly)"

definition validate_topology :: "project_spec \<Rightarrow> unit result" where
  "validate_topology p =
     raise_if (has_duplicates (equipment_names p)) ''equipment names must be unique within a project''
    (raise_if (\<exists>job \<in> set (pj_equipment p). jb_site job \<noteq> pj_site p) ''equipment jobs must use the project site''
    (raise_if (\<exists>job \<in> set (pj_equipment p). conflicting_mode job)
       ''project equipment must leave station_template_mode at compare_only''
    (bindE (check_relationships (equipment_names p) [] (pj_relationships p)) (\<lambda>_.
     validate_signal_contracts p))))"

text \<open>A \<open>ProjectSpec\<close> exists when its fields pass, each of its jobs is a valid \<open>JobSpec\<close>, and
  the topology is accepted.  Of the fields of a job, those the signals use are stated.\<close>

definition project_job_ok :: "job_spec \<Rightarrow> bool" where
  "project_job_ok job \<longleftrightarrow> is_ident (jb_equipment_name job) \<and> distinct (map pt_name (jb_points job))
     \<and> list_all (\<lambda>pt. is_ident (pt_name pt)) (jb_points job)"

definition project_ok :: "project_spec \<Rightarrow> bool" where
  "project_ok p \<longleftrightarrow> 1 \<le> length (pj_name p) \<and> length (pj_name p) \<le> 200
     \<and> 1 \<le> length (pj_site p) \<and> length (pj_site p) \<le> 200
     \<and> pj_equipment p \<noteq> [] \<and> length (pj_equipment p) \<le> 10000 \<and> list_all project_job_ok (pj_equipment p)
     \<and> list_all (\<lambda>a. sg_sources a \<noteq> [] \<and> length (sg_sources a) \<le> 10000) (pj_aggregations p)
     \<and> list_all project_case_ok (pj_acceptance_tests p) \<and> validate_topology p = Inr ()"

section \<open>The dictionaries hold the distinct edges\<close>

definition edge_inv :: "string list \<Rightarrow> (string \<times> string) set \<Rightarrow> adjacency \<times> degrees \<Rightarrow> bool" where
  "edge_inv names E s \<longleftrightarrow> finite E \<and> map fst (snd s) = names
     \<and> (\<forall>k. distinct (successors (fst s) k) \<and> set (successors (fst s) k) = {t. (k, t) \<in> E})
     \<and> (\<forall>t. degree_of (snd s) t = int (card {k. (k, t) \<in> E}))"

lemma edge_inv_insert:
  assumes inv: "edge_inv names E s" and t: "snd e \<in> set names"
  shows "\<exists>s'. add_signal_edge e s = Inr s' \<and> edge_inv names (insert e E) s'"
proof -
  obtain src tgt adj ind where e: "e = (src, tgt)" and s: "s = (adj, ind)" by (cases e, cases s) auto
  have fin: "finite {k. (k, t) \<in> E}" for t
  proof (rule finite_subset)
    show "{k. (k, t) \<in> E} \<subseteq> fst ` E" by force
    show "finite (fst ` E)" using inv by (simp add: edge_inv_def)
  qed
  show ?thesis
  proof (cases "(src, tgt) \<in> E")
    case True
    then show ?thesis using inv by (auto simp: add_signal_edge_def e s edge_inv_def insert_absorb)
  next
    case False
    then have new: "tgt \<notin> set (successors adj src)" using inv by (simp add: edge_inv_def s)
    have "tgt \<in> set (map fst ind)" using inv t by (simp add: edge_inv_def e s)
    then obtain d where d: "map_of ind tgt = Some d" by (metis map_of_eq_None_iff not_Some_eq set_map)
    let ?s' = "(AList.update src (successors adj src @ [tgt]) adj, AList.update tgt (d + 1) ind)"
    have "add_signal_edge e s = Inr ?s'" using new d by (simp add: add_signal_edge_def e s dict_get_def)
    moreover have "edge_inv names (insert e E) ?s'"
    proof -
      have keys: "map fst (AList.update tgt (d + 1) ind) = names"
        using inv \<open>tgt \<in> set (map fst ind)\<close> by (simp add: edge_inv_def s update_keys)
      have "degree_of ind tgt = int (card {k. (k, tgt) \<in> E})" using inv by (simp add: edge_inv_def s)
      then have deg: "d = int (card {k. (k, tgt) \<in> E})" by (simp add: degree_of_def d)
      have into: "{k. (k, tgt) \<in> insert e E} = insert src {k. (k, tgt) \<in> E}" by (auto simp: e)
      have other: "{k. (k, t) \<in> insert e E} = {k. (k, t) \<in> E}" if "t \<noteq> tgt" for t using that by (auto simp: e)
      have "card {k. (k, tgt) \<in> insert e E} = Suc (card {k. (k, tgt) \<in> E})"
        unfolding into using fin False by simp
      then have "degree_of (AList.update tgt (d + 1) ind) t = int (card {k. (k, t) \<in> insert e E})" for t
        using inv other by (cases "t = tgt") (simp_all add: deg edge_inv_def s)
      moreover have "distinct (successors (AList.update src (successors adj src @ [tgt]) adj) k)
          \<and> set (successors (AList.update src (successors adj src @ [tgt]) adj) k) = {t. (k, t) \<in> insert e E}" for k
        using inv new by (auto simp: edge_inv_def s e)
      ultimately show ?thesis using inv keys by (simp add: edge_inv_def)
    qed
    ultimately show ?thesis by blast
  qed
qed

lemma edge_loop:
  assumes "edge_inv names E s" and "\<forall>e \<in> set es. snd e \<in> set names"
  shows "\<exists>s'. foldE add_signal_edge es s = Inr s' \<and> edge_inv names (E \<union> set es) s'"
  using assms
proof (induction es arbitrary: E s)
  case (Cons e es)
  obtain s1 where s1: "add_signal_edge e s = Inr s1" "edge_inv names (insert e E) s1"
    using edge_inv_insert [OF Cons.prems(1), of e] Cons.prems(2) by auto
  from Cons.IH [OF s1(2)] Cons.prems(2) show ?case by (simp add: s1(1))
qed simp

definition signals_known :: "project_spec \<Rightarrow> bool" where
  "signals_known p \<longleftrightarrow> distinct (equipment_names p)
     \<and> (\<forall>(s, t) \<in> set (signal_edges p). s \<in> set (equipment_names p) \<and> t \<in> set (equipment_names p))"

definition signal_dicts :: "project_spec \<Rightarrow> adjacency \<times> degrees" where
  "signal_dicts p = (case foldE add_signal_edge (signal_edges p) ([], zero_degrees p) of
       Inr s \<Rightarrow> s | Inl _ \<Rightarrow> ([], []))"

definition distinct_edges :: "project_spec \<Rightarrow> (string \<times> string) list" where
  "distinct_edges p = remdups (signal_edges p)"

lemma dict_of_keys_distinct: "distinct (map key xs) \<Longrightarrow> map fst (dict_of key val xs) = map key xs"
proof -
  have "map fst (fold (\<lambda>x. AList.update (key x) (val x)) xs d) = map fst d @ map key xs"
    if "distinct (map fst d @ map key xs)" for d
    using that
  proof (induction xs arbitrary: d)
    case (Cons x xs)
    then have "distinct (map fst (AList.update (key x) (val x) d) @ map key xs)"
      by (auto simp: update_keys dom_update)
    from Cons.IH [OF this] show ?case using Cons.prems by (simp add: update_keys)
  qed simp
  from this [of "[]"] show "distinct (map key xs) \<Longrightarrow> ?thesis" by (simp add: dict_of_def)
qed

lemma edge_inv_initial:
  assumes "distinct (equipment_names p)"
  shows "edge_inv (equipment_names p) {} ([], zero_degrees p)"
proof -
  have "map_of (zero_degrees p) k = Some d \<Longrightarrow> d = 0" for k d
    by (auto simp: zero_degrees_def map_of_dict_of dest!: map_of_SomeD)
  then have "degree_of (zero_degrees p) k = 0" for k by (auto simp: degree_of_def split: option.splits)
  then show ?thesis
    using dict_of_keys_distinct [of "\<lambda>n. n" "equipment_names p" "\<lambda>_. 0"] assms
    by (simp add: edge_inv_def zero_degrees_def successors_def)
qed

lemma signal_dicts_inv:
  assumes "signals_known p"
  shows "foldE add_signal_edge (signal_edges p) ([], zero_degrees p) = Inr (signal_dicts p)"
    and "edge_inv (equipment_names p) (set (signal_edges p)) (signal_dicts p)"
proof -
  have "distinct (equipment_names p)" "\<forall>e \<in> set (signal_edges p). snd e \<in> set (equipment_names p)"
    using assms by (auto simp: signals_known_def)
  from edge_loop [OF edge_inv_initial [OF this(1)] this(2)]
  show "foldE add_signal_edge (signal_edges p) ([], zero_degrees p) = Inr (signal_dicts p)"
    and "edge_inv (equipment_names p) (set (signal_edges p)) (signal_dicts p)"
    by (auto simp: signal_dicts_def)
qed

lemma count_list_distinct: "distinct xs \<Longrightarrow> count_list xs x = (if x \<in> set xs then 1 else 0)"
  by (induction xs) auto

lemma incoming_count: "length (filter (\<lambda>e. snd e = t) (distinct_edges p)) = card {k. (k, t) \<in> set (signal_edges p)}"
proof -
  have "length (filter (\<lambda>e. snd e = t) (distinct_edges p)) = card (set (filter (\<lambda>e. snd e = t) (distinct_edges p)))"
    by (rule distinct_card [symmetric]) (simp add: distinct_edges_def)
  also have "set (filter (\<lambda>e. snd e = t) (distinct_edges p)) = (\<lambda>k. (k, t)) ` {k. (k, t) \<in> set (signal_edges p)}"
    by (auto simp: distinct_edges_def)
  also have "card \<dots> = card {k. (k, t) \<in> set (signal_edges p)}" by (rule card_image) (simp add: inj_on_def)
  finally show ?thesis .
qed

lemma successors_sorted: "successors (sort_successors adj) k = sort (successors adj k)"
  by (induction adj) (auto simp: successors_def sort_successors_def)

lemma sorted_count: "distinct xs \<Longrightarrow> count_list (sort xs) x = count_list xs x"
  by (simp add: count_list_distinct)

text \<open>The validator's loop and \<open>_equipment_order\<close> are both instances of the sort's contract;
  the second one takes names and successors in sorted order.\<close>

lemma signal_counts:
  assumes "signals_known p"
  shows "count_list (successors (fst (signal_dicts p)) s) t = count_list (distinct_edges p) (s, t)"
    and "distinct (successors (fst (signal_dicts p)) s)"
    and "degree_of (snd (signal_dicts p)) t = int (length (filter (\<lambda>e. snd e = t) (distinct_edges p)))"
  using signal_dicts_inv(2) [OF assms]
  by (simp_all add: edge_inv_def count_list_distinct incoming_count) (simp_all add: distinct_edges_def count_list_distinct)

interpretation contracts: indegree_graph equipment_names distinct_edges "\<lambda>p. fst (signal_dicts p)"
  "\<lambda>p. snd (signal_dicts p)" signals_known
proof
  fix p s t
  assume p: "signals_known p"
  show "distinct (equipment_names p)" using p by (simp add: signals_known_def)
  show "s \<in> set (equipment_names p) \<and> t \<in> set (equipment_names p)" if "(s, t) \<in> set (distinct_edges p)"
    using p that by (auto simp: signals_known_def distinct_edges_def)
  show "degree_of (snd (signal_dicts p)) t = 0" if t: "t \<notin> set (equipment_names p)"
  proof -
    have "filter (\<lambda>e. snd e = t) (distinct_edges p) = []"
      using p t by (auto simp: signals_known_def distinct_edges_def filter_empty_conv)
    then show ?thesis by (simp add: signal_counts(3) [OF p])
  qed
qed (simp_all add: signal_counts)

interpretation scheduling: indegree_graph "\<lambda>p. sort (equipment_names p)" distinct_edges
  "\<lambda>p. sort_successors (fst (signal_dicts p))" "\<lambda>p. snd (signal_dicts p)" signals_known
proof
  fix p s t
  assume p: "signals_known p"
  show "distinct (sort (equipment_names p))" using contracts.nodes_distinct [OF p] by simp
  show "s \<in> set (sort (equipment_names p)) \<and> t \<in> set (sort (equipment_names p))"
    if "(s, t) \<in> set (distinct_edges p)"
    using contracts.edges_nodes [OF p that] by simp
  show "count_list (successors (sort_successors (fst (signal_dicts p))) s) t = count_list (distinct_edges p) (s, t)"
    by (simp add: successors_sorted sorted_count signal_counts [OF p])
  show "degree_of (snd (signal_dicts p)) t = int (length (filter (\<lambda>e. snd e = t) (distinct_edges p)))"
    by (rule signal_counts(3) [OF p])
  show "degree_of (snd (signal_dicts p)) t = 0" if "t \<notin> set (sort (equipment_names p))"
    using contracts.ind_other [OF p, of t] that by simp
qed

lemma set_distinct_edges [simp]: "set (distinct_edges p) = set (signal_edges p)"
  by (simp add: distinct_edges_def)

text \<open>Both queues are the sort's initial queue.\<close>

lemma degree_items:
  assumes "signals_known p"
  shows "map fst (filter (\<lambda>(k, d). d = 0) (snd (signal_dicts p))) = contracts.initial_queue p"
proof -
  have keys: "map fst (snd (signal_dicts p)) = equipment_names p"
    using signal_dicts_inv(2) [OF assms] by (simp add: edge_inv_def)
  then show ?thesis
    using queue_from_items [of "snd (signal_dicts p)"] contracts.nodes_distinct [OF assms]
    by (simp add: contracts.initial_queue_def)
qed

lemma equipment_order_sort:
  assumes "signals_known p"
  shows "equipment_order p = raise_if (length (scheduling.sort_nodes p) \<noteq> length (equipment_names p))
           ''project signal graph is cyclic'' (Inr (scheduling.sort_nodes p))"
proof -
  have "sort (contracts.initial_queue p) = scheduling.initial_queue p"
    by (simp add: contracts.initial_queue_def scheduling.initial_queue_def filter_sort)
  then show ?thesis
    using degree_items [OF assms]
    by (simp add: equipment_order_def signal_dicts_inv(1) [OF assms] scheduling.sort_nodes_def
        split_beta Let_def)
qed

lemma equipment_order_acyclic:
  assumes p: "signals_known p" and acyclic: "acyclic (set (signal_edges p))"
  shows "equipment_order p = Inr (scheduling.sort_nodes p)" and "distinct (scheduling.sort_nodes p)"
    and "set (scheduling.sort_nodes p) = set (equipment_names p)"
    and "(s, t) \<in> set (signal_edges p) \<Longrightarrow> before (scheduling.sort_nodes p) s t"
proof -
  have complete: "length (scheduling.sort_nodes p) = length (sort (equipment_names p))"
    using scheduling.sort_complete_iff_acyclic [OF p] acyclic by simp
  then show "equipment_order p = Inr (scheduling.sort_nodes p)" by (simp add: equipment_order_sort [OF p])
  show all: "set (scheduling.sort_nodes p) = set (equipment_names p)"
    using scheduling.sort_length_iff [OF p] complete by simp
  show "distinct (scheduling.sort_nodes p)" by (rule scheduling.sort_distinct [OF p])
  show "before (scheduling.sort_nodes p) s t" if "(s, t) \<in> set (signal_edges p)"
    using scheduling.sort_before [OF p, of s t] contracts.edges_nodes [OF p, of s t] that all by simp
qed

section \<open>What an accepted project has established\<close>

definition project_point :: "project_spec \<Rightarrow> string \<Rightarrow> string \<Rightarrow> point_spec option" where
  "project_point p equipment name =
     (case map_of (job_table p) equipment of None \<Rightarrow> None | Some job \<Rightarrow> find_point job name)"

definition undriven :: "job_spec \<Rightarrow> point_spec \<Rightarrow> bool" where
  "undriven job pt \<longleftrightarrow> \<not> externally_bound pt \<and> \<not> schedule_driven job pt"

definition binding_ok :: "project_spec \<Rightarrow> signal_binding \<Rightarrow> bool" where
  "binding_ok p b \<longleftrightarrow> sb_source_equipment b \<noteq> sb_target_equipment b \<and> (\<exists>job src tgt.
     project_point p (sb_source_equipment b) (sb_source_point b) = Some src
     \<and> map_of (job_table p) (sb_target_equipment b) = Some job
     \<and> project_point p (sb_target_equipment b) (sb_target_point b) = Some tgt
     \<and> is_output_role (pt_role src) \<and> \<not> is_output_role (pt_role tgt)
     \<and> pt_data_type src = pt_data_type tgt \<and> undriven job tgt)"

definition aggregation_ok :: "project_spec \<Rightarrow> signal_aggregation \<Rightarrow> bool" where
  "aggregation_ok p a \<longleftrightarrow> (\<exists>tgt. project_point p (sg_target_equipment a) (sg_target_point a) = Some tgt
     \<and> \<not> is_output_role (pt_role tgt) \<and> \<not> externally_bound tgt
     \<and> pt_data_type tgt = (if sg_reduce a = ReduceAny then BOOLEAN else NUMERIC)
     \<and> distinct (map (\<lambda>s. (ss_equipment s, ss_point s)) (sg_sources a))
     \<and> (\<forall>s \<in> set (sg_sources a). ss_equipment s \<noteq> sg_target_equipment a
          \<and> (\<exists>src. project_point p (ss_equipment s) (ss_point s) = Some src
               \<and> is_output_role (pt_role src) \<and> pt_data_type src = pt_data_type tgt)))"

definition binding_target :: "signal_binding \<Rightarrow> string \<times> string" where
  "binding_target b = (sb_target_equipment b, sb_target_point b)"

definition aggregation_target :: "signal_aggregation \<Rightarrow> string \<times> string" where
  "aggregation_target a = (sg_target_equipment a, sg_target_point a)"

definition signal_targets :: "project_spec \<Rightarrow> (string \<times> string) list" where
  "signal_targets p = map binding_target (pj_bindings p) @ map aggregation_target (pj_aggregations p)"

lemma project_pointI: "map_of (job_table p) e = Some job \<Longrightarrow> project_point p e n = find_point job n"
  by (simp add: project_point_def)

lemma check_binding_Inr:
  assumes "check_binding (job_table p) b (fed, s) = Inr c"
  shows "binding_ok p b" and "binding_target b \<notin> set fed"
    and "\<exists>s'. add_signal_edge (binding_edge b) s = Inr s' \<and> c = (binding_target b # fed, s')"
  using assms
  by (auto simp: check_binding_def check_binding_ends_def binding_ok_def undriven_def binding_target_def
      drive_target_def connect_def raise_if_eq_Inr bindE_eq_Inr mapE_eq_Inr project_pointI
      split: option.splits)

lemma binding_loop:
  assumes "foldE (check_binding (job_table p)) bs (fed, s) = Inr c"
  shows "(\<forall>b \<in> set bs. binding_ok p b) \<and> distinct (map binding_target bs)
    \<and> set (map binding_target bs) \<inter> set fed = {}
    \<and> (\<exists>s'. foldE add_signal_edge (map binding_edge bs) s = Inr s' \<and> c = (rev (map binding_target bs) @ fed, s'))"
  using assms
proof (induction bs arbitrary: fed s)
  case (Cons b bs)
  obtain s1 where b: "check_binding (job_table p) b (fed, s) = Inr (binding_target b # fed, s1)"
    and s1: "add_signal_edge (binding_edge b) s = Inr s1"
    and rest: "foldE (check_binding (job_table p)) bs (binding_target b # fed, s1) = Inr c"
    using Cons.prems check_binding_Inr(3) [of p b fed s] by (auto simp: bindE_eq_Inr)
  show ?case
    using Cons.IH [OF rest] check_binding_Inr(1,2) [OF b] by (auto simp: s1)
qed simp

lemma check_source_Inr:
  assumes "check_signal_source (job_table p) e tgt src (seen, fed, s) = Inr c"
  shows "ss_equipment src \<noteq> e" and "(ss_equipment src, ss_point src) \<notin> set seen"
    and "\<exists>pt. project_point p (ss_equipment src) (ss_point src) = Some pt \<and> is_output_role (pt_role pt)
      \<and> pt_data_type pt = pt_data_type tgt"
    and "\<exists>s'. add_signal_edge (ss_equipment src, e) s = Inr s'
      \<and> c = ((ss_equipment src, ss_point src) # seen, fed, s')"
  using assms
  by (auto simp: check_signal_source_def connect_def raise_if_eq_Inr bindE_eq_Inr mapE_eq_Inr project_pointI
      split: option.splits)

lemma source_loop:
  assumes "foldE (check_signal_source (job_table p) e tgt) ss (seen, fed, s) = Inr c"
  shows "(\<forall>src \<in> set ss. ss_equipment src \<noteq> e \<and> (\<exists>pt. project_point p (ss_equipment src) (ss_point src) = Some pt
        \<and> is_output_role (pt_role pt) \<and> pt_data_type pt = pt_data_type tgt))
    \<and> distinct (map (\<lambda>s. (ss_equipment s, ss_point s)) ss)
    \<and> set (map (\<lambda>s. (ss_equipment s, ss_point s)) ss) \<inter> set seen = {}
    \<and> (\<exists>s'. foldE add_signal_edge (map (\<lambda>s. (ss_equipment s, e)) ss) s = Inr s' \<and> snd c = (fed, s'))"
  using assms
proof (induction ss arbitrary: seen s)
  case (Cons src ss)
  let ?key = "(ss_equipment src, ss_point src)"
  obtain s1 where src: "check_signal_source (job_table p) e tgt src (seen, fed, s) = Inr (?key # seen, fed, s1)"
    and s1: "add_signal_edge (ss_equipment src, e) s = Inr s1"
    and rest: "foldE (check_signal_source (job_table p) e tgt) ss (?key # seen, fed, s1) = Inr c"
    using Cons.prems check_source_Inr(4) [of p e tgt src seen fed s] by (auto simp: bindE_eq_Inr)
  show ?case
    using Cons.IH [OF rest] check_source_Inr(1-3) [OF src] by (auto simp: s1)
qed auto

lemma check_aggregation_Inr:
  assumes "check_aggregation (job_table p) a (fed, s) = Inr c"
  shows "aggregation_ok p a" and "aggregation_target a \<notin> set fed"
    and "\<exists>s'. foldE add_signal_edge (aggregation_edges a) s = Inr s' \<and> c = (aggregation_target a # fed, s')"
proof -
  obtain job tgt seen where job: "map_of (job_table p) (sg_target_equipment a) = Some job"
    and tgt: "find_point job (sg_target_point a) = Some tgt"
    and ok: "check_aggregation_target (sg_reduce a) tgt = Inr ()"
    and new: "aggregation_target a \<notin> set fed"
    and loop: "foldE (check_signal_source (job_table p) (sg_target_equipment a) tgt) (sg_sources a)
      ([], aggregation_target a # fed, s) = Inr (seen, c)"
    using assms
    by (auto simp: check_aggregation_def drive_target_def aggregation_target_def raise_if_eq_Inr bindE_eq_Inr
        mapE_eq_Inr split: option.splits)
  show "aggregation_target a \<notin> set fed" by (rule new)
  show "\<exists>s'. foldE add_signal_edge (aggregation_edges a) s = Inr s' \<and> c = (aggregation_target a # fed, s')"
    using source_loop [OF loop] by (auto simp: aggregation_edges_def)
  show "aggregation_ok p a"
    using source_loop [OF loop] ok
    by (auto simp: aggregation_ok_def project_pointI [OF job] tgt check_aggregation_target_def bindE_eq_Inr
        raise_if_eq_Inr split: if_splits)
qed

lemma aggregation_loop:
  assumes "foldE (check_aggregation (job_table p)) as (fed, s) = Inr c"
  shows "(\<forall>a \<in> set as. aggregation_ok p a) \<and> distinct (map aggregation_target as)
    \<and> set (map aggregation_target as) \<inter> set fed = {}
    \<and> (\<exists>s'. foldE add_signal_edge (concat (map aggregation_edges as)) s = Inr s'
         \<and> c = (rev (map aggregation_target as) @ fed, s'))"
  using assms
proof (induction as arbitrary: fed s)
  case (Cons a as)
  obtain s1 where a: "check_aggregation (job_table p) a (fed, s) = Inr (aggregation_target a # fed, s1)"
    and s1: "foldE add_signal_edge (aggregation_edges a) s = Inr s1"
    and rest: "foldE (check_aggregation (job_table p)) as (aggregation_target a # fed, s1) = Inr c"
    using Cons.prems check_aggregation_Inr(3) [of p a fed s] by (auto simp: bindE_eq_Inr)
  show ?case
    using Cons.IH [OF rest] check_aggregation_Inr(1,2) [OF a] by (auto simp: s1 foldE_append)
qed simp

lemma project_point_known: "project_point p e n = Some pt \<Longrightarrow> e \<in> set (equipment_names p)"
  by (auto simp: project_point_def job_table_def equipment_names_def split: option.splits
      dest!: map_of_dict_of_Some)

lemma accepted_edges_known:
  assumes "distinct (equipment_names p)"
    and "\<forall>b \<in> set (pj_bindings p). binding_ok p b" and "\<forall>a \<in> set (pj_aggregations p). aggregation_ok p a"
  shows "signals_known p"
  using assms project_point_known
  by (fastforce simp: signals_known_def signal_edges_def binding_edge_def aggregation_edges_def binding_ok_def
      aggregation_ok_def)

text \<open>The facts an accepted project gives its clients.\<close>

definition signals_sound :: "project_spec \<Rightarrow> bool" where
  "signals_sound p \<longleftrightarrow> distinct (equipment_names p)
     \<and> (\<forall>b \<in> set (pj_bindings p). binding_ok p b) \<and> (\<forall>a \<in> set (pj_aggregations p). aggregation_ok p a)
     \<and> distinct (signal_targets p) \<and> acyclic (set (signal_edges p))
     \<and> (\<forall>ph \<in> set (project_phases p). check_project_phase p (rev (signal_targets p)) ph = Inr ())"

lemma validate_topology_sound:
  assumes "validate_topology p = Inr ()"
  shows "signals_sound p"
proof -
  have names: "distinct (equipment_names p)" and contracts: "validate_signal_contracts p = Inr ()"
    using assms by (auto simp: validate_topology_def raise_if_eq_Inr bindE_eq_Inr)
  obtain fed1 s1 where bs: "foldE (check_binding (job_table p)) (pj_bindings p) ([], [], zero_degrees p) = Inr (fed1, s1)"
    and rest: "bindE (foldE (check_aggregation (job_table p)) (pj_aggregations p) (fed1, s1)) (\<lambda>(fed, adj, ind).
      let signals = pj_bindings p \<noteq> [] \<or> pj_aggregations p \<noteq> [];
          visited = length (kahn adj (map fst (filter (\<lambda>(k, d). d = 0) ind)) ind) in
      raise_if (visited \<noteq> length (job_table p)) ''project signal bindings contain an equipment cycle''
     (raise_if (signals \<and> pj_acceptance_tests p = [])
        ''cross-equipment signal bindings require project acceptance tests''
     (bindE (checks (map (check_project_phase p fed) (project_phases p))) (\<lambda>_.
      if signals then
        bindE (downstream_outputs p) (\<lambda>outs.
        raise_if (\<exists>k \<in> set outs. k \<notin> set (observed_outputs p))
          ''project acceptance tests do not observe downstream outputs'' okE)
      else okE)))) = Inr ()"
    using contracts unfolding validate_signal_contracts_def by (auto simp: bindE_eq_Inr)
  obtain fed s2 where as: "foldE (check_aggregation (job_table p)) (pj_aggregations p) (fed1, s1) = Inr (fed, s2)"
    using rest by (auto simp: bindE_eq_Inr)
  note B = binding_loop [OF bs] and A = aggregation_loop [OF as]
  have ends: "\<forall>b \<in> set (pj_bindings p). binding_ok p b" "\<forall>a \<in> set (pj_aggregations p). aggregation_ok p a"
    using A B by simp_all
  then have known: "signals_known p" by (rule accepted_edges_known [OF names])
  have fed: "fed = rev (signal_targets p)" and dist: "distinct (signal_targets p)"
    using A B by (auto simp: signal_targets_def)
  have "foldE add_signal_edge (signal_edges p) ([], zero_degrees p) = Inr s2"
    using A B by (auto simp: signal_edges_def foldE_append)
  then have s2: "s2 = signal_dicts p" by (simp add: signal_dicts_inv(1) [OF known])
  have "length (kahn (fst s2) (map fst (filter (\<lambda>(k, d). d = 0) (snd s2))) (snd s2)) = length (job_table p)"
    and phases: "checks (map (check_project_phase p fed) (project_phases p)) = Inr ()"
    using rest by (auto simp: as split_beta Let_def raise_if_eq_Inr bindE_eq_Inr)
  moreover have "length (job_table p) = length (equipment_names p)"
    using names by (simp add: job_table_def equipment_names_def length_dict_of_eq)
  ultimately have "length (contracts.sort_nodes p) = length (equipment_names p)"
    using degree_items [OF known] by (simp add: s2 contracts.sort_nodes_def)
  then have "acyclic (set (signal_edges p))" using contracts.sort_complete_iff_acyclic [OF known] by simp
  then show ?thesis
    using names ends dist phases by (simp add: signals_sound_def fed checks_Inr_iff)
qed

lemma binding_edge_in: "b \<in> set (pj_bindings p) \<Longrightarrow>
    (sb_source_equipment b, sb_target_equipment b) \<in> set (signal_edges p)"
  by (auto simp: signal_edges_def binding_edge_def)

lemma aggregation_edge_in: "a \<in> set (pj_aggregations p) \<Longrightarrow> s \<in> set (sg_sources a) \<Longrightarrow>
    (ss_equipment s, sg_target_equipment a) \<in> set (signal_edges p)"
  by (auto simp: signal_edges_def aggregation_edges_def)

lemma signals_sound_known: "signals_sound p \<Longrightarrow> signals_known p"
  by (simp add: signals_sound_def accepted_edges_known)

section \<open>The two properties of the intake contract\<close>

text \<open>C19: an accepted project can always be scheduled: \<open>_equipment_order\<close> succeeds on it, visits
  every equipment exactly once, and visits the source of every binding and of every
  aggregated signal before the equipment that reads it.\<close>

theorem accepted_project_is_scheduled:
  assumes "validate_topology p = Inr ()"
  shows "\<exists>ord. equipment_order p = Inr ord \<and> distinct ord \<and> set ord = set (equipment_names p)
    \<and> (\<forall>b \<in> set (pj_bindings p). before ord (sb_source_equipment b) (sb_target_equipment b))
    \<and> (\<forall>a \<in> set (pj_aggregations p). \<forall>s \<in> set (sg_sources a). before ord (ss_equipment s) (sg_target_equipment a))"
proof -
  have sound: "signals_sound p" by (rule validate_topology_sound [OF assms])
  note known = signals_sound_known [OF sound]
  have acyclic: "acyclic (set (signal_edges p))" using sound by (simp add: signals_sound_def)
  note O = equipment_order_acyclic [OF known acyclic]
  have "before (scheduling.sort_nodes p) (sb_source_equipment b) (sb_target_equipment b)"
    if "b \<in> set (pj_bindings p)" for b
    using that by (intro O(4) binding_edge_in)
  moreover have "before (scheduling.sort_nodes p) (ss_equipment s) (sg_target_equipment a)"
    if "a \<in> set (pj_aggregations p)" "s \<in> set (sg_sources a)" for a s
    using that by (intro O(4) aggregation_edge_in)
  ultimately show ?thesis using O(1-3) by blast
qed

text \<open>In an accepted project every bound or aggregated input has one driver: no two
  bindings or aggregations share a target, the target is an input point carrying the type
  of its sources, it is bound to no BACnet object, no external ORD and (for a binding) no
  schedule, and no acceptance phase writes it.\<close>

theorem accepted_signals_have_one_driver:
  assumes "validate_topology p = Inr ()"
  shows "distinct (signal_targets p)
    \<and> (\<forall>b \<in> set (pj_bindings p). binding_ok p b) \<and> (\<forall>a \<in> set (pj_aggregations p). aggregation_ok p a)
    \<and> (\<forall>ph \<in> set (project_phases p). \<forall>(q, v) \<in> set (pp_inputs ph).
         \<exists>key. qualified_point q = Some key \<and> key \<notin> set (signal_targets p))"
proof -
  have sound: "signals_sound p" by (rule validate_topology_sound [OF assms])
  have "\<exists>key. qualified_point q = Some key \<and> key \<notin> set (signal_targets p)"
    if "ph \<in> set (project_phases p)" "(q, v) \<in> set (pp_inputs ph)" for ph q v
  proof -
    have "check_project_phase p (rev (signal_targets p)) ph = Inr ()" using sound that(1) by (simp add: signals_sound_def)
    then have "check_project_input (job_table p) (rev (signal_targets p)) (q, v) = Inr ()"
      using that(2) by (auto simp: check_project_phase_def bindE_eq_Inr checks_Inr_iff)
    then show ?thesis
      by (auto simp: check_project_input_def raise_if_eq_Inr split: option.splits)
  qed
  then show ?thesis using sound by (auto simp: signals_sound_def)
qed

end
