(* ===== verification/Building.thy ===== *)
theory Building
  imports Projects Samples
begin

text \<open>
  The whole-building signal simulator (\<open>src/bactalk/project_simulator.py\<close>): one interpreter
  per equipment, evaluated in the order of the signal edges, with bound and aggregated
  inputs read from the values of the same scan, the acceptance suite that runs a project's
  cases on it, and what the job contracts give the wiring.  \<open>BuildingScan\<close> proves both sound.
\<close>

section \<open>\<open>ProjectGraphInterpreter\<close>\<close>

record building =
  bg_project :: project_spec
  bg_graphs :: "control_graph dict"
  bg_interpreters :: "interp dict"
  bg_order :: "string list"

definition building_init :: "project_spec \<Rightarrow> control_graph dict \<Rightarrow> building result" where
  "building_init p graphs =
     raise_if (set (map fst graphs) \<noteq> set (equipment_names p))
       ''project simulator requires exactly one graph per equipment job''
       (bindE (equipment_order p) (\<lambda>ord.
         Inr \<lparr>bg_project = p, bg_graphs = graphs,
              bg_interpreters = map (\<lambda>(k, _). (k, interp_init)) graphs, bg_order = ord\<rparr>))"

text \<open>\<open>equipment, point = qualified.split(".", 1)\<close>\<close>

definition split_once :: "string \<Rightarrow> (string \<times> string) result" where
  "split_once s = (case dropWhile (\<lambda>c. c \<noteq> CHR ''.'') s of
       [] \<Rightarrow> Inl (ValueError ''not enough values to unpack'')
     | _ # rest \<Rightarrow> Inr (takeWhile (\<lambda>c. c \<noteq> CHR ''.'') s, rest))"

definition values_of :: "pyval dict dict \<Rightarrow> string \<Rightarrow> pyval dict" where
  "values_of d e = (case map_of d e of None \<Rightarrow> [] | Some vals \<Rightarrow> vals)"

definition route_input :: "string \<times> pyval \<Rightarrow> pyval dict dict \<Rightarrow> pyval dict dict result" where
  "route_input qv per = bindE (split_once (fst qv)) (\<lambda>(e, pt).
     Inr (AList.update e (AList.update pt (snd qv) (values_of per e)) per))"

definition read_signal :: "pyval dict dict \<Rightarrow> string \<Rightarrow> string \<Rightarrow> pyval result" where
  "read_signal vals e pt = bindE (dict_get vals e) (\<lambda>d. dict_get d pt)"

definition read_binding :: "pyval dict dict \<Rightarrow> signal_binding \<Rightarrow> pyval dict \<Rightarrow> pyval dict result" where
  "read_binding vals b ins = bindE (read_signal vals (sb_source_equipment b) (sb_source_point b)) (\<lambda>v.
     Inr (AList.update (sb_target_point b) v ins))"

text \<open>\<open>_reduce\<close>; \<open>sum\<close> adds from left to right starting at zero, as the CPython 3.11 of the
  project's continuous integration does.\<close>

fun reduce_values :: "reduction \<Rightarrow> pyval list \<Rightarrow> pyval result" where
  "reduce_values ReduceAny vs = Inr (PBool (list_ex truthy vs))"
| "reduce_values ReduceMax vs = bindE (traverseE py_float vs) (\<lambda>xs.
     case xs of [] \<Rightarrow> Inl (ValueError ''max() iterable argument is empty'')
     | x # xs \<Rightarrow> Inr (PFloat (foldl fmax x xs)))"
| "reduce_values ReduceSum vs = bindE (traverseE py_float vs) (\<lambda>xs. Inr (PFloat (foldl fadd (Fin 0) xs)))"

definition read_aggregation :: "pyval dict dict \<Rightarrow> signal_aggregation \<Rightarrow> pyval dict \<Rightarrow> pyval dict result" where
  "read_aggregation vals a ins =
     bindE (traverseE (\<lambda>s. read_signal vals (ss_equipment s) (ss_point s)) (sg_sources a)) (\<lambda>vs.
     bindE (reduce_values (sg_reduce a) vs) (\<lambda>v. Inr (AList.update (sg_target_point a) v ins)))"

definition bindings_into :: "project_spec \<Rightarrow> string \<Rightarrow> signal_binding list" where
  "bindings_into p e = filter (\<lambda>b. sb_target_equipment b = e) (pj_bindings p)"

definition aggregations_into :: "project_spec \<Rightarrow> string \<Rightarrow> signal_aggregation list" where
  "aggregations_into p e = filter (\<lambda>a. sg_target_equipment a = e) (pj_aggregations p)"

definition equipment_inputs :: "project_spec \<Rightarrow> pyval dict dict \<Rightarrow> pyval dict dict \<Rightarrow> string \<Rightarrow> pyval dict result" where
  "equipment_inputs p per vals e =
     bindE (foldE (read_binding vals) (bindings_into p e) (values_of per e)) (\<lambda>ins.
     foldE (read_aggregation vals) (aggregations_into p e) ins)"

type_synonym building_scan = "pyval dict dict \<times> interp dict \<times> pyval dict"

definition qualify_values :: "string \<Rightarrow> pyval dict \<Rightarrow> pyval dict" where
  "qualify_values e vals = map (\<lambda>(pt, v). (dotted e pt, v)) vals"

definition evaluate_equipment :: "project_spec \<Rightarrow> control_graph dict \<Rightarrow> pyval dict dict \<Rightarrow> pyfloat \<Rightarrow> string \<Rightarrow>
    building_scan \<Rightarrow> building_scan result" where
  "evaluate_equipment p graphs per step e sc = (case sc of (vals, interps, flat) \<Rightarrow>
     bindE (equipment_inputs p per vals e) (\<lambda>ins.
     bindE (dict_get graphs e) (\<lambda>g. bindE (dict_get interps e) (\<lambda>ip.
     bindE (evaluate g ip ins step) (\<lambda>(out, ip').
     Inr (AList.update e out vals, AList.update e ip' interps, dict_update flat (qualify_values e out)))))))"

definition evaluate_building :: "building \<Rightarrow> pyval dict \<Rightarrow> pyfloat \<Rightarrow> (pyval dict \<times> building) result" where
  "evaluate_building bg ins step =
     bindE (foldE route_input ins []) (\<lambda>per.
     bindE (foldE (evaluate_equipment (bg_project bg) (bg_graphs bg) per step) (bg_order bg)
              ([], bg_interpreters bg, [])) (\<lambda>(_, interps, flat).
     Inr (flat, bg\<lparr>bg_interpreters := interps\<rparr>)))"

section \<open>\<open>run_project_acceptance_suite\<close>\<close>

text \<open>\<open>_compare\<close>, in its own order of tests.\<close>

definition compare_project :: "project_expectation \<Rightarrow> pyval \<Rightarrow> bool result" where
  "compare_project e observed =
     (if is_bool (pe_value e) then
        (if pe_operator e = EQ then Inr (observed = pe_value e)
         else if pe_operator e = NE then Inr (observed \<noteq> pe_value e) else Inr False)
      else if is_bool observed then Inr False
      else bindE (py_float observed) (\<lambda>actual. bindE (py_float (pe_value e)) (\<lambda>goal.
        (let tolerance = pe_tolerance e in
         if pe_operator e = EQ then Inr (fle (fabs (fsub actual goal)) tolerance)
         else if pe_operator e = NE then Inr (fless tolerance (fabs (fsub actual goal)))
         else if pe_operator e = GT then Inr (fless goal actual)
         else if pe_operator e = GTE then Inr (fle goal (fadd actual tolerance))
         else if pe_operator e = LT then Inr (fless actual goal)
         else if pe_operator e = LTE then Inr (fle (fsub actual tolerance) goal)
         else if pe_operator e = BETWEEN then
           Inr (case pe_upper e of None \<Rightarrow> False
                | Some u \<Rightarrow> fle (fsub goal tolerance) actual \<and> fle actual (fadd u tolerance))
         else Inl (ValueError ''unsupported comparison operator'')))))"

definition expectation_of :: "project_expectation \<Rightarrow> output_expectation" where
  "expectation_of e = \<lparr>ex_target = dotted (pe_equipment e) (pe_point e), ex_operator = pe_operator e,
     ex_value = pe_value e, ex_upper = pe_upper e, ex_tolerance = pe_tolerance e\<rparr>"

definition project_assertion :: "string \<Rightarrow> pyval dict \<Rightarrow> project_expectation \<Rightarrow> assertion_result result" where
  "project_assertion label vals e = (let q = dotted (pe_equipment e) (pe_point e) in
     bindE (dict_get vals q) (\<lambda>observed.
     bindE (compare_project e observed) (\<lambda>passed.
     Inr \<lparr>as_name = label @ '': '' @ q, as_passed = passed, as_observed = observed,
          as_expected = Expectation (expectation_of e)\<rparr>)))"

record project_run =
  jr_building :: building
  jr_values :: "pyval dict"
  jr_samples :: "pyval dict list"
  jr_scan :: nat

fun repeat_building :: "pyval dict \<Rightarrow> pyfloat \<Rightarrow> nat \<Rightarrow> nat \<Rightarrow> nat \<Rightarrow> project_run \<Rightarrow> project_run result" where
  "repeat_building ins step i k 0 r = Inr r"
| "repeat_building ins step i k (Suc n) r =
     bindE (evaluate_building (jr_building r) ins step) (\<lambda>(vals, bg).
     repeat_building ins step i (Suc k) n
       \<lparr>jr_building = bg, jr_values = vals,
        jr_samples = jr_samples r @ [dict_update (dict_update (timeline_header i (Suc (jr_scan r)) (Suc k)) ins) vals],
        jr_scan = Suc (jr_scan r)\<rparr>)"

fun run_project_phases :: "string \<Rightarrow> nat \<Rightarrow> project_phase list \<Rightarrow> pyval dict \<Rightarrow> project_run \<Rightarrow>
    assertion_result list \<Rightarrow> (project_run \<times> assertion_result list) result" where
  "run_project_phases name i [] current r as = Inr (r, as)"
| "run_project_phases name i (ph # phs) current r as =
     (let current = dict_update current (pp_inputs ph) in
      bindE (evaluate_building (jr_building r) current (Fin 0)) (\<lambda>(_, bg).
      bindE (repeat_building current (pp_step_seconds ph) i 0 (pp_repeat ph)
               (r\<lparr>jr_building := bg, jr_values := []\<rparr>)) (\<lambda>r.
      bindE (traverseE (project_assertion (name @ '' / '' @ pp_name ph) (jr_values r)) (pp_expectations ph)) (\<lambda>new.
      run_project_phases name (Suc i) phs current r (as @ new)))))"

definition run_project_case :: "project_spec \<Rightarrow> control_graph dict \<Rightarrow> project_case \<Rightarrow> scenario_result result" where
  "run_project_case p graphs c =
     bindE (building_init p graphs) (\<lambda>bg.
     bindE (run_project_phases (pc_name c) 1 (pc_phases c) []
              \<lparr>jr_building = bg, jr_values = [], jr_samples = [], jr_scan = 0\<rparr> []) (\<lambda>(r, as).
     Inr \<lparr>sr_name = pc_name c, sr_passed = list_all as_passed as, sr_assertions = as, sr_samples = jr_samples r\<rparr>))"

record project_report =
  pr_passed :: bool
  pr_scenarios :: "scenario_result list"
  pr_equipment_count :: nat
  pr_binding_count :: nat
  pr_aggregation_count :: nat
  pr_case_count :: nat
  pr_phase_count :: nat

definition run_project_acceptance_suite :: "project_spec \<Rightarrow> control_graph dict \<Rightarrow> project_report result" where
  "run_project_acceptance_suite p graphs =
     bindE (traverseE (run_project_case p graphs) (pj_acceptance_tests p)) (\<lambda>results.
     Inr \<lparr>pr_passed = list_all sr_passed results, pr_scenarios = results,
          pr_equipment_count = length (pj_equipment p), pr_binding_count = length (pj_bindings p),
          pr_aggregation_count = length (pj_aggregations p), pr_case_count = length (pj_acceptance_tests p),
          pr_phase_count = sum_list (map (length \<circ> pc_phases) (pj_acceptance_tests p))\<rparr>)"

text \<open>The building's comparison is the equipment harness's.\<close>

lemma compare_project_eq:
  "compare_project e observed =
     compare_values observed (pe_operator e) (pe_value e) (pe_upper e) (pe_tolerance e)"
  by (cases "pe_operator e") (simp_all add: compare_project_def compare_values_def Let_def)

section \<open>What the wiring gives one equipment\<close>

text \<open>Every equipment has an accepted graph that keeps the contract of its job.\<close>

definition graphs_match :: "project_spec \<Rightarrow> control_graph dict \<Rightarrow> bool" where
  "graphs_match p graphs \<longleftrightarrow> list_all project_job_ok (pj_equipment p)
     \<and> set (map fst graphs) = set (equipment_names p)
     \<and> (\<forall>(e, g) \<in> set graphs. graph_ok g \<and> configs_ok g
          \<and> (\<exists>job. map_of (job_table p) e = Some job \<and> validate_job_graph_contract job g = Inr ()))"

definition on_boundary :: "control_graph dict \<Rightarrow> string \<Rightarrow> string \<Rightarrow> bool" where
  "on_boundary graphs e n \<longleftrightarrow> (case map_of graphs e of None \<Rightarrow> False
     | Some g \<Rightarrow> (\<exists>b \<in> set (blocks g). is_boundary b \<and> bid b = n))"

definition signals_present :: "project_spec \<Rightarrow> control_graph dict \<Rightarrow> bool" where
  "signals_present p graphs \<longleftrightarrow>
     (\<forall>b \<in> set (pj_bindings p). on_boundary graphs (sb_source_equipment b) (sb_source_point b))
     \<and> (\<forall>a \<in> set (pj_aggregations p). \<forall>s \<in> set (sg_sources a). on_boundary graphs (ss_equipment s) (ss_point s))
     \<and> (\<forall>(e, n) \<in> set (observed_outputs p). on_boundary graphs e n)"

definition signal_typed :: "project_spec \<Rightarrow> string \<Rightarrow> string \<Rightarrow> pyval \<Rightarrow> bool" where
  "signal_typed p e n v \<longleftrightarrow> (\<forall>pt. project_point p e n = Some pt \<longrightarrow> has_type (pt_data_type pt) v)"

definition ins_typed :: "project_spec \<Rightarrow> string \<Rightarrow> pyval dict \<Rightarrow> bool" where
  "ins_typed p e ins \<longleftrightarrow> (\<forall>n v. map_of ins n = Some v \<longrightarrow> signal_typed p e n v)"

lemma ins_typed_update: "ins_typed p e ins \<Longrightarrow> signal_typed p e n v \<Longrightarrow> ins_typed p e (AList.update n v ins)"
  by (auto simp: ins_typed_def)

lemma graphs_matchD:
  assumes "graphs_match p graphs" and "map_of graphs e = Some g"
  shows "graph_ok g" "configs_ok g" "runnable g"
    and "\<exists>job. map_of (job_table p) e = Some job \<and> validate_job_graph_contract job g = Inr ()
      \<and> distinct (map pt_name (jb_points job))"
proof -
  have g: "graph_ok g \<and> configs_ok g \<and> (\<exists>job. map_of (job_table p) e = Some job \<and> validate_job_graph_contract job g = Inr ())"
    using assms map_of_SomeD [OF assms(2)] by (auto simp: graphs_match_def)
  then obtain job where job: "map_of (job_table p) e = Some job" "validate_job_graph_contract job g = Inr ()" by blast
  have "job \<in> set (pj_equipment p)" using job(1) by (auto simp: job_table_def dest: map_of_dict_of_Some)
  then have "distinct (map pt_name (jb_points job))"
    using assms(1) by (auto simp: graphs_match_def list_all_iff project_job_ok_def)
  then show "graph_ok g" "configs_ok g" "runnable g"
    "\<exists>job. map_of (job_table p) e = Some job \<and> validate_job_graph_contract job g = Inr ()
      \<and> distinct (map pt_name (jb_points job))"
    using g job contract_defaults [OF job(2)] by (auto simp: runnable_def)
qed

lemma find_point_table:
  assumes "distinct (map pt_name (jb_points job))"
  shows "map_of (point_table (jb_points job)) n = find_point job n"
proof -
  have "map_of (map (\<lambda>x. (pt_name x, x)) ps) n = find (\<lambda>pt. pt_name pt = n) ps" for ps
    by (induction ps) auto
  then show ?thesis
    using map_of_dict_of_distinct [OF assms, of "\<lambda>p. p"] by (simp add: point_table_def find_point_def)
qed

text \<open>A boundary block carries the role and type of its point.\<close>

lemma boundary_point:
  assumes m: "graphs_match p graphs" and g: "map_of graphs e = Some g"
    and b: "b \<in> set (blocks g)" "is_boundary b"
  shows "\<exists>pt. project_point p e (bid b) = Some pt \<and> boundary_type b = Inr (pt_data_type pt)
    \<and> (is_output_role (pt_role pt) \<longrightarrow> is_output_kind (bkind b))"
proof -
  obtain job where job: "map_of (job_table p) e = Some job" "validate_job_graph_contract job g = Inr ()"
    "distinct (map pt_name (jb_points job))"
    using graphs_matchD(4) [OF m g] by blast
  have "check_boundary (point_table (jb_points job)) b = Inr ()" using contract_parts(1) [OF job(2)] b by blast
  then show ?thesis
    using b(2) find_point_table [OF job(3)]
    by (auto simp: check_boundary_def raise_if_eq_Inr bindE_eq_Inr project_pointI [OF job(1)] is_boundary_def
        is_output_role_def split: option.splits)
qed

lemma typed_names:
  assumes m: "graphs_match p graphs" and g: "map_of graphs e = Some g" and ins: "ins_typed p e ins"
  shows "names_typed g ins"
proof -
  have typed: "has_type (if bkind b = NUMERIC_INPUT then NUMERIC else BOOLEAN) v"
    if b: "b \<in> set (blocks g)" and v: "map_of ins (bid b) = Some v" and kind: "is_input_kind (bkind b)" for b v
  proof -
    obtain pt where pt: "project_point p e (bid b) = Some pt" "boundary_type b = Inr (pt_data_type pt)"
      using boundary_point [OF m g b] kind by (auto simp: is_boundary_def)
    have "has_type (pt_data_type pt) v" using ins v pt(1) by (simp add: ins_typed_def signal_typed_def)
    then show ?thesis
      using boundary_type_input [OF kind pt(2)] by (cases "pt_data_type pt") simp_all
  qed
  have "is_number v" if "b \<in> set (blocks g)" "map_of ins (bid b) = Some v" "bkind b = NUMERIC_INPUT" for b v
    using typed [OF that(1,2)] that(3) by (simp add: is_input_kind_def)
  moreover have "is_bool v" if "b \<in> set (blocks g)" "map_of ins (bid b) = Some v" "bkind b = BOOLEAN_INPUT" for b v
    using typed [OF that(1,2)] that(3) by (simp add: is_input_kind_def)
  ultimately show ?thesis by (auto simp: names_typed_def)
qed

text \<open>The value of an output point after a scan of its equipment.\<close>

lemma output_value:
  assumes m: "graphs_match p graphs" and g: "map_of graphs e = Some g" and out: "vals_ok (blocks g) out"
    and n: "on_boundary graphs e n" and pt: "project_point p e n = Some pt" "is_output_role (pt_role pt)"
  shows "\<exists>v. map_of out n = Some v \<and> has_type (pt_data_type pt) v"
proof -
  obtain b where b: "b \<in> set (blocks g)" "is_boundary b" "bid b = n"
    using n g by (auto simp: on_boundary_def)
  have kind: "is_output_kind (bkind b)" "boundary_type b = Inr (pt_data_type pt)"
    using boundary_point [OF m g b(1,2)] pt by (auto simp: b(3))
  have "block_value out b" using out b(1) by (simp add: vals_ok_def)
  then show ?thesis
    using kind by (auto simp: block_value_def b(3) is_output_kind_def boundary_type_def split: if_splits)
qed

text \<open>A value written by an input block is the value the block read.\<close>

lemma scan_block_keeps:
  assumes "scan_block inc ins ck b' (vals, st, ev) = Inr (vals', st', ev')" and "bid b' \<noteq> i" and "is_ident i"
  shows "map_of vals' i = map_of vals i"
proof -
  obtain r where r: "record_outcome (bid b') r vals = Inr vals'"
    using assms(1) by (auto simp: scan_block_def bindE_eq_Inr split: prod.splits)
  have fold: "map_of (fold (\<lambda>(slot, v). AList.update (dotted (bid b') slot) v) vs d) i = map_of d i" for vs d
    using assms(3) by (induction vs arbitrary: d) auto
  show ?thesis
    using r assms(2,3) by (auto simp: record_outcome_def fold split: outcome.splits list.splits)
qed

lemma scan_blocks_keep:
  assumes "foldE (scan_block inc ins ck) bs (vals, st, ev) = Inr (vals', st', ev')"
    and "i \<notin> set (map bid bs)" and "is_ident i"
  shows "map_of vals' i = map_of vals i"
  using assms(1,2)
proof (induction bs arbitrary: vals st ev)
  case (Cons b bs)
  obtain vals1 st1 ev1 where b: "scan_block inc ins ck b (vals, st, ev) = Inr (vals1, st1, ev1)"
    and rest: "foldE (scan_block inc ins ck) bs (vals1, st1, ev1) = Inr (vals', st', ev')"
    using Cons.prems(1) by (auto simp: bindE_eq_Inr)
  show ?case
    using Cons.IH [OF rest] Cons.prems(2) scan_block_keeps [OF b _ assms(3)] by auto
qed simp

lemma evaluate_input_value:
  assumes run: "evaluate g ip ins step = Inr (out, ip')" and g: "graph_ok g"
    and b: "b \<in> set (blocks g)" and kind: "is_input_kind (bkind b)"
  shows "map_of out (bid b) = Some (eval_input b ins)"
proof -
  let ?ck = "\<lparr>now = fadd (in_time ip) step, step_seconds = step\<rparr>"
  obtain bs st ev where bs: "topological_order g = Inr bs"
    and scan: "foldE (scan_block (incoming g) ins ?ck) bs ([], in_state ip, []) = Inr (out, st, ev)"
    using run by (auto simp: evaluate_def raise_if_eq_Inr bindE_eq_Inr Let_def split: prod.splits)
  obtain us vs where split: "bs = us @ b # vs"
    using order_props(2) [OF g bs] b by (metis split_list)
  have last: "bid b \<notin> set (map bid vs)" using order_props(1) [OF g bs] by (auto simp: split)
  obtain vals1 st1 ev1 vals2 st2 ev2 where
    here: "scan_block (incoming g) ins ?ck b (vals1, st1, ev1) = Inr (vals2, st2, ev2)"
    and after: "foldE (scan_block (incoming g) ins ?ck) vs (vals2, st2, ev2) = Inr (out, st, ev)"
    using scan by (auto simp: split foldE_append bindE_eq_Inr)
  have "map_of vals2 (bid b) = Some (eval_input b ins)"
    using here kind graph_okD(6) [OF g b]
    by (auto simp: scan_block_def evaluate_block_def is_input_kind_def bindE_eq_Inr record_outcome_def
        split: prod.splits if_splits)
  then show ?thesis using scan_blocks_keep [OF after last graph_okD(6) [OF g b]] by simp
qed

text \<open>The dictionary of values has each key once.\<close>

lemma distinct_scan:
  assumes "scan_block inc ins ck b (vals, st, ev) = Inr (vals', st', ev')" and "distinct (map fst vals)"
  shows "distinct (map fst vals')"
proof -
  obtain r where r: "record_outcome (bid b) r vals = Inr vals'"
    using assms(1) by (auto simp: scan_block_def bindE_eq_Inr split: prod.splits)
  have fold: "distinct (map fst d) \<Longrightarrow> distinct (map fst (fold (\<lambda>(slot, v). AList.update (dotted (bid b) slot) v) vs d))" for vs d
    by (induction vs arbitrary: d) (auto simp: distinct_update)
  show ?thesis
    using r assms(2) by (auto simp: record_outcome_def intro!: fold distinct_update split: outcome.splits list.splits)
qed

lemma evaluate_distinct:
  assumes "evaluate g ip ins step = Inr (out, ip')"
  shows "distinct (map fst out)"
proof -
  obtain bs ck st ev where "foldE (scan_block (incoming g) ins ck) bs ([], in_state ip, []) = Inr (out, st, ev)"
    using assms by (auto simp: evaluate_def raise_if_eq_Inr bindE_eq_Inr Let_def split: prod.splits)
  from foldE_invariant [OF _ _ this, of "\<lambda>(vals, _). distinct (map fst vals)"] show ?thesis
    by (auto intro: distinct_scan)
qed

section \<open>Routing the supplied inputs\<close>

lemma split_on_nonempty: "split_on sep s \<noteq> []"
  by (induction s) (auto split: list.splits)

lemma split_on_Cons:
  "split_on sep s = a # rest \<Longrightarrow> takeWhile (\<lambda>c. c \<noteq> sep) s = a
     \<and> (rest = [] \<longrightarrow> sep \<notin> set s)
     \<and> (rest \<noteq> [] \<longrightarrow> (\<exists>t. dropWhile (\<lambda>c. c \<noteq> sep) s = sep # t \<and> split_on sep t = rest))"
proof (induction s arbitrary: a rest)
  case (Cons c s)
  obtain w ws where w: "split_on sep s = w # ws" using split_on_nonempty [of sep s] by (auto simp: neq_Nil_conv)
  show ?case
  proof (cases "c = sep")
    case True
    then show ?thesis using Cons.prems split_on_nonempty [of sep s] by auto
  next
    case False
    then have "a = c # w" "rest = ws" using Cons.prems w by auto
    then show ?thesis using Cons.IH [OF w] False by auto
  qed
qed auto

lemma qualified_split: "qualified_point q = Some (e, n) \<Longrightarrow> split_once q = Inr (e, n)"
proof -
  assume q: "qualified_point q = Some (e, n)"
  then have parts: "split_on (CHR ''.'') q = [e, n]"
    by (auto simp: qualified_point_def split: list.splits if_splits)
  obtain t where t: "takeWhile (\<lambda>c. c \<noteq> CHR ''.'') q = e" "dropWhile (\<lambda>c. c \<noteq> CHR ''.'') q = CHR ''.'' # t"
    "split_on (CHR ''.'') t = [n]"
    using split_on_Cons [OF parts] by auto
  have n: "takeWhile (\<lambda>c. c \<noteq> CHR ''.'') t = n" and last: "CHR ''.'' \<notin> set t"
    using split_on_Cons [OF t(3)] by simp_all
  have "takeWhile (\<lambda>c. c \<noteq> CHR ''.'') t = t"
    using last by (intro takeWhile_eq_all_conv [THEN iffD2]) auto
  then have "t = n" using n by (simp only:)
  then show "split_once q = Inr (e, n)" by (simp add: split_once_def t(1,2))
qed

definition supplied_ok :: "project_spec \<Rightarrow> string \<times> pyval \<Rightarrow> bool" where
  "supplied_ok p qv \<longleftrightarrow> (\<exists>e n. qualified_point (fst qv) = Some (e, n) \<and> signal_typed p e n (snd qv)
     \<and> (e, n) \<notin> set (signal_targets p))"

definition routed_ok :: "project_spec \<Rightarrow> pyval dict dict \<Rightarrow> bool" where
  "routed_ok p per \<longleftrightarrow> (\<forall>e. ins_typed p e (values_of per e))"

lemma values_of_update: "values_of (AList.update e vals d) e' = (if e' = e then vals else values_of d e')"
  by (simp add: values_of_def)

lemma route_sound:
  assumes "list_all (supplied_ok p) ins"
  shows "soundE (routed_ok p) (foldE route_input ins [])"
proof (rule soundE_foldE)
  show "routed_ok p []" by (simp add: routed_ok_def values_of_def ins_typed_def)
  fix qv per assume qv: "qv \<in> set ins" and per: "routed_ok p per"
  obtain e n where "qualified_point (fst qv) = Some (e, n)" "signal_typed p e n (snd qv)"
    using assms qv by (auto simp: list_all_iff supplied_ok_def)
  then show "soundE (routed_ok p) (route_input qv per)"
    using per qualified_split
    by (auto simp: route_input_def routed_ok_def values_of_update intro: ins_typed_update)
qed

lemma supplied_update:
  assumes "list_all (supplied_ok p) d" and "list_all (supplied_ok p) ins"
  shows "list_all (supplied_ok p) (dict_update d ins)"
  using assms unfolding dict_update_def
proof (induction ins arbitrary: d)
  case (Cons qv ins)
  obtain q v where qv: "qv = (q, v)" by (cases qv)
  have "list_all (supplied_ok p) (AList.update q v d)"
    using Cons.prems set_update_subset [of q v d] by (auto simp: qv list_all_iff)
  then show ?case using Cons.IH Cons.prems(2) by (simp add: qv)
qed simp

lemma phase_inputs_supplied:
  assumes "check_project_phase p (rev (signal_targets p)) ph = Inr ()"
    and "list_all (\<lambda>(_, v). float_or_bool v) (pp_inputs ph)"
  shows "list_all (supplied_ok p) (pp_inputs ph)"
  unfolding list_all_iff
proof
  fix qv assume qv: "qv \<in> set (pp_inputs ph)"
  obtain q v where qv_eq: "qv = (q, v)" by (cases qv)
  have "check_project_input (job_table p) (rev (signal_targets p)) qv = Inr ()"
    using assms(1) qv by (auto simp: check_project_phase_def bindE_eq_Inr checks_Inr_iff)
  then obtain e n pt where "qualified_point q = Some (e, n)" "project_point p e n = Some pt"
    "(e, n) \<notin> set (signal_targets p)" "(pt_data_type pt = BOOLEAN) = is_bool v"
    by (auto simp: check_project_input_def raise_if_eq_Inr project_point_def qv_eq split: option.splits)
  moreover have "float_or_bool v" using assms(2) qv by (auto simp: list_all_iff qv_eq)
  ultimately show "supplied_ok p qv"
    by (cases "pt_data_type pt") (auto simp: supplied_ok_def signal_typed_def qv_eq float_or_bool_def)
qed

end
