(* ===== verification/BuildingScan.thy ===== *)
theory BuildingScan
  imports Building
begin

text \<open>
  The scan of a whole building (\<open>ProjectGraphInterpreter.evaluate\<close> in
  \<open>src/bactalk/project_simulator.py\<close>) and the acceptance suite above it, on a project the
  validator admits: the scan keeps every interpreter sound, delivers every signal within
  the scan, and no case of the suite fails for a lookup or a type.
\<close>

section \<open>One scan of the building\<close>

text \<open>After the equipment in \<open>us\<close>: their values are typed and appear under their qualified
  names, every interpreter is in a good state, and the inputs of \<open>us\<close> agree with the
  signals they are bound to.\<close>

definition has_input :: "control_graph dict \<Rightarrow> string \<Rightarrow> string \<Rightarrow> bool" where
  "has_input graphs e n \<longleftrightarrow> (case map_of graphs e of None \<Rightarrow> False
     | Some g \<Rightarrow> (\<exists>b \<in> set (blocks g). is_input_kind (bkind b) \<and> bid b = n))"

definition values_ok :: "control_graph dict \<Rightarrow> string list \<Rightarrow> pyval dict dict \<Rightarrow> bool" where
  "values_ok graphs us vals \<longleftrightarrow> (\<forall>e \<in> set us. \<exists>g out. map_of graphs e = Some g \<and> map_of vals e = Some out
     \<and> vals_ok (blocks g) out)"

definition flat_ok :: "pyval dict dict \<Rightarrow> pyval dict \<Rightarrow> bool" where
  "flat_ok vals flat \<longleftrightarrow> (\<forall>e n. is_ident e \<longrightarrow> map_of flat (dotted e n) = map_of (values_of vals e) n)"

definition interpreters_ok :: "project_spec \<Rightarrow> interp dict \<Rightarrow> bool" where
  "interpreters_ok p interps \<longleftrightarrow>
     (\<forall>e \<in> set (equipment_names p). \<exists>ip. map_of interps e = Some ip \<and> states_ok (in_state ip))"

definition bound_input :: "pyval dict dict \<Rightarrow> pyval dict \<Rightarrow> signal_binding \<Rightarrow> bool" where
  "bound_input vals ins b \<longleftrightarrow> (\<exists>v. read_signal vals (sb_source_equipment b) (sb_source_point b) = Inr v
     \<and> map_of ins (sb_target_point b) = Some v)"

definition reduced_input :: "pyval dict dict \<Rightarrow> pyval dict \<Rightarrow> signal_aggregation \<Rightarrow> bool" where
  "reduced_input vals ins a \<longleftrightarrow> (\<exists>vs v. traverseE (\<lambda>s. read_signal vals (ss_equipment s) (ss_point s)) (sg_sources a) = Inr vs
     \<and> reduce_values (sg_reduce a) vs = Inr v \<and> map_of ins (sg_target_point a) = Some v)"

text \<open>A source that has been evaluated delivers a value of its point's type.\<close>

lemma read_signal_typed:
  assumes m: "graphs_match p graphs" and vals: "values_ok graphs us vals" and e: "e \<in> set us"
    and n: "on_boundary graphs e n" and pt: "project_point p e n = Some pt" "is_output_role (pt_role pt)"
  shows "\<exists>v. read_signal vals e n = Inr v \<and> has_type (pt_data_type pt) v"
proof -
  obtain g out where g: "map_of graphs e = Some g" and out: "map_of vals e = Some out" "vals_ok (blocks g) out"
    using vals e by (auto simp: values_ok_def)
  show ?thesis
    using output_value [OF m g out(2) n pt] out(1) by (auto simp: read_signal_def dict_get_def)
qed

lemma binding_ok_point:
  assumes "binding_ok p b"
  obtains src tgt where "project_point p (sb_source_equipment b) (sb_source_point b) = Some src"
    "is_output_role (pt_role src)" "project_point p (sb_target_equipment b) (sb_target_point b) = Some tgt"
    "pt_data_type src = pt_data_type tgt"
  using assms by (auto simp: binding_ok_def)

lemma read_bindings_sound:
  assumes m: "graphs_match p graphs" and present: "signals_present p graphs" and vals: "values_ok graphs us vals"
    and bs: "\<And>b. b \<in> set bs \<Longrightarrow> b \<in> set (pj_bindings p) \<and> binding_ok p b \<and> sb_target_equipment b = e
      \<and> sb_source_equipment b \<in> set us"
    and ins: "ins_typed p e ins" and dist: "distinct (map sb_target_point bs)"
  shows "\<exists>ins'. foldE (read_binding vals) bs ins = Inr ins' \<and> ins_typed p e ins'
    \<and> (\<forall>b \<in> set bs. bound_input vals ins' b)
    \<and> (\<forall>n. n \<notin> set (map sb_target_point bs) \<longrightarrow> map_of ins' n = map_of ins n)"
  using bs ins dist
proof (induction bs arbitrary: ins)
  case (Cons b bs)
  note b = Cons.prems(1) [of b, simplified]
  obtain src tgt where pts: "project_point p (sb_source_equipment b) (sb_source_point b) = Some src"
    "is_output_role (pt_role src)" "project_point p (sb_target_equipment b) (sb_target_point b) = Some tgt"
    "pt_data_type src = pt_data_type tgt"
    using binding_ok_point b by blast
  have "on_boundary graphs (sb_source_equipment b) (sb_source_point b)"
    using present b by (simp add: signals_present_def)
  then obtain v where v: "read_signal vals (sb_source_equipment b) (sb_source_point b) = Inr v"
    "has_type (pt_data_type src) v"
    using read_signal_typed [OF m vals _ _ pts(1,2)] b by blast
  let ?ins = "AList.update (sb_target_point b) v ins"
  have "signal_typed p e (sb_target_point b) v" using pts v b by (simp add: signal_typed_def)
  then have "ins_typed p e ?ins" by (rule ins_typed_update [OF Cons.prems(2)])
  then obtain ins' where ins': "foldE (read_binding vals) bs ?ins = Inr ins'" "ins_typed p e ins'"
    "\<forall>b \<in> set bs. bound_input vals ins' b"
    "\<forall>n. n \<notin> set (map sb_target_point bs) \<longrightarrow> map_of ins' n = map_of ?ins n"
    using Cons.IH [of ?ins] Cons.prems(1,3) by auto
  moreover have "bound_input vals ins' b"
    using ins'(4) Cons.prems(3) v(1) by (simp add: bound_input_def)
  moreover have "read_binding vals b ins = Inr ?ins" by (simp add: read_binding_def v(1))
  ultimately show ?case by auto
qed simp

text \<open>Reductions of typed signals.\<close>

lemma traverse_signals:
  assumes "\<forall>s \<in> set ss. \<exists>v. read_signal vals (ss_equipment s) (ss_point s) = Inr v \<and> has_type t v"
  shows "\<exists>vs. traverseE (\<lambda>s. read_signal vals (ss_equipment s) (ss_point s)) ss = Inr vs \<and> list_all (has_type t) vs
    \<and> length vs = length ss"
  using assms by (induction ss) auto

lemma soundE_floats:
  "list_all is_number vs \<Longrightarrow> soundE (\<lambda>xs. length xs = length vs) (traverseE py_float vs)"
proof (induction vs)
  case (Cons v vs)
  have "soundE (\<lambda>_. True) (py_float v)" using Cons.prems by (simp add: soundE_py_float)
  then show ?case using Cons by (cases "py_float v"; cases "traverseE py_float vs") simp_all
qed simp

lemma reduce_sound:
  assumes "list_all (has_type (if r = ReduceAny then BOOLEAN else NUMERIC)) vs"
  shows "soundE (has_type (if r = ReduceAny then BOOLEAN else NUMERIC)) (reduce_values r vs)"
proof (cases r)
  case ReduceSum
  then have "soundE (\<lambda>xs. length xs = length vs) (traverseE py_float vs)"
    using assms by (intro soundE_floats) (simp add: list_all_iff)
  then show ?thesis using ReduceSum by (auto intro: soundE_bind)
next
  case ReduceMax
  then have "soundE (\<lambda>xs. length xs = length vs) (traverseE py_float vs)"
    using assms by (intro soundE_floats) (simp add: list_all_iff)
  then show ?thesis using ReduceMax by (auto intro!: soundE_bind split: list.split)
qed simp

lemma read_aggregations_sound:
  assumes m: "graphs_match p graphs" and present: "signals_present p graphs" and vals: "values_ok graphs us vals"
    and as: "\<And>a. a \<in> set as \<Longrightarrow> a \<in> set (pj_aggregations p) \<and> aggregation_ok p a \<and> sg_target_equipment a = e
      \<and> (\<forall>s \<in> set (sg_sources a). ss_equipment s \<in> set us)"
    and ins: "ins_typed p e ins" and dist: "distinct (map sg_target_point as)"
  shows "soundE (\<lambda>ins'. ins_typed p e ins' \<and> (\<forall>a \<in> set as. reduced_input vals ins' a)
    \<and> (\<forall>n. n \<notin> set (map sg_target_point as) \<longrightarrow> map_of ins' n = map_of ins n))
    (foldE (read_aggregation vals) as ins)"
  using as ins dist
proof (induction as arbitrary: ins)
  case (Cons a as)
  note a = Cons.prems(1) [of a, simplified]
  let ?t = "if sg_reduce a = ReduceAny then BOOLEAN else NUMERIC"
  obtain tgt where tgt: "project_point p (sg_target_equipment a) (sg_target_point a) = Some tgt"
    "pt_data_type tgt = ?t"
    and srcs: "\<And>s. s \<in> set (sg_sources a) \<Longrightarrow> \<exists>src. project_point p (ss_equipment s) (ss_point s) = Some src
      \<and> is_output_role (pt_role src) \<and> pt_data_type src = ?t"
    using a by (auto simp: aggregation_ok_def)
  have "\<forall>s \<in> set (sg_sources a). \<exists>v. read_signal vals (ss_equipment s) (ss_point s) = Inr v \<and> has_type ?t v"
  proof
    fix s assume s: "s \<in> set (sg_sources a)"
    obtain src where src: "project_point p (ss_equipment s) (ss_point s) = Some src"
      "is_output_role (pt_role src)" "pt_data_type src = ?t"
      using srcs [OF s] by blast
    have "on_boundary graphs (ss_equipment s) (ss_point s)"
      using present a s by (auto simp: signals_present_def)
    from read_signal_typed [OF m vals _ this src(1,2)] src(3) a s
    show "\<exists>v. read_signal vals (ss_equipment s) (ss_point s) = Inr v \<and> has_type ?t v" by simp
  qed
  from traverse_signals [OF this] obtain vs where
    vs: "traverseE (\<lambda>s. read_signal vals (ss_equipment s) (ss_point s)) (sg_sources a) = Inr vs" "list_all (has_type ?t) vs"
    by blast
  have R: "soundE (has_type ?t) (reduce_values (sg_reduce a) vs)" by (rule reduce_sound [OF vs(2)])
  show ?case
  proof (cases "reduce_values (sg_reduce a) vs")
    case (Inl err)
    then show ?thesis using R by (simp add: read_aggregation_def vs(1))
  next
    case (Inr v)
    let ?ins = "AList.update (sg_target_point a) v ins"
    have "signal_typed p e (sg_target_point a) v" using R Inr tgt a by (simp add: signal_typed_def)
    then have ok: "ins_typed p e ?ins" by (rule ins_typed_update [OF Cons.prems(2)])
    have IH: "soundE (\<lambda>ins'. ins_typed p e ins' \<and> (\<forall>a \<in> set as. reduced_input vals ins' a)
        \<and> (\<forall>n. n \<notin> set (map sg_target_point as) \<longrightarrow> map_of ins' n = map_of ?ins n))
        (foldE (read_aggregation vals) as ?ins)"
      by (intro Cons.IH ok) (use Cons.prems(1,3) in auto)
    have step: "read_aggregation vals a ins = Inr ?ins" by (simp add: read_aggregation_def vs(1) Inr)
    have here: "reduced_input vals ins' a" if "map_of ins' (sg_target_point a) = Some v" for ins'
      using vs(1) Inr that by (auto simp: reduced_input_def)
    have "soundE (\<lambda>ins'. ins_typed p e ins' \<and> (\<forall>a \<in> set (a # as). reduced_input vals ins' a)
        \<and> (\<forall>n. n \<notin> set (map sg_target_point (a # as)) \<longrightarrow> map_of ins' n = map_of ins n))
        (foldE (read_aggregation vals) as ?ins)"
      by (rule soundE_mono [OF IH]) (use Cons.prems(3) here in auto)
    then show ?thesis by (simp add: step)
  qed
qed simp

text \<open>The inputs an equipment is evaluated on.\<close>

definition signals_agree :: "project_spec \<Rightarrow> string \<Rightarrow> pyval dict dict \<Rightarrow> pyval dict \<Rightarrow> bool" where
  "signals_agree p e vals ins \<longleftrightarrow> (\<forall>b \<in> set (bindings_into p e). bound_input vals ins b)
     \<and> (\<forall>a \<in> set (aggregations_into p e). reduced_input vals ins a)"

lemma targets_distinct:
  assumes "distinct (signal_targets p)"
  shows "distinct (map sb_target_point (bindings_into p e))" "distinct (map sg_target_point (aggregations_into p e))"
    and "set (map sb_target_point (bindings_into p e)) \<inter> set (map sg_target_point (aggregations_into p e)) = {}"
proof -
  have "distinct (map binding_target (filter P (pj_bindings p)))" for P
    using assms by (auto simp: signal_targets_def intro: distinct_map_filter)
  from this [of "\<lambda>b. sb_target_equipment b = e"]
  show "distinct (map sb_target_point (bindings_into p e))"
    by (auto simp: bindings_into_def distinct_map inj_on_def binding_target_def)
  have "distinct (map aggregation_target (filter P (pj_aggregations p)))" for P
    using assms by (auto simp: signal_targets_def intro: distinct_map_filter)
  from this [of "\<lambda>a. sg_target_equipment a = e"]
  show "distinct (map sg_target_point (aggregations_into p e))"
    by (auto simp: aggregations_into_def distinct_map inj_on_def aggregation_target_def)
  have "binding_target b \<noteq> aggregation_target a" if "b \<in> set (pj_bindings p)" "a \<in> set (pj_aggregations p)" for a b
    using assms that by (auto simp: signal_targets_def)
  then show "set (map sb_target_point (bindings_into p e)) \<inter> set (map sg_target_point (aggregations_into p e)) = {}"
    by (auto simp: bindings_into_def aggregations_into_def binding_target_def aggregation_target_def)
qed

lemma equipment_inputs_sound:
  assumes m: "graphs_match p graphs" and present: "signals_present p graphs" and sound: "signals_sound p"
    and vals: "values_ok graphs us vals" and per: "routed_ok p per"
    and earlier: "\<And>s. (s, e) \<in> set (signal_edges p) \<Longrightarrow> s \<in> set us"
  shows "soundE (\<lambda>ins. ins_typed p e ins \<and> signals_agree p e vals ins) (equipment_inputs p per vals e)"
proof -
  have dist: "distinct (signal_targets p)" using sound by (simp add: signals_sound_def)
  note D = targets_distinct [OF dist, of e]
  have bs: "b \<in> set (pj_bindings p) \<and> binding_ok p b \<and> sb_target_equipment b = e \<and> sb_source_equipment b \<in> set us"
    if "b \<in> set (bindings_into p e)" for b
    using that sound by (auto simp: bindings_into_def signals_sound_def intro!: earlier dest: binding_edge_in)
  have as: "a \<in> set (pj_aggregations p) \<and> aggregation_ok p a \<and> sg_target_equipment a = e
      \<and> (\<forall>s \<in> set (sg_sources a). ss_equipment s \<in> set us)"
    if "a \<in> set (aggregations_into p e)" for a
    using that sound by (auto simp: aggregations_into_def signals_sound_def intro!: earlier dest: aggregation_edge_in)
  have "ins_typed p e (values_of per e)" using per by (simp add: routed_ok_def)
  then obtain ins1 where ins1: "foldE (read_binding vals) (bindings_into p e) (values_of per e) = Inr ins1"
    "ins_typed p e ins1" "\<forall>b \<in> set (bindings_into p e). bound_input vals ins1 b"
    using read_bindings_sound [OF m present vals bs _ D(1)] by blast
  have "soundE (\<lambda>ins. ins_typed p e ins \<and> (\<forall>a \<in> set (aggregations_into p e). reduced_input vals ins a)
    \<and> (\<forall>n. n \<notin> set (map sg_target_point (aggregations_into p e)) \<longrightarrow> map_of ins n = map_of ins1 n))
    (foldE (read_aggregation vals) (aggregations_into p e) ins1)"
    by (rule read_aggregations_sound [OF m present vals as ins1(2) D(2)])
  then have "soundE (\<lambda>ins. ins_typed p e ins \<and> signals_agree p e vals ins)
    (foldE (read_aggregation vals) (aggregations_into p e) ins1)"
    by (rule soundE_mono) (use ins1(3) D(3) in \<open>fastforce simp: signals_agree_def bound_input_def\<close>)
  then show ?thesis by (simp add: equipment_inputs_def ins1(1))
qed

lemma before_split: "distinct (us @ e # vs) \<Longrightarrow> before (us @ e # vs) s e \<Longrightarrow> s \<in> set us"
proof -
  assume d: "distinct (us @ e # vs)" and b: "before (us @ e # vs) s e"
  obtain xs ys where xs: "us @ e # vs = xs @ e # ys" "s \<in> set xs" using b by (auto simp: before_def)
  have "e \<notin> set us" "e \<notin> set vs" using d by auto
  then have "us = xs" using xs(1) append_Cons_eq_iff [of e us vs xs ys] by simp
  then show "s \<in> set us" using xs(2) by simp
qed

lemma before_closed: "distinct (us @ vs) \<Longrightarrow> before (us @ vs) s t \<Longrightarrow> t \<in> set us \<Longrightarrow> s \<in> set us"
proof -
  assume d: "distinct (us @ vs)" and b: "before (us @ vs) s t" and t: "t \<in> set us"
  obtain xs ys where us: "us = xs @ t # ys" using t by (auto simp: in_set_conv_decomp)
  have "s \<in> set xs" by (rule before_split [of xs t "ys @ vs"]) (use d b us in auto)
  then show "s \<in> set us" by (simp add: us)
qed

lemma read_signal_other: "s \<noteq> e \<Longrightarrow> read_signal (AList.update e out vals) s n = read_signal vals s n"
  by (simp add: read_signal_def dict_get_def)

definition arrived :: "project_spec \<Rightarrow> control_graph dict \<Rightarrow> pyval dict dict \<Rightarrow> string \<Rightarrow> bool" where
  "arrived p graphs vals e \<longleftrightarrow>
     (\<forall>b \<in> set (bindings_into p e). has_input graphs e (sb_target_point b) \<longrightarrow> bound_input vals (values_of vals e) b)
     \<and> (\<forall>a \<in> set (aggregations_into p e). has_input graphs e (sg_target_point a) \<longrightarrow> reduced_input vals (values_of vals e) a)"

definition scan_inv :: "project_spec \<Rightarrow> control_graph dict \<Rightarrow> string list \<Rightarrow> building_scan \<Rightarrow> bool" where
  "scan_inv p graphs us sc \<longleftrightarrow> (case sc of (vals, interps, flat) \<Rightarrow>
     values_ok graphs us vals \<and> flat_ok vals flat \<and> interpreters_ok p interps
     \<and> (\<forall>e \<in> set us. arrived p graphs vals e) \<and> set (map fst vals) = set us)"

text \<open>The equipment's values extend the scan without disturbing the equipment before it.\<close>

lemma bound_input_other:
  "sb_source_equipment b \<noteq> e \<Longrightarrow> bound_input (AList.update e out vals) ins b = bound_input vals ins b"
  by (simp add: bound_input_def read_signal_other)

lemma reduced_input_other:
  assumes "\<forall>s \<in> set (sg_sources a). ss_equipment s \<noteq> e"
  shows "reduced_input (AList.update e out vals) ins a = reduced_input vals ins a"
proof -
  have "traverseE (\<lambda>s. read_signal (AList.update e out vals) (ss_equipment s) (ss_point s)) (sg_sources a)
      = traverseE (\<lambda>s. read_signal vals (ss_equipment s) (ss_point s)) (sg_sources a)"
    by (rule traverseE_cong) (use assms in \<open>simp add: read_signal_other\<close>)
  then show ?thesis by (simp add: reduced_input_def)
qed

lemma arrived_other:
  assumes "arrived p graphs vals e'" and "e' \<noteq> e" and "\<And>s. (s, e') \<in> set (signal_edges p) \<Longrightarrow> s \<noteq> e"
  shows "arrived p graphs (AList.update e out vals) e'"
proof -
  have "sb_source_equipment b \<noteq> e" if "b \<in> set (bindings_into p e')" for b
    using that assms(3) binding_edge_in by (auto simp: bindings_into_def)
  moreover have "\<forall>s \<in> set (sg_sources a). ss_equipment s \<noteq> e" if "a \<in> set (aggregations_into p e')" for a
    using that assms(3) aggregation_edge_in by (auto simp: aggregations_into_def)
  ultimately show ?thesis
    using assms(1,2) by (simp add: arrived_def values_of_update bound_input_other reduced_input_other)
qed

lemma arrived_new:
  assumes agree: "signals_agree p e vals ins" and run: "evaluate g ip ins step = Inr (out, ip')"
    and g: "map_of graphs e = Some g" "graph_ok g" and irrefl: "(e, e) \<notin> set (signal_edges p)"
  shows "arrived p graphs (AList.update e out vals) e"
proof -
  have input: "map_of out n = Some v" if n: "has_input graphs e n" and v: "map_of ins n = Some v" for n v
  proof -
    obtain b where b: "b \<in> set (blocks g)" "is_input_kind (bkind b)" "bid b = n"
      using n g(1) by (auto simp: has_input_def)
    show ?thesis using evaluate_input_value [OF run g(2) b(1,2)] b(3) v by (simp add: eval_input_def cfg_get_def)
  qed
  have "sb_source_equipment b \<noteq> e" if "b \<in> set (bindings_into p e)" for b
    using that irrefl binding_edge_in [of b p] by (auto simp: bindings_into_def)
  moreover have "\<forall>s \<in> set (sg_sources a). ss_equipment s \<noteq> e" if "a \<in> set (aggregations_into p e)" for a
  proof
    fix s assume s: "s \<in> set (sg_sources a)"
    have "(ss_equipment s, e) \<in> set (signal_edges p)"
      using that aggregation_edge_in [of a p s] s by (simp add: aggregations_into_def)
    then show "ss_equipment s \<noteq> e" using irrefl by auto
  qed
  ultimately show ?thesis
    using agree input
    by (auto simp: arrived_def signals_agree_def values_of_update bound_input_other reduced_input_other)
       (auto simp: bound_input_def reduced_input_def)
qed

lemma map_of_rev_distinct:
  assumes "distinct (map fst d)"
  shows "map_of (rev d) = map_of d"
proof -
  have "map_of (rev d) k = Some v \<longleftrightarrow> map_of d k = Some v" for k v
    using assms by (simp add: map_of_eq_Some_iff rev_map [symmetric])
  then show ?thesis by (metis map_of_eqI map_of_eq_None_iff not_None_eq ext)
qed

lemma qualified_lookup:
  assumes "is_ident e" "is_ident e'" "distinct (map fst out)"
  shows "map_of (dict_update flat (qualify_values e out)) (dotted e' n)
    = (if e' = e then (case map_of out n of None \<Rightarrow> map_of flat (dotted e n) | Some v \<Rightarrow> Some v)
       else map_of flat (dotted e' n))"
proof -
  have q: "map_of (qualify_values e xs) (dotted e' n) = (if e' = e then map_of xs n else None)" for xs
    using assms(1,2) by (induction xs) (auto simp: qualify_values_def)
  have "map_of (rev (qualify_values e out)) (dotted e' n) = map_of (qualify_values e (rev out)) (dotted e' n)"
    by (simp add: qualify_values_def rev_map)
  also have "\<dots> = (if e' = e then map_of out n else None)"
    unfolding q using assms(3) by (simp add: map_of_rev_distinct)
  finally show ?thesis by (simp add: map_of_dict_update split: option.splits)
qed

lemma step_sound:
  assumes m: "graphs_match p graphs" and present: "signals_present p graphs" and sound: "signals_sound p"
    and idents: "\<forall>e \<in> set (equipment_names p). is_ident e"
    and per: "routed_ok p per" and ord: "ord = us @ e # vs" "distinct ord" "set ord = set (equipment_names p)"
    and before: "\<And>s t. (s, t) \<in> set (signal_edges p) \<Longrightarrow> before ord s t"
    and inv: "scan_inv p graphs us sc"
  shows "soundE (scan_inv p graphs (us @ [e])) (evaluate_equipment p graphs per step e sc)"
proof -
  obtain vals interps flat where sc: "sc = (vals, interps, flat)" by (cases sc)
  have vals: "values_ok graphs us vals" and flat: "flat_ok vals flat" and ips: "interpreters_ok p interps"
    and arr: "\<forall>e \<in> set us. arrived p graphs vals e" and keys: "set (map fst vals) = set us"
    using inv by (simp_all add: scan_inv_def sc)
  have e: "e \<in> set (equipment_names p)" using ord by auto
  have new: "e \<notin> set us" using ord(1,2) by simp
  have "e \<notin> set (map fst vals)" using keys new by simp
  then have "map_of vals e = None" by (simp add: map_of_eq_None_iff)
  then have fresh: "values_of vals e = []" by (simp add: values_of_def)
  have src: "s \<in> set us" if "(s, e) \<in> set (signal_edges p)" for s
    using before_split [of us e vs s] before [OF that] ord(1,2) by simp
  have older: "s \<noteq> e" if "(s, e') \<in> set (signal_edges p)" "e' \<in> set us" for s e'
    using before_closed [of us "e # vs" s e'] before [OF that(1)] that(2) ord(1,2) new by auto
  obtain g where g: "map_of graphs e = Some g"
  proof (cases "map_of graphs e")
    case None
    then have "e \<notin> set (map fst graphs)" by (simp add: map_of_eq_None_iff)
    then show ?thesis using m e by (simp add: graphs_match_def)
  qed
  note G = graphs_matchD(1-3) [OF m g]
  obtain ip where ip: "map_of interps e = Some ip" "states_ok (in_state ip)"
    using ips e by (auto simp: interpreters_ok_def)
  have I: "soundE (\<lambda>ins. ins_typed p e ins \<and> signals_agree p e vals ins) (equipment_inputs p per vals e)"
    by (rule equipment_inputs_sound [OF m present sound vals per src])
  have step: "soundE (scan_inv p graphs (us @ [e])) (bindE (evaluate g ip ins step) (\<lambda>(out, ip').
      Inr (AList.update e out vals, AList.update e ip' interps, dict_update flat (qualify_values e out))))"
    if ins: "ins_typed p e ins \<and> signals_agree p e vals ins" for ins
  proof -
    have E: "soundE (\<lambda>(out, ip'). vals_ok (blocks g) out \<and> states_ok (in_state ip')) (evaluate g ip ins step)"
      using typed_names [OF m g] ins names_typed_inputs G(3) ip(2)
      by (intro evaluate_sound G(1,2)) (auto simp: runnable_def)
    show ?thesis
    proof (cases "evaluate g ip ins step")
      case (Inl err)
      then show ?thesis using E by simp
    next
      case (Inr r)
      obtain out ip' where r: "r = (out, ip')" by (cases r)
      have run: "evaluate g ip ins step = Inr (out, ip')" using Inr r by simp
      have out: "vals_ok (blocks g) out" "states_ok (in_state ip')" using E run by simp_all
      have "values_ok graphs (us @ [e]) (AList.update e out vals)"
        using vals new g out(1) by (auto simp: values_ok_def)
      moreover have "flat_ok (AList.update e out vals) (dict_update flat (qualify_values e out))"
        using flat fresh idents e evaluate_distinct [OF run]
        by (auto simp: flat_ok_def qualified_lookup values_of_update split: option.splits)
      moreover have "interpreters_ok p (AList.update e ip' interps)"
        using ips out(2) by (auto simp: interpreters_ok_def)
      moreover have "\<forall>e' \<in> set (us @ [e]). arrived p graphs (AList.update e out vals) e'"
      proof
        fix e' assume "e' \<in> set (us @ [e])"
        then consider "e' \<in> set us" | "e' = e" by auto
        then show "arrived p graphs (AList.update e out vals) e'"
        proof cases
          case 1
          then show ?thesis using arr new older by (intro arrived_other) auto
        next
          case 2
          have "(e, e) \<notin> set (signal_edges p)" using src new by blast
          then show ?thesis unfolding 2 using ins by (intro arrived_new [OF _ run g G(1)]) simp_all
        qed
      qed
      moreover have "set (map fst (AList.update e out vals)) = set (us @ [e])"
        using keys by (auto simp: dom_update)
      ultimately show ?thesis by (simp add: run scan_inv_def)
    qed
  qed
  have found: "dict_get graphs e = Inr g" "dict_get interps e = Inr ip" by (simp_all add: g ip(1))
  show ?thesis
    unfolding evaluate_equipment_def sc prod.case found bindE_Inr by (rule soundE_bind [OF I step])
qed

text \<open>What holds of a building between scans, and after one.\<close>

definition accepted_building :: "project_spec \<Rightarrow> control_graph dict \<Rightarrow> bool" where
  "accepted_building p graphs \<longleftrightarrow> validate_topology p = Inr () \<and> list_all project_case_ok (pj_acceptance_tests p)
     \<and> graphs_match p graphs \<and> signals_present p graphs"

definition building_ok :: "project_spec \<Rightarrow> control_graph dict \<Rightarrow> building \<Rightarrow> bool" where
  "building_ok p graphs bg \<longleftrightarrow> bg_project bg = p \<and> bg_graphs bg = graphs
     \<and> equipment_order p = Inr (bg_order bg) \<and> interpreters_ok p (bg_interpreters bg)"

definition scan_result :: "project_spec \<Rightarrow> control_graph dict \<Rightarrow> pyval dict \<Rightarrow> bool" where
  "scan_result p graphs flat \<longleftrightarrow> (\<exists>vals. values_ok graphs (equipment_names p) vals \<and> flat_ok vals flat
     \<and> (\<forall>e \<in> set (equipment_names p). arrived p graphs vals e))"

lemma accepted_sound: "accepted_building p graphs \<Longrightarrow> signals_sound p"
  by (simp add: accepted_building_def validate_topology_sound)

lemma accepted_idents:
  assumes "accepted_building p graphs" and "e \<in> set (equipment_names p)"
  shows "is_ident e"
  using assms by (auto simp: accepted_building_def graphs_match_def list_all_iff project_job_ok_def equipment_names_def)

lemma building_init_ok:
  assumes "accepted_building p graphs"
  shows "\<exists>bg. building_init p graphs = Inr bg \<and> building_ok p graphs bg"
proof -
  have sound: "signals_sound p" by (rule accepted_sound [OF assms])
  have ord: "equipment_order p = Inr (scheduling.sort_nodes p)"
    using equipment_order_acyclic(1) [OF signals_sound_known [OF sound]] sound by (simp add: signals_sound_def)
  have same: "set (map fst graphs) = set (equipment_names p)"
    using assms by (simp add: accepted_building_def graphs_match_def)
  have "map_of (map (\<lambda>(k, _). (k, interp_init)) graphs) e = Some interp_init" if "e \<in> set (map fst graphs)" for e
    using that by (induction graphs) auto
  then have "interpreters_ok p (map (\<lambda>(k, _). (k, interp_init)) graphs)"
    by (simp add: interpreters_ok_def same [symmetric] del: set_map) (auto simp: interp_init_def states_ok_def)
  then show ?thesis using ord same by (simp add: building_init_def building_ok_def del: set_map)
qed

lemma building_scan_sound:
  assumes acc: "accepted_building p graphs" and bg: "building_ok p graphs bg" and ins: "list_all (supplied_ok p) ins"
  shows "soundE (\<lambda>(flat, bg'). scan_result p graphs flat \<and> building_ok p graphs bg') (evaluate_building bg ins step)"
proof -
  have m: "graphs_match p graphs" and present: "signals_present p graphs"
    using acc by (simp_all add: accepted_building_def)
  have sound: "signals_sound p" by (rule accepted_sound [OF acc])
  have acyclic: "acyclic (set (signal_edges p))" using sound by (simp add: signals_sound_def)
  note O = equipment_order_acyclic [OF signals_sound_known [OF sound] acyclic]
  have parts: "bg_project bg = p" "bg_graphs bg = graphs" "bg_order bg = scheduling.sort_nodes p"
    "interpreters_ok p (bg_interpreters bg)"
    using bg O(1) by (auto simp: building_ok_def)
  have S: "soundE (scan_inv p graphs (scheduling.sort_nodes p))
      (foldE (evaluate_equipment p graphs per step) (scheduling.sort_nodes p) ([], bg_interpreters bg, []))"
    if per: "routed_ok p per" for per
  proof (rule soundE_foldE_prefix)
    show "scan_inv p graphs [] ([], bg_interpreters bg, [])"
      using parts(4) by (simp add: scan_inv_def values_ok_def flat_ok_def values_of_def)
    show "soundE (scan_inv p graphs (us @ [e])) (evaluate_equipment p graphs per step e sc)"
      if "scheduling.sort_nodes p = us @ e # vs" "scan_inv p graphs us sc" for us e vs sc
      by (rule step_sound [OF m present sound _ per that(1) O(2,3,4) that(2)]) (use accepted_idents [OF acc] in blast)
  qed
  show ?thesis
    unfolding evaluate_building_def parts(1-3)
  proof (rule soundE_bind [OF route_sound [OF ins]], rule soundE_bind [OF S])
    fix per sc assume "scan_inv p graphs (scheduling.sort_nodes p) sc"
    then show "soundE (\<lambda>(flat, bg'). scan_result p graphs flat \<and> building_ok p graphs bg')
        (case sc of (_, interps, flat) \<Rightarrow> Inr (flat, bg\<lparr>bg_interpreters := interps\<rparr>))"
      using O(1,3) parts by (cases sc) (auto simp: scan_inv_def scan_result_def building_ok_def values_ok_def)
  qed
qed

section \<open>The acceptance suite never fails for a lookup or a type\<close>

lemma repeat_sound:
  assumes acc: "accepted_building p graphs" and ins: "list_all (supplied_ok p) ins"
    and r: "building_ok p graphs (jr_building r)" "n = 0 \<Longrightarrow> scan_result p graphs (jr_values r)"
  shows "soundE (\<lambda>r'. building_ok p graphs (jr_building r') \<and> scan_result p graphs (jr_values r'))
    (repeat_building ins step i k n r)"
  using r
proof (induction n arbitrary: k r)
  case (Suc n)
  show ?case
    unfolding repeat_building.simps
  proof (rule soundE_bind [OF building_scan_sound [OF acc Suc.prems(1) ins]])
    fix x assume "case x of (flat, bg') \<Rightarrow> scan_result p graphs flat \<and> building_ok p graphs bg'"
    then show "soundE (\<lambda>r'. building_ok p graphs (jr_building r') \<and> scan_result p graphs (jr_values r'))
        (case x of (vals, bg) \<Rightarrow> repeat_building ins step i (Suc k) n
          \<lparr>jr_building = bg, jr_values = vals,
           jr_samples = jr_samples r @ [dict_update (dict_update (timeline_header i (Suc (jr_scan r)) (Suc k)) ins) vals],
           jr_scan = Suc (jr_scan r)\<rparr>)"
      by (cases x) (auto intro: Suc.IH)
  qed
qed simp

lemma output_flat:
  assumes acc: "accepted_building p graphs" and flat: "scan_result p graphs flat"
    and e: "on_boundary graphs e n" "project_point p e n = Some pt" "is_output_role (pt_role pt)"
  shows "\<exists>v. map_of flat (dotted e n) = Some v \<and> has_type (pt_data_type pt) v"
proof -
  obtain vals where vals: "values_ok graphs (equipment_names p) vals" "flat_ok vals flat"
    using flat by (auto simp: scan_result_def)
  have known: "e \<in> set (equipment_names p)" by (rule project_point_known [OF e(2)])
  obtain g out where g: "map_of graphs e = Some g" and out: "map_of vals e = Some out" "vals_ok (blocks g) out"
    using vals(1) known by (auto simp: values_ok_def)
  have m: "graphs_match p graphs" using acc by (simp add: accepted_building_def)
  show ?thesis
    using output_value [OF m g out(2) e] vals(2) accepted_idents [OF acc known] out(1)
    by (simp add: flat_ok_def values_of_def)
qed

lemma dict_of_map: "map_of (dict_of key f xs) k = map_option f (map_of (dict_of key (\<lambda>x. x) xs) k)"
proof -
  have "rev (map (\<lambda>x. (key x, f x)) xs) = map (\<lambda>(a, b). (a, f b)) (rev (map (\<lambda>x. (key x, x)) xs))"
    by (simp add: rev_map comp_def)
  then show ?thesis by (simp add: map_of_dict_of map_of_map)
qed

lemma outputs_of_job:
  assumes "map_of (outputs_by_job p) e = Some outs"
  obtains job where "map_of (job_table p) e = Some job" "outs = job_outputs job"
  using assms unfolding outputs_by_job_def job_table_def dict_of_map [of _ job_outputs] by auto

lemma find_point_unique:
  assumes "distinct (map pt_name (jb_points job))" and "pt \<in> set (jb_points job)"
  shows "find_point job (pt_name pt) = Some pt"
proof -
  have "distinct (map pt_name ps) \<Longrightarrow> pt \<in> set ps \<Longrightarrow> find (\<lambda>x. pt_name x = pt_name pt) ps = Some pt" for ps
    by (induction ps) (auto simp: image_iff)
  then show ?thesis using assms by (simp add: find_point_def)
qed

lemma assertion_sound:
  assumes acc: "accepted_building p graphs" and flat: "scan_result p graphs flat"
    and ph: "ph \<in> set (project_phases p)" "ex \<in> set (pp_expectations ph)" and ex: "project_expectation_ok ex"
  shows "soundE (\<lambda>_. True) (project_assertion label flat ex)"
proof -
  have "check_project_phase p (rev (signal_targets p)) ph = Inr ()"
    using accepted_sound [OF acc] ph(1) by (simp add: signals_sound_def)
  then have chk: "check_project_expectation (outputs_by_job p) ex = Inr ()"
    using ph(2) by (auto simp: check_project_phase_def bindE_eq_Inr checks_Inr_iff)
  obtain outs pt where outs: "map_of (outputs_by_job p) (pe_equipment ex) = Some outs" "map_of outs (pe_point ex) = Some pt"
    using chk by (auto simp: check_project_expectation_def split: option.splits)
  obtain job where job: "map_of (job_table p) (pe_equipment ex) = Some job" "outs = job_outputs job"
    using outputs_of_job [OF outs(1)] by blast
  have pt: "pt \<in> set (jb_points job)" "is_output_role (pt_role pt)" "pt_name pt = pe_point ex"
    using outs(2) by (auto simp: job(2) job_outputs_def dest!: map_of_dict_of_Some)
  have "distinct (map pt_name (jb_points job))"
    using acc job(1) by (auto simp: accepted_building_def graphs_match_def list_all_iff project_job_ok_def
        job_table_def dest!: map_of_dict_of_Some)
  then have point: "project_point p (pe_equipment ex) (pe_point ex) = Some pt"
    using find_point_unique [of job pt] pt by (simp add: project_pointI [OF job(1)])
  have "(pe_equipment ex, pe_point ex) \<in> set (observed_outputs p)"
    using ph by (auto simp: observed_outputs_def)
  then have "on_boundary graphs (pe_equipment ex) (pe_point ex)"
    using acc by (auto simp: accepted_building_def signals_present_def)
  then obtain v where v: "map_of flat (dotted (pe_equipment ex) (pe_point ex)) = Some v" "has_type (pt_data_type pt) v"
    using output_flat [OF acc flat _ point pt(2)] by blast
  have "float_or_bool v" using v(2) by (cases "pt_data_type pt") (auto simp: float_or_bool_def)
  then have "soundE (\<lambda>_. True) (compare_project ex v)"
    unfolding compare_project_eq using ex by (intro comparison_sound) (simp_all add: project_expectation_ok_def)
  then show ?thesis
    by (auto simp: project_assertion_def Let_def dict_get_def v(1) intro: soundE_bind)
qed

lemma soundE_traverse_all:
  "(\<And>x. x \<in> set xs \<Longrightarrow> soundE P (f x)) \<Longrightarrow> soundE (list_all P) (traverseE f xs)"
proof (induction xs)
  case (Cons x xs)
  have "soundE P (f x)" "soundE (list_all P) (traverseE f xs)" using Cons by simp_all
  then show ?case by (cases "f x"; cases "traverseE f xs") simp_all
qed simp

lemma project_phases_sound:
  assumes acc: "accepted_building p graphs"
    and phs: "set phs \<subseteq> set (project_phases p)" "list_all project_phase_ok phs"
    and current: "list_all (supplied_ok p) current" and r: "building_ok p graphs (jr_building r)"
  shows "soundE (\<lambda>_. True) (run_project_phases name i phs current r as)"
  using phs current r
proof (induction phs arbitrary: i current r as)
  case (Cons ph phs)
  let ?current = "dict_update current (pp_inputs ph)"
  have ph: "ph \<in> set (project_phases p)" "project_phase_ok ph" using Cons.prems(1,2) by simp_all
  have "check_project_phase p (rev (signal_targets p)) ph = Inr ()"
    using accepted_sound [OF acc] ph(1) by (simp add: signals_sound_def)
  then have supplied: "list_all (supplied_ok p) ?current"
    using ph(2) Cons.prems(3) by (intro supplied_update phase_inputs_supplied) (simp_all add: project_phase_ok_def)
  have step1: "soundE (\<lambda>(flat, bg'). scan_result p graphs flat \<and> building_ok p graphs bg')
      (evaluate_building (jr_building r) ?current (Fin 0))"
    by (rule building_scan_sound [OF acc Cons.prems(4) supplied])
  have step2: "soundE (\<lambda>r'. building_ok p graphs (jr_building r') \<and> scan_result p graphs (jr_values r'))
      (repeat_building ?current (pp_step_seconds ph) i 0 (pp_repeat ph) (r\<lparr>jr_building := bg, jr_values := []\<rparr>))"
    if "building_ok p graphs bg" for bg
    by (rule repeat_sound [OF acc supplied]) (use that ph(2) in \<open>simp_all add: project_phase_ok_def repeat_ok_def\<close>)
  have step3: "soundE (list_all (\<lambda>_. True)) (traverseE (project_assertion label vals) (pp_expectations ph))"
    if "scan_result p graphs vals" for label vals
    using that ph by (intro soundE_traverse_all assertion_sound [OF acc _ ph(1)])
       (auto simp: project_phase_ok_def list_all_iff)
  have rest: "soundE (\<lambda>_. True) (run_project_phases name (Suc i) phs ?current r' as')"
    if "building_ok p graphs (jr_building r')" for r' as'
    using Cons.prems(1,2) supplied that by (intro Cons.IH) simp_all
  show ?case
    unfolding run_project_phases.simps Let_def
  proof (rule soundE_bind [OF step1])
    fix x assume x: "case x of (flat, bg') \<Rightarrow> scan_result p graphs flat \<and> building_ok p graphs bg'"
    obtain flat bg where x_eq: "x = (flat, bg)" by (cases x)
    have bg: "building_ok p graphs bg" using x by (simp add: x_eq)
    show "soundE (\<lambda>_. True) (case x of (_, bg) \<Rightarrow>
        bindE (repeat_building ?current (pp_step_seconds ph) i 0 (pp_repeat ph) (r\<lparr>jr_building := bg, jr_values := []\<rparr>)) (\<lambda>r.
        bindE (traverseE (project_assertion (name @ '' / '' @ pp_name ph) (jr_values r)) (pp_expectations ph)) (\<lambda>new.
        run_project_phases name (Suc i) phs ?current r (as @ new))))"
      unfolding x_eq prod.case
      by (rule soundE_bind [OF step2 [OF bg]]) (auto intro!: soundE_bind [OF step3] rest)
  qed
qed simp

lemma project_suite_sound:
  assumes acc: "accepted_building p graphs"
  shows "soundE (\<lambda>_. True) (run_project_acceptance_suite p graphs)"
proof -
  obtain bg where bg: "building_init p graphs = Inr bg" "building_ok p graphs bg"
    using building_init_ok [OF acc] by blast
  have case_sound: "soundE (\<lambda>_. True) (run_project_case p graphs c)" if c: "c \<in> set (pj_acceptance_tests p)" for c
  proof -
    let ?r = "\<lparr>jr_building = bg, jr_values = [], jr_samples = [], jr_scan = 0\<rparr>"
    have "list_all project_phase_ok (pc_phases c)" "set (pc_phases c) \<subseteq> set (project_phases p)"
      using acc c by (auto simp: accepted_building_def list_all_iff project_case_ok_def project_phases_def)
    then have "soundE (\<lambda>_. True) (run_project_phases (pc_name c) 1 (pc_phases c) [] ?r [])"
      using bg(2) by (intro project_phases_sound [OF acc]) simp_all
    then show ?thesis
      unfolding run_project_case_def bg(1) bindE_Inr by (rule soundE_bind) (simp split: prod.split)
  qed
  have "soundE (list_all (\<lambda>_. True)) (traverseE (run_project_case p graphs) (pj_acceptance_tests p))"
    by (rule soundE_traverse_all [OF case_sound])
  then show ?thesis
    unfolding run_project_acceptance_suite_def by (rule soundE_bind) simp
qed

section \<open>Two fans in a row\<close>

text \<open>Two copies of the sample program; the output of the first commands the second.\<close>

definition sample_fan :: "string \<Rightarrow> job_spec" where
  "sample_fan name = sample_job\<lparr>jb_equipment_name := name\<rparr>"

definition sample_phase :: project_phase where
  "sample_phase = \<lparr>pp_name = ''run'', pp_inputs = [(''Fan_1.cmd'', PBool True)], pp_repeat = 1, pp_step_seconds = Fin 1,
     pp_expectations = [\<lparr>pe_equipment = ''Fan_2'', pe_point = ''fan'', pe_operator = EQ, pe_value = PBool True,
                         pe_upper = None, pe_tolerance = Fin 0\<rparr>]\<rparr>"

definition sample_project :: project_spec where
  "sample_project = \<lparr>pj_name = ''two fans'', pj_site = ''plant'', pj_equipment = [sample_fan ''Fan_1'', sample_fan ''Fan_2''],
     pj_relationships = [],
     pj_bindings = [\<lparr>sb_source_equipment = ''Fan_1'', sb_source_point = ''fan'', sb_target_equipment = ''Fan_2'',
                     sb_target_point = ''cmd''\<rparr>],
     pj_aggregations = [], pj_acceptance_tests = [\<lparr>pc_name = ''chain'', pc_phases = [sample_phase]\<rparr>],
     pj_assembly_mode = NoAssembly\<rparr>"

definition sample_graphs :: "control_graph dict" where
  "sample_graphs = [(''Fan_1'', sample_graph), (''Fan_2'', sample_graph)]"

lemma sample_topology: "validate_topology sample_project = Inr ()"
  by code_simp

lemma accepted_project_is_scheduled_witness:
  "\<exists>ord. equipment_order sample_project = Inr ord \<and> set ord = {''Fan_1'', ''Fan_2''} \<and> before ord ''Fan_1'' ''Fan_2''"
  using accepted_project_is_scheduled [OF sample_topology]
  by (auto simp: sample_project_def equipment_names_def sample_fan_def)

lemma accepted_signals_have_one_driver_witness:
  "distinct (signal_targets sample_project) \<and> list_all (binding_ok sample_project) (pj_bindings sample_project)
     \<and> (\<exists>key. qualified_point ''Fan_1.cmd'' = Some key \<and> key \<notin> set (signal_targets sample_project))"
  using accepted_signals_have_one_driver [OF sample_topology]
  by (auto simp: list_all_iff project_phases_def sample_project_def sample_phase_def)

lemma sample_project_case: "list_all project_case_ok (pj_acceptance_tests sample_project)"
proof -
  have idents: "is_ident ''Fan_2''" "is_ident ''fan''" "qualified_point ''Fan_1.cmd'' = Some (''Fan_1'', ''cmd'')"
    by code_simp+
  then show ?thesis
    by (simp add: sample_project_def project_case_ok_def project_phase_ok_def sample_phase_def float_or_bool_def
        repeat_ok_def step_ok_def project_expectation_ok_def project_expectation_range_def qualified_inputs_def
        unique_phases_def raise_if_def okE_def checks_def)
qed

lemma sample_graphs_match: "graphs_match sample_project sample_graphs"
proof -
  have jobs: "list_all project_job_ok (pj_equipment sample_project)" by code_simp
  have names: "set (map fst sample_graphs) = set (equipment_names sample_project)"
    by (simp add: sample_graphs_def sample_project_def equipment_names_def sample_fan_def)
  have table: "map_of (job_table sample_project) ''Fan_1'' = Some (sample_fan ''Fan_1'')"
    "map_of (job_table sample_project) ''Fan_2'' = Some (sample_fan ''Fan_2'')"
    by (simp_all add: job_table_def sample_project_def dict_of_def sample_fan_def)
  have "validate_job_graph_contract (sample_fan n) sample_graph = Inr ()" for n
    using sample_contract by (simp add: validate_job_graph_contract_def sample_fan_def)
  then show ?thesis
    using jobs names table sample_graph_ok sample_configs_ok by (auto simp: graphs_match_def sample_graphs_def)
qed

lemma sample_accepted: "accepted_building sample_project sample_graphs"
proof -
  have "signals_present sample_project sample_graphs"
    by (simp add: signals_present_def sample_project_def sample_graphs_def on_boundary_def sample_graph_def
        is_boundary_def is_output_kind_def observed_outputs_def project_phases_def sample_phase_def)
  then show ?thesis
    using sample_topology sample_project_case sample_graphs_match by (simp add: accepted_building_def)
qed

section \<open>What the simulator guarantees\<close>

lemma traverseE_transfer:
  "traverseE f xs = Inr ys \<Longrightarrow> (\<And>x y. x \<in> set xs \<Longrightarrow> f x = Inr y \<Longrightarrow> g x = Inr y) \<Longrightarrow> traverseE g xs = Inr ys"
  by (induction xs arbitrary: ys) (auto simp: bindE_eq_Inr)

text \<open>C17: the acceptance suite of an admitted project is type safe: when every equipment has a
  validated graph that keeps its job's contract and exposes the outputs the signals and
  expectations name, and the PI loops of those graphs configure a number as \<open>disabled_output\<close>, if
  they configure one (the condition \<open>configs_ok\<close>, which the validator leaves unchecked), no case, phase, scan or assertion of the whole building ends in a
  \<open>KeyError\<close>, \<open>TypeError\<close>, \<open>IndexError\<close> or \<open>AttributeError\<close>.\<close>

theorem project_suite_type_safe:
  assumes "accepted_building p graphs"
  shows "soundE (\<lambda>_. True) (run_project_acceptance_suite p graphs)"
  by (rule project_suite_sound [OF assms])

lemma project_suite_type_safe_witness:
  "soundE (\<lambda>_. True) (run_project_acceptance_suite sample_project sample_graphs)"
  by (rule project_suite_type_safe [OF sample_accepted])

text \<open>C18: signals cross the building within one scan: after any scan of an admitted building
  (with PI loops as in the previous property) on inputs the validator accepts, the value of a bound input equals the value its source
  computed in that very scan, and an aggregated input is the reduction of the values its
  sources computed in that scan.\<close>

theorem signals_arrive_in_the_same_scan:
  assumes "accepted_building p graphs" and "building_ok p graphs bg" and "list_all (supplied_ok p) ins"
  shows "soundE (\<lambda>(flat, _).
    (\<forall>b \<in> set (pj_bindings p). has_input graphs (sb_target_equipment b) (sb_target_point b) \<longrightarrow>
       (\<exists>v. map_of flat (dotted (sb_source_equipment b) (sb_source_point b)) = Some v
          \<and> map_of flat (dotted (sb_target_equipment b) (sb_target_point b)) = Some v))
    \<and> (\<forall>a \<in> set (pj_aggregations p). has_input graphs (sg_target_equipment a) (sg_target_point a) \<longrightarrow>
       (\<exists>vs v. traverseE (\<lambda>s. dict_get flat (dotted (ss_equipment s) (ss_point s))) (sg_sources a) = Inr vs
          \<and> reduce_values (sg_reduce a) vs = Inr v
          \<and> map_of flat (dotted (sg_target_equipment a) (sg_target_point a)) = Some v)))
    (evaluate_building bg ins step)"
proof (rule soundE_mono [OF building_scan_sound [OF assms]], clarify)
  fix flat bg' assume "scan_result p graphs flat"
  then obtain vals where vals: "values_ok graphs (equipment_names p) vals" and flat: "flat_ok vals flat"
    and arrived: "\<forall>e \<in> set (equipment_names p). arrived p graphs vals e"
    by (auto simp: scan_result_def)
  have signal: "dict_get flat (dotted e n) = Inr v" if "read_signal vals e n = Inr v" "is_ident e" for e n v
    using that flat by (auto simp: read_signal_def bindE_eq_Inr flat_ok_def values_of_def)
  have ident: "is_ident e" "is_ident e'" "e' \<in> set (equipment_names p)" if "(e, e') \<in> set (signal_edges p)" for e e'
    using that accepted_idents [OF assms(1)] signals_sound_known [OF accepted_sound [OF assms(1)]]
    by (auto simp: signals_known_def)
  show "(\<forall>b \<in> set (pj_bindings p). has_input graphs (sb_target_equipment b) (sb_target_point b) \<longrightarrow>
       (\<exists>v. map_of flat (dotted (sb_source_equipment b) (sb_source_point b)) = Some v
          \<and> map_of flat (dotted (sb_target_equipment b) (sb_target_point b)) = Some v))
    \<and> (\<forall>a \<in> set (pj_aggregations p). has_input graphs (sg_target_equipment a) (sg_target_point a) \<longrightarrow>
       (\<exists>vs v. traverseE (\<lambda>s. dict_get flat (dotted (ss_equipment s) (ss_point s))) (sg_sources a) = Inr vs
          \<and> reduce_values (sg_reduce a) vs = Inr v
          \<and> map_of flat (dotted (sg_target_equipment a) (sg_target_point a)) = Some v))"
  proof (intro conjI ballI impI)
    fix b assume b: "b \<in> set (pj_bindings p)" and i: "has_input graphs (sb_target_equipment b) (sb_target_point b)"
    note I = ident [OF binding_edge_in [OF b]]
    have "bound_input vals (values_of vals (sb_target_equipment b)) b"
      using arrived I(3) b i by (simp add: arrived_def bindings_into_def)
    then show "\<exists>v. map_of flat (dotted (sb_source_equipment b) (sb_source_point b)) = Some v
        \<and> map_of flat (dotted (sb_target_equipment b) (sb_target_point b)) = Some v"
      using signal I(1,2) flat by (fastforce simp: bound_input_def flat_ok_def)
  next
    fix a assume a: "a \<in> set (pj_aggregations p)" and i: "has_input graphs (sg_target_equipment a) (sg_target_point a)"
    show "\<exists>vs v. traverseE (\<lambda>s. dict_get flat (dotted (ss_equipment s) (ss_point s))) (sg_sources a) = Inr vs
        \<and> reduce_values (sg_reduce a) vs = Inr v
        \<and> map_of flat (dotted (sg_target_equipment a) (sg_target_point a)) = Some v"
    proof -
      have "aggregation_ok p a" using accepted_sound [OF assms(1)] a by (simp add: signals_sound_def)
      then have known: "sg_target_equipment a \<in> set (equipment_names p)"
        by (auto simp: aggregation_ok_def intro: project_point_known)
      then have "reduced_input vals (values_of vals (sg_target_equipment a)) a"
        using arrived a i by (simp add: arrived_def aggregations_into_def)
      then obtain vs v where
        vs: "traverseE (\<lambda>s. read_signal vals (ss_equipment s) (ss_point s)) (sg_sources a) = Inr vs"
        and v: "reduce_values (sg_reduce a) vs = Inr v"
          "map_of (values_of vals (sg_target_equipment a)) (sg_target_point a) = Some v"
        by (auto simp: reduced_input_def)
      have "traverseE (\<lambda>s. dict_get flat (dotted (ss_equipment s) (ss_point s))) (sg_sources a) = Inr vs"
        by (rule traverseE_transfer [OF vs]) (use signal ident(1) [OF aggregation_edge_in [OF a]] in blast)
      moreover have "map_of flat (dotted (sg_target_equipment a) (sg_target_point a)) = Some v"
        using flat v(2) accepted_idents [OF assms(1) known] by (simp add: flat_ok_def)
      ultimately show ?thesis using v(1) by blast
    qed
  qed
qed

lemma sample_supplied: "list_all (supplied_ok sample_project) [(''Fan_1.cmd'', PBool True)]"
proof -
  have "qualified_point ''Fan_1.cmd'' = Some (''Fan_1'', ''cmd'')"
    "map_option pt_data_type (project_point sample_project ''Fan_1'' ''cmd'') = Some BOOLEAN"
    "(''Fan_1'', ''cmd'') \<notin> set (signal_targets sample_project)"
    by code_simp+
  then show ?thesis by (auto simp: supplied_ok_def signal_typed_def)
qed

lemma signals_arrive_in_the_same_scan_witness:
  "\<exists>bg. soundE (\<lambda>(flat, _). \<exists>v. map_of flat ''Fan_1.fan'' = Some v \<and> map_of flat ''Fan_2.cmd'' = Some v)
     (evaluate_building bg [(''Fan_1.cmd'', PBool True)] (Fin 1))"
proof -
  obtain bg where bg: "building_ok sample_project sample_graphs bg"
    using building_init_ok [OF sample_accepted] by blast
  have input: "has_input sample_graphs ''Fan_2'' ''cmd''"
    by (simp add: has_input_def sample_graphs_def sample_graph_def is_input_kind_def)
  show ?thesis
    by (rule exI [of _ bg], rule soundE_mono [OF signals_arrive_in_the_same_scan [OF sample_accepted bg sample_supplied]])
       (use input in \<open>auto simp: sample_project_def dotted_def\<close>)
qed

section \<open>An optional point that no block provides\<close>

text \<open>The first fan declares an optional alarm its program does not have, and the project binds it.\<close>

definition alarmed_fan :: "string \<Rightarrow> job_spec" where
  "alarmed_fan name = sample_job\<lparr>jb_equipment_name := name, jb_points := jb_points sample_job @
     [\<lparr>pt_name = ''alm'', pt_data_type = BOOLEAN, pt_role = ALARM, pt_default = PBool False, pt_required = False,
       pt_device_instance = None, pt_bacnet_object = None, pt_niagara_ord = None, pt_write_priority = None\<rparr>]\<rparr>"

definition alarmed_project :: project_spec where
  "alarmed_project = sample_project
     \<lparr>pj_equipment := [alarmed_fan ''Fan_1'', sample_fan ''Fan_2''],
      pj_bindings := [\<lparr>sb_source_equipment = ''Fan_1'', sb_source_point = ''alm'', sb_target_equipment = ''Fan_2'',
                       sb_target_point = ''cmd''\<rparr>]\<rparr>"

lemma alarmed_order: "building_init alarmed_project sample_graphs =
    Inr \<lparr>bg_project = alarmed_project, bg_graphs = sample_graphs,
         bg_interpreters = [(''Fan_1'', interp_init), (''Fan_2'', interp_init)], bg_order = [''Fan_1'', ''Fan_2'']\<rparr>"
proof -
  have "equipment_order alarmed_project = Inr [''Fan_1'', ''Fan_2'']" by code_simp
  moreover have "equipment_names alarmed_project = [''Fan_1'', ''Fan_2'']"
    by (simp add: equipment_names_def alarmed_project_def alarmed_fan_def sample_fan_def)
  ultimately show ?thesis by (simp add: building_init_def sample_graphs_def)
qed

lemma alarmed_suite: "run_project_acceptance_suite alarmed_project sample_graphs = Inl (KeyError ''alm'')"
proof -
  have tests: "pj_acceptance_tests alarmed_project = [\<lparr>pc_name = ''chain'', pc_phases = [sample_phase]\<rparr>]"
    by (simp add: alarmed_project_def sample_project_def)
  have into: "bindings_into alarmed_project ''Fan_1'' = []" "aggregations_into alarmed_project e = []"
    "bindings_into alarmed_project ''Fan_2'' = [\<lparr>sb_source_equipment = ''Fan_1'', sb_source_point = ''alm'',
       sb_target_equipment = ''Fan_2'', sb_target_point = ''cmd''\<rparr>]" for e
    by (simp_all add: bindings_into_def aggregations_into_def alarmed_project_def sample_project_def)
  have route: "foldE route_input [(''Fan_1.cmd'', PBool True)] [] = Inr [(''Fan_1'', [(''cmd'', PBool True)])]"
    by code_simp
  have first: "evaluate sample_graph interp_init [(''cmd'', PBool True)] (Fin 0)
      = Inr (sample_values, \<lparr>in_state = [], in_time = fadd (in_time interp_init) (Fin 0), in_events = []\<rparr>)"
    by (rule sample_scan) (simp_all add: interp_init_def)
  have "evaluate_building \<lparr>bg_project = alarmed_project, bg_graphs = sample_graphs,
      bg_interpreters = [(''Fan_1'', interp_init), (''Fan_2'', interp_init)], bg_order = [''Fan_1'', ''Fan_2'']\<rparr>
      [(''Fan_1.cmd'', PBool True)] (Fin 0) = Inl (KeyError ''alm'')"
    unfolding evaluate_building_def building.simps route bindE_Inr
    by (simp add: evaluate_equipment_def equipment_inputs_def into values_of_def sample_graphs_def dict_get_def first
        read_binding_def read_signal_def sample_values_def)
  then show ?thesis
    by (simp add: run_project_acceptance_suite_def tests run_project_case_def alarmed_order sample_phase_def
        dict_update_def)
qed

text \<open>C20: the intake contract does not make the suite safe on its own: a binding may name an
  optional output that the equipment's program does not provide.  The project is admitted,
  every program is valid and keeps the contract of its job, and the acceptance suite still
  ends in a \<open>KeyError\<close>.\<close>

theorem optional_output_breaks_suite:
  "validate_topology alarmed_project = Inr () \<and> graphs_match alarmed_project sample_graphs
     \<and> run_project_acceptance_suite alarmed_project sample_graphs = Inl (KeyError ''alm'')"
proof -
  have topology: "validate_topology alarmed_project = Inr ()" by code_simp
  have jobs: "list_all project_job_ok (pj_equipment alarmed_project)" by code_simp
  have names: "set (map fst sample_graphs) = set (equipment_names alarmed_project)"
    by (simp add: sample_graphs_def alarmed_project_def equipment_names_def sample_fan_def alarmed_fan_def)
  have table: "map_of (job_table alarmed_project) ''Fan_1'' = Some (alarmed_fan ''Fan_1'')"
    "map_of (job_table alarmed_project) ''Fan_2'' = Some (sample_fan ''Fan_2'')"
    by (simp_all add: job_table_def alarmed_project_def dict_of_def sample_fan_def alarmed_fan_def)
  have "validate_job_graph_contract (alarmed_fan ''Fan_1'') sample_graph = Inr ()"
    "validate_job_graph_contract (sample_fan ''Fan_2'') sample_graph = Inr ()"
    by code_simp+
  then have "graphs_match alarmed_project sample_graphs"
    using jobs names table sample_graph_ok sample_configs_ok by (auto simp: graphs_match_def sample_graphs_def)
  then show ?thesis using topology alarmed_suite by simp
qed

end
