(* ===== verification/ProjectBuild.thy ===== *)
theory ProjectBuild
  imports BuildingScan Review
begin

text \<open>
  Whole-building builds (\<open>ProjectPreflight\<close>, \<open>ProjectBuildRepository\<close> and
  \<open>ProjectBuildService\<close> of \<open>src/bactalk/projects.py\<close>): a project is assessed, every
  equipment becomes a run of the workbench, the building suite runs on their graphs, and one
  digest signs the project; a reviewer approves every run and the project, and only an
  approved project whose files and runs still match is exported.  The project directory is
  kept apart from the workbench's, manifests apart from files; time stamps are left out.
  Rendering to JSON, parsing of graphs and the assembly of a station are arguments.
\<close>

section \<open>Preflight\<close>

text \<open>\<open>NiagaraCompiler.SLOT_NAMES\<close>: the kinds of the stock palette with their slots.\<close>

fun stock_slots :: "block_kind \<Rightarrow> (string \<times> string) list option" where
  "stock_slots NUMERIC_INPUT = Some [(''out'', ''out'')]"
| "stock_slots BOOLEAN_INPUT = Some [(''out'', ''out'')]"
| "stock_slots NUMERIC_OUTPUT = Some [(''in'', ''in16''), (''out'', ''out'')]"
| "stock_slots BOOLEAN_OUTPUT = Some [(''in'', ''in16''), (''out'', ''out'')]"
| "stock_slots NUMERIC_CONST = Some [(''out'', ''out'')]"
| "stock_slots BOOLEAN_CONST = Some [(''out'', ''out'')]"
| "stock_slots ADD = Some [(''a'', ''inA''), (''b'', ''inB''), (''out'', ''out'')]"
| "stock_slots SUBTRACT = Some [(''a'', ''inA''), (''b'', ''inB''), (''out'', ''out'')]"
| "stock_slots MULTIPLY = Some [(''a'', ''inA''), (''b'', ''inB''), (''out'', ''out'')]"
| "stock_slots DIVIDE = Some [(''a'', ''inA''), (''b'', ''inB''), (''out'', ''out'')]"
| "stock_slots MINIMUM = Some [(''a'', ''inA''), (''b'', ''inB''), (''out'', ''out'')]"
| "stock_slots MAXIMUM = Some [(''a'', ''inA''), (''b'', ''inB''), (''out'', ''out'')]"
| "stock_slots AVERAGE = Some [(''a'', ''inA''), (''b'', ''inB''), (''out'', ''out'')]"
| "stock_slots GREATER_THAN = Some [(''a'', ''inA''), (''b'', ''inB''), (''out'', ''out'')]"
| "stock_slots GREATER_THAN_OR_EQUAL = Some [(''a'', ''inA''), (''b'', ''inB''), (''out'', ''out'')]"
| "stock_slots LESS_THAN = Some [(''a'', ''inA''), (''b'', ''inB''), (''out'', ''out'')]"
| "stock_slots LESS_THAN_OR_EQUAL = Some [(''a'', ''inA''), (''b'', ''inB''), (''out'', ''out'')]"
| "stock_slots EQUAL = Some [(''a'', ''inA''), (''b'', ''inB''), (''out'', ''out'')]"
| "stock_slots NOT_EQUAL = Some [(''a'', ''inA''), (''b'', ''inB''), (''out'', ''out'')]"
| "stock_slots AND = Some [(''a'', ''inA''), (''b'', ''inB''), (''out'', ''out'')]"
| "stock_slots OR = Some [(''a'', ''inA''), (''b'', ''inB''), (''out'', ''out'')]"
| "stock_slots XOR = Some [(''a'', ''inA''), (''b'', ''inB''), (''out'', ''out'')]"
| "stock_slots NOT = Some [(''in'', ''in''), (''out'', ''out'')]"
| "stock_slots NUMERIC_SWITCH = Some [(''selector'', ''inSwitch''), (''when_true'', ''inTrue''), (''when_false'', ''inFalse''), (''out'', ''out'')]"
| "stock_slots BOOLEAN_SWITCH = Some [(''selector'', ''inSwitch''), (''when_true'', ''inTrue''), (''when_false'', ''inFalse''), (''out'', ''out'')]"
| "stock_slots BOOLEAN_DELAY = Some [(''in'', ''in''), (''out'', ''out'')]"
| "stock_slots NUMERIC_LATCH = Some [(''in'', ''in''), (''clock'', ''clock''), (''out'', ''out'')]"
| "stock_slots BOOLEAN_LATCH = Some [(''in'', ''in''), (''clock'', ''clock''), (''out'', ''out'')]"
| "stock_slots RESET = Some [(''in'', ''inA''), (''input_low'', ''inputLowLimit''), (''input_high'', ''inputHighLimit''),
     (''output_low'', ''outputLowLimit''), (''output_high'', ''outputHighLimit''), (''out'', ''out'')]"
| "stock_slots PI_LOOP = Some [(''enable'', ''loopEnable''), (''controlled_variable'', ''controlledVariable''),
     (''setpoint'', ''setpoint''), (''direct'', ''loopAction''), (''out'', ''out'')]"
| "stock_slots _ = None"

text \<open>\<open>match_job\<close>: a supplied graph has the typed-graph pack; otherwise a pack must know the
  family of the sequence.  The installed packs are an argument, by their families.\<close>

definition has_pack :: "string list \<Rightarrow> job_spec \<Rightarrow> bool" where
  "has_pack families job \<longleftrightarrow> jb_control_graph job \<noteq> None \<or> sq_family (jb_sequence job) \<in> set families"

definition unsupported_kinds :: "job_spec \<Rightarrow> string list" where
  "unsupported_kinds job = (case jb_control_graph job of None \<Rightarrow> []
     | Some g \<Rightarrow> sorted_set (map (kind_value \<circ> bkind) (filter (\<lambda>b. stock_slots (bkind b) = None) (blocks g))))"

definition job_blockers :: "string list \<Rightarrow> project_spec \<Rightarrow> job_spec \<Rightarrow> string list" where
  "job_blockers families p job =
     (if has_pack families job then [] else [''No installed pack or supplied typed graph''])
     @ (if pj_assembly_mode p \<noteq> NoAssembly \<and> sq_library (jb_sequence job) \<noteq> None
        then [''Plant-library ProgramObject source packages require licensed Workbench compilation before whole-station BOG assembly.'']
        else [])
     @ (if unsupported_kinds job \<noteq> [] then [''Niagara compiler does not lower blocks''] else [])"

definition preflight_accepts :: "string list \<Rightarrow> project_spec \<Rightarrow> bool" where
  "preflight_accepts families p \<longleftrightarrow> (\<forall>job \<in> set (pj_equipment p). job_blockers families p job = [])"

section \<open>Records\<close>

record equipment_build =
  eb_name :: string
  eb_run :: string
  eb_status :: run_status
  eb_artifact :: string

record project_record =
  pb_id :: string
  pb_project :: project_spec
  pb_status :: run_status
  pb_runs :: "equipment_build list"
  pb_project_path :: path
  pb_report_path :: "path option"
  pb_template_path :: "path option"
  pb_station_path :: "path option"
  pb_assembly_path :: "path option"
  pb_artifact :: string
  pb_approval :: "approval option"

record projects =
  ps_root :: path
  ps_files :: "(path \<times> string) list"
  ps_records :: "(string \<times> project_record) list"

definition project_directory :: "path \<Rightarrow> string \<Rightarrow> path result" where
  "project_directory base i = raise_if (\<not> is_alnum i) ''invalid project id'' (Inr (base @ [i]))"

definition get_project :: "projects \<Rightarrow> string \<Rightarrow> project_record result" where
  "get_project ps i = bindE (project_directory (ps_root ps) i) (\<lambda>_. dict_get (ps_records ps) i)"

definition save_project :: "project_record \<Rightarrow> projects \<Rightarrow> projects" where
  "save_project r ps = ps\<lparr>ps_records := AList.update (pb_id r) r (ps_records ps)\<rparr>"

section \<open>\<open>_project_digest\<close>\<close>

definition nul :: string where
  "nul = [CHR 0x00]"

definition path_tail :: "path \<Rightarrow> string" where
  "path_tail p = (if p = [] then [] else last p)"

definition project_payload :: "store \<Rightarrow> path \<Rightarrow> equipment_build list \<Rightarrow> path list \<Rightarrow> string result" where
  "project_payload store project_path runs artifacts =
     bindE (read_bytes store project_path) (\<lambda>spec.
     bindE (traverseE (\<lambda>p. mapE (\<lambda>c. path_tail p @ nul @ c) (read_bytes store p)) (sort_key path_tail artifacts)) (\<lambda>parts.
     Inr (''project-spec.json'' @ nul @ spec
          @ concat (map (\<lambda>e. eb_name e @ nul @ eb_artifact e) (sort_key eb_name runs)) @ concat parts)))"

definition project_digest :: "sha \<Rightarrow> store \<Rightarrow> path \<Rightarrow> equipment_build list \<Rightarrow> path list \<Rightarrow> string result" where
  "project_digest sha store project_path runs artifacts = mapE sha (project_payload store project_path runs artifacts)"

definition project_artifacts :: "project_record \<Rightarrow> path list" where
  "project_artifacts r = opt_path (pb_template_path r) @ opt_path (pb_station_path r)
     @ opt_path (pb_assembly_path r) @ opt_path (pb_report_path r)"

section \<open>\<open>build\<close>\<close>

record project_services =
  px_workbench :: services
  px_families :: "string list"
  px_project_json :: "project_spec \<Rightarrow> string"
  px_report_json :: "project_report \<Rightarrow> string"
  px_parse_graph :: "string \<Rightarrow> control_graph result"
  px_check_template :: "string \<Rightarrow> unit result"
  px_assemble :: "project_spec \<Rightarrow> string \<Rightarrow> (string \<times> job_spec \<times> control_graph) list \<Rightarrow> (string \<times> string) result"

text \<open>\<open>self.workbench.create_run(job)\<close>, with the id the run will draw.\<close>

definition equipment_request :: "(string \<Rightarrow> string) \<Rightarrow> job_spec \<Rightarrow> run_request" where
  "equipment_request ids job = \<lparr>rq_id = ids (jb_equipment_name job), rq_job = job, rq_template = False,
     rq_documents = [], rq_baseline = None, rq_origin = CONTRACTOR, rq_parent = None\<rparr>"

type_synonym build_state = "equipment_build list \<times> control_graph dict \<times> run_status \<times> workbench"

definition build_equipment :: "project_services \<Rightarrow> (string \<Rightarrow> string) \<Rightarrow> job_spec \<Rightarrow> build_state \<Rightarrow> build_state result" where
  "build_equipment px ids job st = (case st of (runs, graphs, status, w) \<Rightarrow>
     bindE (create_run (px_workbench px) (equipment_request ids job) w) (\<lambda>(_, r, w).
     bindE (read_bytes (store_of w) (rr_graph_path r)) (\<lambda>content.
     bindE (px_parse_graph px content) (\<lambda>g.
     Inr (runs @ [\<lparr>eb_name = jb_equipment_name job, eb_run = rr_id r, eb_status = rr_status r, eb_artifact = rr_artifact r\<rparr>],
          AList.update (jb_equipment_name job) g graphs,
          if rr_status r = READY_FOR_REVIEW then status else FAILED, w)))))"

definition station_program :: "project_spec \<Rightarrow> workbench \<Rightarrow> control_graph dict \<Rightarrow> equipment_build \<Rightarrow>
    (string \<times> job_spec \<times> control_graph) result" where
  "station_program p w graphs e =
     bindE (get_run w (eb_run e)) (\<lambda>r.
     bindE (dict_get graphs (eb_name e)) (\<lambda>g.
     case rr_bog_path r of
       None \<Rightarrow> Inl (ValueError ''project station assembly requires compiled Niagara BOG artifacts'')
     | Some bog \<Rightarrow>
         bindE (read_bytes (store_of w) bog) (\<lambda>content.
         bindE (dict_get (job_table p) (eb_name e)) (\<lambda>job.
         Inr (content, job, g)))))"

definition station_files :: "project_services \<Rightarrow> project_spec \<Rightarrow> workbench \<Rightarrow> control_graph dict \<Rightarrow> equipment_build list \<Rightarrow>
    string option \<Rightarrow> (path \<times> string) list result" where
  "station_files px p w graphs runs template = (case template of
       None \<Rightarrow> Inr []
     | Some t \<Rightarrow>
         bindE (traverseE (station_program p w graphs) runs) (\<lambda>programs.
         bindE (px_assemble px p t programs) (\<lambda>(station, manifest).
         Inr [([''contractor-station-template.bog''], t), ([''assembled-station.bog''], station),
              ([''station-assembly.json''], manifest)])))"

definition built_path :: "path \<Rightarrow> string option \<Rightarrow> string \<Rightarrow> path option" where
  "built_path dir template name = (case template of None \<Rightarrow> None | Some _ \<Rightarrow> Some (dir @ [name]))"

text \<open>A build that fails leaves its runs in the workbench and its files in the directory, but no
  record names them; the model of a failed build keeps the error only.\<close>

definition build_project :: "project_services \<Rightarrow> string \<Rightarrow> (string \<Rightarrow> string) \<Rightarrow> project_spec \<Rightarrow> string option \<Rightarrow>
    projects \<Rightarrow> workbench \<Rightarrow> (project_record \<times> projects \<times> workbench) result" where
  "build_project px i ids p template ps w =
     raise_if (\<not> preflight_accepts (px_families px) p) ''project preflight failed''
    (raise_if (pj_assembly_mode p = NoAssembly \<and> template \<noteq> None) ''station template requires project station_assembly_mode''
    (raise_if (pj_assembly_mode p \<noteq> NoAssembly \<and> template = None) ''project station assembly requires a contractor station BOG''
    (bindE (case template of None \<Rightarrow> okE | Some t \<Rightarrow> px_check_template px t) (\<lambda>_.
     bindE (project_directory (ps_root ps) i) (\<lambda>dir.
     if list_ex (under dir) (map fst (ps_files ps)) then Inl (OSError ''file exists'')
     else
       bindE (foldE (build_equipment px ids) (pj_equipment p) ([], [], READY_FOR_REVIEW, w)) (\<lambda>(runs, graphs, status, w).
       bindE (run_project_acceptance_suite p graphs) (\<lambda>report.
       bindE (station_files px p w graphs runs template) (\<lambda>station.
       let files = write_files dir ([([''project-spec.json''], px_project_json px p),
             ([''project-test-report.json''], px_report_json px report)] @ station) (ps_files ps);
           draft = \<lparr>pb_id = i, pb_project = p, pb_status = (if pr_passed report then status else FAILED), pb_runs = runs,
             pb_project_path = dir @ [''project-spec.json''], pb_report_path = Some (dir @ [''project-test-report.json'']),
             pb_template_path = built_path dir template ''contractor-station-template.bog'',
             pb_station_path = built_path dir template ''assembled-station.bog'',
             pb_assembly_path = built_path dir template ''station-assembly.json'',
             pb_artifact = [], pb_approval = None\<rparr>
       in bindE (project_digest (sv_sha (px_workbench px)) (map_of files) (pb_project_path draft) runs (project_artifacts draft)) (\<lambda>digest.
          let r = draft\<lparr>pb_artifact := digest\<rparr> in
          Inr (r, save_project r (ps\<lparr>ps_files := files\<rparr>), w))))))))))"

section \<open>Integrity, approval and export\<close>

definition check_equipment :: "sha \<Rightarrow> workbench \<Rightarrow> equipment_build \<Rightarrow> unit result" where
  "check_equipment sha w e =
     bindE (verify_integrity sha w (eb_run e)) (\<lambda>r.
     check_bound (rr_artifact r \<noteq> eb_artifact e) ''equipment artifact changed after build'' okE)"

definition verify_project :: "sha \<Rightarrow> projects \<Rightarrow> workbench \<Rightarrow> project_record \<Rightarrow> unit result" where
  "verify_project sha ps w r =
     bindE (checks (map (check_equipment sha w) (pb_runs r))) (\<lambda>_.
     bindE (project_digest sha (map_of (ps_files ps)) (pb_project_path r) (pb_runs r) (project_artifacts r)) (\<lambda>current.
     check_bound (current \<noteq> pb_artifact r) ''project artifact changed after validation''
    (check_bound (case pb_approval r of None \<Rightarrow> False | Some a \<Rightarrow> ap_artifact a \<noteq> current)
       ''project approval does not match current artifacts'' okE)))"

text \<open>The loop over the runs saves as it goes: an exception leaves the runs approved so far.\<close>

fun approve_runs :: "sha \<Rightarrow> reviewer_identity \<Rightarrow> equipment_build list \<Rightarrow> workbench \<Rightarrow> unit result \<times> workbench" where
  "approve_runs sha who [] w = (okE, w)"
| "approve_runs sha who (e # es) w = (case approve sha (eb_run e) who None w of
       Inl err \<Rightarrow> (Inl err, w)
     | Inr (_, w') \<Rightarrow> approve_runs sha who es w')"

definition approved_project :: "reviewer_identity \<Rightarrow> project_record \<Rightarrow> project_record" where
  "approved_project who r = r\<lparr>pb_status := APPROVED,
     pb_approval := Some \<lparr>ap_reviewer = ri_reviewer who, ap_actor_id = ri_actor_id who, ap_tenant_id = ri_tenant_id who,
       ap_authentication = ri_authentication who, ap_artifact = pb_artifact r\<rparr>,
     pb_runs := map (\<lambda>e. e\<lparr>eb_status := APPROVED\<rparr>) (pb_runs r)\<rparr>"

definition approve_project :: "sha \<Rightarrow> string \<Rightarrow> reviewer_identity \<Rightarrow> projects \<Rightarrow> workbench \<Rightarrow>
    project_record result \<times> projects \<times> workbench" where
  "approve_project sha i who ps w =
     (case bindE (get_project ps i) (\<lambda>r.
            require_status (pb_status r = READY_FOR_REVIEW) ''only a passing project build can be approved''
              (bindE (verify_project sha ps w r) (\<lambda>_. Inr r))) of
        Inl err \<Rightarrow> (Inl err, ps, w)
      | Inr r \<Rightarrow>
          (case approve_runs sha who (pb_runs r) w of
             (Inl err, w') \<Rightarrow> (Inl err, ps, w')
           | (Inr _, w') \<Rightarrow> (Inr (approved_project who r), save_project (approved_project who r) ps, w')))"

text \<open>\<open>_run_artifact_paths\<close>, relative to the directory of the run's manifest; \<open>Path(None)\<close> is a
  \<open>TypeError\<close>.\<close>

definition required_path :: "path option \<Rightarrow> path result" where
  "required_path p = (case p of None \<Rightarrow> Inl (TypeError ''expected str'') | Some p \<Rightarrow> Inr p)"

definition run_artifact_paths :: "run_record \<Rightarrow> path list result" where
  "run_artifact_paths r =
     bindE (required_path (rr_job_path r)) (\<lambda>job.
     bindE (required_path (rr_semantic_model_path r)) (\<lambda>model.
     bindE (required_path (rr_semantic_validation_path r)) (\<lambda>valid.
     Inr ([job, rr_graph_path r, rr_report_path r, model, valid]
       @ opt_path (first_path [rr_target_path r, rr_bog_path r])
       @ opt_path (rr_template_bog_path r) @ opt_path (rr_template_analysis_path r)
       @ opt_path (rr_assembled_bog_path r) @ opt_path (rr_assembly_manifest_path r)
       @ rr_volttron_paths r @ rr_nhaystack_paths r @ rr_bacnet_lab_paths r @ rr_environment_paths r
       @ rr_source_paths r @ rr_deliverable_paths r @ opt_path (rr_deliverable_manifest_path r)))))"

definition relative_to :: "path \<Rightarrow> path \<Rightarrow> path result" where
  "relative_to dir p = raise_if (\<not> under dir p) ''path is not in the subpath'' (Inr (drop (length dir) p))"

text \<open>The entries of the archive without the rendered manifests; an equipment name is a safe component name already.\<close>

definition exported_equipment :: "workbench \<Rightarrow> equipment_build \<Rightarrow> (string \<times> string) list result" where
  "exported_equipment w e =
     bindE (get_run w (eb_run e)) (\<lambda>r.
     bindE (run_artifact_paths r) (\<lambda>paths.
     traverseE (\<lambda>p. bindE (relative_to (butlast (rr_manifest_path r)) p) (\<lambda>rel.
       mapE (Pair (''equipment/'' @ eb_name e @ ''/'' @ as_posix rel)) (read_bytes (store_of w) p))) paths))"

definition project_entries :: "projects \<Rightarrow> project_record \<Rightarrow> (string \<times> string) list result" where
  "project_entries ps r =
     traverseE (\<lambda>(name, p). mapE (Pair name) (read_bytes (map_of (ps_files ps)) p))
       ((''project-spec.json'', pb_project_path r)
        # map (Pair ''project-test-report.json'') (opt_path (pb_report_path r))
        @ map (Pair ''contractor-station-template.bog'') (opt_path (pb_template_path r))
        @ map (Pair ''assembled-station.bog'') (opt_path (pb_station_path r))
        @ map (Pair ''station-assembly.json'') (opt_path (pb_assembly_path r)))"

definition export_project :: "sha \<Rightarrow> string \<Rightarrow> projects \<Rightarrow> workbench \<Rightarrow> (string \<times> string) list result" where
  "export_project sha i ps w =
     bindE (get_project ps i) (\<lambda>r.
     require_status (pb_status r = APPROVED \<and> pb_approval r \<noteq> None) ''human approval is required before project export''
      (bindE (verify_project sha ps w r) (\<lambda>_.
       bindE (project_entries ps r) (\<lambda>own.
       bindE (traverseE (exported_equipment w) (sort_key eb_name (pb_runs r))) (\<lambda>parts.
       Inr (sort_key fst (dict_update [] (own @ concat parts))))))))"

section \<open>What a successful call says\<close>

lemma get_project_Inr: "get_project ps i = Inr r \<longleftrightarrow> is_alnum i \<and> map_of (ps_records ps) i = Some r"
  by (auto simp: get_project_def project_directory_def raise_if_eq_Inr bindE_eq_Inr)

lemma verify_project_Inr:
  "verify_project sha ps w r = Inr () \<longleftrightarrow>
     (\<forall>e \<in> set (pb_runs r). \<exists>run. verify_integrity sha w (eb_run e) = Inr run \<and> rr_artifact run = eb_artifact e)
     \<and> project_digest sha (map_of (ps_files ps)) (pb_project_path r) (pb_runs r) (project_artifacts r) = Inr (pb_artifact r)
     \<and> pred_option (\<lambda>a. ap_artifact a = pb_artifact r) (pb_approval r)"
  by (auto simp: verify_project_def check_equipment_def checks_Inr_iff bindE_eq_Inr check_bound_def okE_def
      split: option.splits)

lemma approve_project_Inr:
  assumes "approve_project sha i who ps w = (Inr r', ps', w')"
  obtains r where "get_project ps i = Inr r" "pb_status r = READY_FOR_REVIEW" "verify_project sha ps w r = Inr ()"
    "approve_runs sha who (pb_runs r) w = (Inr (), w')" "r' = approved_project who r" "ps' = save_project r' ps"
proof -
  obtain r where r: "get_project ps i = Inr r" "pb_status r = READY_FOR_REVIEW" "verify_project sha ps w r = Inr ()"
    using assms by (auto simp: approve_project_def bindE_def split: sum.splits)
  then show thesis
    using assms by (intro that [OF r]) (auto simp: approve_project_def okE_def split: sum.splits prod.splits)
qed

lemma export_project_Inr:
  assumes "export_project sha i ps w = Inr entries"
  obtains r a where "get_project ps i = Inr r" "pb_status r = APPROVED" "pb_approval r = Some a"
    "verify_project sha ps w r = Inr ()"
  using assms by (auto simp: export_project_def bindE_eq_Inr)

lemma build_equipment_Inr:
  assumes "build_equipment px ids job (runs, graphs, status, w) = Inr (runs', graphs', status', w')"
  obtains a r g content where "create_run (px_workbench px) (equipment_request ids job) w = Inr (a, r, w')"
    "px_parse_graph px content = Inr g" "read_bytes (store_of w') (rr_graph_path r) = Inr content"
    "runs' = runs @ [\<lparr>eb_name = jb_equipment_name job, eb_run = rr_id r, eb_status = rr_status r, eb_artifact = rr_artifact r\<rparr>]"
    "graphs' = AList.update (jb_equipment_name job) g graphs"
    "status' = (if rr_status r = READY_FOR_REVIEW then status else FAILED)"
  using assms by (auto simp: build_equipment_def bindE_eq_Inr)

end
