(* ===== verification/ProjectReview.thy ===== *)
theory ProjectReview
  imports ProjectBuild
begin

text \<open>
  What the whole-building builds of \<open>src/bactalk/projects.py\<close> guarantee: an exported project is
  one whose building suite passed, with the equipment runs of that build unchanged.  Two
  limits are proved as well: an approval that stops half way leaves a project no later
  approval can complete, and the project digest does not bind the boundaries of its files.
\<close>

section \<open>What a build that awaits review has passed\<close>

text \<open>The parts of a record that a review never changes.\<close>

definition run_key :: "equipment_build \<Rightarrow> string \<times> string \<times> string" where
  "run_key e = (eb_name e, eb_run e, eb_artifact e)"

definition same_build :: "project_record \<Rightarrow> project_record \<Rightarrow> bool" where
  "same_build r b \<longleftrightarrow> pb_id r = pb_id b \<and> pb_project r = pb_project b \<and> pb_artifact r = pb_artifact b
     \<and> map run_key (pb_runs r) = map run_key (pb_runs b)"

text \<open>A run of a build and its graph: the workbench created the run, with the id and the digest the
  build records, and the graph is what its control-graph file parsed to right after.\<close>

definition run_with_graph :: "project_services \<Rightarrow> project_spec \<Rightarrow> control_graph dict \<Rightarrow> equipment_build \<Rightarrow> bool" where
  "run_with_graph px p graphs e \<longleftrightarrow> (\<exists>q w a r w' content g.
     create_run (px_workbench px) q w = Inr (a, r, w') \<and> rq_job q \<in> set (pj_equipment p)
     \<and> jb_equipment_name (rq_job q) = eb_name e \<and> rr_id r = eb_run e \<and> rr_artifact r = eb_artifact e
     \<and> rr_status r = eb_status e \<and> read_bytes (store_of w') (rr_graph_path r) = Inr content
     \<and> px_parse_graph px content = Inr g \<and> map_of graphs (eb_name e) = Some g)"

lemma run_with_graphI:
  "create_run (px_workbench px) q w = Inr (a, r, w') \<Longrightarrow> rq_job q \<in> set (pj_equipment p) \<Longrightarrow>
   jb_equipment_name (rq_job q) = eb_name e \<Longrightarrow> rr_id r = eb_run e \<Longrightarrow> rr_artifact r = eb_artifact e \<Longrightarrow>
   rr_status r = eb_status e \<Longrightarrow> read_bytes (store_of w') (rr_graph_path r) = Inr content \<Longrightarrow>
   px_parse_graph px content = Inr g \<Longrightarrow> map_of graphs (eb_name e) = Some g \<Longrightarrow> run_with_graph px p graphs e"
  unfolding run_with_graph_def by (intro exI conjI)

lemma run_with_graph_later:
  "run_with_graph px p graphs e \<Longrightarrow> eb_name e \<noteq> n \<Longrightarrow> run_with_graph px p (AList.update n g graphs) e"
  unfolding run_with_graph_def by (metis map_of_update fun_upd_other)

lemma build_loop_runs:
  assumes "foldE (build_equipment px ids) jobs (runs, graphs, status, w) = Inr (runs', graphs', status', w')"
    and "set jobs \<subseteq> set (pj_equipment p)" and "distinct (map eb_name runs @ map jb_equipment_name jobs)"
    and "\<forall>e \<in> set runs. run_with_graph px p graphs e" and "map fst graphs = map eb_name runs"
  shows "(\<forall>e \<in> set runs'. run_with_graph px p graphs' e) \<and> map fst graphs' = map eb_name runs'
    \<and> map eb_name runs' = map eb_name runs @ map jb_equipment_name jobs
    \<and> (status' = READY_FOR_REVIEW \<longrightarrow> status = READY_FOR_REVIEW
         \<and> ((\<forall>e \<in> set runs. eb_status e = READY_FOR_REVIEW) \<longrightarrow> (\<forall>e \<in> set runs'. eb_status e = READY_FOR_REVIEW)))"
  using assms
proof (induction jobs arbitrary: runs graphs status w)
  case (Cons job jobs)
  obtain runs1 graphs1 status1 w1 where b: "build_equipment px ids job (runs, graphs, status, w) = Inr (runs1, graphs1, status1, w1)"
    and rest: "foldE (build_equipment px ids) jobs (runs1, graphs1, status1, w1) = Inr (runs', graphs', status', w')"
    using Cons.prems(1) by (auto simp: bindE_eq_Inr)
  from b show ?case
  proof (rule build_equipment_Inr)
    fix a g content and r :: run_record
    define e where "e = \<lparr>eb_name = jb_equipment_name job, eb_run = rr_id r, eb_status = rr_status r, eb_artifact = rr_artifact r\<rparr>"
    assume run: "create_run (px_workbench px) (equipment_request ids job) w = Inr (a, r, w1)"
      "px_parse_graph px content = Inr g" "read_bytes (store_of w1) (rr_graph_path r) = Inr content"
      and st: "runs1 = runs @ [\<lparr>eb_name = jb_equipment_name job, eb_run = rr_id r, eb_status = rr_status r, eb_artifact = rr_artifact r\<rparr>]"
      "graphs1 = AList.update (jb_equipment_name job) g graphs"
      "status1 = (if rr_status r = READY_FOR_REVIEW then status else FAILED)"
    note st = st [folded e_def]
    have fresh: "jb_equipment_name job \<notin> set (map eb_name runs)" using Cons.prems(3) by auto
    have e: "eb_name e = jb_equipment_name job" "eb_run e = rr_id r" "eb_status e = rr_status r" "eb_artifact e = rr_artifact r"
      by (simp_all add: e_def)
    have map: "map_of graphs1 (eb_name e) = Some g" by (simp add: st(2) e(1))
    have "rq_job (equipment_request ids job) = job" by (simp add: equipment_request_def)
    then have "rq_job (equipment_request ids job) \<in> set (pj_equipment p)"
      "jb_equipment_name (rq_job (equipment_request ids job)) = eb_name e"
      using Cons.prems(2) by (simp_all add: e(1))
    then have "run_with_graph px p graphs1 e"
      by (rule run_with_graphI [OF run(1) _ _ e(2,4,3) [symmetric] run(3,2) map])
    moreover have "\<forall>x \<in> set runs. run_with_graph px p graphs1 x"
      unfolding st(2)
    proof
      fix x assume x: "x \<in> set runs"
      then have "eb_name x \<noteq> jb_equipment_name job" using fresh by (metis imageI set_map)
      then show "run_with_graph px p (AList.update (jb_equipment_name job) g graphs) x"
        using Cons.prems(4) x by (intro run_with_graph_later) simp_all
    qed
    moreover have "map fst graphs1 = map eb_name runs1"
      using fresh Cons.prems(5) by (simp add: st(1,2) e(1) update_keys)
    moreover have "distinct (map eb_name runs1 @ map jb_equipment_name jobs)" using Cons.prems(3) by (simp add: st(1) e(1))
    ultimately have IH: "(\<forall>e \<in> set runs'. run_with_graph px p graphs' e) \<and> map fst graphs' = map eb_name runs'
      \<and> map eb_name runs' = map eb_name runs1 @ map jb_equipment_name jobs
      \<and> (status' = READY_FOR_REVIEW \<longrightarrow> status1 = READY_FOR_REVIEW
           \<and> ((\<forall>e \<in> set runs1. eb_status e = READY_FOR_REVIEW) \<longrightarrow> (\<forall>e \<in> set runs'. eb_status e = READY_FOR_REVIEW)))"
      using Cons.prems(2) by (intro Cons.IH [OF rest]) (simp_all add: st(1))
    show ?thesis
    proof (intro conjI impI)
      assume ready: "status' = READY_FOR_REVIEW"
      then have "status1 = READY_FOR_REVIEW" using IH by blast
      then have ok: "rr_status r = READY_FOR_REVIEW" using st(3) by (simp split: if_splits)
      then show "status = READY_FOR_REVIEW" using IH ready st(3) by simp
      assume "\<forall>e \<in> set runs. eb_status e = READY_FOR_REVIEW"
      then have "\<forall>x \<in> set runs1. eb_status x = READY_FOR_REVIEW" using ok by (simp add: st(1) e(3))
      then show "\<forall>e \<in> set runs'. eb_status e = READY_FOR_REVIEW" using IH ready by blast
    qed (use IH in \<open>simp_all add: st(1) e(1)\<close>)
  qed
qed simp

text \<open>What a build that awaits review has passed: the building suite, on exactly the graphs of its runs.\<close>

definition passed_build :: "project_services \<Rightarrow> project_record \<Rightarrow> control_graph dict \<Rightarrow> bool" where
  "passed_build px b graphs \<longleftrightarrow> pb_status b = READY_FOR_REVIEW \<and> map eb_name (pb_runs b) = equipment_names (pb_project b)
     \<and> (\<forall>e \<in> set (pb_runs b). eb_status e = READY_FOR_REVIEW \<and> run_with_graph px (pb_project b) graphs e)
     \<and> map fst graphs = equipment_names (pb_project b)
     \<and> (\<exists>report. run_project_acceptance_suite (pb_project b) graphs = Inr report \<and> pr_passed report)"

lemma build_project_Inr:
  assumes "build_project px i ids p template ps w = Inr (r, ps', w')" and "distinct (equipment_names p)"
  obtains graphs files where "ps' = save_project r (ps\<lparr>ps_files := files\<rparr>)" "pb_id r = i" "pb_project r = p"
    "pb_approval r = None" "pb_status r = READY_FOR_REVIEW \<Longrightarrow> passed_build px r graphs"
    "pb_status r \<in> {READY_FOR_REVIEW, FAILED}"
    "project_digest (sv_sha (px_workbench px)) (map_of files) (pb_project_path r) (pb_runs r) (project_artifacts r) = Inr (pb_artifact r)"
proof -
  obtain dir runs graphs status report station where
    loop: "foldE (build_equipment px ids) (pj_equipment p) ([], [], READY_FOR_REVIEW, w) = Inr (runs, graphs, status, w')"
    and suite: "run_project_acceptance_suite p graphs = Inr report"
    and fin: "(let files = write_files dir ([([''project-spec.json''], px_project_json px p),
             ([''project-test-report.json''], px_report_json px report)] @ station) (ps_files ps);
           draft = \<lparr>pb_id = i, pb_project = p, pb_status = (if pr_passed report then status else FAILED), pb_runs = runs,
             pb_project_path = dir @ [''project-spec.json''], pb_report_path = Some (dir @ [''project-test-report.json'']),
             pb_template_path = built_path dir template ''contractor-station-template.bog'',
             pb_station_path = built_path dir template ''assembled-station.bog'',
             pb_assembly_path = built_path dir template ''station-assembly.json'',
             pb_artifact = [], pb_approval = None\<rparr>
       in bindE (project_digest (sv_sha (px_workbench px)) (map_of files) (pb_project_path draft) runs (project_artifacts draft)) (\<lambda>digest.
          let r = draft\<lparr>pb_artifact := digest\<rparr> in
          Inr (r, save_project r (ps\<lparr>ps_files := files\<rparr>), w'))) = Inr (r, ps', w')"
    using assms(1) by (auto simp: build_project_def raise_if_eq_Inr bindE_eq_Inr Let_def split: if_splits)
  obtain files where files: "files = write_files dir ([([''project-spec.json''], px_project_json px p),
      ([''project-test-report.json''], px_report_json px report)] @ station) (ps_files ps)" by blast
  have st: "status \<in> {READY_FOR_REVIEW, FAILED}"
  proof -
    have "(\<lambda>(_, _, st, _). st \<in> {READY_FOR_REVIEW, FAILED}) (runs, graphs, status, w')"
      by (rule foldE_invariant [OF _ _ loop]) (auto simp: build_equipment_def bindE_eq_Inr split: if_splits)
    then show ?thesis by simp
  qed
  have ready: "map eb_name runs = equipment_names p" "map fst graphs = equipment_names p"
    "\<forall>e \<in> set runs. run_with_graph px p graphs e"
    "status = READY_FOR_REVIEW \<Longrightarrow> \<forall>e \<in> set runs. eb_status e = READY_FOR_REVIEW"
    using build_loop_runs [OF loop subset_refl] assms(2) by (auto simp: equipment_names_def)
  show thesis
    using fin st ready suite unfolding files [symmetric]
    by (intro that [of files graphs])
       (auto simp: Let_def bindE_eq_Inr passed_build_def project_artifacts_def split: if_splits)
qed

section \<open>Histories\<close>

text \<open>Validated projects are built and approved; meanwhile any file and anything in the workbench may
  change.  A history keeps the records of the builds.\<close>

inductive project_history :: "project_services \<Rightarrow> project_record list \<Rightarrow> projects \<Rightarrow> bool" for px where
  ph_start: "ps_records ps = [] \<Longrightarrow> project_history px [] ps"
| ph_build: "project_history px h ps \<Longrightarrow> validate_topology p = Inr () \<Longrightarrow> build_project px i ids p template ps w = Inr (r, ps', w') \<Longrightarrow>
    project_history px (r # h) ps'"
| ph_approve: "project_history px h ps \<Longrightarrow> approve_project (sv_sha (px_workbench px)) i who ps w = (res, ps', w') \<Longrightarrow>
    project_history px h ps'"
| ph_change: "project_history px h ps \<Longrightarrow> project_history px h (ps\<lparr>ps_files := files\<rparr>)"

definition traced :: "project_services \<Rightarrow> project_record list \<Rightarrow> project_record \<Rightarrow> bool" where
  "traced px h r \<longleftrightarrow> (pb_status r \<in> {READY_FOR_REVIEW, APPROVED} \<longrightarrow>
     (\<exists>b \<in> set h. same_build r b \<and> (\<exists>graphs. passed_build px b graphs)))"

lemma same_build_refl: "same_build r r"
  by (simp add: same_build_def)

lemma traced_more: "traced px h r \<Longrightarrow> traced px (b # h) r"
  by (auto simp: traced_def)

lemma traced_built: "(pb_status r = READY_FOR_REVIEW \<Longrightarrow> passed_build px r graphs) \<Longrightarrow>
    pb_status r \<in> {READY_FOR_REVIEW, FAILED} \<Longrightarrow> traced px (r # h) r"
  using same_build_refl by (auto simp: traced_def)

lemma same_build_approved: "same_build (approved_project who r) b = same_build r b"
proof -
  have "map run_key (map (\<lambda>e. e\<lparr>eb_status := APPROVED\<rparr>) es) = map run_key es" for es
    by (induction es) (simp_all add: run_key_def)
  then show ?thesis by (simp add: same_build_def approved_project_def del: map_map)
qed

lemma traced_approved: "traced px h r \<Longrightarrow> pb_status r = READY_FOR_REVIEW \<Longrightarrow> traced px h (approved_project who r)"
  by (auto simp: traced_def same_build_approved)

lemma history_traced:
  assumes "project_history px h ps" and "map_of (ps_records ps) i = Some r"
  shows "traced px h r"
  using assms
proof (induction arbitrary: i r rule: project_history.induct)
  case (ph_build h ps p j ids template w b ps' w')
  have names: "distinct (equipment_names p)"
    using validate_topology_sound [OF ph_build.hyps(2)] by (simp add: signals_sound_def signals_known_def)
  from ph_build.hyps(3) names show ?case
  proof (rule build_project_Inr)
    fix graphs files
    assume *: "ps' = save_project b (ps\<lparr>ps_files := files\<rparr>)" "pb_status b \<in> {READY_FOR_REVIEW, FAILED}"
      "pb_status b = READY_FOR_REVIEW \<Longrightarrow> passed_build px b graphs"
    have "traced px (b # h) b" by (rule traced_built [OF *(3,2)])
    then show ?thesis
      using ph_build.IH [of i r] ph_build.prems traced_more by (auto simp: *(1) save_project_def split: if_splits)
  qed
next
  case (ph_approve h ps j who w res ps' w')
  show ?case
  proof (cases res)
    case (Inl err)
    then have "ps' = ps"
      using ph_approve.hyps(2) by (auto simp: approve_project_def split: sum.splits prod.splits)
    then show ?thesis using ph_approve by blast
  next
    case (Inr b)
    from ph_approve.hyps(2) [unfolded Inr] show ?thesis
    proof (rule approve_project_Inr)
      fix r0 assume *: "get_project ps j = Inr r0" "pb_status r0 = READY_FOR_REVIEW" "b = approved_project who r0"
        "ps' = save_project b ps"
      have "traced px h r0" using ph_approve.IH *(1) by (auto simp: get_project_Inr)
      then have "traced px h b" unfolding *(3) by (rule traced_approved [OF _ *(2)])
      then show ?thesis
        using ph_approve.IH [of i r] ph_approve.prems by (auto simp: *(4) save_project_def split: if_splits)
    qed
  qed
qed auto

text \<open>C5: an exported project was tested.  Whatever happened to the files and the workbench in
  between, a project leaves the service only if a build of it passed: the workbench created one
  run per equipment with the id and the digest the build records, each awaiting review, and the
  whole-building suite passed on exactly the graphs parsed from the control-graph files of those
  runs as they had just been written.  Now every one of those runs verifies with the digest
  recorded at the build, the project's own files still have the digest of the build, and the
  approval names it.\<close>

theorem exported_project_was_tested:
  assumes "project_history px h ps" and "export_project (sv_sha (px_workbench px)) i ps w = Inr entries"
  shows "\<exists>r a b graphs. get_project ps i = Inr r \<and> pb_approval r = Some a \<and> ap_artifact a = pb_artifact r
    \<and> b \<in> set h \<and> same_build r b \<and> passed_build px b graphs
    \<and> (\<forall>e \<in> set (pb_runs r). \<exists>run. verify_integrity (sv_sha (px_workbench px)) w (eb_run e) = Inr run
         \<and> rr_artifact run = eb_artifact e)
    \<and> project_digest (sv_sha (px_workbench px)) (map_of (ps_files ps)) (pb_project_path r) (pb_runs r) (project_artifacts r)
        = Inr (pb_artifact b)"
  using assms(2)
proof (rule export_project_Inr)
  fix r a
  assume r: "get_project ps i = Inr r" "pb_status r = APPROVED" "pb_approval r = Some a"
    "verify_project (sv_sha (px_workbench px)) ps w r = Inr ()"
  obtain b graphs where b: "b \<in> set h" "same_build r b" "passed_build px b graphs"
    using history_traced [OF assms(1), of i r] r(1,2) by (auto simp: get_project_Inr traced_def)
  then have "pb_artifact r = pb_artifact b" by (simp add: same_build_def)
  then show ?thesis using r b by (auto simp: verify_project_Inr)
qed

section \<open>An approval that stops half way\<close>

lemma approve_runs_final:
  fixes sv :: services
  assumes "approve_runs (sv_sha sv) who es w = (res, w')" and "kept w"
  shows "kept w' \<and> (\<forall>i r. find_run w i = Some r \<longrightarrow> rr_status r \<noteq> READY_FOR_REVIEW \<longrightarrow> find_run w' i = Some r)"
  using assms
proof (induction es arbitrary: w)
  case (Cons e es)
  show ?case
  proof (cases "approve (sv_sha sv) (eb_run e) who None w")
    case (Inl err)
    then show ?thesis using Cons.prems by simp
  next
    case (Inr x)
    obtain r1 w1 where x: "x = (r1, w1)" by (cases x)
    have step: "serial_step sv w w1" using Inr by (intro serial_approve [where r = r1]) (simp add: x)
    have "kept w1" using serial_step_simulated [OF step Cons.prems(2)] by simp
    moreover have "find_run w1 i = Some r" if "find_run w i = Some r" "rr_status r \<noteq> READY_FOR_REVIEW" for i r
      by (rule decided_kept [OF step Cons.prems(2) that])
    moreover have "approve_runs (sv_sha sv) who es w1 = (res, w')" using Cons.prems(1) Inr by (simp add: x)
    ultimately show ?thesis using Cons.IH by blast
  qed
qed simp

lemma approve_runs_changed:
  fixes sv :: services
  assumes "approve_runs (sv_sha sv) who es w = (res, w')" and "w' \<noteq> w" and "kept w"
  shows "\<exists>e es' r. es = e # es' \<and> find_run w' (eb_run e) = Some r \<and> rr_status r = APPROVED \<and> kept w'"
proof (cases es)
  case Nil
  then show ?thesis using assms by simp
next
  case (Cons e es')
  then obtain r1 w1 where run: "approve (sv_sha sv) (eb_run e) who None w = Inr (r1, w1)"
    and rest: "approve_runs (sv_sha sv) who es' w1 = (res, w')"
    using assms(1,2) by (cases "approve (sv_sha sv) (eb_run e) who None w") auto
  have step: "serial_step sv w w1" by (rule serial_approve [OF run])
  have k1: "kept w1" using serial_step_simulated [OF step assms(3)] by simp
  from run have "find_run w1 (eb_run e) = Some r1 \<and> rr_status r1 = APPROVED"
  proof (rule approve_Inr)
    fix r a
    assume *: "get_run w (eb_run e) = Inr r" "rr_status r = READY_FOR_REVIEW" "w1 = save_run r1 w"
      "r1 = r\<lparr>rr_status := APPROVED, rr_approval := Some a\<rparr>"
    have filed: "filed w r" "rr_id r = eb_run e" using kept_get [OF assms(3) *(1)] by simp_all
    have "get_run (save_run r1 w) (rr_id r1) = Inr r1"
      unfolding *(4) by (rule get_saved [OF decided_filed(1) [OF filed(1) *(2)]])
    then show ?thesis using filed(2) by (simp add: find_run_Some *(3) *(4))
  qed
  then show ?thesis using approve_runs_final [OF rest k1] Cons by auto
qed

text \<open>C21: approving a project is not atomic, and a half-made approval cannot be repaired.  When
  the approval of a project fails after the first run was approved, the project itself is
  left awaiting review, and no later approval of it succeeds, whoever tries and whatever requests
  (new runs, reviews, qualifications, changes of files) the workbench serves in between, one after
  the other, because a run that is already approved is refused.  Only a qualification that was
  already under way when the run was approved is left out: it would undo the approval.\<close>

theorem half_approved_project_is_stuck:
  fixes sv :: services
  assumes "kept w" and "approve_project (sv_sha sv) i who ps w = (Inl err, ps', w')" and "w' \<noteq> w"
    and "(serial_step sv)\<^sup>*\<^sup>* w' w''"
  shows "ps' = ps \<and> (\<exists>r. get_project ps i = Inr r \<and> pb_status r = READY_FOR_REVIEW)
    \<and> (\<exists>err'. fst (approve_project (sv_sha sv) i who' ps' w'') = Inl err')"
proof -
  obtain r where r: "get_project ps i = Inr r" "pb_status r = READY_FOR_REVIEW"
    and runs: "approve_runs (sv_sha sv) who (pb_runs r) w = (Inl err, w')" and same: "ps' = ps"
    using assms(2,3) by (auto simp: approve_project_def bindE_def split: sum.splits prod.splits)
  obtain e es run where es: "pb_runs r = e # es" and run: "find_run w' (eb_run e) = Some run" "rr_status run = APPROVED"
    and k: "kept w'"
    using approve_runs_changed [OF runs assms(3,1)] by blast
  have "kept w'' \<and> find_run w'' (eb_run e) = Some run"
    using assms(4)
  proof (induction rule: rtranclp_induct)
    case base
    then show ?case using k run by simp
  next
    case (step w1 w2)
    then show ?case using serial_step_simulated decided_kept [of sv w1 w2 "eb_run e" run] run(2) by auto
  qed
  then have "approve (sv_sha sv) (eb_run e) who' None w'' = Inl (ApprovalRequiredError ''only a passing run can be approved'')"
    using run(2) by (simp add: find_run_Some approve_def require_status_def)
  then have "\<exists>err'. fst (approve_project (sv_sha sv) i who' ps w'') = Inl err'"
    by (auto simp: approve_project_def r es bindE_eq_Inr require_status_def split: sum.splits)
  then show ?thesis using r same by blast
qed

section \<open>The digest of a project does not bind its files apart\<close>

text \<open>The files of a project with an assembled station, and the paths its record signs.\<close>

definition station_store :: "path \<Rightarrow> string \<Rightarrow> string \<Rightarrow> string \<Rightarrow> string \<Rightarrow> string \<Rightarrow> (path \<times> string) list" where
  "station_store dir spec station template report manifest = write_files dir
     [([''project-spec.json''], spec), ([''project-test-report.json''], report),
      ([''contractor-station-template.bog''], template), ([''assembled-station.bog''], station),
      ([''station-assembly.json''], manifest)] []"

definition station_paths :: "path \<Rightarrow> path list" where
  "station_paths dir = map (\<lambda>n. dir @ [n]) [''contractor-station-template.bog'', ''assembled-station.bog'',
     ''station-assembly.json'', ''project-test-report.json'']"

definition template_header :: string where
  "template_header = ''contractor-station-template.bog'' @ nul"

lemma station_order: "sort_key path_tail (station_paths dir) = map (\<lambda>n. dir @ [n]) [''assembled-station.bog'',
    ''contractor-station-template.bog'', ''project-test-report.json'', ''station-assembly.json'']"
proof -
  have "sort_key (\<lambda>n. n) [''contractor-station-template.bog'', ''assembled-station.bog'', ''station-assembly.json'',
      ''project-test-report.json''] = [''assembled-station.bog'', ''contractor-station-template.bog'',
      ''project-test-report.json'', ''station-assembly.json'']"
    by code_simp
  moreover have "sort_key path_tail (map (\<lambda>n. dir @ [n]) ns) = map (\<lambda>n. dir @ [n]) (sort_key (\<lambda>n. n) ns)" for ns
  proof (induction ns)
    case (Cons n ns)
    have "insort_key path_tail (dir @ [n]) (map (\<lambda>n. dir @ [n]) ms) = map (\<lambda>n. dir @ [n]) (insort_key (\<lambda>n. n) n ms)" for ms
      by (induction ms) (simp_all add: path_tail_def)
    then show ?case using Cons.IH by (simp add: sort_key_def)
  qed simp
  ultimately show ?thesis by (simp only: station_paths_def)
qed

lemma station_payload:
  "project_payload (map_of (station_store dir spec station template report manifest)) (dir @ [''project-spec.json'']) runs
     (station_paths dir) = Inr (''project-spec.json'' @ nul @ spec
       @ concat (map (\<lambda>e. eb_name e @ nul @ eb_artifact e) (sort_key eb_name runs))
       @ ''assembled-station.bog'' @ nul @ station @ template_header @ template
       @ ''project-test-report.json'' @ nul @ report @ ''station-assembly.json'' @ nul @ manifest)"
  unfolding project_payload_def station_order
  by (simp add: station_store_def write_files_def read_bytes_def path_tail_def template_header_def)

text \<open>The project digest joins names and contents without their lengths, so it does not say
  where one file ends.  For every hash, a template that contains its own header again can
  give up its first part to the assembled station: both files change, and the digest of the
  project, hence its signature and its approval, stays the same.\<close>

theorem project_digest_ambiguous:
  "project_digest sha (map_of (station_store dir spec station (x @ template_header @ y) report manifest))
       (dir @ [''project-spec.json'']) runs (station_paths dir)
     = project_digest sha (map_of (station_store dir spec (station @ template_header @ x) y report manifest))
       (dir @ [''project-spec.json'']) runs (station_paths dir)
   \<and> map_of (station_store dir spec station (x @ template_header @ y) report manifest) (dir @ [''assembled-station.bog''])
     \<noteq> map_of (station_store dir spec (station @ template_header @ x) y report manifest) (dir @ [''assembled-station.bog''])"
  unfolding project_digest_def station_payload
  by (simp add: station_store_def write_files_def) (simp add: template_header_def)

section \<open>A project of one fan\<close>

definition fan_project :: project_spec where
  "fan_project = \<lparr>pj_name = ''one fan'', pj_site = ''plant'', pj_equipment = [sample_job], pj_relationships = [],
     pj_bindings = [], pj_aggregations = [], pj_acceptance_tests = [], pj_assembly_mode = NoAssembly\<rparr>"

definition fan_services :: project_services where
  "fan_services = \<lparr>px_workbench = sample_services, px_families = [], px_project_json = \<lambda>p. ''project'',
     px_report_json = \<lambda>r. ''report'', px_parse_graph = \<lambda>s. Inr sample_graph, px_check_template = \<lambda>s. okE,
     px_assemble = \<lambda>p t programs. Inr (t, [])\<rparr>"

definition no_projects :: projects where
  "no_projects = \<lparr>ps_root = [''projects''], ps_files = [], ps_records = []\<rparr>"

lemma fan_services_sha: "sv_sha (px_workbench fan_services) = (\<lambda>s. s)"
  by (simp add: fan_services_def sample_services_def services_with_def)

definition fan_paths :: "path list" where
  "fan_paths = map ((@) sample_directory) [[''job-spec.json''], [''control-graph.json''], [''test-report.json''],
     [''semantic-model.ttl''], [''semantic-validation.json''], [''invert.bog''], [''nhaystack'', ''manifest.json''],
     [''deliverables'', ''manifest.json'']]"

lemma fan_run:
  "\<exists>a r. create_run sample_services sample_request empty_workbench = Inr (a, r, sample_saved r)
     \<and> filed (sample_saved r) r \<and> rr_id r = ''a1'' \<and> rr_job r = sample_job \<and> rr_status r = READY_FOR_REVIEW
     \<and> get_run (sample_saved r) ''a1'' = Inr r \<and> verify_record (\<lambda>s. s) (store_of (sample_saved r)) r = Inr ()
     \<and> rr_graph_path r = sample_directory @ [''control-graph.json''] \<and> run_artifact_paths r = Inr fan_paths
     \<and> rr_manifest_path r = sample_directory @ [''manifest.json'']"
proof -
  obtain a r where r: "create_run sample_services sample_request empty_workbench = Inr (a, r, sample_saved r)"
    "filed (sample_saved r) r" "rr_id r = ''a1''" "rr_job r = sample_job" "rr_status r = READY_FOR_REVIEW"
    "get_run (sample_saved r) ''a1'' = Inr r" "verify_record (\<lambda>s. s) (store_of (sample_saved r)) r = Inr ()"
    using sample_ready [of "\<lambda>s. s"] unfolding sample_services_def by blast
  obtain a' digest r' where m: "r' = materialized_record sample_directory (provisional_run sample_request a' NIAGARA_BOG)
      sample_graph sample_build [] digest False"
    and c: "create_run sample_services sample_request empty_workbench = Inr (a', r', sample_saved r')"
    using sample_create [of "\<lambda>s. s"] unfolding sample_services_def by blast
  have "r' = r" using r(1) c by simp
  note r_eq = m [unfolded this]
  have "rr_graph_path r = sample_directory @ [''control-graph.json'']" "run_artifact_paths r = Inr fan_paths"
    "rr_manifest_path r = sample_directory @ [''manifest.json'']"
    by (simp_all add: r_eq run_artifact_paths_def required_path_def materialized_record_def Let_def provisional_run_def
        opt_path_def first_path_def fan_paths_def located_def sample_build_def deliverable_files_def in_dir_def
        environment_files_def package_files_def assembles_def template_files_def assembly_files_def target_name_def
        sample_graph_def opt_package_def)
  then show ?thesis using r by blast
qed

text \<open>The record of the project's build, for the digest of its run.\<close>

definition fan_build :: "run_record \<Rightarrow> equipment_build" where
  "fan_build r = \<lparr>eb_name = ''Fan_1'', eb_run = ''a1'', eb_status = READY_FOR_REVIEW, eb_artifact = rr_artifact r\<rparr>"

definition fan_files :: "(path \<times> string) list" where
  "fan_files = write_files [''projects'', ''p1''] [([''project-spec.json''], ''project''), ([''project-test-report.json''], ''report'')] []"

definition fan_record :: "equipment_build list \<Rightarrow> project_record" where
  "fan_record runs = \<lparr>pb_id = ''p1'', pb_project = fan_project, pb_status = READY_FOR_REVIEW, pb_runs = runs,
     pb_project_path = [''projects'', ''p1'', ''project-spec.json''],
     pb_report_path = Some [''projects'', ''p1'', ''project-test-report.json''], pb_template_path = None,
     pb_station_path = None, pb_assembly_path = None,
     pb_artifact = ''project-spec.json'' @ nul @ ''project'' @ concat (map (\<lambda>e. eb_name e @ nul @ eb_artifact e) (sort_key eb_name runs))
       @ ''project-test-report.json'' @ nul @ ''report'', pb_approval = None\<rparr>"

lemma fan_digest:
  "project_digest (\<lambda>s. s) (map_of fan_files) [''projects'', ''p1'', ''project-spec.json''] runs
     [[''projects'', ''p1'', ''project-test-report.json'']] = Inr (pb_artifact (fan_record runs))"
  by (simp add: project_digest_def project_payload_def fan_files_def write_files_def read_bytes_def path_tail_def fan_record_def)

lemma fan_builds:
  assumes run: "create_run sample_services sample_request empty_workbench = Inr (a, r, sample_saved r)"
    and r: "rr_id r = ''a1''" "rr_status r = READY_FOR_REVIEW" "rr_graph_path r = sample_directory @ [''control-graph.json'']"
  shows "build_project fan_services ''p1'' (\<lambda>_. ''a1'') fan_project None no_projects empty_workbench
    = Inr (fan_record [fan_build r], save_project (fan_record [fan_build r]) (no_projects\<lparr>ps_files := fan_files\<rparr>), sample_saved r)"
proof -
  have req: "equipment_request (\<lambda>_. ''a1'') sample_job = sample_request"
    by (simp add: equipment_request_def sample_request_def)
  have graph: "read_bytes (store_of (sample_saved r)) (sample_directory @ [''control-graph.json'']) = Inr ''graph''"
  proof -
    have "map_of sample_files (sample_directory @ [''control-graph.json'']) = Some ''graph''" by code_simp
    then show ?thesis by (simp add: read_bytes_def sample_saved_def)
  qed
  have pre: "preflight_accepts (px_families fan_services) fan_project" by code_simp
  have order: "equipment_order fan_project = Inr [''Fan_1'']" by code_simp
  have id: "is_alnum ''p1''" by code_simp
  have name: "jb_equipment_name sample_job = ''Fan_1''" by (simp add: sample_job_def)
  have step: "build_equipment fan_services (\<lambda>_. ''a1'') sample_job ([], [], READY_FOR_REVIEW, empty_workbench)
      = Inr ([fan_build r], [(''Fan_1'', sample_graph)], READY_FOR_REVIEW, sample_saved r)"
    unfolding build_equipment_def req
    by (simp add: run fan_services_def r graph name fan_build_def)
  have suite: "run_project_acceptance_suite fan_project graphs = Inr \<lparr>pr_passed = True, pr_scenarios = [],
      pr_equipment_count = 1, pr_binding_count = 0, pr_aggregation_count = 0, pr_case_count = 0, pr_phase_count = 0\<rparr>" for graphs
    by (simp add: run_project_acceptance_suite_def fan_project_def)
  have parts: "pj_assembly_mode fan_project = NoAssembly" "pj_equipment fan_project = [sample_job]"
    "ps_root no_projects = [''projects'']" "ps_files no_projects = []" "px_project_json fan_services p = ''project''"
    "px_report_json fan_services rep = ''report''" for p rep
    by (simp_all add: fan_project_def no_projects_def fan_services_def)
  have files: "write_files [''projects'', ''p1''] [([''project-spec.json''], ''project''), ([''project-test-report.json''], ''report'')] []
      = fan_files" by (simp add: fan_files_def)
  show ?thesis
    unfolding build_project_def
    using fan_digest [of "[fan_build r]"]
    by (simp add: pre parts okE_def project_directory_def id step suite station_files_def files built_path_def
        project_artifacts_def opt_path_def fan_services_sha Let_def fan_record_def)
qed

lemma traverse_exists: "(\<And>x. x \<in> set xs \<Longrightarrow> \<exists>y. f x = Inr y) \<Longrightarrow> \<exists>ys. traverseE f xs = Inr ys"
  by (induction xs) fastforce+

lemma fan_topology: "validate_topology fan_project = Inr ()"
  by code_simp

lemma exported_project_was_tested_witness:
  "\<exists>h ps w r b entries. project_history fan_services h ps \<and> get_project ps ''p1'' = Inr r
     \<and> export_project (\<lambda>s. s) ''p1'' ps w = Inr entries \<and> b \<in> set h \<and> same_build r b"
proof -
  obtain a r where run: "create_run sample_services sample_request empty_workbench = Inr (a, r, sample_saved r)"
    and r: "filed (sample_saved r) r" "rr_id r = ''a1''" "rr_job r = sample_job" "rr_status r = READY_FOR_REVIEW"
      "get_run (sample_saved r) ''a1'' = Inr r" "verify_record (\<lambda>s. s) (store_of (sample_saved r)) r = Inr ()"
      "rr_graph_path r = sample_directory @ [''control-graph.json'']" "run_artifact_paths r = Inr fan_paths"
      "rr_manifest_path r = sample_directory @ [''manifest.json'']"
    using fan_run by blast
  obtain b where b: "approve (\<lambda>s. s) ''a1'' sample_who None (sample_saved r)
      = Inr (r\<lparr>rr_status := APPROVED, rr_approval := Some b\<rparr>,
          save_run (r\<lparr>rr_status := APPROVED, rr_approval := Some b\<rparr>) (sample_saved r))" "ap_artifact b = rr_artifact r"
    using approve_ready [OF r(5,4,6) sample_requirements [of "sample_saved r", folded r(3)], of None sample_who] by auto
  obtain r1 where r1: "r1 = r\<lparr>rr_status := APPROVED, rr_approval := Some b\<rparr>" by blast
  let ?w1 = "save_run r1 (sample_saved r)"
  let ?p = "fan_record [fan_build r]"
  let ?q = "approved_project sample_who ?p"
  let ?ps = "save_project ?p (no_projects\<lparr>ps_files := fan_files\<rparr>)"
  have built: "project_history fan_services [?p] ?ps"
    by (rule ph_build [OF ph_start fan_topology fan_builds [OF run r(2,4,7)]]) (simp add: no_projects_def)
  have id: "is_alnum ''p1''" by code_simp
  have get: "get_project ?ps ''p1'' = Inr ?p" "get_project (save_project ?q ?ps) ''p1'' = Inr ?q"
    by (simp_all add: get_project_Inr id save_project_def fan_record_def approved_project_def)
  have digest: "project_digest (\<lambda>s. s) (map_of (ps_files ?ps)) (pb_project_path x) (pb_runs x) (project_artifacts x) = Inr (pb_artifact x)"
    if "x \<in> {?p, ?q}" for x
    using that fan_digest
    by (auto simp: approved_project_def fan_record_def project_artifacts_def opt_path_def save_project_def fan_build_def)
  have v: "verify_project (\<lambda>s. s) ?ps (sample_saved r) ?p = Inr ()"
    using digest [of ?p] r(5,6)
    by (simp add: verify_project_Inr) (simp add: fan_record_def fan_build_def verify_integrity_def)
  have approved: "approve_project (\<lambda>s. s) ''p1'' sample_who ?ps (sample_saved r) = (Inr ?q, save_project ?q ?ps, ?w1)"
    using b(1) by (simp add: approve_project_def get(1) v) (simp add: fan_record_def fan_build_def require_status_def r1 okE_def)
  have history: "project_history fan_services [?p] (save_project ?q ?ps)"
    by (rule ph_approve [OF built, unfolded fan_services_sha, OF approved])
  have get1: "get_run ?w1 ''a1'' = Inr r1"
    using get_saved [OF decided_filed(1) [OF r(1,4)], of b] r(2) by (simp add: r1)
  have kept_parts: "record_artifact_paths r1 = record_artifact_paths r" "run_artifact_paths r1 = Inr fan_paths"
    "rr_manifest_path r1 = sample_directory @ [''manifest.json'']" "rr_artifact r1 = rr_artifact r"
    using r(8,9) by (simp_all add: r1 record_artifact_paths_def run_artifact_paths_def)
  have "verify_record (\<lambda>s. s) (store_of ?w1) r1 = Inr ()"
    using r(6) b(2) by (simp add: verify_record_Inr kept_parts) (simp add: r1)
  then have "verify_project (\<lambda>s. s) (save_project ?q ?ps) ?w1 ?q = Inr ()"
    using digest [of ?q] get1
    by (simp add: verify_project_Inr save_project_def)
       (simp add: fan_record_def approved_project_def fan_build_def verify_integrity_def kept_parts)
  moreover have "\<exists>own. project_entries (save_project ?q ?ps) ?q = Inr own"
  proof -
    have "map_of fan_files [''projects'', ''p1'', ''project-spec.json''] = Some ''project''"
      "map_of fan_files [''projects'', ''p1'', ''project-test-report.json''] = Some ''report''" by code_simp+
    then show ?thesis
      by (simp add: project_entries_def read_bytes_def approved_project_def fan_record_def opt_path_def save_project_def)
  qed
  moreover have "\<exists>part. exported_equipment ?w1 (fan_build r\<lparr>eb_status := APPROVED\<rparr>) = Inr part"
  proof -
    have there: "list_all (\<lambda>p. under sample_directory p \<and> map_of sample_files p \<noteq> None) fan_paths" by code_simp
    have "\<exists>ys. traverseE (\<lambda>p. bindE (relative_to sample_directory p) (\<lambda>rel.
        mapE (Pair (''equipment/'' @ ''Fan_1'' @ ''/'' @ as_posix rel)) (read_bytes (map_of sample_files) p))) fan_paths = Inr ys"
      by (rule traverse_exists) (use there in \<open>auto simp: list_all_iff relative_to_def read_bytes_def\<close>)
    then show ?thesis
      using get1 by (simp add: exported_equipment_def fan_build_def kept_parts) (simp add: sample_saved_def)
  qed
  ultimately obtain entries where e: "export_project (\<lambda>s. s) ''p1'' (save_project ?q ?ps) ?w1 = Inr entries"
    unfolding export_project_def get(2) by (auto simp: approved_project_def fan_record_def require_status_def)
  from exported_project_was_tested [OF history, unfolded fan_services_sha, OF e] show ?thesis
    using history e by blast
qed

text \<open>A project whose two entries name one run: its approval stops at the second.\<close>

lemma half_approved_project_is_stuck_witness:
  "\<exists>ps w err w'. approve_project (\<lambda>s. s) ''p1'' sample_who ps w = (Inl err, ps, w') \<and> w' \<noteq> w
     \<and> (\<exists>err'. fst (approve_project (\<lambda>s. s) ''p1'' sample_who ps w') = Inl err')"
proof -
  obtain a r where run: "create_run sample_services sample_request empty_workbench = Inr (a, r, sample_saved r)"
    and r: "filed (sample_saved r) r" "rr_id r = ''a1''" "rr_job r = sample_job" "rr_status r = READY_FOR_REVIEW"
      "get_run (sample_saved r) ''a1'' = Inr r" "verify_record (\<lambda>s. s) (store_of (sample_saved r)) r = Inr ()"
    using fan_run by blast
  obtain b where b: "approve (\<lambda>s. s) ''a1'' sample_who None (sample_saved r)
      = Inr (r\<lparr>rr_status := APPROVED, rr_approval := Some b\<rparr>,
          save_run (r\<lparr>rr_status := APPROVED, rr_approval := Some b\<rparr>) (sample_saved r))"
    using approve_ready [OF r(5,4,6) sample_requirements [of "sample_saved r", folded r(3)], of None sample_who] by auto
  obtain r1 where r1: "r1 = r\<lparr>rr_status := APPROVED, rr_approval := Some b\<rparr>" by blast
  let ?w1 = "save_run r1 (sample_saved r)"
  let ?p = "fan_record [fan_build r, fan_build r]"
  let ?ps = "save_project ?p (no_projects\<lparr>ps_files := fan_files\<rparr>)"
  have get1: "get_run ?w1 ''a1'' = Inr r1"
    using get_saved [OF decided_filed(1) [OF r(1,4)], of b] r(2) by (simp add: r1)
  have sv: "sv_sha sample_services = (\<lambda>s. s)" by (simp add: sample_services_def services_with_def)
  have kept: "kept (sample_saved r)"
    using serial_kept [of empty_workbench sample_services "sample_saved r"] serial_create [OF run]
    by (simp add: empty_workbench_def r_into_rtranclp)
  have "is_alnum ''p1''" by code_simp
  then have get: "get_project ?ps ''p1'' = Inr ?p" by (simp add: get_project_Inr save_project_def fan_record_def)
  have "verify_project (\<lambda>s. s) ?ps (sample_saved r) ?p = Inr ()"
    using fan_digest [of "[fan_build r, fan_build r]"] r(5,6)
    by (simp add: verify_project_Inr save_project_def)
       (simp add: fan_record_def fan_build_def verify_integrity_def project_artifacts_def opt_path_def)
  then have stops: "approve_project (\<lambda>s. s) ''p1'' sample_who ?ps (sample_saved r)
      = (Inl (ApprovalRequiredError ''only a passing run can be approved''), ?ps, ?w1)"
    using b get1 by (simp add: approve_project_def get)
      (simp add: fan_record_def fan_build_def require_status_def r1 [symmetric] approve_def [of "\<lambda>s. s" _ _ _ ?w1], simp add: r1)
  have changed: "?w1 \<noteq> sample_saved r"
  proof
    assume same: "?w1 = sample_saved r"
    have "r1 = r" using get1 r(5) unfolding same by simp
    moreover have "rr_status r1 = APPROVED" by (simp add: r1)
    ultimately show False using r(4) by simp
  qed
  show ?thesis
    using half_approved_project_is_stuck [where sv = sample_services, unfolded sv, OF kept stops changed rtranclp.rtrancl_refl]
      stops changed by blast
qed

end
