(* ===== verification/ShadowKernels.thy ===== *)
theory ShadowKernels
  imports Psychro
begin

text \<open>
  The kernels of the shadow runtime (\<open>src/bactalk/niagara/shadow/kernels.py\<close>), the Python ports
  of the components a compiled program runs on.  Each class is a record of its state, its
  start and its \<open>step\<close> over the absolute time; a step that raises leaves no state here.  The
  datatype \<open>port\<close> collects the instances that \<open>build_kernel\<close> constructs.  An output of NaN time
  in the source's state (\<open>math.nan\<close>) is \<^term>\<open>NaN\<close>.
\<close>

section \<open>Shared checks\<close>

text \<open>\<open>_finite\<close>, and the two checks that open most steps.\<close>

definition all_finite :: "pyfloat list \<Rightarrow> bool" where
  "all_finite vs = list_all fisfinite vs"

definition checked_step :: "string \<Rightarrow> pyfloat \<Rightarrow> pyfloat list \<Rightarrow> pyfloat \<Rightarrow> 'a result \<Rightarrow> 'a result" where
  "checked_step name t vs previous rest =
     raise_if (\<not> all_finite (t # vs)) (name @ (if vs = [] then '' time must be finite'' else '' inputs must be finite''))
    (raise_if (\<not> fisnan previous \<and> fless t previous) (name @ '' time must be monotonic'') rest)"

text \<open>\<open>math.floor(t / period) * period\<close>, and
  \<open>abs(t - (t0 + last_index * period)) <= 1e-9\<close>.\<close>

definition period_start :: "pyfloat \<Rightarrow> pyfloat \<Rightarrow> pyfloat result" where
  "period_start t period =
     bindE (fdiv t period) (\<lambda>q. bindE (ffloor q) (\<lambda>n. mapE (\<lambda>x. fmul x period) (float_of_int n)))"

definition at_sample :: "pyfloat \<Rightarrow> pyfloat \<Rightarrow> int \<Rightarrow> pyfloat \<Rightarrow> bool result" where
  "at_sample t t0 index period =
     mapE (\<lambda>x. fle (fabs (fsub t (fadd t0 (fmul x period)))) (lit (1 / 10 ^ 9))) (float_of_int index)"

section \<open>PidWithReset\<close>

record pid_port =
  pk_integral :: bool
  pk_derivative :: bool
  pk_reverse_acting :: bool
  pk_k :: pyfloat
  pk_ti :: pyfloat
  pk_td :: pyfloat
  pk_r :: pyfloat
  pk_ni :: pyfloat
  pk_nd :: pyfloat
  pk_y_min :: pyfloat
  pk_y_max :: pyfloat
  pk_xi_start :: pyfloat
  pk_yd_start :: pyfloat
  pk_y_reset :: pyfloat

record pid_port_state =
  ps_base_integral :: pyfloat
  ps_base_derivative :: pyfloat
  ps_base_trigger :: bool
  ps_base_time :: pyfloat
  ps_pending_integral :: pyfloat
  ps_pending_derivative :: pyfloat
  ps_pending_trigger :: bool
  ps_last_time :: pyfloat
  ps_first_instant :: pyfloat

definition pid_port_reset :: "pid_port \<Rightarrow> pid_port_state" where
  "pid_port_reset p = \<lparr>ps_base_integral = pk_xi_start p, ps_base_derivative = Fin 0, ps_base_trigger = False,
     ps_base_time = NaN, ps_pending_integral = pk_xi_start p, ps_pending_derivative = Fin 0,
     ps_pending_trigger = False, ps_last_time = NaN, ps_first_instant = NaN\<rparr>"

text \<open>The state commits only when time advances.\<close>

definition pid_commit :: "pyfloat \<Rightarrow> pid_port_state \<Rightarrow> pid_port_state" where
  "pid_commit t s =
     (if fisnan (ps_last_time s) then s\<lparr>ps_base_time := t\<rparr>
      else if fless (ps_last_time s) t then
        s\<lparr>ps_base_integral := ps_pending_integral s, ps_base_derivative := ps_pending_derivative s,
          ps_base_trigger := ps_pending_trigger s, ps_base_time := ps_last_time s\<rparr>
      else s)"

definition pid_at_start :: "pyfloat \<Rightarrow> bool \<Rightarrow> pid_port_state \<Rightarrow> bool" where
  "pid_at_start t first_tick s \<longleftrightarrow> first_tick
     \<or> (feq t (ps_base_time s) \<and> \<not> fisnan (ps_first_instant s) \<and> feq t (ps_first_instant s))"

definition pid_derivative :: "pid_port \<Rightarrow> bool \<Rightarrow> pyfloat \<Rightarrow> pyfloat \<Rightarrow> pyfloat \<Rightarrow> pid_port_state \<Rightarrow> pyfloat result" where
  "pid_derivative p at_start derivative_gain derivative_time error s =
     (if \<not> pk_derivative p then Inr (Fin 0)
      else if at_start then Inr (pk_yd_start p)
      else mapE (\<lambda>g. fmul g (fsub error (ps_base_derivative s))) (fdiv derivative_gain derivative_time))"

definition pid_saturate :: "pid_port \<Rightarrow> pyfloat \<Rightarrow> pyfloat" where
  "pid_saturate p unlimited =
     (if fless (pk_y_max p) unlimited then pk_y_max p
      else if fless unlimited (pk_y_min p) then pk_y_min p else unlimited)"

definition pid_next_integral :: "pid_port \<Rightarrow> bool \<Rightarrow> pyfloat \<Rightarrow> pyfloat \<Rightarrow> pyfloat \<Rightarrow> pyfloat \<Rightarrow> pyfloat \<Rightarrow> pyfloat \<Rightarrow>
    pid_port_state \<Rightarrow> pyfloat result" where
  "pid_next_integral p trigger error prop_der integral_output unlimited y dt s =
     (if trigger \<and> \<not> ps_base_trigger s then Inr (fsub (pk_y_reset p) prop_der)
      else bindE (fdiv (fsub unlimited y) (fmul (pk_k p) (pk_ni p))) (\<lambda>anti_windup.
           bindE (fdiv (pk_k p) (pk_ti p)) (\<lambda>rate.
           Inr (fadd integral_output (fmul (fmul rate (fsub error anti_windup)) dt)))))"

definition pid_next_derivative :: "pid_port \<Rightarrow> bool \<Rightarrow> pyfloat \<Rightarrow> pyfloat \<Rightarrow> pyfloat \<Rightarrow> pyfloat \<Rightarrow>
    pid_port_state \<Rightarrow> pyfloat result" where
  "pid_next_derivative p at_start derivative_gain derivative_time error dt s =
     bindE (if \<not> at_start then Inr (ps_base_derivative s)
            else if fless (fabs derivative_gain) (lit (1 / 10 ^ 15)) then Inr error
            else mapE (fsub error) (fdiv (fmul derivative_time (pk_yd_start p)) derivative_gain)) (\<lambda>initial_state.
     bindE (fdiv dt derivative_time) (\<lambda>ratio.
     fdiv (fadd initial_state (fmul ratio error)) (fadd (Fin 1) ratio)))"

definition pid_stage_integral :: "pid_port \<Rightarrow> bool \<Rightarrow> pyfloat \<Rightarrow> pyfloat \<Rightarrow> pyfloat \<Rightarrow> pyfloat \<Rightarrow> pyfloat \<Rightarrow> pyfloat \<Rightarrow>
    pid_port_state \<Rightarrow> pid_port_state result" where
  "pid_stage_integral p trigger error prop_der integral_output unlimited y dt s =
     (if pk_integral p then
        mapE (\<lambda>x. s\<lparr>ps_pending_integral := x, ps_pending_trigger := trigger\<rparr>)
          (pid_next_integral p trigger error prop_der integral_output unlimited y dt s)
      else Inr s)"

definition pid_stage_derivative :: "pid_port \<Rightarrow> bool \<Rightarrow> bool \<Rightarrow> pyfloat \<Rightarrow> pyfloat \<Rightarrow> pyfloat \<Rightarrow> pyfloat \<Rightarrow>
    pid_port_state \<Rightarrow> pid_port_state result" where
  "pid_stage_derivative p initial at_start derivative_gain derivative_time error dt s =
     (if pk_derivative p then
        mapE (\<lambda>x. s\<lparr>ps_pending_derivative := x\<rparr>)
          (pid_next_derivative p at_start derivative_gain derivative_time error dt s)
      else Inr (if initial then s else s\<lparr>ps_pending_derivative := ps_base_derivative s\<rparr>))"

definition pid_stamp :: "pyfloat \<Rightarrow> bool \<Rightarrow> pid_port_state \<Rightarrow> pid_port_state" where
  "pid_stamp t first_tick s = (if first_tick then s\<lparr>ps_first_instant := t\<rparr> else s)\<lparr>ps_last_time := t\<rparr>"

definition pid_port_step :: "pid_port \<Rightarrow> pyfloat \<Rightarrow> pyfloat \<Rightarrow> pyfloat \<Rightarrow> bool \<Rightarrow> pid_port_state \<Rightarrow>
    (pyfloat \<times> pid_port_state) result" where
  "pid_port_step p t setpoint measurement trigger s0 =
     checked_step ''PIDWithReset'' t [setpoint, measurement] (ps_last_time s0)
     (let first_tick = fisnan (ps_last_time s0);
          s = pid_commit t s0;
          initial = (first_tick \<or> fisnan (ps_base_time s));
          dt = fsub t (ps_base_time s);
          at_start = pid_at_start t first_tick s;
          sign = (if pk_reverse_acting p then Fin 1 else Fin (-1)) in
      bindE (fdiv (fmul sign (fsub setpoint measurement)) (pk_r p)) (\<lambda>error.
      let derivative_gain = fmul (pk_k p) (pk_td p) in
      bindE (fdiv (pk_td p) (pk_nd p)) (\<lambda>derivative_time.
      bindE (pid_derivative p at_start derivative_gain derivative_time error s) (\<lambda>derivative.
      let integral_output = (if pk_integral p then ps_base_integral s else Fin 0);
          prop_der = fadd (fmul (pk_k p) error) derivative;
          unlimited = fadd prop_der integral_output;
          y = pid_saturate p unlimited in
      bindE (pid_stage_integral p trigger error prop_der integral_output unlimited y dt s) (\<lambda>s1.
      bindE (pid_stage_derivative p initial at_start derivative_gain derivative_time error dt s1) (\<lambda>s2.
      Inr (y, pid_stamp t first_tick s2)))))))"

section \<open>Delays, timers and holds\<close>

record true_delay =
  td_initialized :: bool
  td_previous_input :: bool
  td_held :: bool
  td_timer :: pyfloat
  td_previous_time :: pyfloat

definition true_delay_reset :: true_delay where
  "true_delay_reset = \<lparr>td_initialized = False, td_previous_input = False, td_held = False, td_timer = Fin 0,
     td_previous_time = NaN\<rparr>"

definition true_delay_step :: "pyfloat \<Rightarrow> bool \<Rightarrow> pyfloat \<Rightarrow> bool \<Rightarrow> true_delay \<Rightarrow> (bool \<times> true_delay) result" where
  "true_delay_step delay delay_on_init t v s =
     checked_step ''TrueDelay'' t [] (td_previous_time s)
     (let (out, timer) =
        (if \<not> v then (False, Fin 0)
         else if \<not> td_initialized s then
           (if delay_on_init \<and> fless (Fin 0) delay then (False, Fin 0) else (True, delay))
         else if td_held s then (True, delay)
         else if \<not> td_previous_input s then (fle delay (Fin 0), Fin 0)
         else let timer = fsub (fadd (td_timer s) t) (td_previous_time s) in (fle delay timer, timer))
      in Inr (out, \<lparr>td_initialized = True, td_previous_input = v, td_held = out, td_timer = timer,
           td_previous_time = t\<rparr>))"

record port_timer =
  pt_initialized :: bool
  pt_entry_time :: pyfloat
  pt_previous_time :: pyfloat
  pt_previous_input :: bool
  pt_passed :: bool

definition port_timer_reset :: "pyfloat \<Rightarrow> port_timer" where
  "port_timer_reset threshold = \<lparr>pt_initialized = False, pt_entry_time = Fin 0, pt_previous_time = NaN,
     pt_previous_input = False, pt_passed = fle threshold (Fin 0)\<rparr>"

definition port_timer_step :: "pyfloat \<Rightarrow> pyfloat \<Rightarrow> bool \<Rightarrow> port_timer \<Rightarrow> ((pyfloat \<times> bool) \<times> port_timer) result" where
  "port_timer_step threshold t v s =
     checked_step ''Timer'' t [] (pt_previous_time s)
     (let elapsed = (if \<not> v \<or> \<not> pt_initialized s \<or> \<not> pt_previous_input s then Fin 0
                     else fsub t (pt_entry_time s));
          passed = (if v \<and> \<not> pt_previous_input s then fle threshold (Fin 0)
                    else if v \<and> fle threshold elapsed then True
                    else if \<not> v \<and> pt_previous_input s then False
                    else pt_passed s);
          entry = (if v \<and> (\<not> pt_initialized s \<or> \<not> pt_previous_input s) then t else pt_entry_time s)
      in Inr ((elapsed, passed), \<lparr>pt_initialized = True, pt_entry_time = entry, pt_previous_time = t,
           pt_previous_input = v, pt_passed = passed\<rparr>))"

record port_reset_timer =
  pr_initialized :: bool
  pr_entry_time :: pyfloat
  pr_previous_time :: pyfloat
  pr_previous_input :: bool
  pr_previous_reset :: bool
  pr_elapsed :: pyfloat
  pr_passed_out :: bool

definition port_reset_timer_reset :: port_reset_timer where
  "port_reset_timer_reset = \<lparr>pr_initialized = False, pr_entry_time = Fin 0, pr_previous_time = NaN,
     pr_previous_input = False, pr_previous_reset = False, pr_elapsed = Fin 0, pr_passed_out = False\<rparr>"

definition port_reset_timer_step :: "pyfloat \<Rightarrow> pyfloat \<Rightarrow> bool \<Rightarrow> bool \<Rightarrow> port_reset_timer \<Rightarrow>
    ((pyfloat \<times> bool) \<times> port_reset_timer) result" where
  "port_reset_timer_step threshold t v reset s =
     checked_step ''TimerWithReset'' t [] (pr_previous_time s)
     (let s = (if \<not> pr_initialized s then
            s\<lparr>pr_entry_time := t, pr_elapsed := Fin 0, pr_passed_out := (v \<and> fle threshold (Fin 0)),
              pr_initialized := True\<rparr>
          else
            let rising = ((v \<and> \<not> pr_previous_input s) \<or> (reset \<and> \<not> pr_previous_reset s));
                s = (if rising then s\<lparr>pr_entry_time := t, pr_passed_out := (v \<and> fle threshold (Fin 0))\<rparr>
                     else if v \<and> fle (fadd (pr_entry_time s) threshold) t then s\<lparr>pr_passed_out := True\<rparr>
                     else if \<not> v \<and> pr_previous_input s then s\<lparr>pr_passed_out := False\<rparr>
                     else s)
            in s\<lparr>pr_elapsed := (if v then fsub t (pr_entry_time s) else Fin 0)\<rparr>)
      in Inr ((pr_elapsed s, pr_passed_out s),
           s\<lparr>pr_previous_time := t, pr_previous_input := v, pr_previous_reset := reset\<rparr>))"

record port_accumulator =
  pa_initialized :: bool
  pa_previous_time :: pyfloat
  pa_previous_input :: bool
  pa_previous_reset :: bool
  pa_elapsed :: pyfloat
  pa_passed :: bool

definition port_accumulator_reset :: "pyfloat \<Rightarrow> port_accumulator" where
  "port_accumulator_reset threshold = \<lparr>pa_initialized = False, pa_previous_time = NaN, pa_previous_input = False,
     pa_previous_reset = False, pa_elapsed = Fin 0, pa_passed = fle threshold (Fin 0)\<rparr>"

definition port_accumulator_step :: "pyfloat \<Rightarrow> pyfloat \<Rightarrow> bool \<Rightarrow> bool \<Rightarrow> port_accumulator \<Rightarrow>
    ((pyfloat \<times> bool) \<times> port_accumulator) result" where
  "port_accumulator_step threshold t v reset s =
     checked_step ''TimerAccumulating'' t [] (pa_previous_time s)
     (let s = (if \<not> pa_initialized s then s\<lparr>pa_initialized := True\<rparr>
          else if reset \<and> \<not> pa_previous_reset s then s\<lparr>pa_elapsed := Fin 0, pa_passed := fle threshold (Fin 0)\<rparr>
          else
            let s = (if pa_previous_input s then s\<lparr>pa_elapsed := fadd (pa_elapsed s) (fsub t (pa_previous_time s))\<rparr>
                     else s)
            in if v \<and> fle threshold (pa_elapsed s) then s\<lparr>pa_passed := True\<rparr> else s)
      in Inr ((pa_elapsed s, pa_passed s),
           s\<lparr>pa_previous_time := t, pa_previous_input := v, pa_previous_reset := reset\<rparr>))"

record port_hold =
  ph_initialized :: bool
  ph_held :: bool
  ph_elapsed :: pyfloat
  ph_previous_time :: pyfloat

definition port_hold_reset :: port_hold where
  "port_hold_reset = \<lparr>ph_initialized = False, ph_held = False, ph_elapsed = Fin 0, ph_previous_time = NaN\<rparr>"

definition port_hold_step :: "pyfloat \<Rightarrow> pyfloat \<Rightarrow> pyfloat \<Rightarrow> bool \<Rightarrow> port_hold \<Rightarrow> (bool \<times> port_hold) result" where
  "port_hold_step true_hold false_hold t v s =
     checked_step ''TrueFalseHold'' t [] (ph_previous_time s)
     (if \<not> ph_initialized s then
        Inr (v, \<lparr>ph_initialized = True, ph_held = v, ph_elapsed = Fin 0, ph_previous_time = t\<rparr>)
      else
        let s = s\<lparr>ph_elapsed := fadd (ph_elapsed s) (fsub t (ph_previous_time s)), ph_previous_time := t\<rparr>;
            required = fmax (Fin 0) (if ph_held s then true_hold else false_hold);
            s = (if v \<noteq> ph_held s \<and> fle required (ph_elapsed s) then s\<lparr>ph_held := v, ph_elapsed := Fin 0\<rparr> else s)
        in Inr (ph_held s, s))"

section \<open>Sampling\<close>

record port_unit_delay =
  pu_initialized :: bool
  pu_held :: pyfloat
  pu_staged :: pyfloat
  pu_t0 :: pyfloat
  pu_last_index :: int
  pu_previous_time :: pyfloat

definition port_unit_delay_reset :: "pyfloat \<Rightarrow> port_unit_delay" where
  "port_unit_delay_reset initial = \<lparr>pu_initialized = False, pu_held = initial, pu_staged = initial, pu_t0 = Fin 0,
     pu_last_index = 0, pu_previous_time = NaN\<rparr>"

definition port_unit_delay_step :: "pyfloat \<Rightarrow> pyfloat \<Rightarrow> pyfloat \<Rightarrow> pyfloat \<Rightarrow> port_unit_delay \<Rightarrow>
    (pyfloat \<times> port_unit_delay) result" where
  "port_unit_delay_step period initial t v s =
     checked_step ''UnitDelay'' t [v] (pu_previous_time s)
     (if \<not> pu_initialized s then
        bindE (period_start t period) (\<lambda>t0.
        bindE (sample_index t t0 period) (\<lambda>index.
        bindE (at_sample t t0 index period) (\<lambda>exact.
        Inr (initial, s\<lparr>pu_t0 := t0, pu_last_index := index, pu_staged := (if exact then v else initial),
               pu_initialized := True, pu_previous_time := t\<rparr>))))
      else
        bindE (sample_index t (pu_t0 s) period) (\<lambda>index.
        bindE (if pu_last_index s < index then
                 Inr (s\<lparr>pu_held := pu_staged s, pu_staged := v, pu_last_index := index\<rparr>)
               else mapE (\<lambda>exact. if exact then s\<lparr>pu_staged := v\<rparr> else s)
                      (at_sample t (pu_t0 s) (pu_last_index s) period)) (\<lambda>s.
        Inr (pu_held s, s\<lparr>pu_previous_time := t\<rparr>))))"

record port_hold1 =
  pf_initialized :: bool
  pf_t0 :: pyfloat
  pf_last_index :: int
  pf_t_sample :: pyfloat
  pf_u_sample :: pyfloat
  pf_pre_u_sample :: pyfloat
  pf_slope :: pyfloat
  pf_previous_time :: pyfloat

definition port_hold1_reset :: port_hold1 where
  "port_hold1_reset = \<lparr>pf_initialized = False, pf_t0 = Fin 0, pf_last_index = 0, pf_t_sample = Fin 0, pf_u_sample = Fin 0,
     pf_pre_u_sample = Fin 0, pf_slope = Fin 0, pf_previous_time = NaN\<rparr>"

text \<open>\<open>_rint\<close>: half to even.\<close>

definition rint :: "pyfloat \<Rightarrow> pyfloat result" where
  "rint x = bindE (to_int_with round_even x) float_of_int"

definition hold1_slope :: "pyfloat \<Rightarrow> pyfloat \<Rightarrow> pyfloat \<Rightarrow> pyfloat \<Rightarrow> pyfloat \<Rightarrow> pyfloat result" where
  "hold1_slope period t t0 v previous =
     bindE (fdiv period (Fin 2)) (\<lambda>half.
       if fle t (fadd t0 half) then Inr (Fin 0) else fdiv (fsub v previous) period)"

definition port_hold1_step :: "pyfloat \<Rightarrow> pyfloat \<Rightarrow> pyfloat \<Rightarrow> port_hold1 \<Rightarrow> (pyfloat \<times> port_hold1) result" where
  "port_hold1_step period t v s =
     checked_step ''FirstOrderHold'' t [v] (pf_previous_time s)
     (if \<not> pf_initialized s then
        bindE (period_start t period) (\<lambda>x. bindE (rint (fmul x (Fin 1000000))) (\<lambda>y. bindE (fdiv y (Fin 1000000)) (\<lambda>t0.
        bindE (sample_index t t0 period) (\<lambda>index.
        Inr (v, \<lparr>pf_initialized = True, pf_t0 = t0, pf_last_index = index, pf_t_sample = t0, pf_u_sample = v,
               pf_pre_u_sample = v, pf_slope = Fin 0, pf_previous_time = t\<rparr>)))))
      else
        bindE (sample_index t (pf_t0 s) period) (\<lambda>index.
        if pf_last_index s < index then
          mapE (\<lambda>slope. (pf_u_sample s, s\<lparr>pf_last_index := index, pf_t_sample := t, pf_u_sample := v,
                  pf_pre_u_sample := pf_u_sample s, pf_slope := slope, pf_previous_time := t\<rparr>))
            (hold1_slope period t (pf_t0 s) v (pf_u_sample s))
        else
          let y = fadd (pf_pre_u_sample s) (fmul (pf_slope s) (fsub t (pf_t_sample s))) in
          bindE (if fle (fabs (fsub t (pf_t_sample s))) (lit (1 / 10 ^ 9))
                 then mapE (\<lambda>slope. s\<lparr>pf_u_sample := v, pf_slope := slope\<rparr>)
                        (hold1_slope period t (pf_t0 s) v (pf_pre_u_sample s))
                 else Inr s) (\<lambda>s.
          Inr (y, s\<lparr>pf_previous_time := t\<rparr>))))"

record port_average =
  pm_mu :: pyfloat
  pm_start_time :: pyfloat
  pm_previous_time :: pyfloat
  pm_points :: sample_points

definition port_average_reset :: port_average where
  "port_average_reset = \<lparr>pm_mu = Fin 0, pm_start_time = Fin 0, pm_previous_time = NaN, pm_points = []\<rparr>"

text \<open>\<open>_store\<close>; \<open>_prune\<close> is \<^const>\<open>drop_expired\<close> and \<open>_mu_at\<close> follows.\<close>

definition store_point :: "pyfloat \<Rightarrow> pyfloat \<Rightarrow> sample_points \<Rightarrow> sample_points" where
  "store_point t mu points =
     (if points \<noteq> [] \<and> feq (fst (last points)) t then butlast points @ [(fst (last points), mu)]
      else points @ [(t, mu)])"

definition between_points :: "pyfloat \<times> pyfloat \<Rightarrow> pyfloat \<times> pyfloat \<Rightarrow> pyfloat \<Rightarrow> pyfloat result" where
  "between_points p q goal =
     (let span = fsub (fst q) (fst p) in
      if feq span (Fin 0) then Inr (snd q)
      else mapE (\<lambda>r. fadd (snd p) (fmul (fsub (snd q) (snd p)) r)) (fdiv (fsub goal (fst p)) span))"

fun mu_after :: "pyfloat \<times> pyfloat \<Rightarrow> sample_points \<Rightarrow> pyfloat \<Rightarrow> pyfloat \<Rightarrow> pyfloat \<Rightarrow> pyfloat result" where
  "mu_after p [] goal t mu_now = (if fle goal t then between_points p (t, mu_now) goal else Inr mu_now)"
| "mu_after p (q # qs) goal t mu_now =
     (if fle goal (fst q) then between_points p q goal else mu_after q qs goal t mu_now)"

definition mu_at :: "sample_points \<Rightarrow> pyfloat \<Rightarrow> pyfloat \<Rightarrow> pyfloat \<Rightarrow> pyfloat result" where
  "mu_at points goal t mu_now = (case points of
       [] \<Rightarrow> Inr mu_now
     | p # ps \<Rightarrow> if fle goal (fst p) then Inr (snd p) else mu_after p ps goal t mu_now)"

definition port_average_step :: "pyfloat \<Rightarrow> pyfloat \<Rightarrow> pyfloat \<Rightarrow> port_average \<Rightarrow> (pyfloat \<times> port_average) result" where
  "port_average_step window t v s =
     checked_step ''MovingAverage'' t [v] (pm_previous_time s)
     (let first_tick = fisnan (pm_previous_time s);
          delta = fmax window (lit (1 / 10 ^ 5));
          start = (if first_tick then t else pm_start_time s);
          dt = (if first_tick then Fin 0 else fsub t (pm_previous_time s));
          mu_now = fadd (pm_mu s) (fmul v dt);
          goal = fsub t delta in
      bindE (mu_at (pm_points s) goal t mu_now) (\<lambda>delayed.
      let denominator =
            (if fle (fadd start delta) t then
               (let retained = (case pm_points s of [] \<Rightarrow> start | p # _ \<Rightarrow> fst p);
                    low = fmax (fmax goal retained) start
                in fmax (fsub t low) (lit (1 / 10 ^ 5)))
             else fadd (fsub t start) (lit (1 / 10 ^ 3))) in
      mapE (\<lambda>y. (y, \<lparr>pm_mu = mu_now, pm_start_time = (if first_tick then t else pm_start_time s),
              pm_previous_time = t, pm_points = store_point t mu_now (drop_expired goal (pm_points s))\<rparr>))
        (fdiv (fsub mu_now delayed) denominator)))"

section \<open>Steps that recompute an instant\<close>

record port_integrator =
  pi_state_now :: pyfloat
  pi_previous_time :: pyfloat
  pi_previous_trigger :: bool
  pi_instant :: pyfloat
  pi_instant_state :: pyfloat
  pi_instant_time :: pyfloat
  pi_instant_trigger :: bool

definition port_integrator_reset :: "pyfloat \<Rightarrow> port_integrator" where
  "port_integrator_reset initial = \<lparr>pi_state_now = initial, pi_previous_time = NaN, pi_previous_trigger = False,
     pi_instant = NaN, pi_instant_state = initial, pi_instant_time = NaN, pi_instant_trigger = False\<rparr>"

text \<open>\<open>if time_seconds != self.instant\<close>\<close>

definition integrator_instant :: "pyfloat \<Rightarrow> port_integrator \<Rightarrow> port_integrator" where
  "integrator_instant t s =
     (if feq t (pi_instant s) then s
      else s\<lparr>pi_instant := t, pi_instant_state := pi_state_now s, pi_instant_time := pi_previous_time s,
             pi_instant_trigger := pi_previous_trigger s\<rparr>)"

definition port_integrator_step :: "pyfloat \<Rightarrow> pyfloat \<Rightarrow> pyfloat \<Rightarrow> pyfloat \<Rightarrow> bool \<Rightarrow> port_integrator \<Rightarrow>
    (pyfloat \<times> port_integrator) result" where
  "port_integrator_step gain t v reset_value trigger s0 =
     (let s = integrator_instant t s0;
          dt = (if fisnan (pi_instant_time s) then Fin 0 else fsub t (pi_instant_time s));
          x = (if trigger \<and> \<not> pi_instant_trigger s then reset_value
               else fadd (pi_instant_state s) (fmul (fmul gain v) dt))
      in Inr (pi_instant_state s, s\<lparr>pi_state_now := x, pi_previous_time := t, pi_previous_trigger := trigger\<rparr>))"

record port_counter =
  pc_count :: pyfloat
  pc_previous_trigger :: bool
  pc_previous_reset :: bool
  pc_history :: bool
  pc_instant :: pyfloat
  pc_instant_count :: pyfloat
  pc_instant_trigger :: bool
  pc_instant_reset :: bool
  pc_instant_history :: bool

definition port_counter_reset :: "pyfloat \<Rightarrow> port_counter" where
  "port_counter_reset initial = \<lparr>pc_count = initial, pc_previous_trigger = False, pc_previous_reset = False,
     pc_history = False, pc_instant = NaN, pc_instant_count = initial, pc_instant_trigger = False,
     pc_instant_reset = False, pc_instant_history = False\<rparr>"

definition counter_instant :: "pyfloat \<Rightarrow> port_counter \<Rightarrow> port_counter" where
  "counter_instant t s =
     (if feq t (pc_instant s) then s
      else s\<lparr>pc_instant := t, pc_instant_count := pc_count s, pc_instant_trigger := pc_previous_trigger s,
             pc_instant_reset := pc_previous_reset s, pc_instant_history := pc_history s\<rparr>)"

definition port_counter_step :: "pyfloat \<Rightarrow> pyfloat \<Rightarrow> bool \<Rightarrow> bool \<Rightarrow> port_counter \<Rightarrow> (pyfloat \<times> port_counter) result" where
  "port_counter_step initial t trigger reset s0 =
     (let s = counter_instant t s0;
          n = (if pc_instant_history s \<and> ((trigger \<and> \<not> pc_instant_trigger s) \<or> (reset \<and> \<not> pc_instant_reset s))
               then (if reset then initial else fadd (pc_instant_count s) (Fin 1))
               else pc_instant_count s)
      in Inr (pc_instant_count s, s\<lparr>pc_count := n, pc_previous_trigger := trigger, pc_previous_reset := reset,
                pc_history := True\<rparr>))"

section \<open>The other kernels\<close>

definition port_pre_step :: "bool \<Rightarrow> bool \<Rightarrow> (bool \<times> bool) result" where
  "port_pre_step current previous = Inr (previous, current)"

definition port_initialization_step :: "bool \<Rightarrow> bool \<Rightarrow> bool \<Rightarrow> (bool \<times> bool) result" where
  "port_initialization_step initial v first = Inr (if first then initial else v, False)"

datatype change_mode = Changed | Increased | Decreased

definition port_change_step :: "change_mode \<Rightarrow> pyfloat \<Rightarrow> pyfloat \<Rightarrow> (bool \<times> pyfloat) result" where
  "port_change_step mode current previous =
     raise_if (\<not> fisfinite current) ''change-detector input must be finite''
     (Inr (case mode of Increased \<Rightarrow> fless previous current | Decreased \<Rightarrow> fless current previous
           | Changed \<Rightarrow> \<not> feq current previous, current))"

definition port_round_step :: "pyfloat \<Rightarrow> pyfloat \<Rightarrow> pyfloat result" where
  "port_round_step t v =
     raise_if (\<not> all_finite [t, v]) ''Round inputs must be finite''
     (bindE (if fless (Fin 0) v then ffloor (fadd v (lit (1 / 2))) else fceil (fsub v (lit (1 / 2)))) float_of_int)"

record port_slew =
  pl_y :: pyfloat
  pl_previous_time :: pyfloat

definition port_slew_reset :: port_slew where
  "port_slew_reset = \<lparr>pl_y = NaN, pl_previous_time = NaN\<rparr>"

definition port_slew_step :: "pyfloat \<Rightarrow> pyfloat \<Rightarrow> pyfloat \<Rightarrow> bool \<Rightarrow> pyfloat \<Rightarrow> pyfloat \<Rightarrow> port_slew \<Rightarrow>
    (pyfloat \<times> port_slew) result" where
  "port_slew_step raising falling td enable t v s =
     raise_if (\<not> all_finite [t, v]) ''LimitSlewRate inputs must be finite''
     (bindE (if \<not> enable \<or> fisnan (pl_previous_time s) then Inr v
             else
               let dt = fsub t (pl_previous_time s) in
               if fless (Fin 0) dt then
                 bindE (fdiv dt td) (\<lambda>alpha.
                 mapE (\<lambda>filtered. fadd (pl_y s)
                     (fmin (fmax (fsub filtered (pl_y s)) (fmul falling dt)) (fmul raising dt)))
                   (fdiv (fadd (pl_y s) (fmul alpha v)) (fadd (Fin 1) alpha)))
               else Inr (pl_y s)) (\<lambda>y.
      Inr (y, \<lparr>pl_y = y, pl_previous_time = t\<rparr>)))"

definition port_rising_step :: "bool \<Rightarrow> bool \<Rightarrow> (bool \<times> bool) result" where
  "port_rising_step v previous = Inr (v \<and> \<not> previous, v)"

definition port_falling_step :: "bool \<Rightarrow> bool \<Rightarrow> (bool \<times> bool) result" where
  "port_falling_step v previous = Inr (previous \<and> \<not> v, v)"

definition port_set_reset_step :: "bool \<Rightarrow> bool \<Rightarrow> bool \<times> bool \<Rightarrow> (bool \<times> bool \<times> bool) result" where
  "port_set_reset_step set_input clear s = (case s of (out, previous) \<Rightarrow>
     let next = (\<not> clear \<and> ((set_input \<and> \<not> previous) \<or> out)) in Inr (next, next, set_input))"

record port_sampler =
  px_initialized :: bool
  px_held :: pyfloat
  px_t0 :: pyfloat
  px_last_index :: int
  px_previous_time :: pyfloat

definition port_sampler_reset :: port_sampler where
  "port_sampler_reset = \<lparr>px_initialized = False, px_held = Fin 0, px_t0 = Fin 0, px_last_index = 0, px_previous_time = NaN\<rparr>"

definition port_sampler_step :: "pyfloat \<Rightarrow> pyfloat \<Rightarrow> pyfloat \<Rightarrow> port_sampler \<Rightarrow> (pyfloat \<times> port_sampler) result" where
  "port_sampler_step period t v s =
     checked_step ''Sampler'' t [v] (px_previous_time s)
     (bindE (if \<not> px_initialized s then
               bindE (period_start t period) (\<lambda>t0.
               mapE (\<lambda>index. \<lparr>px_initialized = True, px_held = v, px_t0 = t0, px_last_index = index, px_previous_time = t\<rparr>)
                 (sample_index t t0 period))
             else
               bindE (sample_index t (px_t0 s) period) (\<lambda>index.
               if px_last_index s < index then Inr (s\<lparr>px_last_index := index, px_held := v\<rparr>)
               else mapE (\<lambda>exact. if exact then s\<lparr>px_held := v\<rparr> else s) (at_sample t (px_t0 s) (px_last_index s) period))) (\<lambda>s.
      Inr (px_held s, s\<lparr>px_previous_time := t\<rparr>)))"

record port_trigger =
  pg_last_index :: int
  pg_previous_time :: pyfloat

definition port_trigger_reset :: port_trigger where
  "port_trigger_reset = \<lparr>pg_last_index = -1, pg_previous_time = NaN\<rparr>"

definition port_trigger_phase :: "pyfloat \<Rightarrow> pyfloat \<Rightarrow> pyfloat result" where
  "port_trigger_phase period shift =
     bindE (fdiv shift period) (\<lambda>q. bindE (ffloor q) (\<lambda>n. mapE (\<lambda>x. fsub shift (fmul x period)) (float_of_int n)))"

definition port_trigger_step :: "pyfloat \<Rightarrow> pyfloat \<Rightarrow> pyfloat \<Rightarrow> port_trigger \<Rightarrow> (bool \<times> port_trigger) result" where
  "port_trigger_step period phase t s =
     checked_step ''SampleTrigger'' t [] (pg_previous_time s)
     (mapE (\<lambda>index. (pg_last_index s < index,
          \<lparr>pg_last_index = (if pg_last_index s < index then index else pg_last_index s), pg_previous_time = t\<rparr>))
       (sample_index t phase period))"

definition port_hysteresis_step :: "pyfloat \<Rightarrow> pyfloat \<Rightarrow> pyfloat \<Rightarrow> bool \<Rightarrow> (bool \<times> bool) result" where
  "port_hysteresis_step u_low u_high v out =
     raise_if (\<not> fisfinite v) ''Hysteresis input must be finite''
     (let out = ((\<not> out \<and> fless u_high v) \<or> (out \<and> fle u_low v)) in Inr (out, out))"

end
