(* ===== verification/ShadowPorts.thy ===== *)
theory ShadowPorts
  imports ShadowKernels Jobs Security
begin

text \<open>
  The trim-and-respond kernel of \<open>src/bactalk/niagara/shadow/kernels.py\<close>, and the construction
  of any kernel from the parameters of its component (\<open>build_kernel\<close>): the datatype \<open>port\<close>
  holds an instance with its parameters and state, \<open>port_step\<close> is its \<open>step\<close> on the positional
  arguments a component passes.
\<close>

section \<open>TrimAndRespond\<close>

record port_trim =
  tp_initial_setpoint :: pyfloat
  tp_minimum_setpoint :: pyfloat
  tp_maximum_setpoint :: pyfloat
  tp_delay_seconds :: pyfloat
  tp_sample_period :: pyfloat
  tp_ignored_requests :: pyfloat
  tp_trim_amount :: pyfloat
  tp_respond_amount :: pyfloat
  tp_maximum_response :: pyfloat
  tp_hold_enabled :: bool
  tp_hold_duration :: pyfloat

record port_trim_state =
  ts_delay_out :: bool
  ts_delay_pending :: bool
  ts_delay_elapsed :: pyfloat
  ts_sampler_initialized :: bool
  ts_sampler_held :: pyfloat
  ts_sampler_t0 :: pyfloat
  ts_sampler_last_index :: int
  ts_unit_initialized :: bool
  ts_unit_held :: pyfloat
  ts_unit_staged :: pyfloat
  ts_unit_t0 :: pyfloat
  ts_unit_last_index :: int
  ts_previous_time :: pyfloat
  ts_hold_initialized :: bool
  ts_hold_out :: bool
  ts_hold_elapsed :: pyfloat
  ts_hold_latch :: bool
  ts_trigger_last_index :: int

definition port_trim_reset :: "port_trim \<Rightarrow> port_trim_state" where
  "port_trim_reset p = \<lparr>ts_delay_out = False, ts_delay_pending = False, ts_delay_elapsed = Fin 0,
     ts_sampler_initialized = False, ts_sampler_held = Fin 0, ts_sampler_t0 = Fin 0, ts_sampler_last_index = -1,
     ts_unit_initialized = False, ts_unit_held = tp_initial_setpoint p, ts_unit_staged = tp_initial_setpoint p,
     ts_unit_t0 = Fin 0, ts_unit_last_index = -1, ts_previous_time = NaN, ts_hold_initialized = False,
     ts_hold_out = False, ts_hold_elapsed = Fin 0, ts_hold_latch = False, ts_trigger_last_index = -1\<rparr>"

definition port_trim_hold_out :: "port_trim \<Rightarrow> pyfloat \<Rightarrow> bool \<Rightarrow> port_trim_state \<Rightarrow> port_trim_state" where
  "port_trim_hold_out p dt hold s =
     (if \<not> ts_hold_initialized s then s\<lparr>ts_hold_initialized := True, ts_hold_out := hold, ts_hold_elapsed := Fin 0\<rparr>
      else
        let s = s\<lparr>ts_hold_elapsed := fadd (ts_hold_elapsed s) dt\<rparr>;
            required = (if ts_hold_out s then tp_hold_duration p else Fin 0)
        in if hold \<noteq> ts_hold_out s \<and> fle required (ts_hold_elapsed s)
           then s\<lparr>ts_hold_out := hold, ts_hold_elapsed := Fin 0\<rparr> else s)"

text \<open>The hold is latched at the sample triggers; the result says whether it suppresses resets.\<close>

definition port_trim_hold :: "port_trim \<Rightarrow> pyfloat \<Rightarrow> pyfloat \<Rightarrow> bool \<Rightarrow> port_trim_state \<Rightarrow>
    (bool \<times> port_trim_state) result" where
  "port_trim_hold p t dt hold s =
     (if \<not> tp_hold_enabled p then Inr (False, s)
      else
        let s = port_trim_hold_out p dt hold s in
        bindE (fdiv t (tp_sample_period p)) (\<lambda>q. bindE (ffloor (fadd q (lit (1 / 10 ^ 9)))) (\<lambda>index.
        let s = (if ts_trigger_last_index s < index then s\<lparr>ts_trigger_last_index := index, ts_hold_latch := ts_hold_out s\<rparr>
                 else s)
        in Inr (ts_hold_latch s, s))))"

definition port_trim_delay :: "pyfloat \<Rightarrow> pyfloat \<Rightarrow> bool \<Rightarrow> port_trim_state \<Rightarrow> port_trim_state" where
  "port_trim_delay true_delay dt device_on s =
     (if device_on = ts_delay_out s then s\<lparr>ts_delay_elapsed := Fin 0, ts_delay_pending := device_on\<rparr>
      else if device_on \<noteq> ts_delay_pending s then
        (let s = s\<lparr>ts_delay_pending := device_on, ts_delay_elapsed := Fin 0\<rparr> in
         if \<not> device_on \<or> fle true_delay (Fin 0) then s\<lparr>ts_delay_out := device_on\<rparr> else s)
      else
        (let s = s\<lparr>ts_delay_elapsed := fadd (ts_delay_elapsed s) dt\<rparr>;
             active_delay = (if device_on then true_delay else Fin 0)
         in if fle active_delay (ts_delay_elapsed s) then s\<lparr>ts_delay_out := device_on, ts_delay_elapsed := Fin 0\<rparr> else s))"

definition port_trim_sample :: "pyfloat \<Rightarrow> pyfloat \<Rightarrow> pyfloat \<Rightarrow> port_trim_state \<Rightarrow> port_trim_state result" where
  "port_trim_sample period t requests s =
     (if \<not> ts_sampler_initialized s then
        bindE (period_start t period) (\<lambda>t0.
        mapE (\<lambda>index. s\<lparr>ts_sampler_t0 := t0, ts_sampler_last_index := index, ts_sampler_initialized := True,
               ts_sampler_held := requests\<rparr>) (sample_index t t0 period))
      else
        bindE (sample_index t (ts_sampler_t0 s) period) (\<lambda>index.
        if ts_sampler_last_index s < index then Inr (s\<lparr>ts_sampler_last_index := index, ts_sampler_held := requests\<rparr>)
        else mapE (\<lambda>exact. if exact then s\<lparr>ts_sampler_held := requests\<rparr> else s)
               (at_sample t (ts_sampler_t0 s) (ts_sampler_last_index s) period)))"

definition port_trim_unit_output :: "port_trim \<Rightarrow> pyfloat \<Rightarrow> port_trim_state \<Rightarrow> (bool \<times> pyfloat) result" where
  "port_trim_unit_output p t s =
     (if \<not> ts_unit_initialized s then Inr (False, tp_initial_setpoint p)
      else mapE (\<lambda>index. let due = ts_unit_last_index s < index in (due, if due then ts_unit_staged s else ts_unit_held s))
             (sample_index t (ts_unit_t0 s) (tp_sample_period p)))"

definition port_trim_net_reset :: "port_trim \<Rightarrow> bool \<Rightarrow> port_trim_state \<Rightarrow> pyfloat" where
  "port_trim_net_reset p hold_reset s =
     (let delta = fsub (ts_sampler_held s) (tp_ignored_requests p);
          response = fcopysign (fmin (fmul (fabs (tp_respond_amount p)) delta) (fabs (tp_maximum_response p)))
                       (tp_respond_amount p)
      in if hold_reset then Fin 0 else if \<not> ts_delay_out s then Fin 0
         else if fless (Fin 0) delta then fadd (tp_trim_amount p) response else tp_trim_amount p)"

definition port_trim_stage :: "port_trim \<Rightarrow> pyfloat \<Rightarrow> bool \<Rightarrow> pyfloat \<Rightarrow> port_trim_state \<Rightarrow> port_trim_state result" where
  "port_trim_stage p t due y s = (let period = tp_sample_period p in
     if \<not> ts_unit_initialized s then
       bindE (period_start t period) (\<lambda>t0.
       mapE (\<lambda>index. s\<lparr>ts_unit_t0 := t0, ts_unit_initialized := True, ts_unit_last_index := index, ts_unit_staged := y\<rparr>)
         (sample_index t t0 period))
     else if due then
       mapE (\<lambda>index. s\<lparr>ts_unit_last_index := index, ts_unit_held := ts_unit_staged s, ts_unit_staged := y\<rparr>)
         (sample_index t (ts_unit_t0 s) period)
     else mapE (\<lambda>exact. if exact then s\<lparr>ts_unit_staged := y\<rparr> else s)
            (at_sample t (ts_unit_t0 s) (ts_unit_last_index s) period))"

definition port_trim_step :: "port_trim \<Rightarrow> pyfloat \<Rightarrow> pyfloat \<Rightarrow> bool \<Rightarrow> bool \<Rightarrow> port_trim_state \<Rightarrow>
    (pyfloat \<times> port_trim_state) result" where
  "port_trim_step p t requests device_on hold s =
     checked_step ''TrimAndRespond'' t [requests] (ts_previous_time s)
     (let dt = (if fisnan (ts_previous_time s) then Fin 0 else fsub t (ts_previous_time s)) in
      bindE (port_trim_hold p t dt hold s) (\<lambda>(hold_reset, s).
      bindE (port_trim_sample (tp_sample_period p) t requests
               (port_trim_delay (fadd (tp_delay_seconds p) (tp_sample_period p)) dt device_on s)) (\<lambda>s.
      bindE (port_trim_unit_output p t s) (\<lambda>(due, unit_output).
      let candidate = fmax (tp_minimum_setpoint p)
            (fmin (tp_maximum_setpoint p) (fadd unit_output (port_trim_net_reset p hold_reset s)));
          y = (if device_on then candidate else tp_initial_setpoint p) in
      mapE (\<lambda>s. (y, s\<lparr>ts_previous_time := t\<rparr>)) (port_trim_stage p t due y s)))))"

section \<open>Instances\<close>

datatype port =
    PidPort pid_port pid_port_state
  | TrueDelayPort pyfloat bool true_delay
  | TimerPort pyfloat port_timer
  | ResetTimerPort pyfloat port_reset_timer
  | AccumulatingPort pyfloat port_accumulator
  | HoldPort pyfloat pyfloat port_hold
  | PrePort bool
  | UnitDelayPort pyfloat pyfloat port_unit_delay
  | FirstOrderPort pyfloat port_hold1
  | AveragePort pyfloat port_average
  | TrimPort port_trim port_trim_state
  | InitializationPort bool bool
  | ChangePort change_mode pyfloat
  | RisingPort bool
  | FallingPort bool
  | SetResetPort "bool \<times> bool"
  | SamplerPort pyfloat port_sampler
  | TriggerPort pyfloat pyfloat port_trigger
  | HysteresisPort pyfloat pyfloat bool
  | RoundPort
  | SlewPort pyfloat pyfloat pyfloat bool port_slew
  | IntegratorPort pyfloat port_integrator
  | CounterPort pyfloat port_counter
  | WetBulbPort

text \<open>A numeric result, a Boolean result, and the pair of the timers.\<close>

definition num_result :: "('s \<Rightarrow> port) \<Rightarrow> (pyfloat \<times> 's) result \<Rightarrow> (pyval list \<times> port) result" where
  "num_result k = mapE (\<lambda>(y, s). ([PFloat y], k s))"

definition bool_result :: "('s \<Rightarrow> port) \<Rightarrow> (bool \<times> 's) result \<Rightarrow> (pyval list \<times> port) result" where
  "bool_result k = mapE (\<lambda>(b, s). ([PBool b], k s))"

definition timer_result :: "('s \<Rightarrow> port) \<Rightarrow> ((pyfloat \<times> bool) \<times> 's) result \<Rightarrow> (pyval list \<times> port) result" where
  "timer_result k = mapE (\<lambda>((y, b), s). ([PFloat y, PBool b], k s))"

text \<open>\<open>instance.step(time, *inputs)\<close>, for inputs of the slots' types; another number of inputs is a
  \<open>TypeError\<close>.\<close>

definition bad_inputs :: "'a result" where
  "bad_inputs = Inl (TypeError ''step() inputs'')"

definition with_bool :: "(bool \<Rightarrow> 'a result) \<Rightarrow> pyval list \<Rightarrow> 'a result" where
  "with_bool f ins = (case ins of [PBool v] \<Rightarrow> f v | _ \<Rightarrow> bad_inputs)"

definition with_bools :: "(bool \<Rightarrow> bool \<Rightarrow> 'a result) \<Rightarrow> pyval list \<Rightarrow> 'a result" where
  "with_bools f ins = (case ins of [PBool v, PBool w] \<Rightarrow> f v w | _ \<Rightarrow> bad_inputs)"

definition with_num :: "(pyfloat \<Rightarrow> 'a result) \<Rightarrow> pyval list \<Rightarrow> 'a result" where
  "with_num f ins = (case ins of [PFloat v] \<Rightarrow> f v | _ \<Rightarrow> bad_inputs)"

definition with_nums :: "(pyfloat \<Rightarrow> pyfloat \<Rightarrow> 'a result) \<Rightarrow> pyval list \<Rightarrow> 'a result" where
  "with_nums f ins = (case ins of [PFloat v, PFloat w] \<Rightarrow> f v w | _ \<Rightarrow> bad_inputs)"

definition with_trigger :: "(pyfloat \<Rightarrow> pyfloat \<Rightarrow> bool \<Rightarrow> 'a result) \<Rightarrow> pyval list \<Rightarrow> 'a result" where
  "with_trigger f ins = (case ins of [PFloat v, PFloat w, PBool b] \<Rightarrow> f v w b | _ \<Rightarrow> bad_inputs)"

definition with_requests :: "(pyfloat \<Rightarrow> bool \<Rightarrow> bool \<Rightarrow> 'a result) \<Rightarrow> pyval list \<Rightarrow> 'a result" where
  "with_requests f ins = (case ins of [PFloat v, PBool d] \<Rightarrow> f v d False
     | [PFloat v, PBool d, PBool h] \<Rightarrow> f v d h | _ \<Rightarrow> bad_inputs)"

lemmas with_defs = with_bool_def with_bools_def with_num_def with_nums_def with_trigger_def with_requests_def

lemma with_simps [simp]:
  "with_bool f [PBool v] = f v" "with_bools g [PBool v, PBool w] = g v w" "with_num h [PFloat x] = h x"
  "with_nums k [PFloat x, PFloat y] = k x y" "with_trigger m [PFloat x, PFloat y, PBool v] = m x y v"
  "with_requests n [PFloat x, PBool v, PBool w] = n x v w"
  by (simp_all add: with_defs)

fun port_step :: "port \<Rightarrow> pyfloat \<Rightarrow> pyval list \<Rightarrow> (pyval list \<times> port) result" where
  "port_step (PidPort p s) t ins = with_trigger (\<lambda>sp m b. num_result (PidPort p) (pid_port_step p t sp m b s)) ins"
| "port_step (TrueDelayPort d i s) t ins = with_bool (\<lambda>v. bool_result (TrueDelayPort d i) (true_delay_step d i t v s)) ins"
| "port_step (TimerPort h s) t ins = with_bool (\<lambda>v. timer_result (TimerPort h) (port_timer_step h t v s)) ins"
| "port_step (ResetTimerPort h s) t ins =
     with_bools (\<lambda>v r. timer_result (ResetTimerPort h) (port_reset_timer_step h t v r s)) ins"
| "port_step (AccumulatingPort h s) t ins =
     with_bools (\<lambda>v r. timer_result (AccumulatingPort h) (port_accumulator_step h t v r s)) ins"
| "port_step (HoldPort a b s) t ins = with_bool (\<lambda>v. bool_result (HoldPort a b) (port_hold_step a b t v s)) ins"
| "port_step (PrePort s) t ins = with_bool (\<lambda>v. bool_result PrePort (port_pre_step v s)) ins"
| "port_step (UnitDelayPort p i s) t ins = with_num (\<lambda>v. num_result (UnitDelayPort p i) (port_unit_delay_step p i t v s)) ins"
| "port_step (FirstOrderPort p s) t ins = with_num (\<lambda>v. num_result (FirstOrderPort p) (port_hold1_step p t v s)) ins"
| "port_step (AveragePort w s) t ins = with_num (\<lambda>v. num_result (AveragePort w) (port_average_step w t v s)) ins"
| "port_step (TrimPort p s) t ins = with_requests (\<lambda>v d h. num_result (TrimPort p) (port_trim_step p t v d h s)) ins"
| "port_step (InitializationPort i s) t ins =
     with_bool (\<lambda>v. bool_result (InitializationPort i) (port_initialization_step i v s)) ins"
| "port_step (ChangePort m s) t ins = with_num (\<lambda>v. bool_result (ChangePort m) (port_change_step m v s)) ins"
| "port_step (RisingPort s) t ins = with_bool (\<lambda>v. bool_result RisingPort (port_rising_step v s)) ins"
| "port_step (FallingPort s) t ins = with_bool (\<lambda>v. bool_result FallingPort (port_falling_step v s)) ins"
| "port_step (SetResetPort s) t ins = with_bools (\<lambda>a c. bool_result SetResetPort (port_set_reset_step a c s)) ins"
| "port_step (SamplerPort p s) t ins = with_num (\<lambda>v. num_result (SamplerPort p) (port_sampler_step p t v s)) ins"
| "port_step (TriggerPort p q s) t ins =
     (if ins = [] then bool_result (TriggerPort p q) (port_trigger_step p q t s) else bad_inputs)"
| "port_step (HysteresisPort l h s) t ins =
     with_num (\<lambda>v. bool_result (HysteresisPort l h) (port_hysteresis_step l h v s)) ins"
| "port_step RoundPort t ins = with_num (\<lambda>v. mapE (\<lambda>y. ([PFloat y], RoundPort)) (port_round_step t v)) ins"
| "port_step (SlewPort r f d e s) t ins = with_num (\<lambda>v. num_result (SlewPort r f d e) (port_slew_step r f d e t v s)) ins"
| "port_step (IntegratorPort g s) t ins =
     with_trigger (\<lambda>v r b. num_result (IntegratorPort g) (port_integrator_step g t v r b s)) ins"
| "port_step (CounterPort i s) t ins = with_bools (\<lambda>a r. num_result (CounterPort i) (port_counter_step i t a r s)) ins"
| "port_step WetBulbPort t ins = with_nums (\<lambda>d h. mapE (\<lambda>y. ([PFloat y], WetBulbPort)) (wet_bulb d h)) ins"

text \<open>A run of an instance over timed inputs.\<close>

fun port_run :: "port \<Rightarrow> (pyfloat \<times> pyval list) list \<Rightarrow> pyval list list result" where
  "port_run k [] = Inr []"
| "port_run k ((t, ins) # scans) = bindE (port_step k t ins) (\<lambda>(out, k'). mapE (Cons out) (port_run k' scans))"

section \<open>\<open>build_kernel\<close>\<close>

definition num_param :: "pyval dict \<Rightarrow> string \<Rightarrow> pyfloat option \<Rightarrow> pyfloat result" where
  "num_param d key fallback = (case map_of d key of
       None \<Rightarrow> (case fallback of None \<Rightarrow> Inl (ValueError (''missing parameter '' @ key)) | Some x \<Rightarrow> Inr x)
     | Some PNone \<Rightarrow> (case fallback of None \<Rightarrow> Inl (ValueError (''missing parameter '' @ key)) | Some x \<Rightarrow> Inr x)
     | Some v \<Rightarrow> py_float v)"

text \<open>\<open>str(value).strip().lower() == "true"\<close> is false for every value that is not a text.\<close>

definition bool_param :: "pyval dict \<Rightarrow> string \<Rightarrow> bool \<Rightarrow> bool" where
  "bool_param d key fallback = (case map_of d key of
       None \<Rightarrow> fallback
     | Some PNone \<Rightarrow> fallback
     | Some (PBool b) \<Rightarrow> b
     | Some (PStr s) \<Rightarrow> map upper_char (strip s) = ''TRUE''
     | Some _ \<Rightarrow> False)"

text \<open>\<open>str(params.get(key, default)).upper()\<close>; the text of a value that is not a string names no
  controller and no mode.\<close>

definition text_param :: "pyval dict \<Rightarrow> string \<Rightarrow> string \<Rightarrow> string" where
  "text_param d key fallback = (case map_of d key of
       None \<Rightarrow> map upper_char fallback
     | Some (PStr s) \<Rightarrow> map upper_char s
     | Some _ \<Rightarrow> ''?'')"

definition build_pid :: "pyval dict \<Rightarrow> port result" where
  "build_pid d =
     bindE (num_param d ''k'' None) (\<lambda>k. bindE (num_param d ''ti'' None) (\<lambda>ti. bindE (num_param d ''td'' None) (\<lambda>td.
     bindE (num_param d ''r'' (Some (Fin 1))) (\<lambda>r. bindE (num_param d ''ni'' (Some (lit (9 / 10)))) (\<lambda>ni.
     bindE (num_param d ''nd'' (Some (Fin 10))) (\<lambda>nd. bindE (num_param d ''yMin'' None) (\<lambda>y_min.
     bindE (num_param d ''yMax'' None) (\<lambda>y_max. bindE (num_param d ''xiStart'' (Some (Fin 0))) (\<lambda>xi_start.
     bindE (num_param d ''ydStart'' (Some (Fin 0))) (\<lambda>yd_start. bindE (num_param d ''yReset'' (Some (Fin 0))) (\<lambda>y_reset.
     let kind = text_param d ''controllerType'' ''PI'' in
     raise_if (kind \<notin> {''P'', ''PI'', ''PD'', ''PID''}) ''unknown controller type''
       (let p = \<lparr>pk_integral = kind \<in> {''PI'', ''PID''}, pk_derivative = kind \<in> {''PD'', ''PID''},
              pk_reverse_acting = bool_param d ''reverseActing'' False, pk_k = k, pk_ti = ti, pk_td = td, pk_r = r,
              pk_ni = ni, pk_nd = nd, pk_y_min = y_min, pk_y_max = y_max, pk_xi_start = xi_start,
              pk_yd_start = yd_start, pk_y_reset = y_reset\<rparr>
        in Inr (PidPort p (pid_port_reset p))))))))))))))"

definition build_trim :: "pyval dict \<Rightarrow> port result" where
  "build_trim d =
     bindE (num_param d ''initialSetpoint'' None) (\<lambda>initial. bindE (num_param d ''minimumSetpoint'' None) (\<lambda>minimum.
     bindE (num_param d ''maximumSetpoint'' None) (\<lambda>maximum. bindE (num_param d ''delaySeconds'' None) (\<lambda>delay.
     bindE (num_param d ''samplePeriodSeconds'' None) (\<lambda>period. bindE (num_param d ''ignoredRequests'' None) (\<lambda>ignored.
     bindE (num_param d ''trimAmount'' None) (\<lambda>trim. bindE (num_param d ''respondAmount'' None) (\<lambda>respond.
     bindE (num_param d ''maximumResponse'' None) (\<lambda>response. bindE (num_param d ''holdDurationSeconds'' (Some (Fin 0))) (\<lambda>hold.
     raise_if (\<not> fless (Fin 0) period) ''TrimAndRespond sample period must be positive''
       (let p = \<lparr>tp_initial_setpoint = initial, tp_minimum_setpoint = minimum, tp_maximum_setpoint = maximum,
              tp_delay_seconds = delay, tp_sample_period = period, tp_ignored_requests = ignored, tp_trim_amount = trim,
              tp_respond_amount = respond, tp_maximum_response = response,
              tp_hold_enabled = bool_param d ''holdEnabled'' False, tp_hold_duration = hold\<rparr>
        in Inr (TrimPort p (port_trim_reset p)))))))))))))"

definition build_change :: "pyval dict \<Rightarrow> port result" where
  "build_change d = bindE (num_param d ''initial'' (Some (Fin 0))) (\<lambda>initial.
     let key = text_param d ''mode'' ''changed'' in
     if key = ''CHANGED'' then Inr (ChangePort Changed initial)
     else if key = ''INCREASED'' then Inr (ChangePort Increased initial)
     else if key = ''DECREASED'' then Inr (ChangePort Decreased initial)
     else Inl (ValueError ''unknown change mode''))"

definition build_slew :: "pyval dict \<Rightarrow> port result" where
  "build_slew d =
     bindE (num_param d ''raisingSlewRate'' None) (\<lambda>raising. bindE (num_param d ''fallingSlewRate'' None) (\<lambda>falling.
     bindE (num_param d ''tdSeconds'' None) (\<lambda>td.
     raise_if (\<not> fless (Fin 0) raising \<or> \<not> fless falling (Fin 0) \<or> \<not> fless (Fin 0) td)
       ''LimitSlewRate needs raising > 0, falling < 0 and Td > 0''
       (Inr (SlewPort raising falling td (bool_param d ''enable'' True) port_slew_reset)))))"

definition build_trigger :: "pyval dict \<Rightarrow> port result" where
  "build_trigger d =
     bindE (num_param d ''periodSeconds'' None) (\<lambda>period. bindE (num_param d ''shiftSeconds'' (Some (Fin 0))) (\<lambda>shift.
     raise_if (\<not> fless (Fin 0) period) ''SampleTrigger period must be positive''
       (mapE (\<lambda>phase. TriggerPort period phase port_trigger_reset) (port_trigger_phase period shift))))"

definition build_hysteresis :: "pyval dict \<Rightarrow> port result" where
  "build_hysteresis d =
     bindE (num_param d ''uLow'' None) (\<lambda>low. bindE (num_param d ''uHigh'' None) (\<lambda>high.
     raise_if (\<not> fless low high) ''Hysteresis needs uHigh > uLow''
       (Inr (HysteresisPort low high (bool_param d ''initial'' False)))))"

definition build_true_delay :: "pyval dict \<Rightarrow> port result" where
  "build_true_delay d = bindE (num_param d ''delaySeconds'' None) (\<lambda>delay.
     raise_if (fless delay (Fin 0)) ''TrueDelay delay must be non-negative''
       (Inr (TrueDelayPort delay (bool_param d ''delayOnInit'' False) true_delay_reset)))"

definition build_hold :: "pyval dict \<Rightarrow> port result" where
  "build_hold d = bindE (num_param d ''trueHoldSeconds'' None) (\<lambda>a. bindE (num_param d ''falseHoldSeconds'' None) (\<lambda>b.
     Inr (HoldPort a b port_hold_reset)))"

definition sample_period_param :: "string \<Rightarrow> pyval dict \<Rightarrow> (pyfloat \<Rightarrow> port result) \<Rightarrow> port result" where
  "sample_period_param name d f = bindE (num_param d ''samplePeriodSeconds'' None) (\<lambda>period.
     raise_if (\<not> fless (Fin 0) period) (name @ '' period must be positive'') (f period))"

definition build_unit_delay :: "pyval dict \<Rightarrow> port result" where
  "build_unit_delay d =
     bindE (num_param d ''samplePeriodSeconds'' None) (\<lambda>period. bindE (num_param d ''initial'' (Some (Fin 0))) (\<lambda>initial.
     raise_if (\<not> fless (Fin 0) period) ''UnitDelay period must be positive''
       (Inr (UnitDelayPort period initial (port_unit_delay_reset initial)))))"

definition build_integrator :: "pyval dict \<Rightarrow> port result" where
  "build_integrator d = bindE (num_param d ''gain'' (Some (Fin 1))) (\<lambda>gain. bindE (num_param d ''initial'' (Some (Fin 0))) (\<lambda>initial.
     raise_if (\<not> all_finite [gain, initial]) ''IntegratorWithReset needs finite gain and start''
       (Inr (IntegratorPort gain (port_integrator_reset initial)))))"

definition build_counter :: "pyval dict \<Rightarrow> port result" where
  "build_counter d = bindE (num_param d ''initial'' (Some (Fin 0))) (\<lambda>initial.
     raise_if (\<not> fisfinite initial \<or> \<not> fis_integer initial) ''OnCounter needs an integer start value''
       (Inr (CounterPort initial (port_counter_reset initial))))"

definition build_threshold :: "pyval dict \<Rightarrow> (pyfloat \<Rightarrow> port) \<Rightarrow> port result" where
  "build_threshold d k = mapE k (num_param d ''thresholdSeconds'' (Some (Fin 0)))"

definition build_kernel :: "string \<Rightarrow> pyval dict \<Rightarrow> port result" where
  "build_kernel name d =
     (if name = ''PidWithReset'' then build_pid d
      else if name = ''TrueDelay'' then build_true_delay d
      else if name = ''Timer'' then build_threshold d (\<lambda>h. TimerPort h (port_timer_reset h))
      else if name = ''TimerWithReset'' then build_threshold d (\<lambda>h. ResetTimerPort h port_reset_timer_reset)
      else if name = ''TimerAccumulating'' then build_threshold d (\<lambda>h. AccumulatingPort h (port_accumulator_reset h))
      else if name = ''TrueFalseHold'' then build_hold d
      else if name = ''Pre'' then Inr (PrePort (bool_param d ''initial'' False))
      else if name = ''UnitDelay'' then build_unit_delay d
      else if name = ''FirstOrderHold'' then sample_period_param name d (\<lambda>period. Inr (FirstOrderPort period port_hold1_reset))
      else if name = ''MovingAverage'' then mapE (\<lambda>w. AveragePort w port_average_reset) (num_param d ''windowSeconds'' None)
      else if name = ''TrimAndRespond'' then build_trim d
      else if name = ''BooleanInitialization'' then Inr (InitializationPort (bool_param d ''initial'' False) True)
      else if name = ''NumericChange'' then build_change d
      else if name = ''RisingEdge'' then Inr (RisingPort (bool_param d ''initial'' False))
      else if name = ''Round'' then Inr RoundPort
      else if name = ''IntegratorWithReset'' then build_integrator d
      else if name = ''OnCounter'' then build_counter d
      else if name = ''WetBulb'' then Inr WetBulbPort
      else if name = ''LimitSlewRate'' then build_slew d
      else if name = ''FallingEdge'' then Inr (FallingPort (bool_param d ''initial'' False))
      else if name = ''SetReset'' then Inr (SetResetPort (False, False))
      else if name = ''Sampler'' then sample_period_param name d (\<lambda>period. Inr (SamplerPort period port_sampler_reset))
      else if name = ''SampleTrigger'' then build_trigger d
      else if name = ''Hysteresis'' then build_hysteresis d
      else Inl (ValueError (''unknown kernel '' @ name)))"

end
