(* ===== verification/ShadowModules.thy ===== *)
theory ShadowModules
  imports ShadowPorts
begin

text \<open>
  How a block becomes a module component and a component a kernel: the component tables of
  \<open>src/bactalk/niagara/module.py\<close>, the properties the emitter writes for a block
  (\<open>niagara/emit.py\<close>, \<open>_module\<close>), the binding tables of \<open>niagara/shadow/blocks.py\<close> and the
  parameters a loaded component passes to \<open>build_kernel\<close> (\<open>ModuleBlock.configure\<close>).  A
  property's text is kept as the value it renders: rendering a float and reading it back gives
  the same float, and a duration is stored in whole milliseconds.
\<close>

section \<open>The component tables\<close>

datatype encoding = Seconds | Double | Truth | Words | Fixed

datatype parameter_binding =
  Bind (bd_property: string) (bd_key: string) (bd_encoding: encoding) (bd_default: "pyval option")

record component_spec =
  cm_name :: string
  cm_kinds :: "block_kind list"
  cm_bindings :: "parameter_binding list"
  cm_inputs :: "(string \<times> string) list"

definition timing_components :: "component_spec list" where
  "timing_components = [
    \<lparr>cm_name = ''TrueDelay'', cm_kinds = [BOOLEAN_DELAY],
     cm_bindings = [Bind ''delayTime'' ''on_delay_seconds'' Seconds (None),
       Bind ''delayOnInit'' ''delay_on_init'' Truth (Some (PBool False))],
     cm_inputs = [(''in'', ''in'')]\<rparr>,
    \<lparr>cm_name = ''Timer'', cm_kinds = [TIMER],
     cm_bindings = [Bind ''threshold'' ''threshold_seconds'' Seconds (Some (PFloat (Fin 0)))],
     cm_inputs = [(''in'', ''in'')]\<rparr>,
    \<lparr>cm_name = ''TimerWithReset'', cm_kinds = [TIMER_WITH_RESET],
     cm_bindings = [Bind ''threshold'' ''threshold_seconds'' Seconds (Some (PFloat (Fin 0)))],
     cm_inputs = [(''in'', ''in''), (''reset'', ''reset'')]\<rparr>,
    \<lparr>cm_name = ''TimerAccumulating'', cm_kinds = [TIMER_ACCUMULATING],
     cm_bindings = [Bind ''threshold'' ''threshold_seconds'' Seconds (Some (PFloat (Fin 0)))],
     cm_inputs = [(''in'', ''in''), (''reset'', ''reset'')]\<rparr>,
    \<lparr>cm_name = ''TrueFalseHold'', cm_kinds = [BOOLEAN_TRUE_FALSE_HOLD],
     cm_bindings = [Bind ''trueHoldTime'' ''true_hold_seconds'' Seconds (None),
       Bind ''falseHoldTime'' ''false_hold_seconds'' Seconds (None)],
     cm_inputs = [(''in'', ''in'')]\<rparr>,
    \<lparr>cm_name = ''Pre'', cm_kinds = [BOOLEAN_PRE_HOST_TICK],
     cm_bindings = [Bind ''initialValue'' ''initial'' Truth (Some (PBool False))],
     cm_inputs = [(''in'', ''in'')]\<rparr>,
    \<lparr>cm_name = ''UnitDelay'', cm_kinds = [NUMERIC_UNIT_DELAY],
     cm_bindings = [Bind ''samplePeriod'' ''sample_period_seconds'' Seconds (None),
       Bind ''initialValue'' ''initial'' Double (Some (PFloat (Fin 0)))],
     cm_inputs = [(''in'', ''in'')]\<rparr>,
    \<lparr>cm_name = ''FirstOrderHold'', cm_kinds = [NUMERIC_FIRST_ORDER_HOLD],
     cm_bindings = [Bind ''samplePeriod'' ''sample_period_seconds'' Seconds (None)],
     cm_inputs = [(''in'', ''in'')]\<rparr>,
    \<lparr>cm_name = ''MovingAverage'', cm_kinds = [MOVING_AVERAGE],
     cm_bindings = [Bind ''window'' ''window_seconds'' Seconds (None)],
     cm_inputs = [(''in'', ''in'')]\<rparr>]"

definition numeric_components :: "component_spec list" where
  "numeric_components = [
    \<lparr>cm_name = ''IntegratorWithReset'', cm_kinds = [NUMERIC_INTEGRATOR_WITH_RESET],
     cm_bindings = [Bind ''gain'' ''gain'' Double (Some (PFloat (Fin 1))),
       Bind ''initialValue'' ''initial'' Double (Some (PFloat (Fin 0)))],
     cm_inputs = [(''in'', ''in''), (''reset_value'', ''resetValue''), (''trigger'', ''trigger'')]\<rparr>,
    \<lparr>cm_name = ''OnCounter'', cm_kinds = [NUMERIC_ON_COUNTER],
     cm_bindings = [Bind ''initialValue'' ''initial'' Double (Some (PFloat (Fin 0)))],
     cm_inputs = [(''trigger'', ''trigger''), (''reset'', ''reset'')]\<rparr>,
    \<lparr>cm_name = ''WetBulb'', cm_kinds = [WET_BULB_TEMPERATURE],
     cm_bindings = [],
     cm_inputs = [(''dry_bulb'', ''dryBulb''), (''relative_humidity'', ''relativeHumidity'')]\<rparr>,
    \<lparr>cm_name = ''LimitSlewRate'', cm_kinds = [NUMERIC_LIMIT_SLEW_RATE],
     cm_bindings = [Bind ''raisingSlewRate'' ''raising_slew_rate'' Double (None),
       Bind ''fallingSlewRate'' ''falling_slew_rate'' Double (None),
       Bind ''derivativeTime'' ''td_seconds'' Seconds (None),
       Bind ''enable'' ''enable'' Truth (Some (PBool True))],
     cm_inputs = [(''in'', ''in'')]\<rparr>,
    \<lparr>cm_name = ''PIDWithReset'', cm_kinds = [PID_WITH_RESET],
     cm_bindings = [Bind ''controllerType'' ''controller_type'' Words (Some (PStr ''PI'')),
       Bind ''reverseActing'' ''reverse_acting'' Truth (Some (PBool True)),
       Bind ''k'' ''k'' Double (Some (PFloat (Fin 1))),
       Bind ''ti'' ''ti'' Double (Some (PFloat (lit (1 / 2)))),
       Bind ''td'' ''td'' Double (Some (PFloat (lit (1 / 10)))),
       Bind ''r'' ''r'' Double (Some (PFloat (Fin 1))),
       Bind ''ni'' ''ni'' Double (Some (PFloat (lit (9 / 10)))),
       Bind ''nd'' ''nd'' Double (Some (PFloat (Fin 10))),
       Bind ''yMin'' ''y_min'' Double (Some (PFloat (Fin 0))),
       Bind ''yMax'' ''y_max'' Double (Some (PFloat (Fin 1))),
       Bind ''xiStart'' ''xi_start'' Double (Some (PFloat (Fin 0))),
       Bind ''ydStart'' ''yd_start'' Double (Some (PFloat (Fin 0))),
       Bind ''yReset'' ''y_reset'' Double (Some (PFloat (Fin 0)))],
     cm_inputs = [(''setpoint'', ''setpoint''), (''measurement'', ''measurement''), (''trigger'', ''trigger'')]\<rparr>,
    \<lparr>cm_name = ''TrimAndRespond'', cm_kinds = [TRIM_AND_RESPOND, TRIM_AND_RESPOND_HOLD],
     cm_bindings = [Bind ''initialSetpoint'' ''initial_setpoint'' Double (None),
       Bind ''minimumSetpoint'' ''minimum_setpoint'' Double (None),
       Bind ''maximumSetpoint'' ''maximum_setpoint'' Double (None),
       Bind ''delayTime'' ''delay_seconds'' Seconds (None),
       Bind ''samplePeriod'' ''sample_period_seconds'' Seconds (None),
       Bind ''ignoredRequests'' ''ignored_requests'' Double (None),
       Bind ''trimAmount'' ''trim_amount'' Double (None),
       Bind ''respondAmount'' ''respond_amount'' Double (None),
       Bind ''maximumResponse'' ''maximum_response'' Double (None),
       Bind ''holdEnabled'' ''hold_enabled'' Truth (Some (PBool False)),
       Bind ''holdDuration'' ''hold_duration_seconds'' Seconds (Some (PFloat (Fin 0)))],
     cm_inputs = [(''request_count'', ''requestCount''), (''device_on'', ''deviceOn''), (''hold'', ''hold'')]\<rparr>,
    \<lparr>cm_name = ''BooleanInitialization'', cm_kinds = [BOOLEAN_INITIALIZATION],
     cm_bindings = [Bind ''initialValue'' ''initial'' Truth (Some (PBool False))],
     cm_inputs = [(''in'', ''in'')]\<rparr>,
    \<lparr>cm_name = ''NumericChange'', cm_kinds = [NUMERIC_CHANGED, NUMERIC_INCREASED, NUMERIC_DECREASED],
     cm_bindings = [Bind ''mode'' '''' Fixed (Some (PStr ''changed'')),
       Bind ''initialValue'' ''initial'' Double (Some (PFloat (Fin 0)))],
     cm_inputs = [(''in'', ''in'')]\<rparr>]"

definition tick_components :: "component_spec list" where
  "tick_components = [
    \<lparr>cm_name = ''Round'', cm_kinds = [NUMERIC_ROUND],
     cm_bindings = [],
     cm_inputs = [(''in'', ''in'')]\<rparr>,
    \<lparr>cm_name = ''RisingEdge'', cm_kinds = [ONE_SHOT],
     cm_bindings = [Bind ''initialValue'' ''initial'' Truth (Some (PBool False))],
     cm_inputs = [(''in'', ''in'')]\<rparr>,
    \<lparr>cm_name = ''FallingEdge'', cm_kinds = [BOOLEAN_FALLING_EDGE],
     cm_bindings = [Bind ''initialValue'' ''pre_u_start'' Truth (Some (PBool False))],
     cm_inputs = [(''in'', ''in'')]\<rparr>,
    \<lparr>cm_name = ''SetReset'', cm_kinds = [BOOLEAN_SET_RESET],
     cm_bindings = [],
     cm_inputs = [(''set'', ''set''), (''clear'', ''clear'')]\<rparr>,
    \<lparr>cm_name = ''Sampler'', cm_kinds = [NUMERIC_SAMPLER],
     cm_bindings = [Bind ''samplePeriod'' ''sample_period_seconds'' Seconds (None)],
     cm_inputs = [(''in'', ''in'')]\<rparr>,
    \<lparr>cm_name = ''SampleTrigger'', cm_kinds = [BOOLEAN_SAMPLE_TRIGGER],
     cm_bindings = [Bind ''period'' ''period_seconds'' Seconds (None),
       Bind ''shift'' ''shift_seconds'' Seconds (Some (PFloat (Fin 0)))],
     cm_inputs = []\<rparr>,
    \<lparr>cm_name = ''Hysteresis'', cm_kinds = [HYSTERESIS],
     cm_bindings = [Bind ''uLow'' ''u_low'' Double (None),
       Bind ''uHigh'' ''u_high'' Double (None),
       Bind ''initialValue'' ''initial'' Truth (Some (PBool False))],
     cm_inputs = [(''in'', ''in'')]\<rparr>]"

definition components :: "component_spec list" where
  "components = timing_components @ numeric_components @ tick_components"

definition component_of :: "block_kind \<Rightarrow> component_spec option" where
  "component_of k = find (\<lambda>c. k \<in> set (cm_kinds c)) components"

definition change_modes :: "block_kind \<Rightarrow> string option" where
  "change_modes k = (if k = NUMERIC_CHANGED then Some ''changed'' else if k = NUMERIC_INCREASED then Some ''increased''
     else if k = NUMERIC_DECREASED then Some ''decreased'' else None)"

section \<open>What the emitter writes\<close>

text \<open>\<open>_millis\<close>.\<close>

definition millis :: "pyval \<Rightarrow> int result" where
  "millis v = bindE (py_float v) (\<lambda>x. to_int_with round_even (fmul x (Fin 1000)))"

definition word_of :: "pyval \<Rightarrow> string" where
  "word_of v = (case v of PStr s \<Rightarrow> s | _ \<Rightarrow> ''?'')"

definition emit_property :: "block_kind \<Rightarrow> config \<Rightarrow> parameter_binding \<Rightarrow> (string \<times> pyval) result" where
  "emit_property k c b =
     (if bd_encoding b = Fixed then
        Inr (bd_property b, PStr (case change_modes k of Some m \<Rightarrow> m
               | None \<Rightarrow> (case bd_default b of Some v \<Rightarrow> word_of v | None \<Rightarrow> ''None'')))
      else
        let raw = (case map_of c (bd_key b) of None \<Rightarrow> bd_default b | Some PNone \<Rightarrow> None | Some v \<Rightarrow> Some v) in
        case raw of
          None \<Rightarrow> Inl (ValueError (''block lacks config.'' @ bd_key b))
        | Some v \<Rightarrow> mapE (Pair (bd_property b)) (case bd_encoding b of
              Seconds \<Rightarrow> mapE PInt (millis v)
            | Double \<Rightarrow> mapE PFloat (py_float v)
            | Truth \<Rightarrow> Inr (PBool (truthy v))
            | _ \<Rightarrow> Inr (PStr (word_of v))))"

definition emit_component :: "block_kind \<Rightarrow> config \<Rightarrow> component_spec \<Rightarrow> pyval dict result" where
  "emit_component k c m =
     mapE (\<lambda>props. if k = TRIM_AND_RESPOND_HOLD
            then filter (\<lambda>(n, _). n \<noteq> ''holdEnabled'') props @ [(''holdEnabled'', PBool True)] else props)
       (traverseE (emit_property k c) (cm_bindings m))"

section \<open>The kernel bindings\<close>

datatype kernel_param =
  Param (kp_name: string) (kp_property: string) (kp_encoding: encoding) (kp_default: "pyval option")

record kernel_binding =
  kb_component :: string
  kb_kernel :: string
  kb_inputs :: "(string \<times> data_type) list"
  kb_outputs :: "(string \<times> data_type) list"
  kb_params :: "kernel_param list"
  kb_source_at_start :: bool
  kb_resample :: bool

definition first_kernel_bindings :: "kernel_binding list" where
  "first_kernel_bindings = [
    \<lparr>kb_component = ''TrueDelay'', kb_kernel = ''TrueDelay'', kb_inputs = [(''in'', BOOLEAN)], kb_outputs = [(''out'', BOOLEAN)],
     kb_params = [Param ''delaySeconds'' ''delayTime'' Seconds (Some (PFloat (Fin 0))),
       Param ''delayOnInit'' ''delayOnInit'' Truth (Some (PBool False))],
     kb_source_at_start = False, kb_resample = False\<rparr>,
    \<lparr>kb_component = ''Timer'', kb_kernel = ''Timer'', kb_inputs = [(''in'', BOOLEAN)], kb_outputs = [(''elapsed'', NUMERIC), (''passed'', BOOLEAN)],
     kb_params = [Param ''thresholdSeconds'' ''threshold'' Seconds (Some (PFloat (Fin 0)))],
     kb_source_at_start = False, kb_resample = False\<rparr>,
    \<lparr>kb_component = ''TimerWithReset'', kb_kernel = ''TimerWithReset'', kb_inputs = [(''in'', BOOLEAN), (''reset'', BOOLEAN)], kb_outputs = [(''elapsed'', NUMERIC), (''passed'', BOOLEAN)],
     kb_params = [Param ''thresholdSeconds'' ''threshold'' Seconds (Some (PFloat (Fin 0)))],
     kb_source_at_start = False, kb_resample = False\<rparr>,
    \<lparr>kb_component = ''TimerAccumulating'', kb_kernel = ''TimerAccumulating'', kb_inputs = [(''in'', BOOLEAN), (''reset'', BOOLEAN)], kb_outputs = [(''elapsed'', NUMERIC), (''passed'', BOOLEAN)],
     kb_params = [Param ''thresholdSeconds'' ''threshold'' Seconds (Some (PFloat (Fin 0)))],
     kb_source_at_start = False, kb_resample = False\<rparr>,
    \<lparr>kb_component = ''TrueFalseHold'', kb_kernel = ''TrueFalseHold'', kb_inputs = [(''in'', BOOLEAN)], kb_outputs = [(''out'', BOOLEAN)],
     kb_params = [Param ''trueHoldSeconds'' ''trueHoldTime'' Seconds (Some (PFloat (Fin 0))),
       Param ''falseHoldSeconds'' ''falseHoldTime'' Seconds (Some (PFloat (Fin 0)))],
     kb_source_at_start = False, kb_resample = False\<rparr>,
    \<lparr>kb_component = ''Pre'', kb_kernel = ''Pre'', kb_inputs = [(''in'', BOOLEAN)], kb_outputs = [(''out'', BOOLEAN)],
     kb_params = [Param ''initial'' ''initialValue'' Truth (Some (PBool False))],
     kb_source_at_start = True, kb_resample = False\<rparr>,
    \<lparr>kb_component = ''LimitSlewRate'', kb_kernel = ''LimitSlewRate'', kb_inputs = [(''in'', NUMERIC)], kb_outputs = [(''out'', NUMERIC)],
     kb_params = [Param ''raisingSlewRate'' ''raisingSlewRate'' Double (None),
       Param ''fallingSlewRate'' ''fallingSlewRate'' Double (None),
       Param ''tdSeconds'' ''derivativeTime'' Seconds (None),
       Param ''enable'' ''enable'' Truth (Some (PBool True))],
     kb_source_at_start = False, kb_resample = False\<rparr>,
    \<lparr>kb_component = ''IntegratorWithReset'', kb_kernel = ''IntegratorWithReset'', kb_inputs = [(''in'', NUMERIC), (''resetValue'', NUMERIC), (''trigger'', BOOLEAN)], kb_outputs = [(''out'', NUMERIC)],
     kb_params = [Param ''gain'' ''gain'' Double (Some (PFloat (Fin 1))),
       Param ''initial'' ''initialValue'' Double (Some (PFloat (Fin 0)))],
     kb_source_at_start = True, kb_resample = True\<rparr>,
    \<lparr>kb_component = ''OnCounter'', kb_kernel = ''OnCounter'', kb_inputs = [(''trigger'', BOOLEAN), (''reset'', BOOLEAN)], kb_outputs = [(''out'', NUMERIC)],
     kb_params = [Param ''initial'' ''initialValue'' Double (Some (PFloat (Fin 0)))],
     kb_source_at_start = True, kb_resample = True\<rparr>,
    \<lparr>kb_component = ''WetBulb'', kb_kernel = ''WetBulb'', kb_inputs = [(''dryBulb'', NUMERIC), (''relativeHumidity'', NUMERIC)], kb_outputs = [(''out'', NUMERIC)],
     kb_params = [],
     kb_source_at_start = False, kb_resample = False\<rparr>,
    \<lparr>kb_component = ''Round'', kb_kernel = ''Round'', kb_inputs = [(''in'', NUMERIC)], kb_outputs = [(''out'', NUMERIC)],
     kb_params = [],
     kb_source_at_start = False, kb_resample = False\<rparr>,
    \<lparr>kb_component = ''UnitDelay'', kb_kernel = ''UnitDelay'', kb_inputs = [(''in'', NUMERIC)], kb_outputs = [(''out'', NUMERIC)],
     kb_params = [Param ''samplePeriodSeconds'' ''samplePeriod'' Seconds (None),
       Param ''initial'' ''initialValue'' Double (Some (PFloat (Fin 0)))],
     kb_source_at_start = True, kb_resample = True\<rparr>,
    \<lparr>kb_component = ''FirstOrderHold'', kb_kernel = ''FirstOrderHold'', kb_inputs = [(''in'', NUMERIC)], kb_outputs = [(''out'', NUMERIC)],
     kb_params = [Param ''samplePeriodSeconds'' ''samplePeriod'' Seconds (None)],
     kb_source_at_start = False, kb_resample = True\<rparr>,
    \<lparr>kb_component = ''MovingAverage'', kb_kernel = ''MovingAverage'', kb_inputs = [(''in'', NUMERIC)], kb_outputs = [(''out'', NUMERIC)],
     kb_params = [Param ''windowSeconds'' ''window'' Seconds (None)],
     kb_source_at_start = False, kb_resample = False\<rparr>]"

definition other_kernel_bindings :: "kernel_binding list" where
  "other_kernel_bindings = [
    \<lparr>kb_component = ''PIDWithReset'', kb_kernel = ''PidWithReset'', kb_inputs = [(''setpoint'', NUMERIC), (''measurement'', NUMERIC), (''trigger'', BOOLEAN)], kb_outputs = [(''out'', NUMERIC)],
     kb_params = [Param ''controllerType'' ''controllerType'' Words (Some (PStr ''PI'')),
       Param ''reverseActing'' ''reverseActing'' Truth (Some (PBool False)),
       Param ''k'' ''k'' Double (Some (PFloat (Fin 1))),
       Param ''ti'' ''ti'' Double (Some (PFloat (lit (1 / 2)))),
       Param ''td'' ''td'' Double (Some (PFloat (lit (1 / 10)))),
       Param ''r'' ''r'' Double (Some (PFloat (Fin 1))),
       Param ''ni'' ''ni'' Double (Some (PFloat (lit (9 / 10)))),
       Param ''nd'' ''nd'' Double (Some (PFloat (Fin 10))),
       Param ''yMin'' ''yMin'' Double (Some (PFloat (Fin 0))),
       Param ''yMax'' ''yMax'' Double (Some (PFloat (Fin 1))),
       Param ''xiStart'' ''xiStart'' Double (Some (PFloat (Fin 0))),
       Param ''ydStart'' ''ydStart'' Double (Some (PFloat (Fin 0))),
       Param ''yReset'' ''yReset'' Double (Some (PFloat (Fin 0)))],
     kb_source_at_start = False, kb_resample = False\<rparr>,
    \<lparr>kb_component = ''TrimAndRespond'', kb_kernel = ''TrimAndRespond'', kb_inputs = [(''requestCount'', NUMERIC), (''deviceOn'', BOOLEAN), (''hold'', BOOLEAN)], kb_outputs = [(''out'', NUMERIC)],
     kb_params = [Param ''initialSetpoint'' ''initialSetpoint'' Double (None),
       Param ''minimumSetpoint'' ''minimumSetpoint'' Double (None),
       Param ''maximumSetpoint'' ''maximumSetpoint'' Double (None),
       Param ''delaySeconds'' ''delayTime'' Seconds (None),
       Param ''samplePeriodSeconds'' ''samplePeriod'' Seconds (None),
       Param ''ignoredRequests'' ''ignoredRequests'' Double (None),
       Param ''trimAmount'' ''trimAmount'' Double (None),
       Param ''respondAmount'' ''respondAmount'' Double (None),
       Param ''maximumResponse'' ''maximumResponse'' Double (None),
       Param ''holdEnabled'' ''holdEnabled'' Truth (Some (PBool False)),
       Param ''holdDurationSeconds'' ''holdDuration'' Seconds (Some (PFloat (Fin 0)))],
     kb_source_at_start = False, kb_resample = True\<rparr>,
    \<lparr>kb_component = ''BooleanInitialization'', kb_kernel = ''BooleanInitialization'', kb_inputs = [(''in'', BOOLEAN)], kb_outputs = [(''out'', BOOLEAN)],
     kb_params = [Param ''initial'' ''initialValue'' Truth (Some (PBool False))],
     kb_source_at_start = True, kb_resample = False\<rparr>,
    \<lparr>kb_component = ''NumericChange'', kb_kernel = ''NumericChange'', kb_inputs = [(''in'', NUMERIC)], kb_outputs = [(''out'', BOOLEAN)],
     kb_params = [Param ''mode'' ''mode'' Words (Some (PStr ''changed'')),
       Param ''initial'' ''initialValue'' Double (Some (PFloat (Fin 0)))],
     kb_source_at_start = False, kb_resample = False\<rparr>,
    \<lparr>kb_component = ''RisingEdge'', kb_kernel = ''RisingEdge'', kb_inputs = [(''in'', BOOLEAN)], kb_outputs = [(''out'', BOOLEAN)],
     kb_params = [Param ''initial'' ''initialValue'' Truth (Some (PBool False))],
     kb_source_at_start = False, kb_resample = False\<rparr>,
    \<lparr>kb_component = ''FallingEdge'', kb_kernel = ''FallingEdge'', kb_inputs = [(''in'', BOOLEAN)], kb_outputs = [(''out'', BOOLEAN)],
     kb_params = [Param ''initial'' ''initialValue'' Truth (Some (PBool False))],
     kb_source_at_start = False, kb_resample = False\<rparr>,
    \<lparr>kb_component = ''SetReset'', kb_kernel = ''SetReset'', kb_inputs = [(''set'', BOOLEAN), (''clear'', BOOLEAN)], kb_outputs = [(''out'', BOOLEAN)],
     kb_params = [],
     kb_source_at_start = False, kb_resample = False\<rparr>,
    \<lparr>kb_component = ''Sampler'', kb_kernel = ''Sampler'', kb_inputs = [(''in'', NUMERIC)], kb_outputs = [(''out'', NUMERIC)],
     kb_params = [Param ''samplePeriodSeconds'' ''samplePeriod'' Seconds (None)],
     kb_source_at_start = False, kb_resample = True\<rparr>,
    \<lparr>kb_component = ''SampleTrigger'', kb_kernel = ''SampleTrigger'', kb_inputs = [], kb_outputs = [(''out'', BOOLEAN)],
     kb_params = [Param ''periodSeconds'' ''period'' Seconds (None),
       Param ''shiftSeconds'' ''shift'' Seconds (Some (PFloat (Fin 0)))],
     kb_source_at_start = True, kb_resample = False\<rparr>,
    \<lparr>kb_component = ''Hysteresis'', kb_kernel = ''Hysteresis'', kb_inputs = [(''in'', NUMERIC)], kb_outputs = [(''out'', BOOLEAN)],
     kb_params = [Param ''uLow'' ''uLow'' Double (None),
       Param ''uHigh'' ''uHigh'' Double (None),
       Param ''initial'' ''initialValue'' Truth (Some (PBool False))],
     kb_source_at_start = False, kb_resample = False\<rparr>]"

definition kernel_bindings :: "kernel_binding list" where
  "kernel_bindings = first_kernel_bindings @ other_kernel_bindings"

definition binding_of :: "string \<Rightarrow> kernel_binding option" where
  "binding_of component = find (\<lambda>b. kb_component b = component) kernel_bindings"

text \<open>A parameter of a loaded component: durations are read back from milliseconds.\<close>

definition read_param :: "pyval dict \<Rightarrow> kernel_param \<Rightarrow> (string \<times> pyval) result" where
  "read_param props p = mapE (Pair (kp_name p)) (case map_of props (kp_property p) of
       None \<Rightarrow> (case kp_default p of None \<Rightarrow> Inl (ValueError (''component lacks the required property '' @ kp_property p))
                | Some v \<Rightarrow> Inr v)
     | Some raw \<Rightarrow> (case kp_encoding p of
           Seconds \<Rightarrow> bindE (py_float raw) (\<lambda>x. mapE PFloat (fdiv x (Fin 1000)))
         | Double \<Rightarrow> mapE PFloat (py_float raw)
         | Truth \<Rightarrow> Inr (PBool (raw = PBool True))
         | _ \<Rightarrow> Inr raw))"

definition configure_kernel :: "kernel_binding \<Rightarrow> pyval dict \<Rightarrow> port result" where
  "configure_kernel b props = bindE (traverseE (read_param props) (kb_params b)) (build_kernel (kb_kernel b))"

text \<open>From a block's configuration to the kernel that runs it in a compiled program.\<close>

definition module_port :: "block_kind \<Rightarrow> config \<Rightarrow> port result" where
  "module_port k c = (case component_of k of
       None \<Rightarrow> Inl (KeyError (kind_value k))
     | Some m \<Rightarrow> bindE (emit_component k c m) (\<lambda>props.
         case binding_of (cm_name m) of
           None \<Rightarrow> Inl (KeyError (cm_name m))
         | Some b \<Rightarrow> configure_kernel b props))"

text \<open>\<open>classify_block\<close> in \<open>niagara/lowering.py\<close> sends a Boolean delay to the module only when it
  passes an initially true input through; the other kinds of the tables always go there.\<close>

definition lowered_to_module :: "block_kind \<Rightarrow> config \<Rightarrow> bool" where
  "lowered_to_module k c \<longleftrightarrow> component_of k \<noteq> None
     \<and> (k = BOOLEAN_DELAY \<longrightarrow> \<not> truthy (cfg_get c ''delay_on_init'' (PBool True)))"

end
