(* ===== verification/ShadowAgrees.thy ===== *)
theory ShadowAgrees
  imports ShadowModules Interp
begin

text \<open>
  The kernels of the shadow runtime against the blocks of the interpreter.  A locale states
  what a kernel and a block must keep of each other over one scan of a clock of whole
  seconds; the runs of both then give the same outputs.  Every kind whose kernel follows its
  block interprets it, and the parameters that reach the kernel are traced from the block's
  configuration through the emitted component.
\<close>

section \<open>Clocks of whole seconds\<close>

definition secs :: "nat \<Rightarrow> pyfloat" where
  "secs n = Fin (of_nat n)"

text \<open>Whole seconds below \<open>horizon\<close> are exact floats, and so are their sums.\<close>

definition horizon :: nat where
  "horizon = 2 ^ 52"

lemma secs_simps [simp]: "fisfinite (secs n)" "\<not> fisnan (secs n)" "fisnan (secs n) = False"
  "fless (secs m) (secs n) = (m < n)" "fle (secs m) (secs n) = (m \<le> n)" "feq (secs m) (secs n) = (m = n)"
  "secs m = secs n \<longleftrightarrow> m = n"
  by (auto simp: secs_def fle_Fin)

lemma secs_zero: "Fin 0 = secs 0" by (simp add: secs_def)

lemma rnd_secs: "m \<le> 2 ^ 53 \<Longrightarrow> rnd (of_nat m) = secs m"
  using rnd_of_int [of "int m"] by (simp add: secs_def)

lemma secs_add: "m \<le> horizon \<Longrightarrow> n \<le> horizon \<Longrightarrow> fadd (secs m) (secs n) = secs (m + n)"
  using rnd_secs [of "m + n"] by (simp add: secs_def horizon_def)

lemma secs_sub: "n \<le> m \<Longrightarrow> m \<le> 2 * horizon \<Longrightarrow> fsub (secs m) (secs n) = secs (m - n)"
proof -
  assume *: "n \<le> m" "m \<le> 2 * horizon"
  then have "of_nat m - of_nat n = (of_nat (m - n) :: rat)" by simp
  then show ?thesis
    using * rnd_secs [of "m - n"] by (cases "n = 0") (simp_all add: fsub_def secs_def horizon_def)
qed

section \<open>Runs of a block\<close>

definition wired_inputs :: "block_kind \<Rightarrow> pyval list \<Rightarrow> args" where
  "wired_inputs k vs = zip (map fst (inputs (block_slots k))) vs"

fun outcome_values :: "outcome \<Rightarrow> pyval list" where
  "outcome_values (Single v) = [v]"
| "outcome_values (Multi d) = map snd d"

fun block_run :: "block_kind \<Rightarrow> config \<Rightarrow> (clock \<times> pyval list) list \<Rightarrow> block_state option \<Rightarrow> pyval list list result" where
  "block_run k c [] s = Inr []"
| "block_run k c ((ck, vs) # scans) s =
     bindE (block_kernel k c ck (wired_inputs k vs) s) (\<lambda>(r, s').
     mapE (Cons (outcome_values r)) (block_run k c scans s'))"

text \<open>The clock of scans at the given seconds.\<close>

definition tick :: "nat \<Rightarrow> nat \<Rightarrow> clock" where
  "tick n n' = \<lparr>now = secs n', step_seconds = secs (n' - n)\<rparr>"

fun clocked :: "nat \<Rightarrow> (nat \<times> 'a) list \<Rightarrow> (clock \<times> 'a) list" where
  "clocked n [] = []"
| "clocked n ((n', x) # xs) = (tick n n', x) # clocked n' xs"

fun times_rise :: "nat \<Rightarrow> (nat \<times> 'a) list \<Rightarrow> bool" where
  "times_rise n [] = True"
| "times_rise n ((n', x) # xs) \<longleftrightarrow> n \<le> n' \<and> n' \<le> horizon \<and> times_rise n' xs"

definition exact_input :: "data_type \<Rightarrow> pyval \<Rightarrow> bool" where
  "exact_input t v \<longleftrightarrow> (case t of BOOLEAN \<Rightarrow> is_bool v | NUMERIC \<Rightarrow> (\<exists>x. v = PFloat x \<and> fisfinite x))"

definition scan_inputs_ok :: "block_kind \<Rightarrow> pyval list \<Rightarrow> bool" where
  "scan_inputs_ok k vs \<longleftrightarrow> list_all2 exact_input (map snd (inputs (block_slots k))) vs"

section \<open>The contract\<close>

locale agreeing_kernels =
  fixes kind :: block_kind
    and rel :: "config \<Rightarrow> nat \<Rightarrow> port \<Rightarrow> block_state option \<Rightarrow> bool"
  assumes agree: "rel c n p s \<Longrightarrow> n \<le> n' \<Longrightarrow> n' \<le> horizon \<Longrightarrow> scan_inputs_ok kind vs \<Longrightarrow>
    \<exists>out p' r s'. port_step p (secs n') vs = Inr (out, p')
      \<and> block_kernel kind c (tick n n') (wired_inputs kind vs) s = Inr (r, s')
      \<and> outcome_values r = out \<and> rel c n' p' s'"
begin

lemma runs_agree:
  assumes "rel c n p s" and "times_rise n scans" and "list_all (\<lambda>(_, vs). scan_inputs_ok kind vs) scans"
  shows "\<exists>outs. port_run p (map (\<lambda>(n, vs). (secs n, vs)) scans) = Inr outs
    \<and> block_run kind c (clocked n scans) s = Inr outs"
  using assms
proof (induction scans arbitrary: n p s)
  case (Cons scan scans)
  obtain n' vs where scan: "scan = (n', vs)" by (cases scan)
  obtain out p' r s' where step: "port_step p (secs n') vs = Inr (out, p')"
    "block_kernel kind c (tick n n') (wired_inputs kind vs) s = Inr (r, s')"
    "outcome_values r = out" "rel c n' p' s'"
    using agree [OF Cons.prems(1), of n' vs] Cons.prems(2,3) by (auto simp: scan)
  then show ?case
    using Cons.IH [of n' p' s'] Cons.prems(2,3) by (auto simp: scan)
qed simp

end

section \<open>Kinds without a clock\<close>

lemmas kernel_simps = lift_state_def narrow_def bool_arg_def number_arg_def dict_get_def answer_def answers_def
  tick_def wired_inputs_def num_result_def bool_result_def timer_result_def timer_answers_def

lemmas input_simps = scan_inputs_ok_def exact_input_def list_all2_Cons1 is_bool_iff

definition rising_rel :: "config \<Rightarrow> nat \<Rightarrow> port \<Rightarrow> block_state option \<Rightarrow> bool" where
  "rising_rel c n p s \<longleftrightarrow> (\<exists>b. p = RisingPort b
     \<and> (s = None \<and> b = cfg_bool c ''initial'' False \<or> s = Some (EdgeS \<lparr>edge_previous = b\<rparr>)))"

interpretation rising: agreeing_kernels ONE_SHOT rising_rel
  by unfold_locales
    (auto simp: rising_rel_def kernel_simps input_simps eval_one_shot_def port_rising_step_def)

definition falling_rel :: "config \<Rightarrow> nat \<Rightarrow> port \<Rightarrow> block_state option \<Rightarrow> bool" where
  "falling_rel c n p s \<longleftrightarrow> (\<exists>b. p = FallingPort b
     \<and> (s = None \<and> b = cfg_bool c ''pre_u_start'' False \<or> s = Some (EdgeS \<lparr>edge_previous = b\<rparr>)))"

interpretation falling: agreeing_kernels BOOLEAN_FALLING_EDGE falling_rel
  by unfold_locales
    (auto simp: falling_rel_def kernel_simps input_simps eval_falling_edge_def port_falling_step_def)

definition set_reset_rel :: "config \<Rightarrow> nat \<Rightarrow> port \<Rightarrow> block_state option \<Rightarrow> bool" where
  "set_reset_rel c n p s \<longleftrightarrow> (\<exists>a b. p = SetResetPort (a, b)
     \<and> (s = None \<and> \<not> a \<and> \<not> b \<or> s = Some (SetResetS \<lparr>sr_out = a, sr_previous_set = b\<rparr>)))"

interpretation set_reset: agreeing_kernels BOOLEAN_SET_RESET set_reset_rel
  by unfold_locales
    (auto simp: set_reset_rel_def kernel_simps input_simps eval_set_reset_def port_set_reset_step_def Let_def)

definition initialization_rel :: "config \<Rightarrow> nat \<Rightarrow> port \<Rightarrow> block_state option \<Rightarrow> bool" where
  "initialization_rel c n p s \<longleftrightarrow> (\<exists>fresh. p = InitializationPort (cfg_bool c ''initial'' False) fresh
     \<and> (if fresh then s = None else s = Some (InitS \<lparr>initialized = True\<rparr>)))"

interpretation initialization: agreeing_kernels BOOLEAN_INITIALIZATION initialization_rel
  by unfold_locales
    (auto simp: initialization_rel_def kernel_simps input_simps eval_initialization_def port_initialization_step_def
      split: if_splits)

definition hysteresis_rel :: "config \<Rightarrow> nat \<Rightarrow> port \<Rightarrow> block_state option \<Rightarrow> bool" where
  "hysteresis_rel c n p s \<longleftrightarrow> (\<exists>low high b. p = HysteresisPort low high b
     \<and> cfg_float_req c ''u_low'' = Inr low \<and> cfg_float_req c ''u_high'' = Inr high
     \<and> (s = None \<and> b = cfg_bool c ''initial'' False \<or> s = Some (HysteresisS \<lparr>hys_out = b\<rparr>)))"

interpretation hysteresis: agreeing_kernels HYSTERESIS hysteresis_rel
  by unfold_locales
    (auto simp: hysteresis_rel_def kernel_simps input_simps eval_hysteresis_def port_hysteresis_step_def Let_def)

definition change_mode_of :: "block_kind \<Rightarrow> change_mode" where
  "change_mode_of k = (if k = NUMERIC_INCREASED then Increased else if k = NUMERIC_DECREASED then Decreased else Changed)"

definition change_rel :: "block_kind \<Rightarrow> config \<Rightarrow> nat \<Rightarrow> port \<Rightarrow> block_state option \<Rightarrow> bool" where
  "change_rel k c n p s \<longleftrightarrow> (\<exists>x i. p = ChangePort (change_mode_of k) x \<and> cfg_float c ''initial'' (Fin 0) = Inr i
     \<and> (s = None \<and> x = i \<or> s = Some (ChangeS \<lparr>change_previous = x\<rparr>)))"

lemmas change_defs = change_rel_def change_mode_of_def eval_change_def port_change_step_def value_changed_def
  value_increased_def value_decreased_def

interpretation changed: agreeing_kernels NUMERIC_CHANGED "change_rel NUMERIC_CHANGED"
  by unfold_locales (auto simp: change_defs kernel_simps input_simps)

interpretation increased: agreeing_kernels NUMERIC_INCREASED "change_rel NUMERIC_INCREASED"
  by unfold_locales (auto simp: change_defs kernel_simps input_simps)

interpretation decreased: agreeing_kernels NUMERIC_DECREASED "change_rel NUMERIC_DECREASED"
  by unfold_locales (auto simp: change_defs kernel_simps input_simps)

section \<open>Timers\<close>

lemmas port_defs = checked_step_def all_finite_def raise_if_def Let_def

definition timer_rel :: "config \<Rightarrow> nat \<Rightarrow> port \<Rightarrow> block_state option \<Rightarrow> bool" where
  "timer_rel c n p s \<longleftrightarrow> (\<exists>th. cfg_float c ''threshold_seconds'' (Fin 0) = Inr th
     \<and> (p = TimerPort th (port_timer_reset th) \<and> s = None
        \<or> (\<exists>q. p = TimerPort th q \<and> pt_initialized q \<and> pt_previous_time q = secs n
             \<and> s = Some (TimerS \<lparr>tm_entry_time = pt_entry_time q, tm_first_tick = False,
                  tm_previous_in = pt_previous_input q, tm_passed = pt_passed q\<rparr>))))"

interpretation timer: agreeing_kernels TIMER timer_rel
proof
  fix c n p s n' vs
  assume *: "timer_rel c n p s" "n \<le> n'" "n' \<le> horizon" "scan_inputs_ok TIMER vs"
  obtain v where vs: "vs = [PBool v]" using *(4) by (auto simp: input_simps)
  obtain th where th: "cfg_float c ''threshold_seconds'' (Fin 0) = Inr th" using *(1) by (auto simp: timer_rel_def)
  show "\<exists>out p' r s'. port_step p (secs n') vs = Inr (out, p')
      \<and> block_kernel TIMER c (tick n n') (wired_inputs TIMER vs) s = Inr (r, s')
      \<and> outcome_values r = out \<and> timer_rel c n' p' s'"
    using *(1,2) unfolding vs
    by (cases v) (auto simp: timer_rel_def th kernel_simps port_defs eval_timer_def port_timer_step_def
        port_timer_reset_def)
qed

definition reset_timer_rel :: "config \<Rightarrow> nat \<Rightarrow> port \<Rightarrow> block_state option \<Rightarrow> bool" where
  "reset_timer_rel c n p s \<longleftrightarrow> (\<exists>th. cfg_float c ''threshold_seconds'' (Fin 0) = Inr th
     \<and> (p = ResetTimerPort th port_reset_timer_reset \<and> s = None
        \<or> (\<exists>q. p = ResetTimerPort th q \<and> pr_initialized q \<and> pr_previous_time q = secs n
             \<and> s = Some (ResetTimerS \<lparr>rt_entry_time = pr_entry_time q, rt_previous_in = pr_previous_input q,
                  rt_previous_reset = pr_previous_reset q, rt_passed = pr_passed_out q\<rparr>))))"

interpretation reset_timer: agreeing_kernels TIMER_WITH_RESET reset_timer_rel
proof
  fix c n p s n' vs
  assume *: "reset_timer_rel c n p s" "n \<le> n'" "n' \<le> horizon" "scan_inputs_ok TIMER_WITH_RESET vs"
  obtain v w where vs: "vs = [PBool v, PBool w]" using *(4) by (auto simp: input_simps)
  obtain th where th: "cfg_float c ''threshold_seconds'' (Fin 0) = Inr th" using *(1) by (auto simp: reset_timer_rel_def)
  show "\<exists>out p' r s'. port_step p (secs n') vs = Inr (out, p')
      \<and> block_kernel TIMER_WITH_RESET c (tick n n') (wired_inputs TIMER_WITH_RESET vs) s = Inr (r, s')
      \<and> outcome_values r = out \<and> reset_timer_rel c n' p' s'"
    using *(1,2) unfolding vs
    by (cases v; cases w) (auto simp: reset_timer_rel_def th kernel_simps port_defs eval_timer_with_reset_def
        reset_timer_scan_def port_reset_timer_step_def port_reset_timer_reset_def)
qed

definition accumulating_rel :: "config \<Rightarrow> nat \<Rightarrow> port \<Rightarrow> block_state option \<Rightarrow> bool" where
  "accumulating_rel c n p s \<longleftrightarrow> (\<exists>th. cfg_float c ''threshold_seconds'' (Fin 0) = Inr th
     \<and> (p = AccumulatingPort th (port_accumulator_reset th) \<and> s = None
        \<or> (\<exists>q. p = AccumulatingPort th q \<and> pa_initialized q \<and> pa_previous_time q = secs n
             \<and> s = Some (AccumulatingS \<lparr>ac_elapsed = pa_elapsed q, ac_previous_in = pa_previous_input q,
                  ac_previous_reset = pa_previous_reset q, ac_passed = pa_passed q\<rparr>))))"

interpretation accumulating: agreeing_kernels TIMER_ACCUMULATING accumulating_rel
proof
  fix c n p s n' vs
  assume *: "accumulating_rel c n p s" "n \<le> n'" "n' \<le> horizon" "scan_inputs_ok TIMER_ACCUMULATING vs"
  obtain v w where vs: "vs = [PBool v, PBool w]" using *(4) by (auto simp: input_simps)
  obtain th where th: "cfg_float c ''threshold_seconds'' (Fin 0) = Inr th" using *(1) by (auto simp: accumulating_rel_def)
  show "\<exists>out p' r s'. port_step p (secs n') vs = Inr (out, p')
      \<and> block_kernel TIMER_ACCUMULATING c (tick n n') (wired_inputs TIMER_ACCUMULATING vs) s = Inr (r, s')
      \<and> outcome_values r = out \<and> accumulating_rel c n' p' s'"
    using *(1,2) secs_sub [OF *(2) order.trans [OF *(3)]] unfolding vs
    by (cases v; cases w) (auto simp: accumulating_rel_def th kernel_simps port_defs eval_timer_accumulating_def
        port_accumulator_step_def port_accumulator_reset_def)
qed

definition hold_rel :: "config \<Rightarrow> nat \<Rightarrow> port \<Rightarrow> block_state option \<Rightarrow> bool" where
  "hold_rel c n p s \<longleftrightarrow> (\<exists>a b. cfg_float_req c ''true_hold_seconds'' = Inr a \<and> cfg_float_req c ''false_hold_seconds'' = Inr b
     \<and> (p = HoldPort a b port_hold_reset \<and> s = None
        \<or> (\<exists>q. p = HoldPort a b q \<and> ph_initialized q \<and> ph_previous_time q = secs n
             \<and> s = Some (HoldS \<lparr>hold_initialized = True, hold_held = ph_held q, hold_elapsed = ph_elapsed q\<rparr>))))"

interpretation hold: agreeing_kernels BOOLEAN_TRUE_FALSE_HOLD hold_rel
proof
  fix c n p s n' vs
  assume *: "hold_rel c n p s" "n \<le> n'" "n' \<le> horizon" "scan_inputs_ok BOOLEAN_TRUE_FALSE_HOLD vs"
  obtain v where vs: "vs = [PBool v]" using *(4) by (auto simp: input_simps)
  obtain a b where cfg: "cfg_float_req c ''true_hold_seconds'' = Inr a" "cfg_float_req c ''false_hold_seconds'' = Inr b"
    using *(1) by (auto simp: hold_rel_def)
  show "\<exists>out p' r s'. port_step p (secs n') vs = Inr (out, p')
      \<and> block_kernel BOOLEAN_TRUE_FALSE_HOLD c (tick n n') (wired_inputs BOOLEAN_TRUE_FALSE_HOLD vs) s = Inr (r, s')
      \<and> outcome_values r = out \<and> hold_rel c n' p' s'"
    using *(1,2) secs_sub [OF *(2) order.trans [OF *(3)]] unfolding vs
    by (cases v) (auto simp: hold_rel_def cfg kernel_simps port_defs eval_true_false_hold_def hold_key_def
        port_hold_step_def port_hold_reset_def)
qed

section \<open>The delay\<close>

text \<open>A delay of whole seconds without an off delay.  While it runs both count the same seconds.\<close>

definition delay_rel :: "config \<Rightarrow> nat \<Rightarrow> port \<Rightarrow> block_state option \<Rightarrow> bool" where
  "delay_rel c n p s \<longleftrightarrow> (\<exists>d. cfg_float c ''on_delay_seconds'' (Fin 0) = Inr (secs d)
     \<and> cfg_float c ''off_delay_seconds'' (Fin 0) = Inr (secs 0)
     \<and> \<not> cfg_bool c ''initial'' False \<and> \<not> cfg_bool c ''delay_on_init'' True
     \<and> (p = TrueDelayPort (secs d) False true_delay_reset \<and> s = None
        \<or> (\<exists>q x. p = TrueDelayPort (secs d) False q \<and> td_initialized q \<and> td_previous_time q = secs n
             \<and> s = Some (DelayS \<lparr>dl_out = td_held q, dl_pending = td_previous_input q, dl_elapsed = x, dl_first_tick = False\<rparr>)
             \<and> (td_held q \<longrightarrow> td_previous_input q)
             \<and> (\<not> td_held q \<longrightarrow> td_previous_input q \<longrightarrow> (\<exists>m \<le> n. x = secs m \<and> td_timer q = secs m)))))"

lemma delay_counts: "m \<le> n \<Longrightarrow> n + k \<le> horizon \<Longrightarrow>
    fsub (fadd (secs m) (secs (n + k))) (secs n) = secs (m + k) \<and> fadd (secs m) (secs k) = secs (m + k)"
  by (simp add: secs_add secs_sub)

interpretation delay: agreeing_kernels BOOLEAN_DELAY delay_rel
proof
  fix c n p s n' vs
  assume *: "delay_rel c n p s" "n \<le> n'" "n' \<le> horizon" "scan_inputs_ok BOOLEAN_DELAY vs"
  obtain v where vs: "vs = [PBool v]" using *(4) by (auto simp: input_simps)
  obtain d where cfg: "cfg_float c ''on_delay_seconds'' (Fin 0) = Inr (secs d)"
    "cfg_float c ''off_delay_seconds'' (Fin 0) = Inr (secs 0)" "\<not> cfg_bool c ''initial'' False"
    "\<not> cfg_bool c ''delay_on_init'' True"
    using *(1) by (auto simp: delay_rel_def)
  from *(1) [unfolded delay_rel_def] show "\<exists>out p' r s'. port_step p (secs n') vs = Inr (out, p')
      \<and> block_kernel BOOLEAN_DELAY c (tick n n') (wired_inputs BOOLEAN_DELAY vs) s = Inr (r, s')
      \<and> outcome_values r = out \<and> delay_rel c n' p' s'"
  proof (elim exE conjE disjE)
    fix d' assume "cfg_float c ''on_delay_seconds'' (Fin 0) = Inr (secs d')"
      "p = TrueDelayPort (secs d') False true_delay_reset" "s = None"
    then show ?thesis
      unfolding vs
      by (cases v) (auto simp: delay_rel_def cfg kernel_simps port_defs eval_boolean_delay_def delay_advance_def
          delay_key_def true_delay_step_def true_delay_reset_def)
  next
    fix d' q x
    assume d': "cfg_float c ''on_delay_seconds'' (Fin 0) = Inr (secs d')"
      and q: "p = TrueDelayPort (secs d') False q" "td_initialized q" "td_previous_time q = secs n"
        "s = Some (DelayS \<lparr>dl_out = td_held q, dl_pending = td_previous_input q, dl_elapsed = x, dl_first_tick = False\<rparr>)"
      and held: "td_held q \<longrightarrow> td_previous_input q"
      and counting: "\<not> td_held q \<longrightarrow> td_previous_input q \<longrightarrow> (\<exists>m \<le> n. x = secs m \<and> td_timer q = secs m)"
    note off = cfg(2) [unfolded secs_zero]
    note defs = delay_rel_def off cfg(3,4) kernel_simps port_defs eval_boolean_delay_def delay_advance_def delay_key_def
      true_delay_step_def secs_zero
    show ?thesis
    proof (cases "v \<and> \<not> td_held q \<and> td_previous_input q")
      case True
      then obtain m where m: "m \<le> n" "x = secs m" "td_timer q = secs m" using counting by blast
      obtain k where k: "n' = n + k" using *(2) le_Suc_ex by blast
      have counts: "fsub (fadd (secs m) (secs (n + k))) (secs n) = secs (m + k)" "fadd (secs m) (secs k) = secs (m + k)"
        using delay_counts [OF m(1), of k] *(3) by (simp_all add: k)
      show ?thesis
        using d' q True m(1) unfolding vs k by (auto simp: defs m(2,3) counts)
    next
      case False
      then show ?thesis
        using d' q held *(2) unfolding vs by (cases v; cases "td_held q") (auto simp: defs)
    qed
  qed
qed

end
