(* ===== verification/ShadowLowering.thy ===== *)
theory ShadowLowering
  imports ShadowAgrees
begin

text \<open>
  The lowering of timer, edge and threshold blocks to module components, from the block's
  configuration to the outputs of a run: which kinds keep the interpreter's behaviour, and
  the delay that does not.
\<close>

section \<open>Durations survive the component's text\<close>

text \<open>A configured duration is absent or a whole number of seconds.\<close>

definition duration_ok :: "config \<Rightarrow> string \<Rightarrow> bool" where
  "duration_ok c key \<longleftrightarrow> (case map_of c key of None \<Rightarrow> True | Some v \<Rightarrow> (\<exists>n \<le> 2 ^ 42. py_float v = Inr (secs n)))"

lemma secs_times_thousand: "n \<le> 2 ^ 42 \<Longrightarrow> fmul (secs n) (Fin 1000) = secs (1000 * n)"
  using rnd_secs [of "1000 * n"] by (cases "n = 0") (auto simp: secs_def fmul_def zero_of_sign_def mult.commute)

lemma millis_secs: "py_float v = Inr (secs n) \<Longrightarrow> n \<le> 2 ^ 42 \<Longrightarrow> millis v = Inr (int (1000 * n))"
  using round_even_of_int [of "int (1000 * n)"] by (simp add: millis_def secs_times_thousand) (simp add: secs_def)

lemma float_of_millis: "n \<le> 2 ^ 42 \<Longrightarrow> float_of_int (int (1000 * n)) = Inr (secs (1000 * n))"
  using rnd_secs [of "1000 * n"] by (simp add: float_of_int_def)

lemma secs_from_millis: "n \<le> 2 ^ 42 \<Longrightarrow> fdiv (secs (1000 * n)) (Fin 1000) = Inr (secs n)"
  using rnd_secs [of n] by (cases "n = 0") (auto simp: secs_def fdiv_def zero_of_sign_def)

lemma emitted_duration:
  assumes "emit_property k c (Bind prop key Seconds d) = Inr x" and "duration_ok c key"
    and "d = None \<or> d = Some (PFloat (Fin 0))"
  obtains n where "x = (prop, PInt (int (1000 * n)))" "n \<le> 2 ^ 42" "cfg_float c key (Fin 0) = Inr (secs n)"
    "d = None \<Longrightarrow> cfg_float_req c key = Inr (secs n)"
proof (cases "map_of c key")
  case None
  have "py_float (PFloat (Fin 0)) = Inr (secs 0)" by (simp add: secs_def)
  from millis_secs [OF this] show thesis
    using assms(1,3) None
    by (intro that [of 0]) (auto simp: emit_property_def cfg_float_def cfg_get_def secs_zero)
next
  case (Some v)
  then obtain n where n: "n \<le> 2 ^ 42" "py_float v = Inr (secs n)" using assms(2) by (auto simp: duration_ok_def)
  moreover have "v \<noteq> PNone" using n(2) by auto
  ultimately show thesis
    using assms(1) Some millis_secs [OF n(2,1)]
    by (intro that [of n]) (auto simp: emit_property_def cfg_float_def cfg_get_def cfg_float_req_def dict_get_def
        split: pyval.splits)
qed

lemma read_duration: "map_of props prop = Some (PInt (int (1000 * n))) \<Longrightarrow> n \<le> 2 ^ 42 \<Longrightarrow>
    read_param props (Param h prop Seconds d) = Inr (h, PFloat (secs n))"
  by (simp add: read_param_def float_of_millis secs_from_millis del: of_nat_mult)

lemma emitted_flag: "emit_property k c (Bind prop key Truth (Some (PBool False))) = Inr x \<Longrightarrow>
    x = (prop, PBool (cfg_bool c key False))"
  by (auto simp: emit_property_def cfg_bool_def cfg_get_def split: option.splits pyval.splits)

lemma read_flag: "map_of props prop = Some (PBool b) \<Longrightarrow> read_param props (Param h prop Truth d) = Inr (h, PBool b)"
  by (simp add: read_param_def)

lemma emitted_double: "emit_property k c (Bind prop key Double d) = Inr x \<Longrightarrow>
    \<exists>y. x = (prop, PFloat y) \<and> (d = None \<longrightarrow> cfg_float_req c key = Inr y)
      \<and> (\<forall>z. d = Some (PFloat z) \<longrightarrow> cfg_float c key z = Inr y)"
  by (auto simp: emit_property_def cfg_float_def cfg_float_req_def cfg_get_def dict_get_def mapE_eq_Inr
      split: option.splits pyval.splits)

lemma read_double: "map_of props prop = Some (PFloat y) \<Longrightarrow> read_param props (Param h prop Double d) = Inr (h, PFloat y)"
  by (simp add: read_param_def)

lemmas read_params = read_duration read_flag read_double

section \<open>The component and the kernel of each kind\<close>

lemmas table_defs = components_def timing_components_def numeric_components_def tick_components_def
  component_of_def kernel_bindings_def first_kernel_bindings_def other_kernel_bindings_def binding_of_def

lemmas port_build_defs = configure_kernel_def build_kernel_def build_threshold_def num_param_def bool_param_def text_param_def

lemmas lowering_defs = module_port_def emit_component_def bindE_eq_Inr mapE_eq_Inr table_defs

lemma rising_port: "module_port ONE_SHOT c = Inr p \<Longrightarrow> rising_rel c 0 p None"
  by (auto simp: lowering_defs dest!: emitted_flag) (simp add: port_build_defs read_params rising_rel_def)

lemma falling_port: "module_port BOOLEAN_FALLING_EDGE c = Inr p \<Longrightarrow> falling_rel c 0 p None"
  by (auto simp: lowering_defs dest!: emitted_flag) (simp add: port_build_defs read_params falling_rel_def)

lemma set_reset_port: "module_port BOOLEAN_SET_RESET c = Inr p \<Longrightarrow> set_reset_rel c 0 p None"
  by (auto simp: lowering_defs port_build_defs set_reset_rel_def)

lemma initialization_port: "module_port BOOLEAN_INITIALIZATION c = Inr p \<Longrightarrow> initialization_rel c 0 p None"
  by (auto simp: lowering_defs dest!: emitted_flag)
    (auto simp: port_build_defs read_params initialization_rel_def)

lemma hysteresis_port: "module_port HYSTERESIS c = Inr p \<Longrightarrow> hysteresis_rel c 0 p None"
  by (auto simp: lowering_defs dest!: emitted_flag emitted_double)
    (auto simp: port_build_defs read_params build_hysteresis_def hysteresis_rel_def raise_if_eq_Inr)

lemma emitted_mode: "emit_property k c (Bind prop key Fixed d) = Inr x \<Longrightarrow> change_modes k = Some m \<Longrightarrow> x = (prop, PStr m)"
  by (simp add: emit_property_def)

lemma mode_texts:
  "map_of d key = Some (PStr ''changed'') \<Longrightarrow> text_param d key f = ''CHANGED''"
  "map_of d key = Some (PStr ''increased'') \<Longrightarrow> text_param d key f = ''INCREASED''"
  "map_of d key = Some (PStr ''decreased'') \<Longrightarrow> text_param d key f = ''DECREASED''"
proof -
  have "map upper_char ''changed'' = ''CHANGED''" "map upper_char ''increased'' = ''INCREASED''"
    "map upper_char ''decreased'' = ''DECREASED''" by code_simp+
  then show "map_of d key = Some (PStr ''changed'') \<Longrightarrow> text_param d key f = ''CHANGED''"
    "map_of d key = Some (PStr ''increased'') \<Longrightarrow> text_param d key f = ''INCREASED''"
    "map_of d key = Some (PStr ''decreased'') \<Longrightarrow> text_param d key f = ''DECREASED''"
    by (simp_all add: text_param_def del: list.map)
qed

lemma change_port:
  assumes "module_port k c = Inr p" and "k \<in> {NUMERIC_CHANGED, NUMERIC_INCREASED, NUMERIC_DECREASED}"
  shows "change_rel k c 0 p None"
  using assms
  by (auto simp: lowering_defs change_modes_def dest!: emitted_mode emitted_double)
    (auto simp: configure_kernel_def build_kernel_def num_param_def read_params read_param_def build_change_def
      mode_texts Let_def change_rel_def change_mode_of_def)

lemma timer_port:
  assumes "module_port TIMER c = Inr p" and "duration_ok c ''threshold_seconds''"
  shows "timer_rel c 0 p None"
  using assms(1)
  by (auto simp: lowering_defs elim!: emitted_duration [OF _ assms(2)])
    (auto simp: port_build_defs read_params timer_rel_def)

lemma reset_timer_port:
  assumes "module_port TIMER_WITH_RESET c = Inr p" and "duration_ok c ''threshold_seconds''"
  shows "reset_timer_rel c 0 p None"
  using assms(1)
  by (auto simp: lowering_defs elim!: emitted_duration [OF _ assms(2)])
    (auto simp: port_build_defs read_params reset_timer_rel_def)

lemma accumulating_port:
  assumes "module_port TIMER_ACCUMULATING c = Inr p" and "duration_ok c ''threshold_seconds''"
  shows "accumulating_rel c 0 p None"
  using assms(1)
  by (auto simp: lowering_defs elim!: emitted_duration [OF _ assms(2)])
    (auto simp: port_build_defs read_params accumulating_rel_def)

lemma hold_port:
  assumes "module_port BOOLEAN_TRUE_FALSE_HOLD c = Inr p" and "duration_ok c ''true_hold_seconds''"
    and "duration_ok c ''false_hold_seconds''"
  shows "hold_rel c 0 p None"
  using assms(1)
  by (auto simp: lowering_defs elim!: emitted_duration [OF _ assms(2)] emitted_duration [OF _ assms(3)])
    (auto simp: port_build_defs build_hold_def read_params hold_rel_def)

lemma delay_port:
  assumes "module_port BOOLEAN_DELAY c = Inr p" and "duration_ok c ''on_delay_seconds''"
    and "cfg_float c ''off_delay_seconds'' (Fin 0) = Inr (Fin 0)" and "\<not> cfg_bool c ''initial'' False"
    and "\<not> truthy (cfg_get c ''delay_on_init'' (PBool True))"
  shows "delay_rel c 0 p None"
proof -
  have "\<not> cfg_bool c ''delay_on_init'' False" "\<not> cfg_bool c ''delay_on_init'' True"
    using assms(5) by (auto simp: cfg_bool_def cfg_get_def split: option.splits)
  then show ?thesis
    using assms(1,3,4)
    by (auto simp: lowering_defs dest!: emitted_flag elim!: emitted_duration [OF _ assms(2)])
      (auto simp: port_build_defs build_true_delay_def read_params delay_rel_def secs_zero)
qed

section \<open>The interpreter and the compiled program agree\<close>

definition duration_keys :: "block_kind \<Rightarrow> string list" where
  "duration_keys k =
     (if k \<in> {TIMER, TIMER_WITH_RESET, TIMER_ACCUMULATING} then [''threshold_seconds'']
      else if k = BOOLEAN_TRUE_FALSE_HOLD then [''true_hold_seconds'', ''false_hold_seconds'']
      else if k = BOOLEAN_DELAY then [''on_delay_seconds''] else [])"

definition agreeing_kinds :: "block_kind list" where
  "agreeing_kinds = [ONE_SHOT, BOOLEAN_FALLING_EDGE, BOOLEAN_SET_RESET, BOOLEAN_INITIALIZATION, HYSTERESIS,
     NUMERIC_CHANGED, NUMERIC_INCREASED, NUMERIC_DECREASED, TIMER, TIMER_WITH_RESET, TIMER_ACCUMULATING,
     BOOLEAN_TRUE_FALSE_HOLD, BOOLEAN_DELAY]"

text \<open>Durations are whole seconds; a delay has no off delay and starts false.\<close>

definition agreeing_config :: "block_kind \<Rightarrow> config \<Rightarrow> bool" where
  "agreeing_config k c \<longleftrightarrow> list_all (duration_ok c) (duration_keys k)
     \<and> (k = BOOLEAN_DELAY \<longrightarrow> cfg_float c ''off_delay_seconds'' (Fin 0) = Inr (Fin 0) \<and> \<not> cfg_bool c ''initial'' False)"

text \<open>The kernel's arguments are the slots of the block in the block's order.\<close>

lemma kernel_inputs_in_order:
  "list_all (\<lambda>k. case component_of k of None \<Rightarrow> False | Some m \<Rightarrow> (case binding_of (cm_name m) of None \<Rightarrow> False
     | Some b \<Rightarrow> kb_inputs b = map (\<lambda>(slot, t). (the (map_of (cm_inputs m) slot), t)) (inputs (block_slots k)))) agreeing_kinds"
  by (simp add: agreeing_kinds_def table_defs)

text \<open>C32: a compiled program runs timers, edges, latches, holds, thresholds and on-delays as the
  interpreter does: for each of these kinds, when the configured durations are whole seconds (at
  most 2 to the power 42), and a Boolean delay has no off delay and starts false, the kernel that
  the emitted component of the block configures gives, on every run with finite inputs over a
  clock of whole seconds up to 2 to the power 52, exactly the outputs of the interpreter's block,
  neither of them failing.  (For a delay with an off delay the two differ, as the next property
  shows.)\<close>

theorem compiled_kernels_agree:
  assumes "k \<in> set agreeing_kinds" and "lowered_to_module k c" and "agreeing_config k c" and "module_port k c = Inr p"
    and "times_rise 0 scans" and "list_all (\<lambda>(_, vs). scan_inputs_ok k vs) scans"
  shows "\<exists>outs. port_run p (map (\<lambda>(n, vs). (secs n, vs)) scans) = Inr outs
    \<and> block_run k c (clocked 0 scans) None = Inr outs"
proof -
  note port = assms(4) and run = assms(5,6)
  consider "k = ONE_SHOT" | "k = BOOLEAN_FALLING_EDGE" | "k = BOOLEAN_SET_RESET" | "k = BOOLEAN_INITIALIZATION"
    | "k = HYSTERESIS" | "k = NUMERIC_CHANGED" | "k = NUMERIC_INCREASED" | "k = NUMERIC_DECREASED" | "k = TIMER"
    | "k = TIMER_WITH_RESET" | "k = TIMER_ACCUMULATING" | "k = BOOLEAN_TRUE_FALSE_HOLD" | "k = BOOLEAN_DELAY"
    using assms(1) by (auto simp: agreeing_kinds_def)
  then show ?thesis
  proof cases
    case 1 then show ?thesis using rising.runs_agree [OF rising_port] port run by simp
  next
    case 2 then show ?thesis using falling.runs_agree [OF falling_port] port run by simp
  next
    case 3 then show ?thesis using set_reset.runs_agree [OF set_reset_port] port run by simp
  next
    case 4 then show ?thesis using initialization.runs_agree [OF initialization_port] port run by simp
  next
    case 5 then show ?thesis using hysteresis.runs_agree [OF hysteresis_port] port run by simp
  next
    case 6 then show ?thesis using changed.runs_agree [OF change_port] port run by simp
  next
    case 7 then show ?thesis using increased.runs_agree [OF change_port] port run by simp
  next
    case 8 then show ?thesis using decreased.runs_agree [OF change_port] port run by simp
  next
    case 9 then show ?thesis
      using timer.runs_agree [OF timer_port] port run assms(3) by (simp add: agreeing_config_def duration_keys_def)
  next
    case 10 then show ?thesis
      using reset_timer.runs_agree [OF reset_timer_port] port run assms(3) by (simp add: agreeing_config_def duration_keys_def)
  next
    case 11 then show ?thesis
      using accumulating.runs_agree [OF accumulating_port] port run assms(3) by (simp add: agreeing_config_def duration_keys_def)
  next
    case 12 then show ?thesis
      using hold.runs_agree [OF hold_port] port run assms(3) by (simp add: agreeing_config_def duration_keys_def)
  next
    case 13 then show ?thesis
      using delay.runs_agree [OF delay_port] port run assms(2,3)
      by (simp add: agreeing_config_def duration_keys_def lowered_to_module_def)
  qed
qed

lemma threshold_five: "py_float (PInt 5) = Inr (secs 5)"
  by (simp add: float_of_int_def secs_def)

lemma timer_five: "module_port TIMER [(''threshold_seconds'', PInt 5)] = Inr (TimerPort (secs 5) (port_timer_reset (secs 5)))"
  using millis_secs [OF threshold_five] float_of_millis [of 5] secs_from_millis [of 5]
  by (simp add: module_port_def emit_component_def table_defs emit_property_def read_param_def port_build_defs)

lemma compiled_kernels_agree_witness:
  "\<exists>outs. port_run (TimerPort (secs 5) (port_timer_reset (secs 5)))
       (map (\<lambda>(n, vs). (secs n, vs)) [(1, [PBool True]), (6, [PBool True])]) = Inr outs
    \<and> block_run TIMER [(''threshold_seconds'', PInt 5)] (clocked 0 [(1, [PBool True]), (6, [PBool True])]) None = Inr outs"
proof (rule compiled_kernels_agree [OF _ _ _ timer_five])
  show "agreeing_config TIMER [(''threshold_seconds'', PInt 5)]"
    using threshold_five by (auto simp: agreeing_config_def duration_keys_def duration_ok_def intro!: exI [of _ 5])
qed (auto simp: agreeing_kinds_def lowered_to_module_def table_defs horizon_def input_simps)

section \<open>The off delay that is lost\<close>

definition slow_release :: config where
  "slow_release = [(''on_delay_seconds'', PInt 0), (''off_delay_seconds'', PInt 30), (''delay_on_init'', PBool False)]"

text \<open>C33: a delay that passes an initially true input through loses its off delay when it is
  compiled: the emitted component carries only the on delay, so a validated block with an off
  delay of thirty seconds, whose output the interpreter holds after the input drops, releases
  at once in the compiled program.\<close>

theorem compiled_delay_drops_off_delay:
  "check_boolean_delay slow_release = Inr () \<and> lowered_to_module BOOLEAN_DELAY slow_release
    \<and> (\<exists>p. module_port BOOLEAN_DELAY slow_release = Inr p
         \<and> port_run p [(secs 1, [PBool True]), (secs 2, [PBool False])] = Inr [[PBool True], [PBool False]])
    \<and> block_run BOOLEAN_DELAY slow_release (clocked 0 [(1, [PBool True]), (2, [PBool False])]) None
        = Inr [[PBool True], [PBool True]]"
proof (intro conjI exI)
  have zero: "py_float (PInt 0) = Inr (secs 0)" and thirty: "py_float (PInt 30) = Inr (secs 30)"
    by (simp_all add: float_of_int_def secs_def)
  show "check_boolean_delay slow_release = Inr ()"
    by (simp add: check_boolean_delay_def slow_release_def checks_def need_def cfg_get_def Let_def raise_if_def okE_def lit_0_def)
  show "lowered_to_module BOOLEAN_DELAY slow_release"
    by (simp add: lowered_to_module_def table_defs slow_release_def cfg_get_def)
  show "module_port BOOLEAN_DELAY slow_release = Inr (TrueDelayPort (secs 0) False true_delay_reset)"
    using millis_secs [OF zero] float_of_millis [of 0] secs_from_millis [of 0]
    by (simp add: module_port_def emit_component_def table_defs emit_property_def read_param_def port_build_defs
        build_true_delay_def slow_release_def secs_zero)
  show "port_run (TrueDelayPort (secs 0) False true_delay_reset) [(secs 1, [PBool True]), (secs 2, [PBool False])]
      = Inr [[PBool True], [PBool False]]"
    by (simp add: bool_result_def true_delay_step_def true_delay_reset_def port_defs)
  show "block_run BOOLEAN_DELAY slow_release (clocked 0 [(1, [PBool True]), (2, [PBool False])]) None
      = Inr [[PBool True], [PBool True]]"
    using zero thirty
    by (simp add: kernel_simps eval_boolean_delay_def slow_release_def cfg_bool_def cfg_get_def cfg_float_def
        delay_advance_def delay_key_def Let_def secs_zero)
qed

end
