(* ===== verification/ShadowResample.thy ===== *)
theory ShadowResample
  imports ShadowPorts
begin

text \<open>
  Kernels that recompute an instant: a component of the shadow runtime may step several times
  at one instant of the clock, and its kernel must then answer and remember as if only the
  last step had happened.
\<close>

lemma finite_not_nan: "fisfinite x \<Longrightarrow> \<not> fisnan x"
  by (cases x) auto

section \<open>The PID controller\<close>

text \<open>States that share everything a new step at the same instant reads.\<close>

definition same_base :: "pid_port \<Rightarrow> pid_port_state \<Rightarrow> pid_port_state \<Rightarrow> bool" where
  "same_base p s s' \<longleftrightarrow> ps_base_integral s' = ps_base_integral s \<and> ps_base_derivative s' = ps_base_derivative s
     \<and> ps_base_trigger s' = ps_base_trigger s \<and> ps_base_time s' = ps_base_time s
     \<and> (\<not> pk_integral p \<longrightarrow> ps_pending_integral s' = ps_pending_integral s \<and> ps_pending_trigger s' = ps_pending_trigger s)"

lemma same_base_refl: "same_base p s s" by (simp add: same_base_def)

lemma stage_integral_base: "pid_stage_integral p g e pd i u y dt s = Inr s1 \<Longrightarrow>
    same_base p s s1 \<and> ps_pending_derivative s1 = ps_pending_derivative s \<and> ps_first_instant s1 = ps_first_instant s"
  by (auto simp: pid_stage_integral_def same_base_def mapE_eq_Inr split: if_splits)

lemma stage_derivative_base: "pid_stage_derivative p initial st dg dt e h s = Inr s1 \<Longrightarrow>
    same_base p s s1 \<and> ps_first_instant s1 = ps_first_instant s
      \<and> (\<not> pk_derivative p \<longrightarrow> ps_pending_derivative s1 = (if initial then ps_pending_derivative s else ps_base_derivative s))"
  by (auto simp: pid_stage_derivative_def same_base_def mapE_eq_Inr split: if_splits)

lemma pid_step_base:
  assumes "pid_port_step p t a b c s0 = Inr (y, s1)"
  shows "same_base p (pid_commit t s0) s1" and "ps_last_time s1 = t" and "fisfinite t"
    and "ps_first_instant s1 = (if fisnan (ps_last_time s0) then t else ps_first_instant (pid_commit t s0))"
    and "\<not> pk_derivative p \<Longrightarrow> ps_pending_derivative s1 = (if fisnan (ps_last_time s0) \<or> fisnan (ps_base_time (pid_commit t s0))
           then ps_pending_derivative (pid_commit t s0) else ps_base_derivative (pid_commit t s0))"
    and "fisnan (ps_last_time s0) \<or> \<not> fless t (ps_last_time s0)"
proof -
  obtain g e pd i u h initial st dg dt e' h' s2 s3 where
    s2: "pid_stage_integral p g e pd i u y h (pid_commit t s0) = Inr s2"
    and s3: "pid_stage_derivative p (fisnan (ps_last_time s0) \<or> fisnan (ps_base_time (pid_commit t s0))) st dg dt e' h' s2 = Inr s3"
    and s1: "s1 = pid_stamp t (fisnan (ps_last_time s0)) s3"
    and t: "fisfinite t" "fisnan (ps_last_time s0) \<or> \<not> fless t (ps_last_time s0)"
    using assms unfolding pid_port_step_def checked_step_def all_finite_def Let_def raise_if_eq_Inr bindE_eq_Inr
    by auto
  show "fisfinite t" "fisnan (ps_last_time s0) \<or> \<not> fless t (ps_last_time s0)" by (rule t)+
  show "same_base p (pid_commit t s0) s1" "ps_last_time s1 = t"
    "ps_first_instant s1 = (if fisnan (ps_last_time s0) then t else ps_first_instant (pid_commit t s0))"
    "\<not> pk_derivative p \<Longrightarrow> ps_pending_derivative s1 = (if fisnan (ps_last_time s0) \<or> fisnan (ps_base_time (pid_commit t s0))
           then ps_pending_derivative (pid_commit t s0) else ps_base_derivative (pid_commit t s0))"
    using stage_integral_base [OF s2] stage_derivative_base [OF s3]
    by (auto simp: s1 pid_stamp_def same_base_def)
qed

text \<open>A controller without a derivative never moves its derivative state; here only before the
  first step.\<close>

definition pid_fresh_ok :: "pid_port_state \<Rightarrow> bool" where
  "pid_fresh_ok s \<longleftrightarrow> (fisnan (ps_last_time s) \<longrightarrow> ps_pending_derivative s = ps_base_derivative s)"

lemma commit_same: "ps_last_time s = t \<Longrightarrow> fisfinite t \<Longrightarrow> pid_commit t s = s"
  by (auto simp: pid_commit_def finite_not_nan)

lemma commit_first: "fisnan (ps_last_time s) \<Longrightarrow> pid_commit t s = s\<lparr>ps_base_time := t\<rparr>"
  by (simp add: pid_commit_def)

lemma stamp_eq:
  assumes "ps_base_integral s' = ps_base_integral s" "ps_base_derivative s' = ps_base_derivative s"
    "ps_base_trigger s' = ps_base_trigger s" "ps_base_time s' = ps_base_time s"
    "ps_pending_integral s' = ps_pending_integral s" "ps_pending_trigger s' = ps_pending_trigger s"
    "ps_pending_derivative s' = ps_pending_derivative s"
    "ps_first_instant s' = (if first_tick then t else ps_first_instant s)"
  shows "pid_stamp t False s' = pid_stamp t first_tick s"
  using assms by (intro pid_port_state.equality) (simp_all add: pid_stamp_def)

lemma stamp_eqI:
  assumes "same_base p s s1" and "ps_first_instant s1 = (if first_tick then t else ps_first_instant s)"
    and "\<not> pk_derivative p \<Longrightarrow>
      (if initial1 then ps_pending_derivative s1 else ps_base_derivative s1)
      = (if initial then ps_pending_derivative s else ps_base_derivative s)"
  shows "pid_stamp t False (s1\<lparr>ps_pending_integral := x, ps_pending_trigger := z, ps_pending_derivative := w\<rparr>)
      = pid_stamp t first_tick (s\<lparr>ps_pending_integral := x, ps_pending_trigger := z, ps_pending_derivative := w\<rparr>)"
    and "\<not> pk_integral p \<Longrightarrow> pid_stamp t False (s1\<lparr>ps_pending_derivative := w\<rparr>)
      = pid_stamp t first_tick (s\<lparr>ps_pending_derivative := w\<rparr>)"
  subgoal by (rule stamp_eq) (use assms in \<open>simp_all add: same_base_def\<close>)
  subgoal by (rule stamp_eq) (use assms in \<open>simp_all add: same_base_def\<close>)
  done

lemma finish_same:
  assumes base: "same_base p s s1" and last: "ps_last_time s1 = t"
    and first: "ps_first_instant s1 = (if first_tick then t else ps_first_instant s)"
    and pending: "\<not> pk_derivative p \<Longrightarrow>
      (if initial1 then ps_pending_derivative s1 else ps_base_derivative s1)
      = (if initial then ps_pending_derivative s else ps_base_derivative s)"
  shows "bindE (pid_stage_integral p g e pd i u y dt s1) (\<lambda>a. bindE (pid_stage_derivative p initial1 st dg d e dt a) (\<lambda>b.
        Inr (y, pid_stamp t False b)))
    = bindE (pid_stage_integral p g e pd i u y dt s) (\<lambda>a. bindE (pid_stage_derivative p initial st dg d e dt a) (\<lambda>b.
        Inr (y, pid_stamp t first_tick b)))"
proof -
  have int: "pid_next_integral p g e pd i u y dt s1 = pid_next_integral p g e pd i u y dt s"
    using base by (simp add: pid_next_integral_def same_base_def)
  have der: "pid_next_derivative p st dg d e dt a = pid_next_derivative p st dg d e dt b"
    if "ps_base_derivative a = ps_base_derivative b" for a b
    using that by (simp add: pid_next_derivative_def)
  have der': "pid_next_derivative p st dg d e dt (s\<lparr>ps_pending_integral := x, ps_pending_trigger := z\<rparr>)
      = pid_next_derivative p st dg d e dt s"
    "pid_next_derivative p st dg d e dt (s1\<lparr>ps_pending_integral := x, ps_pending_trigger := z\<rparr>)
      = pid_next_derivative p st dg d e dt s"
    "pid_next_derivative p st dg d e dt s1 = pid_next_derivative p st dg d e dt s" for x z
    using base by (auto intro!: der simp: same_base_def)
  have stamps:
    "pid_stamp t False (s1\<lparr>ps_pending_integral := x, ps_pending_trigger := z, ps_pending_derivative := w\<rparr>)
      = pid_stamp t first_tick (s\<lparr>ps_pending_integral := x, ps_pending_trigger := z, ps_pending_derivative := w\<rparr>)"
    "\<not> pk_integral p \<Longrightarrow> pid_stamp t False (s1\<lparr>ps_pending_derivative := w\<rparr>)
      = pid_stamp t first_tick (s\<lparr>ps_pending_derivative := w\<rparr>)" for x z w
    using stamp_eqI(1,2) [OF base first, of initial1 initial] pending by blast+
  show ?thesis
  proof (cases "pk_derivative p")
    case True
    then show ?thesis
      by (cases "pk_integral p"; cases "pid_next_integral p g e pd i u y dt s"; cases "pid_next_derivative p st dg d e dt s";
          simp add: pid_stage_integral_def pid_stage_derivative_def int der' stamps)
  next
    case False
    note facts = base [unfolded same_base_def] first pending [OF False]
    show ?thesis
      by (cases initial; cases initial1; cases "pk_integral p"; cases "pid_next_integral p g e pd i u y dt s")
        (use False facts in \<open>simp_all add: pid_stage_integral_def pid_stage_derivative_def int stamp_eq\<close>)
  qed
qed

lemma pid_resample:
  assumes step: "pid_port_step p t a b c s0 = Inr (y, s1)" and ok: "pid_fresh_ok s0"
  shows "pid_port_step p t a' b' c' s1 = pid_port_step p t a' b' c' s0"
proof -
  note B = pid_step_base [OF step]
  let ?s = "pid_commit t s0" and ?first = "fisnan (ps_last_time s0)"
  have s1: "pid_commit t s1 = s1" by (rule commit_same [OF B(2,3)])
  have last1: "\<not> fisnan (ps_last_time s1)" "\<not> fless t (ps_last_time s1)" using B(2,3) by (auto simp: finite_not_nan)
  have base: "ps_base_time s1 = ps_base_time ?s" "ps_base_integral s1 = ps_base_integral ?s"
    "ps_base_derivative s1 = ps_base_derivative ?s"
    using B(1) by (simp_all add: same_base_def)
  have start: "pid_at_start t False s1 = pid_at_start t ?first ?s"
    using base(1) B(3,4) by (auto simp: pid_at_start_def commit_first finite_not_nan feq_refl)
  have der: "pid_derivative p st dg d e s1 = pid_derivative p st dg d e ?s" for st dg d e
    by (simp add: pid_derivative_def base(3))
  have pending: "(if fisnan (ps_base_time ?s) then ps_pending_derivative s1 else ps_base_derivative s1)
      = (if ?first \<or> fisnan (ps_base_time ?s) then ps_pending_derivative ?s else ps_base_derivative ?s)"
    if "\<not> pk_derivative p"
    using B(3,5) that ok base(3) by (auto simp: commit_first pid_fresh_ok_def finite_not_nan)
  have finish: "bindE (pid_stage_integral p g e pd i u y dt s1) (\<lambda>a. bindE (pid_stage_derivative p (fisnan (ps_base_time ?s)) st dg d e dt a)
        (\<lambda>b. Inr (y, pid_stamp t False b)))
    = bindE (pid_stage_integral p g e pd i u y dt ?s) (\<lambda>a. bindE (pid_stage_derivative p (?first \<or> fisnan (ps_base_time ?s)) st dg d e dt a)
        (\<lambda>b. Inr (y, pid_stamp t ?first b)))" for g e pd i u y dt st dg d
    by (rule finish_same [OF B(1,2,4) pending])
  have mono: "(\<not> ?first \<and> fless t (ps_last_time s0)) = False" "fless t (ps_last_time s1) = False"
    "fisnan (ps_last_time s1) = False"
    using B(6) last1 by auto
  show ?thesis
    unfolding pid_port_step_def checked_step_def Let_def s1 mono base start der simp_thms if_False
    by (simp only: finish refl)
qed

lemma pid_fresh_step: "pid_port_step p t a b c s0 = Inr (y, s1) \<Longrightarrow> pid_fresh_ok s1"
  using pid_step_base(2,3) by (simp add: pid_fresh_ok_def finite_not_nan)

section \<open>The integrator and the counter\<close>

lemma finite_feq: "fisfinite t \<Longrightarrow> feq t t"
  by (cases t) simp_all

lemma integrator_resample:
  assumes "fisfinite t" and "port_integrator_step g t a b c s0 = Inr (y, s1)"
  shows "port_integrator_step g t a' b' c' s1 = port_integrator_step g t a' b' c' s0"
proof -
  obtain x where s1: "s1 = (integrator_instant t s0)\<lparr>pi_state_now := x, pi_previous_time := t, pi_previous_trigger := c\<rparr>"
    using assms(2) unfolding port_integrator_step_def Let_def sum.inject prod.inject by metis
  have "feq t (pi_instant (integrator_instant t s0))"
    using finite_feq [OF assms(1)] by (simp add: integrator_instant_def)
  then have "integrator_instant t s1 = s1" by (simp add: s1 integrator_instant_def)
  then show ?thesis by (simp add: port_integrator_step_def Let_def s1)
qed

lemma counter_resample:
  assumes "fisfinite t" and "port_counter_step i t a b s0 = Inr (y, s1)"
  shows "port_counter_step i t a' b' s1 = port_counter_step i t a' b' s0"
proof -
  obtain n where s1: "s1 = (counter_instant t s0)\<lparr>pc_count := n, pc_previous_trigger := a, pc_previous_reset := b,
      pc_history := True\<rparr>"
    using assms(2) unfolding port_counter_step_def Let_def sum.inject prod.inject by metis
  have "feq t (pc_instant (counter_instant t s0))"
    using finite_feq [OF assms(1)] by (simp add: counter_instant_def)
  then have instant: "counter_instant t s1 = s1" by (simp add: s1 counter_instant_def)
  show ?thesis unfolding port_counter_step_def Let_def instant unfolding s1 by (simp del: if_split) blast
qed

section \<open>Instances\<close>

text \<open>The classes of the shadow runtime that keep a snapshot of the instant, and the instances of
  them.\<close>

definition resampling_names :: "string set" where
  "resampling_names = {''PidWithReset'', ''IntegratorWithReset'', ''OnCounter''}"

fun resampling :: "port \<Rightarrow> bool" where
  "resampling (PidPort p s) \<longleftrightarrow> pid_fresh_ok s"
| "resampling (IntegratorPort g s) \<longleftrightarrow> True"
| "resampling (CounterPort i s) \<longleftrightarrow> True"
| "resampling _ \<longleftrightarrow> False"

lemma built_resampling: "build_kernel name d = Inr k \<Longrightarrow> name \<in> resampling_names \<Longrightarrow> resampling k"
  by (auto simp: resampling_names_def build_kernel_def build_pid_def build_integrator_def build_counter_def
      bindE_eq_Inr raise_if_eq_Inr Let_def pid_fresh_ok_def pid_port_reset_def)

lemma with_trigger_Inr: "with_trigger f ins = Inr r \<Longrightarrow>
    \<exists>x y c. ins = [PFloat x, PFloat y, PBool c] \<and> f x y c = Inr r"
  unfolding with_trigger_def bad_inputs_def by (cases ins rule: list.exhaust; simp split: pyval.splits list.splits)

lemma with_bools_Inr: "with_bools g ins = Inr r \<Longrightarrow> \<exists>x y. ins = [PBool x, PBool y] \<and> g x y = Inr r"
  unfolding with_bools_def bad_inputs_def by (cases ins rule: list.exhaust; simp split: pyval.splits list.splits)

lemma num_result_Inr: "num_result k r = Inr (out, q) \<Longrightarrow> \<exists>y s. r = Inr (y, s) \<and> q = k s"
  by (auto simp: num_result_def mapE_eq_Inr)

text \<open>One step keeps an instance resampling, and a second step at the same instant has the first
  one's start.\<close>

lemma port_resample:
  assumes "resampling k" and "fisfinite t" and "port_step k t a = Inr (out, k')"
  shows "resampling k' \<and> port_step k' t b = port_step k t b"
proof (cases k)
  case (PidPort p s)
  have "with_trigger (\<lambda>sp m b. num_result (PidPort p) (pid_port_step p t sp m b s)) a = Inr (out, k')"
    using assms(3) PidPort by simp
  from with_trigger_Inr [OF this] obtain x y c where
    "num_result (PidPort p) (pid_port_step p t x y c s) = Inr (out, k')" by blast
  from num_result_Inr [OF this] obtain z s' where k': "pid_port_step p t x y c s = Inr (z, s')" "k' = PidPort p s'" by blast
  have "pid_fresh_ok s" using assms(1) PidPort by simp
  then show ?thesis by (simp add: PidPort k'(2) pid_resample [OF k'(1)] pid_fresh_step [OF k'(1)])
next
  case (IntegratorPort g s)
  have "with_trigger (\<lambda>v r b. num_result (IntegratorPort g) (port_integrator_step g t v r b s)) a = Inr (out, k')"
    using assms(3) IntegratorPort by simp
  from with_trigger_Inr [OF this] obtain x y c where
    "num_result (IntegratorPort g) (port_integrator_step g t x y c s) = Inr (out, k')" by blast
  from num_result_Inr [OF this] obtain z s' where
    k': "port_integrator_step g t x y c s = Inr (z, s')" "k' = IntegratorPort g s'" by blast
  then show ?thesis by (simp add: IntegratorPort k'(2) integrator_resample [OF assms(2) k'(1)])
next
  case (CounterPort i s)
  have "with_bools (\<lambda>v r. num_result (CounterPort i) (port_counter_step i t v r s)) a = Inr (out, k')"
    using assms(3) CounterPort by simp
  from with_bools_Inr [OF this] obtain x y where
    "num_result (CounterPort i) (port_counter_step i t x y s) = Inr (out, k')" by blast
  from num_result_Inr [OF this] obtain z s' where
    k': "port_counter_step i t x y s = Inr (z, s')" "k' = CounterPort i s'" by blast
  then show ?thesis by (simp add: CounterPort k'(2) counter_resample [OF assms(2) k'(1)])
qed (use assms(1) in simp_all)

lemma run_resample:
  assumes "resampling k" and "fisfinite t" and "port_run k (xs @ (t, a) # (t, b) # ys) = Inr outs"
    and "\<forall>x\<in>set xs. fisfinite (fst x)"
  shows "port_run k (xs @ (t, b) # ys) = Inr (take (length xs) outs @ drop (Suc (length xs)) outs)"
  using assms
proof (induction xs arbitrary: k outs)
  case Nil
  then obtain out k' where k': "port_step k t a = Inr (out, k')" and rest: "port_run k' ((t, b) # ys) = Inr (drop 1 outs)"
    by (auto simp: bindE_eq_Inr mapE_eq_Inr)
  show ?case using rest port_resample [OF Nil(1,2) k', of b] by simp
next
  case (Cons x xs)
  then obtain out k' outs' where k': "port_step k (fst x) (snd x) = Inr (out, k')" "outs = out # outs'"
    and rest: "port_run k' (xs @ (t, a) # (t, b) # ys) = Inr outs'"
    by (cases x) (auto simp: bindE_eq_Inr mapE_eq_Inr)
  have "resampling k'" using port_resample [OF Cons.prems(1) _ k'(1)] Cons.prems(4) by simp
  from Cons.IH [OF this Cons.prems(2) rest] Cons.prems(4) k' show ?case by (cases x) simp
qed

text \<open>C34: In the shadow runtime, an instance of the PID controller, the integrator or the counter that
  the loader builds may be stepped twice at one instant without harm: for every history, every later scan and any inputs of the two
  steps, the run without the earlier of the two steps gives exactly the remaining outputs (the
  earlier step leaves no trace in the integral, the derivative, the count or the edge memories).\<close>

theorem recomputed_instant_leaves_no_trace:
  assumes "build_kernel name d = Inr k" and "name \<in> resampling_names"
    and "\<forall>x\<in>set xs. fisfinite (fst x)" and "fisfinite t"
    and "port_run k (xs @ (t, a) # (t, b) # ys) = Inr outs"
  shows "port_run k (xs @ (t, b) # ys) = Inr (take (length xs) outs @ drop (Suc (length xs)) outs)"
  by (rule run_resample [OF built_resampling [OF assms(1,2)] assms(4,5,3)])

definition counter_history :: "(pyfloat \<times> pyval list) list" where
  "counter_history = [(Fin 0, [PBool False, PBool False]), (Fin 1, [PBool True, PBool False])]"

definition counter_sequel :: "(pyfloat \<times> pyval list) list" where
  "counter_sequel = [(Fin 3, [PBool True, PBool False]), (Fin 4, [PBool True, PBool False])]"

theorem recomputed_instant_leaves_no_trace_witness:
  "case build_kernel ''OnCounter'' [] of
      Inl e \<Rightarrow> False
    | Inr k \<Rightarrow> port_run k (counter_history @ (Fin 2, [PBool True, PBool True]) # (Fin 2, [PBool False, PBool False]) # counter_sequel)
          = Inr [[PFloat (Fin 0)], [PFloat (Fin 0)], [PFloat (Fin 1)], [PFloat (Fin 1)], [PFloat (Fin 1)], [PFloat (Fin 2)]]
        \<and> port_run k (counter_history @ (Fin 2, [PBool False, PBool False]) # counter_sequel)
          = Inr [[PFloat (Fin 0)], [PFloat (Fin 0)], [PFloat (Fin 1)], [PFloat (Fin 1)], [PFloat (Fin 2)]]"
proof -
  let ?k = "CounterPort (Fin 0) (port_counter_reset (Fin 0))"
  have k: "build_kernel ''OnCounter'' [] = Inr ?k"
    by (simp add: build_kernel_def build_counter_def num_param_def raise_if_def fis_integer_def)
  have run: "port_run ?k (counter_history @ (Fin 2, [PBool True, PBool True]) # (Fin 2, [PBool False, PBool False]) # counter_sequel)
      = Inr [[PFloat (Fin 0)], [PFloat (Fin 0)], [PFloat (Fin 1)], [PFloat (Fin 1)], [PFloat (Fin 1)], [PFloat (Fin 2)]]"
    by (simp add: counter_history_def counter_sequel_def port_counter_reset_def port_counter_step_def counter_instant_def num_result_def)
  show ?thesis
    using run recomputed_instant_leaves_no_trace [OF k _ _ _ run]
    by (simp add: k resampling_names_def counter_history_def)
qed

end
