(* ===== verification/Requirements.thy ===== *)
theory Requirements
  imports Specs
begin

text \<open>
  The requirement sets of the test generation protocol
  (\<open>src/bactalk/protocol/requirements.py\<close>): points with the range the test author may
  exercise, conditions on inputs, timing, stated outcomes, and the validators that make a set
  coherent.  Texts (labels, citations, notes) carry no logic and are left out; a field of type
  \<open>float | bool\<close> is a \<open>reading\<close>.
\<close>

section \<open>Readings\<close>

datatype reading = Level pyfloat | Flag bool

fun is_flag :: "reading \<Rightarrow> bool" where
  "is_flag (Flag _) = True"
| "is_flag (Level _) = False"

text \<open>\<open>float(v)\<close>, \<open>bool(v)\<close> and \<open>a == b\<close>.\<close>

fun level_of :: "reading \<Rightarrow> pyfloat" where
  "level_of (Level x) = x"
| "level_of (Flag b) = (if b then Fin 1 else Fin 0)"

fun flag_of :: "reading \<Rightarrow> bool" where
  "flag_of (Level x) = (\<not> is_zero x)"
| "flag_of (Flag b) = b"

fun same_reading :: "reading \<Rightarrow> reading \<Rightarrow> bool" where
  "same_reading (Flag a) (Flag b) = (a = b)"
| "same_reading a b = feq (level_of a) (level_of b)"

fun reading_value :: "reading \<Rightarrow> pyval" where
  "reading_value (Level x) = PFloat x"
| "reading_value (Flag b) = PBool b"

section \<open>Points, conditions and outcomes\<close>

datatype point_direction = Incoming | Outgoing

record point_declaration =
  pd_name :: string
  pd_type :: data_type
  pd_direction :: point_direction
  pd_minimum :: "pyfloat option"
  pd_maximum :: "pyfloat option"
  pd_nominal :: reading
  pd_resolution :: "pyfloat option"

definition range_is_coherent :: "point_declaration \<Rightarrow> unit result" where
  "range_is_coherent p =
     (if pd_type p = BOOLEAN then checks
        [raise_if (\<not> is_flag (pd_nominal p)) ''boolean point needs a boolean nominal'' okE,
         raise_if (pd_minimum p \<noteq> None \<or> pd_maximum p \<noteq> None \<or> pd_resolution p \<noteq> None)
           ''boolean point has no range or resolution'' okE]
      else checks
        [raise_if (is_flag (pd_nominal p)) ''numeric point needs a numeric nominal'' okE,
         raise_if (\<not> pred_option fisfinite (pd_minimum p)) ''minimum must be finite'' okE,
         raise_if (\<not> pred_option fisfinite (pd_maximum p)) ''maximum must be finite'' okE,
         raise_if (\<not> fisfinite (level_of (pd_nominal p))) ''nominal must be finite'' okE,
         raise_if (pd_direction p = Incoming \<and> (pd_minimum p = None \<or> pd_maximum p = None))
           ''numeric inputs declare minimum and maximum'' okE,
         (case (pd_minimum p, pd_maximum p) of
            (Some low, Some high) \<Rightarrow> checks
              [raise_if (fle high low) ''minimum must be below maximum'' okE,
               raise_if (\<not> (fle low (level_of (pd_nominal p)) \<and> fle (level_of (pd_nominal p)) high))
                 ''nominal lies outside the declared range'' okE]
          | _ \<Rightarrow> okE)])"

text \<open>\<open>Field(pattern=_NAME, max_length=120)\<close> and \<open>Field(gt=0.0)\<close>.\<close>

definition point_ok :: "point_declaration \<Rightarrow> bool" where
  "point_ok p \<longleftrightarrow> name_ok (pd_name p) \<and> pred_option (fless (Fin 0)) (pd_resolution p) \<and> range_is_coherent p = Inr ()"

text \<open>A quotient by a constant that is not zero.\<close>

definition over_constant :: "pyfloat \<Rightarrow> rat \<Rightarrow> pyfloat" where
  "over_constant x q = (case fdiv x (Fin q) of Inr y \<Rightarrow> y | Inl _ \<Rightarrow> NaN)"

definition margin :: "point_declaration \<Rightarrow> pyfloat" where
  "margin p = (case pd_resolution p of Some r \<Rightarrow> r
     | None \<Rightarrow> (case (pd_minimum p, pd_maximum p) of
         (Some low, Some high) \<Rightarrow> over_constant (fsub high low) 1000
       | _ \<Rightarrow> lit (1 / 100)))"

record condition =
  cd_point :: string
  cd_operator :: comparison_operator
  cd_value :: reading
  cd_upper :: "pyfloat option"
  cd_deadband :: pyfloat

definition condition_matches_value :: "condition \<Rightarrow> unit result" where
  "condition_matches_value c = checks
     [guarded (is_flag (cd_value c)) (checks
        [raise_if (cd_operator c \<notin> {EQ, NE}) ''boolean conditions use eq or ne'' okE,
         raise_if (\<not> is_zero (cd_deadband c) \<or> cd_upper c \<noteq> None)
           ''boolean conditions have no deadband or upper'' okE]),
      (if cd_operator c = BETWEEN then
         raise_if (case cd_upper c of None \<Rightarrow> True | Some u \<Rightarrow> fless u (level_of (cd_value c)))
           ''between needs upper at or above value'' okE
       else raise_if (cd_upper c \<noteq> None) ''upper is only valid for between'' okE),
      raise_if (cd_operator c \<in> {EQ, NE} \<and> \<not> is_zero (cd_deadband c)) ''eq/ne conditions have no deadband'' okE]"

definition condition_ok :: "condition \<Rightarrow> bool" where
  "condition_ok c \<longleftrightarrow> name_ok (cd_point c) \<and> fle (Fin 0) (cd_deadband c) \<and> condition_matches_value c = Inr ()"

record timing =
  tm_delay :: pyfloat
  tm_release :: pyfloat
  tm_from_context :: bool
  tm_tolerance_scans :: nat

definition timing_ok :: "timing \<Rightarrow> bool" where
  "timing_ok t \<longleftrightarrow> fle (Fin 0) (tm_delay t) \<and> fle (tm_delay t) (Fin 1000000)
     \<and> fle (Fin 0) (tm_release t) \<and> fle (tm_release t) (Fin 1000000) \<and> tm_tolerance_scans t \<le> 10"

record stated_outcome =
  so_point :: string
  so_operator :: comparison_operator
  so_value :: reading
  so_upper :: "pyfloat option"
  so_tolerance :: pyfloat

definition outcome_matches_value :: "stated_outcome \<Rightarrow> unit result" where
  "outcome_matches_value o1 = checks
     [raise_if (is_flag (so_value o1) \<and> so_operator o1 \<notin> {EQ, NE}) ''boolean outcomes use eq or ne'' okE,
      (if so_operator o1 = BETWEEN then
         raise_if (case so_upper o1 of None \<Rightarrow> True
             | Some u \<Rightarrow> is_flag (so_value o1) \<or> fless u (level_of (so_value o1)))
           ''between needs numeric value and upper'' okE
       else raise_if (so_upper o1 \<noteq> None) ''upper is only valid for between'' okE)]"

definition outcome_ok :: "stated_outcome \<Rightarrow> bool" where
  "outcome_ok o1 \<longleftrightarrow> name_ok (so_point o1) \<and> fle (Fin 0) (so_tolerance o1) \<and> outcome_matches_value o1 = Inr ()"

definition expectation :: "stated_outcome \<Rightarrow> output_expectation" where
  "expectation o1 = \<lparr>ex_target = so_point o1, ex_operator = so_operator o1, ex_value = reading_value (so_value o1),
     ex_upper = so_upper o1, ex_tolerance = so_tolerance o1\<rparr>"

datatype failure_mode = Stuck | OutOfRangeLow | OutOfRangeHigh | Stale

record failure_behaviour =
  fb_point :: string
  fb_mode :: failure_mode
  fb_outcomes :: "stated_outcome list"

record setup_phase =
  su_name :: string
  su_inputs :: "reading dict"
  su_seconds :: pyfloat

section \<open>Requirements and invariants\<close>

record requirement =
  rq_id :: string
  rq_assumes :: "string list"
  rq_setup :: "setup_phase list"
  rq_conditions :: "condition list"
  rq_timing :: timing
  rq_outcomes :: "stated_outcome list"
  rq_otherwise :: "stated_outcome list"
  rq_before :: "stated_outcome list option"
  rq_recovery :: "stated_outcome list option"
  rq_failures :: "failure_behaviour list"
  rq_step_seconds :: "pyfloat option"

definition has_a_trigger :: "requirement \<Rightarrow> unit result" where
  "has_a_trigger r = checks
     [raise_if (rq_conditions r = [] \<and> rq_assumes r = []) ''a requirement needs conditions or assumes'' okE,
      raise_if (has_duplicates (map cd_point (rq_conditions r))) ''one condition per input'' okE,
      raise_if (has_duplicates (rq_assumes r) \<or> rq_id r \<in> set (rq_assumes r))
        ''assumes must be distinct other requirements'' okE]"

text \<open>The declared fields of a requirement: \<open>R-[0-9]{2,3}\<close>, at least one outcome, positive
  durations.\<close>

definition requirement_id_ok :: "char \<Rightarrow> string \<Rightarrow> bool" where
  "requirement_id_ok letter s \<longleftrightarrow> take 2 s = [letter, CHR ''-''] \<and> list_all ascii_digit (drop 2 s)
     \<and> length s \<in> {4, 5}"

definition failure_ok :: "failure_behaviour \<Rightarrow> bool" where
  "failure_ok f \<longleftrightarrow> name_ok (fb_point f) \<and> fb_outcomes f \<noteq> [] \<and> list_all outcome_ok (fb_outcomes f)"

definition setup_ok :: "setup_phase \<Rightarrow> bool" where
  "setup_ok s \<longleftrightarrow> 1 \<le> length (su_name s) \<and> length (su_name s) \<le> 120
     \<and> fless (Fin 0) (su_seconds s) \<and> fle (su_seconds s) (Fin 10000000)"

definition requirement_ok :: "requirement \<Rightarrow> bool" where
  "requirement_ok r \<longleftrightarrow> requirement_id_ok (CHR ''R'') (rq_id r) \<and> list_all condition_ok (rq_conditions r)
     \<and> timing_ok (rq_timing r) \<and> rq_outcomes r \<noteq> [] \<and> list_all outcome_ok (rq_outcomes r)
     \<and> list_all outcome_ok (rq_otherwise r) \<and> pred_option (list_all outcome_ok) (rq_before r)
     \<and> pred_option (list_all outcome_ok) (rq_recovery r) \<and> list_all failure_ok (rq_failures r)
     \<and> list_all setup_ok (rq_setup r) \<and> pred_option step_ok (rq_step_seconds r) \<and> has_a_trigger r = Inr ()"

record invariant =
  iv_id :: string
  iv_when :: "condition list"
  iv_then :: "stated_outcome list"

definition invariant_ok :: "invariant \<Rightarrow> bool" where
  "invariant_ok i \<longleftrightarrow> requirement_id_ok (CHR ''I'') (iv_id i) \<and> list_all condition_ok (iv_when i)
     \<and> iv_then i \<noteq> [] \<and> list_all outcome_ok (iv_then i)"

record requirement_set =
  rs_sequence_id :: string
  rs_step_seconds :: pyfloat
  rs_points :: "point_declaration list"
  rs_requirements :: "requirement list"
  rs_invariants :: "invariant list"

section \<open>Lookups\<close>

definition point_of :: "requirement_set \<Rightarrow> string \<Rightarrow> point_declaration result" where
  "point_of rs n = (case find (\<lambda>p. pd_name p = n) (rs_points rs) of None \<Rightarrow> Inl (KeyError n) | Some p \<Rightarrow> Inr p)"

definition declared_inputs :: "requirement_set \<Rightarrow> point_declaration list" where
  "declared_inputs rs = filter (\<lambda>p. pd_direction p = Incoming) (rs_points rs)"

definition declared_outputs :: "requirement_set \<Rightarrow> point_declaration list" where
  "declared_outputs rs = filter (\<lambda>p. pd_direction p = Outgoing) (rs_points rs)"

definition requirement_of :: "requirement_set \<Rightarrow> string \<Rightarrow> requirement result" where
  "requirement_of rs i = (case find (\<lambda>r. rq_id r = i) (rs_requirements rs) of None \<Rightarrow> Inl (KeyError i) | Some r \<Rightarrow> Inr r)"

definition requirement_ids :: "requirement_set \<Rightarrow> string list" where
  "requirement_ids rs = map rq_id (rs_requirements rs)"

lemma requirement_of_Inr: "requirement_of rs i = Inr r \<Longrightarrow> r \<in> set (rs_requirements rs) \<and> rq_id r = i"
  by (auto simp: requirement_of_def find_Some_iff split: option.splits)

lemma requirement_of_member: "i \<in> set (requirement_ids rs) \<Longrightarrow> \<exists>r. requirement_of rs i = Inr r"
  by (auto simp: requirement_of_def requirement_ids_def find_None_iff split: option.splits)

text \<open>The recursion of \<open>assumption_closure\<close>: the path of requirements being visited, and the
  finished ones.  A path cannot repeat, so it ends.\<close>

lemma foldE_cong [fundef_cong]:
  "xs = ys \<Longrightarrow> s = t \<Longrightarrow> (\<And>x s. x \<in> set ys \<Longrightarrow> f x s = g x s) \<Longrightarrow> foldE f xs s = foldE g ys t"
  by (induction ys arbitrary: xs s t) (auto intro!: bindE_cong)

function visit_assumed :: "requirement_set \<Rightarrow> string list \<Rightarrow> string \<Rightarrow> string list \<Rightarrow> string list result" where
  "visit_assumed rs visiting current order =
     (if current \<in> set visiting then Inl (ValueError ''assumes form a cycle'')
      else if current \<in> set order then Inr order
      else bindE (requirement_of rs current) (\<lambda>r.
        mapE (\<lambda>finished. finished @ [current])
          (foldE (visit_assumed rs (visiting @ [current])) (rq_assumes r) order)))"
  by pat_completeness auto
termination
proof (relation "measure (\<lambda>(rs, visiting, _, _). card (set (requirement_ids rs) - set visiting))", goal_cases)
  case (2 rs visiting current order r x)
  have "current \<in> set (requirement_ids rs)"
    using requirement_of_Inr [OF 2(3)] by (auto simp: requirement_ids_def)
  with 2(1) have "set (requirement_ids rs) - set (visiting @ [current]) \<subset> set (requirement_ids rs) - set visiting"
    by auto
  then have "card (set (requirement_ids rs) - set (visiting @ [current])) < card (set (requirement_ids rs) - set visiting)"
    by (intro psubset_card_mono) auto
  then show ?case by (simp only: in_measure prod.case)
qed simp

declare visit_assumed.simps [simp del]

definition assumption_closure :: "requirement_set \<Rightarrow> string \<Rightarrow> string list result" where
  "assumption_closure rs i = mapE (remove1 i) (visit_assumed rs [] i [])"

definition merge_conditions :: "condition list \<Rightarrow> condition dict \<Rightarrow> condition dict" where
  "merge_conditions cs d = fold (\<lambda>c. AList.update (cd_point c) c) cs d"

text \<open>The conditions inherited from the assumed requirements, by input.\<close>

definition inherited_conditions :: "requirement_set \<Rightarrow> string \<Rightarrow> condition dict result" where
  "inherited_conditions rs i = bindE (assumption_closure rs i) (\<lambda>order.
     foldE (\<lambda>other d. mapE (\<lambda>r. merge_conditions (rq_conditions r) d) (requirement_of rs other)) order [])"

definition effective_conditions :: "requirement_set \<Rightarrow> requirement \<Rightarrow> condition list result" where
  "effective_conditions rs r = mapE (\<lambda>d. map snd (merge_conditions (rq_conditions r) d)) (inherited_conditions rs (rq_id r))"

definition effective_setup :: "requirement_set \<Rightarrow> requirement \<Rightarrow> setup_phase list result" where
  "effective_setup rs r = bindE (assumption_closure rs (rq_id r)) (\<lambda>order.
     mapE (\<lambda>rests. concat (map rq_setup rests) @ rq_setup r) (traverseE (requirement_of rs) order))"

definition nominal_inputs :: "requirement_set \<Rightarrow> reading dict" where
  "nominal_inputs rs = dict_of pd_name pd_nominal (declared_inputs rs)"

section \<open>Coherence\<close>

definition check_conditions :: "requirement_set \<Rightarrow> point_direction option \<Rightarrow> condition list \<Rightarrow> unit result" where
  "check_conditions rs d cs = checks (map (\<lambda>c. case find (\<lambda>p. pd_name p = cd_point c) (rs_points rs) of
       None \<Rightarrow> Inl (ValueError ''condition names unknown point'')
     | Some p \<Rightarrow> checks
         [raise_if (d \<noteq> None \<and> d \<noteq> Some (pd_direction p)) ''conditions are on the other direction'' okE,
          raise_if ((pd_type p = BOOLEAN) \<noteq> is_flag (cd_value c)) ''condition type mismatch'' okE]) cs)"

definition check_outcomes :: "requirement_set \<Rightarrow> stated_outcome list \<Rightarrow> unit result" where
  "check_outcomes rs os = checks (map (\<lambda>o1. case find (\<lambda>p. pd_name p = so_point o1) (rs_points rs) of
       None \<Rightarrow> Inl (ValueError ''outcome names unknown output'')
     | Some p \<Rightarrow> checks
         [raise_if (pd_direction p \<noteq> Outgoing) ''outcome names unknown output'' okE,
          raise_if ((pd_type p = BOOLEAN) \<noteq> is_flag (so_value o1)) ''outcome type mismatch'' okE]) os)"

definition is_input :: "requirement_set \<Rightarrow> string \<Rightarrow> bool" where
  "is_input rs n \<longleftrightarrow> n \<in> set (map pd_name (declared_inputs rs))"

definition check_failure :: "requirement_set \<Rightarrow> failure_behaviour \<Rightarrow> unit result" where
  "check_failure rs f = checks
     [raise_if (\<not> is_input rs (fb_point f)) ''failure names unknown input'' okE,
      raise_if ((\<exists>p \<in> set (rs_points rs). pd_name p = fb_point f \<and> pd_type p = BOOLEAN)
          \<and> fb_mode f \<in> {OutOfRangeLow, OutOfRangeHigh}) ''boolean input has no range'' okE,
      check_outcomes rs (fb_outcomes f)]"

definition check_requirement :: "requirement_set \<Rightarrow> requirement \<Rightarrow> unit result" where
  "check_requirement rs r = checks
     [raise_if (\<not> list_all (\<lambda>i. i \<in> set (requirement_ids rs)) (rq_assumes r)) ''assumes unknown requirement'' okE,
      check_conditions rs (Some Incoming) (rq_conditions r),
      raise_if (\<not> list_all (\<lambda>s. list_all (\<lambda>(n, _). is_input rs n) (su_inputs s)) (rq_setup r))
        ''setup names unknown input'' okE,
      check_outcomes rs (rq_outcomes r), check_outcomes rs (rq_otherwise r),
      check_outcomes rs (case rq_before r of None \<Rightarrow> [] | Some os \<Rightarrow> os),
      check_outcomes rs (case rq_recovery r of None \<Rightarrow> [] | Some os \<Rightarrow> os),
      checks (map (check_failure rs) (rq_failures r))]"

definition references_resolve :: "requirement_set \<Rightarrow> unit result" where
  "references_resolve rs = checks (
     [raise_if (has_duplicates (map pd_name (rs_points rs))) ''point names must be unique'' okE,
      raise_if (declared_inputs rs = []) ''a requirement set declares at least one input'' okE,
      raise_if (declared_outputs rs = []) ''a requirement set declares at least one output'' okE,
      raise_if (has_duplicates (requirement_ids rs)) ''requirement ids must be unique'' okE,
      raise_if (has_duplicates (map iv_id (rs_invariants rs))) ''invariant ids must be unique'' okE,
      checks (map (check_requirement rs) (rs_requirements rs)),
      checks (map (\<lambda>i. checks [check_conditions rs None (iv_when i), check_outcomes rs (iv_then i)]) (rs_invariants rs)),
      checks (map (\<lambda>i. mapE (\<lambda>_. ()) (assumption_closure rs i)) (requirement_ids rs))])"

definition requirement_set_ok :: "requirement_set \<Rightarrow> bool" where
  "requirement_set_ok rs \<longleftrightarrow> step_ok (rs_step_seconds rs) \<and> list_all point_ok (rs_points rs)
     \<and> rs_requirements rs \<noteq> [] \<and> list_all requirement_ok (rs_requirements rs)
     \<and> list_all invariant_ok (rs_invariants rs) \<and> references_resolve rs = Inr ()"

end
