(* ===== verification/Oracles.thy ===== *)
theory Oracles
  imports Requirements Harness
begin

text \<open>
  What a requirement set says about sampled values, and the inputs its logic is exercised with
  (\<open>src/bactalk/protocol/invariants.py\<close>).  The pseudo-random generator is an argument: its
  three operations are the ones of the standard library, and \<open>generator_ok\<close> states what
  their documentation promises.
\<close>

section \<open>Conditions and outcomes on a value\<close>

text \<open>\<open>float(condition.upper or threshold)\<close>: an upper limit of zero counts as none.\<close>

definition upper_or :: "pyfloat option \<Rightarrow> pyfloat \<Rightarrow> pyfloat" where
  "upper_or u threshold = (case u of None \<Rightarrow> threshold | Some x \<Rightarrow> if is_zero x then threshold else x)"

definition close_to :: "pyfloat \<Rightarrow> pyfloat \<Rightarrow> bool" where
  "close_to a b = fisclose (Fin 0) (lit (1 / 10 ^ 9)) a b"

definition condition_holds :: "condition \<Rightarrow> reading \<Rightarrow> bool" where
  "condition_holds c v = (case cd_value c of
       Flag b \<Rightarrow> (flag_of v = b) = (cd_operator c = EQ)
     | Level threshold \<Rightarrow> (let number = level_of v in case cd_operator c of
           EQ \<Rightarrow> close_to number threshold
         | NE \<Rightarrow> \<not> close_to number threshold
         | GT \<Rightarrow> fless threshold number
         | GTE \<Rightarrow> fle threshold number
         | LT \<Rightarrow> fless number threshold
         | LTE \<Rightarrow> fle number threshold
         | BETWEEN \<Rightarrow> fle threshold number \<and> fle number (upper_or (cd_upper c) threshold)))"

definition outcome_holds :: "stated_outcome \<Rightarrow> reading \<Rightarrow> bool" where
  "outcome_holds o1 v = (case so_value o1 of
       Flag b \<Rightarrow> (flag_of v = b) = (so_operator o1 = EQ)
     | Level expected \<Rightarrow> (let number = level_of v; tolerance = so_tolerance o1 in
         fisfinite number \<and> (case so_operator o1 of
           EQ \<Rightarrow> fle (fabs (fsub number expected)) tolerance
         | NE \<Rightarrow> fless tolerance (fabs (fsub number expected))
         | GT \<Rightarrow> fless (fsub expected tolerance) number
         | GTE \<Rightarrow> fle (fsub expected tolerance) number
         | LT \<Rightarrow> fless number (fadd expected tolerance)
         | LTE \<Rightarrow> fle number (fadd expected tolerance)
         | BETWEEN \<Rightarrow> fle (fsub expected tolerance) number
             \<and> fle number (fadd (upper_or (so_upper o1) expected) tolerance))))"

section \<open>Invariants on a sample\<close>

datatype violation =
    Unsampled (vi_invariant: string) (vi_point: string)
  | Broken (vi_invariant: string) (vi_point: string) (vi_observed: reading) (vi_expected: stated_outcome)

text \<open>The loop over \<open>invariant.when\<close>: the violations it records and whether the invariant applies.\<close>

fun when_applies :: "string \<Rightarrow> reading dict \<Rightarrow> condition list \<Rightarrow> violation list \<times> bool" where
  "when_applies i sample [] = ([], True)"
| "when_applies i sample (c # cs) = (case map_of sample (cd_point c) of
       None \<Rightarrow> ([Unsampled i (cd_point c)], False)
     | Some v \<Rightarrow> if condition_holds c v then when_applies i sample cs else ([], False))"

definition then_violation :: "string \<Rightarrow> reading dict \<Rightarrow> stated_outcome \<Rightarrow> violation list" where
  "then_violation i sample o1 = (case map_of sample (so_point o1) of
       None \<Rightarrow> [Unsampled i (so_point o1)]
     | Some v \<Rightarrow> if outcome_holds o1 v then [] else [Broken i (so_point o1) v o1])"

definition violations_of :: "reading dict \<Rightarrow> invariant \<Rightarrow> violation list" where
  "violations_of sample iv = (case when_applies (iv_id iv) sample (iv_when iv) of (found, applicable) \<Rightarrow>
     found @ (if applicable then concat (map (then_violation (iv_id iv) sample) (iv_then iv)) else []))"

definition invariant_violations :: "requirement_set \<Rightarrow> reading dict \<Rightarrow> violation list" where
  "invariant_violations rs sample = concat (map (violations_of sample) (rs_invariants rs))"

section \<open>Random inputs\<close>

text \<open>\<open>_thresholds\<close>: the numbers the conditions mention, per point.\<close>

definition condition_edges :: "condition \<Rightarrow> pyfloat list" where
  "condition_edges c = (let x = level_of (cd_value c) in
     [x] @ (case cd_upper c of None \<Rightarrow> [] | Some u \<Rightarrow> [u])
     @ (if is_zero (cd_deadband c) then [] else [fsub x (cd_deadband c), fadd x (cd_deadband c)]))"

definition add_edges :: "condition \<Rightarrow> pyfloat list dict \<Rightarrow> pyfloat list dict" where
  "add_edges c d = (if is_flag (cd_value c) then d
     else AList.update (cd_point c)
       ((case map_of d (cd_point c) of None \<Rightarrow> [] | Some xs \<Rightarrow> xs) @ condition_edges c) d)"

definition thresholds :: "requirement_set \<Rightarrow> pyfloat list dict" where
  "thresholds rs = fold add_edges
     (concat (map rq_conditions (rs_requirements rs)) @ concat (map iv_when (rs_invariants rs))) []"

text \<open>\<open>random()\<close>, the index \<open>choice\<close> takes from a sequence of the given length, and
  \<open>uniform(low, high)\<close>.\<close>

record 'g generator =
  gn_random :: "'g \<Rightarrow> pyfloat \<times> 'g"
  gn_choice :: "nat \<Rightarrow> 'g \<Rightarrow> nat \<times> 'g"
  gn_uniform :: "pyfloat \<Rightarrow> pyfloat \<Rightarrow> 'g \<Rightarrow> pyfloat \<times> 'g"

definition generator_ok :: "'g generator \<Rightarrow> bool" where
  "generator_ok G \<longleftrightarrow> (\<forall>n g. 0 < n \<longrightarrow> fst (gn_choice G n g) < n)
     \<and> (\<forall>low high g. fle low high \<longrightarrow> fle low (fst (gn_uniform G low high g)) \<and> fle (fst (gn_uniform G low high g)) high)"

definition limit_of :: "pyfloat option \<Rightarrow> point_declaration \<Rightarrow> pyfloat" where
  "limit_of bound p = (case bound of Some x \<Rightarrow> x | None \<Rightarrow> level_of (pd_nominal p))"

definition draw_edge :: "'g generator \<Rightarrow> point_declaration \<Rightarrow> pyfloat list \<Rightarrow> 'g \<Rightarrow> pyfloat \<times> 'g" where
  "draw_edge G p edges g =
     (let (i, g) = gn_choice G (length edges) g;
          (j, g) = gn_choice G 3 g;
          v = fadd (edges ! i) (fmul ([Fin (-1), Fin 0, Fin 1] ! j) (margin p))
      in (fmin (limit_of (pd_maximum p) p) (fmax (limit_of (pd_minimum p) p) v), g))"

definition draw_level :: "'g generator \<Rightarrow> pyfloat list dict \<Rightarrow> point_declaration \<Rightarrow> 'g \<Rightarrow> pyfloat \<times> 'g" where
  "draw_level G edges p g =
     (let uniform = gn_uniform G (limit_of (pd_minimum p) p) (limit_of (pd_maximum p) p)
      in case map_of edges (pd_name p) of
           None \<Rightarrow> uniform g
         | Some [] \<Rightarrow> uniform g
         | Some es \<Rightarrow> (let (x, g) = gn_random G g in if fless x (lit (3 / 10)) then draw_edge G p es g else uniform g))"

text \<open>One input at one step: mostly it holds its value, except at the first step.\<close>

definition draw_input :: "'g generator \<Rightarrow> pyfloat list dict \<Rightarrow> pyfloat \<Rightarrow> bool \<Rightarrow> point_declaration \<Rightarrow>
    reading dict \<times> 'g \<Rightarrow> reading dict \<times> 'g" where
  "draw_input G edges hold started p state = (case state of (current, g) \<Rightarrow>
     let (x, g) = gn_random G g in
     if fless x hold \<and> started then (current, g)
     else if pd_type p = BOOLEAN then
       (let (y, g) = gn_random G g in (AList.update (pd_name p) (Flag (fless y (lit (1 / 2)))) current, g))
     else (let (y, g) = draw_level G edges p g in (AList.update (pd_name p) (Level y) current, g)))"

fun draw_steps :: "'g generator \<Rightarrow> pyfloat list dict \<Rightarrow> pyfloat \<Rightarrow> point_declaration list \<Rightarrow> nat \<Rightarrow> bool \<Rightarrow>
    reading dict \<times> 'g \<Rightarrow> reading dict list \<times> 'g" where
  "draw_steps G edges hold ps 0 started state = ([], snd state)"
| "draw_steps G edges hold ps (Suc n) started state =
     (let (current, g) = fold (draw_input G edges hold started) ps state;
          (rest, g) = draw_steps G edges hold ps n True (current, g)
      in (current # rest, g))"

fun draw_sequences :: "'g generator \<Rightarrow> requirement_set \<Rightarrow> pyfloat \<Rightarrow> nat \<Rightarrow> nat \<Rightarrow> 'g \<Rightarrow> reading dict list list" where
  "draw_sequences G rs hold steps 0 g = []"
| "draw_sequences G rs hold steps (Suc n) g =
     (let (steps_drawn, g) = draw_steps G (thresholds rs) hold (declared_inputs rs) steps False (nominal_inputs rs, g)
      in steps_drawn # draw_sequences G rs hold steps n g)"

definition random_input_sequences :: "'g generator \<Rightarrow> requirement_set \<Rightarrow> nat \<Rightarrow> nat \<Rightarrow> pyfloat \<Rightarrow> 'g \<Rightarrow> reading dict list list" where
  "random_input_sequences G rs count steps hold seeded = draw_sequences G rs hold steps count seeded"

section \<open>Meaning of the invariant check\<close>

lemma when_applies_true: "when_applies i sample cs = (found, True) \<longleftrightarrow>
    found = [] \<and> (\<forall>c \<in> set cs. \<exists>v. map_of sample (cd_point c) = Some v \<and> condition_holds c v)"
  by (induction cs) (auto split: option.splits)

lemma when_applies_sampled:
  "\<forall>c \<in> set cs. map_of sample (cd_point c) \<noteq> None \<Longrightarrow> fst (when_applies i sample cs) = []"
  by (induction cs) (auto split: option.splits)

text \<open>The randomised check of the protocol decides its invariants: on a sample that has every
  point the conditions of the invariants name, it records no violation exactly when every
  invariant whose conditions all hold there has all its outcome points sampled with values that
  satisfy the outcomes.\<close>

theorem no_violation_iff_invariants_hold:
  assumes "\<forall>iv \<in> set (rs_invariants rs). \<forall>c \<in> set (iv_when iv). map_of sample (cd_point c) \<noteq> None"
  shows "invariant_violations rs sample = [] \<longleftrightarrow>
    (\<forall>iv \<in> set (rs_invariants rs).
       (\<forall>c \<in> set (iv_when iv). \<exists>v. map_of sample (cd_point c) = Some v \<and> condition_holds c v) \<longrightarrow>
       (\<forall>o1 \<in> set (iv_then iv). \<exists>v. map_of sample (so_point o1) = Some v \<and> outcome_holds o1 v))"
proof -
  have "violations_of sample iv = [] \<longleftrightarrow>
      ((\<forall>c \<in> set (iv_when iv). \<exists>v. map_of sample (cd_point c) = Some v \<and> condition_holds c v) \<longrightarrow>
       (\<forall>o1 \<in> set (iv_then iv). \<exists>v. map_of sample (so_point o1) = Some v \<and> outcome_holds o1 v))"
    if "iv \<in> set (rs_invariants rs)" for iv
  proof -
    have "fst (when_applies (iv_id iv) sample (iv_when iv)) = []"
      using when_applies_sampled assms that by blast
    then obtain applicable where w: "when_applies (iv_id iv) sample (iv_when iv) = ([], applicable)"
      by (cases "when_applies (iv_id iv) sample (iv_when iv)") simp
    have t: "then_violation (iv_id iv) sample o1 = [] \<longleftrightarrow>
        (\<exists>v. map_of sample (so_point o1) = Some v \<and> outcome_holds o1 v)" for o1
      by (auto simp: then_violation_def split: option.splits)
    show ?thesis
      using when_applies_true [of "iv_id iv" sample "iv_when iv" "[]"]
      by (cases applicable) (simp_all add: violations_of_def w t, blast)
  qed
  then show ?thesis by (auto simp: invariant_violations_def)
qed

end
