(* ===== verification/TestAuthor.thy ===== *)
theory TestAuthor
  imports Oracles
begin

text \<open>
  The test author of the protocol (\<open>src/bactalk/protocol/test_author.py\<close>): it turns a
  requirement set into acceptance cases, without access to any control graph.  Rationales and
  questions are texts and left out; a gap keeps its kind.  Building a phase or a case runs its
  validator, so a malformed one is an error of the author.
\<close>

section \<open>The plan\<close>

datatype scenario_kind =
    Positive | Negative | NegativeSingle | TimingBefore | TimingAfter | ReleaseBefore | ReleaseAfter
  | BoundaryTrue | BoundaryFalse | DeadbandHold | DeadbandRelease | Failure | Recovery

fun scenario_text :: "scenario_kind \<Rightarrow> string" where
  "scenario_text Positive = ''positive''"
| "scenario_text Negative = ''negative''"
| "scenario_text NegativeSingle = ''negative_single''"
| "scenario_text TimingBefore = ''timing_before''"
| "scenario_text TimingAfter = ''timing_after''"
| "scenario_text ReleaseBefore = ''release_before''"
| "scenario_text ReleaseAfter = ''release_after''"
| "scenario_text BoundaryTrue = ''boundary_true''"
| "scenario_text BoundaryFalse = ''boundary_false''"
| "scenario_text DeadbandHold = ''deadband_hold''"
| "scenario_text DeadbandRelease = ''deadband_release''"
| "scenario_text Failure = ''failure''"
| "scenario_text Recovery = ''recovery''"

record planned_scenario =
  sc_id :: string
  sc_requirement :: string
  sc_kind :: scenario_kind
  sc_subject :: "string option"
  sc_case :: acceptance_case

datatype gap_kind = UnreachableCondition | TimingResolution | NoOtherwise | UnstatedFailure

record test_plan =
  tn_sequence_id :: string
  tn_requirements_digest :: string
  tn_scenarios :: "planned_scenario list"
  tn_invariant_ids :: "string list"
  tn_gaps :: "(string \<times> gap_kind) list"

definition plan_cases :: "test_plan \<Rightarrow> acceptance_case list" where
  "plan_cases plan = map sc_case (tn_scenarios plan)"

definition traceability :: "test_plan \<Rightarrow> string list dict" where
  "traceability plan = fold (\<lambda>s d. AList.update (sc_requirement s)
     ((case map_of d (sc_requirement s) of None \<Rightarrow> [] | Some ids \<Rightarrow> ids) @ [sc_id s]) d) (tn_scenarios plan) []"

definition plan_scenario :: "test_plan \<Rightarrow> string \<Rightarrow> planned_scenario result" where
  "plan_scenario plan n = (case find (\<lambda>s. ac_name (sc_case s) = n \<or> sc_id s = n) (tn_scenarios plan) of
     None \<Rightarrow> Inl (KeyError n) | Some s \<Rightarrow> Inr s)"

section \<open>Values on either side of a condition\<close>

definition clamp_to :: "point_declaration \<Rightarrow> pyfloat \<Rightarrow> pyfloat" where
  "clamp_to p v = (let low = (case pd_minimum p of Some x \<Rightarrow> x | None \<Rightarrow> v);
                       high = (case pd_maximum p of Some x \<Rightarrow> x | None \<Rightarrow> v)
                   in fmin high (fmax low v))"

definition satisfying_value :: "condition \<Rightarrow> point_declaration \<Rightarrow> reading" where
  "satisfying_value c p = (case cd_value c of
       Flag b \<Rightarrow> Flag (if cd_operator c = EQ then b else \<not> b)
     | Level t \<Rightarrow> Level (clamp_to p (case cd_operator c of
           EQ \<Rightarrow> t
         | NE \<Rightarrow> fadd t (margin p)
         | GT \<Rightarrow> fadd t (margin p)
         | GTE \<Rightarrow> t
         | LT \<Rightarrow> fsub t (margin p)
         | LTE \<Rightarrow> t
         | BETWEEN \<Rightarrow> over_constant (fadd t (upper_or (cd_upper c) t)) 2)))"

definition violating_value :: "condition \<Rightarrow> point_declaration \<Rightarrow> reading" where
  "violating_value c p = (case cd_value c of
       Flag b \<Rightarrow> Flag (if cd_operator c = EQ then \<not> b else b)
     | Level t \<Rightarrow> Level (clamp_to p (case cd_operator c of
           EQ \<Rightarrow> fadd t (margin p)
         | NE \<Rightarrow> t
         | GT \<Rightarrow> fsub (fsub t (cd_deadband c)) (margin p)
         | GTE \<Rightarrow> fsub (fsub t (cd_deadband c)) (margin p)
         | LT \<Rightarrow> fadd (fadd t (cd_deadband c)) (margin p)
         | LTE \<Rightarrow> fadd (fadd t (cd_deadband c)) (margin p)
         | BETWEEN \<Rightarrow> fsub t (margin p))))"

definition condition_bounds :: "condition \<Rightarrow> point_declaration \<Rightarrow> pyfloat \<Rightarrow> (string \<times> pyfloat \<times> bool) list" where
  "condition_bounds c p t = (case cd_operator c of
       GT \<Rightarrow> [(''at threshold'', t, False), (''just above'', fadd t (margin p), True)]
     | GTE \<Rightarrow> [(''just below'', fsub t (margin p), False), (''at threshold'', t, True)]
     | LT \<Rightarrow> [(''at threshold'', t, False), (''just below'', fsub t (margin p), True)]
     | LTE \<Rightarrow> [(''just above'', fadd t (margin p), False), (''at threshold'', t, True)]
     | EQ \<Rightarrow> [(''at value'', t, True), (''just above'', fadd t (margin p), False)]
     | NE \<Rightarrow> [(''at value'', t, False), (''just above'', fadd t (margin p), True)]
     | BETWEEN \<Rightarrow> (let upper = upper_or (cd_upper c) t in
         [(''at lower edge'', t, True), (''just below lower edge'', fsub t (margin p), False),
          (''at upper edge'', upper, True), (''just above upper edge'', fadd upper (margin p), False)]))"

definition boundary_values :: "condition \<Rightarrow> point_declaration \<Rightarrow> (string \<times> pyfloat \<times> bool) list" where
  "boundary_values c p = (case cd_value c of
       Flag b \<Rightarrow> []
     | Level t \<Rightarrow> map (\<lambda>(label, v, holds). (label, clamp_to p v, holds)) (condition_bounds c p t))"

text \<open>The value that still holds inside the deadband, and the one that releases past it.\<close>

definition deadband_values :: "condition \<Rightarrow> point_declaration \<Rightarrow> (pyfloat \<times> pyfloat) option" where
  "deadband_values c p = (case cd_value c of
       Flag b \<Rightarrow> None
     | Level t \<Rightarrow> (let d = cd_deadband c; m = margin p in
         if is_zero d then None
         else if cd_operator c \<in> {GT, GTE} then
           Some (clamp_to p (fadd (fsub t d) m), clamp_to p (fsub (fsub t d) m))
         else if cd_operator c \<in> {LT, LTE} then
           Some (clamp_to p (fsub (fadd t d) m), clamp_to p (fadd (fadd t d) m))
         else None))"

section \<open>Phases and cases\<close>

text \<open>\<open>max(0, math.ceil(seconds / step - 1e-9))\<close>.\<close>

definition steps_of :: "pyfloat \<Rightarrow> pyfloat \<Rightarrow> int result" where
  "steps_of seconds step = bindE (fdiv seconds step) (\<lambda>q. mapE (max 0) (fceil (fsub q (lit (1 / 10 ^ 9)))))"

text \<open>An invariant's conditions that the phase establishes, by its inputs or by an outcome it
  already expects.\<close>

definition implied_by :: "stated_outcome list \<Rightarrow> condition \<Rightarrow> bool" where
  "implied_by outcomes c = list_ex (\<lambda>o1. so_point o1 = cd_point c \<and> so_operator o1 = EQ \<and> cd_operator c = EQ
     \<and> same_reading (so_value o1) (cd_value c)) outcomes"

definition established :: "reading dict \<Rightarrow> stated_outcome list \<Rightarrow> condition \<Rightarrow> bool" where
  "established ins outcomes c = (case map_of ins (cd_point c) of
     Some v \<Rightarrow> condition_holds c v | None \<Rightarrow> implied_by outcomes c)"

text \<open>A key already seen belongs to an expectation on the same point, so the test of the points
  decides.\<close>

definition add_outcome :: "stated_outcome \<Rightarrow> stated_outcome list \<Rightarrow> stated_outcome list" where
  "add_outcome o1 outcomes = (if list_ex (\<lambda>o2. so_point o2 = so_point o1) outcomes then outcomes else outcomes @ [o1])"

definition with_invariants :: "requirement_set \<Rightarrow> reading dict \<Rightarrow> stated_outcome list \<Rightarrow> stated_outcome list" where
  "with_invariants rs ins outcomes = fold (\<lambda>iv acc.
     if list_all (established ins outcomes) (iv_when iv) then fold add_outcome (iv_then iv) acc else acc)
     (rs_invariants rs) outcomes"

definition validated :: "('a \<Rightarrow> bool) \<Rightarrow> 'a \<Rightarrow> 'a result" where
  "validated p x = (if p x then Inr x else Inl (ValueError ''validation error''))"

definition make_phase :: "requirement_set \<Rightarrow> pyfloat \<Rightarrow> string \<Rightarrow> reading dict \<Rightarrow> int \<Rightarrow> stated_outcome list \<Rightarrow>
    fault_injection list \<Rightarrow> acceptance_phase result" where
  "make_phase rs step n ins repeat outcomes faults =
     validated phase_ok
      \<lparr>ph_name = n, ph_inputs = map (\<lambda>(k, v). (k, reading_value v)) ins, ph_repeat = nat (max 1 repeat),
       ph_step_seconds = step, ph_faults = faults,
       ph_expectations = map expectation (if faults = [] then with_invariants rs ins outcomes else outcomes)\<rparr>"

definition scenario_name :: "string \<Rightarrow> scenario_kind \<Rightarrow> string option \<Rightarrow> string" where
  "scenario_name i k subject = i @ '' '' @ scenario_text k
     @ (case subject of None \<Rightarrow> [] | Some s \<Rightarrow> '' ['' @ s @ '']'')"

text \<open>\<open>_add\<close>: nothing is planned when no phase expects anything; the case repeats the
  expectations of the last phase that has some.\<close>

definition final_expectations :: "acceptance_phase list \<Rightarrow> output_expectation list" where
  "final_expectations phases = (case find (\<lambda>p. ph_expectations p \<noteq> []) (rev phases) of
     None \<Rightarrow> [] | Some p \<Rightarrow> ph_expectations p)"

definition add_scenario :: "string \<Rightarrow> scenario_kind \<Rightarrow> string option \<Rightarrow> acceptance_phase list \<Rightarrow> test_plan \<Rightarrow> test_plan result" where
  "add_scenario i k subject phases plan =
     (if final_expectations phases = [] then Inr plan
      else let n = take 200 (scenario_name i k subject) in
        mapE (\<lambda>c. plan\<lparr>tn_scenarios := tn_scenarios plan @
               [\<lparr>sc_id = n, sc_requirement = i, sc_kind = k, sc_subject = subject, sc_case = c\<rparr>]\<rparr>)
          (validated case_ok
            \<lparr>ac_name = n, ac_inputs = [], ac_expectations = final_expectations phases, ac_repeat = 1,
             ac_step_seconds = Fin 1, ac_faults = [], ac_qualifications = [], ac_timeline = phases\<rparr>))"

definition add_gap :: "string \<Rightarrow> gap_kind \<Rightarrow> test_plan \<Rightarrow> test_plan" where
  "add_gap i k plan = plan\<lparr>tn_gaps := tn_gaps plan @ [(i, k)]\<rparr>"

section \<open>What one requirement drives\<close>

text \<open>The values computed at the start of \<open>_requirement\<close>.  The driven conditions are on distinct
  inputs, so the value of an input on either side is that of its condition.\<close>

record drive =
  dr_requirement :: requirement
  dr_step :: pyfloat
  dr_driven :: "(condition \<times> point_declaration) list"
  dr_satisfied :: "reading dict"
  dr_violated :: "reading dict"
  dr_setup :: "acceptance_phase list"
  dr_delay :: int
  dr_release :: int

definition with_points :: "requirement_set \<Rightarrow> condition list \<Rightarrow> (condition \<times> point_declaration) list result" where
  "with_points rs = traverseE (\<lambda>c. mapE (Pair c) (point_of rs (cd_point c)))"

definition values_with :: "(condition \<Rightarrow> point_declaration \<Rightarrow> reading) \<Rightarrow> (condition \<times> point_declaration) list \<Rightarrow> reading dict" where
  "values_with f = map (\<lambda>(c, p). (cd_point c, f c p))"

fun decimal :: "nat \<Rightarrow> string" where
  "decimal n = (if n < 10 then [char_of (48 + n)] else decimal (n div 10) @ [char_of (48 + n mod 10)])"

declare decimal.simps [simp del]

definition setup_name :: "nat \<Rightarrow> setup_phase \<Rightarrow> string" where
  "setup_name index s = ''setup '' @ decimal index @ '': '' @ su_name s"

fun setup_phases :: "requirement_set \<Rightarrow> pyfloat \<Rightarrow> nat \<Rightarrow> setup_phase list \<Rightarrow> reading dict \<Rightarrow> acceptance_phase list result" where
  "setup_phases rs step index [] ins = Inr []"
| "setup_phases rs step index (s # ss) ins =
     (let ins = dict_update ins (su_inputs s) in
      bindE (steps_of (su_seconds s) step) (\<lambda>repeat.
      bindE (make_phase rs step (setup_name index s) ins repeat [] []) (\<lambda>p.
      mapE (Cons p) (setup_phases rs step (Suc index) ss ins))))"

text \<open>\<open>own = list(requirement.conditions) or list(context.values())\<close>.\<close>

definition driven_conditions :: "requirement \<Rightarrow> condition dict \<Rightarrow> condition list" where
  "driven_conditions r context = (if rq_conditions r \<noteq> [] then rq_conditions r else map snd context)"

definition kept_context :: "condition list \<Rightarrow> condition dict \<Rightarrow> condition list" where
  "kept_context own context = map snd (filter (\<lambda>(k, _). k \<notin> cd_point ` set own) context)"

definition step_seconds_of :: "requirement_set \<Rightarrow> requirement \<Rightarrow> pyfloat" where
  "step_seconds_of rs r = (case rq_step_seconds r of Some s \<Rightarrow> s | None \<Rightarrow> rs_step_seconds rs)"

definition drive_of :: "requirement_set \<Rightarrow> requirement \<Rightarrow> drive result" where
  "drive_of rs r =
     (let step = step_seconds_of rs r in
      bindE (inherited_conditions rs (rq_id r)) (\<lambda>context.
      let own = driven_conditions r context in
      bindE (with_points rs own) (\<lambda>driven.
      bindE (with_points rs (kept_context own context)) (\<lambda>kept.
      bindE (effective_setup rs r) (\<lambda>setups.
      let base = dict_update (fold (\<lambda>s d. dict_update d (su_inputs s)) setups (nominal_inputs rs))
                   (values_with satisfying_value kept) in
      bindE (steps_of (tm_delay (rq_timing r)) step) (\<lambda>delay.
      bindE (steps_of (tm_release (rq_timing r)) step) (\<lambda>release.
      bindE (setup_phases rs step 1 setups (nominal_inputs rs)) (\<lambda>setup.
      Inr \<lparr>dr_requirement = r, dr_step = step, dr_driven = driven,
           dr_satisfied = dict_update base (values_with satisfying_value driven),
           dr_violated = dict_update base (values_with violating_value driven),
           dr_setup = setup, dr_delay = delay, dr_release = release\<rparr>))))))))"

definition dr_id :: "drive \<Rightarrow> string" where
  "dr_id d = rq_id (dr_requirement d)"

definition dr_lag :: "drive \<Rightarrow> int" where
  "dr_lag d = int (tm_tolerance_scans (rq_timing (dr_requirement d)))"

definition dr_settle :: "drive \<Rightarrow> int" where
  "dr_settle d = max (dr_release d + 1) 2"

definition dr_offset :: "drive \<Rightarrow> int" where
  "dr_offset d = (if tm_from_context (rq_timing (dr_requirement d)) then dr_settle d else 0)"

definition dr_before :: "drive \<Rightarrow> stated_outcome list" where
  "dr_before d = (case rq_before (dr_requirement d) of Some os \<Rightarrow> os | None \<Rightarrow> rq_otherwise (dr_requirement d))"

definition dr_recovery :: "drive \<Rightarrow> stated_outcome list" where
  "dr_recovery d = (case rq_recovery (dr_requirement d) of Some os \<Rightarrow> os | None \<Rightarrow> rq_otherwise (dr_requirement d))"

section \<open>The scenarios of one requirement\<close>

definition phase_of :: "requirement_set \<Rightarrow> drive \<Rightarrow> string \<Rightarrow> reading dict \<Rightarrow> int \<Rightarrow> stated_outcome list \<Rightarrow> acceptance_phase result" where
  "phase_of rs d n ins repeat outcomes = make_phase rs (dr_step d) n ins repeat outcomes []"

definition baseline :: "requirement_set \<Rightarrow> drive \<Rightarrow> stated_outcome list \<Rightarrow> acceptance_phase result" where
  "baseline rs d outcomes = phase_of rs d ''baseline: conditions not met'' (dr_violated d) (dr_settle d) outcomes"

definition trigger :: "requirement_set \<Rightarrow> drive \<Rightarrow> string \<Rightarrow> int \<Rightarrow> stated_outcome list \<Rightarrow> acceptance_phase result" where
  "trigger rs d n repeat outcomes = phase_of rs d n (dr_satisfied d) repeat outcomes"

text \<open>A scenario: the setup phases, then the given ones.\<close>

definition scenario :: "drive \<Rightarrow> scenario_kind \<Rightarrow> string option \<Rightarrow> acceptance_phase result list \<Rightarrow> test_plan \<Rightarrow> test_plan result" where
  "scenario d k subject phases plan =
     bindE (traverseE (\<lambda>p. p) phases) (\<lambda>ps. add_scenario (dr_id d) k subject (dr_setup d @ ps) plan)"

text \<open>The phase that reaches the outcomes, as most scenarios have it.\<close>

definition reach :: "requirement_set \<Rightarrow> drive \<Rightarrow> acceptance_phase result" where
  "reach rs d = trigger rs d ''conditions met'' (dr_delay d + dr_lag d + 2 - dr_offset d) (rq_outcomes (dr_requirement d))"

definition positive :: "requirement_set \<Rightarrow> drive \<Rightarrow> test_plan \<Rightarrow> test_plan result" where
  "positive rs d = scenario d Positive None [baseline rs d (rq_otherwise (dr_requirement d)), reach rs d]"

definition long_repeat :: "drive \<Rightarrow> int" where
  "long_repeat d = dr_delay d + dr_lag d + dr_release d + 2"

definition negative :: "requirement_set \<Rightarrow> drive \<Rightarrow> test_plan \<Rightarrow> test_plan result" where
  "negative rs d = scenario d Negative None
     [baseline rs d [], phase_of rs d ''conditions not met'' (dr_violated d) (long_repeat d) (rq_otherwise (dr_requirement d))]"

definition negative_single :: "requirement_set \<Rightarrow> drive \<Rightarrow> condition \<times> point_declaration \<Rightarrow> test_plan \<Rightarrow> test_plan result" where
  "negative_single rs d cp = (let n = cd_point (fst cp) in scenario d NegativeSingle (Some n)
     [baseline rs d [], phase_of rs d (''all met but '' @ n)
        (AList.update n (violating_value (fst cp) (snd cp)) (dr_satisfied d)) (long_repeat d) (rq_otherwise (dr_requirement d))])"

definition negatives :: "requirement_set \<Rightarrow> drive \<Rightarrow> test_plan \<Rightarrow> test_plan result" where
  "negatives rs d plan = bindE (negative rs d plan)
     (if 1 < length (dr_driven d) then foldE (negative_single rs d) (dr_driven d) else Inr)"

definition timing_scenarios :: "requirement_set \<Rightarrow> drive \<Rightarrow> test_plan \<Rightarrow> test_plan result" where
  "timing_scenarios rs d plan =
     (if 1 \<le> dr_delay d - 1 - dr_offset d then
        bindE (scenario d TimingBefore None
          [baseline rs d [], trigger rs d ''one scan short'' (dr_delay d - 1 - dr_offset d) (dr_before d)] plan)
        (scenario d TimingAfter None
          [baseline rs d [], trigger rs d ''delay elapsed'' (dr_delay d + dr_lag d - dr_offset d)
             (rq_outcomes (dr_requirement d))])
      else Inr plan)"

definition release_scenarios :: "requirement_set \<Rightarrow> drive \<Rightarrow> test_plan \<Rightarrow> test_plan result" where
  "release_scenarios rs d plan =
     (if 1 < dr_release d then
        bindE (scenario d ReleaseBefore None
          [baseline rs d [], reach rs d, phase_of rs d ''cleared, one scan short'' (dr_violated d) (dr_release d - 1)
             (rq_outcomes (dr_requirement d))] plan)
        (scenario d ReleaseAfter None
          [baseline rs d [], reach rs d, phase_of rs d ''cleared, release elapsed'' (dr_violated d)
             (dr_release d + dr_lag d) (rq_otherwise (dr_requirement d))])
      else Inr plan)"

definition boundary_scenario :: "requirement_set \<Rightarrow> drive \<Rightarrow> string \<Rightarrow> string \<times> pyfloat \<times> bool \<Rightarrow> test_plan \<Rightarrow> test_plan result" where
  "boundary_scenario rs d n edge = (case edge of (label, v, holds) \<Rightarrow>
     let subject = n @ '' '' @ label in
     scenario d (if holds then BoundaryTrue else BoundaryFalse) (Some subject)
       [baseline rs d [], phase_of rs d subject (AList.update n (Level v) (dr_satisfied d)) (long_repeat d)
          (if holds then rq_outcomes (dr_requirement d) else rq_otherwise (dr_requirement d))])"

definition deadband_scenarios :: "requirement_set \<Rightarrow> drive \<Rightarrow> string \<Rightarrow> pyfloat \<times> pyfloat \<Rightarrow> test_plan \<Rightarrow> test_plan result" where
  "deadband_scenarios rs d n edges plan = (case edges of (held, released) \<Rightarrow>
     bindE (scenario d DeadbandHold (Some n)
       [baseline rs d [], reach rs d, phase_of rs d ''inside the deadband''
          (AList.update n (Level held) (dr_satisfied d)) (dr_release d + 2) (rq_outcomes (dr_requirement d))] plan)
     (scenario d DeadbandRelease (Some n)
       [baseline rs d [], reach rs d, phase_of rs d ''past the deadband''
          (AList.update n (Level released) (dr_satisfied d)) (dr_release d + 2) (rq_otherwise (dr_requirement d))]))"

definition boundary_scenarios :: "requirement_set \<Rightarrow> drive \<Rightarrow> condition \<times> point_declaration \<Rightarrow> test_plan \<Rightarrow> test_plan result" where
  "boundary_scenarios rs d cp plan = (case cp of (c, p) \<Rightarrow>
     bindE (foldE (boundary_scenario rs d (cd_point c)) (boundary_values c p) plan)
       (case deadband_values c p of None \<Rightarrow> Inr | Some edges \<Rightarrow> deadband_scenarios rs d (cd_point c) edges))"

section \<open>Failures, recovery and gaps\<close>

fun mode_name :: "failure_mode \<Rightarrow> string" where
  "mode_name Stuck = ''stuck''"
| "mode_name OutOfRangeLow = ''out_of_range_low''"
| "mode_name OutOfRangeHigh = ''out_of_range_high''"
| "mode_name Stale = ''stale''"

text \<open>\<open>failure.mode.replace("_", " ")\<close>.\<close>

definition mode_words :: "failure_mode \<Rightarrow> string" where
  "mode_words m = map (\<lambda>c. if c = CHR ''_'' then CHR '' '' else c) (mode_name m)"

definition or_zero :: "pyfloat option \<Rightarrow> pyfloat" where
  "or_zero b = (case b of None \<Rightarrow> Fin 0 | Some x \<Rightarrow> if is_zero x then Fin 0 else x)"

definition beyond_range :: "point_declaration \<Rightarrow> pyfloat" where
  "beyond_range p = (let span = (case (pd_minimum p, pd_maximum p) of (Some low, Some high) \<Rightarrow> fsub high low | _ \<Rightarrow> Fin 0)
     in fmax (fmul span (lit (1 / 10))) (margin p))"

definition failure_fault :: "point_declaration \<Rightarrow> failure_behaviour \<Rightarrow> fault_injection" where
  "failure_fault p f = \<lparr>fi_id = fb_point f @ ''_'' @ mode_name (fb_mode f), fi_target = fb_point f,
     fi_kind = (case fb_mode f of Stuck \<Rightarrow> STUCK | Stale \<Rightarrow> STALE | _ \<Rightarrow> FORCE),
     fi_value = (case fb_mode f of
         OutOfRangeLow \<Rightarrow> PFloat (fsub (or_zero (pd_minimum p)) (beyond_range p))
       | OutOfRangeHigh \<Rightarrow> PFloat (fadd (or_zero (pd_maximum p)) (beyond_range p))
       | _ \<Rightarrow> PNone),
     fi_quality_target = None\<rparr>"

definition failure_scenario :: "requirement_set \<Rightarrow> drive \<Rightarrow> failure_behaviour \<Rightarrow> test_plan \<Rightarrow> test_plan result" where
  "failure_scenario rs d f plan = bindE (point_of rs (fb_point f)) (\<lambda>p.
     let subject = fb_point f @ '' '' @ mode_words (fb_mode f); outcomes = rq_outcomes (dr_requirement d) in
     scenario d Failure (Some subject)
       [baseline rs d [], trigger rs d ''conditions met'' (dr_delay d + dr_lag d + 2) outcomes,
        make_phase rs (dr_step d) subject (dr_satisfied d) (dr_delay d + 2) (fb_outcomes f) [failure_fault p f],
        trigger rs d ''input healthy again'' (dr_delay d + 2) outcomes] plan)"

definition recovery_scenario :: "requirement_set \<Rightarrow> drive \<Rightarrow> test_plan \<Rightarrow> test_plan result" where
  "recovery_scenario rs d = scenario d Recovery None
     [baseline rs d [], reach rs d, phase_of rs d ''conditions cleared'' (dr_violated d) (dr_release d + 2) (dr_recovery d)]"

text \<open>\<open>abs(seconds / step - round(seconds / step)) > 1e-9\<close>.\<close>

definition off_scan :: "pyfloat \<Rightarrow> pyfloat \<Rightarrow> bool result" where
  "off_scan seconds step = (if is_zero seconds then Inr False
     else bindE (fdiv seconds step) (\<lambda>q. bindE (to_int_with round_even q) (\<lambda>n. bindE (float_of_int n) (\<lambda>x.
       Inr (fless (lit (1 / 10 ^ 9)) (fabs (fsub q x)))))))"

definition timing_gap :: "drive \<Rightarrow> pyfloat \<Rightarrow> test_plan \<Rightarrow> test_plan result" where
  "timing_gap d seconds plan = mapE (\<lambda>off. if off then add_gap (dr_id d) TimingResolution plan else plan)
     (off_scan seconds (dr_step d))"

definition unreachable_gap :: "drive \<Rightarrow> condition \<times> point_declaration \<Rightarrow> test_plan \<Rightarrow> test_plan" where
  "unreachable_gap d cp plan = (if same_reading (satisfying_value (fst cp) (snd cp)) (violating_value (fst cp) (snd cp))
     then add_gap (dr_id d) UnreachableCondition plan else plan)"

definition failure_modes :: "point_declaration \<Rightarrow> failure_mode list" where
  "failure_modes p = [Stuck, Stale] @ (if pd_type p = NUMERIC then [OutOfRangeLow, OutOfRangeHigh] else [])"

definition states_failures :: "requirement \<Rightarrow> condition \<times> point_declaration \<Rightarrow> bool" where
  "states_failures r cp = list_all (\<lambda>m. (cd_point (fst cp), m) \<in> set (map (\<lambda>f. (fb_point f, fb_mode f)) (rq_failures r)))
     (failure_modes (snd cp))"

definition opening_gaps :: "drive \<Rightarrow> test_plan \<Rightarrow> test_plan result" where
  "opening_gaps d plan = (let r = dr_requirement d in
     bindE (timing_gap d (tm_delay (rq_timing r)) (fold (unreachable_gap d) (dr_driven d) plan)) (\<lambda>plan.
     mapE (\<lambda>plan. if rq_otherwise r = [] then add_gap (dr_id d) NoOtherwise plan else plan)
       (timing_gap d (tm_release (rq_timing r)) plan)))"

definition failure_scenarios :: "requirement_set \<Rightarrow> drive \<Rightarrow> test_plan \<Rightarrow> test_plan result" where
  "failure_scenarios rs d plan = (let r = dr_requirement d in
     mapE (\<lambda>plan. if list_all (states_failures r) (dr_driven d) then plan else add_gap (dr_id d) UnstatedFailure plan)
       (foldE (failure_scenario rs d) (rq_failures r) plan))"

definition author_requirement :: "requirement_set \<Rightarrow> requirement \<Rightarrow> test_plan \<Rightarrow> test_plan result" where
  "author_requirement rs r plan = bindE (drive_of rs r) (\<lambda>d.
     foldE (\<lambda>f. f) [opening_gaps d, positive rs d, negatives rs d, timing_scenarios rs d, release_scenarios rs d,
       foldE (boundary_scenarios rs d) (dr_driven d), failure_scenarios rs d, recovery_scenario rs d] plan)"

text \<open>The digest of the requirement set is an argument.\<close>

definition generate_test_plan :: "(requirement_set \<Rightarrow> string) \<Rightarrow> requirement_set \<Rightarrow> test_plan result" where
  "generate_test_plan digest rs = foldE (author_requirement rs) (rs_requirements rs)
     \<lparr>tn_sequence_id = rs_sequence_id rs, tn_requirements_digest = digest rs, tn_scenarios = [],
      tn_invariant_ids = map iv_id (rs_invariants rs), tn_gaps = []\<rparr>"

end
