(* ===== verification/AuthorValues.thy ===== *)
theory AuthorValues
  imports TestAuthor FloatFacts
begin

text \<open>
  The values the test author chooses on either side of a condition, and the inputs the
  protocol draws at random: when they are what they are labelled as.
\<close>

section \<open>Checks that passed\<close>

lemma raise_unit [simp]: "raise_if b msg okE = Inr u \<longleftrightarrow> \<not> b"
  by (auto simp: raise_if_def okE_def)

lemma guarded_unit [simp]: "guarded b r = Inr u \<longleftrightarrow> (b \<longrightarrow> r = Inr ())"
  by (auto simp: guarded_def okE_def)

lemma condition_checked:
  assumes "condition_ok c"
  shows "fle (Fin 0) (cd_deadband c)"
    and "is_flag (cd_value c) \<Longrightarrow> cd_operator c \<in> {EQ, NE}"
    and "cd_operator c \<noteq> BETWEEN \<Longrightarrow> cd_upper c = None"
    and "cd_operator c = BETWEEN \<Longrightarrow> \<exists>u. cd_upper c = Some u \<and> \<not> fless u (level_of (cd_value c))"
  using assms by (auto simp: condition_ok_def condition_matches_value_def bindE_eq_Inr split: option.splits)

section \<open>Ordered sums\<close>

lemma fless_asym: "fless a b \<Longrightarrow> \<not> fless b a"
  using fless_not_fle fless_imp_fle by blast

lemma fle_antisym_feq: "fle a b \<Longrightarrow> fle b a \<Longrightarrow> feq a b"
  by (cases a; cases b) (auto simp: fle_def)

lemma fadd_finite_args: "fisfinite (fadd a b) \<Longrightarrow> fisfinite a \<and> fisfinite b"
  by (cases a; cases b) simp_all

lemma fneg_finite [simp]: "fisfinite (fneg a) = fisfinite a"
  by (cases a) simp_all

lemma fsub_finite_args: "fisfinite (fsub a b) \<Longrightarrow> fisfinite a \<and> fisfinite b"
  using fadd_finite_args [of a "fneg b"] by (simp add: fsub_def)

lemma fadd_rnd: "fisfinite a \<Longrightarrow> fisfinite b \<Longrightarrow> fadd a b = rnd (fval a + fval b) \<or> (a = NegZero \<and> b = NegZero \<and> fadd a b = NegZero)"
  by (cases a; cases b) simp_all

lemma rnd_wf_fle: "wf_float a \<Longrightarrow> fisfinite a \<Longrightarrow> fle (rnd (fval a)) a \<and> fle a (rnd (fval a))"
  by (auto simp: rnd_wf_fval fle_def)

lemma fadd_up:
  assumes "wf_float a" and "fisfinite a" and "fisfinite b" and "fle (Fin 0) b"
  shows "fle a (fadd a b)"
proof -
  have "fval a \<le> fval a + fval b" using assms(3,4) by (simp add: fle_finite)
  then have "fle (rnd (fval a)) (rnd (fval a + fval b))" by (rule rnd_mono)
  moreover have "fle a (rnd (fval a))" using rnd_wf_fle assms by blast
  ultimately show ?thesis using fadd_rnd [OF assms(2,3)] fle_trans by auto
qed

lemma fsub_down:
  assumes "wf_float a" and "fisfinite a" and "fisfinite b" and "fle (Fin 0) b"
  shows "fle (fsub a b) a"
proof -
  have b: "fval (fneg b) \<le> 0" using assms(3,4) by (cases b) (auto simp: fle_def)
  then have "fval a + fval (fneg b) \<le> fval a" by simp
  then have "fle (rnd (fval a + fval (fneg b))) (rnd (fval a))" by (rule rnd_mono)
  moreover have "fle (rnd (fval a)) a" using rnd_wf_fle assms by blast
  ultimately show ?thesis
    unfolding fsub_def using fadd_rnd [of a "fneg b"] assms(2,3) fle_trans by auto
qed

lemma fadd_mono_left:
  assumes "fisfinite a" "fisfinite a'" "fisfinite b" "fle a a'"
  shows "fle (fadd a b) (fadd a' b)"
proof -
  have "fval a + fval b \<le> fval a' + fval b" using assms by (simp add: fle_finite)
  then have r: "fle (rnd (fval a + fval b)) (rnd (fval a' + fval b))" by (rule rnd_mono)
  have z: "fle NegZero (rnd (fval a' + fval b))" if "fval a + fval b = 0"
    using r that by (simp add: fle_def) (cases "rnd (fval a' + fval b)"; simp)
  have z': "fle (rnd (fval a + fval b)) NegZero" if "fval a' + fval b = 0"
    using r that by (simp add: fle_def) (cases "rnd (fval a + fval b)"; simp)
  show ?thesis
    using fadd_rnd [OF assms(1,3)] fadd_rnd [OF assms(2,3)] r z z' by auto
qed

lemma fsub_mono_left:
  "fisfinite a \<Longrightarrow> fisfinite a' \<Longrightarrow> fisfinite b \<Longrightarrow> fle a a' \<Longrightarrow> fle (fsub a b) (fsub a' b)"
  unfolding fsub_def by (rule fadd_mono_left) simp_all

section \<open>Values inside the declared range\<close>

definition inside :: "point_declaration \<Rightarrow> pyfloat \<Rightarrow> bool" where
  "inside p v \<longleftrightarrow> fisfinite v \<and> pred_option (\<lambda>low. fle low v) (pd_minimum p) \<and> pred_option (fle v) (pd_maximum p)"

lemma inside_between: "inside p a \<Longrightarrow> inside p b \<Longrightarrow> fle a v \<Longrightarrow> fle v b \<Longrightarrow> inside p v"
  by (auto simp: inside_def pred_option_def intro: fle_trans fle_fisfinite)

lemma feq_fless: "feq a a' \<Longrightarrow> fless b a \<longleftrightarrow> fless b a'" "feq a a' \<Longrightarrow> fless a b \<longleftrightarrow> fless a' b"
  by (cases a; cases a'; cases b; simp)+

lemma feq_fle: "feq a a' \<Longrightarrow> fle b a \<longleftrightarrow> fle b a'" "feq a a' \<Longrightarrow> fle a b \<longleftrightarrow> fle a' b"
  by (cases a; cases a'; cases b; simp add: fle_def)+

lemma fmax_feq: "fle low v \<Longrightarrow> feq (fmax low v) v"
  by (auto simp: fmax_def fle_def dest: fless_not_NaN)

lemma fmin_feq: "feq w v \<Longrightarrow> fle v high \<Longrightarrow> feq (fmin high w) v"
  using feq_fless(2) [of w v high] by (auto simp: fmin_def fle_def feq_sym)

lemma clamp_inside: "inside p v \<Longrightarrow> feq (clamp_to p v) v"
  by (auto simp: inside_def clamp_to_def Let_def fmax_feq fmin_feq split: option.splits)

lemma close_to_feq: "feq a a' \<Longrightarrow> close_to a b \<longleftrightarrow> close_to a' b"
  by (cases a; cases a'; cases b; simp add: close_to_def fisclose_def fsub_def fmul_def zero_of_sign_def Let_def)

lemma condition_holds_clamp:
  assumes "cd_value c = Level t" and "inside p v"
  shows "condition_holds c (Level (clamp_to p v)) = condition_holds c (Level v)"
proof -
  note e = clamp_inside [OF assms(2)]
  show ?thesis
    by (simp add: condition_holds_def assms(1) feq_fless [OF e] feq_fle [OF e] close_to_feq [OF e]
        split: comparison_operator.split)
qed

section \<open>Both sides of a condition\<close>

text \<open>The declared range holds the values on both sides, past the deadband by a margin, and the
  margin is visible at the threshold: it is not lost to rounding.\<close>

definition sides_reachable :: "condition \<Rightarrow> point_declaration \<Rightarrow> bool" where
  "sides_reachable c p \<longleftrightarrow> (case cd_value c of Flag _ \<Rightarrow> True
     | Level t \<Rightarrow> (let m = margin p; d = cd_deadband c; u = upper_or (cd_upper c) t in
         wf_float t \<and> wf_float u \<and> fle (Fin 0) m \<and> inside p (fsub (fsub t d) m) \<and> inside p (fadd (fadd u d) m)
         \<and> fless t (fadd t m) \<and> fless (fsub t m) t \<and> fless u (fadd u m)
         \<and> (cd_operator c \<in> {EQ, NE} \<longrightarrow> \<not> close_to (fadd t m) t)))"

lemma rnd_rat_double:
  assumes "rnd_rat q = q"
  shows "rnd_rat (2 * q) = 2 * q"
proof -
  obtain m where m: "q = of_int m * 2 powi ulp_exp q" "\<bar>m\<bar> \<le> 2 ^ 53"
    using rnd_rat_shape [of q] assms by metis
  have "2 * q = of_int m * 2 powi (ulp_exp q + 1)"
    by (subst m(1)) (simp add: powi2_add)
  moreover have "rnd_rat (of_int m * 2 powi (ulp_exp q + 1)) = of_int m * 2 powi (ulp_exp q + 1)"
    using m(2) ulp_exp_ge [of q] by (intro rnd_rat_exact) auto
  ultimately show ?thesis by simp
qed

lemma half_between:
  assumes t: "wf_float t" "fisfinite t" and u: "wf_float u" "fisfinite u" and "fle t u" and s: "fisfinite (fadd t u)"
  shows "fle t (over_constant (fadd t u) 2) \<and> fle (over_constant (fadd t u) 2) u"
proof -
  let ?s = "fadd t u"
  have le: "fval t \<le> fval u" using assms by (simp add: fle_finite)
  have val: "fval ?s = rnd_rat (fval t + fval u)"
    using fadd_rnd [OF t(2) u(2)] s by (auto simp: fisfinite_rnd fval_rnd)
  have "rnd_rat (2 * fval t) \<le> fval ?s" "fval ?s \<le> rnd_rat (2 * fval u)"
    unfolding val using le by (intro rnd_rat_mono; simp)+
  then have half: "fval t \<le> fval ?s / 2" "fval ?s / 2 \<le> fval u"
    using rnd_rat_double [OF wf_finite_representable [OF t]] rnd_rat_double [OF wf_finite_representable [OF u]] by simp_all
  show ?thesis
  proof (cases "is_zero ?s")
    case True
    then have "fval ?s = 0" by (cases ?s) simp_all
    then have "fval t \<le> 0" "0 \<le> fval u" using half by simp_all
    with True s t(2) u(2) show ?thesis
      by (cases t; cases u) (auto simp: over_constant_def fdiv_def zero_of_sign_def fle_def Let_def fisnan_iff)
  next
    case False
    then have "over_constant ?s 2 = rnd (fval ?s / 2)"
      using s by (simp add: over_constant_def fdiv_def Let_def fisnan_iff)
    moreover have "fle (rnd (fval t)) (rnd (fval ?s / 2))" "fle (rnd (fval ?s / 2)) (rnd (fval u))"
      by (rule rnd_mono [OF half(1)]) (rule rnd_mono [OF half(2)])
    ultimately show ?thesis
      using rnd_wf_fle [OF t] rnd_wf_fle [OF u] fle_trans by metis
  qed
qed

lemma condition_upper:
  assumes "condition_ok c" "cd_value c = Level t" "t \<noteq> NaN" "upper_or (cd_upper c) t \<noteq> NaN"
  shows "fle t (upper_or (cd_upper c) t)"
  using condition_checked(3,4) [OF assms(1)] assms(2-)
  by (cases "cd_operator c = BETWEEN") (auto simp: upper_or_def not_fless_iff split: if_splits)

text \<open>C23: For a coherent condition on a declared input whose range holds both sides by a visible
  margin, and whose limits add up without overflow when it is a range, the test author's labels are right: the satisfying value makes the condition true as the
  protocol's own oracle evaluates it, the violating value makes it false, and every boundary value
  is on the side its scenario claims.\<close>

theorem chosen_values_are_on_their_side:
  assumes ok: "condition_ok c" and reach: "sides_reachable c p"
    and mid: "cd_operator c = BETWEEN \<Longrightarrow> fisfinite (fadd (level_of (cd_value c)) (upper_or (cd_upper c) (level_of (cd_value c))))"
  shows "condition_holds c (satisfying_value c p) \<and> \<not> condition_holds c (violating_value c p)
    \<and> (\<forall>(label, v, holds) \<in> set (boundary_values c p). condition_holds c (Level v) = holds)"
proof (cases "cd_value c")
  case (Flag b)
  then have "cd_operator c \<in> {EQ, NE}"
    using condition_checked(2) [OF ok] by simp
  with Flag show ?thesis
    by (auto simp: condition_holds_def satisfying_value_def violating_value_def boundary_values_def)
next
  case (Level t)
  define m d u where "m = margin p" and "d = cd_deadband c" and "u = upper_or (cd_upper c) t"
  have R: "wf_float t" "wf_float u" "fle (Fin 0) m" "inside p (fsub (fsub t d) m)" "inside p (fadd (fadd u d) m)"
    "fless t (fadd t m)" "fless (fsub t m) t" "fless u (fadd u m)" "cd_operator c \<in> {EQ, NE} \<Longrightarrow> \<not> close_to (fadd t m) t"
    using reach by (simp_all add: sides_reachable_def Level Let_def m_def d_def u_def)
  have fin: "fisfinite (fsub t d)" "fisfinite m" "fisfinite (fadd u d)"
    using R(4,5) fsub_finite_args fadd_finite_args unfolding inside_def by blast+
  then have fin': "fisfinite t" "fisfinite d" "fisfinite u" using fsub_finite_args fadd_finite_args by blast+
  have d: "fle (Fin 0) d" using ok by (simp add: condition_ok_def d_def)
  have td: "fle (fsub t d) t" and ud: "fle u (fadd u d)"
    using fsub_down [OF R(1) fin'(1,2) d] fadd_up [OF R(2) fin'(3,2) d] by auto
  have low: "fle (fsub (fsub t d) m) (fsub t m)" and high: "fle (fadd u m) (fadd (fadd u d) m)"
    using fsub_mono_left [OF fin(1) fin'(1) fin(2) td] fadd_mono_left [OF fin'(3) fin(3,2) ud] by auto
  have tu: "fle t u" using condition_upper [OF ok Level] fin' by (simp add: u_def)
  have chain: "fle (fsub t m) t" "fle t (fadd t m)" "fle u (fadd u m)" using R(6-8) fless_imp_fle by blast+
  have in1: "inside p (fsub t m)" "inside p t" "inside p u" "inside p (fadd u m)"
    by (rule inside_between [OF R(4,5)]; meson chain low high tu fle_trans)+
  note holds = condition_holds_clamp [OF Level]
  have same_upper: "cd_operator c \<noteq> BETWEEN \<Longrightarrow> u = t"
    using condition_checked(3) [OF ok] by (simp add: u_def upper_or_def)
  have below: "fless (fsub (fsub t d) m) t" using low R(7) by (rule fle_fless_trans)
  have above: "fless u (fadd (fadd u d) m)" using R(8) high by (rule fless_fle_trans)
  have t_holds: "close_to t t" using fin'(1) by (simp add: close_to_def fisclose_def)
  show ?thesis
  proof (cases "cd_operator c")
    case BETWEEN
    have mid': "fle t (over_constant (fadd t u) 2)" "fle (over_constant (fadd t u) 2) u"
      using half_between [OF R(1) fin'(1) R(2) fin'(3) tu] mid [OF BETWEEN] by (simp_all add: Level u_def)
    have in2: "inside p (over_constant (fadd t u) 2)" by (rule inside_between [OF in1(2,3) mid'])
    show ?thesis
      using in1 in2 mid' R(7,8) tu
      by (auto simp: satisfying_value_def violating_value_def boundary_values_def condition_bounds_def Level BETWEEN holds
          simp flip: m_def u_def)
        (auto simp: condition_holds_def Level BETWEEN dest: fless_not_fle simp flip: m_def u_def)
  next
    case GT
    note ut = same_upper [unfolded GT, simplified]
    show ?thesis
      using in1 [unfolded ut] R(4-9) [unfolded ut] below above [unfolded ut] t_holds GT
      by (auto simp: satisfying_value_def violating_value_def boundary_values_def condition_bounds_def Level GT holds
          simp flip: m_def d_def)
        (auto simp: condition_holds_def Level GT dest: fless_not_fle fless_asym simp flip: m_def d_def)
  next
    case GTE
    note ut = same_upper [unfolded GTE, simplified]
    show ?thesis
      using in1 [unfolded ut] R(4-9) [unfolded ut] below above [unfolded ut] t_holds GTE
      by (auto simp: satisfying_value_def violating_value_def boundary_values_def condition_bounds_def Level GTE holds
          simp flip: m_def d_def)
        (auto simp: condition_holds_def Level GTE dest: fless_not_fle fless_asym simp flip: m_def d_def)
  next
    case LT
    note ut = same_upper [unfolded LT, simplified]
    show ?thesis
      using in1 [unfolded ut] R(4-9) [unfolded ut] below above [unfolded ut] t_holds LT
      by (auto simp: satisfying_value_def violating_value_def boundary_values_def condition_bounds_def Level LT holds
          simp flip: m_def d_def)
        (auto simp: condition_holds_def Level LT dest: fless_not_fle fless_asym simp flip: m_def d_def)
  next
    case LTE
    note ut = same_upper [unfolded LTE, simplified]
    show ?thesis
      using in1 [unfolded ut] R(4-9) [unfolded ut] below above [unfolded ut] t_holds LTE
      by (auto simp: satisfying_value_def violating_value_def boundary_values_def condition_bounds_def Level LTE holds
          simp flip: m_def d_def)
        (auto simp: condition_holds_def Level LTE dest: fless_not_fle fless_asym simp flip: m_def d_def)
  next
    case EQ
    note ut = same_upper [unfolded EQ, simplified]
    show ?thesis
      using in1 [unfolded ut] R(4-9) [unfolded ut] below above [unfolded ut] t_holds EQ
      by (auto simp: satisfying_value_def violating_value_def boundary_values_def condition_bounds_def Level EQ holds
          simp flip: m_def d_def)
        (auto simp: condition_holds_def Level EQ dest: fless_not_fle fless_asym simp flip: m_def d_def)
  next
    case NE
    note ut = same_upper [unfolded NE, simplified]
    show ?thesis
      using in1 [unfolded ut] R(4-9) [unfolded ut] below above [unfolded ut] t_holds NE
      by (auto simp: satisfying_value_def violating_value_def boundary_values_def condition_bounds_def Level NE holds
          simp flip: m_def d_def)
        (auto simp: condition_holds_def Level NE dest: fless_not_fle fless_asym simp flip: m_def d_def)
  qed
qed

text \<open>The sides of a level switch on a room temperature, as an example.\<close>

definition warm_point :: point_declaration where
  "warm_point = \<lparr>pd_name = ''temperature'', pd_type = NUMERIC, pd_direction = Incoming, pd_minimum = Some (Fin 0),
     pd_maximum = Some (Fin 100), pd_nominal = Level (Fin 20), pd_resolution = Some (Fin 1)\<rparr>"

definition above_condition :: "rat \<Rightarrow> condition" where
  "above_condition t = \<lparr>cd_point = ''temperature'', cd_operator = GT, cd_value = Level (Fin t), cd_upper = None,
     cd_deadband = Fin 2\<rparr>"

lemma chosen_values_are_on_their_side_witness:
  "condition_holds (above_condition 25) (satisfying_value (above_condition 25) warm_point)
    \<and> \<not> condition_holds (above_condition 25) (violating_value (above_condition 25) warm_point)
    \<and> satisfying_value (above_condition 25) warm_point = Level (Fin 26)
    \<and> violating_value (above_condition 25) warm_point = Level (Fin 22)"
proof -
  have ok: "condition_ok (above_condition 25)"
    by (simp add: condition_ok_def above_condition_def condition_matches_value_def name_ok_def is_ident_def ident_start_def
        ident_char_def ascii_alpha_def ascii_digit_def okE_def)
  have reach: "sides_reachable (above_condition 25) warm_point"
    by (simp add: sides_reachable_def above_condition_def warm_point_def margin_def inside_def fsub_def upper_or_def Let_def)
  have "satisfying_value (above_condition 25) warm_point = Level (Fin 26)"
    "violating_value (above_condition 25) warm_point = Level (Fin 22)"
    by (simp_all add: satisfying_value_def violating_value_def above_condition_def warm_point_def margin_def clamp_to_def
        fmin_def fmax_def fsub_def Let_def)
  then show ?thesis
    using chosen_values_are_on_their_side [OF ok reach] by (simp add: above_condition_def)
qed

section \<open>A threshold beyond the range\<close>

lemma margin_nonneg:
  assumes "point_ok p" and "pd_type p = NUMERIC" and "pd_minimum p = Some low" and "pd_maximum p = Some high"
  shows "fle (Fin 0) (margin p)" and "fless low high" and "fisfinite high"
proof -
  have *: "pred_option (fless (Fin 0)) (pd_resolution p)" "fisfinite low" "fisfinite high" "\<not> fle high low"
    using assms by (auto simp: point_ok_def range_is_coherent_def bindE_eq_Inr)
  then have "low \<noteq> NaN" "high \<noteq> NaN" by auto
  then show less: "fless low high" using not_fle_iff [of high low] *(4) by blast
  show "fisfinite high" by fact
  have sub: "fle (Fin 0) (fsub high low)"
  proof -
    have "0 \<le> fval high + fval (fneg low)" using less *(2,3) by (cases low; cases high) auto
    then have "fle (Fin 0) (rnd (fval high + fval (fneg low)))" by (rule rnd_nonneg)
    then show ?thesis using fadd_rnd [of high "fneg low"] *(2,3) by (auto simp: fsub_def fle_def)
  qed
  have "fle (Fin 0) (over_constant x 1000)" if "fle (Fin 0) x" for x
    using that rnd_nonneg [of "fval x / 1000"]
    by (cases x) (auto simp: over_constant_def fdiv_def zero_of_sign_def inf_of_sign_def fle_def Let_def)
  then show "fle (Fin 0) (margin p)"
    using sub *(1) fless_imp_fle by (auto simp: margin_def assms(3,4) split: option.splits)
qed

text \<open>C27: When a requirement asks for an input above a threshold at or past its declared maximum,
  or for one at or above a threshold past it, no value of the input's range satisfies the condition; the test author
  uses the maximum as the satisfying value all the same, so the positive scenario and a boundary
  scenario labelled as true run on inputs that do not meet the condition.  The gap is recorded only
  when the violating value, a deadband and a margin below the threshold, reaches the maximum as
  well; otherwise the plan says nothing.\<close>

theorem unreachable_threshold_is_not_reported:
  assumes "condition_ok c" and "point_ok p" and "pd_type p = NUMERIC"
    and "pd_minimum p = Some low" and "pd_maximum p = Some high"
    and "cd_value c = Level t" and "wf_float t" and "fisfinite t"
    and beyond: "cd_operator c = GT \<and> fle high t \<or> cd_operator c = GTE \<and> fless high t"
  shows "(\<forall>v. fle v high \<longrightarrow> \<not> condition_holds c (Level v))
    \<and> satisfying_value c p = Level high
    \<and> (\<exists>label v. (label, v, True) \<in> set (boundary_values c p) \<and> \<not> condition_holds c (Level v))
    \<and> unreachable_gap d (c, p) plan
        = (if fle high (fsub (fsub t (cd_deadband c)) (margin p)) then add_gap (dr_id d) UnreachableCondition plan else plan)"
proof -
  note range = margin_nonneg [OF assms(2-5)]
  have ht: "fle high t" using beyond fless_imp_fle by blast
  have up: "fle t (fadd t (margin p))"
  proof (cases "fisfinite (margin p)")
    case False
    then have "margin p = PInf" using range(1) by (cases "margin p") (auto simp: fle_def)
    then show ?thesis using assms(8) by (cases t) (auto simp: fle_def)
  qed (use fadd_up [OF assms(7,8)] range(1) in blast)
  have clamp: "clamp_to p v = high" if "fle high v" for v
    using fless_fle_trans [OF range(2) that] fless_not_fle that
    by (auto simp: clamp_to_def fmax_def fmin_def assms(4,5))
  have sat: "satisfying_value c p = Level high"
    using beyond clamp [OF ht] clamp [OF fle_trans [OF ht up]] by (auto simp: satisfying_value_def assms(6))
  have none: "\<not> condition_holds c (Level v)" if "fle v high" for v
    using beyond that fle_trans [OF that ht] fle_fless_trans [OF that] fless_not_fle
    by (auto simp: condition_holds_def assms(6))
  have self: "fle high high" using range(3) by (simp add: fle_def)
  have edge: "\<exists>label. (label, high, True) \<in> set (boundary_values c p)"
    using beyond clamp [OF ht] clamp [OF fle_trans [OF ht up]]
    by (auto simp: boundary_values_def condition_bounds_def assms(6))
  let ?y = "fsub (fsub t (cd_deadband c)) (margin p)"
  have viol: "violating_value c p = Level (clamp_to p ?y)"
    using beyond by (auto simp: violating_value_def assms(6))
  have "feq high (clamp_to p ?y) \<longleftrightarrow> fle high ?y"
  proof (cases "fle high ?y")
    case True
    then show ?thesis using clamp [OF True] range(3) by auto
  next
    case False
    have "\<not> feq high low" using range(2) feq_fless(1) fless_irrefl by blast
    moreover have "\<not> feq high ?y" using False by (auto simp: fle_def)
    moreover have "fless ?y high" if "fless low ?y"
      using that False not_fle_iff [of high ?y] range(3) by (cases high; cases ?y; cases low) auto
    ultimately show ?thesis using False range(2) by (auto simp: clamp_to_def fmax_def fmin_def assms(4,5))
  qed
  then show ?thesis
    using none sat edge none [OF self] by (auto simp: unreachable_gap_def viol)
qed

lemma above_warm_ok: "condition_ok (above_condition t)" "point_ok warm_point" "pd_type warm_point = NUMERIC"
  by (simp_all add: condition_ok_def above_condition_def condition_matches_value_def point_ok_def range_is_coherent_def
      warm_point_def name_ok_def is_ident_def ident_start_def ident_char_def ascii_alpha_def ascii_digit_def okE_def)

text \<open>Above 100 on a range up to 100 goes unreported; above 150 is reported.\<close>

lemma unreachable_threshold_is_not_reported_witness:
  "(\<forall>d plan. unreachable_gap d (above_condition 100, warm_point) plan = plan
      \<and> unreachable_gap d (above_condition 150, warm_point) plan = add_gap (dr_id d) UnreachableCondition plan)
    \<and> \<not> condition_holds (above_condition 150) (satisfying_value (above_condition 150) warm_point)"
  using unreachable_threshold_is_not_reported [OF above_warm_ok(1) above_warm_ok(2,3), of "Fin 0" "Fin 100" 100 "Fin 100"]
    unreachable_threshold_is_not_reported [OF above_warm_ok(1) above_warm_ok(2,3), of "Fin 0" "Fin 100" 150 "Fin 150"]
  by (simp add: above_condition_def warm_point_def margin_def fsub_def)

end
