(* ===== verification/OracleFacts.thy ===== *)
theory OracleFacts
  imports AuthorValues
begin

text \<open>
  The protocol's oracle and the acceptance harness judge the same outcomes; the inputs the
  protocol draws stay where they were declared.
\<close>

section \<open>The two oracles\<close>

lemma fsub_zero: "wf_float e \<Longrightarrow> is_zero z \<Longrightarrow> feq (fsub e z) e \<or> e = NaN"
  using rnd_wf_fval [of e] by (cases e; cases z) (auto simp: fsub_def simp del: wf_float.simps)

lemma fadd_zero: "wf_float e \<Longrightarrow> is_zero z \<Longrightarrow> feq (fadd e z) e \<or> e = NaN"
  using rnd_wf_fval [of e] by (cases e; cases z) (auto simp del: wf_float.simps)

text \<open>C22: The oracle that checks invariants and the oracle of the acceptance harness agree on every
  stated outcome: on a finite value of the outcome's type they give the same verdict, whenever the
  outcome has no tolerance, or compares for equality, inequality or a range, and its upper limit is
  not zero.\<close>

theorem oracles_agree:
  assumes ok: "outcome_ok o1" and type: "is_flag v = is_flag (so_value o1)"
    and wf: "wf_float (level_of v)" "wf_float (level_of (so_value o1))" "fisfinite (level_of v)"
    and exact: "is_zero (so_tolerance o1) \<or> so_operator o1 \<in> {EQ, NE, BETWEEN}"
    and upper: "\<not> pred_option is_zero (so_upper o1) \<or> so_upper o1 = None"
  shows "compare_values (reading_value v) (so_operator o1) (reading_value (so_value o1)) (so_upper o1) (so_tolerance o1)
    = Inr (outcome_holds o1 v)"
proof (cases "so_value o1")
  case (Flag b)
  then obtain x where v: "v = Flag x" using type by (cases v) auto
  have "so_operator o1 \<in> {EQ, NE}"
    using ok Flag by (auto simp: outcome_ok_def outcome_matches_value_def bindE_eq_Inr)
  then show ?thesis by (auto simp: v Flag compare_values_def outcome_holds_def)
next
  case (Level e)
  then obtain x where v: "v = Level x" using type by (cases v) auto
  have between: "so_operator o1 = BETWEEN \<Longrightarrow> \<exists>u. so_upper o1 = Some u \<and> \<not> is_zero u"
    using ok upper by (auto simp: outcome_ok_def outcome_matches_value_def bindE_eq_Inr split: option.splits)
  show ?thesis
  proof (cases "so_operator o1 \<in> {EQ, NE, BETWEEN}")
    case True
    then show ?thesis
      using between wf(3) by (auto simp: v Level compare_values_def outcome_holds_def upper_or_def Let_def)
  next
    case False
    then have z: "is_zero (so_tolerance o1)" using exact by simp
    have fin: "fisfinite x" "wf_float x" "wf_float e" using wf by (simp_all add: v Level)
    show ?thesis
    proof (cases "e = NaN")
      case True
      then show ?thesis using False fin(1)
        by (cases "so_operator o1") (auto simp: v Level compare_values_def outcome_holds_def fsub_def)
    next
      case num: False
      have q: "feq (fsub e (so_tolerance o1)) e" "feq (fadd e (so_tolerance o1)) e"
        "feq (fsub x (so_tolerance o1)) x" "feq (fadd x (so_tolerance o1)) x"
        using fsub_zero [OF _ z] fadd_zero [OF _ z] fin num by fastforce+
      show ?thesis using False fin(1)
        by (cases "so_operator o1")
          (simp_all add: v Level compare_values_def outcome_holds_def feq_fless [OF q(1)] feq_fless [OF q(2)]
            feq_fle [OF q(1)] feq_fle [OF q(2)] feq_fle [OF q(3)] feq_fle [OF q(4)])
    qed
  qed
qed

definition cooled_outcome :: stated_outcome where
  "cooled_outcome = \<lparr>so_point = ''valve'', so_operator = GTE, so_value = Level (Fin 50), so_upper = None, so_tolerance = Fin 0\<rparr>"

lemma oracles_agree_witness:
  "compare_values (PFloat (Fin 60)) GTE (PFloat (Fin 50)) None (Fin 0) = Inr (outcome_holds cooled_outcome (Level (Fin 60)))"
  using oracles_agree [of cooled_outcome "Level (Fin 60)"]
  by (simp add: cooled_outcome_def outcome_ok_def outcome_matches_value_def name_ok_def is_ident_def ident_start_def
      ident_char_def ascii_alpha_def ascii_digit_def okE_def)

text \<open>C26: An upper limit of zero is read as no upper limit: a range from a negative number to zero
  is accepted by the validators of conditions and of outcomes, but both protocol oracles hold on
  its lower end only (for an outcome without a tolerance), while the acceptance harness accepts
  the whole range for the same outcome.\<close>

theorem zero_upper_limit_is_lost:
  assumes "fless t (Fin 0)" and "wf_float t" and "fisfinite t"
    and "cd_operator c = BETWEEN" "cd_value c = Level t" "cd_upper c = Some (Fin 0)"
    and "so_operator o1 = BETWEEN" "so_value o1 = Level t" "so_upper o1 = Some (Fin 0)" "so_tolerance o1 = Fin 0"
  shows "condition_matches_value c = Inr () \<and> outcome_matches_value o1 = Inr ()
    \<and> (\<forall>x. condition_holds c (Level x) \<longleftrightarrow> feq x t)
    \<and> (\<forall>x. outcome_holds o1 (Level x) \<longleftrightarrow> feq x t)
    \<and> (\<forall>x. compare_values (PFloat x) (so_operator o1) (reading_value (so_value o1)) (so_upper o1) (so_tolerance o1)
          = Inr (fle t x \<and> fle x (Fin 0)))"
proof -
  have low: "feq (fsub t (Fin 0)) t" "feq (fadd t (Fin 0)) t"
    using fsub_zero [OF assms(2)] fadd_zero [OF assms(2)] assms(3) by fastforce+
  have ends: "fle t x \<and> fle x t \<longleftrightarrow> feq x t" for x
    using fle_antisym_feq [of x t] by (auto simp: fle_def feq_sym)
  have fin: "feq x t \<Longrightarrow> fisfinite x" for x using assms(3) by (cases x; cases t) auto
  have "condition_holds c (Level x) \<longleftrightarrow> feq x t" for x
    using ends [of x] by (simp add: condition_holds_def upper_or_def assms(4-6))
  moreover have "outcome_holds o1 (Level x) \<longleftrightarrow> feq x t" for x
    using ends [of x] fin [of x]
    by (auto simp: outcome_holds_def upper_or_def Let_def assms(7-10) feq_fle [OF low(1)] feq_fle [OF low(2)])
  moreover have "compare_values (PFloat x) (so_operator o1) (reading_value (so_value o1)) (so_upper o1) (so_tolerance o1)
      = Inr (fle t x \<and> fle x (Fin 0))" for x
    by (simp add: compare_values_def assms(7-10) feq_fle [OF low(1)])
  moreover have "condition_matches_value c = Inr ()" "outcome_matches_value o1 = Inr ()"
    using fless_asym [OF assms(1)]
    by (simp_all add: condition_matches_value_def outcome_matches_value_def okE_def assms(4-10))
  ultimately show ?thesis by blast
qed

lemma zero_upper_limit_is_lost_witness:
  "let o1 = \<lparr>so_point = ''offset'', so_operator = BETWEEN, so_value = Level (Fin (-5)), so_upper = Some (Fin 0), so_tolerance = Fin 0\<rparr> in
     \<not> outcome_holds o1 (Level (Fin 0)) \<and> \<not> outcome_holds o1 (Level (Fin (-1))) \<and> outcome_holds o1 (Level (Fin (-5)))
     \<and> compare_values (PFloat (Fin (-1))) BETWEEN (PFloat (Fin (-5))) (Some (Fin 0)) (Fin 0) = Inr True"
  using zero_upper_limit_is_lost [of "Fin (-5)"
      "\<lparr>cd_point = ''offset'', cd_operator = BETWEEN, cd_value = Level (Fin (-5)), cd_upper = Some (Fin 0), cd_deadband = Fin 0\<rparr>"
      "\<lparr>so_point = ''offset'', so_operator = BETWEEN, so_value = Level (Fin (-5)), so_upper = Some (Fin 0), so_tolerance = Fin 0\<rparr>"]
    rnd_rat_of_int [of "-5"]
  by (simp add: Let_def fle_def)

section \<open>Random inputs stay in range\<close>

definition in_range :: "point_declaration \<Rightarrow> reading \<Rightarrow> bool" where
  "in_range p v \<longleftrightarrow> (if pd_type p = BOOLEAN then is_flag v
     else \<exists>x. v = Level x \<and> pred_option (\<lambda>low. fle low x) (pd_minimum p) \<and> pred_option (fle x) (pd_maximum p))"

definition inputs_in_range :: "point_declaration list \<Rightarrow> reading dict \<Rightarrow> bool" where
  "inputs_in_range ps current \<longleftrightarrow> (\<forall>p \<in> set ps. \<exists>v. map_of current (pd_name p) = Some v \<and> in_range p v)"

lemma range_checked:
  assumes "point_ok p" and "pd_type p = NUMERIC" and "pd_direction p = Incoming"
  obtains low high where "pd_minimum p = Some low" "pd_maximum p = Some high" "fle low high"
    "fle low (level_of (pd_nominal p))" "fle (level_of (pd_nominal p)) high" "\<not> is_flag (pd_nominal p)"
  using assms
  by (auto simp: point_ok_def range_is_coherent_def bindE_eq_Inr split: option.splits)
    (metis fle_trans)

lemma nominal_in_range: "point_ok p \<Longrightarrow> pd_direction p = Incoming \<Longrightarrow> in_range p (pd_nominal p)"
proof (cases "pd_type p")
  case BOOLEAN
  then show "point_ok p \<Longrightarrow> in_range p (pd_nominal p)"
    by (auto simp: in_range_def point_ok_def range_is_coherent_def bindE_eq_Inr)
next
  case NUMERIC
  assume "point_ok p" "pd_direction p = Incoming"
  then obtain low high where "pd_minimum p = Some low" "pd_maximum p = Some high"
    "fle low (level_of (pd_nominal p))" "fle (level_of (pd_nominal p)) high" "\<not> is_flag (pd_nominal p)"
    using range_checked [of p] NUMERIC by metis
  then show ?thesis using NUMERIC by (cases "pd_nominal p") (simp_all add: in_range_def)
qed

lemma update_in_range:
  assumes "inputs_in_range ps current" and "in_range p v" and "p \<in> set ps" and "distinct (map pd_name ps)"
  shows "inputs_in_range ps (AList.update (pd_name p) v current)"
proof -
  have "q = p" if "q \<in> set ps" "pd_name q = pd_name p" for q
    using assms(3,4) that by (auto simp: distinct_map dest: inj_onD)
  then show ?thesis using assms(1,2) by (auto simp: inputs_in_range_def)
qed

lemma clipped:
  "fle low high \<Longrightarrow> fle low (fmin high (fmax low v)) \<and> fle (fmin high (fmax low v)) high"
  by (cases "v = NaN") (auto simp: fmin_def fmax_def not_fless_iff dest: fle_not_NaN fless_imp_fle)

lemma draw_level_in_range:
  assumes "generator_ok G" and "point_ok p" and "pd_direction p = Incoming" and "pd_type p = NUMERIC"
  shows "in_range p (Level (fst (draw_level G edges p g)))"
proof -
  obtain low high where b: "pd_minimum p = Some low" "pd_maximum p = Some high" "fle low high"
    using range_checked [OF assms(2,4,3)] by metis
  have u: "fle low (fst (gn_uniform G low high h)) \<and> fle (fst (gn_uniform G low high h)) high" for h
    using assms(1) b(3) by (simp add: generator_ok_def)
  have e: "fle low (fst (draw_edge G p es h)) \<and> fle (fst (draw_edge G p es h)) high" for es h
    using clipped [OF b(3)] by (simp add: draw_edge_def limit_of_def b Let_def split: prod.split)
  have "fle low (fst (draw_level G edges p g)) \<and> fle (fst (draw_level G edges p g)) high"
    using u e by (auto simp: draw_level_def limit_of_def b Let_def split: option.split list.split prod.split)
  then show ?thesis using assms(4) by (simp add: in_range_def b)
qed

lemma draw_input_in_range:
  assumes "generator_ok G" and "point_ok p" and "pd_direction p = Incoming" and "p \<in> set ps"
    and "distinct (map pd_name ps)" and "inputs_in_range ps (fst state)"
  shows "inputs_in_range ps (fst (draw_input G edges hold started p state))"
proof -
  have flag: "in_range p (Flag b)" if "pd_type p = BOOLEAN" for b using that by (simp add: in_range_def)
  have level: "in_range p (Level y)" if "pd_type p \<noteq> BOOLEAN" "draw_level G edges p g = (y, g')" for g y g'
    using draw_level_in_range [OF assms(1-3), of edges g] that by (cases "pd_type p") auto
  show ?thesis
    using assms(6) update_in_range [OF assms(6) _ assms(4,5)] flag level
    by (auto simp: draw_input_def Let_def split: prod.split)
qed

lemma draw_inputs_in_range:
  assumes "generator_ok G" and "distinct (map pd_name ps)" and "\<forall>p \<in> set ps. point_ok p \<and> pd_direction p = Incoming"
    and "set qs \<subseteq> set ps" and "inputs_in_range ps (fst state)"
  shows "inputs_in_range ps (fst (fold (draw_input G edges hold started) qs state))"
  using assms(4,5)
proof (induction qs arbitrary: state)
  case (Cons q qs)
  then show ?case using draw_input_in_range [OF assms(1) _ _ _ assms(2)] assms(3) by auto
qed simp

lemma draw_steps_in_range:
  assumes "generator_ok G" and "distinct (map pd_name ps)" and "\<forall>p \<in> set ps. point_ok p \<and> pd_direction p = Incoming"
    and "inputs_in_range ps (fst state)"
  shows "length (fst (draw_steps G edges hold ps n started state)) = n
    \<and> list_all (inputs_in_range ps) (fst (draw_steps G edges hold ps n started state))"
  using assms(4)
proof (induction n arbitrary: started state)
  case (Suc n)
  obtain current g where f: "fold (draw_input G edges hold started) ps state = (current, g)" by fastforce
  have "inputs_in_range ps current"
    using draw_inputs_in_range [OF assms(1-3) _ Suc.prems, of ps edges hold started] f by simp
  then show ?case using Suc.IH [of "(current, g)" True] by (simp add: f Let_def case_prod_beta)
qed simp

lemma draw_sequences_in_range:
  assumes "generator_ok G" and "distinct (map pd_name (declared_inputs rs))"
    and "\<forall>p \<in> set (declared_inputs rs). point_ok p \<and> pd_direction p = Incoming"
    and "inputs_in_range (declared_inputs rs) (nominal_inputs rs)"
  shows "length (draw_sequences G rs hold steps n g) = n
    \<and> list_all (\<lambda>ss. length ss = steps \<and> list_all (inputs_in_range (declared_inputs rs)) ss) (draw_sequences G rs hold steps n g)"
proof (induction n arbitrary: g)
  case (Suc n)
  have "length (fst (draw_steps G (thresholds rs) hold (declared_inputs rs) steps False (nominal_inputs rs, g))) = steps
    \<and> list_all (inputs_in_range (declared_inputs rs)) (fst (draw_steps G (thresholds rs) hold (declared_inputs rs) steps False (nominal_inputs rs, g)))"
    by (rule draw_steps_in_range [OF assms(1-3)]) (simp add: assms(4))
  then show ?case using Suc.IH by (simp add: Let_def case_prod_beta)
qed simp

lemma set_checked:
  assumes "requirement_set_ok rs"
  shows "distinct (map pd_name (rs_points rs))" and "\<forall>p \<in> set (rs_points rs). point_ok p"
    and "distinct (requirement_ids rs)" and "\<forall>r \<in> set (rs_requirements rs). requirement_ok r"
    and "\<forall>r \<in> set (rs_requirements rs). check_requirement rs r = Inr ()"
    and "\<forall>i \<in> set (requirement_ids rs). \<exists>order. assumption_closure rs i = Inr order"
    and "\<forall>iv \<in> set (rs_invariants rs). invariant_ok iv" and "step_ok (rs_step_seconds rs)"
  using assms
  by (auto simp: requirement_set_ok_def references_resolve_def bindE_eq_Inr checks_Inr_iff list_all_iff mapE_eq_Inr
      simp del: checks_simps(2))

text \<open>C25: The randomised check of a coherent requirement set draws exactly the sequences and steps
  it is asked for, and at every step each declared input has a value: a Boolean for a Boolean
  point, and a number between the declared minimum and maximum otherwise (the values around a
  threshold are clipped to the range).\<close>

theorem random_inputs_in_range:
  assumes ok: "requirement_set_ok rs" and G: "generator_ok G"
  shows "length (random_input_sequences G rs count steps hold g) = count
    \<and> (\<forall>ss \<in> set (random_input_sequences G rs count steps hold g). length ss = steps
        \<and> (\<forall>current \<in> set ss. \<forall>p \<in> set (declared_inputs rs).
             \<exists>v. map_of current (pd_name p) = Some v \<and> in_range p v))"
proof -
  have names: "distinct (map pd_name (declared_inputs rs))"
    using set_checked(1) [OF ok] by (simp add: declared_inputs_def distinct_map_filter)
  have inputs: "\<forall>p \<in> set (declared_inputs rs). point_ok p \<and> pd_direction p = Incoming"
    using set_checked(2) [OF ok] by (simp add: declared_inputs_def)
  have "map_of (nominal_inputs rs) (pd_name p) = Some (pd_nominal p)" if "p \<in> set (declared_inputs rs)" for p
  proof -
    have "(pd_name p, pd_nominal p) \<in> set (map (\<lambda>p. (pd_name p, pd_nominal p)) (declared_inputs rs))"
      using that by force
    moreover have "distinct (map fst (map (\<lambda>p. (pd_name p, pd_nominal p)) (declared_inputs rs)))"
      using names by (simp add: comp_def)
    ultimately show ?thesis
      unfolding nominal_inputs_def map_of_dict_of_distinct [OF names] by (rule map_of_is_SomeI [rotated])
  qed
  then have "inputs_in_range (declared_inputs rs) (nominal_inputs rs)"
    using inputs nominal_in_range by (simp add: inputs_in_range_def)
  from draw_sequences_in_range [OF G names inputs this, of hold steps count g] show ?thesis
    by (simp add: random_input_sequences_def list_all_iff inputs_in_range_def)
qed

section \<open>A small requirement set\<close>

definition fan_point :: point_declaration where
  "fan_point = \<lparr>pd_name = ''fan'', pd_type = BOOLEAN, pd_direction = Outgoing, pd_minimum = None,
     pd_maximum = None, pd_nominal = Flag False, pd_resolution = None\<rparr>"

definition fan_is :: "bool \<Rightarrow> stated_outcome" where
  "fan_is b = \<lparr>so_point = ''fan'', so_operator = EQ, so_value = Flag b, so_upper = None, so_tolerance = Fin 0\<rparr>"

definition cooling_requirement :: requirement where
  "cooling_requirement = \<lparr>rq_id = ''R-01'', rq_assumes = [], rq_setup = [], rq_conditions = [above_condition 25],
     rq_timing = \<lparr>tm_delay = Fin 60, tm_release = Fin 0, tm_from_context = False, tm_tolerance_scans = 0\<rparr>,
     rq_outcomes = [fan_is True], rq_otherwise = [fan_is False], rq_before = None, rq_recovery = None,
     rq_failures = [], rq_step_seconds = None\<rparr>"

definition cooling_set :: requirement_set where
  "cooling_set = \<lparr>rs_sequence_id = ''cooling'', rs_step_seconds = Fin 10, rs_points = [warm_point, fan_point],
     rs_requirements = [cooling_requirement],
     rs_invariants = [\<lparr>iv_id = ''I-01'', iv_when = [above_condition 90], iv_then = [fan_is True]\<rparr>]\<rparr>"

lemmas cooling_defs = cooling_set_def cooling_requirement_def fan_is_def fan_point_def warm_point_def above_condition_def

lemmas ident_defs = name_ok_def is_ident_def ident_start_def ident_char_def ascii_alpha_def ascii_digit_def

lemma cooling_points_ok: "point_ok warm_point" "point_ok fan_point"
  by (simp_all add: point_ok_def range_is_coherent_def cooling_defs ident_defs okE_def)

lemma cooling_condition_ok: "condition_ok (above_condition t)"
  by (simp add: condition_ok_def condition_matches_value_def above_condition_def ident_defs okE_def)

lemma fan_outcome_ok: "outcome_ok (fan_is b)"
  by (simp add: outcome_ok_def outcome_matches_value_def fan_is_def ident_defs okE_def)

lemma cooling_requirement_ok: "requirement_ok cooling_requirement"
  by (simp add: requirement_ok_def cooling_requirement_def requirement_id_ok_def cooling_condition_ok fan_outcome_ok
      timing_ok_def has_a_trigger_def ascii_digit_def okE_def)

lemma cooling_closure: "assumption_closure cooling_set ''R-01'' = Inr []"
  by (simp add: assumption_closure_def visit_assumed.simps requirement_of_def cooling_set_def cooling_requirement_def)

lemma cooling_set_ok: "requirement_set_ok cooling_set"
proof -
  have "references_resolve cooling_set = Inr ()"
    using cooling_closure
    by (simp add: references_resolve_def requirement_ids_def declared_inputs_def declared_outputs_def check_requirement_def
        check_conditions_def check_outcomes_def cooling_defs okE_def)
  moreover have "list_all invariant_ok (rs_invariants cooling_set)"
    by (simp add: cooling_set_def invariant_ok_def requirement_id_ok_def cooling_condition_ok fan_outcome_ok ascii_digit_def)
  ultimately show ?thesis
    using cooling_points_ok cooling_requirement_ok
    by (simp add: requirement_set_ok_def step_ok_def) (simp add: cooling_set_def)
qed

definition lowest :: "nat generator" where
  "lowest = \<lparr>gn_random = (\<lambda>g. (lit (1 / 4), Suc g)), gn_choice = (\<lambda>n g. (g mod n, Suc g)), gn_uniform = (\<lambda>a b g. (a, Suc g))\<rparr>"

lemma random_inputs_in_range_witness:
  "length (random_input_sequences lowest cooling_set 3 5 (lit (4 / 5)) 0) = 3
    \<and> list_all (\<lambda>ss. length ss = 5) (random_input_sequences lowest cooling_set 3 5 (lit (4 / 5)) 0)"
proof -
  have "generator_ok lowest" by (auto simp: generator_ok_def lowest_def dest: fle_not_NaN)
  from random_inputs_in_range [OF cooling_set_ok this, of 3 5 "lit (4 / 5)" 0] show ?thesis by (simp add: list_all_iff)
qed

end
