(* ===== verification/Assumptions.thy ===== *)
theory Assumptions
  imports OracleFacts
begin

text \<open>
  The assumptions between requirements: what \<open>assumption_closure\<close> returns, as reachability in
  the relation the \<open>assumes\<close> lists define.
\<close>

definition assumes_rel :: "requirement_set \<Rightarrow> (string \<times> string) set" where
  "assumes_rel rs = {(a, b). \<exists>r. requirement_of rs a = Inr r \<and> b \<in> set (rq_assumes r)}"

text \<open>Every requirement stands after the ones it assumes.\<close>

definition deps_first :: "requirement_set \<Rightarrow> string list \<Rightarrow> bool" where
  "deps_first rs order \<longleftrightarrow> distinct order
     \<and> (\<forall>xs a ys. order = xs @ a # ys \<longrightarrow> assumes_rel rs `` {a} \<subseteq> set xs)"

lemma deps_first_Nil [simp]: "deps_first rs []"
  by (simp add: deps_first_def)

lemma deps_first_snoc:
  "deps_first rs order \<Longrightarrow> a \<notin> set order \<Longrightarrow> assumes_rel rs `` {a} \<subseteq> set order \<Longrightarrow> deps_first rs (order @ [a])"
  unfolding deps_first_def by (auto simp: append_eq_append_conv2 Cons_eq_append_conv append_eq_Cons_conv)

lemma deps_first_closed:
  assumes "deps_first rs order" and "a \<in> set order" and "(a, b) \<in> assumes_rel rs"
  shows "b \<in> set order"
proof -
  obtain xs ys where "order = xs @ a # ys" using assms(2) by (meson split_list)
  then show ?thesis using assms(1,3) unfolding deps_first_def by auto
qed

lemma deps_first_reachable:
  assumes "deps_first rs order" and "a \<in> set order" and "(a, b) \<in> (assumes_rel rs)\<^sup>*"
  shows "b \<in> set order"
  using assms(3,2) by induction (auto intro: deps_first_closed [OF assms(1)])

text \<open>What one visit does to the list of finished requirements.\<close>

definition visited :: "requirement_set \<Rightarrow> string list \<Rightarrow> string \<Rightarrow> string list \<Rightarrow> string list \<Rightarrow> bool" where
  "visited rs visiting current order order' \<longleftrightarrow> (\<exists>new. order' = order @ new \<and> set new \<inter> set visiting = {}
     \<and> set new \<subseteq> (assumes_rel rs)\<^sup>* `` {current}) \<and> current \<in> set order' \<and> deps_first rs order'"

lemma fold_visited:
  assumes "\<And>x order order'. x \<in> set xs \<Longrightarrow> f x order = Inr order' \<Longrightarrow> deps_first rs order \<Longrightarrow> visited rs visiting x order order'"
    and "foldE f xs order = Inr order'" and "deps_first rs order"
  shows "(\<exists>new. order' = order @ new \<and> set new \<inter> set visiting = {} \<and> set new \<subseteq> (assumes_rel rs)\<^sup>* `` set xs)
    \<and> set xs \<subseteq> set order' \<and> deps_first rs order'"
  using assms
proof (induction xs arbitrary: order)
  case (Cons x xs)
  obtain mid where m: "f x order = Inr mid" "foldE f xs mid = Inr order'"
    using Cons.prems(2) by (auto simp: bindE_eq_Inr)
  have v: "visited rs visiting x order mid" using Cons.prems(1) [OF _ m(1) Cons.prems(3)] by simp
  then obtain n1 where n1: "mid = order @ n1" "set n1 \<inter> set visiting = {}" "set n1 \<subseteq> (assumes_rel rs)\<^sup>* `` {x}"
    "x \<in> set mid" "deps_first rs mid" by (auto simp: visited_def)
  obtain n2 where n2: "order' = mid @ n2" "set n2 \<inter> set visiting = {}" "set n2 \<subseteq> (assumes_rel rs)\<^sup>* `` set xs"
    "set xs \<subseteq> set order'" "deps_first rs order'"
    using Cons.IH [OF _ m(2) n1(5)] Cons.prems(1) by (metis list.set_intros(2))
  show ?case
    using n1 n2 by (intro conjI exI [of _ "n1 @ n2"]) auto
qed simp

lemma visit_visited:
  "visit_assumed rs visiting current order = Inr order' \<Longrightarrow> deps_first rs order \<Longrightarrow> visited rs visiting current order order'"
proof (induction rs visiting current order arbitrary: order' rule: visit_assumed.induct)
  case (1 rs visiting current order)
  note step = 1(2) [unfolded visit_assumed.simps [of rs visiting current order]]
  have fresh: "current \<notin> set visiting" using step by (auto split: if_splits)
  show ?case
  proof (cases "current \<in> set order")
    case True
    then show ?thesis using step fresh 1(3) by (simp add: visited_def)
  next
    case False
    with step fresh obtain r mid where r: "requirement_of rs current = Inr r"
      and mid: "foldE (visit_assumed rs (visiting @ [current])) (rq_assumes r) order = Inr mid" "order' = mid @ [current]"
      by (auto simp: bindE_eq_Inr mapE_eq_Inr)
    have "visited rs (visiting @ [current]) x o1 o2"
      if "x \<in> set (rq_assumes r)" "visit_assumed rs (visiting @ [current]) x o1 = Inr o2" "deps_first rs o1" for x o1 o2
      using 1(1) [OF fresh False r that] .
    from fold_visited [OF this mid(1) 1(3)] obtain new where new: "mid = order @ new"
      "set new \<inter> set (visiting @ [current]) = {}" "set new \<subseteq> (assumes_rel rs)\<^sup>* `` set (rq_assumes r)"
      "set (rq_assumes r) \<subseteq> set mid" "deps_first rs mid" by auto
    have rel: "assumes_rel rs `` {current} = set (rq_assumes r)" using r by (auto simp: assumes_rel_def)
    have cur: "current \<notin> set mid" using new(1,2) False by auto
    have sub: "set new \<subseteq> (assumes_rel rs)\<^sup>* `` {current}"
      using new(3) rel by (auto intro: converse_rtrancl_into_rtrancl)
    show ?thesis
      unfolding visited_def mid(2)
      using new(1,2) sub fresh deps_first_snoc [OF new(5) cur] new(4) rel
      by (intro conjI exI [of _ "new @ [current]"]) auto
  qed
qed

text \<open>C24: In a coherent requirement set the assumptions of every requirement resolve: the closure
  lists each requirement it assumes, directly or through others, exactly once and nothing else, not
  itself, and every one after those it assumes, so that a later condition on the same input
  overrides an inherited one.\<close>

theorem assumptions_resolve:
  assumes "requirement_set_ok rs" and "r \<in> set (rs_requirements rs)"
  shows "\<exists>order. assumption_closure rs (rq_id r) = Inr order \<and> distinct order
    \<and> set order = {b. (rq_id r, b) \<in> (assumes_rel rs)\<^sup>+} \<and> rq_id r \<notin> set order \<and> deps_first rs order"
proof -
  let ?i = "rq_id r"
  obtain full where full: "visit_assumed rs [] ?i [] = Inr full" "assumption_closure rs ?i = Inr (remove1 ?i full)"
    using set_checked(6) [OF assms(1)] assms(2)
    by (auto simp: requirement_ids_def assumption_closure_def mapE_eq_Inr)
  from full(1) obtain q mid where q: "requirement_of rs ?i = Inr q"
    and mid: "foldE (visit_assumed rs [?i]) (rq_assumes q) [] = Inr mid" "full = mid @ [?i]"
    by (subst (asm) visit_assumed.simps) (auto simp: bindE_eq_Inr mapE_eq_Inr)
  from fold_visited [of "rq_assumes q" "visit_assumed rs [?i]" rs "[?i]" "[]" mid] visit_visited mid(1)
  have m: "set mid \<inter> {?i} = {}" "set mid \<subseteq> (assumes_rel rs)\<^sup>* `` set (rq_assumes q)"
    "set (rq_assumes q) \<subseteq> set mid" "deps_first rs mid" by auto
  have order: "remove1 ?i full = mid" using m(1) by (simp add: mid(2) remove1_append)
  have rel: "assumes_rel rs `` {?i} = set (rq_assumes q)" using q by (auto simp: assumes_rel_def)
  have "set mid = {b. (?i, b) \<in> (assumes_rel rs)\<^sup>+}"
  proof (intro equalityI subsetI)
    fix b assume "b \<in> set mid"
    then show "b \<in> {b. (?i, b) \<in> (assumes_rel rs)\<^sup>+}" using m(2) rel by (auto intro: rtrancl_into_trancl2)
  next
    fix b assume "b \<in> {b. (?i, b) \<in> (assumes_rel rs)\<^sup>+}"
    then obtain x where "(?i, x) \<in> assumes_rel rs" "(x, b) \<in> (assumes_rel rs)\<^sup>*" by (meson mem_Collect_eq tranclD)
    then show "b \<in> set mid" using m(3,4) rel deps_first_reachable by fastforce
  qed
  then show ?thesis using full(2) m(1,4) by (auto simp: order deps_first_def)
qed

definition proof_requirement :: requirement where
  "proof_requirement = cooling_requirement\<lparr>rq_id := ''R-02'', rq_assumes := [''R-01''], rq_conditions := []\<rparr>"

definition paired_set :: requirement_set where
  "paired_set = cooling_set\<lparr>rs_requirements := [proof_requirement, cooling_requirement]\<rparr>"

lemma paired_set_ok: "requirement_set_ok paired_set"
proof -
  have closed: "assumption_closure paired_set ''R-02'' = Inr [''R-01'']" "assumption_closure paired_set ''R-01'' = Inr []"
    by (simp_all add: assumption_closure_def visit_assumed.simps requirement_of_def paired_set_def proof_requirement_def
        cooling_set_def cooling_requirement_def)
  have "references_resolve paired_set = Inr ()"
    using closed
    by (simp add: references_resolve_def requirement_ids_def declared_inputs_def declared_outputs_def check_requirement_def
        check_conditions_def check_outcomes_def paired_set_def proof_requirement_def cooling_defs okE_def)
  moreover have "requirement_ok proof_requirement"
    by (simp add: proof_requirement_def requirement_ok_def cooling_requirement_def requirement_id_ok_def fan_outcome_ok
        timing_ok_def has_a_trigger_def ascii_digit_def okE_def)
  moreover have "list_all invariant_ok (rs_invariants paired_set)"
    by (simp add: paired_set_def cooling_set_def invariant_ok_def requirement_id_ok_def cooling_condition_ok fan_outcome_ok
        ascii_digit_def)
  ultimately show ?thesis
    using cooling_points_ok cooling_requirement_ok
    by (simp add: requirement_set_ok_def step_ok_def) (simp add: paired_set_def cooling_set_def)
qed

lemma assumptions_resolve_witness:
  "\<exists>order. assumption_closure paired_set ''R-02'' = Inr order \<and> ''R-01'' \<in> set order \<and> ''R-02'' \<notin> set order"
proof -
  have "(''R-02'', ''R-01'') \<in> assumes_rel paired_set"
    by (auto simp: assumes_rel_def requirement_of_def paired_set_def proof_requirement_def cooling_set_def)
  then show ?thesis
    using assumptions_resolve [OF paired_set_ok, of proof_requirement]
    by (auto simp: paired_set_def proof_requirement_def)
qed

end
