(* ===== verification/AuthorFacts.thy ===== *)
theory AuthorFacts
  imports Assumptions
begin

text \<open>
  What a generated test plan contains: valid cases, traced to their requirement, with a positive
  scenario for every requirement and the invariants asserted in every phase that establishes
  them.
\<close>

section \<open>Phases\<close>

lemma fold_add_outcome:
  "\<exists>extra. fold add_outcome os acc = acc @ extra \<and> set extra \<subseteq> set os"
  "so_point ` set os \<subseteq> so_point ` set (fold add_outcome os acc)"
proof (induction os arbitrary: acc)
  case (Cons o1 os)
  { case 1
    obtain e where "fold add_outcome os (add_outcome o1 acc) = add_outcome o1 acc @ e" "set e \<subseteq> set os"
      using Cons.IH(1) by blast
    moreover obtain e' where "add_outcome o1 acc = acc @ e'" "set e' \<subseteq> {o1}"
      by (cases "list_ex (\<lambda>o2. so_point o2 = so_point o1) acc") (auto simp: add_outcome_def)
    ultimately show ?case by (intro exI [of _ "e' @ e"]) auto
  next
    case 2
    have "so_point o1 \<in> so_point ` set (add_outcome o1 acc)" by (auto simp: add_outcome_def list_ex_iff image_iff) metis
    moreover obtain e where "fold add_outcome os (add_outcome o1 acc) = add_outcome o1 acc @ e"
      using Cons.IH(1) by blast
    ultimately show ?case using Cons.IH(2) [of "add_outcome o1 acc"] by auto
  }
qed simp_all

lemma fold_invariants:
  fixes ins outcomes defines "f \<equiv> \<lambda>iv acc. if list_all (established ins outcomes) (iv_when iv) then fold add_outcome (iv_then iv) acc else acc"
  shows "(\<exists>extra. fold f ivs acc = acc @ extra \<and> (\<forall>o1 \<in> set extra. \<exists>iv \<in> set ivs. o1 \<in> set (iv_then iv)))
    \<and> (\<forall>iv \<in> set ivs. list_all (established ins outcomes) (iv_when iv) \<longrightarrow>
         so_point ` set (iv_then iv) \<subseteq> so_point ` set (fold f ivs acc))"
proof (induction ivs arbitrary: acc)
  case (Cons iv ivs)
  obtain e1 where e1: "f iv acc = acc @ e1" "set e1 \<subseteq> set (iv_then iv)"
    using fold_add_outcome(1) [of "iv_then iv" acc]
    by (cases "list_all (established ins outcomes) (iv_when iv)") (auto simp: f_def)
  obtain e2 where e2: "fold f ivs (f iv acc) = f iv acc @ e2" "\<forall>o1 \<in> set e2. \<exists>iv \<in> set ivs. o1 \<in> set (iv_then iv)"
    using Cons.IH by blast
  have "so_point ` set (iv_then iv) \<subseteq> so_point ` set (f iv acc)" if "list_all (established ins outcomes) (iv_when iv)"
    using fold_add_outcome(2) [of "iv_then iv" acc] that by (simp add: f_def)
  then have "so_point ` set (iv_then iv) \<subseteq> so_point ` set (fold f (iv # ivs) acc)"
    if "list_all (established ins outcomes) (iv_when iv)"
    using that e2(1) by auto
  moreover have "\<exists>extra. fold f (iv # ivs) acc = acc @ extra \<and> (\<forall>o1 \<in> set extra. \<exists>iv \<in> set (iv # ivs). o1 \<in> set (iv_then iv))"
    using e1 e2 by (intro exI [of _ "e1 @ e2"]) auto
  ultimately show ?case using Cons.IH [of "f iv acc"] by auto
qed simp

lemma with_invariants_extends:
  "\<exists>extra. with_invariants rs ins outcomes = outcomes @ extra
     \<and> (\<forall>o1 \<in> set extra. \<exists>iv \<in> set (rs_invariants rs). o1 \<in> set (iv_then iv))"
  unfolding with_invariants_def using fold_invariants by blast

lemma with_invariants_covers:
  "iv \<in> set (rs_invariants rs) \<Longrightarrow> list_all (established ins outcomes) (iv_when iv) \<Longrightarrow>
     so_point ` set (iv_then iv) \<subseteq> so_point ` set (with_invariants rs ins outcomes)"
  unfolding with_invariants_def using fold_invariants by blast

text \<open>A phase without faults whose inputs establish the conditions of an invariant expects
  something of each of its outcome points.\<close>

definition asserts_invariants :: "requirement_set \<Rightarrow> acceptance_phase \<Rightarrow> bool" where
  "asserts_invariants rs p \<longleftrightarrow> (ph_faults p = [] \<longrightarrow> (\<forall>iv \<in> set (rs_invariants rs).
     (\<forall>c \<in> set (iv_when iv). \<exists>v. map_of (ph_inputs p) (cd_point c) = Some (reading_value v) \<and> condition_holds c v) \<longrightarrow>
     so_point ` set (iv_then iv) \<subseteq> ex_target ` set (ph_expectations p)))"

definition phase_good :: "requirement_set \<Rightarrow> acceptance_phase \<Rightarrow> bool" where
  "phase_good rs p \<longleftrightarrow> phase_ok p \<and> asserts_invariants rs p"

lemma validated_Inr: "validated p x = Inr y \<longleftrightarrow> p x \<and> y = x"
  by (auto simp: validated_def)

lemma reading_value_inject: "reading_value a = reading_value b \<longleftrightarrow> a = b"
  by (cases a; cases b) simp_all

lemma map_of_readings: "map_of (map (\<lambda>(k, v). (k, reading_value v)) ins) k = map_option reading_value (map_of ins k)"
  by (induction ins) auto

lemma target_expectation [simp]: "ex_target (expectation o1) = so_point o1"
  by (simp add: expectation_def)

lemma make_phase_good: "make_phase rs step n ins repeat outcomes faults = Inr p \<Longrightarrow> phase_good rs p"
proof -
  assume "make_phase rs step n ins repeat outcomes faults = Inr p"
  then have ok: "phase_ok p" and p: "ph_inputs p = map (\<lambda>(k, v). (k, reading_value v)) ins" "ph_faults p = faults"
    "ph_expectations p = map expectation (if faults = [] then with_invariants rs ins outcomes else outcomes)"
    by (auto simp: make_phase_def validated_Inr)
  have "so_point ` set (iv_then iv) \<subseteq> ex_target ` set (ph_expectations p)"
    if "faults = []" "iv \<in> set (rs_invariants rs)"
      "\<forall>c \<in> set (iv_when iv). \<exists>v. map_of (ph_inputs p) (cd_point c) = Some (reading_value v) \<and> condition_holds c v" for iv
  proof -
    have "list_all (established ins outcomes) (iv_when iv)"
      using that(3) by (fastforce simp: list_all_iff established_def p(1) map_of_readings reading_value_inject)
    from with_invariants_covers [OF that(2) this] show ?thesis by (simp add: p(3) that(1) image_image)
  qed
  then show ?thesis using ok by (simp add: phase_good_def asserts_invariants_def p(2))
qed

section \<open>What a step of the author adds\<close>

definition scenario_good :: "requirement_set \<Rightarrow> planned_scenario \<Rightarrow> bool" where
  "scenario_good rs s \<longleftrightarrow> case_ok (sc_case s) \<and> list_all (phase_good rs) (ac_timeline (sc_case s))"

definition adds :: "requirement_set \<Rightarrow> string \<Rightarrow> test_plan \<Rightarrow> test_plan \<Rightarrow> bool" where
  "adds rs i plan plan' \<longleftrightarrow> (\<exists>new. tn_scenarios plan' = tn_scenarios plan @ new
     \<and> (\<forall>s \<in> set new. sc_requirement s = i \<and> scenario_good rs s))"

lemma adds_refl: "tn_scenarios plan' = tn_scenarios plan \<Longrightarrow> adds rs i plan plan'"
  by (auto simp: adds_def intro: exI [of _ "[]"])

lemma adds_trans: "adds rs i a b \<Longrightarrow> adds rs i b c \<Longrightarrow> adds rs i a c"
  unfolding adds_def by (metis Un_iff append_assoc set_append)

lemma adds_bind:
  "bindE m f = Inr c \<Longrightarrow> (\<And>b. m = Inr b \<Longrightarrow> adds rs i a b) \<Longrightarrow> (\<And>b. m = Inr b \<Longrightarrow> f b = Inr c \<Longrightarrow> adds rs i b c) \<Longrightarrow> adds rs i a c"
  by (auto simp: bindE_eq_Inr intro: adds_trans)

lemma adds_fold:
  "foldE f xs a = Inr b \<Longrightarrow> (\<And>x s s'. x \<in> set xs \<Longrightarrow> f x s = Inr s' \<Longrightarrow> adds rs i s s') \<Longrightarrow> adds rs i a b"
proof (induction xs arbitrary: a)
  case (Cons x xs)
  then obtain s where "f x a = Inr s" "foldE f xs s = Inr b" by (auto simp: bindE_eq_Inr)
  with Cons show ?case by (metis adds_trans list.set_intros(1,2))
qed (simp add: adds_refl)

definition good_drive :: "requirement_set \<Rightarrow> drive \<Rightarrow> bool" where
  "good_drive rs d \<longleftrightarrow> list_all (phase_good rs) (dr_setup d)"

lemma traverse_members: "traverseE f xs = Inr ys \<Longrightarrow> y \<in> set ys \<Longrightarrow> \<exists>x \<in> set xs. f x = Inr y"
  by (induction xs arbitrary: ys) (auto simp: bindE_eq_Inr)

lemma add_scenario_adds:
  "add_scenario i k subject phases plan = Inr plan' \<Longrightarrow> list_all (phase_good rs) phases \<Longrightarrow> adds rs i plan plan'"
  by (auto simp: add_scenario_def adds_def Let_def mapE_eq_Inr validated_Inr scenario_good_def split: if_splits)

lemma scenario_adds:
  assumes "scenario d k subject phases plan = Inr plan'" and "good_drive rs d"
    and "\<forall>x \<in> set phases. \<forall>p. x = Inr p \<longrightarrow> phase_good rs p"
  shows "adds rs (dr_id d) plan plan'"
proof -
  obtain ps where ps: "traverseE (\<lambda>p. p) phases = Inr ps" "add_scenario (dr_id d) k subject (dr_setup d @ ps) plan = Inr plan'"
    using assms(1) by (auto simp: scenario_def bindE_eq_Inr)
  have "list_all (phase_good rs) ps" using traverse_members [OF ps(1)] assms(3) by (auto simp: list_all_iff)
  then show ?thesis using add_scenario_adds [OF ps(2)] assms(2) by (simp add: good_drive_def)
qed

lemmas phase_defs = baseline_def trigger_def phase_of_def reach_def

lemma phases_good:
  "phase_of rs d n ins repeat os = Inr p \<Longrightarrow> phase_good rs p" "baseline rs d os = Inr p \<Longrightarrow> phase_good rs p"
  "trigger rs d n repeat os = Inr p \<Longrightarrow> phase_good rs p" "reach rs d = Inr p \<Longrightarrow> phase_good rs p"
  unfolding phase_defs by (erule make_phase_good)+

lemma steps_add:
  assumes g: "good_drive rs d"
  shows "opening_gaps d plan = Inr plan' \<Longrightarrow> adds rs (dr_id d) plan plan'"
    and "positive rs d plan = Inr plan' \<Longrightarrow> adds rs (dr_id d) plan plan'"
    and "negatives rs d plan = Inr plan' \<Longrightarrow> adds rs (dr_id d) plan plan'"
    and "timing_scenarios rs d plan = Inr plan' \<Longrightarrow> adds rs (dr_id d) plan plan'"
    and "release_scenarios rs d plan = Inr plan' \<Longrightarrow> adds rs (dr_id d) plan plan'"
    and "boundary_scenarios rs d cp plan = Inr plan' \<Longrightarrow> adds rs (dr_id d) plan plan'"
    and "failure_scenarios rs d plan = Inr plan' \<Longrightarrow> adds rs (dr_id d) plan plan'"
    and "recovery_scenario rs d plan = Inr plan' \<Longrightarrow> adds rs (dr_id d) plan plan'"
proof -
  have s: "adds rs (dr_id d) a b" if "scenario d k subject phases a = Inr b"
    "\<forall>x \<in> set phases. \<forall>p. x = Inr p \<longrightarrow> phase_good rs p" for k subject phases a b
    using scenario_adds that g by blast
  have two: "adds rs (dr_id d) a c" if both: "bindE (scenario d k subject phases a) (scenario d k' subject' phases') = Inr c"
    and good: "\<forall>x \<in> set (phases @ phases'). \<forall>p. x = Inr p \<longrightarrow> phase_good rs p" for k subject phases k' subject' phases' a c
  proof -
    obtain b where "scenario d k subject phases a = Inr b" "scenario d k' subject' phases' b = Inr c"
      using both unfolding bindE_eq_Inr by blast
    then show ?thesis using good s adds_trans by (metis Un_iff set_append)
  qed
  have gap: "tn_scenarios (fold (unreachable_gap d) cps a) = tn_scenarios a" for cps a
    by (induction cps arbitrary: a) (simp_all add: unreachable_gap_def add_gap_def)
  have timing: "tn_scenarios b = tn_scenarios a" if "timing_gap d x a = Inr b" for x a b
    using that by (auto simp: timing_gap_def mapE_eq_Inr add_gap_def split: if_splits)
  show "opening_gaps d plan = Inr plan' \<Longrightarrow> adds rs (dr_id d) plan plan'"
    by (rule adds_refl) (auto simp: opening_gaps_def Let_def bindE_eq_Inr mapE_eq_Inr add_gap_def gap dest!: timing split: if_splits)
  show "positive rs d plan = Inr plan' \<Longrightarrow> adds rs (dr_id d) plan plan'"
    unfolding positive_def by (erule s) (auto intro: phases_good)
  show "recovery_scenario rs d plan = Inr plan' \<Longrightarrow> adds rs (dr_id d) plan plan'"
    unfolding recovery_scenario_def by (erule s) (auto intro: phases_good)
  have single: "adds rs (dr_id d) a b" if "negative_single rs d x a = Inr b" for x a b
    using that unfolding negative_single_def Let_def by (rule s) (auto intro: phases_good)
  have neg: "adds rs (dr_id d) a b" if "negative rs d a = Inr b" for a b
    using that unfolding negative_def by (rule s) (auto intro: phases_good)
  show "negatives rs d plan = Inr plan' \<Longrightarrow> adds rs (dr_id d) plan plan'"
    unfolding negatives_def
    by (erule adds_bind) (auto intro: neg adds_fold single adds_refl split: if_splits)
  show "timing_scenarios rs d plan = Inr plan' \<Longrightarrow> adds rs (dr_id d) plan plan'"
    unfolding timing_scenarios_def
    by (auto intro: adds_refl phases_good phases_good [OF sym] split: if_splits elim!: two)
  show "release_scenarios rs d plan = Inr plan' \<Longrightarrow> adds rs (dr_id d) plan plan'"
    unfolding release_scenarios_def
    by (auto intro: adds_refl phases_good phases_good [OF sym] split: if_splits elim!: two)
  have bnd: "adds rs (dr_id d) a b" if "boundary_scenario rs d n edge a = Inr b" for n edge a b
    using that unfolding boundary_scenario_def by (cases edge) (auto simp: Let_def elim!: s intro: phases_good [OF sym])
  have dead: "adds rs (dr_id d) a b" if "deadband_scenarios rs d n edges a = Inr b" for n edges a b
    using that unfolding deadband_scenarios_def by (cases edges) (auto elim!: two intro: phases_good phases_good [OF sym])
  show "boundary_scenarios rs d cp plan = Inr plan' \<Longrightarrow> adds rs (dr_id d) plan plan'"
    unfolding boundary_scenarios_def
    by (cases cp) (auto elim!: adds_bind intro: adds_fold bnd dead adds_refl split: option.splits)
  have fail: "adds rs (dr_id d) a b" if "failure_scenario rs d f a = Inr b" for f a b
    using that by (auto simp: failure_scenario_def bindE_eq_Inr Let_def elim!: s intro: phases_good [OF sym] make_phase_good [OF sym])
  show "failure_scenarios rs d plan = Inr plan' \<Longrightarrow> adds rs (dr_id d) plan plan'"
  proof -
    assume "failure_scenarios rs d plan = Inr plan'"
    then obtain mid where m: "foldE (failure_scenario rs d) (rq_failures (dr_requirement d)) plan = Inr mid"
      "tn_scenarios plan' = tn_scenarios mid"
      by (auto simp: failure_scenarios_def Let_def mapE_eq_Inr add_gap_def)
    show ?thesis by (rule adds_trans [OF adds_fold [OF m(1) fail] adds_refl [OF m(2)]])
  qed
qed

section \<open>The whole plan\<close>

lemma setup_phases_good: "setup_phases rs step index ss ins = Inr ps \<Longrightarrow> list_all (phase_good rs) ps"
  by (induction rs step index ss ins arbitrary: ps rule: setup_phases.induct)
    (auto simp: Let_def bindE_eq_Inr mapE_eq_Inr intro: make_phase_good)

lemma drive_good: "drive_of rs r = Inr d \<Longrightarrow> good_drive rs d \<and> dr_requirement d = r"
  by (auto simp: drive_of_def Let_def bindE_eq_Inr good_drive_def intro: setup_phases_good)

text \<open>A positive scenario ends in the phase that expects all the outcomes of its requirement.\<close>

definition tested_positively :: "requirement \<Rightarrow> test_plan \<Rightarrow> bool" where
  "tested_positively r plan \<longleftrightarrow> (\<exists>s \<in> set (tn_scenarios plan). sc_requirement s = rq_id r \<and> sc_kind s = Positive
     \<and> expectation ` set (rq_outcomes r) \<subseteq> set (ac_expectations (sc_case s)))"

lemma adds_keeps: "adds rs i plan plan' \<Longrightarrow> tested_positively r plan \<Longrightarrow> tested_positively r plan'"
  by (auto simp: adds_def tested_positively_def)

lemma positive_tests:
  assumes "positive rs d plan = Inr plan'" and "rq_outcomes (dr_requirement d) \<noteq> []"
  shows "tested_positively (dr_requirement d) plan'"
proof -
  obtain b p where p: "reach rs d = Inr p" and add: "add_scenario (dr_id d) Positive None (dr_setup d @ [b, p]) plan = Inr plan'"
    using assms(1) by (auto simp: positive_def scenario_def bindE_eq_Inr)
  have exps: "ph_expectations p = map expectation (with_invariants rs (dr_satisfied d) (rq_outcomes (dr_requirement d)))"
    using p by (auto simp: reach_def trigger_def phase_of_def make_phase_def validated_Inr)
  have sub: "set (rq_outcomes (dr_requirement d)) \<subseteq> set (with_invariants rs (dr_satisfied d) (rq_outcomes (dr_requirement d)))"
    using with_invariants_extends [of rs "dr_satisfied d" "rq_outcomes (dr_requirement d)"] by auto
  then have "ph_expectations p \<noteq> []" using assms(2) by (auto simp: exps)
  then have "final_expectations (dr_setup d @ [b, p]) = ph_expectations p" "ph_expectations p \<noteq> []"
    by (simp_all add: final_expectations_def)
  then have "\<exists>s \<in> set (tn_scenarios plan'). sc_requirement s = dr_id d \<and> sc_kind s = Positive
      \<and> ac_expectations (sc_case s) = ph_expectations p"
    using add by (auto simp: add_scenario_def Let_def mapE_eq_Inr validated_Inr)
  then show ?thesis
    using sub by (fastforce simp: tested_positively_def dr_id_def exps)
qed

lemma author_requirement_adds:
  assumes "author_requirement rs r plan = Inr plan'"
  shows "adds rs (rq_id r) plan plan' \<and> (rq_outcomes r \<noteq> [] \<longrightarrow> tested_positively r plan')"
proof -
  obtain d where d: "drive_of rs r = Inr d" and steps: "foldE (\<lambda>f. f) [opening_gaps d, positive rs d, negatives rs d,
      timing_scenarios rs d, release_scenarios rs d, foldE (boundary_scenarios rs d) (dr_driven d),
      failure_scenarios rs d, recovery_scenario rs d] plan = Inr plan'"
    using assms by (auto simp: author_requirement_def bindE_eq_Inr)
  have g: "good_drive rs d" "dr_id d = rq_id r" "dr_requirement d = r" using drive_good [OF d] by (simp_all add: dr_id_def)
  note add = steps_add [OF g(1), unfolded g(2)]
  from steps obtain p1 p2 where p: "opening_gaps d plan = Inr p1" "positive rs d p1 = Inr p2" and rest:
    "foldE (\<lambda>f. f) [negatives rs d, timing_scenarios rs d, release_scenarios rs d,
      foldE (boundary_scenarios rs d) (dr_driven d), failure_scenarios rs d, recovery_scenario rs d] p2 = Inr plan'"
    by (auto simp: bindE_eq_Inr)
  have later: "adds rs (rq_id r) p2 plan'"
    by (rule adds_fold [OF rest]) (auto intro: add adds_fold)
  then show ?thesis
    using add(1) [OF p(1)] add(2) [OF p(2)] positive_tests [OF p(2)] adds_trans adds_keeps [OF later] by (metis g(3))
qed

text \<open>C3: A generated test plan covers its requirement set: every requirement has a positive scenario
  whose case expects each stated outcome; every scenario belongs to a requirement of the set; and
  every case of the plan is one the acceptance schema accepts, in which each phase without faults
  whose inputs make all conditions of an invariant true expects something of every output that
  invariant speaks of.\<close>

theorem plan_covers_requirements:
  assumes "generate_test_plan digest rs = Inr plan" and "requirement_set_ok rs"
  shows "(\<forall>r \<in> set (rs_requirements rs). tested_positively r plan)
    \<and> (\<forall>s \<in> set (tn_scenarios plan). sc_requirement s \<in> set (requirement_ids rs) \<and> case_ok (sc_case s)
        \<and> (\<forall>p \<in> set (ac_timeline (sc_case s)). asserts_invariants rs p))"
proof -
  have fold: "(\<forall>r \<in> set (rs @ pre). tested_positively r plan)
      \<and> (\<forall>s \<in> set (tn_scenarios plan). sc_requirement s \<in> rq_id ` set (rs @ pre) \<and> scenario_good rset s)"
    if "foldE (author_requirement rset) rs plan0 = Inr plan" and "\<forall>r \<in> set rs. rq_outcomes r \<noteq> []"
      and "\<forall>r \<in> set pre. tested_positively r plan0"
      and "\<forall>s \<in> set (tn_scenarios plan0). sc_requirement s \<in> rq_id ` set pre \<and> scenario_good rset s" for rset rs pre plan0
    using that
  proof (induction rs arbitrary: plan0 pre)
    case (Cons r rs)
    obtain mid where m: "author_requirement rset r plan0 = Inr mid" "foldE (author_requirement rset) rs mid = Inr plan"
      using Cons.prems(1) by (auto simp: bindE_eq_Inr)
    note a = author_requirement_adds [OF m(1)]
    have "\<forall>q \<in> set (r # pre). tested_positively q mid" using a Cons.prems(2,3) adds_keeps by auto
    moreover have "\<forall>s \<in> set (tn_scenarios mid). sc_requirement s \<in> rq_id ` set (r # pre) \<and> scenario_good rset s"
      using a Cons.prems(4) by (auto simp: adds_def)
    ultimately show ?case using Cons.IH [OF m(2), of "r # pre"] Cons.prems(2) by auto
  qed simp
  have "\<forall>r \<in> set (rs_requirements rs). rq_outcomes r \<noteq> []" using set_checked(4) [OF assms(2)] by (simp add: requirement_ok_def)
  from fold [OF assms(1) [unfolded generate_test_plan_def] this, of "[]"] show ?thesis
    by (simp add: scenario_good_def phase_good_def list_all_iff requirement_ids_def)
qed

section \<open>A set that is planned\<close>

definition switch_point :: point_declaration where
  "switch_point = \<lparr>pd_name = ''switch'', pd_type = BOOLEAN, pd_direction = Incoming, pd_minimum = None,
     pd_maximum = None, pd_nominal = Flag False, pd_resolution = None\<rparr>"

definition switched :: condition where
  "switched = \<lparr>cd_point = ''switch'', cd_operator = EQ, cd_value = Flag True, cd_upper = None, cd_deadband = Fin 0\<rparr>"

definition switch_requirement :: requirement where
  "switch_requirement = \<lparr>rq_id = ''R-01'', rq_assumes = [], rq_setup = [], rq_conditions = [switched],
     rq_timing = \<lparr>tm_delay = Fin 0, tm_release = Fin 0, tm_from_context = False, tm_tolerance_scans = 0\<rparr>,
     rq_outcomes = [fan_is True], rq_otherwise = [fan_is False], rq_before = None, rq_recovery = None,
     rq_failures = [], rq_step_seconds = None\<rparr>"

definition switch_set :: requirement_set where
  "switch_set = \<lparr>rs_sequence_id = ''lamp'', rs_step_seconds = Fin 1, rs_points = [switch_point, fan_point],
     rs_requirements = [switch_requirement],
     rs_invariants = [\<lparr>iv_id = ''I-01'', iv_when = [switched], iv_then = [fan_is True]\<rparr>]\<rparr>"

lemmas switch_defs = switch_set_def switch_requirement_def switched_def switch_point_def

lemma no_steps: "steps_of (Fin 0) (Fin 1) = Inr 0"
proof -
  define e :: rat where "e = 4835703278458517 / 4835703278458516698824704"
  have e: "lit (1 / 10 ^ 9) = Fin e" "0 < e" "e < 1 / 2" by (simp_all add: lit_def e_def)
  have half: "rnd_rat (1 / 2) = 1 / 2" using rnd_rat_exact [of 1 "- 1"] by (simp add: power_int_minus)
  have "0 \<le> rnd_rat e" "rnd_rat e \<le> 1 / 2"
    using rnd_rat_nonneg [of e] rnd_rat_mono [of e "1 / 2"] e half by simp_all
  then have "\<exists>q. (rnd (- e) = NegZero \<or> rnd (- e) = Fin q) \<and> - (1 / 2) \<le> q \<and> q \<le> 0"
    by (intro exI [of _ "- rnd_rat e"]) (auto simp: rnd_def Let_def rnd_rat_minus)
  then show ?thesis
    using e by (auto simp: steps_of_def fdiv_def fsub_def fceil_def zero_of_sign_def ceiling_unique Let_def ceiling_less_iff ceiling_le_iff max_def)
qed

lemma switch_closure: "assumption_closure switch_set ''R-01'' = Inr []"
  by (simp add: assumption_closure_def visit_assumed.simps requirement_of_def switch_defs)

definition switch_drive :: drive where
  "switch_drive = \<lparr>dr_requirement = switch_requirement, dr_step = Fin 1, dr_driven = [(switched, switch_point)],
     dr_satisfied = [(''switch'', Flag True)], dr_violated = [(''switch'', Flag False)], dr_setup = [],
     dr_delay = 0, dr_release = 0\<rparr>"

lemma switch_drives: "drive_of switch_set switch_requirement = Inr switch_drive"
  using switch_closure no_steps
  by (simp add: drive_of_def step_seconds_of_def inherited_conditions_def driven_conditions_def with_points_def point_of_def
      kept_context_def effective_setup_def nominal_inputs_def declared_inputs_def dict_of_def dict_update_def values_with_def
      satisfying_value_def violating_value_def switch_drive_def switch_defs fan_point_def Let_def)

lemmas scenario_defs = scenario_def add_scenario_def scenario_name_def final_expectations_def validated_def phase_defs
  make_phase_def with_invariants_def established_def condition_holds_def add_outcome_def expectation_def

lemmas schema_defs = phase_ok_def case_ok_def expectation_ok_def validate_range_def fault_ids_are_unique_def
  validate_timeline_mode_def repeat_ok_def step_ok_def float_or_bool_def okE_def

lemma switch_plan: "\<exists>plan. generate_test_plan digest switch_set = Inr plan"
proof -
  have "\<exists>b. positive switch_set switch_drive a = Inr b" "\<exists>b. negatives switch_set switch_drive a = Inr b"
    "\<exists>b. recovery_scenario switch_set switch_drive a = Inr b" for a
    by (simp_all add: positive_def negatives_def negative_def recovery_scenario_def long_repeat_def dr_settle_def dr_lag_def dr_offset_def
      dr_recovery_def dr_before_def dr_id_def switch_drive_def scenario_defs schema_defs switch_defs fan_is_def ident_defs Let_def)
  moreover have "\<exists>b. opening_gaps switch_drive a = Inr b" "timing_scenarios switch_set switch_drive a = Inr a"
    "release_scenarios switch_set switch_drive a = Inr a"
    "foldE (boundary_scenarios switch_set switch_drive) (dr_driven switch_drive) a = Inr a"
    "\<exists>b. failure_scenarios switch_set switch_drive a = Inr b" for a
    by (simp_all add: opening_gaps_def timing_gap_def off_scan_def timing_scenarios_def release_scenarios_def boundary_scenarios_def
      boundary_values_def deadband_values_def failure_scenarios_def dr_offset_def switch_drive_def switch_defs Let_def)
  ultimately have "\<exists>b. author_requirement switch_set switch_requirement a = Inr b" for a
    by (simp add: author_requirement_def switch_drives bindE_eq_Inr) metis
  moreover have "rs_requirements switch_set = [switch_requirement]" by (simp add: switch_set_def)
  ultimately show ?thesis by (simp add: generate_test_plan_def bindE_eq_Inr)
qed

lemma switch_set_ok: "requirement_set_ok switch_set"
proof -
  have points: "point_ok switch_point" "condition_ok switched"
    by (simp_all add: point_ok_def range_is_coherent_def condition_ok_def condition_matches_value_def switch_defs ident_defs okE_def)
  then have "requirement_ok switch_requirement"
    by (simp add: requirement_ok_def switch_requirement_def requirement_id_ok_def fan_outcome_ok timing_ok_def has_a_trigger_def
        ascii_digit_def okE_def)
  moreover have "references_resolve switch_set = Inr ()"
    using switch_closure
    by (simp add: references_resolve_def requirement_ids_def declared_inputs_def declared_outputs_def check_requirement_def
        check_conditions_def check_outcomes_def switch_defs fan_point_def fan_is_def okE_def)
  moreover have "list_all invariant_ok (rs_invariants switch_set)"
    using points by (simp add: switch_set_def invariant_ok_def requirement_id_ok_def fan_outcome_ok ascii_digit_def)
  ultimately show ?thesis
    using points cooling_points_ok by (simp add: requirement_set_ok_def step_ok_def) (simp add: switch_set_def)
qed

lemma plan_covers_requirements_witness:
  "\<exists>plan. generate_test_plan (\<lambda>_. ''digest'') switch_set = Inr plan \<and> tested_positively switch_requirement plan
     \<and> list_all (\<lambda>s. sc_requirement s = ''R-01'' \<and> case_ok (sc_case s)) (tn_scenarios plan)"
proof -
  obtain plan where plan: "generate_test_plan (\<lambda>_. ''digest'') switch_set = Inr plan" using switch_plan by blast
  from plan_covers_requirements [OF this switch_set_ok] show ?thesis
    using plan by (auto simp: list_all_iff requirement_ids_def switch_set_def switch_requirement_def)
qed

lemma no_violation_iff_invariants_hold_witness:
  "invariant_violations switch_set [(''switch'', Flag True), (''fan'', Flag True)] = []
    \<and> invariant_violations switch_set [(''switch'', Flag True), (''fan'', Flag False)] \<noteq> []"
  by (subst (1 2) no_violation_iff_invariants_hold)
    (simp_all add: switch_set_def switched_def fan_is_def condition_holds_def outcome_holds_def)

end
