(* ===== verification/Spec2Isabelle.thy ===== *)
theory Spec2Isabelle
  imports Acceptance Safety Actuator Security JobExec ProjectReview ShadowLowering ShadowResample AuthorFacts
begin

text \<open>
  A model of BACTalk (\<open>src/src/bactalk\<close>), a workbench that turns a contractor's job into a
  typed control graph, proves it against acceptance tests in a deterministic interpreter and
  only then lets it be exported.

  The parts of the program and the theories that model them:

  \<^item> \<open>PyFloat\<close>, \<open>PyValue\<close>: the Python values the code computes with.  A float is an exact
    rational with the two infinities, the two zeros and NaN, and every operation rounds to the
    nearest double; a value is a Boolean, an integer, a float, a string or a container.
    \<open>Prelude\<close> holds the result type (an exception or a value), the insertion-ordered
    dictionary and \<open>soundE\<close>, which separates type faults (missing key, wrong type, bad
    index) from domain errors.
  \<^item> \<open>Kinds\<close>, \<open>BlockConfig\<close>: \<open>domain.py\<close>'s \<open>BlockKind\<close>, \<open>BLOCK_SLOTS\<close> and
    \<open>Block.validate_config\<close>.  \<open>Topo\<close>, \<open>Graph\<close>: \<open>ControlGraph\<close> and its two topological
    sorts; the locale \<open>indegree_graph\<close> states what the sort needs of the adjacency and degree
    dictionaries, and \<open>Graph\<close> interprets it on the dictionaries the source builds.
  \<^item> \<open>Kernel\<close>, \<open>KernelLogic\<close>, \<open>KernelEdge\<close>, \<open>KernelTime\<close>, \<open>KernelControl\<close>,
    \<open>KernelPlant\<close>, \<open>Psychro\<close>: one definition per branch of
    \<open>GraphInterpreter._evaluate_block\<close> in \<open>simulator.py\<close>, each with its state as a record.
    The locales of \<open>Kernel\<close> state a kernel's contract (typed inputs give typed outputs and
    keep the state's invariant); every kernel interprets one.
  \<^item> \<open>Interp\<close>, \<open>Soundness\<close>: \<open>GraphInterpreter.evaluate\<close>, its wires, its deferred updates
    of feedback blocks, and the proof that a validated graph never raises a type fault.
  \<^item> \<open>Specs\<close>, \<open>Faults\<close>, \<open>Harness\<close>, \<open>Qualification\<close>: expectations, the fault injector,
    the acceptance run with its coverage reports, and \<open>qualification.py\<close>'s matrix.
  \<^item> \<open>Jobs\<close>, \<open>Validation\<close>, \<open>Acceptance\<close>: the job with its points, actuators and
    deliverables, \<open>validation.py\<close>'s contract between job and graph, and the proof that the
    contract makes the whole acceptance suite free of type faults.
  \<^item> \<open>PyTime\<close>, \<open>Safety\<close>: \<open>safety.py\<close>'s command policy gateway over aware date-times; the
    keyed hash is an argument.  \<open>FloatFacts\<close>, \<open>Actuator\<close>: the virtual actuator of
    \<open>integrations/virtual_actuator.py\<close>; the C library's power is an argument.
  \<^item> \<open>Security\<close>: \<open>security.py\<close>'s roles, token file, authentication and hash-chained audit
    log, and the identity middleware of \<open>api.py\<close>; SHA-256 and the digest of an event are
    arguments.

  \<^item> \<open>Vav\<close>: the built-in acceptance suite of VAV graphs (\<open>VavPlantSimulator\<close>) and
    \<open>run_acceptance_suite\<close> itself.  \<open>Samples\<close>: a small job and graph the examples share.
    \<open>Agent\<close>: the plan, test and revise loop of \<open>agent.py\<close>; the planner is an argument.
  \<^item> \<open>Artifacts\<close>: \<open>artifact_hash\<close> of \<open>service.py\<close>; paths are lists of names, a store maps
    paths to bytes, SHA-256 is an argument.  \<open>Runs\<close>: \<open>RunRecord\<close>, \<open>repository.py\<close>,
    \<open>protocol/approvals.py\<close> and the reviews of \<open>WorkbenchService\<close>.  \<open>Materialize\<close>:
    \<open>create_run\<close> and \<open>_materialize_run\<close>; what the compiler, the exporters and the semantic
    validator produce is one argument.  \<open>Lifecycle\<close>: the qualification tiers, before and
    after their engine, and the histories of a workbench (\<open>wb_step\<close>, \<open>history\<close>) in which
    requests interleave and files change.  \<open>Review\<close>: what those histories guarantee, the
    locale \<open>record_store\<close> of a keyed repository, interpreted on runs and on requirement
    approvals, and the review machine (\<open>review_step\<close>) that serial histories refine.

  \<^item> \<open>JobQueue\<close>, \<open>JobLife\<close>, \<open>JobExec\<close>: \<open>qualification_jobs.py\<close>: the durable queue, where
    every operation runs under the repository's lock and is one step; what its histories keep;
    and the workers, whose start and finish compose the queue with the run's qualification.

  \<^item> \<open>Projects\<close>: \<open>projects.py\<close>'s whole-building contract (signals and aggregations between
    equipment, project acceptance phases) and the evaluation order, a second use of the locale
    \<open>indegree_graph\<close>.  \<open>Building\<close>, \<open>BuildingScan\<close>: \<open>project_simulator.py\<close>: one interpreter per
    equipment, their wiring within a scan, and the whole-building suite.  \<open>ProjectBuild\<close>,
    \<open>ProjectReview\<close>: \<open>ProjectBuildService\<close> on top of the workbench, and what the histories of
    project builds, approvals and exports guarantee.

  \<^item> \<open>ShadowKernels\<close>, \<open>ShadowPorts\<close>: \<open>niagara/shadow/kernels.py\<close>, the kernels a
    compiled program runs on, each a record with its step, and their construction from a
    parameter table.  \<open>ShadowModules\<close>: the component tables of \<open>niagara/module.py\<close> and the
    kernel bindings of \<open>niagara/shadow/blocks.py\<close>.  \<open>ShadowAgrees\<close>: the locale
    \<open>agreeing_kernels\<close> (two step functions related by a simulation give equal outputs over
    every run), interpreted on each pair of interpreter and port kernel.  \<open>ShadowLowering\<close>:
    \<open>niagara/lowering.py\<close>'s choice of the module lane, the properties a block is emitted with,
    and the agreement of the compiled kernel with the interpreter.  \<open>ShadowResample\<close>:
    recomputing an instant leaves no trace.

  \<^item> \<open>Requirements\<close>: \<open>protocol/requirements.py\<close>'s requirement set with its validators,
    the assumption closure and what a requirement inherits.  \<open>Oracles\<close>:
    \<open>protocol/invariants.py\<close>; the random generator is a record of its three operations.
    \<open>TestAuthor\<close>: \<open>protocol/test_author.py\<close>, one definition per scenario the author adds,
    composed in its order; \<open>AuthorValues\<close>, \<open>OracleFacts\<close>, \<open>Assumptions\<close>,
    \<open>AuthorFacts\<close>: the values it chooses, its oracles, the closure, and the whole plan.

  What the lemmas show: each kernel's behaviour over single scans and whole runs (edges,
  delays, holds, limits, anti-windup, staging); soundness of the interpreter and of the
  acceptance run; exactness of the graph validator and correctness of the evaluation order;
  the meaning of a complete qualification matrix; what an
  allowed command, an admitted request and a verified audit log guarantee; that the agent cannot
  grade its own work, a new run verifies where it was moved to, an exported run is the one that
  was tested and approved, what a qualification that overlaps a review destroys, and what the job queue promises about its
  jobs and their runs; that an admitted building is scheduled, each of its inputs has one
  driver, its signals arrive within the scan and its suite is free of type faults, and an
  exported project is one whose suite passed; that the compiled module kernels compute what the
  interpreter computes; that a generated test plan covers its requirement set with cases the
  harness accepts, whose values are on the side of the condition they claim, and where the two
  oracles agree and where they do not.

  Bounds.  No definition uses fuel: loops are recursive over the data.  The availability
  machine iterates at most five times, as the source does, and five passes are proved enough.
  Scans and phases repeat the number of times the case asks for.

  Not modelled.  Declared length limits of texts and lists; rendered report texts (kept as the
  values they render); the scoring of qualification engines; the engine, loader and stock blocks of
  the shadow runtime; the adequacy runs of the protocol; the totality of the test author (it
  raises on windows longer than a phase may repeat); Niagara code generation and the importers
  of external formats (text and XML for tools outside the repository); HTTP, process and file
  input and output.
\<close>

section \<open>The evaluation order\<close>

text \<open>C29: an accepted graph has an evaluation order.  It lists every block exactly once, and
  whatever a block that is not a feedback kind reads through a link has been evaluated
  before it.\<close>

theorem evaluation_order_correct:
  assumes "graph_ok g"
  shows "\<exists>bs. topological_order g = Inr bs \<and> distinct (map bid bs) \<and> set bs = set (blocks g)
    \<and> (\<forall>us b vs. bs = us @ b # vs \<longrightarrow> \<not> is_feedback_kind (bkind b) \<longrightarrow>
         (\<forall>l \<in> set (links g). target l = bid b \<longrightarrow> source l \<in> set (map bid us)))"
proof -
  obtain bs where bs: "topological_order g = Inr bs"
    using topological_order_sort [OF graph_okD(1) [OF assms]] by blast
  show ?thesis using order_props [OF assms bs] bs by blast
qed

lemma evaluation_order_correct_witness:
  "\<exists>bs. topological_order sample_graph = Inr bs \<and> set bs = set (blocks sample_graph)"
  using evaluation_order_correct [OF sample_graph_ok] by blast

section \<open>What the validator leaves unchecked\<close>

definition loose_pi_loop :: block where
  "loose_pi_loop = \<lparr>bid = ''loop'', bkind = PI_LOOP, blabel = ''loop'', bconfig = [(''disabled_output'', PNone)],
     pos_x = 0, pos_y = 0\<rparr>"

lemma loose_disabled_output:
  "validate_config loose_pi_loop = Inr ()"
  "eval_pi_loop (bconfig loose_pi_loop) ck a s = Inl (TypeError ''float() argument must be a string or a real number'')"
  by (simp_all add: loose_pi_loop_def validate_config_def check_override_def guarded_def check_pi_loop_def
      need_def okE_def cfg_get_def cfg_float_def eval_pi_loop_def config_opt_def raise_if_def fle_def lit_0_def)

section \<open>The interpreter\<close>

text \<open>C1: the interpreter is type sound.  On a validated graph, fed samples in which every input
  block reads a value of its type, a run of any length never fails with a missing key, a
  wrong type or a bad index; whenever it returns, each scan gave every output slot of every
  block a value of the slot's declared type and left every block's state in its invariant.
  (The condition \<open>configs_ok\<close> adds to the validator what it leaves unchecked: the
  \<open>disabled_output\<close> of a PI loop is a number.)\<close>

theorem interpreter_type_sound:
  assumes "graph_ok g" and "configs_ok g" and "\<forall>(ins, step) \<in> set samples. inputs_typed g ins"
  shows "soundE (\<lambda>(vs, ip). list_all (vals_ok (blocks g)) vs \<and> states_ok (in_state ip))
    (evaluate_run g interp_init samples)"
  by (rule evaluate_run_sound) (use assms in \<open>auto simp: interp_init_def states_ok_def\<close>)

lemma interpreter_type_sound_witness:
  "soundE (\<lambda>(vs, ip). list_all (vals_ok (blocks sample_graph)) vs \<and> states_ok (in_state ip))
     (evaluate_run sample_graph interp_init [([(''cmd'', PBool True)], Fin 1), ([], Fin 1)])"
proof -
  have "inputs_typed sample_graph [(''cmd'', PBool True)]" "inputs_typed sample_graph []"
    by (simp_all add: inputs_typed_def sample_graph_def eval_input_def cfg_get_def)
  then show ?thesis
    by (intro interpreter_type_sound sample_graph_ok sample_configs_ok) simp
qed

section \<open>The acceptance run of a contracted job\<close>

text \<open>A graph accepted under its job's contract reads and writes authorized points only: each
  boundary block has the name, the data type and the direction of a job point, an input
  carries the default of its point, every required point appears in the graph, and when the
  job brings its own tests, every output of the graph is checked by one of their
  expectations.\<close>

theorem contract_binds_boundary:
  assumes con: "validate_job_graph_contract job g = Inr ()"
  shows "(\<forall>b \<in> set (blocks g). is_boundary b \<longrightarrow>
        (\<exists>p \<in> set (jb_points job). pt_name p = bid b \<and> boundary_type b = Inr (pt_data_type p)
           \<and> (pt_role p \<in> {SENSOR, SETPOINT} \<longrightarrow> is_input_kind (bkind b))
           \<and> (pt_role p \<in> {COMMAND, ALARM} \<longrightarrow> \<not> is_input_kind (bkind b))
           \<and> (is_input_kind (bkind b) \<longrightarrow> validate_default b (pt_default p) = Inr ())))
    \<and> (\<forall>p \<in> set (jb_points job). pt_required p \<longrightarrow> (\<exists>b \<in> set (blocks g). is_boundary b \<and> bid b = pt_name p))
    \<and> (jb_acceptance_tests job \<noteq> [] \<longrightarrow> (\<forall>b \<in> set (blocks g). is_output_kind (bkind b) \<longrightarrow>
        (\<exists>c \<in> set (jb_acceptance_tests job). \<exists>e \<in> set (case_expectations c). ex_target e = bid b)))"
proof (intro conjI ballI impI)
  fix b assume b: "b \<in> set (blocks g)" "is_boundary b"
  then have "check_boundary (point_table (jb_points job)) b = Inr ()" using contract_parts(1) [OF con] by blast
  then show "\<exists>p \<in> set (jb_points job). pt_name p = bid b \<and> boundary_type b = Inr (pt_data_type p)
      \<and> (pt_role p \<in> {SENSOR, SETPOINT} \<longrightarrow> is_input_kind (bkind b))
      \<and> (pt_role p \<in> {COMMAND, ALARM} \<longrightarrow> \<not> is_input_kind (bkind b))
      \<and> (is_input_kind (bkind b) \<longrightarrow> validate_default b (pt_default p) = Inr ())"
    by (auto simp: check_boundary_def bindE_eq_Inr raise_if_eq_Inr split: option.splits if_splits
        dest!: point_table_Some)
next
  fix b assume t: "jb_acceptance_tests job \<noteq> []" and b: "b \<in> set (blocks g)" "is_output_kind (bkind b)"
  then show "\<exists>c \<in> set (jb_acceptance_tests job). \<exists>e \<in> set (case_expectations c). ex_target e = bid b"
    using contract_parts(3) [OF con t] by (fastforce dest: validate_case_targets)
qed (use contract_parts(2) [OF con] in blast)

lemma contract_binds_boundary_witness:
  "\<exists>p \<in> set (jb_points sample_job). pt_name p = ''fan'' \<and> pt_data_type p = BOOLEAN"
proof -
  have "\<lparr>bid = ''fan'', bkind = BOOLEAN_OUTPUT, blabel = ''fan'', bconfig = [], pos_x = 0, pos_y = 0\<rparr>
      \<in> set (blocks sample_graph)" by (simp add: sample_graph_def)
  with contract_binds_boundary [OF sample_contract] show ?thesis
    by (fastforce simp: is_boundary_def is_output_kind_def boundary_type_def)
qed

text \<open>C2: acceptance testing cannot crash on a job that passed the gate and whose PI loops configure
  a number as \<open>disabled_output\<close>, if they configure one.  For a validated graph of that kind that
  satisfies its job's contract, and well-formed acceptance cases, running the whole suite (faults,
  timelines, expectations, coverage and the qualification matrix) never fails with a missing key,
  a wrong type or a bad index.  The condition on PI loops, \<open>configs_ok\<close>, is needed: the validator
  accepts any value there, and \<open>loose_disabled_output\<close> shows a loop it accepts whose every
  evaluation raises a \<open>TypeError\<close>.\<close>

theorem acceptance_suite_sound:
  assumes "graph_ok g" and "configs_ok g" and "validate_job_graph_contract job g = Inr ()"
    and "list_all case_ok (jb_acceptance_tests job)"
  shows "soundE (\<lambda>_. True)
    (run_generic_acceptance_suite g (jb_acceptance_tests job) (jb_qualification_profile job))"
  by (rule suite_sound) (use assms in simp_all)

lemma acceptance_suite_sound_witness:
  "soundE (\<lambda>_. True)
     (run_generic_acceptance_suite sample_graph (jb_acceptance_tests sample_job) None)"
  using acceptance_suite_sound [OF sample_graph_ok sample_configs_ok sample_contract] sample_case_ok
  by (simp add: sample_job_def)

end
